(* ===== verification/Prelude.thy ===== *)
theory Prelude
  imports Complex_Main "HOL-Library.Multiset" "HOL-Library.AList"
begin

text \<open>
  What every component of the dashboard model shares: JavaScript numbers and the part of
  \<^verbatim>\<open>Math\<close> and \<^verbatim>\<open>Number\<close> the frontend calls, the stable \<^verbatim>\<open>Array.prototype.sort\<close> with its
  comparator contract (locale \<open>comparator\<close>), insertion-ordered \<^verbatim>\<open>Map\<close>s as association
  lists, and small string functions.

  A JavaScript number is \<open>Fin r\<close> for a finite value, one of the two infinities, or NaN.
  Arithmetic is that of IEEE 754 on the special values; on finite values it is exact
  (rounding, overflow of a finite result and the sign of zero are not modelled).
\<close>

named_theorems num_simps \<open>evaluation of the JavaScript number operations\<close>

section \<open>JavaScript numbers\<close>

datatype jsnum = Fin real | PosInf | NegInf | NaN

text \<open>An infinity with the sign of a non-zero real; NaN for zero (as in \<^verbatim>\<open>0 * Infinity\<close>).\<close>

definition inf_of_sign :: "real \<Rightarrow> jsnum" where
  "inf_of_sign s = (if 0 < s then PosInf else if s < 0 then NegInf else NaN)"

fun num_sgn :: "jsnum \<Rightarrow> real" where
  "num_sgn (Fin r) = sgn r"
| "num_sgn PosInf = 1"
| "num_sgn NegInf = -1"
| "num_sgn NaN = 0"

instantiation jsnum :: "{zero, one, plus, uminus, minus, times, inverse, abs, ord}"
begin

definition zero_jsnum :: jsnum where
  "0 = Fin 0"

definition one_jsnum :: jsnum where
  "1 = Fin 1"

fun plus_jsnum :: "jsnum \<Rightarrow> jsnum \<Rightarrow> jsnum" where
  "Fin a + Fin b = Fin (a + b)"
| "NaN + _ = NaN"
| "_ + NaN = NaN"
| "PosInf + NegInf = NaN"
| "NegInf + PosInf = NaN"
| "PosInf + _ = PosInf"
| "_ + PosInf = PosInf"
| "NegInf + _ = NegInf"
| "_ + NegInf = NegInf"

fun uminus_jsnum :: "jsnum \<Rightarrow> jsnum" where
  "- Fin a = Fin (- a)"
| "- PosInf = NegInf"
| "- NegInf = PosInf"
| "- NaN = NaN"

definition minus_jsnum :: "jsnum \<Rightarrow> jsnum \<Rightarrow> jsnum" where
  "a - b = a + (- b)" for a b :: jsnum

fun times_jsnum :: "jsnum \<Rightarrow> jsnum \<Rightarrow> jsnum" where
  "Fin a * Fin b = Fin (a * b)"
| "NaN * _ = NaN"
| "_ * NaN = NaN"
| "a * b = inf_of_sign (num_sgn a * num_sgn b)"

fun divide_jsnum :: "jsnum \<Rightarrow> jsnum \<Rightarrow> jsnum" where
  "divide (Fin a) (Fin b) = (if b = 0 then inf_of_sign a else Fin (a / b))"
| "divide NaN _ = NaN"
| "divide _ NaN = NaN"
| "divide (Fin a) _ = Fin 0"
| "divide a (Fin b) = (if b = 0 then a else inf_of_sign (num_sgn a * sgn b))"
| "divide _ _ = NaN"

definition inverse_jsnum :: "jsnum \<Rightarrow> jsnum" where
  "inverse a = divide (Fin 1) a" for a :: jsnum

fun abs_jsnum :: "jsnum \<Rightarrow> jsnum" where
  "\<bar>Fin a\<bar> = Fin \<bar>a\<bar>"
| "\<bar>NaN\<bar> = NaN"
| "\<bar>_\<bar> = PosInf"

fun less_jsnum :: "jsnum \<Rightarrow> jsnum \<Rightarrow> bool" where
  "Fin a < Fin b \<longleftrightarrow> a < b"
| "NegInf < Fin b \<longleftrightarrow> True"
| "NegInf < PosInf \<longleftrightarrow> True"
| "Fin a < PosInf \<longleftrightarrow> True"
| "(_ :: jsnum) < _ \<longleftrightarrow> False"

definition less_eq_jsnum :: "jsnum \<Rightarrow> jsnum \<Rightarrow> bool" where
  "a \<le> b \<longleftrightarrow> a < b \<or> (a = b \<and> a \<noteq> NaN)" for a b :: jsnum

instance ..

end

lemma NaN_plus [simp]: "NaN + a = NaN" "a + NaN = NaN"
  by (cases a; simp)+

lemma NaN_times [simp]: "NaN * a = NaN" "a * NaN = NaN"
  by (cases a; simp)+

lemma NaN_divide [simp]: "NaN / a = NaN" "a / NaN = NaN"
  by (cases a; simp)+

lemma NaN_less [simp]: "\<not> NaN < a" "\<not> a < NaN"
  by (cases a; simp)+

lemma NaN_le [simp]: "\<not> NaN \<le> a" "\<not> a \<le> NaN"
  by (auto simp: less_eq_jsnum_def)

lemma Fin_minus [simp]: "Fin a - Fin b = Fin (a - b)"
  by (simp add: minus_jsnum_def)

lemma NaN_minus [simp]: "NaN - a = NaN" "a - NaN = NaN"
  by (simp_all add: minus_jsnum_def)

lemma Fin_le [simp]: "Fin a \<le> Fin b \<longleftrightarrow> a \<le> b"
  by (auto simp: less_eq_jsnum_def)

lemma Inf_le [simp]:
  "Fin a \<le> PosInf" "\<not> PosInf \<le> Fin a" "NegInf \<le> Fin a" "\<not> Fin a \<le> NegInf"
  "NegInf \<le> PosInf" "\<not> PosInf \<le> NegInf" "PosInf \<le> PosInf" "NegInf \<le> NegInf"
  by (auto simp: less_eq_jsnum_def)

text \<open>Addition of exact numbers is associative and commutative, infinities and NaN included.\<close>

lemma plus_jsnum_assoc: "(x + y) + z = x + (y + z :: jsnum)"
  by (cases x; cases y; cases z; simp)

lemma plus_jsnum_comm: "x + y = y + (x :: jsnum)"
  by (cases x; cases y; simp)

lemma zero_plus_jsnum: "0 + x = (x :: jsnum)"
  unfolding zero_jsnum_def by (cases x; simp)

instance jsnum :: comm_monoid_add
  by standard (rule plus_jsnum_assoc plus_jsnum_comm zero_plus_jsnum)+

instance jsnum :: numeral ..

lemma numeral_jsnum: "(numeral n :: jsnum) = Fin (numeral n)"
  by (induction n) (simp_all only: numeral.simps one_jsnum_def plus_jsnum.simps)

lemmas num_literals [simp, num_simps] = numeral_jsnum zero_jsnum_def one_jsnum_def


text \<open>\<^verbatim>\<open>===\<close> on numbers: NaN equals nothing.\<close>

definition num_eq :: "jsnum \<Rightarrow> jsnum \<Rightarrow> bool" where
  "num_eq a b \<longleftrightarrow> a = b \<and> a \<noteq> NaN"

definition isFinite :: "jsnum \<Rightarrow> bool" where
  "isFinite a \<longleftrightarrow> (case a of Fin _ \<Rightarrow> True | _ \<Rightarrow> False)"

lemma isFinite_simps [simp]:
  "isFinite (Fin r)" "\<not> isFinite NaN" "\<not> isFinite PosInf" "\<not> isFinite NegInf"
  by (simp_all add: isFinite_def)

lemma isFinite_iff: "isFinite a \<longleftrightarrow> (\<exists>r. a = Fin r)"
  by (cases a) simp_all

lemma isFiniteE [elim]:
  assumes "isFinite a" obtains r where "a = Fin r"
  using assms by (auto simp: isFinite_iff)

text \<open>\<^verbatim>\<open>Number.isInteger\<close>.\<close>

definition isInteger :: "jsnum \<Rightarrow> bool" where
  "isInteger a \<longleftrightarrow> (case a of Fin r \<Rightarrow> r = of_int \<lfloor>r\<rfloor> | _ \<Rightarrow> False)"

text \<open>\<^verbatim>\<open>Math.min\<close> and \<^verbatim>\<open>Math.max\<close> return NaN as soon as one argument is NaN.\<close>

definition js_min :: "jsnum \<Rightarrow> jsnum \<Rightarrow> jsnum" where
  "js_min a b = (if a = NaN \<or> b = NaN then NaN else if b < a then b else a)"

definition js_max :: "jsnum \<Rightarrow> jsnum \<Rightarrow> jsnum" where
  "js_max a b = (if a = NaN \<or> b = NaN then NaN else if a < b then b else a)"

text \<open>The variadic forms, on a spread array: with no argument, the identity of the operation.\<close>

definition js_min_list :: "jsnum list \<Rightarrow> jsnum" where
  "js_min_list xs = fold js_min xs PosInf"

definition js_max_list :: "jsnum list \<Rightarrow> jsnum" where
  "js_max_list xs = fold js_max xs NegInf"

text \<open>Rounding functions: finite values round exactly, the others are returned.\<close>

definition num_map :: "(real \<Rightarrow> real) \<Rightarrow> jsnum \<Rightarrow> jsnum" where
  "num_map f a = (case a of Fin r \<Rightarrow> Fin (f r) | _ \<Rightarrow> a)"

definition js_floor :: "jsnum \<Rightarrow> jsnum" where
  "js_floor = num_map (\<lambda>r. of_int \<lfloor>r\<rfloor>)"

definition js_ceil :: "jsnum \<Rightarrow> jsnum" where
  "js_ceil = num_map (\<lambda>r. of_int \<lceil>r\<rceil>)"

text \<open>\<^verbatim>\<open>Math.round\<close> rounds halves towards plus infinity.\<close>

definition js_round :: "jsnum \<Rightarrow> jsnum" where
  "js_round = num_map (\<lambda>r. of_int \<lfloor>r + 1/2\<rfloor>)"

text \<open>The remainder \<^verbatim>\<open>%\<close> truncates: its sign is that of the dividend.\<close>

definition trunc_real :: "real \<Rightarrow> real" where
  "trunc_real r = (if 0 \<le> r then of_int \<lfloor>r\<rfloor> else of_int \<lceil>r\<rceil>)"

fun js_rem :: "jsnum \<Rightarrow> jsnum \<Rightarrow> jsnum" where
  "js_rem (Fin a) (Fin b) = (if b = 0 then NaN else Fin (a - b * trunc_real (a / b)))"
| "js_rem (Fin a) PosInf = Fin a"
| "js_rem (Fin a) NegInf = Fin a"
| "js_rem _ _ = NaN"

fun js_sin :: "jsnum \<Rightarrow> jsnum" where
  "js_sin (Fin a) = Fin (sin a)"
| "js_sin _ = NaN"

fun js_cos :: "jsnum \<Rightarrow> jsnum" where
  "js_cos (Fin a) = Fin (cos a)"
| "js_cos _ = NaN"

abbreviation js_pi :: jsnum where
  "js_pi \<equiv> Fin pi"

definition js_hypot :: "jsnum \<Rightarrow> jsnum \<Rightarrow> jsnum" where
  "js_hypot a b =
     (if a \<in> {PosInf, NegInf} \<or> b \<in> {PosInf, NegInf} then PosInf
      else case (a, b) of (Fin x, Fin y) \<Rightarrow> Fin (sqrt (x\<^sup>2 + y\<^sup>2)) | _ \<Rightarrow> NaN)"

lemma num_map_simps [simp]:
  "num_map f (Fin r) = Fin (f r)" "num_map f NaN = NaN"
  "num_map f PosInf = PosInf" "num_map f NegInf = NegInf"
  by (simp_all add: num_map_def)

lemma js_hypot_Fin [simp]: "js_hypot (Fin x) (Fin y) = Fin (sqrt (x\<^sup>2 + y\<^sup>2))"
  by (simp add: js_hypot_def)

lemma js_min_Fin [simp]: "js_min (Fin a) (Fin b) = Fin (min a b)"
  by (simp add: js_min_def min_def)

lemma js_max_Fin [simp]: "js_max (Fin a) (Fin b) = Fin (max a b)"
  by (simp add: js_max_def max_def)

lemma js_min_Inf [simp]: "js_min PosInf (Fin a) = Fin a" "js_min (Fin a) PosInf = Fin a"
  by (simp_all add: js_min_def)

lemma js_max_Inf [simp]: "js_max NegInf (Fin a) = Fin a" "js_max (Fin a) NegInf = Fin a"
  by (simp_all add: js_max_def)

lemma js_min_NaN [simp]: "js_min NaN a = NaN" "js_min a NaN = NaN"
  by (simp_all add: js_min_def)

lemma js_max_NaN [simp]: "js_max NaN a = NaN" "js_max a NaN = NaN"
  by (simp_all add: js_max_def)

lemma js_floor_Fin [simp]: "js_floor (Fin r) = Fin (of_int \<lfloor>r\<rfloor>)"
  by (simp add: js_floor_def)

lemma js_ceil_Fin [simp]: "js_ceil (Fin r) = Fin (of_int \<lceil>r\<rceil>)"
  by (simp add: js_ceil_def)

lemma js_round_Fin [simp]: "js_round (Fin r) = Fin (of_int \<lfloor>r + 1/2\<rfloor>)"
  by (simp add: js_round_def)

text \<open>Finite numbers are closed under everything but a division by zero.\<close>

lemma finite_arith [intro]:
  "isFinite a \<Longrightarrow> isFinite b \<Longrightarrow> isFinite (a + b)"
  "isFinite a \<Longrightarrow> isFinite b \<Longrightarrow> isFinite (a - b)"
  "isFinite a \<Longrightarrow> isFinite b \<Longrightarrow> isFinite (a * b)"
  "isFinite a \<Longrightarrow> isFinite (- a)"
  "isFinite a \<Longrightarrow> isFinite \<bar>a\<bar>"
  "isFinite a \<Longrightarrow> r \<noteq> 0 \<Longrightarrow> isFinite (a / Fin r)"
  "isFinite a \<Longrightarrow> isFinite b \<Longrightarrow> isFinite (js_min a b)"
  "isFinite a \<Longrightarrow> isFinite b \<Longrightarrow> isFinite (js_max a b)"
  by (auto simp: isFinite_iff)

lemma jsnum_le_refl: "isFinite x \<Longrightarrow> x \<le> (x :: jsnum)"
  by (auto simp: isFinite_iff)

lemma jsnum_le_trans: "x \<le> y \<Longrightarrow> y \<le> z \<Longrightarrow> x \<le> (z :: jsnum)"
  by (cases x; cases y; cases z) (auto simp: less_eq_jsnum_def)

lemma jsnum_linear: "isFinite x \<Longrightarrow> isFinite y \<Longrightarrow> \<not> x \<le> y \<Longrightarrow> y \<le> (x :: jsnum)"
  by (auto simp: isFinite_iff)

lemma finite_not_less: "isFinite a \<Longrightarrow> isFinite b \<Longrightarrow> \<not> a < b \<longleftrightarrow> b \<le> a"
  by (auto simp: isFinite_iff)

text \<open>Clamping a finite value between finite bounds: the idiom \<^verbatim>\<open>Math.max(lo, Math.min(hi, x))\<close>.\<close>

lemma clamp_bounds:
  assumes "lo \<le> hi" and "js_max (Fin lo) (js_min (Fin hi) x) = y" and "x \<noteq> NaN"
  shows "\<exists>r. y = Fin r \<and> lo \<le> r \<and> r \<le> hi"
  using assms by (cases x) (auto simp: js_min_def js_max_def split: if_splits)

text \<open>The minimum of a spread array of finite numbers.\<close>

lemma fold_js_min_Fin: "fold js_min (map Fin xs) (Fin m) = Fin (fold min xs m)"
  by (induction xs arbitrary: m) (simp_all add: min.commute)

lemma fold_js_max_Fin: "fold js_max (map Fin xs) (Fin m) = Fin (fold max xs m)"
  by (induction xs arbitrary: m) (simp_all add: max.commute)

lemma js_min_list_Fin:
  "xs \<noteq> [] \<Longrightarrow> js_min_list (map Fin xs) = Fin (Min (set xs))"
  by (cases xs) (simp_all add: js_min_list_def fold_js_min_Fin flip: Min.set_eq_fold)

lemma js_max_list_Fin:
  "xs \<noteq> [] \<Longrightarrow> js_max_list (map Fin xs) = Fin (Max (set xs))"
  by (cases xs) (simp_all add: js_max_list_def fold_js_max_Fin flip: Max.set_eq_fold)

lemma finite_numbers_as_map:
  assumes "\<forall>x \<in> set xs. isFinite (f x)"
  obtains g where "map f xs = map (Fin \<circ> g) xs" "\<forall>x \<in> set xs. f x = Fin (g x)"
proof
  let ?g = "\<lambda>x. case f x of Fin r \<Rightarrow> r | _ \<Rightarrow> 0"
  show "\<forall>x \<in> set xs. f x = Fin (?g x)"
    using assms by (auto simp: isFinite_iff)
  then show "map f xs = map (Fin \<circ> ?g) xs" by simp
qed


section \<open>Stable sorting\<close>

text \<open>
  \<^verbatim>\<open>xs.sort(cmp)\<close> is stable; \<open>before a b\<close> stands for \<^verbatim>\<open>cmp(a, b) < 0\<close>. For a comparator that is
  a strict weak order on the elements the stable result is unique, so insertion computes it;
  the language leaves the order open for any other comparator.
\<close>

fun js_insert :: "('a \<Rightarrow> 'a \<Rightarrow> bool) \<Rightarrow> 'a \<Rightarrow> 'a list \<Rightarrow> 'a list" where
  "js_insert before x [] = [x]"
| "js_insert before x (y # ys) = (if before y x then y # js_insert before x ys else x # y # ys)"

definition js_sort :: "('a \<Rightarrow> 'a \<Rightarrow> bool) \<Rightarrow> 'a list \<Rightarrow> 'a list" where
  "js_sort before xs = foldr (js_insert before) xs []"

lemma js_sort_simps [simp]:
  "js_sort before [] = []"
  "js_sort before (x # xs) = js_insert before x (js_sort before xs)"
  by (simp_all add: js_sort_def)

lemma mset_js_insert [simp]: "mset (js_insert before x ys) = add_mset x (mset ys)"
  by (induction ys) auto

lemma mset_js_sort [simp]: "mset (js_sort before xs) = mset xs"
  by (induction xs) auto

lemma set_js_sort [simp]: "set (js_sort before xs) = set xs"
  by (metis mset_js_sort set_mset_mset)

lemma set_js_insert [simp]: "set (js_insert before x ys) = insert x (set ys)"
  by (metis mset_js_insert set_mset_add_mset_insert set_mset_mset)

lemma length_js_sort [simp]: "length (js_sort before xs) = length xs"
  by (metis mset_js_sort size_mset)

lemma js_sort_Nil_iff [simp]: "js_sort before xs = [] \<longleftrightarrow> xs = []"
  by (metis length_0_conv length_js_sort)

lemma distinct_map_js_sort [simp]: "distinct (map f (js_sort before xs)) = distinct (map f xs)"
  by (metis mset_eq_imp_distinct_iff mset_js_sort mset_map)

text \<open>
  The contract of a comparator: a strict weak order on the elements that are \<open>ok\<close> (the
  numeric comparators of the program are one only where their keys are finite).
\<close>

locale comparator =
  fixes ok :: "'a \<Rightarrow> bool"
    and before :: "'a \<Rightarrow> 'a \<Rightarrow> bool"
  assumes asym: "ok x \<Longrightarrow> ok y \<Longrightarrow> before x y \<Longrightarrow> \<not> before y x"
    and neg_trans: "ok x \<Longrightarrow> ok y \<Longrightarrow> ok z \<Longrightarrow> \<not> before x y \<Longrightarrow> \<not> before y z \<Longrightarrow> \<not> before x z"
begin

lemma insert_sorted:
  assumes "\<forall>y \<in> set ys. ok y" and "ok x" and "sorted_wrt (\<lambda>a b. \<not> before b a) ys"
  shows "sorted_wrt (\<lambda>a b. \<not> before b a) (js_insert before x ys)"
  using assms
proof (induction ys)
  case Nil
  then show ?case by simp
next
  case (Cons y ys)
  show ?case
  proof (cases "before y x")
    case True
    with Cons show ?thesis by (auto dest: asym)
  next
    case False
    with Cons.prems have "\<forall>z \<in> set ys. \<not> before z x"
      by (metis list.set_intros neg_trans sorted_wrt.simps(2))
    with False Cons.prems show ?thesis by auto
  qed
qed

lemma sort_sorted:
  "\<forall>x \<in> set xs. ok x \<Longrightarrow> sorted_wrt (\<lambda>a b. \<not> before b a) (js_sort before xs)"
  by (induction xs) (simp_all add: insert_sorted)

lemma sort_hd_first:
  assumes "\<forall>x \<in> set xs. ok x" and "js_sort before xs = y # ys" and "x \<in> set xs"
  shows "\<not> before x y"
proof -
  have "sorted_wrt (\<lambda>a b. \<not> before b a) (y # ys)"
    using sort_sorted [OF assms(1)] assms(2) by simp
  moreover have "x \<in> set (y # ys)" using assms(2,3) by (metis set_js_sort)
  moreover have "ok y" using assms(1,2) by (metis list.set_intros(1) set_js_sort)
  ultimately show ?thesis by (auto dest: asym)
qed

text \<open>Stability: elements no two of which are ordered keep their order.\<close>

lemma insert_filter:
  assumes "\<forall>y \<in> set ys. P x \<and> P y \<longrightarrow> \<not> before y x"
  shows "filter P (js_insert before x ys) = filter P (x # ys)"
  using assms by (induction ys) auto

lemma sort_stable:
  assumes "\<forall>x \<in> set xs. \<forall>y \<in> set xs. P x \<and> P y \<longrightarrow> \<not> before x y"
  shows "filter P (js_sort before xs) = filter P xs"
  using assms
proof (induction xs)
  case Nil
  then show ?case by simp
next
  case (Cons x xs)
  then have "filter P (js_insert before x (js_sort before xs)) = filter P (x # js_sort before xs)"
    by (intro insert_filter) auto
  with Cons show ?case by simp
qed

end

text \<open>A comparator \<^verbatim>\<open>(a, b) => key(a) - key(b)\<close>, and the one that subtracts the other way round.\<close>

definition key_before :: "('a \<Rightarrow> jsnum) \<Rightarrow> 'a \<Rightarrow> 'a \<Rightarrow> bool" where
  "key_before key a b \<longleftrightarrow> key a - key b < 0"

definition key_after :: "('a \<Rightarrow> jsnum) \<Rightarrow> 'a \<Rightarrow> 'a \<Rightarrow> bool" where
  "key_after key a b \<longleftrightarrow> key b - key a < 0"

interpretation ascending: comparator "\<lambda>x. isFinite (key x)" "key_before key" for key
  by unfold_locales (auto simp: key_before_def isFinite_iff)

interpretation descending: comparator "\<lambda>x. isFinite (key x)" "key_after key" for key
  by unfold_locales (auto simp: key_after_def isFinite_iff)

lemma key_before_Fin: "key a = Fin x \<Longrightarrow> key b = Fin y \<Longrightarrow> key_before key a b \<longleftrightarrow> x < y"
  by (simp add: key_before_def)

lemma key_after_Fin: "key a = Fin x \<Longrightarrow> key b = Fin y \<Longrightarrow> key_after key a b \<longleftrightarrow> y < x"
  by (simp add: key_after_def)

lemma sorted_by_key_before:
  assumes "\<forall>x \<in> set xs. isFinite (key x)"
  shows "sorted_wrt (\<lambda>a b. key a \<le> key b) (js_sort (key_before key) xs)"
proof (rule sorted_wrt_mono_rel [OF _ ascending.sort_sorted [OF assms]])
  fix a b assume "a \<in> set (js_sort (key_before key) xs)" "b \<in> set (js_sort (key_before key) xs)"
    and ord: "\<not> key_before key b a"
  with assms have "isFinite (key a)" "isFinite (key b)" by simp_all
  with ord show "key a \<le> key b" by (auto simp: isFinite_iff key_before_def)
qed

lemma sorted_by_key_after:
  assumes "\<forall>x \<in> set xs. isFinite (key x)"
  shows "sorted_wrt (\<lambda>a b. key b \<le> key a) (js_sort (key_after key) xs)"
proof (rule sorted_wrt_mono_rel [OF _ descending.sort_sorted [OF assms]])
  fix a b assume "a \<in> set (js_sort (key_after key) xs)" "b \<in> set (js_sort (key_after key) xs)"
    and ord: "\<not> key_after key b a"
  with assms have "isFinite (key a)" "isFinite (key b)" by simp_all
  with ord show "key b \<le> key a" by (auto simp: isFinite_iff key_after_def)
qed


section \<open>Insertion-ordered maps\<close>

text \<open>
  A \<^verbatim>\<open>Map\<close> keeps its keys in insertion order and \<^verbatim>\<open>set\<close> on a present key replaces the value in
  place: an association list updated by \<^const>\<open>AList.update\<close>. \<open>map_from\<close> is \<^verbatim>\<open>new Map(pairs)\<close>.
\<close>

definition map_from :: "('k \<times> 'v) list \<Rightarrow> ('k \<times> 'v) list" where
  "map_from ps = fold (\<lambda>(k, v). AList.update k v) ps []"

lemma map_of_fold_update:
  "map_of (fold (\<lambda>(k, v). AList.update k v) ps m) = map_of m ++ map_of (rev ps)"
  by (induction ps arbitrary: m) (auto simp: update_conv' map_add_def fun_eq_iff split: option.splits)

lemma map_of_map_from: "map_of (map_from ps) = map_of (rev ps)"
  by (simp add: map_from_def map_of_fold_update)

text \<open>Building a map from keyed elements: a key is mapped to its last element.\<close>

lemma map_of_map_from_keyed:
  "map_of (map_from (map (\<lambda>x. (key x, x)) xs)) k = find (\<lambda>x. key x = k) (rev xs)"
proof -
  have "map_of (map (\<lambda>x. (key x, x)) ys) k = find (\<lambda>x. key x = k) ys" for ys
    by (induction ys) auto
  then show ?thesis by (simp add: map_of_map_from rev_map)
qed

lemma map_from_keyed_SomeD:
  assumes "map_of (map_from (map (\<lambda>x. (key x, x)) xs)) k = Some x"
  shows "x \<in> set xs \<and> key x = k"
  using assms by (auto simp: map_of_map_from_keyed find_Some_iff) (metis nth_mem set_rev length_rev)

lemma map_from_keyed_None_iff:
  "map_of (map_from (map (\<lambda>x. (key x, x)) xs)) k = None \<longleftrightarrow> k \<notin> key ` set xs"
  by (auto simp: map_of_map_from_keyed find_None_iff)

lemma distinct_map_from: "distinct (map fst (map_from ps))"
proof -
  have "distinct (map fst m) \<Longrightarrow> distinct (map fst (fold (\<lambda>(k, v). AList.update k v) ps m))" for m
    by (induction ps arbitrary: m) (auto simp: distinct_update)
  then show ?thesis by (simp add: map_from_def)
qed

section \<open>Strings\<close>

text \<open>
  Strings are character lists. Case conversion covers the ASCII letters; every identifier,
  state name and hash the program converts is ASCII.
\<close>

definition upper_char :: "char \<Rightarrow> char" where
  "upper_char c = (let n = of_char c :: nat in if 97 \<le> n \<and> n \<le> 122 then char_of (n - 32) else c)"

definition lower_char :: "char \<Rightarrow> char" where
  "lower_char c = (let n = of_char c :: nat in if 65 \<le> n \<and> n \<le> 90 then char_of (n + 32) else c)"

definition toUpperCase :: "string \<Rightarrow> string" where
  "toUpperCase = map upper_char"

definition toLowerCase :: "string \<Rightarrow> string" where
  "toLowerCase = map lower_char"

text \<open>\<^verbatim>\<open>s.replaceAll("_", " ")\<close>.\<close>

definition underscores_to_spaces :: "string \<Rightarrow> string" where
  "underscores_to_spaces = map (\<lambda>c. if c = CHR ''_'' then CHR '' '' else c)"

fun startsWith :: "string \<Rightarrow> string \<Rightarrow> bool" where
  "startsWith s [] = True"
| "startsWith [] (p # ps) = False"
| "startsWith (c # cs) (p # ps) = (c = p \<and> startsWith cs ps)"

fun str_includes :: "string \<Rightarrow> string \<Rightarrow> bool" where
  "str_includes [] p = (p = [])"
| "str_includes (c # cs) p = (startsWith (c # cs) p \<or> str_includes cs p)"

definition digit_char :: "nat \<Rightarrow> char" where
  "digit_char d = char_of (48 + d)"

fun nat_str :: "nat \<Rightarrow> string" where
  "nat_str n = (if n < 10 then [digit_char n] else nat_str (n div 10) @ [digit_char (n mod 10)])"

declare nat_str.simps [simp del]

definition int_str :: "int \<Rightarrow> string" where
  "int_str i = (if i < 0 then CHR ''-'' # nat_str (nat (- i)) else nat_str (nat i))"

text \<open>
  A number in a template string, for the integers and special values the program renders
  this way (decimal notation; the language switches to exponents from $10^{21}$ on).
\<close>

definition num_str :: "jsnum \<Rightarrow> string" where
  "num_str a = (case a of Fin r \<Rightarrow> int_str \<lfloor>r\<rfloor> | PosInf \<Rightarrow> ''Infinity''
     | NegInf \<Rightarrow> ''-Infinity'' | NaN \<Rightarrow> ''NaN'')"

text \<open>\<^verbatim>\<open>x.toFixed(d)\<close> below $10^{21}$: nearest decimal, the larger one at a tie of magnitudes.\<close>

definition pad_zeros :: "nat \<Rightarrow> string \<Rightarrow> string" where
  "pad_zeros d s = replicate (d - length s) (CHR ''0'') @ s"

definition toFixed :: "jsnum \<Rightarrow> nat \<Rightarrow> string" where
  "toFixed a d = (case a of
     Fin r \<Rightarrow>
       let n = nat \<lfloor>\<bar>r\<bar> * 10 ^ d + 1/2\<rfloor>;
           whole = nat_str (n div 10 ^ d);
           frac = (if d = 0 then [] else CHR ''.'' # pad_zeros d (nat_str (n mod 10 ^ d)))
       in (if r < 0 then [CHR ''-''] else []) @ whole @ frac
   | _ \<Rightarrow> num_str a)"

lemma digit_char_inj: "a < 10 \<Longrightarrow> b < 10 \<Longrightarrow> digit_char a = digit_char b \<Longrightarrow> a = b"
proof -
  assume "a < 10" "b < 10" "digit_char a = digit_char b"
  then have "(of_char (digit_char a) :: nat) = of_char (digit_char b)" by simp
  with \<open>a < 10\<close> \<open>b < 10\<close> show "a = b" by (simp add: digit_char_def)
qed

lemma digit_char_eq_iff [simp]:
  "a < 10 \<Longrightarrow> b < 10 \<Longrightarrow> digit_char a = digit_char b \<longleftrightarrow> a = b"
  by (auto dest: digit_char_inj)

lemma nat_str_digits: "c \<in> set (nat_str n) \<Longrightarrow> \<exists>d < 10. c = digit_char d"
proof (induction n rule: nat_str.induct)
  case (1 n)
  then show ?case
    by (subst (asm) (2) nat_str.simps) (force split: if_splits intro: exI [of _ "n mod 10"])
qed

lemma nat_str_not_Nil [simp]: "nat_str n \<noteq> []" "[] \<noteq> nat_str n"
  by (simp_all add: nat_str.simps [of n])

lemma nat_str_inj: "nat_str a = nat_str b \<Longrightarrow> a = b"
proof (induction a arbitrary: b rule: nat_str.induct)
  case (1 a)
  show ?case
  proof (cases "a < 10")
    case True
    with "1.prems" show ?thesis
      by (auto simp: nat_str.simps [of a] nat_str.simps [of b] split: if_splits)
  next
    case False
    with "1.prems" have "\<not> b < 10"
      by (auto simp: nat_str.simps [of a] nat_str.simps [of b])
    with False "1.prems" have "nat_str (a div 10) = nat_str (b div 10)" "a mod 10 = b mod 10"
      by (auto simp: nat_str.simps [of a] nat_str.simps [of b])
    with "1.IH" [OF False] show ?thesis by (metis div_mult_mod_eq)
  qed
qed

lemma of_char_digit_char: "d < 10 \<Longrightarrow> (of_char (digit_char d) :: nat) = 48 + d"
  by (simp add: digit_char_def)

lemma digit_char_not_sign:
  assumes "d < 10"
  shows "digit_char d \<noteq> CHR ''-''" "digit_char d \<noteq> CHR '':''"
proof -
  have "(of_char (digit_char d) :: nat) \<noteq> of_char (CHR ''-'')"
    and "(of_char (digit_char d) :: nat) \<noteq> of_char (CHR '':'')"
    using assms by (simp_all add: of_char_digit_char)
  then show "digit_char d \<noteq> CHR ''-''" "digit_char d \<noteq> CHR '':''" by metis+
qed

lemma nat_str_no_sign: "CHR ''-'' \<notin> set (nat_str n)" "CHR '':'' \<notin> set (nat_str n)"
  by (metis digit_char_not_sign nat_str_digits)+

lemma int_str_no_colon: "CHR '':'' \<notin> set (int_str i)"
  by (simp add: int_str_def nat_str_no_sign)

lemma int_str_inj: "int_str i = int_str j \<Longrightarrow> i = j"
proof -
  have minus: "nat_str n \<noteq> CHR ''-'' # s" for n s
    by (metis list.set_intros(1) nat_str_no_sign(1))
  assume "int_str i = int_str j"
  then show ?thesis
    using minus minus [symmetric]
    by (auto simp: int_str_def dest!: nat_str_inj split: if_splits)
qed

text \<open>Two integral numbers that are printed the same are equal.\<close>

lemma num_str_inj:
  assumes "num_str (Fin (of_int i)) = num_str (Fin (of_int j))"
  shows "i = j"
  using assms int_str_inj by (simp add: num_str_def)

lemma toUpperCase_Nil_iff [simp]: "toUpperCase s = [] \<longleftrightarrow> s = []"
  by (simp add: toUpperCase_def)

lemma startsWith_append: "startsWith s p \<longleftrightarrow> (\<exists>t. s = p @ t)"
  by (induction s p rule: startsWith.induct) auto

section \<open>Event-driven components\<close>

text \<open>
  A component that reacts to events (timers, sockets, promises, user actions) is an initial
  state and a step function. The contract: an invariant that holds initially and that every
  admissible event keeps; then it holds after every run.
\<close>

locale machine =
  fixes init :: 's
    and step :: "'e \<Rightarrow> 's \<Rightarrow> 's"
    and admissible :: "'e \<Rightarrow> bool"
    and inv :: "'s \<Rightarrow> bool"
  assumes inv_init: "inv init"
    and inv_step: "inv s \<Longrightarrow> admissible e \<Longrightarrow> inv (step e s)"
begin

lemma run_from_inv: "inv s \<Longrightarrow> list_all admissible es \<Longrightarrow> inv (fold step es s)"
  by (induction es arbitrary: s) (simp_all add: inv_step)

lemma run_inv: "list_all admissible es \<Longrightarrow> inv (fold step es init)"
  by (rule run_from_inv [OF inv_init])

end

text \<open>A machine that can be disposed of: from then on no event changes what it shows.\<close>

locale disposable_machine = machine init step admissible inv
  for init :: 's and step :: "'e \<Rightarrow> 's \<Rightarrow> 's"
    and admissible :: "'e \<Rightarrow> bool" and inv :: "'s \<Rightarrow> bool" +
  fixes disposed :: "'s \<Rightarrow> bool" and view :: "'s \<Rightarrow> 'v"
  assumes disposed_step: "disposed s \<Longrightarrow> disposed (step e s) \<and> view (step e s) = view s"
begin

lemma disposed_run: "disposed s \<Longrightarrow> disposed (fold step es s) \<and> view (fold step es s) = view s"
proof (induction es arbitrary: s)
  case Nil
  then show ?case by simp
next
  case (Cons e es)
  from disposed_step [OF Cons.prems] Cons.IH [of "step e s"] show ?case by simp
qed

end

end
