(* ===== verification/WorldTypes.thy ===== *)
theory WorldTypes
  imports Prelude
begin

text \<open>
  The data of the program, as \<^verbatim>\<open>frontend/src/types.ts\<close> declares it: every union of string
  literals is a datatype and every interface a record. Fields carry a prefix naming their
  record (\<open>vp_x_m\<close> is \<^verbatim>\<open>VehiclePose.x_m\<close>), and constructors a prefix where two unions share a
  literal. An optional or nullable field is an \<open>option\<close>, a \<^verbatim>\<open>number\<close> is a \<^typ>\<open>jsnum\<close>, and a
  \<^verbatim>\<open>Record<string, T>\<close> is the list of its entries.
\<close>

section \<open>Unions of string literals\<close>

datatype DataMode =
  LIVE | SIMULATED | REPLAY

datatype VisibilityState =
  GOOD | MODERATE | LOW | VERY_LOW

datatype EmergencyLevel =
  SAFE | WARNING | CRITICAL | EMERGENCY_STOP

datatype SensorStatus =
  HEALTHY | DEGRADED | STALE | OFFLINE

datatype MapFeatureType =
  TERRAIN | ROAD | CENTERLINE | BERM | HAZARD_ZONE | ROUTE | INTERSECTION | STATIC_OBSTACLE
  | SPEED_ZONE | START | DESTINATION

datatype GeometryType =
  POINT | POLYLINE | POLYGON

datatype CorridorState =
  GREEN | YELLOW | RED | GREY

datatype SimulationScenario =
  HAUL | NORMAL | FOG | OBSTACLE | EMERGENCY | SCENARIO_1_DENSE_FOG |
  SCENARIO_2_VEHICLE_AHEAD | SCENARIO_3_OPPOSING_VEHICLE | SCENARIO_4_STATIC_OBSTACLE |
  SCENARIO_5_ROAD_CLOSURE_REROUTE | SCENARIO_6_PAYLOAD_ROUTING | SCENARIO_7_FLEET_MONITORING
  | SCENARIO_8_HAULAGE_ANALYTICS

datatype NodeType =
  BENCH | DUMP | JUNCTION | WAYPOINT

datatype RoadStatus =
  OPEN | RESTRICTED | CLOSED

datatype HaulCycleState =
  CYCLE_IDLE | CYCLE_TRAVELLING_TO_PICKUP | CYCLE_WAITING_FOR_LOADING | CYCLE_LOADED |
  CYCLE_TRAVELLING_TO_DUMP | CYCLE_WAITING_FOR_DUMP | CYCLE_DUMPING | CYCLE_RETURNING_EMPTY
  | CYCLE_PAUSED | CYCLE_EMERGENCY

datatype V2XMessageType =
  V2V_BSM | V2V_PROXIMITY_ALERT | V2I_ADVISORY | V2I_INTERSECTION_PRIORITY |
  V2I_EMERGENCY_BROADCAST

datatype V2IAdvisoryType =
  ADV_FOG_WARNING | ADV_SPEED_RESTRICTION | ADV_HAZARD_ZONE | ADV_PASSAGE_PRIORITY |
  ADV_DISPATCH | ADV_ROAD_MAINTENANCE

datatype StreamStatus =
  STREAM_DISABLED | STREAM_CONNECTING | STREAM_LIVE | STREAM_STALE | STREAM_ERROR |
  STREAM_SIMULATED

datatype OptionalStreamStatus =
  OPT_DISABLED | OPT_LOADING | OPT_LIVE | OPT_STALE | OPT_ERROR

datatype AlertSeverity =
  SEV_INFO | SEV_WARNING | SEV_CRITICAL

datatype LinkStatus =
  LINK_EXCELLENT | LINK_GOOD | LINK_DEGRADED | LINK_LOST

datatype RsuStatus =
  RSU_ACTIVE | RSU_STANDBY | RSU_OFFLINE

datatype HaulPhase =
  PHASE_HAULING | PHASE_OBSTACLE | PHASE_WAITING | PHASE_ARRIVED

section \<open>Interfaces\<close>

text \<open>A value of \<^verbatim>\<open>properties\<close>: \<^verbatim>\<open>string | number | boolean\<close>.\<close>

datatype PropertyValue = PropStr string | PropNum jsnum | PropBool bool

record MineNode =
  node_node_id :: "string"
  node_name :: "string"
  node_x_m :: "jsnum"
  node_y_m :: "jsnum"
  node_elevation_m :: "jsnum"
  node_node_type :: "NodeType"
  node_description :: "string option"

record MineEdge =
  edge_edge_id :: "string"
  edge_from_node :: "string"
  edge_to_node :: "string"
  edge_distance_m :: "jsnum"
  edge_gradient_pct :: "jsnum"
  edge_max_weight_tonnes :: "jsnum"
  edge_road_status :: "RoadStatus"
  edge_speed_limit_kmh :: "jsnum"
  edge_risk_penalty :: "jsnum"
  edge_lanes :: "jsnum"
  edge_is_bidirectional :: "bool"
  edge_surface :: "string option"
  edge_segment_name :: "string option"

record MineNetwork =
  net_network_id :: "string"
  net_name :: "string"
  net_mine_site :: "string"
  net_nodes :: "(string \<times> MineNode) list"
  net_edges :: "(string \<times> MineEdge) list"

record TripRecord =
  trip_source :: "DataMode option"
  trip_trip_id :: "string"
  trip_vehicle_id :: "string"
  trip_callsign :: "string"
  trip_pickup_node :: "string"
  trip_dump_node :: "string"
  trip_payload_tonnes :: "jsnum"
  trip_start_time_ms :: "jsnum"
  trip_end_time_ms :: "jsnum"
  trip_cycle_duration_s :: "jsnum"
  trip_loading_wait_s :: "jsnum"
  trip_loaded_travel_s :: "jsnum"
  trip_dumping_wait_s :: "jsnum"
  trip_empty_return_s :: "jsnum"
  trip_idle_s :: "jsnum"
  trip_distance_km :: "jsnum"
  trip_avg_speed_kmh :: "jsnum"
  trip_route_deviations_count :: "jsnum"
  trip_route_compliance_pct :: "jsnum"
  trip_fuel_litres_est :: "jsnum"

record TripHistoryResponse =
  th_trips :: "TripRecord list"
  th_total_trips :: "jsnum"
  th_total_tonnes :: "jsnum"

record Point2D =
  pt_x_m :: "jsnum"
  pt_y_m :: "jsnum"

record MapFeature =
  mf_feature_id :: "string"
  mf_feature_type :: "MapFeatureType"
  mf_geometry_type :: "GeometryType"
  mf_points :: "Point2D list"
  mf_label :: "string"
  mf_properties :: "(string \<times> PropertyValue) list"

record ReferenceMap =
  rm_map_id :: "string"
  rm_name :: "string"
  rm_version :: "jsnum"
  rm_created_at_ms :: "jsnum"
  rm_coordinate_frame :: "string"
  rm_coordinate_frame_id :: "string option"
  rm_source :: "string"
  rm_source_detail :: "string option"
  rm_geographic_anchor :: "((string \<times> jsnum) list) option"
  rm_features :: "MapFeature list"

record HaulVehicleState =
  hv_phase :: "string"
  hv_payload_fraction :: "jsnum"
  hv_bed_angle_deg :: "jsnum"
  hv_phase_progress :: "jsnum"
  hv_cycle :: "jsnum"
  hv_road_elevation_m :: "jsnum"
  hv_road_pitch_deg :: "jsnum"

record VehiclePose =
  vp_haul :: "HaulVehicleState option"
  vp_timestamp_ms :: "jsnum"
  vp_vehicle_id :: "string"
  vp_x_m :: "jsnum"
  vp_y_m :: "jsnum"
  vp_heading_deg :: "jsnum"
  vp_speed_mps :: "jsnum"
  vp_position_confidence :: "jsnum"
  vp_mode :: "DataMode"

record RangeReading =
  rr_timestamp_ms :: "jsnum"
  rr_sensor_id :: "string"
  rr_angle_deg :: "jsnum"
  rr_range_m :: "jsnum"
  rr_quality :: "jsnum"
  rr_max_range_m :: "jsnum"
  rr_is_valid :: "bool"
  rr_mode :: "DataMode"

record SpatialPoint =
  sp_x_m :: "jsnum"
  sp_y_m :: "jsnum"
  sp_height_hint_m :: "jsnum"
  sp_source_sensor_id :: "string"
  sp_quality :: "jsnum"
  sp_timestamp_ms :: "jsnum"

record MotionState =
  mo_timestamp_ms :: "jsnum"
  mo_left_hall_ticks :: "jsnum"
  mo_right_hall_ticks :: "jsnum"
  mo_left_distance_m :: "jsnum"
  mo_right_distance_m :: "jsnum"
  mo_imu_heading_deg :: "jsnum"
  mo_imu_yaw_rate_dps :: "jsnum"
  mo_aruco_visible :: "bool"
  mo_localization_confidence :: "jsnum"
  mo_provider_confidence :: "(string \<times> jsnum) list"
  mo_mode :: "DataMode"

record VisibilityMetrics =
  vm_contrast :: "jsnum"
  vm_edge_density :: "jsnum"
  vm_brightness :: "jsnum"
  vm_entropy :: "jsnum"
  vm_haze_proxy :: "jsnum"

record CameraState =
  cam_timestamp_ms :: "jsnum"
  cam_raw_frame_id :: "string option"
  cam_enhanced_frame_id :: "string option"
  cam_raw_available :: "bool"
  cam_enhancement_available :: "bool"
  cam_metrics :: "VisibilityMetrics"
  cam_visibility_score :: "jsnum option"
  cam_visibility_state :: "VisibilityState option"
  cam_stream_status :: "StreamStatus"
  cam_stream_detail :: "string option"
  cam_width_px :: "jsnum option"
  cam_height_px :: "jsnum option"
  cam_measured_fps :: "jsnum"
  cam_enhancement_status :: "OptionalStreamStatus"
  cam_enhancement_detail :: "string option"
  cam_enhancement_model :: "string option"
  cam_enhancement_device :: "string option"
  cam_enhancement_precision :: "string option"
  cam_enhancement_latency_ms :: "jsnum option"
  cam_enhancement_fps :: "jsnum"
  cam_enhancement_peak_vram_mb :: "jsnum"
  cam_ir_available :: "bool"
  cam_ir_frame_id :: "string option"
  cam_ir_status :: "OptionalStreamStatus"
  cam_ir_detail :: "string option"
  cam_ir_model :: "string option"
  cam_ir_device :: "string option"
  cam_ir_precision :: "string option"
  cam_ir_latency_ms :: "jsnum option"
  cam_ir_fps :: "jsnum"
  cam_ir_peak_vram_mb :: "jsnum"
  cam_mode :: "DataMode"

record EnvironmentState =
  env_timestamp_ms :: "jsnum"
  env_temperature_c :: "jsnum"
  env_pressure_hpa :: "jsnum"
  env_relative_altitude_m :: "jsnum"
  env_visibility_score :: "jsnum"
  env_visibility_state :: "VisibilityState"
  env_mode :: "DataMode"

record EmergencyState =
  em_state :: "EmergencyLevel"
  em_reason :: "string option"
  em_nearest_obstacle_m :: "jsnum option"
  em_critical_distance_m :: "jsnum option"
  em_confidence :: "jsnum"
  em_motor_cut :: "bool"
  em_latched_at_ms :: "jsnum option"

record SensorHealth =
  sh_sensor_id :: "string"
  sh_status :: "SensorStatus"
  sh_last_update_ms :: "jsnum"
  sh_confidence :: "jsnum"
  sh_detail :: "string option"

record RadarObject =
  ro_timestamp_ms :: "jsnum"
  ro_detection_id :: "string"
  ro_range_m :: "jsnum"
  ro_bearing_deg :: "jsnum"
  ro_relative_velocity_mps :: "jsnum"
  ro_confidence :: "jsnum"
  ro_mode :: "DataMode"

record AlertEvent =
  al_event_id :: "string"
  al_timestamp_ms :: "jsnum"
  al_severity :: "AlertSeverity"
  al_title :: "string"
  al_detail :: "string"
  al_vehicle_id :: "string"

record RecordingState =
  rec_recording :: "bool"
  rec_recording_filename :: "string option"
  rec_replaying :: "bool"
  rec_replay_filename :: "string option"

record SimulationState =
  sim_running :: "bool"
  sim_scenario :: "SimulationScenario"
  sim_speed_scale :: "jsnum"
  sim_obstacle_enabled :: "bool"
  sim_visibility_score :: "jsnum"
  sim_front_scanner_angle_deg :: "jsnum"
  sim_rear_scanner_angle_deg :: "jsnum"

record V2VBasicSafetyMessage =
  bsm_message_id :: "string"
  bsm_timestamp_ms :: "jsnum"
  bsm_vehicle_id :: "string"
  bsm_x_m :: "jsnum"
  bsm_y_m :: "jsnum"
  bsm_heading_deg :: "jsnum"
  bsm_speed_mps :: "jsnum"
  bsm_emergency_state :: "string"
  bsm_corridor_state :: "string"
  bsm_nearest_obstacle_m :: "jsnum option"
  bsm_brake_applied :: "bool"

record V2IAdvisoryMessage =
  adv_message_id :: "string"
  adv_timestamp_ms :: "jsnum"
  adv_rsu_id :: "string"
  adv_rsu_name :: "string"
  adv_advisory_type :: "V2IAdvisoryType"
  adv_title :: "string"
  adv_detail :: "string"
  adv_speed_limit_kmh :: "jsnum option"
  adv_expires_at_ms :: "jsnum option"
  adv_zone_x_m :: "jsnum option"
  adv_zone_y_m :: "jsnum option"
  adv_zone_radius_m :: "jsnum option"

record V2XMessage =
  msg_message_id :: "string"
  msg_timestamp_ms :: "jsnum"
  msg_msg_type :: "V2XMessageType"
  msg_source_id :: "string"
  msg_target_id :: "string"
  msg_summary :: "string"
  msg_bsm_payload :: "V2VBasicSafetyMessage option"
  msg_advisory_payload :: "V2IAdvisoryMessage option"

record V2XPeerNode =
  peer_vehicle_id :: "string"
  peer_last_seen_ms :: "jsnum"
  peer_x_m :: "jsnum"
  peer_y_m :: "jsnum"
  peer_distance_m :: "jsnum"
  peer_bearing_deg :: "jsnum option"
  peer_speed_mps :: "jsnum"
  peer_heading_deg :: "jsnum"
  peer_emergency_state :: "string"
  peer_rssi_dbm :: "jsnum"
  peer_link_status :: "LinkStatus"

record V2XInfrastructureNode =
  rsu_rsu_id :: "string"
  rsu_name :: "string"
  rsu_x_m :: "jsnum"
  rsu_y_m :: "jsnum"
  rsu_status :: "RsuStatus"
  rsu_coverage_radius_m :: "jsnum"
  rsu_active_advisories_count :: "jsnum"

record V2XState =
  v2x_timestamp_ms :: "jsnum"
  v2x_enabled :: "bool"
  v2x_node_id :: "string"
  v2x_protocol_version :: "string"
  v2x_tx_packet_count :: "jsnum"
  v2x_rx_packet_count :: "jsnum"
  v2x_channel_frequency_mhz :: "jsnum"
  v2x_active_peers :: "V2XPeerNode list"
  v2x_infrastructure_nodes :: "V2XInfrastructureNode list"
  v2x_active_advisories :: "V2IAdvisoryMessage list"
  v2x_recent_messages :: "V2XMessage list"

record HaulRouteState =
  hr_cycle :: "jsnum option"
  hr_traffic_slowing :: "bool option"
  hr_lead_waiting :: "bool option"
  hr_obstacle_detected :: "bool option"
  hr_obstacle_distance_m :: "jsnum option"
  hr_planned_path :: "(Point2D list) option"
  hr_origin :: "string"
  hr_destination :: "string"
  hr_phase :: "HaulPhase"
  hr_distance_m :: "jsnum"
  hr_total_distance_m :: "jsnum"
  hr_remaining_m :: "jsnum"
  hr_elapsed_s :: "jsnum"
  hr_obstacle :: "Point2D option"
  hr_obstacle_radius_m :: "jsnum"
  hr_next_instruction :: "string"

record VehicleOperationalMetadata =
  vom_vehicle_id :: "string"
  vom_callsign :: "string"
  vom_is_primary :: "bool"
  vom_is_simulated :: "bool"
  vom_cycle_state :: "HaulCycleState"
  vom_payload_tonnes :: "jsnum"
  vom_tare_weight_tonnes :: "jsnum"
  vom_total_weight_tonnes :: "jsnum"
  vom_elevation_m :: "jsnum"
  vom_assigned_pickup :: "string"
  vom_assigned_dump :: "string"
  vom_current_destination :: "string"
  vom_distance_to_destination_m :: "jsnum"
  vom_next_instruction :: "string"
  vom_current_edge_id :: "string option"
  vom_emergency_state :: "string"
  vom_total_trips_completed :: "jsnum"
  vom_total_tonnes_moved :: "jsnum"
  vom_target_payload_tonnes :: "jsnum"
  vom_color :: "string"

record TacticalGuidance =
  tg_vehicle_id :: "string"
  tg_callsign :: "string"
  tg_current_destination :: "string"
  tg_distance_remaining_m :: "jsnum"
  tg_next_instruction :: "string"
  tg_speed_kmh :: "jsnum"
  tg_target_vehicle_id :: "string"
  tg_target_callsign :: "string"
  tg_hazard_distance_m :: "jsnum"
  tg_hazard_direction :: "string"
  tg_closing_velocity_mps :: "jsnum"
  tg_threat_level :: "string"
  tg_advisory_text :: "string"
  tg_visibility_score :: "jsnum"
  tg_visibility_state :: "string"
  tg_estimated_sight_distance_m :: "jsnum"

record HaulageMetricsSummary =
  hms_total_completed_cycles :: "jsnum"
  hms_total_ore_moved_tonnes :: "jsnum"
  hms_avg_cycle_time_minutes :: "jsnum"
  hms_fleet_utilization_pct :: "jsnum"
  hms_total_distance_km :: "jsnum"
  hms_route_compliance_pct :: "jsnum option"
  hms_active_fleet_count :: "jsnum"
  hms_hourly_production_rate_tph :: "jsnum"
  hms_recent_delay_events :: "string list"

record NavigationRoute =
  nr_route_id :: "string"
  nr_vehicle_id :: "string"
  nr_start_node_id :: "string"
  nr_end_node_id :: "string"
  nr_payload_tonnes :: "jsnum"
  nr_path_nodes :: "string list"
  nr_edge_ids :: "string list"
  nr_total_distance_m :: "jsnum"
  nr_estimated_time_s :: "jsnum"
  nr_max_gradient_pct :: "jsnum"
  nr_average_speed_kmh :: "jsnum"
  nr_total_cost :: "jsnum"
  nr_waypoints :: "Point2D list"
  nr_instructions :: "string list"

record RerouteAdvisory =
  ra_advisory_id :: "string"
  ra_vehicle_id :: "string"
  ra_timestamp_ms :: "jsnum"
  ra_trigger_edge_id :: "string"
  ra_trigger_reason :: "string"
  ra_original_route_id :: "string"
  ra_new_route :: "NavigationRoute"
  ra_alternate_found :: "bool"

record GpsTelemetry =
  gps_fix :: "bool"
  gps_lat :: "jsnum option"
  gps_lon :: "jsnum option"
  gps_alt_m :: "jsnum option"
  gps_speed_mps :: "jsnum option"
  gps_sats :: "jsnum"
  gps_hdop :: "jsnum option"
  gps_age :: "jsnum option"
  gps_bytes :: "jsnum"

record LoadTelemetry =
  load_ready :: "bool"
  load_tared :: "bool"
  load_taring :: "bool"
  load_calibrated :: "bool"
  load_zero_offset :: "jsnum"
  load_raw :: "jsnum option"
  load_net_raw :: "jsnum option"
  load_kg :: "jsnum option"

record VehicleTelemetry =
  vt_vehicle_id :: "string"
  vt_received_at_ms :: "jsnum"
  vt_online :: "bool"
  vt_gps :: "GpsTelemetry"
  vt_load :: "LoadTelemetry option"

record LiveObject =
  lo_timestamp_ms :: "jsnum"
  lo_object_id :: "string"
  lo_x_m :: "jsnum"
  lo_y_m :: "jsnum"
  lo_object_type :: "string"
  lo_confidence :: "jsnum"
  lo_source :: "string"
  lo_mode :: "DataMode"

record SafeCorridor =
  sc_state :: "CorridorState"
  sc_polygon :: "Point2D list"
  sc_exclusions :: "MapFeature list"
  sc_confidence :: "jsnum"
  sc_reason :: "string"

record OccupiedCell =
  cell_column :: "jsnum"
  cell_row :: "jsnum"
  cell_hit_count :: "jsnum"
  cell_height_hint_m :: "jsnum"

record OccupancyGrid =
  occ_resolution_m :: "jsnum"
  occ_origin :: "Point2D"
  occ_width :: "jsnum"
  occ_height :: "jsnum"
  occ_occupied_cells :: "OccupiedCell list"
  occ_updated_at_ms :: "jsnum"

record MineOperationsState =
  ops_network :: "MineNetwork option"
  ops_fleet :: "(string \<times> VehicleOperationalMetadata) list"
  ops_routes :: "(string \<times> NavigationRoute) list"
  ops_guidance :: "(string \<times> TacticalGuidance) list"
  ops_reroute_advisories :: "RerouteAdvisory list"
  ops_analytics_summary :: "HaulageMetricsSummary"
  ops_provenance :: "string"
  ops_network_version :: "jsnum"

record WorldState =
  ws_vehicle_telemetry :: "(VehicleTelemetry list) option"
  ws_schema_version :: "string"
  ws_generated_at_ms :: "jsnum"
  ws_sequence :: "jsnum"
  ws_mode :: "DataMode"
  ws_primary_vehicle_id :: "string"
  ws_vehicles :: "VehiclePose list"
  ws_reference_map :: "ReferenceMap option"
  ws_ranges :: "RangeReading list"
  ws_motion :: "MotionState"
  ws_camera :: "CameraState"
  ws_environment :: "EnvironmentState"
  ws_live_objects :: "LiveObject list"
  ws_radar_objects :: "RadarObject list"
  ws_emergency :: "EmergencyState"
  ws_sensor_health :: "SensorHealth list"
  ws_safe_corridor :: "SafeCorridor"
  ws_spatial_points :: "SpatialPoint list"
  ws_occupancy :: "OccupancyGrid"
  ws_alerts :: "AlertEvent list"
  ws_recording :: "RecordingState"
  ws_simulation :: "SimulationState"
  ws_v2x :: "V2XState option"
  ws_haul_route :: "HaulRouteState option"
  ws_operations :: "MineOperationsState option"

end
