(* ===== verification/JsonValue.thy ===== *)
theory JsonValue
  imports Prelude
begin

text \<open>
  Untyped JavaScript values: what \<^verbatim>\<open>JSON.parse\<close> and \<^verbatim>\<open>response.json()\<close> return, and what the code
  receives at type \<^verbatim>\<open>unknown\<close>. An object is the list of its own entries in order, with
  distinct keys; property access on anything else than an object, and to an absent key, is
  \<open>JUndefined\<close> (the code reads properties of \<^verbatim>\<open>null\<close> and \<^verbatim>\<open>undefined\<close> behind guards only).
  The second part models the part of a \<^verbatim>\<open>fetch\<close> response the request helpers use.
\<close>

named_theorems json_simps \<open>evaluation of property access and type tests on values\<close>

datatype jsval =
  JUndefined | JNull | JBool bool | JNum jsnum | JStr string
  | JArr "jsval list" | JObj "(string \<times> jsval) list"

definition js_get :: "jsval \<Rightarrow> string \<Rightarrow> jsval" where
  "js_get v k = (case v of
     JObj kvs \<Rightarrow> (case map_of kvs k of Some w \<Rightarrow> w | None \<Rightarrow> JUndefined)
   | _ \<Rightarrow> JUndefined)"

lemma js_get_simps [simp, json_simps]:
  "js_get (JObj []) k = JUndefined"
  "js_get (JObj ((k', w) # kvs)) k = (if k = k' then w else js_get (JObj kvs) k)"
  "js_get JUndefined k = JUndefined" "js_get JNull k = JUndefined"
  "js_get (JBool b) k = JUndefined" "js_get (JNum n) k = JUndefined"
  "js_get (JStr s) k = JUndefined" "js_get (JArr xs) k = JUndefined"
  by (auto simp: js_get_def split: option.splits)

text \<open>Assigning a property, and the spread \<^verbatim>\<open>{...a, ...b}\<close> of two objects.\<close>

definition js_set :: "jsval \<Rightarrow> string \<Rightarrow> jsval \<Rightarrow> jsval" where
  "js_set v k w = (case v of JObj kvs \<Rightarrow> JObj (AList.update k w kvs) | _ \<Rightarrow> v)"

text \<open>\<^verbatim>\<open>Object.entries(v)\<close>: arrays and strings have their items under their indices.\<close>

definition obj_entries :: "jsval \<Rightarrow> (string \<times> jsval) list" where
  "obj_entries v = (case v of
     JObj kvs \<Rightarrow> kvs
   | JArr xs \<Rightarrow> zip (map nat_str [0..<length xs]) xs
   | JStr s \<Rightarrow> zip (map nat_str [0..<length s]) (map (\<lambda>c. JStr [c]) s)
   | _ \<Rightarrow> [])"

definition js_spread :: "jsval \<Rightarrow> jsval \<Rightarrow> jsval" where
  "js_spread a b = JObj (fold (\<lambda>(k, w). AList.update k w) (obj_entries b) (obj_entries a))"

lemma js_get_set: "js_get (js_set (JObj kvs) k w) k' = (if k' = k then w else js_get (JObj kvs) k')"
  by (auto simp: js_get_def js_set_def update_conv')

lemma obj_entries_JObj [simp]: "obj_entries (JObj kvs) = kvs"
  by (simp add: obj_entries_def)

lemma js_get_spread:
  "js_get (js_spread (JObj kvs) b) k =
    (case map_of (rev (obj_entries b)) k of Some w \<Rightarrow> w | None \<Rightarrow> js_get (JObj kvs) k)"
  by (auto simp: js_spread_def js_get_def map_of_fold_update map_add_def split: option.splits)

section \<open>Type tests and conversions\<close>

definition is_array :: "jsval \<Rightarrow> bool" where
  "is_array v \<longleftrightarrow> (case v of JArr _ \<Rightarrow> True | _ \<Rightarrow> False)"

definition arr_items :: "jsval \<Rightarrow> jsval list" where
  "arr_items v = (case v of JArr xs \<Rightarrow> xs | _ \<Rightarrow> [])"

definition is_string :: "jsval \<Rightarrow> bool" where
  "is_string v \<longleftrightarrow> (case v of JStr _ \<Rightarrow> True | _ \<Rightarrow> False)"

definition is_bool :: "jsval \<Rightarrow> bool" where
  "is_bool v \<longleftrightarrow> (case v of JBool _ \<Rightarrow> True | _ \<Rightarrow> False)"

definition is_number :: "jsval \<Rightarrow> bool" where
  "is_number v \<longleftrightarrow> (case v of JNum _ \<Rightarrow> True | _ \<Rightarrow> False)"

text \<open>\<^verbatim>\<open>Boolean(v)\<close>.\<close>

definition truthy :: "jsval \<Rightarrow> bool" where
  "truthy v \<longleftrightarrow> (case v of
     JUndefined \<Rightarrow> False | JNull \<Rightarrow> False | JBool b \<Rightarrow> b
   | JNum n \<Rightarrow> n \<noteq> NaN \<and> n \<noteq> 0 | JStr s \<Rightarrow> s \<noteq> [] | _ \<Rightarrow> True)"

lemma type_test_simps [simp, json_simps]:
  "is_array (JArr xs)" "\<not> is_array JUndefined" "\<not> is_array JNull" "\<not> is_array (JBool b)"
  "\<not> is_array (JNum n)" "\<not> is_array (JStr s)" "\<not> is_array (JObj kvs)"
  "arr_items (JArr xs) = xs"
  "is_string (JStr s)" "\<not> is_string JUndefined" "\<not> is_string JNull" "\<not> is_string (JBool b)"
  "\<not> is_string (JNum n)" "\<not> is_string (JArr xs)" "\<not> is_string (JObj kvs)"
  "is_bool (JBool b)" "\<not> is_bool JUndefined" "\<not> is_bool JNull" "\<not> is_bool (JStr s)"
  "\<not> is_bool (JNum n)" "\<not> is_bool (JArr xs)" "\<not> is_bool (JObj kvs)"
  "is_number (JNum n)" "\<not> is_number JUndefined" "\<not> is_number JNull" "\<not> is_number (JBool b)"
  "\<not> is_number (JStr s)" "\<not> is_number (JArr xs)" "\<not> is_number (JObj kvs)"
  by (simp_all add: is_array_def arr_items_def is_string_def is_bool_def is_number_def)

lemma is_array_iff: "is_array v \<longleftrightarrow> (\<exists>xs. v = JArr xs)"
  by (cases v) simp_all

lemma is_string_iff: "is_string v \<longleftrightarrow> (\<exists>s. v = JStr s)"
  by (cases v) simp_all

lemma is_bool_iff: "is_bool v \<longleftrightarrow> (\<exists>b. v = JBool b)"
  by (cases v) simp_all

text \<open>\<^verbatim>\<open>String(v)\<close>; an array joins its items, where \<^verbatim>\<open>null\<close> and \<^verbatim>\<open>undefined\<close> print as nothing.\<close>

fun js_to_string :: "jsval \<Rightarrow> string" and js_join :: "jsval list \<Rightarrow> string" where
  "js_to_string JUndefined = ''undefined''"
| "js_to_string JNull = ''null''"
| "js_to_string (JBool b) = (if b then ''true'' else ''false'')"
| "js_to_string (JNum n) = num_str n"
| "js_to_string (JStr s) = s"
| "js_to_string (JArr xs) = js_join xs"
| "js_to_string (JObj kvs) = ''[object Object]''"
| "js_join [] = ''''"
| "js_join [x] = (if x = JUndefined \<or> x = JNull then '''' else js_to_string x)"
| "js_join (x # xs) = (if x = JUndefined \<or> x = JNull then '''' else js_to_string x) @ '','' @ js_join xs"

section \<open>Responses\<close>

text \<open>
  A \<^verbatim>\<open>Response\<close>: whether the status is in the 200s, the status and its text, and the outcome
  of \<^verbatim>\<open>json()\<close>: the parsed body or the message of the error it throws.
\<close>

record Response =
  rsp_ok :: bool
  rsp_status :: jsnum
  rsp_statusText :: string
  rsp_json :: "string + jsval"

end
