(* ===== verification/SensorSettings.thy ===== *)
theory SensorSettings
  imports WorldTypes JsonValue
begin

text \<open>
  Sensor calibration: \<^verbatim>\<open>frontend/src/settings/sensorSettingsApi.ts\<close> (the sensor list, its
  defaults and the request helpers) and the state of \<^verbatim>\<open>settings/useSensorSettings.ts\<close> as a
  record with one function per handler. An \<^verbatim>\<open>await\<close> splits a handler: the part before the
  request and the part that receives its outcome are separate steps.
\<close>

section \<open>Settings and their defaults\<close>

type_synonym SensorId = string

definition SENSOR_IDS :: "SensorId list" where
  "SENSOR_IDS =
     [''front_scanner'', ''front_fixed'', ''rear_scanner'', ''left_side'', ''right_side'']"

datatype ImuZeroStatus = READY | ZEROING | ZEROED | IMU_ERROR

record SensorDisplayPose =
  pose_x_m :: jsnum
  pose_y_m :: jsnum
  pose_z_m :: jsnum
  pose_yaw_deg :: jsnum
  pose_pitch_deg :: jsnum

record SensorDisplaySetting =
  sd_sensor_id :: SensorId
  sd_label :: string
  sd_scanner :: bool
  sd_display_pose :: SensorDisplayPose
  sd_alert_distance_m :: jsnum
  sd_visual_range_m :: jsnum

record ImuZeroState =
  imu_available :: bool
  imu_status :: ImuZeroStatus
  imu_zeroed_at_ms :: "jsnum option"
  imu_detail :: "string option"

record SensorSettingsState =
  ss_revision :: jsnum
  ss_imu_zero :: ImuZeroState
  ss_sensors :: "SensorDisplaySetting list"

definition DEFAULT_SENSORS :: "SensorDisplaySetting list" where
  "DEFAULT_SENSORS =
    [\<lparr>sd_sensor_id = ''front_scanner'', sd_label = ''Front scanner'', sd_scanner = True,
      sd_display_pose = \<lparr>pose_x_m = 0, pose_y_m = Fin 0.32, pose_z_m = Fin 0.32,
        pose_yaw_deg = 0, pose_pitch_deg = 0\<rparr>,
      sd_alert_distance_m = Fin 0.8, sd_visual_range_m = 4\<rparr>,
     \<lparr>sd_sensor_id = ''front_fixed'', sd_label = ''Front fixed'', sd_scanner = False,
      sd_display_pose = \<lparr>pose_x_m = 0, pose_y_m = Fin 0.55, pose_z_m = Fin 0.32,
        pose_yaw_deg = 0, pose_pitch_deg = - 50\<rparr>,
      sd_alert_distance_m = Fin 0.7, sd_visual_range_m = 2\<rparr>,
     \<lparr>sd_sensor_id = ''rear_scanner'', sd_label = ''Rear scanner'', sd_scanner = True,
      sd_display_pose = \<lparr>pose_x_m = 0, pose_y_m = Fin (- 0.55), pose_z_m = Fin 0.32,
        pose_yaw_deg = 180, pose_pitch_deg = 0\<rparr>,
      sd_alert_distance_m = Fin 0.7, sd_visual_range_m = 4\<rparr>,
     \<lparr>sd_sensor_id = ''left_side'', sd_label = ''Left fixed'', sd_scanner = False,
      sd_display_pose = \<lparr>pose_x_m = Fin (- 0.36), pose_y_m = 0, pose_z_m = Fin 0.32,
        pose_yaw_deg = - 90, pose_pitch_deg = - 50\<rparr>,
      sd_alert_distance_m = Fin 0.55, sd_visual_range_m = 2\<rparr>,
     \<lparr>sd_sensor_id = ''right_side'', sd_label = ''Right fixed'', sd_scanner = False,
      sd_display_pose = \<lparr>pose_x_m = Fin 0.36, pose_y_m = 0, pose_z_m = Fin 0.32,
        pose_yaw_deg = 90, pose_pitch_deg = - 50\<rparr>,
      sd_alert_distance_m = Fin 0.55, sd_visual_range_m = 2\<rparr>]"

definition defaultSensorSettings :: SensorSettingsState where
  "defaultSensorSettings =
    \<lparr>ss_revision = 0,
     ss_imu_zero = \<lparr>imu_available = False, imu_status = READY, imu_zeroed_at_ms = None,
       imu_detail = Some ''Connect MAIN to zero the IMU.''\<rparr>,
     ss_sensors = DEFAULT_SENSORS\<rparr>"

definition settingForReading ::
    "SensorDisplaySetting list \<Rightarrow> RangeReading \<Rightarrow> SensorDisplaySetting option" where
  "settingForReading settings reading =
     find (\<lambda>setting. sd_sensor_id setting = rr_sensor_id reading) settings"

section \<open>Reading responses\<close>

text \<open>
  \<^verbatim>\<open>readJson<T>\<close>. The result is the body read at type \<^verbatim>\<open>T\<close> without a check (\<open>cast\<close>); every
  rejection of the promise is \<open>Inl\<close> its message. A failing body keeps the status message, a
  truthy \<^verbatim>\<open>detail\<close> becomes the message by \<^verbatim>\<open>new Error(detail)\<close>.
\<close>

definition readJson :: "(jsval \<Rightarrow> 'a) \<Rightarrow> Response \<Rightarrow> string + 'a" where
  "readJson cast response =
     (if \<not> rsp_ok response then
        (let status = ''Request failed with status '' @ num_str (rsp_status response)
         in Inl (case rsp_json response of
              Inr body \<Rightarrow>
                (if truthy (js_get body ''detail'') then js_to_string (js_get body ''detail'') else status)
            | Inl _ \<Rightarrow> status))
      else (case rsp_json response of Inr body \<Rightarrow> Inr (cast body) | Inl err \<Rightarrow> Inl err))"

text \<open>The URL each helper requests; \<open>demo\<close> is the build-time constant \<^verbatim>\<open>STATIC_DEMO\<close>.\<close>

definition loadSensorSettings_url :: "bool \<Rightarrow> string" where
  "loadSensorSettings_url demo =
     (if demo then ''/demo/sensor-settings.json'' else ''/api/sensor-settings'')"

definition saveSensorSetting_url :: "SensorDisplaySetting \<Rightarrow> string" where
  "saveSensorSetting_url setting = ''/api/sensor-settings/'' @ sd_sensor_id setting"

section \<open>The settings hook\<close>

datatype SettingsConnection = LOADING | SAVED | LOCAL_ONLY | CONNECTION_ERROR

record SettingsHook =
  hook_settings :: SensorSettingsState
  hook_connection :: SettingsConnection
  hook_message :: "string option"
  hook_disposed :: bool

definition initialSettingsHook :: SettingsHook where
  "initialSettingsHook = \<lparr>hook_settings = defaultSensorSettings, hook_connection = LOADING,
     hook_message = None, hook_disposed = False\<rparr>"

text \<open>The load effect: its promise settles, or the component unmounts first.\<close>

fun settingsLoaded :: "bool \<Rightarrow> (string + SensorSettingsState) \<Rightarrow> SettingsHook \<Rightarrow> SettingsHook" where
  "settingsLoaded demo (Inr loaded) h =
     (if hook_disposed h then h
      else h\<lparr>hook_settings := loaded,
             hook_connection := (if demo then LOCAL_ONLY else SAVED),
             hook_message := (if demo
               then Some ''Demo display settings apply only to this tab. Hardware calibration is unavailable.''
               else hook_message h)\<rparr>)"
| "settingsLoaded demo (Inl _) h =
     (if hook_disposed h then h
      else h\<lparr>hook_connection := LOCAL_ONLY,
             hook_message := Some ''Calibration unavailable. Display defaults are active.''\<rparr>)"

definition disposeSettings :: "SettingsHook \<Rightarrow> SettingsHook" where
  "disposeSettings h = h\<lparr>hook_disposed := True\<rparr>"

definition replaceSensor ::
    "SensorId \<Rightarrow> SensorDisplaySetting \<Rightarrow> SensorSettingsState \<Rightarrow> SensorSettingsState" where
  "replaceSensor sensorId setting current =
     current\<lparr>ss_sensors := map (\<lambda>sensor. if sd_sensor_id sensor = sensorId then setting else sensor)
       (ss_sensors current)\<rparr>"

definition updateSensor :: "SensorId \<Rightarrow> SensorDisplaySetting \<Rightarrow> SettingsHook \<Rightarrow> SettingsHook" where
  "updateSensor sensorId setting h =
     h\<lparr>hook_settings := replaceSensor sensorId setting (hook_settings h)\<rparr>"

text \<open>
  \<^verbatim>\<open>saveSensor\<close> up to its request: the second component is the setting sent, if one is.
\<close>

definition saveSensorBegin ::
    "bool \<Rightarrow> SensorId \<Rightarrow> SettingsHook \<Rightarrow> SettingsHook \<times> SensorDisplaySetting option" where
  "saveSensorBegin demo sensorId h =
     (case find (\<lambda>sensor. sd_sensor_id sensor = sensorId) (ss_sensors (hook_settings h)) of
        None \<Rightarrow> (h, None)
      | Some setting \<Rightarrow>
          if demo then
            (h\<lparr>hook_connection := LOCAL_ONLY,
               hook_message := Some (sd_label setting @
                 '' applied to this tab only. Recorded telemetry is unchanged.'')\<rparr>, None)
          else (h\<lparr>hook_message := Some ''Saving display settings...''\<rparr>, Some setting))"

fun saveSensorDone ::
    "SensorId \<Rightarrow> (string + SensorDisplaySetting) \<Rightarrow> SettingsHook \<Rightarrow> SettingsHook" where
  "saveSensorDone sensorId (Inr saved) h =
     h\<lparr>hook_settings := replaceSensor sensorId saved (hook_settings h),
       hook_connection := SAVED, hook_message := Some (sd_label saved @ '' saved.'')\<rparr>"
| "saveSensorDone sensorId (Inl err) h =
     h\<lparr>hook_connection := CONNECTION_ERROR, hook_message := Some err\<rparr>"

definition zeroImuBegin :: "bool \<Rightarrow> SettingsHook \<Rightarrow> SettingsHook \<times> bool" where
  "zeroImuBegin demo h =
     (if demo then
        (h\<lparr>hook_message := Some ''IMU zeroing requires connected hardware in the local app.''\<rparr>, False)
      else
        (h\<lparr>hook_settings := (hook_settings h)\<lparr>ss_imu_zero := (ss_imu_zero (hook_settings h))
             \<lparr>imu_status := ZEROING, imu_detail := Some ''Keep the vehicle still.''\<rparr>\<rparr>\<rparr>, True))"

fun zeroImuDone :: "(string + ImuZeroState) \<Rightarrow> SettingsHook \<Rightarrow> SettingsHook" where
  "zeroImuDone (Inr imuZero) h =
     h\<lparr>hook_settings := (hook_settings h)\<lparr>ss_imu_zero := imuZero\<rparr>,
       hook_connection := SAVED,
       hook_message := Some (case imu_detail imuZero of Some d \<Rightarrow> d | None \<Rightarrow> ''IMU zero stored.'')\<rparr>"
| "zeroImuDone (Inl detail) h =
     h\<lparr>hook_settings := (hook_settings h)\<lparr>ss_imu_zero := (ss_imu_zero (hook_settings h))
         \<lparr>imu_status := IMU_ERROR, imu_detail := Some detail\<rparr>\<rparr>,
       hook_connection := CONNECTION_ERROR, hook_message := Some detail\<rparr>"

section \<open>The hook as a machine\<close>

text \<open>What can happen to the hook, in any order; the settings API answers when it likes.\<close>

datatype SettingsEvent =
  SettingsLoaded "string + SensorSettingsState"
| SettingsUnmounted
| SensorEdited SensorId SensorDisplaySetting
| SaveStarted SensorId
| SaveFinished SensorId "string + SensorDisplaySetting"
| ZeroStarted
| ZeroFinished "string + ImuZeroState"

fun settings_step :: "bool \<Rightarrow> SettingsEvent \<Rightarrow> SettingsHook \<Rightarrow> SettingsHook" where
  "settings_step demo (SettingsLoaded r) h = settingsLoaded demo r h"
| "settings_step demo SettingsUnmounted h = disposeSettings h"
| "settings_step demo (SensorEdited i setting) h = updateSensor i setting h"
| "settings_step demo (SaveStarted i) h = fst (saveSensorBegin demo i h)"
| "settings_step demo (SaveFinished i r) h = saveSensorDone i r h"
| "settings_step demo ZeroStarted h = fst (zeroImuBegin demo h)"
| "settings_step demo (ZeroFinished r) h = zeroImuDone r h"

definition settings_run :: "bool \<Rightarrow> SettingsEvent list \<Rightarrow> SettingsHook" where
  "settings_run demo es = fold (settings_step demo) es initialSettingsHook"

text \<open>
  What the backend and the settings page keep to: a loaded state has the five sensors, and a
  setting edited or saved for a sensor is a setting of that sensor.
\<close>

fun well_formed_event :: "SettingsEvent \<Rightarrow> bool" where
  "well_formed_event (SettingsLoaded (Inr s)) = (map sd_sensor_id (ss_sensors s) = SENSOR_IDS)"
| "well_formed_event (SensorEdited i setting) = (sd_sensor_id setting = i)"
| "well_formed_event (SaveFinished i (Inr saved)) = (sd_sensor_id saved = i)"
| "well_formed_event _ = True"

definition sensors_kept :: "SettingsHook \<Rightarrow> bool" where
  "sensors_kept h \<longleftrightarrow> map sd_sensor_id (ss_sensors (hook_settings h)) = SENSOR_IDS"

lemma replaceSensor_ids:
  "sd_sensor_id setting = i \<Longrightarrow>
     map sd_sensor_id (ss_sensors (replaceSensor i setting s)) = map sd_sensor_id (ss_sensors s)"
  by (simp add: replaceSensor_def)

lemma find_replaced:
  assumes "sd_sensor_id setting = i"
  shows "find (\<lambda>s. sd_sensor_id s = j) (map (\<lambda>s. if sd_sensor_id s = i then setting else s) xs) =
    (if j = i \<and> i \<in> sd_sensor_id ` set xs then Some setting
     else find (\<lambda>s. sd_sensor_id s = j) xs)"
  using assms by (induction xs) auto

lemma sensors_kept_step:
  assumes "sensors_kept h" and "well_formed_event e"
  shows "sensors_kept (settings_step demo e h)"
proof (cases e)
  case (SettingsLoaded r)
  with assms show ?thesis by (cases r) (simp_all add: sensors_kept_def)
next
  case (SaveFinished i r)
  with assms show ?thesis by (cases r) (simp_all add: sensors_kept_def replaceSensor_ids)
next
  case (ZeroFinished r)
  with assms show ?thesis by (cases r) (simp_all add: sensors_kept_def)
qed (use assms in \<open>auto simp: sensors_kept_def disposeSettings_def updateSensor_def
  replaceSensor_ids saveSensorBegin_def zeroImuBegin_def split: option.splits\<close>)

interpretation settings_machine: machine initialSettingsHook "settings_step demo" well_formed_event
  sensors_kept for demo
proof unfold_locales
  show "sensors_kept initialSettingsHook"
    by (simp add: sensors_kept_def initialSettingsHook_def defaultSensorSettings_def
        DEFAULT_SENSORS_def SENSOR_IDS_def)
qed (rule sensors_kept_step)

text \<open>The setting the hook holds for a sensor.\<close>

definition settingOf :: "SensorId \<Rightarrow> SettingsHook \<Rightarrow> SensorDisplaySetting option" where
  "settingOf i h = find (\<lambda>s. sd_sensor_id s = i) (ss_sensors (hook_settings h))"

lemma settingOf_replaced:
  assumes "sensors_kept h" and "i \<in> set SENSOR_IDS" and "sd_sensor_id setting = i"
    and "hook_settings h' = replaceSensor i setting (hook_settings h)"
  shows "settingOf j h' = (if j = i then Some setting else settingOf j h)"
proof -
  have "i \<in> sd_sensor_id ` set (ss_sensors (hook_settings h))"
    using assms(1,2) by (metis list.set_map sensors_kept_def)
  then show ?thesis
    using assms(3,4) by (simp add: settingOf_def replaceSensor_def find_replaced)
qed

section \<open>Properties\<close>

text \<open>
  The calibration page never loses a sensor: as long as the backend and the page keep to
  their formats, the settings always hold each of the five sensors once, in order, whatever
  order loading, editing, saving and zeroing are interleaved in and whichever of them fail.
\<close>

theorem settings_keep_sensors:
  assumes "list_all well_formed_event es"
  shows "map sd_sensor_id (ss_sensors (hook_settings (settings_run demo es))) = SENSOR_IDS"
  using settings_machine.run_inv [OF assms, of demo] by (simp add: settings_run_def sensors_kept_def)

text \<open>A setting of the left sensor with another alert distance.\<close>

definition leftSetting :: "real \<Rightarrow> SensorDisplaySetting" where
  "leftSetting d = \<lparr>sd_sensor_id = ''left_side'', sd_label = ''Left fixed'', sd_scanner = False,
     sd_display_pose = \<lparr>pose_x_m = Fin (- 0.36), pose_y_m = 0, pose_z_m = Fin 0.32,
       pose_yaw_deg = - 90, pose_pitch_deg = - 50\<rparr>,
     sd_alert_distance_m = Fin d, sd_visual_range_m = 2\<rparr>"

theorem settings_keep_sensors_witness:
  "map sd_sensor_id (ss_sensors (hook_settings (settings_run False
     [SensorEdited ''left_side'' (leftSetting 1), SaveStarted ''left_side'',
      SaveFinished ''left_side'' (Inl ''offline'')]))) = SENSOR_IDS"
  by (rule settings_keep_sensors) (simp add: leftSetting_def)

text \<open>
  Editing and saving a sensor: after an edit the save sends exactly the edited setting; a
  successful answer replaces that sensor's setting by what the backend stored and no other;
  a failed one is reported and leaves the edit, like every other setting, as it was.
\<close>

theorem save_edited_setting:
  assumes "h = settings_run False es" and "list_all well_formed_event es"
    and "i \<in> set SENSOR_IDS" and "sd_sensor_id setting = i" and "sd_sensor_id saved = i"
    and "h1 = updateSensor i setting h" and "h2 = fst (saveSensorBegin False i h1)"
  shows "snd (saveSensorBegin False i h1) = Some setting \<and>
    settingOf j h1 = (if j = i then Some setting else settingOf j h) \<and>
    settingOf j (saveSensorDone i (Inr saved) h2) = (if j = i then Some saved else settingOf j h) \<and>
    settingOf j (saveSensorDone i (Inl err) h2) = (if j = i then Some setting else settingOf j h) \<and>
    hook_connection (saveSensorDone i (Inl err) h2) = CONNECTION_ERROR \<and>
    hook_message (saveSensorDone i (Inl err) h2) = Some err"
proof -
  have kept: "sensors_kept h"
    using settings_machine.run_inv [OF assms(2), of False] by (simp add: settings_run_def assms(1))
  have edit: "settingOf k h1 = (if k = i then Some setting else settingOf k h)" for k
    by (rule settingOf_replaced [OF kept assms(3,4)]) (simp add: assms(6) updateSensor_def)
  have kept1: "sensors_kept h1"
    using kept assms(4) by (simp add: sensors_kept_def assms(6) updateSensor_def replaceSensor_ids)
  have begin_: "snd (saveSensorBegin False i h1) = Some setting"
    and same: "hook_settings h2 = hook_settings h1"
    using edit [of i] by (simp_all add: assms(7) saveSensorBegin_def settingOf_def split: option.splits)
  have done_: "settingOf k (saveSensorDone i (Inr saved) h2) = (if k = i then Some saved else settingOf k h1)" for k
    by (rule settingOf_replaced [OF kept1 assms(3,5)]) (simp add: same)
  show ?thesis using begin_ edit done_ same by (simp add: settingOf_def)
qed

theorem save_edited_setting_witness:
  "snd (saveSensorBegin False ''left_side'' (updateSensor ''left_side'' (leftSetting 1)
     (settings_run False []))) = Some (leftSetting 1)"
  using save_edited_setting [of "settings_run False []" "[]" "''left_side''" "leftSetting 1"
      "leftSetting 1" _ _ "''left_side''" "''''", OF refl _ _ _ _ refl refl]
  by (simp add: leftSetting_def SENSOR_IDS_def)

text \<open>
  A lost update: an edit made while a save is in flight is overwritten by the answer to the
  save, so the page shows the older setting and calls it saved.
\<close>

theorem late_save_overwrites_edit:
  "settingOf ''left_side'' (settings_run False
     [SensorEdited ''left_side'' (leftSetting 1), SaveStarted ''left_side'',
      SensorEdited ''left_side'' (leftSetting 2),
      SaveFinished ''left_side'' (Inr (leftSetting 1))]) = Some (leftSetting 1) \<and>
   hook_connection (settings_run False
     [SensorEdited ''left_side'' (leftSetting 1), SaveStarted ''left_side'',
      SensorEdited ''left_side'' (leftSetting 2),
      SaveFinished ''left_side'' (Inr (leftSetting 1))]) = SAVED"
  by (simp add: settings_run_def initialSettingsHook_def defaultSensorSettings_def
      DEFAULT_SENSORS_def updateSensor_def replaceSensor_def saveSensorBegin_def settingOf_def
      leftSetting_def)

text \<open>
  Reading a response of the settings API: a value is returned only from a successful response
  whose body parses; a failed response always gives an error, whose message is the non-empty
  string in the field \<^verbatim>\<open>detail\<close> of the body when there is one and the status otherwise.
\<close>

theorem readJson_outcomes:
  "(\<exists>v. readJson cast r = Inr v) = (rsp_ok r \<and> (\<exists>body. rsp_json r = Inr body)) \<and>
   (\<not> rsp_ok r \<longrightarrow> readJson cast r = Inl
     (case rsp_json r of
        Inr body \<Rightarrow> (case js_get body ''detail'' of
            JStr d \<Rightarrow> if d \<noteq> '''' then d else ''Request failed with status '' @ num_str (rsp_status r)
          | v \<Rightarrow> if truthy v then js_to_string v
              else ''Request failed with status '' @ num_str (rsp_status r))
      | Inl _ \<Rightarrow> ''Request failed with status '' @ num_str (rsp_status r)))"
  by (auto simp: readJson_def Let_def truthy_def split: sum.splits jsval.splits)

theorem readJson_outcomes_witness:
  "readJson id \<lparr>rsp_ok = False, rsp_status = 422, rsp_statusText = '''',
     rsp_json = Inr (JObj [(''detail'', JStr ''Range too long'')])\<rparr> = Inl ''Range too long''"
  using readJson_outcomes [of id "\<lparr>rsp_ok = False, rsp_status = 422, rsp_statusText = '''',
     rsp_json = Inr (JObj [(''detail'', JStr ''Range too long'')])\<rparr>"]
  by simp

end
