(* ===== verification/SnapshotGuard.thy ===== *)
theory SnapshotGuard
  imports WorldTypes JsonValue
begin

text \<open>
  The runtime type guard \<^verbatim>\<open>isWorldStateSnapshot\<close> of \<^verbatim>\<open>frontend/src/state/worldStateSnapshot.ts\<close>:
  one predicate on untyped values per function of the file, in its order. Membership in a
  \<^verbatim>\<open>Set\<close> of literals is membership in the list of its strings (\<open>has\<close>); \<^verbatim>\<open>value.x === null\<close> is
  \<open>js_get value ''x'' = JNull\<close>.
\<close>

definition has :: "string list \<Rightarrow> jsval \<Rightarrow> bool" where
  "has xs v \<longleftrightarrow> (case v of JStr s \<Rightarrow> s \<in> set xs | _ \<Rightarrow> False)"

lemma has_JStr [simp, json_simps]: "has xs (JStr s) \<longleftrightarrow> s \<in> set xs"
  by (simp add: has_def)

lemma hasE: assumes "has xs v" obtains s where "v = JStr s" "s \<in> set xs"
  using assms by (auto simp: has_def split: jsval.splits)

definition DATA_MODES :: "string list" where
  "DATA_MODES = [''LIVE'', ''SIMULATED'', ''REPLAY'']"

definition CORRIDOR_STATES :: "string list" where
  "CORRIDOR_STATES = [''GREEN'', ''YELLOW'', ''RED'', ''GREY'']"

definition EMERGENCY_STATES :: "string list" where
  "EMERGENCY_STATES = [''SAFE'', ''WARNING'', ''CRITICAL'', ''EMERGENCY_STOP'']"

definition SENSOR_STATES :: "string list" where
  "SENSOR_STATES = [''HEALTHY'', ''DEGRADED'', ''STALE'', ''OFFLINE'']"

definition VISIBILITY_STATES :: "string list" where
  "VISIBILITY_STATES = [''GOOD'', ''MODERATE'', ''LOW'', ''VERY_LOW'']"

definition MAP_FEATURE_TYPES :: "string list" where
  "MAP_FEATURE_TYPES = [''TERRAIN'', ''ROAD'', ''CENTERLINE'', ''BERM'', ''HAZARD_ZONE'', ''ROUTE'',
     ''INTERSECTION'', ''STATIC_OBSTACLE'', ''SPEED_ZONE'', ''START'', ''DESTINATION'']"

definition GEOMETRY_TYPES :: "string list" where
  "GEOMETRY_TYPES = [''POINT'', ''POLYLINE'', ''POLYGON'']"

definition SIMULATION_SCENARIOS :: "string list" where
  "SIMULATION_SCENARIOS = [''HAUL'', ''NORMAL'', ''FOG'', ''OBSTACLE'', ''EMERGENCY'',
     ''SCENARIO_1_DENSE_FOG'', ''SCENARIO_2_VEHICLE_AHEAD'', ''SCENARIO_3_OPPOSING_VEHICLE'',
     ''SCENARIO_4_STATIC_OBSTACLE'', ''SCENARIO_5_ROAD_CLOSURE_REROUTE'',
     ''SCENARIO_6_PAYLOAD_ROUTING'', ''SCENARIO_7_FLEET_MONITORING'',
     ''SCENARIO_8_HAULAGE_ANALYTICS'']"

section \<open>Field tests\<close>

definition isRecord :: "jsval \<Rightarrow> bool" where
  "isRecord v \<longleftrightarrow> (case v of JObj _ \<Rightarrow> True | _ \<Rightarrow> False)"

definition isFiniteNumber :: "jsval \<Rightarrow> bool" where
  "isFiniteNumber v \<longleftrightarrow> (case v of JNum n \<Rightarrow> isFinite n | _ \<Rightarrow> False)"

definition isNullableFiniteNumber :: "jsval \<Rightarrow> bool" where
  "isNullableFiniteNumber v \<longleftrightarrow> v = JNull \<or> isFiniteNumber v"

definition isNullableString :: "jsval \<Rightarrow> bool" where
  "isNullableString v \<longleftrightarrow> v = JNull \<or> is_string v"

definition hasFiniteNumbers :: "jsval \<Rightarrow> string list \<Rightarrow> bool" where
  "hasFiniteNumbers record keys = list_all (\<lambda>key. isFiniteNumber (js_get record key)) keys"

definition hasStrings :: "jsval \<Rightarrow> string list \<Rightarrow> bool" where
  "hasStrings record keys = list_all (\<lambda>key. is_string (js_get record key)) keys"

definition hasNullableFiniteNumbers :: "jsval \<Rightarrow> string list \<Rightarrow> bool" where
  "hasNullableFiniteNumbers record keys =
     list_all (\<lambda>key. isNullableFiniteNumber (js_get record key)) keys"

definition hasNullableStrings :: "jsval \<Rightarrow> string list \<Rightarrow> bool" where
  "hasNullableStrings record keys = list_all (\<lambda>key. isNullableString (js_get record key)) keys"

text \<open>\<^verbatim>\<open>Array.isArray(value.k) && value.k.every(p)\<close>.\<close>

definition every_item :: "(jsval \<Rightarrow> bool) \<Rightarrow> jsval \<Rightarrow> bool" where
  "every_item p v \<longleftrightarrow> is_array v \<and> list_all p (arr_items v)"

definition isPoint2D :: "jsval \<Rightarrow> bool" where
  "isPoint2D v \<longleftrightarrow> isRecord v \<and> hasFiniteNumbers v [''x_m'', ''y_m'']"

definition isPrimitiveProperties :: "jsval \<Rightarrow> bool" where
  "isPrimitiveProperties v \<longleftrightarrow> isRecord v \<and>
     list_all (\<lambda>item. is_string item \<or> is_number item \<or> is_bool item) (map snd (obj_entries v))"

definition isMapFeature :: "jsval \<Rightarrow> bool" where
  "isMapFeature v \<longleftrightarrow>
     isRecord v \<and>
     hasStrings v [''feature_id'', ''feature_type'', ''geometry_type'', ''label''] \<and>
     has MAP_FEATURE_TYPES (js_get v ''feature_type'') \<and>
     has GEOMETRY_TYPES (js_get v ''geometry_type'') \<and>
     is_array (js_get v ''points'') \<and>
     0 < length (arr_items (js_get v ''points'')) \<and>
     list_all isPoint2D (arr_items (js_get v ''points'')) \<and>
     isPrimitiveProperties (js_get v ''properties'')"

definition hasMode :: "jsval \<Rightarrow> bool" where
  "hasMode v \<longleftrightarrow> is_string v \<and> has DATA_MODES v"

section \<open>Vehicles, telemetry, sensors\<close>

definition isVehicle :: "jsval \<Rightarrow> bool" where
  "isVehicle v \<longleftrightarrow>
     isRecord v \<and>
     hasStrings v [''vehicle_id''] \<and>
     hasFiniteNumbers v [''timestamp_ms'', ''x_m'', ''y_m'', ''heading_deg'', ''speed_mps'',
       ''position_confidence''] \<and>
     hasMode (js_get v ''mode'')"

text \<open>\<^verbatim>\<open>(value.k as number) < bound\<close> and \<^verbatim>\<open>>\<close>, after the field passed its numeric test.\<close>

definition num_below :: "jsval \<Rightarrow> jsnum \<Rightarrow> bool" where
  "num_below v b \<longleftrightarrow> (case v of JNum n \<Rightarrow> n < b | _ \<Rightarrow> False)"

definition num_above :: "jsval \<Rightarrow> jsnum \<Rightarrow> bool" where
  "num_above v b \<longleftrightarrow> (case v of JNum n \<Rightarrow> b < n | _ \<Rightarrow> False)"

definition isGpsTelemetry :: "jsval \<Rightarrow> bool" where
  "isGpsTelemetry v =
     (if \<not> isRecord v \<or> \<not> is_bool (js_get v ''fix'') \<or>
         \<not> hasFiniteNumbers v [''sats'', ''bytes''] \<or>
         \<not> hasNullableFiniteNumbers v [''lat'', ''lon'', ''alt_m'', ''speed_mps'', ''hdop'', ''age'']
      then False
      else if num_below (js_get v ''sats'') 0 \<or> num_below (js_get v ''bytes'') 0 then False
      else if js_get v ''lat'' \<noteq> JNull \<and>
        (num_below (js_get v ''lat'') (- 90) \<or> num_above (js_get v ''lat'') 90) then False
      else if js_get v ''lon'' \<noteq> JNull \<and>
        (num_below (js_get v ''lon'') (- 180) \<or> num_above (js_get v ''lon'') 180) then False
      else \<not> truthy (js_get v ''fix'') \<or>
        (js_get v ''lat'' \<noteq> JNull \<and> js_get v ''lon'' \<noteq> JNull \<and> js_get v ''age'' \<noteq> JNull))"

definition isLoadTelemetry :: "jsval \<Rightarrow> bool" where
  "isLoadTelemetry v =
     (if v = JNull then True
      else isRecord v \<and>
        is_bool (js_get v ''ready'') \<and> is_bool (js_get v ''tared'') \<and>
        is_bool (js_get v ''taring'') \<and> is_bool (js_get v ''calibrated'') \<and>
        isFiniteNumber (js_get v ''zero_offset'') \<and>
        hasNullableFiniteNumbers v [''raw'', ''net_raw'', ''kg'', ''age''])"

definition isVehicleTelemetry :: "jsval \<Rightarrow> bool" where
  "isVehicleTelemetry v \<longleftrightarrow>
     isRecord v \<and>
     (js_get v ''vehicle_id'' = JStr ''DUMPER_01'' \<or> js_get v ''vehicle_id'' = JStr ''DUMPER_02'') \<and>
     isFiniteNumber (js_get v ''received_at_ms'') \<and>
     is_bool (js_get v ''online'') \<and>
     isGpsTelemetry (js_get v ''gps'') \<and>
     isLoadTelemetry (js_get v ''load'')"

definition isRange :: "jsval \<Rightarrow> bool" where
  "isRange v \<longleftrightarrow>
     isRecord v \<and>
     hasStrings v [''sensor_id''] \<and>
     hasFiniteNumbers v [''timestamp_ms'', ''angle_deg'', ''range_m'', ''quality'', ''max_range_m''] \<and>
     is_bool (js_get v ''is_valid'') \<and>
     hasMode (js_get v ''mode'')"

definition isSensorHealth :: "jsval \<Rightarrow> bool" where
  "isSensorHealth v \<longleftrightarrow>
     isRecord v \<and>
     hasStrings v [''sensor_id''] \<and>
     is_string (js_get v ''status'') \<and>
     has SENSOR_STATES (js_get v ''status'') \<and>
     hasFiniteNumbers v [''last_update_ms'', ''confidence''] \<and>
     isNullableString (js_get v ''detail'')"

definition hasCameraShape :: "jsval \<Rightarrow> bool" where
  "hasCameraShape v \<longleftrightarrow>
     isRecord v \<and>
     isRecord (js_get v ''metrics'') \<and>
     hasFiniteNumbers (js_get v ''metrics'') [''contrast'', ''edge_density'', ''brightness'',
       ''entropy'', ''haze_proxy''] \<and>
     hasMode (js_get v ''mode'') \<and>
     is_bool (js_get v ''raw_available'') \<and>
     is_bool (js_get v ''enhancement_available'') \<and>
     is_bool (js_get v ''ir_available'') \<and>
     hasStrings v [''stream_status'', ''enhancement_status'', ''ir_status''] \<and>
     hasNullableStrings v [''raw_frame_id'', ''enhanced_frame_id'', ''stream_detail'',
       ''enhancement_detail'', ''enhancement_model'', ''enhancement_device'',
       ''enhancement_precision'', ''ir_frame_id'', ''ir_detail'', ''ir_model'', ''ir_device'',
       ''ir_precision''] \<and>
     hasNullableFiniteNumbers v [''visibility_score'', ''width_px'', ''height_px'',
       ''enhancement_latency_ms'', ''ir_latency_ms''] \<and>
     (js_get v ''visibility_state'' = JNull \<or>
       (is_string (js_get v ''visibility_state'') \<and>
        has VISIBILITY_STATES (js_get v ''visibility_state''))) \<and>
     hasFiniteNumbers v [''timestamp_ms'', ''measured_fps'', ''enhancement_fps'',
       ''enhancement_peak_vram_mb'', ''ir_fps'', ''ir_peak_vram_mb'']"

definition hasMotionShape :: "jsval \<Rightarrow> bool" where
  "hasMotionShape v \<longleftrightarrow>
     isRecord v \<and>
     isRecord (js_get v ''provider_confidence'') \<and>
     list_all isFiniteNumber (map snd (obj_entries (js_get v ''provider_confidence''))) \<and>
     hasMode (js_get v ''mode'') \<and>
     is_bool (js_get v ''aruco_visible'') \<and>
     hasFiniteNumbers v [''timestamp_ms'', ''left_hall_ticks'', ''right_hall_ticks'',
       ''left_distance_m'', ''right_distance_m'', ''imu_heading_deg'', ''imu_yaw_rate_dps'',
       ''localization_confidence'']"

definition hasEnvironmentShape :: "jsval \<Rightarrow> bool" where
  "hasEnvironmentShape v \<longleftrightarrow>
     isRecord v \<and>
     hasMode (js_get v ''mode'') \<and>
     is_string (js_get v ''visibility_state'') \<and>
     has VISIBILITY_STATES (js_get v ''visibility_state'') \<and>
     hasFiniteNumbers v [''timestamp_ms'', ''temperature_c'', ''pressure_hpa'',
       ''relative_altitude_m'', ''visibility_score'']"

definition hasEmergencyShape :: "jsval \<Rightarrow> bool" where
  "hasEmergencyShape v \<longleftrightarrow>
     isRecord v \<and>
     is_string (js_get v ''state'') \<and>
     has EMERGENCY_STATES (js_get v ''state'') \<and>
     is_bool (js_get v ''motor_cut'') \<and>
     isNullableString (js_get v ''reason'') \<and>
     hasNullableFiniteNumbers v [''nearest_obstacle_m'', ''critical_distance_m'', ''latched_at_ms''] \<and>
     hasFiniteNumbers v [''confidence'']"

definition hasCorridorShape :: "jsval \<Rightarrow> bool" where
  "hasCorridorShape v \<longleftrightarrow>
     isRecord v \<and>
     is_string (js_get v ''state'') \<and>
     has CORRIDOR_STATES (js_get v ''state'') \<and>
     every_item isPoint2D (js_get v ''polygon'') \<and>
     every_item isMapFeature (js_get v ''exclusions'') \<and>
     isFiniteNumber (js_get v ''confidence'') \<and>
     is_string (js_get v ''reason'')"

definition hasOccupancyShape :: "jsval \<Rightarrow> bool" where
  "hasOccupancyShape v \<longleftrightarrow>
     isRecord v \<and>
     isPoint2D (js_get v ''origin'') \<and>
     every_item (\<lambda>cell. isRecord cell \<and>
       hasFiniteNumbers cell [''column'', ''row'', ''hit_count'', ''height_hint_m''])
       (js_get v ''occupied_cells'') \<and>
     hasFiniteNumbers v [''resolution_m'', ''width'', ''height'', ''updated_at_ms'']"

definition hasSimulationShape :: "jsval \<Rightarrow> bool" where
  "hasSimulationShape v \<longleftrightarrow>
     isRecord v \<and>
     is_bool (js_get v ''running'') \<and>
     is_string (js_get v ''scenario'') \<and>
     has SIMULATION_SCENARIOS (js_get v ''scenario'') \<and>
     is_bool (js_get v ''obstacle_enabled'') \<and>
     hasFiniteNumbers v [''speed_scale'', ''visibility_score'', ''front_scanner_angle_deg'',
       ''rear_scanner_angle_deg'']"

definition hasRecordingShape :: "jsval \<Rightarrow> bool" where
  "hasRecordingShape v \<longleftrightarrow>
     isRecord v \<and>
     is_bool (js_get v ''recording'') \<and>
     is_bool (js_get v ''replaying'') \<and>
     hasNullableStrings v [''recording_filename'', ''replay_filename'']"

definition hasReferenceMapShape :: "jsval \<Rightarrow> bool" where
  "hasReferenceMapShape v \<longleftrightarrow>
     v = JNull \<or>
     (isRecord v \<and>
      hasStrings v [''map_id'', ''name'', ''coordinate_frame'', ''source''] \<and>
      hasFiniteNumbers v [''version'', ''created_at_ms''] \<and>
      every_item isMapFeature (js_get v ''features''))"

definition isLiveObject :: "jsval \<Rightarrow> bool" where
  "isLiveObject v \<longleftrightarrow>
     isRecord v \<and>
     hasStrings v [''object_id'', ''object_type'', ''source''] \<and>
     hasFiniteNumbers v [''timestamp_ms'', ''x_m'', ''y_m'', ''confidence''] \<and>
     hasMode (js_get v ''mode'')"

definition isRadarObject :: "jsval \<Rightarrow> bool" where
  "isRadarObject v \<longleftrightarrow>
     isRecord v \<and>
     hasStrings v [''detection_id''] \<and>
     hasFiniteNumbers v [''timestamp_ms'', ''range_m'', ''bearing_deg'', ''relative_velocity_mps'',
       ''confidence''] \<and>
     hasMode (js_get v ''mode'')"

definition isSpatialPoint :: "jsval \<Rightarrow> bool" where
  "isSpatialPoint v \<longleftrightarrow>
     isRecord v \<and>
     hasStrings v [''source_sensor_id''] \<and>
     hasFiniteNumbers v [''x_m'', ''y_m'', ''height_hint_m'', ''quality'', ''timestamp_ms'']"

definition isAlert :: "jsval \<Rightarrow> bool" where
  "isAlert v \<longleftrightarrow>
     isRecord v \<and>
     hasStrings v [''event_id'', ''severity'', ''title'', ''detail'', ''vehicle_id''] \<and>
     isFiniteNumber (js_get v ''timestamp_ms'')"

section \<open>V2X and the whole snapshot\<close>

definition isV2xPeer :: "jsval \<Rightarrow> bool" where
  "isV2xPeer v \<longleftrightarrow>
     isRecord v \<and>
     hasStrings v [''vehicle_id'', ''emergency_state'', ''link_status''] \<and>
     hasFiniteNumbers v [''last_seen_ms'', ''x_m'', ''y_m'', ''distance_m'', ''speed_mps'',
       ''heading_deg'', ''rssi_dbm''] \<and>
     (js_get v ''bearing_deg'' = JUndefined \<or> isFiniteNumber (js_get v ''bearing_deg''))"

definition isV2xInfrastructureNode :: "jsval \<Rightarrow> bool" where
  "isV2xInfrastructureNode v \<longleftrightarrow>
     isRecord v \<and>
     hasStrings v [''rsu_id'', ''name'', ''status''] \<and>
     hasFiniteNumbers v [''x_m'', ''y_m'', ''coverage_radius_m'', ''active_advisories_count'']"

definition isV2xAdvisory :: "jsval \<Rightarrow> bool" where
  "isV2xAdvisory v \<longleftrightarrow>
     isRecord v \<and>
     hasStrings v [''message_id'', ''rsu_id'', ''rsu_name'', ''advisory_type'', ''title'', ''detail''] \<and>
     isFiniteNumber (js_get v ''timestamp_ms'') \<and>
     hasNullableFiniteNumbers v [''speed_limit_kmh'', ''expires_at_ms'', ''zone_x_m'', ''zone_y_m'',
       ''zone_radius_m'']"

definition isOptionalPayload :: "jsval \<Rightarrow> bool" where
  "isOptionalPayload v \<longleftrightarrow> v = JUndefined \<or> v = JNull \<or> isRecord v"

definition isV2xMessage :: "jsval \<Rightarrow> bool" where
  "isV2xMessage v \<longleftrightarrow>
     isRecord v \<and>
     hasStrings v [''message_id'', ''msg_type'', ''source_id'', ''target_id'', ''summary''] \<and>
     isFiniteNumber (js_get v ''timestamp_ms'') \<and>
     isOptionalPayload (js_get v ''bsm_payload'') \<and>
     isOptionalPayload (js_get v ''advisory_payload'')"

definition hasV2xShape :: "jsval \<Rightarrow> bool" where
  "hasV2xShape v \<longleftrightarrow>
     v = JUndefined \<or>
     (isRecord v \<and>
      is_bool (js_get v ''enabled'') \<and>
      hasStrings v [''node_id'', ''protocol_version''] \<and>
      hasFiniteNumbers v [''timestamp_ms'', ''tx_packet_count'', ''rx_packet_count'',
        ''channel_frequency_mhz''] \<and>
      every_item isV2xPeer (js_get v ''active_peers'') \<and>
      every_item isV2xInfrastructureNode (js_get v ''infrastructure_nodes'') \<and>
      every_item isV2xAdvisory (js_get v ''active_advisories'') \<and>
      every_item isV2xMessage (js_get v ''recent_messages''))"

definition undefined_or :: "(jsval \<Rightarrow> bool) \<Rightarrow> jsval \<Rightarrow> bool" where
  "undefined_or p v \<longleftrightarrow> v = JUndefined \<or> p v"

text \<open>The inline test of \<^verbatim>\<open>haul_route\<close>; \<^verbatim>\<open>== null\<close> holds of \<^verbatim>\<open>null\<close> and \<^verbatim>\<open>undefined\<close>.\<close>

definition hasHaulRouteShape :: "jsval \<Rightarrow> bool" where
  "hasHaulRouteShape v \<longleftrightarrow>
     v = JNull \<or> v = JUndefined \<or>
     (isRecord v \<and>
      hasStrings v [''origin'', ''destination'', ''next_instruction''] \<and>
      js_to_string (js_get v ''phase'') \<in> {''HAULING'', ''OBSTACLE'', ''WAITING'', ''ARRIVED''} \<and>
      hasFiniteNumbers v [''distance_m'', ''total_distance_m'', ''remaining_m'', ''elapsed_s'',
        ''obstacle_radius_m''] \<and>
      undefined_or (every_item isPoint2D) (js_get v ''planned_path'') \<and>
      undefined_or isNullableFiniteNumber (js_get v ''obstacle_distance_m'') \<and>
      undefined_or is_bool (js_get v ''traffic_slowing'') \<and>
      undefined_or is_bool (js_get v ''lead_waiting'') \<and>
      undefined_or is_bool (js_get v ''obstacle_detected'') \<and>
      (js_get v ''obstacle'' = JNull \<or> isPoint2D (js_get v ''obstacle'')))"

definition isWorldStateSnapshot :: "jsval \<Rightarrow> bool" where
  "isWorldStateSnapshot v =
     (if \<not> isRecord v then False
      else
        js_get v ''schema_version'' = JStr ''1.0'' \<and>
        hasMode (js_get v ''mode'') \<and>
        hasStrings v [''primary_vehicle_id''] \<and>
        hasFiniteNumbers v [''generated_at_ms'', ''sequence''] \<and>
        every_item isVehicle (js_get v ''vehicles'') \<and>
        undefined_or (every_item isVehicleTelemetry) (js_get v ''vehicle_telemetry'') \<and>
        hasReferenceMapShape (js_get v ''reference_map'') \<and>
        every_item isRange (js_get v ''ranges'') \<and>
        hasMotionShape (js_get v ''motion'') \<and>
        hasCameraShape (js_get v ''camera'') \<and>
        hasEnvironmentShape (js_get v ''environment'') \<and>
        every_item isLiveObject (js_get v ''live_objects'') \<and>
        every_item isRadarObject (js_get v ''radar_objects'') \<and>
        hasEmergencyShape (js_get v ''emergency'') \<and>
        every_item isSensorHealth (js_get v ''sensor_health'') \<and>
        hasCorridorShape (js_get v ''safe_corridor'') \<and>
        every_item isSpatialPoint (js_get v ''spatial_points'') \<and>
        hasOccupancyShape (js_get v ''occupancy'') \<and>
        every_item isAlert (js_get v ''alerts'') \<and>
        hasRecordingShape (js_get v ''recording'') \<and>
        hasSimulationShape (js_get v ''simulation'') \<and>
        hasV2xShape (js_get v ''v2x'') \<and>
        hasHaulRouteShape (js_get v ''haul_route''))"

end
