(* ===== verification/DefaultState.thy ===== *)
theory DefaultState
  imports SnapshotGuard
begin

text \<open>
  \<^verbatim>\<open>frontend/src/state/defaultState.ts\<close>: the world shown before any telemetry arrives. The hook
  keeps it as the value it will replace by parsed snapshots (\<open>defaultSnapshot\<close>); the selectors
  read its first vehicle at the declared type (\<open>defaultVehicle\<close>).
\<close>

definition defaultVehicle :: VehiclePose where
  "defaultVehicle = \<lparr>vp_haul = None, vp_timestamp_ms = 0, vp_vehicle_id = ''DUMPER_01'', vp_x_m = 0,
     vp_y_m = 0, vp_heading_deg = 0, vp_speed_mps = 0, vp_position_confidence = 0,
     vp_mode = SIMULATED\<rparr>"

definition defaultMotion :: jsval where
  "defaultMotion = JObj [(''timestamp_ms'', JNum 0), (''left_hall_ticks'', JNum 0),
     (''right_hall_ticks'', JNum 0), (''left_distance_m'', JNum 0), (''right_distance_m'', JNum 0),
     (''imu_heading_deg'', JNum 0), (''imu_yaw_rate_dps'', JNum 0), (''aruco_visible'', JBool False),
     (''localization_confidence'', JNum 0), (''provider_confidence'', JObj []),
     (''mode'', JStr ''SIMULATED'')]"

definition defaultCamera :: jsval where
  "defaultCamera = JObj [(''timestamp_ms'', JNum 0), (''raw_frame_id'', JNull),
     (''enhanced_frame_id'', JNull), (''raw_available'', JBool False),
     (''enhancement_available'', JBool False),
     (''metrics'', JObj [(''contrast'', JNum 0), (''edge_density'', JNum 0), (''brightness'', JNum 0),
        (''entropy'', JNum 0), (''haze_proxy'', JNum 1)]),
     (''visibility_score'', JNull), (''visibility_state'', JNull), (''stream_status'', JStr ''disabled''),
     (''stream_detail'', JNull), (''width_px'', JNull), (''height_px'', JNull),
     (''measured_fps'', JNum 0), (''enhancement_status'', JStr ''disabled''),
     (''enhancement_detail'', JNull), (''enhancement_model'', JNull), (''enhancement_device'', JNull),
     (''enhancement_precision'', JNull), (''enhancement_latency_ms'', JNull),
     (''enhancement_fps'', JNum 0), (''enhancement_peak_vram_mb'', JNum 0),
     (''ir_available'', JBool False), (''ir_frame_id'', JNull), (''ir_status'', JStr ''disabled''),
     (''ir_detail'', JNull), (''ir_model'', JNull), (''ir_device'', JNull), (''ir_precision'', JNull),
     (''ir_latency_ms'', JNull), (''ir_fps'', JNum 0), (''ir_peak_vram_mb'', JNum 0),
     (''mode'', JStr ''SIMULATED'')]"

definition defaultOperations :: jsval where
  "defaultOperations = JObj [(''network'', JNull), (''fleet'', JObj []), (''routes'', JObj []),
     (''guidance'', JObj []), (''reroute_advisories'', JArr []),
     (''analytics_summary'', JObj [(''total_completed_cycles'', JNum 0),
        (''total_ore_moved_tonnes'', JNum 0), (''avg_cycle_time_minutes'', JNum 0),
        (''fleet_utilization_pct'', JNum 0), (''total_distance_km'', JNum 0),
        (''route_compliance_pct'', JNull), (''active_fleet_count'', JNum 0),
        (''hourly_production_rate_tph'', JNum 0), (''recent_delay_events'', JArr [])]),
     (''provenance'', JStr ''SIMULATED_RUNTIME''), (''network_version'', JNum 1)]"

definition defaultSnapshot :: jsval where
  "defaultSnapshot = JObj [(''schema_version'', JStr ''1.0''), (''generated_at_ms'', JNum 0),
     (''sequence'', JNum 0), (''mode'', JStr ''SIMULATED''), (''primary_vehicle_id'', JStr ''DUMPER_01''),
     (''vehicles'', JArr [JObj [(''timestamp_ms'', JNum 0), (''vehicle_id'', JStr ''DUMPER_01''),
        (''x_m'', JNum 0), (''y_m'', JNum 0), (''heading_deg'', JNum 0), (''speed_mps'', JNum 0),
        (''position_confidence'', JNum 0), (''mode'', JStr ''SIMULATED'')]]),
     (''reference_map'', JNull), (''ranges'', JArr []), (''motion'', defaultMotion),
     (''camera'', defaultCamera),
     (''environment'', JObj [(''timestamp_ms'', JNum 0), (''temperature_c'', JNum 0),
        (''pressure_hpa'', JNum 0), (''relative_altitude_m'', JNum 0), (''visibility_score'', JNum 0),
        (''visibility_state'', JStr ''VERY_LOW''), (''mode'', JStr ''SIMULATED'')]),
     (''live_objects'', JArr []), (''radar_objects'', JArr []),
     (''emergency'', JObj [(''state'', JStr ''SAFE''), (''reason'', JNull),
        (''nearest_obstacle_m'', JNull), (''critical_distance_m'', JNull), (''confidence'', JNum 0),
        (''motor_cut'', JBool False), (''latched_at_ms'', JNull)]),
     (''sensor_health'', JArr []),
     (''safe_corridor'', JObj [(''state'', JStr ''GREY''), (''polygon'', JArr []),
        (''exclusions'', JArr []), (''confidence'', JNum 0),
        (''reason'', JStr ''No telemetry received'')]),
     (''spatial_points'', JArr []),
     (''occupancy'', JObj [(''resolution_m'', JNum (Fin 0.25)),
        (''origin'', JObj [(''x_m'', JNum 0), (''y_m'', JNum 0)]), (''width'', JNum 80),
        (''height'', JNum 128), (''occupied_cells'', JArr []), (''updated_at_ms'', JNum 0)]),
     (''alerts'', JArr []),
     (''recording'', JObj [(''recording'', JBool False), (''recording_filename'', JNull),
        (''replaying'', JBool False), (''replay_filename'', JNull)]),
     (''simulation'', JObj [(''running'', JBool True), (''scenario'', JStr ''NORMAL''),
        (''speed_scale'', JNum (Fin 1.5)), (''obstacle_enabled'', JBool False),
        (''visibility_score'', JNum (Fin 0.88)), (''front_scanner_angle_deg'', JNum 0),
        (''rear_scanner_angle_deg'', JNum 0)]),
     (''v2x'', JObj [(''timestamp_ms'', JNum 0), (''enabled'', JBool True),
        (''node_id'', JStr ''DUMPER_01''), (''protocol_version'', JStr ''1.0-DSRC-SIM''),
        (''tx_packet_count'', JNum 0), (''rx_packet_count'', JNum 0),
        (''channel_frequency_mhz'', JNum 5890), (''active_peers'', JArr []),
        (''infrastructure_nodes'', JArr []), (''active_advisories'', JArr []),
        (''recent_messages'', JArr [])]),
     (''operations'', defaultOperations)]"

lemmas guard_defs =
  isWorldStateSnapshot_def isRecord_def hasMode_def hasStrings_def hasFiniteNumbers_def
  hasNullableFiniteNumbers_def hasNullableStrings_def isFiniteNumber_def
  isNullableFiniteNumber_def isNullableString_def every_item_def undefined_or_def
  isPoint2D_def isVehicle_def hasReferenceMapShape_def hasMotionShape_def hasCameraShape_def
  hasEnvironmentShape_def hasEmergencyShape_def hasCorridorShape_def hasOccupancyShape_def
  hasRecordingShape_def hasSimulationShape_def hasV2xShape_def hasHaulRouteShape_def
  obj_entries_def DATA_MODES_def VISIBILITY_STATES_def EMERGENCY_STATES_def CORRIDOR_STATES_def
  SIMULATION_SCENARIOS_def

lemma default_motion_ok: "hasMotionShape defaultMotion"
  by (simp add: defaultMotion_def guard_defs)

lemma default_camera_ok: "hasCameraShape defaultCamera"
  by (simp add: defaultCamera_def guard_defs)

lemma default_snapshot_ok: "isWorldStateSnapshot defaultSnapshot"
  using default_motion_ok default_camera_ok
  by (simp add: defaultSnapshot_def guard_defs
      del: hasMotionShape_def hasCameraShape_def)

text \<open>A small world: the default vehicle, no sensors, good visibility, in an emergency stop.\<close>

definition sampleWorld :: WorldState where
  "sampleWorld = \<lparr>ws_vehicle_telemetry = None, ws_schema_version = ''1.0'', ws_generated_at_ms = 100,
     ws_sequence = 1, ws_mode = LIVE, ws_primary_vehicle_id = ''DUMPER_01'',
     ws_vehicles = [defaultVehicle, defaultVehicle\<lparr>vp_vehicle_id := ''DUMPER_02''\<rparr>],
     ws_reference_map = None, ws_ranges = [],
     ws_motion = \<lparr>mo_timestamp_ms = 0, mo_left_hall_ticks = 0, mo_right_hall_ticks = 0,
       mo_left_distance_m = 0, mo_right_distance_m = 0, mo_imu_heading_deg = 0,
       mo_imu_yaw_rate_dps = 0, mo_aruco_visible = False, mo_localization_confidence = 0,
       mo_provider_confidence = [], mo_mode = LIVE\<rparr>,
     ws_camera = \<lparr>cam_timestamp_ms = 0, cam_raw_frame_id = None, cam_enhanced_frame_id = None,
       cam_raw_available = False, cam_enhancement_available = False,
       cam_metrics = \<lparr>vm_contrast = 0, vm_edge_density = 0, vm_brightness = 0, vm_entropy = 0,
         vm_haze_proxy = 1\<rparr>,
       cam_visibility_score = None, cam_visibility_state = None,
       cam_stream_status = STREAM_DISABLED, cam_stream_detail = None, cam_width_px = None,
       cam_height_px = None, cam_measured_fps = 0, cam_enhancement_status = OPT_DISABLED,
       cam_enhancement_detail = None, cam_enhancement_model = None, cam_enhancement_device = None,
       cam_enhancement_precision = None, cam_enhancement_latency_ms = None,
       cam_enhancement_fps = 0, cam_enhancement_peak_vram_mb = 0, cam_ir_available = False,
       cam_ir_frame_id = None, cam_ir_status = OPT_DISABLED, cam_ir_detail = None,
       cam_ir_model = None, cam_ir_device = None, cam_ir_precision = None,
       cam_ir_latency_ms = None, cam_ir_fps = 0, cam_ir_peak_vram_mb = 0, cam_mode = LIVE\<rparr>,
     ws_environment = \<lparr>env_timestamp_ms = 0, env_temperature_c = 20, env_pressure_hpa = 1000,
       env_relative_altitude_m = 0, env_visibility_score = 1, env_visibility_state = GOOD,
       env_mode = LIVE\<rparr>,
     ws_live_objects = [], ws_radar_objects = [],
     ws_emergency = \<lparr>em_state = EMERGENCY_STOP, em_reason = None, em_nearest_obstacle_m = None,
       em_critical_distance_m = None, em_confidence = 1, em_motor_cut = True,
       em_latched_at_ms = None\<rparr>,
     ws_sensor_health = [],
     ws_safe_corridor = \<lparr>sc_state = GREY, sc_polygon = [], sc_exclusions = [], sc_confidence = 0,
       sc_reason = ''''\<rparr>,
     ws_spatial_points = [],
     ws_occupancy = \<lparr>occ_resolution_m = 1, occ_origin = \<lparr>pt_x_m = 0, pt_y_m = 0\<rparr>, occ_width = 0,
       occ_height = 0, occ_occupied_cells = [], occ_updated_at_ms = 0\<rparr>,
     ws_alerts = [],
     ws_recording = \<lparr>rec_recording = False, rec_recording_filename = None, rec_replaying = False,
       rec_replay_filename = None\<rparr>,
     ws_simulation = \<lparr>sim_running = False, sim_scenario = NORMAL, sim_speed_scale = 1,
       sim_obstacle_enabled = False, sim_visibility_score = 1, sim_front_scanner_angle_deg = 0,
       sim_rear_scanner_angle_deg = 0\<rparr>,
     ws_v2x = None, ws_haul_route = None, ws_operations = None\<rparr>"

end
