(* ===== verification/SnapshotTyped.thy ===== *)
theory SnapshotTyped
  imports DefaultState "HOL-Library.Monad_Syntax"
begin

text \<open>
  What the guard promises. Each decoder reads an untyped value at the declared record type of
  \<^verbatim>\<open>types.ts\<close> and fails unless every field has that type, with finite numbers and the literals
  of its union. The guard accepts a value exactly when it can be read (one lemma per shape),
  so an accepted snapshot gives the rest of the program well-typed, finite data.
\<close>

named_theorems guard_reads \<open>a shape test as the success of its decoder\<close>

section \<open>Reading fields\<close>

definition num_of :: "jsval \<Rightarrow> jsnum option" where
  "num_of v = (case v of JNum n \<Rightarrow> if isFinite n then Some n else None | _ \<Rightarrow> None)"

definition str_of :: "jsval \<Rightarrow> string option" where
  "str_of v = (case v of JStr s \<Rightarrow> Some s | _ \<Rightarrow> None)"

definition bool_of :: "jsval \<Rightarrow> bool option" where
  "bool_of v = (case v of JBool b \<Rightarrow> Some b | _ \<Rightarrow> None)"

definition nullable :: "(jsval \<Rightarrow> 'a option) \<Rightarrow> jsval \<Rightarrow> 'a option option" where
  "nullable f v = (if v = JNull then Some None else map_option Some (f v))"

definition enum_of :: "(string \<times> 'a) list \<Rightarrow> jsval \<Rightarrow> 'a option" where
  "enum_of table v = (case v of JStr s \<Rightarrow> map_of table s | _ \<Rightarrow> None)"

definition list_of :: "(jsval \<Rightarrow> 'a option) \<Rightarrow> jsval \<Rightarrow> 'a list option" where
  "list_of f v = (case v of JArr xs \<Rightarrow> those (map f xs) | _ \<Rightarrow> None)"

definition record_of :: "(jsval \<Rightarrow> 'a option) \<Rightarrow> jsval \<Rightarrow> 'a option" where
  "record_of f v = (if isRecord v then f v else None)"

definition readable :: "'a option \<Rightarrow> bool" where
  "readable x \<longleftrightarrow> x \<noteq> None"

lemma readable_Some [simp]: "readable (Some x)" "\<not> readable None"
  by (simp_all add: readable_def)

lemma readable_bind: "readable (Option.bind x f) \<longleftrightarrow> (\<exists>y. x = Some y \<and> readable (f y))"
  by (cases x) (simp_all add: readable_def)

lemma readable_iff: "readable x \<longleftrightarrow> (\<exists>y. x = Some y)"
  by (auto simp: readable_def)

lemma readable_those: "readable (those xs) \<longleftrightarrow> list_all readable xs"
  by (induction xs) (auto simp: readable_def split: option.splits)

lemma finite_reads [guard_reads]: "isFiniteNumber v \<longleftrightarrow> (\<exists>n. num_of v = Some n)"
  by (auto simp: isFiniteNumber_def num_of_def split: jsval.splits)

lemma nullable_finite_reads [guard_reads]:
  "isNullableFiniteNumber v \<longleftrightarrow> (\<exists>n. nullable num_of v = Some n)"
  by (auto simp: isNullableFiniteNumber_def nullable_def finite_reads)

lemma string_reads: "is_string v \<longleftrightarrow> (\<exists>s. str_of v = Some s)"
  by (auto simp: str_of_def split: jsval.splits)

lemma nullable_string_reads [guard_reads]:
  "isNullableString v \<longleftrightarrow> (\<exists>s. nullable str_of v = Some s)"
  by (auto simp: isNullableString_def nullable_def string_reads)

lemma hasStrings_reads [guard_reads]:
  "hasStrings v ks \<longleftrightarrow> list_all (\<lambda>k. \<exists>s. str_of (js_get v k) = Some s) ks"
  by (simp add: hasStrings_def string_reads)

lemma string_and_has [guard_reads]: "is_string v \<and> has xs v \<longleftrightarrow> has xs v"
  by (auto elim: hasE)

lemma bool_reads [guard_reads]: "is_bool v \<longleftrightarrow> (\<exists>b. bool_of v = Some b)"
  by (auto simp: bool_of_def split: jsval.splits)

lemma enum_reads:
  assumes "set xs = fst ` set table"
  shows "has xs v \<longleftrightarrow> (\<exists>c. enum_of table v = Some c)"
proof (cases v)
  case (JStr s)
  have "s \<in> set xs \<longleftrightarrow> map_of table s \<noteq> None"
    using assms by (simp add: map_of_eq_None_iff)
  with JStr show ?thesis by (simp add: enum_of_def)
qed (simp_all add: has_def enum_of_def)

lemma enum_of_string: "enum_of table v = Some c \<Longrightarrow> is_string v"
  by (auto simp: enum_of_def split: jsval.splits)

lemma every_reads:
  assumes "\<And>v. p v \<longleftrightarrow> readable (f v)"
  shows "every_item p v \<longleftrightarrow> readable (list_of f v)"
proof -
  have p: "p = (\<lambda>v. readable (f v))" using assms by blast
  show ?thesis
    by (cases v) (simp_all add: p every_item_def list_of_def readable_those list.pred_map comp_def)
qed

lemma num_of_finite: "num_of v = Some n \<Longrightarrow> isFinite n"
  by (auto simp: num_of_def split: jsval.splits if_splits)

lemma those_SomeD: "those xs = Some ys \<Longrightarrow> y \<in> set ys \<Longrightarrow> Some y \<in> set xs"
  by (induction xs arbitrary: ys) (auto split: option.splits)

lemma list_of_Some:
  assumes "list_of f v = Some ys" and "y \<in> set ys"
  obtains w where "f w = Some y"
  using assms that by (auto simp: list_of_def split: jsval.splits dest!: those_SomeD)

section \<open>Decoders\<close>

definition data_modes :: "(string \<times> DataMode) list" where
  "data_modes = [(''LIVE'', LIVE), (''SIMULATED'', SIMULATED), (''REPLAY'', REPLAY)]"

definition sensor_states :: "(string \<times> SensorStatus) list" where
  "sensor_states =
     [(''HEALTHY'', HEALTHY), (''DEGRADED'', DEGRADED), (''STALE'', STALE), (''OFFLINE'', OFFLINE)]"

definition visibility_states :: "(string \<times> VisibilityState) list" where
  "visibility_states =
     [(''GOOD'', GOOD), (''MODERATE'', MODERATE), (''LOW'', LOW), (''VERY_LOW'', VERY_LOW)]"

definition emergency_states :: "(string \<times> EmergencyLevel) list" where
  "emergency_states = [(''SAFE'', SAFE), (''WARNING'', WARNING), (''CRITICAL'', CRITICAL),
     (''EMERGENCY_STOP'', EMERGENCY_STOP)]"

lemma mode_reads [guard_reads]: "hasMode v \<longleftrightarrow> (\<exists>m. enum_of data_modes v = Some m)"
proof -
  have "has DATA_MODES v \<longleftrightarrow> (\<exists>m. enum_of data_modes v = Some m)"
    by (rule enum_reads) (simp add: DATA_MODES_def data_modes_def)
  then show ?thesis by (auto simp: hasMode_def elim: hasE)
qed

lemma enum_guard_reads [guard_reads]:
  "has SENSOR_STATES v \<longleftrightarrow> (\<exists>c. enum_of sensor_states v = Some c)"
  "has VISIBILITY_STATES v \<longleftrightarrow> (\<exists>c. enum_of visibility_states v = Some c)"
  "has EMERGENCY_STATES v \<longleftrightarrow> (\<exists>c. enum_of emergency_states v = Some c)"
  by (rule enum_reads; simp add: SENSOR_STATES_def sensor_states_def VISIBILITY_STATES_def
      visibility_states_def EMERGENCY_STATES_def emergency_states_def)+

definition decodeRange :: "jsval \<Rightarrow> RangeReading option" where
  "decodeRange = record_of (\<lambda>v. do {
     sensor_id \<leftarrow> str_of (js_get v ''sensor_id'');
     timestamp_ms \<leftarrow> num_of (js_get v ''timestamp_ms'');
     angle_deg \<leftarrow> num_of (js_get v ''angle_deg'');
     range_m \<leftarrow> num_of (js_get v ''range_m'');
     quality \<leftarrow> num_of (js_get v ''quality'');
     max_range_m \<leftarrow> num_of (js_get v ''max_range_m'');
     is_valid \<leftarrow> bool_of (js_get v ''is_valid'');
     mode \<leftarrow> enum_of data_modes (js_get v ''mode'');
     Some \<lparr>rr_timestamp_ms = timestamp_ms, rr_sensor_id = sensor_id, rr_angle_deg = angle_deg,
       rr_range_m = range_m, rr_quality = quality, rr_max_range_m = max_range_m,
       rr_is_valid = is_valid, rr_mode = mode\<rparr> })"

definition decodeSensorHealth :: "jsval \<Rightarrow> SensorHealth option" where
  "decodeSensorHealth = record_of (\<lambda>v. do {
     sensor_id \<leftarrow> str_of (js_get v ''sensor_id'');
     status \<leftarrow> enum_of sensor_states (js_get v ''status'');
     last_update_ms \<leftarrow> num_of (js_get v ''last_update_ms'');
     confidence \<leftarrow> num_of (js_get v ''confidence'');
     detail \<leftarrow> nullable str_of (js_get v ''detail'');
     Some \<lparr>sh_sensor_id = sensor_id, sh_status = status, sh_last_update_ms = last_update_ms,
       sh_confidence = confidence, sh_detail = detail\<rparr> })"

definition decodeSpatialPoint :: "jsval \<Rightarrow> SpatialPoint option" where
  "decodeSpatialPoint = record_of (\<lambda>v. do {
     source_sensor_id \<leftarrow> str_of (js_get v ''source_sensor_id'');
     x_m \<leftarrow> num_of (js_get v ''x_m'');
     y_m \<leftarrow> num_of (js_get v ''y_m'');
     height_hint_m \<leftarrow> num_of (js_get v ''height_hint_m'');
     quality \<leftarrow> num_of (js_get v ''quality'');
     timestamp_ms \<leftarrow> num_of (js_get v ''timestamp_ms'');
     Some \<lparr>sp_x_m = x_m, sp_y_m = y_m, sp_height_hint_m = height_hint_m,
       sp_source_sensor_id = source_sensor_id, sp_quality = quality, sp_timestamp_ms = timestamp_ms\<rparr> })"

definition decodeLiveObject :: "jsval \<Rightarrow> LiveObject option" where
  "decodeLiveObject = record_of (\<lambda>v. do {
     object_id \<leftarrow> str_of (js_get v ''object_id'');
     object_type \<leftarrow> str_of (js_get v ''object_type'');
     source \<leftarrow> str_of (js_get v ''source'');
     timestamp_ms \<leftarrow> num_of (js_get v ''timestamp_ms'');
     x_m \<leftarrow> num_of (js_get v ''x_m'');
     y_m \<leftarrow> num_of (js_get v ''y_m'');
     confidence \<leftarrow> num_of (js_get v ''confidence'');
     mode \<leftarrow> enum_of data_modes (js_get v ''mode'');
     Some \<lparr>lo_timestamp_ms = timestamp_ms, lo_object_id = object_id, lo_x_m = x_m, lo_y_m = y_m,
       lo_object_type = object_type, lo_confidence = confidence, lo_source = source, lo_mode = mode\<rparr> })"

definition decodeRadarObject :: "jsval \<Rightarrow> RadarObject option" where
  "decodeRadarObject = record_of (\<lambda>v. do {
     detection_id \<leftarrow> str_of (js_get v ''detection_id'');
     timestamp_ms \<leftarrow> num_of (js_get v ''timestamp_ms'');
     range_m \<leftarrow> num_of (js_get v ''range_m'');
     bearing_deg \<leftarrow> num_of (js_get v ''bearing_deg'');
     relative_velocity_mps \<leftarrow> num_of (js_get v ''relative_velocity_mps'');
     confidence \<leftarrow> num_of (js_get v ''confidence'');
     mode \<leftarrow> enum_of data_modes (js_get v ''mode'');
     Some \<lparr>ro_timestamp_ms = timestamp_ms, ro_detection_id = detection_id, ro_range_m = range_m,
       ro_bearing_deg = bearing_deg, ro_relative_velocity_mps = relative_velocity_mps,
       ro_confidence = confidence, ro_mode = mode\<rparr> })"

definition decodeEnvironment :: "jsval \<Rightarrow> EnvironmentState option" where
  "decodeEnvironment = record_of (\<lambda>v. do {
     timestamp_ms \<leftarrow> num_of (js_get v ''timestamp_ms'');
     temperature_c \<leftarrow> num_of (js_get v ''temperature_c'');
     pressure_hpa \<leftarrow> num_of (js_get v ''pressure_hpa'');
     relative_altitude_m \<leftarrow> num_of (js_get v ''relative_altitude_m'');
     visibility_score \<leftarrow> num_of (js_get v ''visibility_score'');
     visibility_state \<leftarrow> enum_of visibility_states (js_get v ''visibility_state'');
     mode \<leftarrow> enum_of data_modes (js_get v ''mode'');
     Some \<lparr>env_timestamp_ms = timestamp_ms, env_temperature_c = temperature_c,
       env_pressure_hpa = pressure_hpa, env_relative_altitude_m = relative_altitude_m,
       env_visibility_score = visibility_score, env_visibility_state = visibility_state,
       env_mode = mode\<rparr> })"

definition decodeEmergency :: "jsval \<Rightarrow> EmergencyState option" where
  "decodeEmergency = record_of (\<lambda>v. do {
     state \<leftarrow> enum_of emergency_states (js_get v ''state'');
     reason \<leftarrow> nullable str_of (js_get v ''reason'');
     nearest_obstacle_m \<leftarrow> nullable num_of (js_get v ''nearest_obstacle_m'');
     critical_distance_m \<leftarrow> nullable num_of (js_get v ''critical_distance_m'');
     confidence \<leftarrow> num_of (js_get v ''confidence'');
     motor_cut \<leftarrow> bool_of (js_get v ''motor_cut'');
     latched_at_ms \<leftarrow> nullable num_of (js_get v ''latched_at_ms'');
     Some \<lparr>em_state = state, em_reason = reason, em_nearest_obstacle_m = nearest_obstacle_m,
       em_critical_distance_m = critical_distance_m, em_confidence = confidence,
       em_motor_cut = motor_cut, em_latched_at_ms = latched_at_ms\<rparr> })"

text \<open>The part of \<^verbatim>\<open>VehiclePose\<close> the guard checks; \<^verbatim>\<open>haul\<close> is read as absent.\<close>

definition decodeVehicle :: "jsval \<Rightarrow> VehiclePose option" where
  "decodeVehicle = record_of (\<lambda>v. do {
     vehicle_id \<leftarrow> str_of (js_get v ''vehicle_id'');
     timestamp_ms \<leftarrow> num_of (js_get v ''timestamp_ms'');
     x_m \<leftarrow> num_of (js_get v ''x_m'');
     y_m \<leftarrow> num_of (js_get v ''y_m'');
     heading_deg \<leftarrow> num_of (js_get v ''heading_deg'');
     speed_mps \<leftarrow> num_of (js_get v ''speed_mps'');
     position_confidence \<leftarrow> num_of (js_get v ''position_confidence'');
     mode \<leftarrow> enum_of data_modes (js_get v ''mode'');
     Some \<lparr>vp_haul = None, vp_timestamp_ms = timestamp_ms, vp_vehicle_id = vehicle_id,
       vp_x_m = x_m, vp_y_m = y_m, vp_heading_deg = heading_deg, vp_speed_mps = speed_mps,
       vp_position_confidence = position_confidence, vp_mode = mode\<rparr> })"

section \<open>The guard accepts what can be read\<close>

lemmas shape_defs = record_of_def hasFiniteNumbers_def hasNullableFiniteNumbers_def readable_bind
  string_and_has

lemma isRange_reads: "isRange v \<longleftrightarrow> readable (decodeRange v)"
  by (auto simp: isRange_def decodeRange_def shape_defs guard_reads)

lemma isSensorHealth_reads: "isSensorHealth v \<longleftrightarrow> readable (decodeSensorHealth v)"
  by (auto simp: isSensorHealth_def decodeSensorHealth_def shape_defs guard_reads
      dest: enum_of_string)

lemma isSpatialPoint_reads: "isSpatialPoint v \<longleftrightarrow> readable (decodeSpatialPoint v)"
  by (auto simp: isSpatialPoint_def decodeSpatialPoint_def shape_defs guard_reads)

lemma isLiveObject_reads: "isLiveObject v \<longleftrightarrow> readable (decodeLiveObject v)"
  by (auto simp: isLiveObject_def decodeLiveObject_def shape_defs guard_reads)

lemma isRadarObject_reads: "isRadarObject v \<longleftrightarrow> readable (decodeRadarObject v)"
  by (auto simp: isRadarObject_def decodeRadarObject_def shape_defs guard_reads)

lemma hasEnvironmentShape_reads: "hasEnvironmentShape v \<longleftrightarrow> readable (decodeEnvironment v)"
  by (auto simp: hasEnvironmentShape_def decodeEnvironment_def shape_defs guard_reads
      dest: enum_of_string)

lemma hasEmergencyShape_reads: "hasEmergencyShape v \<longleftrightarrow> readable (decodeEmergency v)"
  by (auto simp: hasEmergencyShape_def decodeEmergency_def shape_defs guard_reads
      dest: enum_of_string)

lemma isVehicle_reads: "isVehicle v \<longleftrightarrow> readable (decodeVehicle v)"
  by (auto simp: isVehicle_def decodeVehicle_def shape_defs guard_reads)


section \<open>Finite data\<close>

definition finite_range :: "RangeReading \<Rightarrow> bool" where
  "finite_range r \<longleftrightarrow> list_all isFinite
     [rr_timestamp_ms r, rr_angle_deg r, rr_range_m r, rr_quality r, rr_max_range_m r]"

definition finite_point :: "SpatialPoint \<Rightarrow> bool" where
  "finite_point p \<longleftrightarrow> list_all isFinite
     [sp_x_m p, sp_y_m p, sp_height_hint_m p, sp_quality p, sp_timestamp_ms p]"

definition finite_vehicle :: "VehiclePose \<Rightarrow> bool" where
  "finite_vehicle v \<longleftrightarrow> list_all isFinite [vp_timestamp_ms v, vp_x_m v, vp_y_m v,
     vp_heading_deg v, vp_speed_mps v, vp_position_confidence v]"

lemma decodeRange_finite: "decodeRange v = Some r \<Longrightarrow> finite_range r"
  by (auto simp: decodeRange_def record_of_def finite_range_def bind_eq_Some_conv
      dest: num_of_finite split: if_splits)

lemma decodeSpatialPoint_finite: "decodeSpatialPoint v = Some p \<Longrightarrow> finite_point p"
  by (auto simp: decodeSpatialPoint_def record_of_def finite_point_def bind_eq_Some_conv
      dest: num_of_finite split: if_splits)

lemma decodeVehicle_finite: "decodeVehicle v = Some p \<Longrightarrow> finite_vehicle p"
  by (auto simp: decodeVehicle_def record_of_def finite_vehicle_def bind_eq_Some_conv
      dest: num_of_finite split: if_splits)

lemma list_of_all:
  assumes "list_of f v = Some ys" and "\<And>w y. f w = Some y \<Longrightarrow> P y"
  shows "list_all P ys"
  using assms by (metis list_all_iff list_of_Some)

lemmas read_lists_finite = list_of_all [OF _ decodeVehicle_finite]
  list_of_all [OF _ decodeRange_finite] list_of_all [OF _ decodeSpatialPoint_finite]

lemma guard_readable:
  assumes "isWorldStateSnapshot w"
  obtains vs rs ps los ros sh env em where
    "list_of decodeVehicle (js_get w ''vehicles'') = Some vs"
    "list_of decodeRange (js_get w ''ranges'') = Some rs"
    "list_of decodeSpatialPoint (js_get w ''spatial_points'') = Some ps"
    "list_of decodeLiveObject (js_get w ''live_objects'') = Some los"
    "list_of decodeRadarObject (js_get w ''radar_objects'') = Some ros"
    "list_of decodeSensorHealth (js_get w ''sensor_health'') = Some sh"
    "decodeEnvironment (js_get w ''environment'') = Some env"
    "decodeEmergency (js_get w ''emergency'') = Some em"
proof -
  note reads = every_reads [OF isVehicle_reads] every_reads [OF isRange_reads]
    every_reads [OF isSpatialPoint_reads] every_reads [OF isLiveObject_reads]
    every_reads [OF isRadarObject_reads] every_reads [OF isSensorHealth_reads]
    hasEnvironmentShape_reads hasEmergencyShape_reads readable_iff
  from assms show thesis
    by (auto simp: isWorldStateSnapshot_def reads split: if_splits intro: that)
qed

section \<open>Properties\<close>



text \<open>
  A GPS message the guard accepts with a fix carries a position on the globe and its age;
  satellite and byte counts are never negative.
\<close>

theorem gps_fix_located:
  assumes "isGpsTelemetry v" and "js_get v ''fix'' = JBool True"
  shows "\<exists>lat lon age sats bytes.
    js_get v ''lat'' = JNum (Fin lat) \<and> \<bar>lat\<bar> \<le> 90 \<and>
    js_get v ''lon'' = JNum (Fin lon) \<and> \<bar>lon\<bar> \<le> 180 \<and> js_get v ''age'' = JNum (Fin age) \<and>
    js_get v ''sats'' = JNum (Fin sats) \<and> 0 \<le> sats \<and>
    js_get v ''bytes'' = JNum (Fin bytes) \<and> 0 \<le> bytes"
proof -
  have num: "isFiniteNumber w \<Longrightarrow> \<exists>r. w = JNum (Fin r)" for w
    by (auto simp: isFiniteNumber_def isFinite_iff split: jsval.splits)
  have "isNullableFiniteNumber (js_get v k)" if "k \<in> {''lat'', ''lon'', ''age''}" for k
    using assms(1) that by (auto simp: isGpsTelemetry_def hasNullableFiniteNumbers_def split: if_splits)
  moreover have "js_get v ''lat'' \<noteq> JNull" "js_get v ''lon'' \<noteq> JNull" "js_get v ''age'' \<noteq> JNull"
    using assms by (auto simp: isGpsTelemetry_def truthy_def split: if_splits)
  ultimately obtain lat lon age where
    pos: "js_get v ''lat'' = JNum (Fin lat)" "js_get v ''lon'' = JNum (Fin lon)"
      "js_get v ''age'' = JNum (Fin age)"
    using num by (metis insertCI isNullableFiniteNumber_def)
  obtain sats bytes where count: "js_get v ''sats'' = JNum (Fin sats)" "js_get v ''bytes'' = JNum (Fin bytes)"
    using assms(1) num by (force simp: isGpsTelemetry_def hasFiniteNumbers_def split: if_splits)
  have "\<bar>lat\<bar> \<le> 90" "\<bar>lon\<bar> \<le> 180" "0 \<le> sats" "0 \<le> bytes"
    using assms(1) pos count
    by (auto simp: isGpsTelemetry_def num_below_def num_above_def split: if_splits)
  with pos count show ?thesis by simp
qed

theorem gps_fix_located_witness:
  "\<exists>lat. js_get (JObj [(''fix'', JBool True), (''sats'', JNum 7), (''bytes'', JNum 512),
      (''lat'', JNum 24), (''lon'', JNum 86), (''alt_m'', JNull), (''speed_mps'', JNull),
      (''hdop'', JNull), (''age'', JNum 3)]) ''lat'' = JNum (Fin lat) \<and> \<bar>lat\<bar> \<le> 90"
proof -
  let ?v = "JObj [(''fix'', JBool True), (''sats'', JNum 7), (''bytes'', JNum 512),
      (''lat'', JNum 24), (''lon'', JNum 86), (''alt_m'', JNull), (''speed_mps'', JNull),
      (''hdop'', JNull), (''age'', JNum 3)]"
  have "isGpsTelemetry ?v"
    by (simp add: isGpsTelemetry_def guard_defs num_below_def num_above_def)
  from gps_fix_located [OF this] show ?thesis by auto
qed

text \<open>
  The load telemetry as \<^verbatim>\<open>types.ts\<close> declares it, as the object a sender that follows the type
  would produce.
\<close>

definition encodeLoad :: "LoadTelemetry \<Rightarrow> jsval" where
  "encodeLoad l =
     (let opt = (\<lambda>x. case x of None \<Rightarrow> JNull | Some n \<Rightarrow> JNum n)
      in JObj [(''ready'', JBool (load_ready l)), (''tared'', JBool (load_tared l)),
           (''taring'', JBool (load_taring l)), (''calibrated'', JBool (load_calibrated l)),
           (''zero_offset'', JNum (load_zero_offset l)), (''raw'', opt (load_raw l)),
           (''net_raw'', opt (load_net_raw l)), (''kg'', opt (load_kg l))])"

text \<open>
  The guard and the declared type disagree on load telemetry: the guard requires the field
  \<^verbatim>\<open>age\<close> that \<^verbatim>\<open>LoadTelemetry\<close> does not declare, so a vehicle report that carries exactly
  the declared fields is rejected, and with it the whole snapshot.
\<close>

theorem declared_load_rejected:
  "\<not> isLoadTelemetry (encodeLoad l)"
  by (simp add: isLoadTelemetry_def encodeLoad_def hasNullableFiniteNumbers_def
      isNullableFiniteNumber_def isFiniteNumber_def Let_def)

end
