(* ===== verification/Telemetry.thy ===== *)
theory Telemetry
  imports DefaultState
begin

text \<open>
  The live telemetry connection: the third effect of \<^verbatim>\<open>useTelemetry\<close>
  (\<^verbatim>\<open>frontend/src/state/useTelemetry.ts\<close>). The state holds what React renders (world and
  connection) and the variables of the effect's closure; sockets and timers are numbered in
  the order they are created, and \<open>tl_timers\<close> lists the timeouts that have neither fired nor
  been cleared. Each callback is a function on the state; \<open>telemetry_step\<close> dispatches the
  events the browser can deliver, in any order.
\<close>

datatype ConnectionState = CONNECTING | CONNECTED | DISCONNECTED

definition TELEMETRY_STALE_MS :: jsnum where
  "TELEMETRY_STALE_MS = 5000"

definition FIRST_TELEMETRY_TIMEOUT_MS :: jsnum where
  "FIRST_TELEMETRY_TIMEOUT_MS = 8000"

text \<open>The three callbacks the effect hands to \<^verbatim>\<open>setTimeout\<close>.\<close>

datatype TimerKind = RetryConnect | StaleFor nat | StaleAfterClose

record Telemetry =
  tl_world :: jsval
  tl_connection :: ConnectionState
  tl_disposed :: bool
  tl_socket :: "nat option"
  tl_retryTimer :: "nat option"
  tl_staleTimer :: "nat option"
  tl_retryMs :: jsnum
  tl_mapKey :: string
  tl_referenceMap :: jsval
  tl_lastDataMs :: jsnum
  tl_timers :: "(nat \<times> TimerKind \<times> jsnum) list"
  tl_next :: nat
  tl_closeCalls :: "nat list"

section \<open>Timers and sockets\<close>

definition clearTimeout :: "nat option \<Rightarrow> Telemetry \<Rightarrow> Telemetry" where
  "clearTimeout handle s = s\<lparr>tl_timers := filter (\<lambda>t. Some (fst t) \<noteq> handle) (tl_timers s)\<rparr>"

text \<open>The new timer's number is \<open>tl_next s\<close>, which the caller stores as the handle.\<close>

definition setTimeout :: "TimerKind \<Rightarrow> jsnum \<Rightarrow> Telemetry \<Rightarrow> Telemetry" where
  "setTimeout kind delay s =
     s\<lparr>tl_timers := tl_timers s @ [(tl_next s, kind, delay)], tl_next := Suc (tl_next s)\<rparr>"

definition closeSocket :: "nat option \<Rightarrow> Telemetry \<Rightarrow> Telemetry" where
  "closeSocket previous s =
     (case previous of None \<Rightarrow> s | Some i \<Rightarrow> s\<lparr>tl_closeCalls := tl_closeCalls s @ [i]\<rparr>)"

definition disconnect :: "Telemetry \<Rightarrow> Telemetry" where
  "disconnect s =
     (let s1 = clearTimeout (tl_retryTimer s) s;
          s2 = clearTimeout (tl_staleTimer s1) s1;
          previous = tl_socket s2
      in closeSocket previous (s2\<lparr>tl_socket := None\<rparr>))"

section \<open>Applying a snapshot\<close>

text \<open>\<^verbatim>\<open>features?.length\<close> in a template string.\<close>

definition features_length :: "jsval \<Rightarrow> jsval" where
  "features_length v = (case v of JArr xs \<Rightarrow> JNum (Fin (of_nat (length xs))) | _ \<Rightarrow> JUndefined)"

definition mapKeyOf :: "jsval \<Rightarrow> string" where
  "mapKeyOf nextRefMap =
     (if truthy nextRefMap
      then js_to_string (js_get nextRefMap ''map_id'') @ '':'' @
        js_to_string (js_get nextRefMap ''created_at_ms'') @ '':'' @
        js_to_string (features_length (js_get nextRefMap ''features''))
      else '''')"

definition applyWorld :: "jsnum \<Rightarrow> jsval \<Rightarrow> Telemetry \<Rightarrow> Telemetry" where
  "applyWorld now nextWorld s =
     (let nextRefMap = js_get nextWorld ''reference_map'';
          nextMapKey = mapKeyOf nextRefMap;
          s1 = (if nextMapKey \<noteq> tl_mapKey s
                then s\<lparr>tl_referenceMap := nextRefMap, tl_mapKey := nextMapKey\<rparr> else s)
      in s1\<lparr>tl_lastDataMs := now,
            tl_world := js_set nextWorld ''reference_map'' (tl_referenceMap s1),
            tl_connection := CONNECTED\<rparr>)"

section \<open>Callbacks\<close>

text \<open>The HTTP snapshot; \<open>None\<close> stands for a failed request or a response that is not ok.\<close>

definition httpSnapshot :: "jsval option \<Rightarrow> jsnum \<Rightarrow> Telemetry \<Rightarrow> Telemetry" where
  "httpSnapshot data now s =
     (case data of
        None \<Rightarrow> s
      | Some d \<Rightarrow>
          if \<not> tl_disposed s \<and> truthy d \<and> isWorldStateSnapshot d then applyWorld now d s else s)"

definition armStaleTimer :: "nat \<Rightarrow> jsnum \<Rightarrow> Telemetry \<Rightarrow> Telemetry" where
  "armStaleTimer current delayMs s =
     (let s1 = clearTimeout (tl_staleTimer s) s
      in (setTimeout (StaleFor current) delayMs s1)\<lparr>tl_staleTimer := Some (tl_next s1)\<rparr>)"

definition connect :: "Telemetry \<Rightarrow> Telemetry" where
  "connect s =
     (if tl_disposed s \<or> tl_socket s \<noteq> None then s
      else
        let s1 = (if num_eq (tl_lastDataMs s) 0 then s\<lparr>tl_connection := CONNECTING\<rparr> else s);
            current = tl_next s1;
            s2 = s1\<lparr>tl_socket := Some current, tl_next := Suc current\<rparr>
        in armStaleTimer current FIRST_TELEMETRY_TIMEOUT_MS s2)"

definition onopen :: "nat \<Rightarrow> Telemetry \<Rightarrow> Telemetry" where
  "onopen current s =
     (if tl_socket s = Some current then armStaleTimer current FIRST_TELEMETRY_TIMEOUT_MS s else s)"

text \<open>A message: \<open>None\<close> when \<^verbatim>\<open>JSON.parse\<close> throws, else the parsed value.\<close>

definition onmessage :: "nat \<Rightarrow> jsval option \<Rightarrow> jsnum \<Rightarrow> Telemetry \<Rightarrow> Telemetry" where
  "onmessage current data now s =
     (if tl_socket s \<noteq> Some current \<or> tl_disposed s then s
      else
        case data of
          Some nextWorld \<Rightarrow>
            if isWorldStateSnapshot nextWorld
            then armStaleTimer current TELEMETRY_STALE_MS
                   ((applyWorld now nextWorld s)\<lparr>tl_retryMs := 1200\<rparr>)
            else closeSocket (Some current) (s\<lparr>tl_connection := DISCONNECTED\<rparr>)
        | None \<Rightarrow> closeSocket (Some current) (s\<lparr>tl_connection := DISCONNECTED\<rparr>))"

definition onerror :: "nat \<Rightarrow> Telemetry \<Rightarrow> Telemetry" where
  "onerror current s = closeSocket (Some current) s"

definition onclose :: "nat \<Rightarrow> jsnum \<Rightarrow> Telemetry \<Rightarrow> Telemetry" where
  "onclose current now s =
     (if tl_socket s \<noteq> Some current \<or> tl_disposed s then s
      else
        let s1 = clearTimeout (tl_staleTimer s) (s\<lparr>tl_socket := None\<rparr>);
            msSinceData = now - tl_lastDataMs s1;
            s2 = (if 0 < tl_lastDataMs s1 \<and> msSinceData < TELEMETRY_STALE_MS
                  then (setTimeout StaleAfterClose (TELEMETRY_STALE_MS - msSinceData) s1)
                         \<lparr>tl_staleTimer := Some (tl_next s1)\<rparr>
                  else s1\<lparr>tl_connection := DISCONNECTED\<rparr>);
            s3 = (setTimeout RetryConnect (tl_retryMs s2) s2)\<lparr>tl_retryTimer := Some (tl_next s2)\<rparr>
        in s3\<lparr>tl_retryMs := js_min (tl_retryMs s3 * Fin 1.25) 2000\<rparr>)"

definition runTimer :: "TimerKind \<Rightarrow> Telemetry \<Rightarrow> Telemetry" where
  "runTimer kind s =
     (case kind of
        RetryConnect \<Rightarrow> connect s
      | StaleFor current \<Rightarrow>
          if tl_socket s \<noteq> Some current then s else s\<lparr>tl_connection := DISCONNECTED\<rparr>
      | StaleAfterClose \<Rightarrow>
          if tl_socket s = None \<and> \<not> tl_disposed s then s\<lparr>tl_connection := DISCONNECTED\<rparr> else s)"

text \<open>A pending timer fires once; a cleared or fired one does nothing.\<close>

definition timerFires :: "nat \<Rightarrow> Telemetry \<Rightarrow> Telemetry" where
  "timerFires t s =
     (case map_of (tl_timers s) t of
        None \<Rightarrow> s
      | Some (kind, _) \<Rightarrow> runTimer kind (clearTimeout (Some t) s))"

definition visibilityChanged :: "bool \<Rightarrow> Telemetry \<Rightarrow> Telemetry" where
  "visibilityChanged hidden s =
     (if \<not> tl_disposed s \<and> \<not> hidden \<and> tl_socket s = None then connect s else s)"

definition disposeTelemetry :: "Telemetry \<Rightarrow> Telemetry" where
  "disposeTelemetry s = disconnect (s\<lparr>tl_disposed := True\<rparr>)"

section \<open>The effect as a machine\<close>

definition beforeConnect :: Telemetry where
  "beforeConnect = \<lparr>tl_world = defaultSnapshot, tl_connection = CONNECTING, tl_disposed = False,
     tl_socket = None, tl_retryTimer = None, tl_staleTimer = None, tl_retryMs = 1200,
     tl_mapKey = '''', tl_referenceMap = js_get defaultSnapshot ''reference_map'',
     tl_lastDataMs = 0, tl_timers = [], tl_next = 0, tl_closeCalls = []\<rparr>"

definition mountTelemetry :: Telemetry where
  "mountTelemetry = connect beforeConnect"

datatype TelemetryEvent =
  HttpSnapshot "jsval option" jsnum
| SocketOpen nat
| SocketMessage nat "jsval option" jsnum
| SocketError nat
| SocketClose nat jsnum
| TimerFires nat
| VisibilityChange bool
| Unmount

fun telemetry_step :: "TelemetryEvent \<Rightarrow> Telemetry \<Rightarrow> Telemetry" where
  "telemetry_step (HttpSnapshot data now) s = httpSnapshot data now s"
| "telemetry_step (SocketOpen i) s = onopen i s"
| "telemetry_step (SocketMessage i data now) s = onmessage i data now s"
| "telemetry_step (SocketError i) s = onerror i s"
| "telemetry_step (SocketClose i now) s = onclose i now s"
| "telemetry_step (TimerFires t) s = timerFires t s"
| "telemetry_step (VisibilityChange hidden) s = visibilityChanged hidden s"
| "telemetry_step Unmount s = disposeTelemetry s"

definition telemetry_run :: "TelemetryEvent list \<Rightarrow> Telemetry" where
  "telemetry_run es = fold telemetry_step es mountTelemetry"

section \<open>What the helpers leave alone\<close>

lemma clearTimeout_fields [simp]:
  "tl_world (clearTimeout h s) = tl_world s" "tl_connection (clearTimeout h s) = tl_connection s"
  "tl_disposed (clearTimeout h s) = tl_disposed s" "tl_socket (clearTimeout h s) = tl_socket s"
  "tl_retryTimer (clearTimeout h s) = tl_retryTimer s"
  "tl_staleTimer (clearTimeout h s) = tl_staleTimer s" "tl_retryMs (clearTimeout h s) = tl_retryMs s"
  "tl_mapKey (clearTimeout h s) = tl_mapKey s" "tl_referenceMap (clearTimeout h s) = tl_referenceMap s"
  "tl_lastDataMs (clearTimeout h s) = tl_lastDataMs s" "tl_next (clearTimeout h s) = tl_next s"
  "tl_timers (clearTimeout h s) = filter (\<lambda>t. Some (fst t) \<noteq> h) (tl_timers s)"
  by (simp_all add: clearTimeout_def)

lemma setTimeout_fields [simp]:
  "tl_world (setTimeout k d s) = tl_world s" "tl_connection (setTimeout k d s) = tl_connection s"
  "tl_disposed (setTimeout k d s) = tl_disposed s" "tl_socket (setTimeout k d s) = tl_socket s"
  "tl_retryTimer (setTimeout k d s) = tl_retryTimer s"
  "tl_staleTimer (setTimeout k d s) = tl_staleTimer s" "tl_retryMs (setTimeout k d s) = tl_retryMs s"
  "tl_mapKey (setTimeout k d s) = tl_mapKey s" "tl_referenceMap (setTimeout k d s) = tl_referenceMap s"
  "tl_lastDataMs (setTimeout k d s) = tl_lastDataMs s" "tl_next (setTimeout k d s) = Suc (tl_next s)"
  "tl_timers (setTimeout k d s) = tl_timers s @ [(tl_next s, k, d)]"
  by (simp_all add: setTimeout_def)

lemma closeSocket_fields [simp]:
  "tl_world (closeSocket i s) = tl_world s" "tl_connection (closeSocket i s) = tl_connection s"
  "tl_disposed (closeSocket i s) = tl_disposed s" "tl_socket (closeSocket i s) = tl_socket s"
  "tl_retryTimer (closeSocket i s) = tl_retryTimer s"
  "tl_staleTimer (closeSocket i s) = tl_staleTimer s" "tl_retryMs (closeSocket i s) = tl_retryMs s"
  "tl_mapKey (closeSocket i s) = tl_mapKey s" "tl_referenceMap (closeSocket i s) = tl_referenceMap s"
  "tl_lastDataMs (closeSocket i s) = tl_lastDataMs s" "tl_next (closeSocket i s) = tl_next s"
  "tl_timers (closeSocket i s) = tl_timers s"
  by (simp_all add: closeSocket_def split: option.splits)

lemmas handler_defs = httpSnapshot_def onopen_def onmessage_def onerror_def onclose_def
  timerFires_def runTimer_def visibilityChanged_def disposeTelemetry_def disconnect_def
  connect_def armStaleTimer_def Let_def

section \<open>The rendered world is always a validated snapshot\<close>

lemma guard_set_reference_map:
  assumes "isWorldStateSnapshot w" and "hasReferenceMapShape m"
  shows "isWorldStateSnapshot (js_set w ''reference_map'' m)"
proof -
  obtain kvs where w: "w = JObj kvs"
    using assms(1) by (cases w) (simp_all add: isWorldStateSnapshot_def isRecord_def)
  have rec: "isRecord (js_set w ''reference_map'' m)"
    by (simp add: w js_set_def isRecord_def)
  have get: "js_get (js_set w ''reference_map'' m) k =
      (if k = ''reference_map'' then m else js_get w k)" for k
    by (simp add: w js_get_set)
  from assms(1) have "isRecord w" by (simp add: w isRecord_def)
  with assms rec show ?thesis
    by (simp add: isWorldStateSnapshot_def get hasStrings_def hasFiniteNumbers_def)
qed

lemma guard_has_reference_map:
  "isWorldStateSnapshot w \<Longrightarrow> hasReferenceMapShape (js_get w ''reference_map'')"
  by (simp add: isWorldStateSnapshot_def split: if_splits)

definition retry_in_range :: "jsnum \<Rightarrow> bool" where
  "retry_in_range d \<longleftrightarrow> 1200 \<le> d \<and> d \<le> 2000"

lemma retry_backoff_in_range:
  "retry_in_range d \<Longrightarrow> retry_in_range (js_min (d * Fin (5/4)) (Fin 2000))"
  by (cases d) (auto simp: retry_in_range_def)

definition content_ok :: "Telemetry \<Rightarrow> bool" where
  "content_ok s \<longleftrightarrow> isWorldStateSnapshot (tl_world s) \<and> hasReferenceMapShape (tl_referenceMap s) \<and>
     js_get (tl_world s) ''reference_map'' = tl_referenceMap s \<and>
     mapKeyOf (tl_referenceMap s) = tl_mapKey s \<and> retry_in_range (tl_retryMs s)"

lemma applyWorld_content:
  assumes "content_ok s" and "isWorldStateSnapshot d"
  shows "content_ok (applyWorld now d s)"
proof -
  have "js_get (js_set d ''reference_map'' m) ''reference_map'' = m" for m
    using assms(2) by (cases d) (simp_all add: isWorldStateSnapshot_def isRecord_def js_get_set)
  with assms guard_has_reference_map [OF assms(2)] guard_set_reference_map [OF assms(2)]
  show ?thesis by (auto simp: content_ok_def applyWorld_def Let_def)
qed

lemma retry_initial: "retry_in_range 1200"
  by (simp add: retry_in_range_def)

lemma content_step: "content_ok s \<Longrightarrow> content_ok (telemetry_step e s)"
proof (cases e)
  case (HttpSnapshot data now)
  then show "content_ok s \<Longrightarrow> ?thesis"
    by (auto simp: httpSnapshot_def applyWorld_content split: option.splits)
next
  case (SocketMessage i data now)
  assume ok: "content_ok s"
  have "content_ok ((applyWorld now w s)\<lparr>tl_retryMs := 1200\<rparr>)" if "isWorldStateSnapshot w" for w
    using applyWorld_content [OF ok that] retry_initial by (simp add: content_ok_def)
  with ok show ?thesis
    using SocketMessage
    by (auto simp: onmessage_def armStaleTimer_def Let_def content_ok_def split: option.splits)
qed (auto simp: handler_defs content_ok_def retry_backoff_in_range split: option.splits TimerKind.splits)

lemma content_mount: "content_ok mountTelemetry"
proof -
  have "js_get defaultSnapshot ''reference_map'' = JNull"
    by (simp add: defaultSnapshot_def)
  then show ?thesis
    using default_snapshot_ok retry_initial
    by (simp add: mountTelemetry_def beforeConnect_def connect_def armStaleTimer_def Let_def
        content_ok_def hasReferenceMapShape_def mapKeyOf_def truthy_def num_eq_def)
qed

interpretation tl_content: machine mountTelemetry telemetry_step "\<lambda>_. True" content_ok
  by unfold_locales (simp_all add: content_mount content_step)

section \<open>Reconnection never gets stuck\<close>

text \<open>
  Timer numbers are fresh, the stale handle never names a reconnection timer, and while the
  component is mounted there is a socket or a pending reconnection.
\<close>

definition timers_ok :: "Telemetry \<Rightarrow> bool" where
  "timers_ok s \<longleftrightarrow>
     distinct (map fst (tl_timers s)) \<and>
     (\<forall>(t, k, d) \<in> set (tl_timers s). t < tl_next s \<and>
        (k = RetryConnect \<longrightarrow> retry_in_range d \<and> tl_staleTimer s \<noteq> Some t)) \<and>
     (\<forall>t. tl_staleTimer s = Some t \<longrightarrow> t < tl_next s) \<and>
     retry_in_range (tl_retryMs s)"

definition retry_pending :: "Telemetry \<Rightarrow> bool" where
  "retry_pending s \<longleftrightarrow> (\<exists>t d. (t, RetryConnect, d) \<in> set (tl_timers s) \<and> retry_in_range d)"

definition never_stuck :: "Telemetry \<Rightarrow> bool" where
  "never_stuck s \<longleftrightarrow> timers_ok s \<and> (tl_disposed s \<longrightarrow> tl_socket s = None) \<and>
     (\<not> tl_disposed s \<longrightarrow> tl_socket s \<noteq> None \<or> retry_pending s)"

lemma timers_ok_clear: "timers_ok s \<Longrightarrow> timers_ok (clearTimeout h s)"
  by (auto simp: timers_ok_def distinct_map_filter)

lemma timers_ok_fields [simp]:
  "timers_ok (s\<lparr>tl_connection := c\<rparr>) = timers_ok s" "timers_ok (s\<lparr>tl_socket := x\<rparr>) = timers_ok s"
  "timers_ok (s\<lparr>tl_retryTimer := h\<rparr>) = timers_ok s" "timers_ok (s\<lparr>tl_disposed := b\<rparr>) = timers_ok s"
  "timers_ok (closeSocket i s) = timers_ok s" "timers_ok (applyWorld now d s) = timers_ok s"
  by (simp_all add: timers_ok_def closeSocket_def applyWorld_def Let_def split: option.splits)

lemma timers_ok_retryMs: "timers_ok s \<Longrightarrow> retry_in_range d \<Longrightarrow> timers_ok (s\<lparr>tl_retryMs := d\<rparr>)"
  by (simp add: timers_ok_def)

lemma timers_ok_setTimeout:
  assumes "timers_ok s" and "k = RetryConnect \<longrightarrow> retry_in_range d"
  shows "timers_ok (setTimeout k d s)"
    and "k \<noteq> RetryConnect \<Longrightarrow> timers_ok ((setTimeout k d s)\<lparr>tl_staleTimer := Some (tl_next s)\<rparr>)"
proof -
  have "t < tl_next s" if "(t, k', d') \<in> set (tl_timers s)" for t k' d'
    using assms(1) that by (auto simp: timers_ok_def)
  then have "tl_next s \<notin> fst ` set (tl_timers s)" by fastforce
  with assms show "timers_ok (setTimeout k d s)"
    and "k \<noteq> RetryConnect \<Longrightarrow> timers_ok ((setTimeout k d s)\<lparr>tl_staleTimer := Some (tl_next s)\<rparr>)"
    by (auto simp: timers_ok_def less_Suc_eq)
qed

lemma timers_ok_arm: "timers_ok s \<Longrightarrow> timers_ok (armStaleTimer i d s)"
  by (simp add: armStaleTimer_def Let_def timers_ok_setTimeout(2) [of "clearTimeout _ _", simplified]
      timers_ok_clear)

lemma timers_ok_connect:
  assumes "timers_ok s"
  shows "timers_ok (connect s)"
proof -
  have "timers_ok (s\<lparr>tl_connection := c, tl_socket := x, tl_next := Suc (tl_next s)\<rparr>)"
    and "timers_ok (s\<lparr>tl_socket := x, tl_next := Suc (tl_next s)\<rparr>)" for c x
    using assms by (fastforce simp: timers_ok_def)+
  with assms show ?thesis by (simp add: connect_def Let_def timers_ok_arm)
qed

lemma connect_socket: "\<not> tl_disposed s \<Longrightarrow> tl_socket (connect s) \<noteq> None"
  by (auto simp: connect_def armStaleTimer_def Let_def)

lemma connect_disposed [simp]: "tl_disposed (connect s) = tl_disposed s"
  by (simp add: connect_def armStaleTimer_def Let_def)

lemma never_stuck_connect: "timers_ok s \<Longrightarrow> (tl_disposed s \<longrightarrow> tl_socket s = None) \<Longrightarrow>
    never_stuck (connect s)"
  using connect_socket [of s]
  by (auto simp: never_stuck_def timers_ok_connect) (simp add: connect_def)

lemma applyWorld_fields [simp]:
  "tl_disposed (applyWorld now d s) = tl_disposed s" "tl_socket (applyWorld now d s) = tl_socket s"
  "tl_timers (applyWorld now d s) = tl_timers s" "tl_next (applyWorld now d s) = tl_next s"
  "tl_staleTimer (applyWorld now d s) = tl_staleTimer s"
  "tl_retryTimer (applyWorld now d s) = tl_retryTimer s"
  "tl_retryMs (applyWorld now d s) = tl_retryMs s"
  "tl_connection (applyWorld now d s) = CONNECTED" "tl_lastDataMs (applyWorld now d s) = now"
  by (simp_all add: applyWorld_def Let_def)

lemma timers_ok_retry:
  assumes "timers_ok s"
  shows "timers_ok ((setTimeout RetryConnect (tl_retryMs s) s)\<lparr>tl_retryTimer := h,
    tl_retryMs := js_min (tl_retryMs s * Fin (5/4)) (Fin 2000)\<rparr>)"
proof -
  have range: "retry_in_range (tl_retryMs s)" using assms by (simp add: timers_ok_def)
  with assms have "timers_ok (setTimeout RetryConnect (tl_retryMs s) s)"
    by (simp add: timers_ok_setTimeout(1))
  with range show ?thesis by (simp add: timers_ok_retryMs retry_backoff_in_range)
qed

lemma timers_ok_onclose: "timers_ok s \<Longrightarrow> timers_ok (onclose i now s)"
proof (cases "tl_socket s \<noteq> Some i \<or> tl_disposed s")
  case True
  then show "timers_ok s \<Longrightarrow> ?thesis" by (simp add: onclose_def)
next
  case False
  assume ok: "timers_ok s"
  define s1 where "s1 = clearTimeout (tl_staleTimer s) (s\<lparr>tl_socket := None\<rparr>)"
  define s2 where "s2 = (if 0 < tl_lastDataMs s1 \<and> now - tl_lastDataMs s1 < TELEMETRY_STALE_MS
      then (setTimeout StaleAfterClose (TELEMETRY_STALE_MS - (now - tl_lastDataMs s1)) s1)
             \<lparr>tl_staleTimer := Some (tl_next s1)\<rparr>
      else s1\<lparr>tl_connection := DISCONNECTED\<rparr>)"
  have "timers_ok s1" using ok by (simp add: s1_def timers_ok_clear)
  then have "timers_ok s2" by (simp add: s2_def timers_ok_setTimeout(2))
  moreover have "onclose i now s = (setTimeout RetryConnect (tl_retryMs s2) s2)
      \<lparr>tl_retryTimer := Some (tl_next s2), tl_retryMs := js_min (tl_retryMs s2 * Fin (5/4)) (Fin 2000)\<rparr>"
    using False by (simp add: onclose_def Let_def s1_def s2_def)
  ultimately show ?thesis by (simp add: timers_ok_retry)
qed

lemma never_stuck_onclose:
  assumes "never_stuck s"
  shows "never_stuck (onclose i now s)"
proof (cases "tl_socket s \<noteq> Some i \<or> tl_disposed s")
  case True
  with assms show ?thesis by (simp add: onclose_def)
next
  case False
  have "timers_ok (onclose i now s)" and "retry_in_range (tl_retryMs s)"
    using assms by (simp_all add: never_stuck_def timers_ok_onclose) (simp add: timers_ok_def)
  moreover from this(2) False have "retry_pending (onclose i now s)"
    by (auto simp: onclose_def retry_pending_def Let_def)
  ultimately show ?thesis
    using False by (simp add: never_stuck_def) (simp add: onclose_def Let_def)
qed

lemma never_stuck_timer:
  assumes "never_stuck s"
  shows "never_stuck (timerFires t s)"
proof (cases "map_of (tl_timers s) t")
  case None
  with assms show ?thesis by (simp add: timerFires_def)
next
  case (Some kd)
  obtain k d where kd: "kd = (k, d)" by (cases kd)
  have ok: "timers_ok (clearTimeout (Some t) s)" and dis: "tl_disposed s \<longrightarrow> tl_socket s = None"
    using assms by (auto simp: never_stuck_def timers_ok_clear)
  have "(t, k', d') \<in> set (tl_timers s) \<Longrightarrow> k' = k" for k' d'
    using assms Some kd map_of_eq_Some_iff [of "tl_timers s" t]
    by (auto simp: never_stuck_def timers_ok_def)
  then have keep: "k \<noteq> RetryConnect \<Longrightarrow> retry_pending s \<Longrightarrow> retry_pending (clearTimeout (Some t) s)"
    by (force simp: retry_pending_def)
  have fired: "timerFires t s = runTimer k (clearTimeout (Some t) s)"
    using Some kd by (simp add: timerFires_def)
  show ?thesis
  proof (cases "k = RetryConnect")
    case True
    then show ?thesis
      using never_stuck_connect [OF ok] dis by (simp add: fired runTimer_def)
  next
    case False
    with assms keep have "never_stuck (clearTimeout (Some t) s)"
      using ok by (auto simp: never_stuck_def)
    with False show ?thesis
      by (cases k) (auto simp: fired runTimer_def never_stuck_def retry_pending_def)
  qed
qed

lemma arm_fields [simp]:
  "tl_world (armStaleTimer i d s) = tl_world s"
  "tl_connection (armStaleTimer i d s) = tl_connection s"
  "tl_disposed (armStaleTimer i d s) = tl_disposed s" "tl_socket (armStaleTimer i d s) = tl_socket s"
  "tl_lastDataMs (armStaleTimer i d s) = tl_lastDataMs s"
  by (simp_all add: armStaleTimer_def Let_def)

lemma never_stuck_socket: "timers_ok s \<Longrightarrow> \<not> tl_disposed s \<Longrightarrow> tl_socket s \<noteq> None \<Longrightarrow> never_stuck s"
  by (simp add: never_stuck_def)

lemma never_stuck_fields [simp]:
  "never_stuck (s\<lparr>tl_connection := c\<rparr>) = never_stuck s"
  "never_stuck (closeSocket i s) = never_stuck s"
  "never_stuck (applyWorld now d s) = never_stuck s"
  by (simp_all add: never_stuck_def retry_pending_def)

lemma never_stuck_onmessage: "never_stuck s \<Longrightarrow> never_stuck (onmessage i data now s)"
proof -
  assume ok: "never_stuck s"
  then have "timers_ok s" by (simp add: never_stuck_def)
  then have "timers_ok ((applyWorld now w s)\<lparr>tl_retryMs := 1200\<rparr>)" for w
    by (simp add: timers_ok_retryMs retry_initial del: num_literals)
  then have "never_stuck (armStaleTimer j d ((applyWorld now w s)\<lparr>tl_retryMs := 1200\<rparr>))"
    if "\<not> tl_disposed s" "tl_socket s \<noteq> None" for w j d
    using that by (simp add: never_stuck_socket timers_ok_arm del: num_literals)
  with ok show ?thesis
    by (auto simp: onmessage_def simp del: num_literals split: option.splits)
qed

lemma never_stuck_onopen: "never_stuck s \<Longrightarrow> never_stuck (onopen i s)"
  by (auto simp: onopen_def never_stuck_def timers_ok_arm)

lemma never_stuck_step: "never_stuck s \<Longrightarrow> never_stuck (telemetry_step e s)"
proof (cases e)
  case (VisibilityChange hidden)
  assume "never_stuck s"
  with VisibilityChange show ?thesis
    using never_stuck_connect [of s] by (simp add: visibilityChanged_def never_stuck_def)
next
  case Unmount
  assume "never_stuck s"
  with Unmount show ?thesis
    by (simp add: disposeTelemetry_def disconnect_def Let_def never_stuck_def timers_ok_clear)
qed (auto simp: never_stuck_onclose never_stuck_timer never_stuck_onopen never_stuck_onmessage
      httpSnapshot_def onerror_def split: option.splits)

lemma never_stuck_mount: "never_stuck mountTelemetry"
proof -
  have "timers_ok beforeConnect"
    using retry_initial by (simp add: timers_ok_def beforeConnect_def)
  then show ?thesis
    unfolding mountTelemetry_def by (rule never_stuck_connect) (simp add: beforeConnect_def)
qed

interpretation tl_alive: machine mountTelemetry telemetry_step "\<lambda>_. True" never_stuck
  by unfold_locales (simp_all add: never_stuck_mount never_stuck_step)

section \<open>After unmounting nothing changes\<close>

definition unmounted :: "Telemetry \<Rightarrow> bool" where
  "unmounted s \<longleftrightarrow> tl_disposed s \<and> tl_socket s = None"

definition shown :: "Telemetry \<Rightarrow> jsval \<times> ConnectionState" where
  "shown s = (tl_world s, tl_connection s)"

lemma unmounted_step:
  "unmounted s \<Longrightarrow> unmounted (telemetry_step e s) \<and> shown (telemetry_step e s) = shown s"
  by (cases e) (simp_all add: handler_defs unmounted_def shown_def split: option.splits TimerKind.splits)

interpretation tl_unmount: disposable_machine mountTelemetry telemetry_step "\<lambda>_. True" content_ok
  unmounted shown
  by unfold_locales (rule unmounted_step)

section \<open>The staleness watchdog\<close>

text \<open>A pending timer that will report the loss of the feed when it fires.\<close>

definition guards :: "nat option \<Rightarrow> TimerKind \<Rightarrow> bool" where
  "guards sock k \<longleftrightarrow> (case sock of Some i \<Rightarrow> k = StaleFor i | None \<Rightarrow> k = StaleAfterClose)"

definition watched :: "Telemetry \<Rightarrow> bool" where
  "watched s \<longleftrightarrow> timers_ok s \<and>
     (tl_connection s = CONNECTED \<and> \<not> tl_disposed s \<longrightarrow>
       (\<exists>(t, k, d) \<in> set (tl_timers s). guards (tl_socket s) k))"

text \<open>Events other than the arrival of the HTTP snapshot.\<close>

fun not_http_data :: "TelemetryEvent \<Rightarrow> bool" where
  "not_http_data (HttpSnapshot data now) = (data = None)"
| "not_http_data _ = True"

lemma watched_arm:
  "timers_ok s \<Longrightarrow> tl_socket s = Some i \<Longrightarrow> watched (armStaleTimer i d s)"
  by (auto simp: watched_def timers_ok_arm) (simp add: armStaleTimer_def guards_def Let_def)

lemma watched_connect: "watched s \<Longrightarrow> watched (connect s)"
proof (cases "tl_disposed s \<or> tl_socket s \<noteq> None")
  case False
  assume "watched s"
  then have "timers_ok (connect s)" by (simp add: watched_def timers_ok_connect)
  with False show ?thesis
    by (simp add: watched_def) (simp add: connect_def armStaleTimer_def guards_def Let_def)
qed (simp add: connect_def)

lemma watched_onmessage: "watched s \<Longrightarrow> watched (onmessage i data now s)"
proof -
  assume ok: "watched s"
  then have "timers_ok s" by (simp add: watched_def)
  then have t: "timers_ok ((applyWorld now w s)\<lparr>tl_retryMs := 1200\<rparr>)" for w
    by (simp add: timers_ok_retryMs retry_initial del: num_literals)
  have "watched (armStaleTimer i d ((applyWorld now w s)\<lparr>tl_retryMs := 1200\<rparr>))"
    if "tl_socket s = Some i" for w d
    by (rule watched_arm [OF t]) (simp add: that)
  moreover have "watched (closeSocket (Some i) (s\<lparr>tl_connection := DISCONNECTED\<rparr>))"
    using ok by (simp add: watched_def)
  ultimately show ?thesis
    using ok by (auto simp: onmessage_def simp del: num_literals split: option.splits)
qed

lemma watched_onclose: "watched s \<Longrightarrow> watched (onclose i now s)"
proof (cases "tl_socket s \<noteq> Some i \<or> tl_disposed s")
  case True
  then show "watched s \<Longrightarrow> ?thesis" by (simp add: onclose_def)
next
  case False
  assume ok: "watched s"
  then have "timers_ok (onclose i now s)"
    using timers_ok_onclose [of s i now] by (simp add: watched_def)
  with False show ?thesis
    by (auto simp: watched_def) (auto simp: onclose_def guards_def Let_def split: if_splits)
qed

lemma watched_timer: "watched s \<Longrightarrow> watched (timerFires t s)"
proof (cases "map_of (tl_timers s) t")
  case None
  then show "watched s \<Longrightarrow> ?thesis" by (simp add: timerFires_def)
next
  case (Some kd)
  assume ok: "watched s"
  obtain k d where kd: "kd = (k, d)" by (cases kd)
  have fired: "timerFires t s = runTimer k (clearTimeout (Some t) s)"
    using Some kd by (simp add: timerFires_def)
  have t_ok: "timers_ok (clearTimeout (Some t) s)"
    using ok by (simp add: watched_def timers_ok_clear)
  have same: "(t, k', d') \<in> set (tl_timers s) \<Longrightarrow> k' = k" for k' d'
    using ok Some kd map_of_eq_Some_iff [of "tl_timers s" t]
    by (auto simp: watched_def timers_ok_def)
  show ?thesis
  proof (cases "guards (tl_socket s) k")
    case True
    with t_ok show ?thesis
      by (cases k)
        (auto simp: fired runTimer_def guards_def watched_def split: option.splits)
  next
    case False
    have "watched (clearTimeout (Some t) s)"
      using ok t_ok same False by (fastforce simp: watched_def)
    then show ?thesis
      using False
      by (cases k) (auto simp: fired runTimer_def watched_connect guards_def split: option.splits)
  qed
qed

lemma watched_step: "watched s \<Longrightarrow> not_http_data e \<Longrightarrow> watched (telemetry_step e s)"
proof (cases e)
  case (SocketOpen i)
  assume "watched s"
  moreover from this have "timers_ok s" by (simp add: watched_def)
  ultimately show ?thesis using SocketOpen by (simp add: onopen_def watched_arm)
next
  case (SocketError i)
  assume "watched s"
  with SocketError show ?thesis by (simp add: onerror_def watched_def)
next
  case (VisibilityChange hidden)
  assume "watched s"
  with VisibilityChange show ?thesis by (simp add: visibilityChanged_def watched_connect)
next
  case Unmount
  assume "watched s"
  with Unmount show ?thesis
    by (simp add: disposeTelemetry_def disconnect_def Let_def watched_def timers_ok_clear)
qed (simp_all add: httpSnapshot_def watched_onmessage watched_onclose watched_timer)

interpretation tl_watch: machine mountTelemetry telemetry_step not_http_data watched
proof unfold_locales
  have "timers_ok mountTelemetry" using never_stuck_mount by (simp add: never_stuck_def)
  moreover have "tl_connection mountTelemetry = CONNECTING"
    by (simp add: mountTelemetry_def beforeConnect_def connect_def Let_def num_eq_def)
  ultimately show "watched mountTelemetry" by (simp add: watched_def)
qed (rule watched_step)

section \<open>Properties\<close>

text \<open>
  C2. Whatever the socket, the HTTP request, the timers and the user do, in whatever order, the
  rendered world is a value the snapshot guard accepts, its reference map is the one the
  effect kept, and the kept map is the one its key was computed from.
\<close>

theorem rendered_world_validated:
  "isWorldStateSnapshot (tl_world (telemetry_run es)) \<and>
   js_get (tl_world (telemetry_run es)) ''reference_map'' = tl_referenceMap (telemetry_run es) \<and>
   mapKeyOf (tl_referenceMap (telemetry_run es)) = tl_mapKey (telemetry_run es)"
  using tl_content.run_inv [of es] by (simp add: telemetry_run_def content_ok_def list_all_iff)

text \<open>
  C3. The connection never gets stuck: while the component is mounted, either a socket is
  open or opening, or a reconnection timer is pending whose delay is between 1200 and 2000 ms
  and which opens a socket when it fires.
\<close>

theorem mounted_reconnects:
  assumes "s = telemetry_run es" and "\<not> tl_disposed s" and "tl_socket s = None"
  shows "\<exists>(t, k, d) \<in> set (tl_timers s).
    k = RetryConnect \<and> 1200 \<le> d \<and> d \<le> 2000 \<and> tl_socket (timerFires t s) \<noteq> None"
proof -
  have alive: "never_stuck s"
    using tl_alive.run_inv [of es] by (simp add: telemetry_run_def list_all_iff assms(1))
  then obtain t d where td: "(t, RetryConnect, d) \<in> set (tl_timers s)" "retry_in_range d"
    using assms(2,3) by (auto simp: never_stuck_def retry_pending_def)
  with alive have "map_of (tl_timers s) t = Some (RetryConnect, d)"
    by (simp add: never_stuck_def timers_ok_def)
  then have "tl_socket (timerFires t s) \<noteq> None"
    using connect_socket assms(2) by (simp add: timerFires_def runTimer_def)
  with td show ?thesis by (auto simp: retry_in_range_def)
qed

theorem mounted_reconnects_witness:
  "\<exists>(t, k, d) \<in> set (tl_timers (telemetry_run [SocketClose 0 100])).
    k = RetryConnect \<and> 1200 \<le> d \<and> d \<le> 2000 \<and>
    tl_socket (timerFires t (telemetry_run [SocketClose 0 100])) \<noteq> None"
  by (rule mounted_reconnects [OF refl])
    (simp_all add: telemetry_run_def mountTelemetry_def beforeConnect_def handler_defs num_eq_def)

text \<open>
  After the component is unmounted nothing it renders changes any more, whatever timers,
  socket events or HTTP responses are still delivered.
\<close>

theorem unmounted_frozen:
  "shown (telemetry_run (es @ Unmount # fs)) = shown (telemetry_run es)"
proof -
  let ?s = "fold telemetry_step es mountTelemetry"
  have "unmounted (telemetry_step Unmount ?s)" "shown (telemetry_step Unmount ?s) = shown ?s"
    by (simp_all add: disposeTelemetry_def disconnect_def unmounted_def shown_def Let_def)
  then show ?thesis
    using tl_unmount.disposed_run [of "telemetry_step Unmount ?s" fs] by (simp add: telemetry_run_def)
qed

text \<open>
  C4. Staleness watchdog: when the data comes over the socket, a mounted component that shows
  CONNECTED always has a pending timer that turns the state to DISCONNECTED if it fires.
\<close>

theorem feed_loss_reported:
  assumes "s = telemetry_run es" and "list_all not_http_data es"
    and "\<not> tl_disposed s" and "tl_connection s = CONNECTED"
  shows "\<exists>t. map_of (tl_timers s) t \<noteq> None \<and> tl_connection (timerFires t s) = DISCONNECTED"
proof -
  have "watched s"
    using tl_watch.run_inv [OF assms(2)] by (simp add: telemetry_run_def assms(1))
  then obtain t k d where tk: "(t, k, d) \<in> set (tl_timers s)" "guards (tl_socket s) k"
    and "distinct (map fst (tl_timers s))"
    using assms(3,4) by (auto simp: watched_def timers_ok_def)
  then have "map_of (tl_timers s) t = Some (k, d)" by simp
  with tk(2) assms(3) show ?thesis
    by (intro exI [of _ t])
      (auto simp: timerFires_def runTimer_def guards_def split: option.splits)
qed

theorem feed_loss_reported_witness:
  "\<exists>t. map_of (tl_timers (telemetry_run [SocketMessage 0 (Some defaultSnapshot) 50])) t \<noteq> None \<and>
    tl_connection (timerFires t (telemetry_run [SocketMessage 0 (Some defaultSnapshot) 50]))
      = DISCONNECTED"
  by (rule feed_loss_reported [OF refl])
    (simp_all add: telemetry_run_def mountTelemetry_def beforeConnect_def handler_defs num_eq_def
      default_snapshot_ok)

text \<open>
  The hypothesis on the HTTP snapshot cannot be dropped: the response that arrives after the
  first-data timer has fired turns the state to CONNECTED without arming a timer, so a feed
  that never sends anything stays shown as CONNECTED with no timer left to correct it.
\<close>

theorem late_snapshot_unwatched:
  "let s = telemetry_run [TimerFires 1, HttpSnapshot (Some defaultSnapshot) 10000]
   in tl_connection s = CONNECTED \<and> \<not> tl_disposed s \<and> tl_socket s = Some 0 \<and> tl_timers s = []"
proof -
  have "truthy defaultSnapshot" by (simp add: defaultSnapshot_def truthy_def)
  then show ?thesis
    by (simp add: telemetry_run_def mountTelemetry_def beforeConnect_def handler_defs num_eq_def
        default_snapshot_ok)
qed

end
