(* ===== verification/Selectors.thy ===== *)
theory Selectors
  imports DefaultState
begin

text \<open>
  What the views read from a snapshot: \<^verbatim>\<open>frontend/src/state/rangeReadings.ts\<close> (trusted range
  readings) and \<^verbatim>\<open>frontend/src/state/selectors.ts\<close> (primary vehicle, nearest obstacle, sensor
  health).
\<close>

section \<open>Range readings\<close>

definition isUsableRangeReading :: "RangeReading \<Rightarrow> bool" where
  "isUsableRangeReading reading \<longleftrightarrow>
     rr_is_valid reading \<and> isFinite (rr_range_m reading) \<and> 0 < rr_range_m reading \<and>
     Fin 0.5 \<le> rr_quality reading"

definition usableRangeReadings :: "RangeReading list \<Rightarrow> RangeReading list" where
  "usableRangeReadings readings = filter isUsableRangeReading readings"

text \<open>The sensors whose readings count: \<^verbatim>\<open>new Set\<close> of the ids with a working status.\<close>

definition availableSensorIds :: "SensorHealth list \<Rightarrow> string list" where
  "availableSensorIds sensorHealth =
     map sh_sensor_id
       (filter (\<lambda>sensor. sh_status sensor = HEALTHY \<or> sh_status sensor = DEGRADED) sensorHealth)"

definition availableRangeReadings ::
    "RangeReading list \<Rightarrow> SensorHealth list \<Rightarrow> bool \<Rightarrow> RangeReading list" where
  "availableRangeReadings readings sensorHealth telemetryConnected =
     (if \<not> telemetryConnected then []
      else filter (\<lambda>reading. rr_sensor_id reading \<in> set (availableSensorIds sensorHealth))
        (usableRangeReadings readings))"

section \<open>Selectors\<close>

definition EXPECTED_TOF_SENSOR_COUNT :: nat where
  "EXPECTED_TOF_SENSOR_COUNT = 5"

definition TOF_SENSOR_IDS :: "string list" where
  "TOF_SENSOR_IDS =
     [''front_scanner'', ''front_fixed'', ''rear_scanner'', ''left_side'', ''right_side'']"

definition primaryVehicleOrNull :: "WorldState \<Rightarrow> VehiclePose option" where
  "primaryVehicleOrNull world =
     find (\<lambda>vehicle. vp_vehicle_id vehicle = ws_primary_vehicle_id world) (ws_vehicles world)"

definition primaryVehicle :: "WorldState \<Rightarrow> VehiclePose" where
  "primaryVehicle world =
     (case primaryVehicleOrNull world of Some vehicle \<Rightarrow> vehicle | None \<Rightarrow> defaultVehicle)"

definition nearestRange :: "RangeReading list \<Rightarrow> jsnum option" where
  "nearestRange readings =
     (let trusted = usableRangeReadings readings
      in if 0 < length trusted then Some (js_min_list (map rr_range_m trusted)) else None)"

definition healthySensorCount :: "WorldState \<Rightarrow> nat" where
  "healthySensorCount world =
     length (filter (\<lambda>sensor. sh_status sensor = HEALTHY) (ws_sensor_health world))"

definition missingSensor :: "string \<Rightarrow> SensorHealth" where
  "missingSensor sensorId = \<lparr>sh_sensor_id = sensorId, sh_status = OFFLINE, sh_last_update_ms = 0,
     sh_confidence = 0, sh_detail = Some ''No status received''\<rparr>"

definition tofSensorHealth :: "SensorHealth list \<Rightarrow> SensorHealth list" where
  "tofSensorHealth sensors =
     (let healthById = map_from (map (\<lambda>sensor. (sh_sensor_id sensor, sensor))
            (filter (\<lambda>sensor. sh_sensor_id sensor \<in> set TOF_SENSOR_IDS) sensors))
      in map (\<lambda>sensorId. case map_of healthById sensorId of
           Some sensor \<Rightarrow> sensor | None \<Rightarrow> missingSensor sensorId) TOF_SENSOR_IDS)"

record TofSummary =
  tof_healthy :: nat
  tof_total :: nat

definition tofSensorHealthSummary :: "SensorHealth list \<Rightarrow> TofSummary" where
  "tofSensorHealthSummary sensors =
     \<lparr>tof_healthy = length (filter (\<lambda>sensor. sh_status sensor = HEALTHY) (tofSensorHealth sensors)),
      tof_total = EXPECTED_TOF_SENSOR_COUNT\<rparr>"

definition formatNumber :: "jsnum \<Rightarrow> nat \<Rightarrow> string" where
  "formatNumber value digits = (if isFinite value then toFixed value digits else ''--'')"

section \<open>Lemmas\<close>

lemma usable_range_Fin:
  "isUsableRangeReading r \<Longrightarrow> \<exists>d. rr_range_m r = Fin d \<and> 0 < d"
  by (auto simp: isUsableRangeReading_def isFinite_iff)

lemma find_last_filter:
  assumes "\<And>x. Q x \<Longrightarrow> P x"
  shows "find Q (rev (filter P xs)) = find Q (rev xs)"
proof -
  have "find Q (filter P ys) = find Q ys" for ys
    using assms by (induction ys) auto
  then show ?thesis by (simp add: rev_filter)
qed

lemma nearestRange_Nil: "usableRangeReadings rs = [] \<Longrightarrow> nearestRange rs = None"
  by (simp add: nearestRange_def)

lemma nearestRange_attained:
  assumes "usableRangeReadings rs \<noteq> []"
  obtains r m where "nearestRange rs = Some (Fin m)" "0 < m" "r \<in> set (usableRangeReadings rs)"
    "rr_range_m r = Fin m" "\<forall>r' \<in> set (usableRangeReadings rs). Fin m \<le> rr_range_m r'"
proof -
  have "\<forall>r \<in> set (usableRangeReadings rs). isFinite (rr_range_m r)"
    by (auto simp: usableRangeReadings_def dest: usable_range_Fin)
  then obtain g where g: "map rr_range_m (usableRangeReadings rs) =
        map Fin (map g (usableRangeReadings rs))"
      "\<forall>r \<in> set (usableRangeReadings rs). rr_range_m r = Fin (g r)"
    by (metis finite_numbers_as_map map_map)
  define m where "m = Min (g ` set (usableRangeReadings rs))"
  have near: "nearestRange rs = Some (Fin m)"
    using assms unfolding nearestRange_def m_def by (simp add: g(1) js_min_list_Fin del: map_map)
  have "m \<in> g ` set (usableRangeReadings rs)"
    using assms unfolding m_def by (intro Min_in) auto
  then obtain r where r: "r \<in> set (usableRangeReadings rs)" "rr_range_m r = Fin m"
    using g(2) by auto
  have "\<forall>r' \<in> set (usableRangeReadings rs). Fin m \<le> rr_range_m r'"
    using g(2) by (simp add: m_def)
  moreover have "0 < m" using r usable_range_Fin [of r] by (auto simp: usableRangeReadings_def)
  ultimately show thesis using near r that by blast
qed

lemma nearestRange_positive: "nearestRange rs \<in> insert None (Some ` Fin ` {0<..})"
  by (cases "usableRangeReadings rs = []")
    (auto simp: nearestRange_Nil elim: nearestRange_attained)

text \<open>The last report of a sensor.\<close>

definition lastReport :: "SensorHealth list \<Rightarrow> string \<Rightarrow> SensorHealth option" where
  "lastReport sensors i = find (\<lambda>s. sh_sensor_id s = i) (rev sensors)"

lemma tofSensorHealth_eq:
  "tofSensorHealth sensors =
     map (\<lambda>i. case lastReport sensors i of Some s \<Rightarrow> s | None \<Rightarrow> missingSensor i) TOF_SENSOR_IDS"
  unfolding tofSensorHealth_def Let_def
proof (rule map_cong [OF refl])
  fix i assume "i \<in> set TOF_SENSOR_IDS"
  then have "find (\<lambda>s. sh_sensor_id s = i)
      (rev (filter (\<lambda>s. sh_sensor_id s \<in> set TOF_SENSOR_IDS) sensors)) = lastReport sensors i"
    unfolding lastReport_def by (intro find_last_filter) auto
  then show "(case map_of (map_from (map (\<lambda>s. (sh_sensor_id s, s))
        (filter (\<lambda>s. sh_sensor_id s \<in> set TOF_SENSOR_IDS) sensors))) i of
      Some s \<Rightarrow> s | None \<Rightarrow> missingSensor i) =
    (case lastReport sensors i of Some s \<Rightarrow> s | None \<Rightarrow> missingSensor i)"
    by (simp add: map_of_map_from_keyed)
qed

lemma lastReport_id: "lastReport sensors i = Some s \<Longrightarrow> sh_sensor_id s = i \<and> s \<in> set sensors"
  by (auto simp: lastReport_def find_Some_iff) (metis nth_mem set_rev length_rev)

section \<open>Properties\<close>

text \<open>
  The nearest obstacle distance is the least range among the trusted readings: it is
  absent exactly when no reading is trusted, otherwise it is positive, it is the range of a
  trusted reading, and no trusted reading is nearer.
\<close>

theorem nearestRange_least:
  "case nearestRange readings of
     None \<Rightarrow> list_all (\<lambda>r. \<not> isUsableRangeReading r) readings
   | Some m \<Rightarrow> 0 < m \<and> list_ex (\<lambda>r. isUsableRangeReading r \<and> rr_range_m r = m) readings \<and>
       list_all (\<lambda>r. isUsableRangeReading r \<longrightarrow> m \<le> rr_range_m r) readings"
proof (cases "usableRangeReadings readings = []")
  case True
  then show ?thesis
    by (simp add: nearestRange_Nil usableRangeReadings_def filter_empty_conv list_all_iff)
next
  case False
  then show ?thesis
    by (rule nearestRange_attained)
      (auto simp: usableRangeReadings_def list_ex_iff list_all_iff)
qed

theorem nearestRange_least_witness:
  "case nearestRange [\<lparr>rr_timestamp_ms = 1, rr_sensor_id = ''front_fixed'', rr_angle_deg = 0,
      rr_range_m = 2, rr_quality = 1, rr_max_range_m = 4, rr_is_valid = True, rr_mode = LIVE\<rparr>] of
     None \<Rightarrow> False | Some m \<Rightarrow> m = 2"
  using nearestRange_least [of "[\<lparr>rr_timestamp_ms = 1, rr_sensor_id = ''front_fixed'',
      rr_angle_deg = 0, rr_range_m = 2, rr_quality = 1, rr_max_range_m = 4, rr_is_valid = True,
      rr_mode = LIVE\<rparr>]"]
  by (simp add: isUsableRangeReading_def split: option.splits)

text \<open>
  The sensor panel always shows the five known sensors in their fixed order; each shows the
  last report received from it, or an OFFLINE entry when there is none; the healthy count is
  the number of known sensors whose last report is HEALTHY, so it never exceeds the total.
\<close>

theorem tof_panel_correct:
  "map sh_sensor_id (tofSensorHealth sensors) = TOF_SENSOR_IDS \<and>
   tofSensorHealth sensors =
     map (\<lambda>i. case lastReport sensors i of Some s \<Rightarrow> s | None \<Rightarrow> missingSensor i) TOF_SENSOR_IDS \<and>
   tof_healthy (tofSensorHealthSummary sensors) =
     card {i \<in> set TOF_SENSOR_IDS. map_option sh_status (lastReport sensors i) = Some HEALTHY} \<and>
   tof_healthy (tofSensorHealthSummary sensors) \<le> tof_total (tofSensorHealthSummary sensors)"
proof -
  have ids: "map sh_sensor_id (tofSensorHealth sensors) = TOF_SENSOR_IDS"
    by (auto simp: tofSensorHealth_eq missingSensor_def lastReport_id intro!: map_idI
        split: option.splits)
  have "sh_status (case lastReport sensors i of Some s \<Rightarrow> s | None \<Rightarrow> missingSensor i) = HEALTHY \<longleftrightarrow>
      map_option sh_status (lastReport sensors i) = Some HEALTHY" for i
    by (simp add: missingSensor_def split: option.splits)
  then have "tof_healthy (tofSensorHealthSummary sensors) =
      length (filter (\<lambda>i. map_option sh_status (lastReport sensors i) = Some HEALTHY) TOF_SENSOR_IDS)"
    by (simp add: tofSensorHealthSummary_def tofSensorHealth_eq filter_map comp_def)
  moreover have "distinct TOF_SENSOR_IDS" by (simp add: TOF_SENSOR_IDS_def)
  ultimately have count: "tof_healthy (tofSensorHealthSummary sensors) =
      card {i \<in> set TOF_SENSOR_IDS. map_option sh_status (lastReport sensors i) = Some HEALTHY}"
    by (metis distinct_card distinct_filter set_filter)
  have "tof_healthy (tofSensorHealthSummary sensors) \<le> length (tofSensorHealth sensors)"
    by (simp add: tofSensorHealthSummary_def)
  with ids count show ?thesis
    by (simp add: tofSensorHealth_eq tofSensorHealthSummary_def EXPECTED_TOF_SENSOR_COUNT_def
        TOF_SENSOR_IDS_def)
qed

end
