(* ===== verification/SpatialPoints.thy ===== *)
theory SpatialPoints
  imports Selectors SensorSettings
begin

text \<open>
  The point cloud the views draw: \<^verbatim>\<open>frontend/src/state/spatialPoints.ts\<close>. The points a working
  sensor measured recently and within its display range are reduced to one per display cell,
  grouped by sensor, and dealt round-robin up to a budget.
\<close>

definition MAX_POINT_AGE_MS :: jsnum where
  "MAX_POINT_AGE_MS = 12000"

definition MAX_RENDERED_POINTS :: nat where
  "MAX_RENDERED_POINTS = 240"

definition DISPLAY_CELL_M :: jsnum where
  "DISPLAY_CELL_M = Fin 0.04"

definition spatialPointCellKey :: "SpatialPoint \<Rightarrow> string" where
  "spatialPointCellKey point =
     sp_source_sensor_id point @ '':'' @ num_str (js_round (sp_x_m point / DISPLAY_CELL_M)) @
     '':'' @ num_str (js_round (sp_y_m point / DISPLAY_CELL_M))"

definition isUsableSpatialPoint :: "SpatialPoint \<Rightarrow> jsnum \<Rightarrow> bool" where
  "isUsableSpatialPoint point generatedAtMs =
     (let ageMs = generatedAtMs - sp_timestamp_ms point
      in isFinite (sp_x_m point) \<and> isFinite (sp_y_m point) \<and> Fin 0.5 \<le> sp_quality point \<and>
         0 \<le> ageMs \<and> ageMs \<le> MAX_POINT_AGE_MS)"

text \<open>The local function \<^verbatim>\<open>withinRange\<close>, with the variables it closes over as arguments.\<close>

definition withinRange ::
    "(string \<times> SensorDisplaySetting) list option \<Rightarrow> VehiclePose \<Rightarrow> jsnum \<Rightarrow> SpatialPoint \<Rightarrow> bool" where
  "withinRange settingsById vehicle displayRadiusM point =
     (let heading = vp_heading_deg vehicle * js_pi / 180;
          cosine = js_cos heading;
          sine = js_sin heading;
          dx = sp_x_m point - vp_x_m vehicle;
          dy = sp_y_m point - vp_y_m vehicle
      in case settingsById of
           None \<Rightarrow> js_hypot dx dy \<le> displayRadiusM
         | Some settings \<Rightarrow>
             (case map_of settings (sp_source_sensor_id point) of
                None \<Rightarrow> False
              | Some sensor \<Rightarrow>
                  js_hypot (dx * cosine - dy * sine - pose_x_m (sd_display_pose sensor))
                    (dx * sine + dy * cosine - pose_y_m (sd_display_pose sensor))
                    \<le> sd_visual_range_m sensor))"

definition settingsMap ::
    "SensorDisplaySetting list option \<Rightarrow> (string \<times> SensorDisplaySetting) list option" where
  "settingsMap sensors =
     map_option (\<lambda>ss. map_from (map (\<lambda>sensor. (sd_sensor_id sensor, sensor)) ss)) sensors"

text \<open>The test of the filter that yields \<^verbatim>\<open>usable\<close>.\<close>

definition displayable ::
    "SensorHealth list \<Rightarrow> jsnum \<Rightarrow> VehiclePose \<Rightarrow> jsnum \<Rightarrow> SensorDisplaySetting list option \<Rightarrow>
     SpatialPoint \<Rightarrow> bool" where
  "displayable sensorHealth generatedAtMs vehicle displayRadiusM sensors point \<longleftrightarrow>
     sp_source_sensor_id point \<in> set (availableSensorIds sensorHealth) \<and>
     isUsableSpatialPoint point generatedAtMs \<and>
     withinRange (settingsMap sensors) vehicle displayRadiusM point"

text \<open>The loop body that fills \<^verbatim>\<open>cells\<close>, and the one that fills \<^verbatim>\<open>bySensor\<close>.\<close>

definition recordCell ::
    "SpatialPoint \<Rightarrow> (string \<times> SpatialPoint) list \<Rightarrow> (string \<times> SpatialPoint) list" where
  "recordCell point cells =
     (let key = spatialPointCellKey point
      in case map_of cells key of
           None \<Rightarrow> AList.update key point cells
         | Some previous \<Rightarrow>
             if sp_timestamp_ms previous \<le> sp_timestamp_ms point
             then AList.update key point cells else cells)"

definition addToBucket ::
    "SpatialPoint \<Rightarrow> (string \<times> SpatialPoint list) list \<Rightarrow> (string \<times> SpatialPoint list) list" where
  "addToBucket point bySensor =
     (let bucket = (case map_of bySensor (sp_source_sensor_id point) of Some b \<Rightarrow> b | None \<Rightarrow> [])
      in AList.update (sp_source_sensor_id point) (bucket @ [point]) bySensor)"

text \<open>One pass of the round-robin over the buckets, and the outer loop.\<close>

definition selectFrom ::
    "nat \<Rightarrow> SpatialPoint list \<Rightarrow> SpatialPoint list \<times> bool \<Rightarrow> SpatialPoint list \<times> bool" where
  "selectFrom index bucket =
     (\<lambda>(selected, found).
        if index < length bucket \<and> length selected < MAX_RENDERED_POINTS
        then (selected @ [bucket ! index], True) else (selected, found))"

definition selectRound ::
    "nat \<Rightarrow> SpatialPoint list list \<Rightarrow> SpatialPoint list \<Rightarrow> SpatialPoint list \<times> bool" where
  "selectRound index buckets selected = fold (selectFrom index) buckets (selected, False)"

lemma selectRound_grows:
  "fold (selectFrom i) bs (sel, f) = (sel', f') \<Longrightarrow>
     length sel \<le> length sel' \<and> (f' \<longrightarrow> f \<or> length sel < length sel')"
proof (induction bs arbitrary: sel f)
  case Nil
  then show ?case by simp
next
  case (Cons b bs)
  show ?case
  proof (cases "i < length b \<and> length sel < MAX_RENDERED_POINTS")
    case True
    with Cons.prems Cons.IH [of "sel @ [b ! i]" True] show ?thesis by (simp add: selectFrom_def)
  next
    case False
    with Cons.prems Cons.IH [of sel f] show ?thesis by (auto simp: selectFrom_def)
  qed
qed

function selectPoints ::
    "nat \<Rightarrow> SpatialPoint list list \<Rightarrow> SpatialPoint list \<Rightarrow> SpatialPoint list" where
  "selectPoints index buckets selected =
     (if length selected < MAX_RENDERED_POINTS then
        (case selectRound index buckets selected of
           (selected', found) \<Rightarrow> if found then selectPoints (Suc index) buckets selected' else selected')
      else selected)"
  by pat_completeness auto

termination
  by (relation "measure (\<lambda>(_, _, selected). MAX_RENDERED_POINTS - length selected)")
    (auto simp: selectRound_def dest!: sym [of "(_, True)"] selectRound_grows)

declare selectPoints.simps [simp del]

definition availableSpatialPoints ::
    "SpatialPoint list \<Rightarrow> SensorHealth list \<Rightarrow> bool \<Rightarrow> jsnum \<Rightarrow> VehiclePose \<Rightarrow> jsnum \<Rightarrow>
     SensorDisplaySetting list option \<Rightarrow> SpatialPoint list" where
  "availableSpatialPoints points sensorHealth telemetryConnected generatedAtMs vehicle
       displayRadiusM sensors =
     (if \<not> telemetryConnected then []
      else
        let usable = filter (displayable sensorHealth generatedAtMs vehicle displayRadiusM sensors)
              points;
            cells = fold recordCell usable [];
            bySensor = fold addToBucket (js_sort (key_after sp_timestamp_ms) (map snd cells)) [];
            selected = selectPoints 0 (map snd bySensor) []
        in js_sort (key_before sp_timestamp_ms) selected)"

section \<open>The round-robin deals by columns\<close>

text \<open>
  Reference definition: the points at index \<open>i\<close> of the buckets that are long enough, bucket by
  bucket, for increasing \<open>i\<close>; the loop returns the first \<open>MAX_RENDERED_POINTS\<close> of them.
\<close>

definition column :: "'a list list \<Rightarrow> nat \<Rightarrow> 'a list" where
  "column bs i = map (\<lambda>b. b ! i) (filter (\<lambda>b. i < length b) bs)"

lemma column_simps [simp]:
  "column [] i = []"
  "column (b # bs) i = (if i < length b then b ! i # column bs i else column bs i)"
  by (simp_all add: column_def)

lemma selectRound_column:
  assumes "length sel \<le> MAX_RENDERED_POINTS"
  shows "fold (selectFrom i) bs (sel, f) =
    (take MAX_RENDERED_POINTS (sel @ column bs i),
     f \<or> (length sel < MAX_RENDERED_POINTS \<and> column bs i \<noteq> []))"
  using assms
proof (induction bs arbitrary: sel f)
  case Nil
  then show ?case by simp
next
  case (Cons b bs)
  show ?case
  proof (cases "i < length b \<and> length sel < MAX_RENDERED_POINTS")
    case True
    with Cons.IH [of "sel @ [b ! i]" True] show ?thesis
      by (cases "MAX_RENDERED_POINTS - length sel") (auto simp: selectFrom_def)
  next
    case False
    with Cons.prems Cons.IH [of sel f] show ?thesis by (auto simp: selectFrom_def)
  qed
qed

lemma column_empty: "column bs i = [] \<Longrightarrow> i \<le> j \<Longrightarrow> column bs j = []"
  by (fastforce simp: column_def filter_empty_conv)

lemma concat_columns_empty: "column bs i = [] \<Longrightarrow> concat (map (column bs) [i..<n]) = []"
  by (simp add: column_empty)

lemma take_take_append: "take n (take n xs @ ys) = take n (xs @ ys)"
  by (cases "length xs \<le> n") simp_all

lemma selectPoints_columns:
  assumes "length sel \<le> MAX_RENDERED_POINTS" and "\<forall>b \<in> set bs. length b \<le> n"
  shows "selectPoints i bs sel =
    take MAX_RENDERED_POINTS (sel @ concat (map (column bs) [i..<n]))"
  using assms
proof (induction i bs sel rule: selectPoints.induct)
  case (1 i bs sel)
  show ?case
  proof (cases "length sel < MAX_RENDERED_POINTS \<and> column bs i \<noteq> []")
    case True
    then have "i < n"
      using "1.prems"(2) by (fastforce simp: column_def filter_empty_conv)
    then have split: "[i..<n] = i # [Suc i..<n]" by (simp add: upt_conv_Cons)
    have round: "selectRound i bs sel = (take MAX_RENDERED_POINTS (sel @ column bs i), True)"
      using True by (simp add: selectRound_def selectRound_column)
    have "selectPoints (Suc i) bs (take MAX_RENDERED_POINTS (sel @ column bs i)) =
        take MAX_RENDERED_POINTS (take MAX_RENDERED_POINTS (sel @ column bs i) @
          concat (map (column bs) [Suc i..<n]))"
      using True "1.prems"(2) by (intro "1.IH" [OF _ round [symmetric]]) (simp_all del: take_append)
    with True round show ?thesis
      by (simp add: selectPoints.simps [of i] split take_take_append del: take_append)
  next
    case False
    then show ?thesis
      using "1.prems"
      by (auto simp: selectPoints.simps [of i] selectRound_def selectRound_column concat_columns_empty)
  qed
qed

text \<open>All the columns together are the buckets' points.\<close>

lemma mset_column_Cons:
  "mset (column (b # bs) i) = (if i < length b then {#b ! i#} else {#}) + mset (column bs i)"
  by simp

lemma mset_single_column:
  assumes "length b \<le> n"
  shows "(\<Sum>i \<leftarrow> [0..<n]. if i < length b then {#b ! i#} else {#}) = mset b"
proof -
  have singles: "(\<Sum>i \<leftarrow> xs. {#f i#}) = mset (map f xs)" for f :: "nat \<Rightarrow> 'a" and xs
    by (induction xs) simp_all
  have zeros: "(\<Sum>i \<leftarrow> [length b..<n]. if i < length b then {#b ! i#} else {#}) = {#}"
  proof -
    have "map (\<lambda>i. if i < length b then {#b ! i#} else {#}) [length b..<n] =
        map (\<lambda>_. {#}) [length b..<n]"
      by simp
    then show ?thesis by (simp only: sum_list_0)
  qed
  have "[0..<n] = [0..<length b] @ [length b..<n]"
    using assms by (metis le0 le_add_diff_inverse upt_add_eq_append)
  moreover have "map (\<lambda>i. if i < length b then {#b ! i#} else {#}) [0..<length b] =
      map (\<lambda>i. {#b ! i#}) [0..<length b]"
    by simp
  ultimately show ?thesis by (simp only: map_append sum_list_append zeros singles map_nth) simp
qed

lemma mset_columns:
  assumes "\<forall>b \<in> set bs. length b \<le> n"
  shows "mset (concat (map (column bs) [0..<n])) = mset (concat bs)"
proof -
  have "(\<Sum>i \<leftarrow> [0..<n]. mset (column bs i)) = mset (concat bs)"
    using assms
  proof (induction bs)
    case Nil
    then show ?case by (simp add: sum_list_0)
  next
    case (Cons b bs)
    then show ?case
      by (simp only: mset_column_Cons sum_list_addf) (simp add: mset_single_column)
  qed
  then show ?thesis by (simp add: mset_concat comp_def)
qed

section \<open>Cells and buckets\<close>

definition cells_ok :: "SpatialPoint set \<Rightarrow> (string \<times> SpatialPoint) list \<Rightarrow> bool" where
  "cells_ok P cells \<longleftrightarrow>
     distinct (map fst cells) \<and>
     (\<forall>(k, p) \<in> set cells. k = spatialPointCellKey p \<and> p \<in> P) \<and>
     (\<forall>p \<in> P. \<exists>q. map_of cells (spatialPointCellKey p) = Some q \<and>
        sp_timestamp_ms p \<le> sp_timestamp_ms q)"

lemma recordCell_ok:
  assumes ok: "cells_ok P cells" and fin: "\<forall>q \<in> insert p P. isFinite (sp_timestamp_ms q)"
  shows "cells_ok (insert p P) (recordCell p cells)"
proof -
  let ?k = "spatialPointCellKey p"
  have keyed: "q \<in> P \<and> spatialPointCellKey q = k" if "map_of cells k = Some q" for k q
    using ok map_of_SomeD [OF that] by (auto simp: cells_ok_def)
  have replaced: "cells_ok (insert p P) (AList.update ?k p cells)"
    if newest: "\<forall>q. map_of cells ?k = Some q \<longrightarrow> sp_timestamp_ms q \<le> sp_timestamp_ms p"
  proof -
    have "sp_timestamp_ms r \<le> sp_timestamp_ms p" if "r \<in> P" "spatialPointCellKey r = ?k" for r
      using ok newest that unfolding cells_ok_def by (metis jsnum_le_trans)
    moreover have "\<forall>(k, q) \<in> set (AList.update ?k p cells). k = spatialPointCellKey q \<and> q \<in> insert p P"
    proof -
      have "distinct (map fst (AList.update ?k p cells))"
        using ok by (simp add: cells_ok_def distinct_update)
      then show ?thesis
        using keyed by (auto simp: update_conv' split: if_splits dest!: map_of_is_SomeI)
    qed
    ultimately show ?thesis
      using ok fin by (auto simp: cells_ok_def distinct_update update_conv' jsnum_le_refl)
  qed
  show ?thesis
  proof (cases "map_of cells ?k")
    case None
    with replaced show ?thesis by (simp add: recordCell_def)
  next
    case (Some q)
    show ?thesis
    proof (cases "sp_timestamp_ms q \<le> sp_timestamp_ms p")
      case True
      with Some replaced show ?thesis by (simp add: recordCell_def)
    next
      case False
      with fin Some keyed have "sp_timestamp_ms p \<le> sp_timestamp_ms q"
        by (simp add: jsnum_linear)
      with False Some ok show ?thesis by (fastforce simp: recordCell_def cells_ok_def)
    qed
  qed
qed

lemma recordCells_ok:
  assumes "\<forall>p \<in> set ps. isFinite (sp_timestamp_ms p)"
  shows "cells_ok (set ps) (fold recordCell ps [])"
proof -
  have main: "cells_ok (set qs \<union> set ps) (fold recordCell ps cells)"
    if "cells_ok (set qs) cells" "\<forall>p \<in> set qs \<union> set ps. isFinite (sp_timestamp_ms p)" for qs cells
    using that assms
  proof (induction ps arbitrary: qs cells)
    case Nil
    then show ?case by simp
  next
    case (Cons p ps)
    have "cells_ok (set (p # qs)) (recordCell p cells)"
      using recordCell_ok [OF Cons.prems(1)] Cons.prems(2) by simp
    from Cons.IH [OF this] Cons.prems show ?case by simp
  qed
  have "cells_ok (set []) []" by (simp add: cells_ok_def)
  from main [OF this] assms show ?thesis by simp
qed

definition buckets_ok :: "(string \<times> SpatialPoint list) list \<Rightarrow> bool" where
  "buckets_ok m \<longleftrightarrow> (\<forall>(k, b) \<in> set m. b \<noteq> [] \<and> (\<forall>p \<in> set b. sp_source_sensor_id p = k))"

lemma mset_addToBucket: "mset (concat (map snd (addToBucket p m))) = add_mset p (mset (concat (map snd m)))"
proof -
  have "mset (concat (map snd (AList.update k
      ((case map_of m k of Some b \<Rightarrow> b | None \<Rightarrow> []) @ [p]) m))) = add_mset p (mset (concat (map snd m)))" for k
    by (induction m) auto
  then show ?thesis by (simp add: addToBucket_def)
qed

lemma mset_addToBuckets:
  "mset (concat (map snd (fold addToBucket ps m))) = mset ps + mset (concat (map snd m))"
  by (induction ps arbitrary: m) (simp_all add: mset_addToBucket)

lemma map_of_addToBuckets:
  "map_of (fold addToBucket ps m) k =
     (let new = filter (\<lambda>p. sp_source_sensor_id p = k) ps
      in if new = [] then map_of m k
         else Some ((case map_of m k of Some b \<Rightarrow> b | None \<Rightarrow> []) @ new))"
  by (induction ps arbitrary: m) (auto simp: addToBucket_def update_conv' Let_def split: option.splits)

lemma distinct_addToBuckets:
  "distinct (map fst m) \<Longrightarrow> distinct (map fst (fold addToBucket ps m))"
  by (induction ps arbitrary: m) (auto simp: addToBucket_def distinct_update Let_def)

lemma addToBuckets_set:
  "set (fold addToBucket ps []) =
     (\<lambda>k. (k, filter (\<lambda>p. sp_source_sensor_id p = k) ps)) ` sp_source_sensor_id ` set ps"
proof -
  have "(k, b) \<in> set (fold addToBucket ps []) \<longleftrightarrow>
      k \<in> sp_source_sensor_id ` set ps \<and> b = filter (\<lambda>p. sp_source_sensor_id p = k) ps" for k b
    using map_of_eq_Some_iff [of "fold addToBucket ps []" k b] distinct_addToBuckets [of "[]" ps]
      map_of_addToBuckets [of ps "[]" k]
    by (auto simp: filter_empty_conv Let_def split: if_splits)
  then show ?thesis by auto
qed

section \<open>The display-cell key\<close>

lemma split_last_colon:
  assumes "xs @ CHR '':'' # ys = xs' @ CHR '':'' # ys'"
    and "CHR '':'' \<notin> set ys" and "CHR '':'' \<notin> set ys'"
  shows "xs = xs' \<and> ys = ys'"
  using assms
  by (auto simp: append_eq_append_conv2 append_eq_Cons_conv Cons_eq_append_conv)

text \<open>The column or row of the display grid a coordinate falls in.\<close>

definition grid :: "real \<Rightarrow> int" where
  "grid x = \<lfloor>x * 25 + 1 / 2\<rfloor>"

lemma cell_key_grid:
  assumes "sp_x_m p = Fin x" and "sp_y_m p = Fin y"
  shows "spatialPointCellKey p =
    sp_source_sensor_id p @ '':'' @ int_str (grid x) @ '':'' @ int_str (grid y)"
  using assms by (simp add: spatialPointCellKey_def DISPLAY_CELL_M_def grid_def num_str_def)

lemma cell_key_inj:
  assumes "spatialPointCellKey p = spatialPointCellKey q"
    and "sp_x_m p = Fin x" "sp_y_m p = Fin y" "sp_x_m q = Fin x'" "sp_y_m q = Fin y'"
  shows "sp_source_sensor_id p = sp_source_sensor_id q \<and> grid x = grid x' \<and> grid y = grid y'"
proof -
  have "(sp_source_sensor_id p @ '':'' @ int_str (grid x)) @ CHR '':'' # int_str (grid y) =
      (sp_source_sensor_id q @ '':'' @ int_str (grid x')) @ CHR '':'' # int_str (grid y')"
    using assms by (simp add: cell_key_grid)
  note outer = split_last_colon [OF this int_str_no_colon int_str_no_colon]
  from outer have "sp_source_sensor_id p @ CHR '':'' # int_str (grid x) =
      sp_source_sensor_id q @ CHR '':'' # int_str (grid x')"
    by simp
  note inner = split_last_colon [OF this int_str_no_colon int_str_no_colon]
  from outer inner show ?thesis by (simp add: int_str_inj)
qed

section \<open>What is shown\<close>

lemma usable_point_finite:
  assumes "isUsableSpatialPoint p g"
  shows "isFinite (sp_x_m p)" "isFinite (sp_y_m p)" "isFinite (sp_timestamp_ms p)"
proof -
  show "isFinite (sp_x_m p)" "isFinite (sp_y_m p)"
    using assms by (simp_all add: isUsableSpatialPoint_def Let_def)
  show "isFinite (sp_timestamp_ms p)"
    using assms
    by (cases "sp_timestamp_ms p"; cases g)
      (simp_all add: isUsableSpatialPoint_def MAX_POINT_AGE_MS_def Let_def minus_jsnum_def)
qed

lemma displayable_finite:
  assumes "displayable h g v r s p"
  shows "isFinite (sp_x_m p)" "isFinite (sp_y_m p)" "isFinite (sp_timestamp_ms p)"
  using assms usable_point_finite by (auto simp: displayable_def)

text \<open>The last stages, from the cells on.\<close>

definition cellBuckets :: "(string \<times> SpatialPoint) list \<Rightarrow> SpatialPoint list list" where
  "cellBuckets cells =
     map snd (fold addToBucket (js_sort (key_after sp_timestamp_ms) (map snd cells)) [])"

definition dealtColumns :: "(string \<times> SpatialPoint) list \<Rightarrow> SpatialPoint list" where
  "dealtColumns cells = concat (map (column (cellBuckets cells)) [0..<length cells])"

lemma mset_cellBuckets: "mset (concat (cellBuckets cells)) = mset (map snd cells)"
  by (simp add: cellBuckets_def mset_addToBuckets)

lemma cellBuckets_length: "b \<in> set (cellBuckets cells) \<Longrightarrow> length b \<le> length cells"
proof -
  assume "b \<in> set (cellBuckets cells)"
  then have "length b \<le> (\<Sum>b \<leftarrow> cellBuckets cells. length b)"
    by (intro member_le_sum_list) auto
  also have "\<dots> = length (concat (cellBuckets cells))" by (simp add: length_concat)
  also have "\<dots> = length cells" by (metis length_map mset_cellBuckets size_mset)
  finally show ?thesis .
qed

lemma availableSpatialPoints_dealt:
  "availableSpatialPoints ps h c g v r s =
     (if c then js_sort (key_before sp_timestamp_ms) (take MAX_RENDERED_POINTS
        (dealtColumns (fold recordCell (filter (displayable h g v r s) ps) []))) else [])"
  by (simp add: availableSpatialPoints_def Let_def dealtColumns_def flip: cellBuckets_def)
    (subst selectPoints_columns, auto simp: cellBuckets_length)

lemma mset_dealtColumns: "mset (dealtColumns cells) = mset (map snd cells)"
  unfolding dealtColumns_def by (subst mset_columns) (simp_all add: cellBuckets_length mset_cellBuckets)

lemma length_dealtColumns: "length (dealtColumns cells) = length cells"
  by (metis length_map mset_dealtColumns size_mset)

lemma set_dealtColumns: "set (dealtColumns cells) = snd ` set cells"
  by (metis list.set_map mset_dealtColumns set_mset_mset)

lemma distinct_dealtColumns:
  "distinct (map f (dealtColumns cells)) = distinct (map f (map snd cells))"
  by (metis mset_dealtColumns mset_eq_imp_distinct_iff mset_map)

text \<open>The points that may be shown, and the facts about their cells.\<close>

abbreviation usablePoints where
  "usablePoints ps h g v r s \<equiv> filter (displayable h g v r s) ps"

abbreviation usableCells where
  "usableCells ps h g v r s \<equiv> fold recordCell (usablePoints ps h g v r s) []"

lemma usableCells_ok: "cells_ok (set (usablePoints ps h g v r s)) (usableCells ps h g v r s)"
  by (rule recordCells_ok) (auto dest: displayable_finite)

lemma cells_ok_keys:
  assumes "cells_ok P cells"
  shows "map spatialPointCellKey (map snd cells) = map fst cells"
  using assms by (auto simp: cells_ok_def)

lemma cells_ok_count:
  assumes "cells_ok P cells"
  shows "length cells = card (spatialPointCellKey ` P)"
proof -
  have "spatialPointCellKey ` P = fst ` set cells"
  proof
    show "spatialPointCellKey ` P \<subseteq> fst ` set cells"
      using assms by (force simp: cells_ok_def dest: map_of_SomeD)
    show "fst ` set cells \<subseteq> spatialPointCellKey ` P"
      using assms by (fastforce simp: cells_ok_def)
  qed
  then show ?thesis using assms by (metis cells_ok_def distinct_card length_map list.set_map)
qed

lemma cells_ok_set: "cells_ok P cells \<Longrightarrow> snd ` set cells \<subseteq> P"
  by (auto simp: cells_ok_def)

text \<open>The first column holds the newest point of every sensor.\<close>

lemma first_column:
  assumes "\<forall>p \<in> snd ` set cells. isFinite (sp_timestamp_ms p)" and "q \<in> snd ` set cells"
  shows "\<exists>p \<in> set (column (cellBuckets cells) 0).
    sp_source_sensor_id p = sp_source_sensor_id q \<and> sp_timestamp_ms q \<le> sp_timestamp_ms p"
proof -
  let ?sorted = "js_sort (key_after sp_timestamp_ms) (map snd cells)"
  let ?b = "filter (\<lambda>p. sp_source_sensor_id p = sp_source_sensor_id q) ?sorted"
  have b: "?b \<in> set (cellBuckets cells)"
    using assms(2) by (auto simp: cellBuckets_def addToBuckets_set image_image)
  have q: "q \<in> set ?b" using assms(2) by simp
  then obtain p rest where pr: "?b = p # rest" by (cases ?b) auto
  have "sorted_wrt (\<lambda>a b. sp_timestamp_ms b \<le> sp_timestamp_ms a) ?sorted"
    using assms(1) by (intro sorted_by_key_after) auto
  then have "sorted_wrt (\<lambda>a b. sp_timestamp_ms b \<le> sp_timestamp_ms a) (p # rest)"
    by (metis pr sorted_wrt_filter)
  moreover have "isFinite (sp_timestamp_ms p)"
    using assms(1) pr by (metis filter_eq_Cons_iff in_set_conv_decomp list.set_map set_js_sort)
  ultimately have "sp_timestamp_ms q \<le> sp_timestamp_ms p"
    using q pr jsnum_le_refl by auto
  moreover have "p \<in> set (column (cellBuckets cells) 0)"
    using b pr by (force simp: column_def)
  moreover have "sp_source_sensor_id p = sp_source_sensor_id q"
    using pr by (metis (mono_tags, lifting) list.set_intros(1) mem_Collect_eq set_filter)
  ultimately show ?thesis by blast
qed

lemma first_column_length:
  "length (column (cellBuckets cells) 0) \<le> card (sp_source_sensor_id ` snd ` set cells)"
proof -
  let ?m = "fold addToBucket (js_sort (key_after sp_timestamp_ms) (map snd cells)) []"
  have "length (column (cellBuckets cells) 0) \<le> length (map fst ?m)"
    by (simp add: column_def cellBuckets_def)
  also have "\<dots> = card (set (map fst ?m))"
    by (rule distinct_card [symmetric]) (simp add: distinct_addToBuckets)
  also have "set (map fst ?m) = sp_source_sensor_id ` snd ` set cells"
    by (simp add: addToBuckets_set image_image)
  finally show ?thesis .
qed

section \<open>Properties\<close>

text \<open>
  C9. The loop that deals the buckets round-robin is the reference definition: for buckets no
  longer than \<open>n\<close> it returns the first 240 points of the buckets' columns \<open>0, \<dots>, n - 1\<close>,
  bucket by bucket; in particular it ends.
\<close>

theorem round_robin_reference:
  assumes "list_all (\<lambda>b. length b \<le> n) bs"
  shows "selectPoints 0 bs [] = take MAX_RENDERED_POINTS (concat (map (column bs) [0..<n]))"
  using assms selectPoints_columns [of "[]" bs n 0] by (simp add: list_all_iff)

theorem round_robin_reference_witness:
  "\<forall>p q r. selectPoints 0 [[p, q], [r]] [] = [p, r, q]"
  using round_robin_reference [of 2 "[[p, q], [r]]" for p q r]
  by (simp add: MAX_RENDERED_POINTS_def numeral_2_eq_2)

lemma shown_count: "length (availableSpatialPoints ps h telemetryUp g v r sensors) \<le> 240"
proof (cases telemetryUp)
  case True
  then show ?thesis by (simp add: availableSpatialPoints_dealt MAX_RENDERED_POINTS_def)
qed (simp add: availableSpatialPoints_def)

text \<open>
  C7. What is shown is sound: at most 240 points, each a point of the input that an available
  sensor measured, usable (finite, good enough, at most 12 s old) and within display range;
  no two of them in the same display cell; ordered by time.
\<close>

theorem shown_points_sound:
  "let shown = availableSpatialPoints ps h telemetryUp g v r sensors in
     length shown \<le> 240 \<and>
     list_all (\<lambda>p. p \<in> set ps \<and> displayable h g v r sensors p) shown \<and>
     distinct (map spatialPointCellKey shown) \<and>
     sorted_wrt (\<lambda>a b. sp_timestamp_ms a \<le> sp_timestamp_ms b) shown"
proof (cases telemetryUp)
  case False
  then show ?thesis by (simp add: availableSpatialPoints_def)
next
  case True
  let ?cells = "usableCells ps h g v r sensors"
  let ?dealt = "take MAX_RENDERED_POINTS (dealtColumns ?cells)"
  have shown: "availableSpatialPoints ps h telemetryUp g v r sensors =
      js_sort (key_before sp_timestamp_ms) ?dealt"
    using True by (simp add: availableSpatialPoints_dealt)
  have ok: "cells_ok (set (usablePoints ps h g v r sensors)) ?cells" by (rule usableCells_ok)
  have usable: "p \<in> set ps \<and> displayable h g v r sensors p" if "p \<in> set ?dealt" for p
  proof -
    have "p \<in> snd ` set ?cells" using in_set_takeD [OF that] by (simp only: set_dealtColumns)
    then show ?thesis using cells_ok_set [OF ok] by auto
  qed
  have "\<forall>p \<in> set ?dealt. isFinite (sp_timestamp_ms p)"
    by (intro ballI displayable_finite(3)) (rule usable [THEN conjunct2])
  note sorted = sorted_by_key_before [OF this]
  have "distinct (map spatialPointCellKey (dealtColumns ?cells))"
    using ok by (simp only: distinct_dealtColumns cells_ok_keys) (simp add: cells_ok_def)
  then have "distinct (map spatialPointCellKey ?dealt)" by (metis distinct_take take_map)
  moreover have "length ?dealt \<le> 240" by (simp add: MAX_RENDERED_POINTS_def)
  moreover have "list_all (\<lambda>p. p \<in> set ps \<and> displayable h g v r sensors p) ?dealt"
    unfolding list_all_iff by (intro ballI usable)
  ultimately show ?thesis
    using sorted
    by (simp only: shown Let_def length_js_sort distinct_map_js_sort list_all_iff set_js_sort)
qed

text \<open>
  C8. Nothing is lost while the points fit the budget: if the usable points fall in at most 240
  cells, every one of them has a point of its cell shown that is at least as recent.
\<close>

theorem every_cell_shown:
  assumes "p \<in> set ps" and "displayable h g v r sensors p"
    and "card (spatialPointCellKey ` {q \<in> set ps. displayable h g v r sensors q}) \<le> 240"
  shows "list_ex (\<lambda>q. spatialPointCellKey q = spatialPointCellKey p \<and>
      sp_timestamp_ms p \<le> sp_timestamp_ms q) (availableSpatialPoints ps h True g v r sensors)"
proof -
  let ?cells = "usableCells ps h g v r sensors"
  have ok: "cells_ok (set (usablePoints ps h g v r sensors)) ?cells" by (rule usableCells_ok)
  then have "length ?cells \<le> MAX_RENDERED_POINTS"
    using assms(3) by (simp add: cells_ok_count MAX_RENDERED_POINTS_def)
  then have all: "set (availableSpatialPoints ps h True g v r sensors) = snd ` set ?cells"
    by (simp add: availableSpatialPoints_dealt length_dealtColumns set_dealtColumns)
  from ok assms(1,2) obtain q where
    q: "map_of ?cells (spatialPointCellKey p) = Some q" "sp_timestamp_ms p \<le> sp_timestamp_ms q"
    by (auto simp: cells_ok_def)
  then have "(spatialPointCellKey p, q) \<in> set ?cells" by (simp add: map_of_SomeD)
  with ok have "spatialPointCellKey q = spatialPointCellKey p" by (auto simp: cells_ok_def)
  with \<open>(_, q) \<in> _\<close> q(2) show ?thesis by (force simp: list_ex_iff all)
qed

text \<open>
  No sensor is starved, whatever the number of points: as long as at most 240 sensors have
  usable points, each usable point's sensor has a shown point at least as recent, so the
  newest point of every sensor is shown.
\<close>

theorem every_sensor_shown:
  assumes "p \<in> set ps" and "displayable h g v r sensors p"
    and "card (sp_source_sensor_id ` {q \<in> set ps. displayable h g v r sensors q}) \<le> 240"
  shows "list_ex (\<lambda>q. sp_source_sensor_id q = sp_source_sensor_id p \<and>
      sp_timestamp_ms p \<le> sp_timestamp_ms q) (availableSpatialPoints ps h True g v r sensors)"
proof -
  let ?usable = "usablePoints ps h g v r sensors"
  let ?cells = "usableCells ps h g v r sensors"
  let ?col = "column (cellBuckets ?cells) 0"
  have ok: "cells_ok (set ?usable) ?cells" by (rule usableCells_ok)
  from ok assms(1,2) obtain q where q: "map_of ?cells (spatialPointCellKey p) = Some q"
    "sp_timestamp_ms p \<le> sp_timestamp_ms q"
    by (auto simp: cells_ok_def)
  then have qc: "q \<in> snd ` set ?cells" and key: "spatialPointCellKey q = spatialPointCellKey p"
    and "displayable h g v r sensors q"
    using ok map_of_SomeD [OF q(1)] by (auto simp: cells_ok_def rev_image_eqI)
  with assms(2) have same: "sp_source_sensor_id q = sp_source_sensor_id p"
    using cell_key_inj [OF key] by (metis displayable_finite(1,2) isFinite_iff)
  have fin: "\<forall>p \<in> snd ` set ?cells. isFinite (sp_timestamp_ms p)"
    using cells_ok_set [OF ok] by (auto dest: displayable_finite)
  from first_column [OF fin qc] obtain s where s: "s \<in> set ?col"
    "sp_source_sensor_id s = sp_source_sensor_id q" "sp_timestamp_ms q \<le> sp_timestamp_ms s"
    by blast
  have "card (sp_source_sensor_id ` snd ` set ?cells) \<le> card (sp_source_sensor_id ` set ?usable)"
    using cells_ok_set [OF ok] by (intro card_mono image_mono) auto
  with assms(3) have len: "length ?col \<le> MAX_RENDERED_POINTS"
    using first_column_length [of ?cells] by (simp add: MAX_RENDERED_POINTS_def)
  have "0 < length ?cells" using qc by auto
  then have "dealtColumns ?cells = ?col @ concat (map (column (cellBuckets ?cells)) [1..<length ?cells])"
    by (simp add: dealtColumns_def upt_conv_Cons)
  with len s(1) have "s \<in> set (take MAX_RENDERED_POINTS (dealtColumns ?cells))" by simp
  then have "s \<in> set (availableSpatialPoints ps h True g v r sensors)"
    by (simp add: availableSpatialPoints_dealt)
  moreover have "sp_timestamp_ms p \<le> sp_timestamp_ms s" by (rule jsnum_le_trans [OF q(2) s(3)])
  ultimately show ?thesis using s(2) same by (auto simp: list_ex_iff)
qed

text \<open>A point 1 m ahead of a vehicle at the origin, from a working sensor.\<close>

definition samplePoint :: SpatialPoint where
  "samplePoint = \<lparr>sp_x_m = 0, sp_y_m = 1, sp_height_hint_m = 0,
     sp_source_sensor_id = ''front_fixed'', sp_quality = 1, sp_timestamp_ms = 90\<rparr>"

definition sampleHealth :: SensorHealth where
  "sampleHealth = \<lparr>sh_sensor_id = ''front_fixed'', sh_status = HEALTHY, sh_last_update_ms = 90,
     sh_confidence = 1, sh_detail = None\<rparr>"

lemma sample_displayable: "displayable [sampleHealth] 100 defaultVehicle 4 None samplePoint"
  by (simp add: displayable_def availableSensorIds_def isUsableSpatialPoint_def withinRange_def
      settingsMap_def samplePoint_def sampleHealth_def defaultVehicle_def MAX_POINT_AGE_MS_def)

lemma sample_single: "card (f ` {q \<in> set [samplePoint]. P q}) \<le> 240"
proof -
  have "card (f ` {q \<in> set [samplePoint]. P q}) \<le> card (f ` set [samplePoint])"
    by (intro card_mono) auto
  then show ?thesis by simp
qed

theorem every_cell_shown_witness:
  "list_ex (\<lambda>q. spatialPointCellKey q = spatialPointCellKey samplePoint \<and>
      sp_timestamp_ms samplePoint \<le> sp_timestamp_ms q)
    (availableSpatialPoints [samplePoint] [sampleHealth] True 100 defaultVehicle 4 None)"
proof (rule every_cell_shown [OF _ sample_displayable])
  show "card (spatialPointCellKey ` {q \<in> set [samplePoint].
      displayable [sampleHealth] 100 defaultVehicle 4 None q}) \<le> 240"
    by (rule sample_single)
qed simp

theorem every_sensor_shown_witness:
  "list_ex (\<lambda>q. sp_source_sensor_id q = ''front_fixed'' \<and> 90 \<le> sp_timestamp_ms q)
    (availableSpatialPoints [samplePoint] [sampleHealth] True 100 defaultVehicle 4 None)"
proof -
  have "card (sp_source_sensor_id ` {q \<in> set [samplePoint].
      displayable [sampleHealth] 100 defaultVehicle 4 None q}) \<le> 240"
    by (rule sample_single)
  from every_sensor_shown [OF _ sample_displayable this] show ?thesis
    by (simp add: samplePoint_def)
qed

text \<open>
  The display-cell key identifies sensor and cell: two points with finite coordinates have
  the same key exactly when they come from the same sensor (whatever characters its name has)
  and fall in the same 4 cm cell.
\<close>

theorem cell_key_identifies:
  assumes "sp_x_m p = Fin x" and "sp_y_m p = Fin y" and "sp_x_m q = Fin x'" and "sp_y_m q = Fin y'"
  shows "spatialPointCellKey p = spatialPointCellKey q \<longleftrightarrow>
    sp_source_sensor_id p = sp_source_sensor_id q \<and>
    \<lfloor>x * 25 + 1 / 2\<rfloor> = \<lfloor>x' * 25 + 1 / 2\<rfloor> \<and> \<lfloor>y * 25 + 1 / 2\<rfloor> = \<lfloor>y' * 25 + 1 / 2\<rfloor>"
  using assms cell_key_inj [OF _ assms] by (auto simp: cell_key_grid grid_def)

theorem cell_key_identifies_witness:
  "spatialPointCellKey samplePoint \<noteq> spatialPointCellKey (samplePoint\<lparr>sp_y_m := 2\<rparr>)"
  using cell_key_identifies [of samplePoint 0 1 "samplePoint\<lparr>sp_y_m := 2\<rparr>" 0 2]
  by (simp add: samplePoint_def)

end
