(* ===== verification/Supervisor.thy ===== *)
theory Supervisor
  imports Selectors
begin

text \<open>
  The supervisor's fleet view: \<^verbatim>\<open>frontend/src/supervisor/supervisorViewModel.ts\<close>. Every vehicle
  the snapshot mentions, in its own list, as a V2X peer or by direct telemetry, becomes one
  entry with a tone; the entries are sorted, counted and turned into issues.
  \<open>lc\<close> stands for \<^verbatim>\<open>localeCompare\<close>, whose result depends on the browser's collation; what is used
  of it is that it is consistent (locale \<open>collation\<close>).
\<close>

section \<open>Data\<close>

datatype SupervisorVehicleTone = nominal | attention | critical | lost | unknown

record SupervisorVehicle =
  sv_haul :: "HaulVehicleState option"
  sv_vehicleId :: string
  sv_isPrimary :: bool
  sv_isSimulated :: bool
  sv_sourceLabel :: string
  sv_hasPosition :: bool
  sv_xM :: jsnum
  sv_yM :: jsnum
  sv_headingDeg :: jsnum
  sv_speedMps :: jsnum
  sv_positionConfidence :: "jsnum option"
  sv_emergencyState :: "string option"
  sv_linkStatus :: "LinkStatus option"
  sv_distanceM :: "jsnum option"
  sv_lastUpdateMs :: jsnum
  sv_ageMs :: jsnum
  sv_tone :: SupervisorVehicleTone

datatype IssueSeverity = ISSUE_WARNING | ISSUE_CRITICAL

datatype IssueKind = SAFETY | CONNECTIVITY | SENSOR | VISIBILITY

record SupervisorIssue =
  si_id :: string
  si_severity :: IssueSeverity
  si_kind :: IssueKind
  si_vehicleId :: string
  si_title :: string
  si_detail :: string

record PrimaryTelemetrySummary =
  pts_vehicle :: SupervisorVehicle
  pts_visibilityPercent :: jsnum
  pts_visibilityState :: VisibilityState
  pts_temperatureC :: jsnum
  pts_pressureHpa :: jsnum
  pts_relativeAltitudeM :: jsnum
  pts_nearestObstacleM :: "jsnum option"
  pts_corridorState :: CorridorState
  pts_corridorConfidence :: jsnum
  pts_corridorReason :: string
  pts_sensors :: "SensorHealth list"
  pts_sensorSummary :: TofSummary

record SupervisorCounts =
  cnt_total :: nat
  cnt_online :: nat
  cnt_nominal :: nat
  cnt_attention :: nat
  cnt_critical :: nat
  cnt_lost :: nat
  cnt_unknown :: nat

record SupervisorViewModel =
  svm_mapName :: string
  svm_referenceTimeMs :: jsnum
  svm_mode :: DataMode
  svm_vehicles :: "SupervisorVehicle list"
  svm_counts :: SupervisorCounts
  svm_issues :: "SupervisorIssue list"
  svm_history :: "AlertEvent list"
  svm_primary :: "PrimaryTelemetrySummary option"

section \<open>Tones\<close>

definition UNSAFE_RANK :: "(string \<times> nat) list" where
  "UNSAFE_RANK = [(''EMERGENCY_STOP'', 4), (''CRITICAL'', 3), (''WARNING'', 2), (''SAFE'', 1)]"

fun TONE_RANK :: "SupervisorVehicleTone \<Rightarrow> int" where
  "TONE_RANK critical = 5"
| "TONE_RANK lost = 4"
| "TONE_RANK attention = 3"
| "TONE_RANK unknown = 2"
| "TONE_RANK nominal = 1"

text \<open>The order of urgency of the tones.\<close>

instantiation SupervisorVehicleTone :: linorder
begin

definition less_eq_SupervisorVehicleTone :: "SupervisorVehicleTone \<Rightarrow> SupervisorVehicleTone \<Rightarrow> bool" where
  "s \<le> t \<longleftrightarrow> TONE_RANK s \<le> TONE_RANK t" for s t :: SupervisorVehicleTone

definition less_SupervisorVehicleTone :: "SupervisorVehicleTone \<Rightarrow> SupervisorVehicleTone \<Rightarrow> bool" where
  "s < t \<longleftrightarrow> TONE_RANK s < TONE_RANK t" for s t :: SupervisorVehicleTone

instance
proof
  fix s t :: SupervisorVehicleTone
  show "s \<le> t \<Longrightarrow> t \<le> s \<Longrightarrow> s = t"
    by (cases s; cases t) (simp_all add: less_eq_SupervisorVehicleTone_def)
qed (auto simp: less_eq_SupervisorVehicleTone_def less_SupervisorVehicleTone_def)

end

text \<open>\<^verbatim>\<open>Boolean(s)\<close> of a nullable string.\<close>

definition truthy_string :: "string option \<Rightarrow> bool" where
  "truthy_string s \<longleftrightarrow> (case s of None \<Rightarrow> False | Some t \<Rightarrow> t \<noteq> '''')"

definition normalizedEmergencyState :: "string option \<Rightarrow> string option" where
  "normalizedEmergencyState state =
     (if truthy_string state then map_option toUpperCase state else None)"

definition emergencyRank :: "string option \<Rightarrow> nat" where
  "emergencyRank state =
     (if truthy_string state
      then (case map_of UNSAFE_RANK (the state) of Some r \<Rightarrow> r | None \<Rightarrow> 3) else 0)"

definition vehicleTone ::
    "string option \<Rightarrow> LinkStatus option \<Rightarrow> bool \<Rightarrow> bool \<Rightarrow> bool \<Rightarrow> SupervisorVehicleTone" where
  "vehicleTone emergencyState linkStatus isPrimary primarySensorsDegraded primaryVisibilityDegraded =
     (if linkStatus = Some LINK_LOST then lost
      else if 3 \<le> emergencyRank emergencyState then critical
      else if emergencyRank emergencyState = 2 \<or> linkStatus = Some LINK_DEGRADED \<or>
        (isPrimary \<and> (primarySensorsDegraded \<or> primaryVisibilityDegraded)) then attention
      else if \<not> truthy_string emergencyState \<and> \<not> isPrimary then unknown
      else nominal)"

section \<open>Issues of a vehicle\<close>

text \<open>The part of \<^verbatim>\<open>issueForVehicle\<close> after the emergency state: the state of the link.\<close>

definition linkIssue :: "SupervisorVehicle \<Rightarrow> SupervisorIssue option" where
  "linkIssue vehicle =
     (if sv_linkStatus vehicle = Some LINK_LOST then
        Some \<lparr>si_id = ''link-lost-'' @ sv_vehicleId vehicle, si_severity = ISSUE_WARNING,
          si_kind = CONNECTIVITY, si_vehicleId = sv_vehicleId vehicle,
          si_title = ''Vehicle contact lost'',
          si_detail = ''The simulated V2X peer is no longer reporting a current position.''\<rparr>
      else if sv_linkStatus vehicle = Some LINK_DEGRADED then
        Some \<lparr>si_id = ''link-degraded-'' @ sv_vehicleId vehicle, si_severity = ISSUE_WARNING,
          si_kind = CONNECTIVITY, si_vehicleId = sv_vehicleId vehicle,
          si_title = ''Vehicle link degraded'',
          si_detail = ''Coordination data may arrive late or intermittently.''\<rparr>
      else None)"

definition safetyIssue :: "SupervisorVehicle \<Rightarrow> string \<Rightarrow> SupervisorIssue" where
  "safetyIssue vehicle emergency =
     (let urgent = (emergency = ''CRITICAL'' \<or> emergency = ''EMERGENCY_STOP'')
      in \<lparr>si_id = ''safety-'' @ sv_vehicleId vehicle @ ''-'' @ emergency,
          si_severity = (if urgent then ISSUE_CRITICAL else ISSUE_WARNING),
          si_kind = SAFETY, si_vehicleId = sv_vehicleId vehicle,
          si_title = underscores_to_spaces emergency,
          si_detail = (if urgent then ''The vehicle reports an immediate safety intervention.''
            else ''The vehicle reports a safety condition that needs review.'')\<rparr>)"

definition issueForVehicle :: "SupervisorVehicle \<Rightarrow> SupervisorIssue option" where
  "issueForVehicle vehicle =
     (case normalizedEmergencyState (sv_emergencyState vehicle) of
        Some emergency \<Rightarrow>
          if emergency \<noteq> '''' \<and> emergency \<noteq> ''SAFE'' then Some (safetyIssue vehicle emergency)
          else linkIssue vehicle
      | None \<Rightarrow> linkIssue vehicle)"

section \<open>Building the vehicles\<close>

fun level_string :: "EmergencyLevel \<Rightarrow> string" where
  "level_string SAFE = ''SAFE''"
| "level_string WARNING = ''WARNING''"
| "level_string CRITICAL = ''CRITICAL''"
| "level_string EMERGENCY_STOP = ''EMERGENCY_STOP''"

fun visibility_string :: "VisibilityState \<Rightarrow> string" where
  "visibility_string GOOD = ''GOOD''"
| "visibility_string MODERATE = ''MODERATE''"
| "visibility_string LOW = ''LOW''"
| "visibility_string VERY_LOW = ''VERY_LOW''"

definition referenceTime :: "WorldState \<Rightarrow> jsnum" where
  "referenceTime world =
     js_max_list (ws_generated_at_ms world #
       (case ws_v2x world of Some v \<Rightarrow> v2x_timestamp_ms v | None \<Rightarrow> 0) #
       map vp_timestamp_ms (ws_vehicles world))"

definition activePeers :: "WorldState \<Rightarrow> V2XPeerNode list" where
  "activePeers world = (case ws_v2x world of Some v \<Rightarrow> v2x_active_peers v | None \<Rightarrow> [])"

definition peersById :: "WorldState \<Rightarrow> (string \<times> V2XPeerNode) list" where
  "peersById world = map_from (map (\<lambda>peer. (peer_vehicle_id peer, peer)) (activePeers world))"

definition sensorsDegraded :: "WorldState \<Rightarrow> bool" where
  "sensorsDegraded world \<longleftrightarrow>
     (let summary = tofSensorHealthSummary (ws_sensor_health world)
      in tof_healthy summary < tof_total summary)"

definition visibilityDegraded :: "WorldState \<Rightarrow> bool" where
  "visibilityDegraded world \<longleftrightarrow>
     env_visibility_state (ws_environment world) = LOW \<or>
     env_visibility_state (ws_environment world) = VERY_LOW"

text \<open>The callback of \<^verbatim>\<open>world.vehicles.map\<close>.\<close>

definition worldVehicle :: "WorldState \<Rightarrow> VehiclePose \<Rightarrow> SupervisorVehicle" where
  "worldVehicle world vehicle =
     (let peer = map_of (peersById world) (vp_vehicle_id vehicle);
          isPrimary = (vp_vehicle_id vehicle = ws_primary_vehicle_id world);
          emergencyState = normalizedEmergencyState
            (if isPrimary then Some (level_string (em_state (ws_emergency world)))
             else map_option peer_emergency_state peer);
          linkStatus = map_option peer_link_status peer;
          lastUpdateMs = js_max (vp_timestamp_ms vehicle)
            (case peer of Some p \<Rightarrow> peer_last_seen_ms p | None \<Rightarrow> 0)
      in \<lparr>sv_haul = vp_haul vehicle, sv_vehicleId = vp_vehicle_id vehicle, sv_isPrimary = isPrimary,
          sv_isSimulated = (vp_mode vehicle = SIMULATED),
          sv_sourceLabel = (if isPrimary then ''Primary telemetry''
            else if peer \<noteq> None then ''Vehicle + V2X'' else ''Vehicle telemetry''),
          sv_hasPosition = (0 < vp_position_confidence vehicle),
          sv_xM = vp_x_m vehicle, sv_yM = vp_y_m vehicle, sv_headingDeg = vp_heading_deg vehicle,
          sv_speedMps = vp_speed_mps vehicle,
          sv_positionConfidence = Some (vp_position_confidence vehicle),
          sv_emergencyState = emergencyState, sv_linkStatus = linkStatus,
          sv_distanceM = map_option peer_distance_m peer, sv_lastUpdateMs = lastUpdateMs,
          sv_ageMs = js_max 0 (referenceTime world - lastUpdateMs),
          sv_tone = vehicleTone emergencyState linkStatus isPrimary (sensorsDegraded world)
            (visibilityDegraded world)\<rparr>)"

text \<open>A peer that is not among the vehicles.\<close>

definition peerVehicle :: "WorldState \<Rightarrow> V2XPeerNode \<Rightarrow> SupervisorVehicle" where
  "peerVehicle world peer =
     (let emergencyState = normalizedEmergencyState (Some (peer_emergency_state peer))
      in \<lparr>sv_haul = None, sv_vehicleId = peer_vehicle_id peer, sv_isPrimary = False,
          sv_isSimulated = True, sv_sourceLabel = ''V2X simulation'', sv_hasPosition = True,
          sv_xM = peer_x_m peer, sv_yM = peer_y_m peer, sv_headingDeg = peer_heading_deg peer,
          sv_speedMps = peer_speed_mps peer, sv_positionConfidence = None,
          sv_emergencyState = emergencyState, sv_linkStatus = Some (peer_link_status peer),
          sv_distanceM = Some (peer_distance_m peer), sv_lastUpdateMs = peer_last_seen_ms peer,
          sv_ageMs = js_max 0 (referenceTime world - peer_last_seen_ms peer),
          sv_tone = vehicleTone emergencyState (Some (peer_link_status peer)) False False False\<rparr>)"

text \<open>A vehicle known from its direct telemetry only.\<close>

definition telemetryVehicle :: "WorldState \<Rightarrow> VehicleTelemetry \<Rightarrow> SupervisorVehicle" where
  "telemetryVehicle world sample =
     \<lparr>sv_haul = None, sv_vehicleId = vt_vehicle_id sample, sv_isPrimary = False,
      sv_isSimulated = False, sv_sourceLabel = ''Direct Wi-Fi telemetry'', sv_hasPosition = False,
      sv_xM = 0, sv_yM = 0, sv_headingDeg = 0,
      sv_speedMps = (case gps_speed_mps (vt_gps sample) of Some v \<Rightarrow> v | None \<Rightarrow> 0),
      sv_positionConfidence = None, sv_emergencyState = None, sv_linkStatus = None,
      sv_distanceM = None, sv_lastUpdateMs = vt_received_at_ms sample,
      sv_ageMs = js_max 0 (referenceTime world - vt_received_at_ms sample),
      sv_tone = (if vt_online sample then unknown else lost)\<rparr>"

text \<open>The loop over \<^verbatim>\<open>vehicle_telemetry\<close>, with \<^verbatim>\<open>knownIds\<close> growing.\<close>

definition addTelemetry ::
    "WorldState \<Rightarrow> VehicleTelemetry \<Rightarrow> SupervisorVehicle list \<times> string set \<Rightarrow>
     SupervisorVehicle list \<times> string set" where
  "addTelemetry world sample =
     (\<lambda>(vehicles, knownIds).
        if vt_vehicle_id sample \<in> knownIds then (vehicles, knownIds)
        else (vehicles @ [telemetryVehicle world sample], insert (vt_vehicle_id sample) knownIds))"

definition collectVehicles :: "WorldState \<Rightarrow> SupervisorVehicle list" where
  "collectVehicles world =
     (let own = map (worldVehicle world) (ws_vehicles world);
          canonicalIds = sv_vehicleId ` set own;
          withPeers = own @ map (peerVehicle world)
            (filter (\<lambda>peer. peer_vehicle_id peer \<notin> canonicalIds) (activePeers world));
          knownIds = sv_vehicleId ` set withPeers;
          samples = (case ws_vehicle_telemetry world of Some ts \<Rightarrow> ts | None \<Rightarrow> [])
      in fst (fold (addTelemetry world) samples (withPeers, knownIds)))"

section \<open>Sorting\<close>

definition compareVehicles ::
    "(string \<Rightarrow> string \<Rightarrow> int) \<Rightarrow> SupervisorVehicle \<Rightarrow> SupervisorVehicle \<Rightarrow> int" where
  "compareVehicles lc left right =
     (let toneDifference = TONE_RANK (sv_tone right) - TONE_RANK (sv_tone left)
      in if toneDifference \<noteq> 0 then toneDifference
         else if sv_isPrimary left \<noteq> sv_isPrimary right then (if sv_isPrimary left then - 1 else 1)
         else lc (sv_vehicleId left) (sv_vehicleId right))"

definition compareIssues ::
    "(string \<Rightarrow> string \<Rightarrow> int) \<Rightarrow> SupervisorIssue \<Rightarrow> SupervisorIssue \<Rightarrow> int" where
  "compareIssues lc left right =
     (if si_severity left \<noteq> si_severity right
      then (if si_severity left = ISSUE_CRITICAL then - 1 else 1)
      else lc (si_vehicleId left) (si_vehicleId right))"

section \<open>The view model\<close>

definition sensorIssues :: "WorldState \<Rightarrow> SupervisorIssue list" where
  "sensorIssues world =
     (let summary = tofSensorHealthSummary (ws_sensor_health world)
      in if sensorsDegraded world then
           [\<lparr>si_id = ''primary-sensor-health'',
             si_severity = (if tof_healthy summary = 0 then ISSUE_CRITICAL else ISSUE_WARNING),
             si_kind = SENSOR, si_vehicleId = ws_primary_vehicle_id world,
             si_title = ''Range sensor coverage reduced'',
             si_detail = nat_str (tof_healthy summary) @ '' of '' @ nat_str (tof_total summary) @
               '' ToF sensors report healthy.''\<rparr>]
         else [])"

definition visibilityIssues :: "WorldState \<Rightarrow> SupervisorIssue list" where
  "visibilityIssues world =
     (let state = env_visibility_state (ws_environment world)
      in if state = LOW \<or> state = VERY_LOW then
           [\<lparr>si_id = ''primary-visibility'',
             si_severity = (if state = VERY_LOW then ISSUE_CRITICAL else ISSUE_WARNING),
             si_kind = VISIBILITY, si_vehicleId = ws_primary_vehicle_id world,
             si_title = underscores_to_spaces (visibility_string state) @ '' visibility'',
             si_detail = ''Primary vehicle visibility is '' @
               num_str (js_round (env_visibility_score (ws_environment world) * 100)) @ ''%.''\<rparr>]
         else [])"

definition haulIssues :: "WorldState \<Rightarrow> SupervisorIssue list" where
  "haulIssues world =
     (case (if ws_mode world = SIMULATED then ws_haul_route world else None) of
        None \<Rightarrow> []
      | Some haul \<Rightarrow>
          if hr_obstacle_detected haul = Some True \<or> hr_traffic_slowing haul = Some True \<or>
             hr_lead_waiting haul = Some True then
            [\<lparr>si_id = ''haul-encounter'', si_severity = ISSUE_WARNING, si_kind = SAFETY,
              si_vehicleId = ws_primary_vehicle_id world, si_title = hr_next_instruction haul,
              si_detail = (if hr_obstacle_detected haul = Some True
                then ''Range-confirmed rock on the assigned track.''
                else ''Vehicle coordination on the haul track.'')\<rparr>]
          else [])"

definition primarySummary :: "WorldState \<Rightarrow> SupervisorVehicle list \<Rightarrow> PrimaryTelemetrySummary option" where
  "primarySummary world vehicles =
     (case find sv_isPrimary vehicles of
        None \<Rightarrow> None
      | Some found \<Rightarrow> Some
          \<lparr>pts_vehicle = found,
           pts_visibilityPercent = js_round (env_visibility_score (ws_environment world) * 100),
           pts_visibilityState = env_visibility_state (ws_environment world),
           pts_temperatureC = env_temperature_c (ws_environment world),
           pts_pressureHpa = env_pressure_hpa (ws_environment world),
           pts_relativeAltitudeM = env_relative_altitude_m (ws_environment world),
           pts_nearestObstacleM =
             nearestRange (availableRangeReadings (ws_ranges world) (ws_sensor_health world) True),
           pts_corridorState = sc_state (ws_safe_corridor world),
           pts_corridorConfidence = sc_confidence (ws_safe_corridor world),
           pts_corridorReason = sc_reason (ws_safe_corridor world),
           pts_sensors = tofSensorHealth (ws_sensor_health world),
           pts_sensorSummary = tofSensorHealthSummary (ws_sensor_health world)\<rparr>)"

definition toneCount :: "SupervisorVehicleTone \<Rightarrow> SupervisorVehicle list \<Rightarrow> nat" where
  "toneCount tone vehicles = length (filter (\<lambda>vehicle. sv_tone vehicle = tone) vehicles)"

definition supervisorCounts :: "SupervisorVehicle list \<Rightarrow> SupervisorCounts" where
  "supervisorCounts vehicles =
     \<lparr>cnt_total = length vehicles,
      cnt_online = length (filter (\<lambda>vehicle. sv_tone vehicle \<noteq> lost \<and> 0 < sv_lastUpdateMs vehicle) vehicles),
      cnt_nominal = toneCount nominal vehicles, cnt_attention = toneCount attention vehicles,
      cnt_critical = toneCount critical vehicles, cnt_lost = toneCount lost vehicles,
      cnt_unknown = toneCount unknown vehicles\<rparr>"

definition createSupervisorViewModel ::
    "(string \<Rightarrow> string \<Rightarrow> int) \<Rightarrow> WorldState \<Rightarrow> SupervisorViewModel" where
  "createSupervisorViewModel lc world =
     (let vehicles = js_sort (\<lambda>a b. compareVehicles lc a b < 0) (collectVehicles world);
          issues = List.map_filter issueForVehicle vehicles @ sensorIssues world @
            visibilityIssues world @ haulIssues world
      in \<lparr>svm_mapName = (case ws_reference_map world of
            Some m \<Rightarrow> rm_name m | None \<Rightarrow> ''Reference map unavailable''),
          svm_referenceTimeMs = referenceTime world, svm_mode = ws_mode world,
          svm_vehicles = vehicles, svm_counts = supervisorCounts vehicles,
          svm_issues = js_sort (\<lambda>a b. compareIssues lc a b < 0) issues,
          svm_history = js_sort (key_after al_timestamp_ms) (ws_alerts world),
          svm_primary = primarySummary world vehicles\<rparr>)"

section \<open>The comparators\<close>

text \<open>
  The documented contract of \<^verbatim>\<open>localeCompare\<close> that sorting needs: strictly smaller is asymmetric
  and its negation transitive.
\<close>

locale collation =
  fixes lc :: "string \<Rightarrow> string \<Rightarrow> int"
  assumes lc_asym: "lc x y < 0 \<Longrightarrow> \<not> lc y x < 0"
    and lc_trans: "0 \<le> lc x y \<Longrightarrow> 0 \<le> lc y z \<Longrightarrow> 0 \<le> lc x z"
begin

lemma vehicles_asym: "compareVehicles lc a b < 0 \<Longrightarrow> \<not> compareVehicles lc b a < 0"
  using lc_asym by (fastforce simp: compareVehicles_def Let_def split: if_splits)

lemma vehicles_trans:
  "\<not> compareVehicles lc a b < 0 \<Longrightarrow> \<not> compareVehicles lc b c < 0 \<Longrightarrow> \<not> compareVehicles lc a c < 0"
  using lc_trans [of "sv_vehicleId a" "sv_vehicleId b" "sv_vehicleId c"]
  by (auto simp: compareVehicles_def Let_def split: if_splits)

lemma issues_asym: "compareIssues lc a b < 0 \<Longrightarrow> \<not> compareIssues lc b a < 0"
  using lc_asym by (fastforce simp: compareIssues_def split: if_splits)

lemma issues_trans:
  "\<not> compareIssues lc a b < 0 \<Longrightarrow> \<not> compareIssues lc b c < 0 \<Longrightarrow> \<not> compareIssues lc a c < 0"
  using lc_trans [of "si_vehicleId a" "si_vehicleId b" "si_vehicleId c"]
  by (cases "si_severity a"; cases "si_severity b"; cases "si_severity c")
    (auto simp: compareIssues_def split: if_splits)

end

sublocale collation < fleet_order: comparator "\<lambda>_. True" "\<lambda>a b. compareVehicles lc a b < 0"
  by unfold_locales (metis vehicles_asym, metis vehicles_trans)

sublocale collation < issue_order: comparator "\<lambda>_. True" "\<lambda>a b. compareIssues lc a b < 0"
  by unfold_locales (metis issues_asym, metis issues_trans)

context collation
begin

lemma fleet_list_sorted:
  "sorted_wrt (\<lambda>a b. \<not> compareVehicles lc b a < 0) (js_sort (\<lambda>a b. compareVehicles lc a b < 0) vs)"
  by (rule fleet_order.sort_sorted) simp

lemma issue_list_sorted:
  "sorted_wrt (\<lambda>a b. \<not> compareIssues lc b a < 0) (js_sort (\<lambda>a b. compareIssues lc a b < 0) is)"
  by (rule issue_order.sort_sorted) simp

end

text \<open>A concrete collation: by code points.\<close>

fun codePointCompare :: "string \<Rightarrow> string \<Rightarrow> int" where
  "codePointCompare [] [] = 0"
| "codePointCompare [] (_ # _) = - 1"
| "codePointCompare (_ # _) [] = 1"
| "codePointCompare (c # cs) (d # ds) =
     (let m = of_char c :: int; n = of_char d in if m = n then codePointCompare cs ds else m - n)"

lemma codePoint_asym: "codePointCompare a b < 0 \<Longrightarrow> \<not> codePointCompare b a < 0"
  by (induction a b rule: codePointCompare.induct) (auto simp: Let_def)

lemma codePoint_trans:
  "0 \<le> codePointCompare a b \<Longrightarrow> 0 \<le> codePointCompare b c \<Longrightarrow> 0 \<le> codePointCompare a c"
proof (induction a b arbitrary: c rule: codePointCompare.induct)
  case (4 x xs y ys)
  then show ?case by (cases c) (auto simp: Let_def split: if_splits)
next
  case (3 x xs)
  then show ?case by (cases c) (auto simp: Let_def)
qed (auto simp: Let_def)

interpretation code_points: collation codePointCompare
  by unfold_locales (auto dest: codePoint_asym intro: codePoint_trans)

section \<open>Lemmas on the collected vehicles\<close>

lemma worldVehicle_id [simp]: "sv_vehicleId (worldVehicle w v) = vp_vehicle_id v"
  by (simp add: worldVehicle_def Let_def)

lemma worldVehicle_primary [simp]:
  "sv_isPrimary (worldVehicle w v) \<longleftrightarrow> vp_vehicle_id v = ws_primary_vehicle_id w"
  by (simp add: worldVehicle_def Let_def)

lemma peerVehicle_fields [simp]:
  "sv_vehicleId (peerVehicle w p) = peer_vehicle_id p" "\<not> sv_isPrimary (peerVehicle w p)"
  by (simp_all add: peerVehicle_def Let_def)

lemma telemetryVehicle_fields [simp]:
  "sv_vehicleId (telemetryVehicle w t) = vt_vehicle_id t" "\<not> sv_isPrimary (telemetryVehicle w t)"
  by (simp_all add: telemetryVehicle_def)

lemma addTelemetry_simps:
  "vt_vehicle_id t \<in> known \<Longrightarrow> addTelemetry w t (vs, known) = (vs, known)"
  "vt_vehicle_id t \<notin> known \<Longrightarrow> addTelemetry w t (vs, known) =
     (vs @ [telemetryVehicle w t], insert (vt_vehicle_id t) known)"
  by (simp_all add: addTelemetry_def)

text \<open>What the telemetry loop adds: one entry per id that is not known yet.\<close>

lemma addTelemetry_fold:
  "\<exists>new. fst (fold (addTelemetry w) ts (vs, known)) = vs @ map (telemetryVehicle w) new \<and>
    set new \<subseteq> set ts \<and> vt_vehicle_id ` set ts \<subseteq> known \<union> vt_vehicle_id ` set new \<and>
    distinct (map vt_vehicle_id new) \<and> vt_vehicle_id ` set new \<inter> known = {}"
proof (induction ts arbitrary: vs known)
  case Nil
  then show ?case by (intro exI [of _ "[]"]) simp
next
  case (Cons t ts)
  show ?case
  proof (cases "vt_vehicle_id t \<in> known")
    case True
    with Cons.IH [of vs known] show ?thesis by (auto simp: addTelemetry_simps)
  next
    case False
    from Cons.IH [of "vs @ [telemetryVehicle w t]" "insert (vt_vehicle_id t) known"]
    obtain new where
      "fst (fold (addTelemetry w) ts (vs @ [telemetryVehicle w t], insert (vt_vehicle_id t) known)) =
         vs @ map (telemetryVehicle w) (t # new)"
      "set new \<subseteq> set ts"
      "vt_vehicle_id ` set ts \<subseteq> insert (vt_vehicle_id t) known \<union> vt_vehicle_id ` set new"
      "distinct (map vt_vehicle_id new)"
      "vt_vehicle_id ` set new \<inter> insert (vt_vehicle_id t) known = {}"
      by auto
    with False show ?thesis by (intro exI [of _ "t # new"]) (auto simp: addTelemetry_simps)
  qed
qed

text \<open>The samples the view uses, and the three groups of entries.\<close>

definition telemetrySamples :: "WorldState \<Rightarrow> VehicleTelemetry list" where
  "telemetrySamples w = (case ws_vehicle_telemetry w of Some ts \<Rightarrow> ts | None \<Rightarrow> [])"

definition extraPeers :: "WorldState \<Rightarrow> V2XPeerNode list" where
  "extraPeers w =
     filter (\<lambda>p. peer_vehicle_id p \<notin> vp_vehicle_id ` set (ws_vehicles w)) (activePeers w)"

lemma collectVehicles_groups:
  "\<exists>new. collectVehicles w = map (worldVehicle w) (ws_vehicles w) @
      map (peerVehicle w) (extraPeers w) @ map (telemetryVehicle w) new \<and>
    set new \<subseteq> set (telemetrySamples w) \<and> distinct (map vt_vehicle_id new) \<and>
    vt_vehicle_id ` set (telemetrySamples w) \<subseteq> vp_vehicle_id ` set (ws_vehicles w) \<union>
      peer_vehicle_id ` set (activePeers w) \<union> vt_vehicle_id ` set new \<and>
    vt_vehicle_id ` set new \<inter> (vp_vehicle_id ` set (ws_vehicles w) \<union>
      peer_vehicle_id ` set (extraPeers w)) = {}"
proof -
  let ?listed = "map (worldVehicle w) (ws_vehicles w) @ map (peerVehicle w) (extraPeers w)"
  have known: "sv_vehicleId ` set ?listed =
      vp_vehicle_id ` set (ws_vehicles w) \<union> peer_vehicle_id ` set (extraPeers w)"
    by (auto simp: image_Un image_image)
  have "collectVehicles w =
      fst (fold (addTelemetry w) (telemetrySamples w) (?listed, sv_vehicleId ` set ?listed))"
    by (simp add: collectVehicles_def Let_def telemetrySamples_def extraPeers_def image_image)
  moreover obtain new where
    "fst (fold (addTelemetry w) (telemetrySamples w) (?listed, sv_vehicleId ` set ?listed)) =
       ?listed @ map (telemetryVehicle w) new"
    "set new \<subseteq> set (telemetrySamples w)" "distinct (map vt_vehicle_id new)"
    and cover: "vt_vehicle_id ` set (telemetrySamples w) \<subseteq>
      sv_vehicleId ` set ?listed \<union> vt_vehicle_id ` set new"
    and disjoint: "vt_vehicle_id ` set new \<inter> sv_vehicleId ` set ?listed = {}"
    using addTelemetry_fold [of w "telemetrySamples w" ?listed "sv_vehicleId ` set ?listed"] by blast
  moreover have "peer_vehicle_id ` set (extraPeers w) \<subseteq> peer_vehicle_id ` set (activePeers w)"
    by (auto simp: extraPeers_def)
  with cover have "vt_vehicle_id ` set (telemetrySamples w) \<subseteq> vp_vehicle_id ` set (ws_vehicles w) \<union>
      peer_vehicle_id ` set (activePeers w) \<union> vt_vehicle_id ` set new"
    unfolding known by blast
  moreover note disjoint [unfolded known]
  ultimately show ?thesis by (intro exI [of _ new]) (simp only: append_assoc simp_thms subset_refl)
qed

lemma svm_simps:
  "svm_vehicles (createSupervisorViewModel lc w) =
     js_sort (\<lambda>a b. compareVehicles lc a b < 0) (collectVehicles w)"
  "svm_counts (createSupervisorViewModel lc w) =
     supervisorCounts (svm_vehicles (createSupervisorViewModel lc w))"
  "svm_issues (createSupervisorViewModel lc w) =
     js_sort (\<lambda>a b. compareIssues lc a b < 0)
       (List.map_filter issueForVehicle (svm_vehicles (createSupervisorViewModel lc w)) @
        sensorIssues w @ visibilityIssues w @ haulIssues w)"
  by (simp_all add: createSupervisorViewModel_def Let_def)

lemma length_filter_js_sort: "length (filter P (js_sort before xs)) = length (filter P xs)"
  by (metis mset_filter mset_js_sort size_mset)

lemma length_filter_distinct:
  "distinct (map f xs) \<Longrightarrow> length (filter (\<lambda>x. f x = i) xs) = (if i \<in> f ` set xs then 1 else 0)"
  by (induction xs) (auto simp: filter_empty_conv)

lemma toUpperCase_idem [simp]: "toUpperCase (toUpperCase s) = toUpperCase s"
proof -
  have "upper_char (upper_char c) = upper_char c" for c
  proof (cases "97 \<le> (of_char c :: nat) \<and> (of_char c :: nat) \<le> 122")
    case True
    then have "(of_char c - 32) mod 256 = (of_char c - 32 :: nat)" by (intro mod_less) linarith
    moreover have "\<not> 97 \<le> (of_char c - 32 :: nat)" using True by linarith
    ultimately show ?thesis using True by (simp add: upper_char_def Let_def)
  qed (auto simp: upper_char_def Let_def)
  then show ?thesis by (simp add: toUpperCase_def)
qed

lemma normalized_idem [simp]:
  "normalizedEmergencyState (normalizedEmergencyState s) = normalizedEmergencyState s"
  by (auto simp: normalizedEmergencyState_def truthy_string_def split: option.splits)

lemma level_string_upper [simp]: "toUpperCase (level_string l) = level_string l"
  by (cases l) (simp_all add: toUpperCase_def upper_char_def)

lemma level_string_normalized [simp]:
  "normalizedEmergencyState (Some (level_string l)) = Some (level_string l)"
  by (cases l) (simp_all add: normalizedEmergencyState_def truthy_string_def toUpperCase_def
      upper_char_def)

lemma TONE_RANK_eq: "TONE_RANK s = TONE_RANK t \<longleftrightarrow> s = t"
  by (cases s; cases t) simp_all

lemma vehicle_order_meaning:
  assumes "\<not> compareVehicles lc b a < 0"
  shows "sv_tone b < sv_tone a \<or> sv_tone a = sv_tone b \<and> (sv_isPrimary b \<longrightarrow> sv_isPrimary a)"
proof (cases "sv_tone a = sv_tone b")
  case True
  with assms show ?thesis by (auto simp: compareVehicles_def split: if_splits)
next
  case False
  then have "TONE_RANK (sv_tone a) \<noteq> TONE_RANK (sv_tone b)" by (simp add: TONE_RANK_eq)
  with assms show ?thesis
    by (simp add: compareVehicles_def Let_def less_SupervisorVehicleTone_def split: if_splits)
qed

section \<open>Properties\<close>

text \<open>
  Every vehicle the snapshot mentions is listed, as often as the most trusted source that
  mentions it does: an id in the vehicle list as often as it occurs there, an id known from
  V2X only as often as it has peers, an id known from direct telemetry only exactly once, and
  no other id at all.
\<close>

theorem fleet_entries:
  "length (filter (\<lambda>e. sv_vehicleId e = i) (svm_vehicles (createSupervisorViewModel lc w))) =
    (let own = length (filter (\<lambda>v. vp_vehicle_id v = i) (ws_vehicles w));
         peers = length (filter (\<lambda>p. peer_vehicle_id p = i) (activePeers w))
     in if 0 < own then own else if 0 < peers then peers
        else if i \<in> vt_vehicle_id ` set (telemetrySamples w) then 1 else 0)"
proof -
  obtain new where groups: "collectVehicles w = map (worldVehicle w) (ws_vehicles w) @
      map (peerVehicle w) (extraPeers w) @ map (telemetryVehicle w) new"
    and new: "set new \<subseteq> set (telemetrySamples w)" "distinct (map vt_vehicle_id new)"
    and cover: "vt_vehicle_id ` set (telemetrySamples w) \<subseteq> vp_vehicle_id ` set (ws_vehicles w) \<union>
      peer_vehicle_id ` set (activePeers w) \<union> vt_vehicle_id ` set new"
    and disjoint: "vt_vehicle_id ` set new \<inter> (vp_vehicle_id ` set (ws_vehicles w) \<union>
      peer_vehicle_id ` set (extraPeers w)) = {}"
    using collectVehicles_groups by blast
  let ?own = "filter (\<lambda>v. vp_vehicle_id v = i) (ws_vehicles w)"
  let ?peers = "filter (\<lambda>p. peer_vehicle_id p = i) (activePeers w)"
  let ?new = "filter (\<lambda>t. vt_vehicle_id t = i) new"
  have "length (filter (\<lambda>e. sv_vehicleId e = i) (svm_vehicles (createSupervisorViewModel lc w))) =
      length ?own + length (filter (\<lambda>p. peer_vehicle_id p = i) (extraPeers w)) + length ?new"
    by (simp add: svm_simps(1) length_filter_js_sort groups filter_map comp_def)
  moreover have own: "?own = [] \<longleftrightarrow> i \<notin> vp_vehicle_id ` set (ws_vehicles w)"
    by (auto simp: filter_empty_conv)
  moreover have extra: "filter (\<lambda>p. peer_vehicle_id p = i) (extraPeers w) =
      (if ?own = [] then ?peers else [])"
    using own by (auto simp: extraPeers_def filter_empty_conv intro!: filter_cong)
  moreover have peers: "?peers = [] \<longleftrightarrow> i \<notin> peer_vehicle_id ` set (activePeers w)"
    by (auto simp: filter_empty_conv)
  moreover have count: "length ?new = (if i \<in> vt_vehicle_id ` set new then 1 else 0)"
    using new(2) by (rule length_filter_distinct)
  moreover have "i \<in> vt_vehicle_id ` set new \<longleftrightarrow> ?own = [] \<and> ?peers = [] \<and>
      i \<in> vt_vehicle_id ` set (telemetrySamples w)"
    if "?own = [] \<longrightarrow> i \<notin> peer_vehicle_id ` set (extraPeers w) \<longrightarrow> ?peers = []"
    using cover disjoint new(1) own peers that by blast
  moreover have "?own = [] \<Longrightarrow> i \<in> peer_vehicle_id ` set (activePeers w) \<Longrightarrow>
      i \<in> peer_vehicle_id ` set (extraPeers w)"
    using own by (auto simp: extraPeers_def)
  ultimately show ?thesis by (auto simp: Let_def)
qed

text \<open>
  The counters of the fleet header are consistent: the five tones partition the listed
  vehicles, and a vehicle counted online is not counted lost.
\<close>

theorem counts_partition:
  "let c = svm_counts (createSupervisorViewModel lc w) in
     cnt_total c = length (svm_vehicles (createSupervisorViewModel lc w)) \<and>
     cnt_total c = cnt_nominal c + cnt_attention c + cnt_critical c + cnt_lost c + cnt_unknown c \<and>
     cnt_online c + cnt_lost c \<le> cnt_total c"
proof -
  have "length vs = toneCount nominal vs + toneCount attention vs + toneCount critical vs +
      toneCount lost vs + toneCount unknown vs" for vs
  proof (induction vs)
    case (Cons v vs)
    then show ?case by (cases "sv_tone v") (simp_all add: toneCount_def)
  qed (simp add: toneCount_def)
  moreover have "length (filter (\<lambda>v. sv_tone v \<noteq> lost \<and> 0 < sv_lastUpdateMs v) vs) +
      toneCount lost vs \<le> length vs" for vs
    by (induction vs) (auto simp: toneCount_def)
  ultimately show ?thesis by (simp add: svm_simps(2) supervisorCounts_def Let_def)
qed

text \<open>
  The fleet list is sorted by urgency: no vehicle comes after one with a less urgent tone,
  and among vehicles with the same tone the primary one comes first.
\<close>

theorem fleet_sorted:
  assumes "collation lc"
  shows "sorted_wrt (\<lambda>a b. sv_tone b < sv_tone a \<or>
      sv_tone a = sv_tone b \<and> (sv_isPrimary b \<longrightarrow> sv_isPrimary a))
    (svm_vehicles (createSupervisorViewModel lc w))"
proof -
  have "sorted_wrt (\<lambda>a b. \<not> compareVehicles lc b a < 0)
      (svm_vehicles (createSupervisorViewModel lc w))"
    unfolding svm_simps(1) by (rule collation.fleet_list_sorted [OF assms])
  then show ?thesis
    by (rule sorted_wrt_mono_rel [rotated]) (rule vehicle_order_meaning)
qed

theorem fleet_sorted_witness:
  "sorted_wrt (\<lambda>a b. sv_tone b \<le> sv_tone a)
    (svm_vehicles (createSupervisorViewModel codePointCompare sampleWorld))"
  by (rule sorted_wrt_mono_rel [OF _ fleet_sorted [OF code_points.collation_axioms]]) auto

text \<open>
  C10. An emergency of the primary vehicle is never buried: when its emergency state is CRITICAL
  or EMERGENCY_STOP and it is listed, the issues contain a critical safety issue for it, and
  the critical issues come before all the warnings.
\<close>

theorem primary_emergency_raised:
  assumes "collation lc"
    and "em_state (ws_emergency w) = CRITICAL \<or> em_state (ws_emergency w) = EMERGENCY_STOP"
    and "list_ex (\<lambda>v. vp_vehicle_id v = ws_primary_vehicle_id w) (ws_vehicles w)"
  shows "list_ex (\<lambda>i. si_kind i = SAFETY \<and> si_severity i = ISSUE_CRITICAL \<and>
        si_vehicleId i = ws_primary_vehicle_id w) (svm_issues (createSupervisorViewModel lc w)) \<and>
    sorted_wrt (\<lambda>a b. si_severity b = ISSUE_CRITICAL \<longrightarrow> si_severity a = ISSUE_CRITICAL)
      (svm_issues (createSupervisorViewModel lc w))"
proof
  obtain v where v: "v \<in> set (ws_vehicles w)" "vp_vehicle_id v = ws_primary_vehicle_id w"
    using assms(3) by (auto simp: list_ex_iff)
  let ?e = "worldVehicle w v"
  let ?level = "level_string (em_state (ws_emergency w))"
  have "normalizedEmergencyState (sv_emergencyState ?e) = Some ?level"
    using v(2) by (simp add: worldVehicle_def Let_def)
  moreover have level: "?level = ''CRITICAL'' \<or> ?level = ''EMERGENCY_STOP''" using assms(2) by auto
  ultimately have issue: "issueForVehicle ?e = Some (safetyIssue ?e ?level)"
    by (auto simp: issueForVehicle_def)
  have "?e \<in> set (svm_vehicles (createSupervisorViewModel lc w))"
    using collectVehicles_groups [of w] v(1) by (auto simp: svm_simps(1))
  with issue have "safetyIssue ?e ?level \<in> set (svm_issues (createSupervisorViewModel lc w))"
    by (force simp: svm_simps(3) map_filter_def)
  with v(2) level show "list_ex (\<lambda>i. si_kind i = SAFETY \<and> si_severity i = ISSUE_CRITICAL \<and>
      si_vehicleId i = ws_primary_vehicle_id w) (svm_issues (createSupervisorViewModel lc w))"
    by (auto simp: list_ex_iff safetyIssue_def Let_def intro!: bexI [of _ "safetyIssue ?e ?level"])
  show "sorted_wrt (\<lambda>a b. si_severity b = ISSUE_CRITICAL \<longrightarrow> si_severity a = ISSUE_CRITICAL)
      (svm_issues (createSupervisorViewModel lc w))"
    unfolding svm_simps(3)
    by (rule sorted_wrt_mono_rel [OF _ collation.issue_list_sorted [OF assms(1)]])
      (auto simp: compareIssues_def split: if_splits)
qed

theorem primary_emergency_raised_witness:
  "list_ex (\<lambda>i. si_severity i = ISSUE_CRITICAL \<and> si_vehicleId i = ''DUMPER_01'')
    (svm_issues (createSupervisorViewModel codePointCompare sampleWorld))"
proof -
  have "list_ex (\<lambda>v. vp_vehicle_id v = ws_primary_vehicle_id sampleWorld) (ws_vehicles sampleWorld)"
    and "em_state (ws_emergency sampleWorld) = EMERGENCY_STOP"
    and "ws_primary_vehicle_id sampleWorld = ''DUMPER_01''"
    by (simp_all add: sampleWorld_def defaultVehicle_def)
  with primary_emergency_raised [OF code_points.collation_axioms, of sampleWorld] show ?thesis
    by (auto simp: list_ex_iff)
qed

text \<open>
  An emergency state the view does not know is graded twice: a peer that reports one (on a
  live link) is shown with the critical tone, while the issue raised for it is a warning.
\<close>

theorem unknown_state_graded_twice:
  assumes "toUpperCase (peer_emergency_state p) \<notin> fst ` set UNSAFE_RANK"
    and "peer_emergency_state p \<noteq> ''''" and "peer_link_status p \<noteq> LINK_LOST"
  shows "sv_tone (peerVehicle w p) = critical \<and>
    map_option si_severity (issueForVehicle (peerVehicle w p)) = Some ISSUE_WARNING"
proof -
  let ?s = "toUpperCase (peer_emergency_state p)"
  have norm: "normalizedEmergencyState (Some (peer_emergency_state p)) = Some ?s"
    using assms(2) by (simp add: normalizedEmergencyState_def truthy_string_def)
  then have twice: "normalizedEmergencyState (Some ?s) = Some ?s" by (metis normalized_idem)
  have names: "?s \<noteq> ''CRITICAL''" "?s \<noteq> ''EMERGENCY_STOP''" "?s \<noteq> ''SAFE''"
    using assms(1) by (auto simp: UNSAFE_RANK_def)
  have "map_of UNSAFE_RANK ?s = None" using assms(1) by (simp add: map_of_eq_None_iff)
  then have "emergencyRank (Some ?s) = 3"
    using assms(2) by (simp add: emergencyRank_def truthy_string_def)
  then have "sv_tone (peerVehicle w p) = critical"
    using assms(3) by (simp add: peerVehicle_def norm vehicleTone_def Let_def)
  moreover have "sv_emergencyState (peerVehicle w p) = Some ?s"
    by (simp add: peerVehicle_def norm Let_def)
  ultimately show ?thesis
    using names assms(2) by (simp add: issueForVehicle_def twice safetyIssue_def Let_def)
qed

definition panicPeer :: V2XPeerNode where
  "panicPeer = \<lparr>peer_vehicle_id = ''DUMPER_09'', peer_last_seen_ms = 90, peer_x_m = 0, peer_y_m = 0,
     peer_distance_m = 5, peer_bearing_deg = None, peer_speed_mps = 0, peer_heading_deg = 0,
     peer_emergency_state = ''BRAKE_FAILURE'', peer_rssi_dbm = 0, peer_link_status = LINK_GOOD\<rparr>"

theorem unknown_state_graded_twice_witness:
  "sv_tone (peerVehicle sampleWorld panicPeer) = critical \<and>
   map_option si_severity (issueForVehicle (peerVehicle sampleWorld panicPeer)) = Some ISSUE_WARNING"
  by (rule unknown_state_graded_twice)
    (simp_all add: panicPeer_def UNSAFE_RANK_def toUpperCase_def upper_char_def)

text \<open>
  A vehicle known from direct telemetry that goes offline is shown and counted as lost, but
  no issue is raised for it: issues of contact loss look at the V2X link, which it has not.
\<close>

theorem offline_telemetry_no_issue:
  assumes "\<not> vt_online t"
  shows "sv_tone (telemetryVehicle w t) = lost \<and> issueForVehicle (telemetryVehicle w t) = None"
  using assms by (simp add: telemetryVehicle_def issueForVehicle_def linkIssue_def
      normalizedEmergencyState_def truthy_string_def)

theorem offline_telemetry_no_issue_witness:
  "issueForVehicle (telemetryVehicle sampleWorld \<lparr>vt_vehicle_id = ''DUMPER_02'', vt_received_at_ms = 5,
      vt_online = False, vt_gps = \<lparr>gps_fix = False, gps_lat = None, gps_lon = None, gps_alt_m = None,
        gps_speed_mps = None, gps_sats = 0, gps_hdop = None, gps_age = None, gps_bytes = 0\<rparr>,
      vt_load = None\<rparr>) = None"
  by (rule offline_telemetry_no_issue [THEN conjunct2]) simp

end
