(* ===== verification/Navigation.thy ===== *)
theory Navigation
  imports Prelude
begin

text \<open>
  Roles, views and the location hash: \<^verbatim>\<open>frontend/src/layout/dashboardViews.ts\<close> (views, role
  policies, routes), \<^verbatim>\<open>auth/roleSession.ts\<close> (the stored role), \<^verbatim>\<open>layout/useDashboardNavigation.ts\<close>
  and the role handling of \<^verbatim>\<open>App.tsx\<close>, as one machine over the role, the view, the hash and the
  session storage. A state is what the effects and listeners leave once they have all run;
  the entries of the browser history are not kept, since any hash may arrive by an event.
\<close>

section \<open>Views and policies\<close>

datatype DashboardRole = DRIVER_ROLE | SUPERVISOR_ROLE

datatype DashboardView = DRIVER_VIEW | SPATIAL_VIEW | SUPERVISOR_VIEW | SETTINGS_VIEW

text \<open>The string literals the two unions consist of.\<close>

fun role_value :: "DashboardRole \<Rightarrow> string" where
  "role_value DRIVER_ROLE = ''DRIVER''"
| "role_value SUPERVISOR_ROLE = ''SUPERVISOR''"

fun view_value :: "DashboardView \<Rightarrow> string" where
  "view_value DRIVER_VIEW = ''DRIVER''"
| "view_value SPATIAL_VIEW = ''SPATIAL''"
| "view_value SUPERVISOR_VIEW = ''SUPERVISOR''"
| "view_value SETTINGS_VIEW = ''SETTINGS''"

record DashboardViewOption =
  dv_value :: DashboardView
  dv_label :: string
  dv_hash :: string
  dv_workspace :: DashboardRole
  dv_description :: string

record DashboardRolePolicy =
  rp_label :: string
  rp_homeView :: DashboardView
  rp_views :: "DashboardView list"

definition dashboardViews :: "DashboardViewOption list" where
  "dashboardViews =
    [\<lparr>dv_value = DRIVER_VIEW, dv_label = ''Awareness'', dv_hash = ''#driver'',
      dv_workspace = DRIVER_ROLE, dv_description = ''Camera and corridor''\<rparr>,
     \<lparr>dv_value = SPATIAL_VIEW, dv_label = ''Spatial'', dv_hash = ''#spatial'',
      dv_workspace = DRIVER_ROLE, dv_description = ''Range field''\<rparr>,
     \<lparr>dv_value = SETTINGS_VIEW, dv_label = ''Calibration'', dv_hash = ''#calibration'',
      dv_workspace = DRIVER_ROLE, dv_description = ''Sensor setup''\<rparr>,
     \<lparr>dv_value = SUPERVISOR_VIEW, dv_label = ''Fleet'', dv_hash = ''#fleet'',
      dv_workspace = SUPERVISOR_ROLE, dv_description = ''Fleet command''\<rparr>]"

fun rolePolicies :: "DashboardRole \<Rightarrow> DashboardRolePolicy" where
  "rolePolicies DRIVER_ROLE = \<lparr>rp_label = ''Driver'', rp_homeView = DRIVER_VIEW,
     rp_views = [DRIVER_VIEW, SPATIAL_VIEW, SETTINGS_VIEW]\<rparr>"
| "rolePolicies SUPERVISOR_ROLE = \<lparr>rp_label = ''Supervisor'', rp_homeView = SUPERVISOR_VIEW,
     rp_views = [SUPERVISOR_VIEW]\<rparr>"

definition viewByHash :: "(string \<times> DashboardView) list" where
  "viewByHash = map_from (map (\<lambda>view. (dv_hash view, dv_value view)) dashboardViews)"

definition dashboardViewFromHash :: "string \<Rightarrow> DashboardView" where
  "dashboardViewFromHash hash =
     (case map_of viewByHash (toLowerCase hash) of Some view \<Rightarrow> view | None \<Rightarrow> DRIVER_VIEW)"

definition dashboardRoleFromHash :: "string \<Rightarrow> DashboardRole option" where
  "dashboardRoleFromHash hash =
     map_option dv_workspace (find (\<lambda>view. dv_hash view = toLowerCase hash) dashboardViews)"

definition dashboardViewsForRole :: "DashboardRole \<Rightarrow> DashboardViewOption list" where
  "dashboardViewsForRole role =
     (let allowedViews = rp_views (rolePolicies role)
      in filter (\<lambda>view. dv_value view \<in> set allowedViews) dashboardViews)"

definition defaultDashboardView :: "DashboardRole \<Rightarrow> DashboardView" where
  "defaultDashboardView role = rp_homeView (rolePolicies role)"

definition dashboardRoleLabel :: "DashboardRole \<Rightarrow> string" where
  "dashboardRoleLabel role = rp_label (rolePolicies role)"

definition isDashboardViewAllowed :: "DashboardRole \<Rightarrow> DashboardView \<Rightarrow> bool" where
  "isDashboardViewAllowed role view \<longleftrightarrow> view \<in> set (rp_views (rolePolicies role))"

definition dashboardViewHash :: "DashboardView \<Rightarrow> string" where
  "dashboardViewHash view =
     (case find (\<lambda>candidate. dv_value candidate = view) dashboardViews of
        Some candidate \<Rightarrow> dv_hash candidate | None \<Rightarrow> ''#driver'')"

definition dashboardViewLabel :: "DashboardView \<Rightarrow> string" where
  "dashboardViewLabel view =
     (case find (\<lambda>candidate. dv_value candidate = view) dashboardViews of
        Some candidate \<Rightarrow> dv_label candidate | None \<Rightarrow> ''Awareness'')"

record DashboardRoute =
  route_view :: DashboardView
  route_hash :: string

definition resolveDashboardRoute :: "DashboardRole \<Rightarrow> string \<Rightarrow> DashboardRoute" where
  "resolveDashboardRoute role requestedDestination =
     (let requestedView =
            (if startsWith requestedDestination ''#''
             then map_of viewByHash (toLowerCase requestedDestination)
             else map_option dv_value
               (find (\<lambda>view. view_value (dv_value view) = requestedDestination) dashboardViews));
          view = (case requestedView of
              Some v \<Rightarrow> if isDashboardViewAllowed role v then v else defaultDashboardView role
            | None \<Rightarrow> defaultDashboardView role)
      in \<lparr>route_view = view, route_hash = dashboardViewHash view\<rparr>)"

section \<open>The stored role\<close>

text \<open>
  Session storage: \<open>None\<close> when every access throws, else the stored item.
\<close>

type_synonym SessionStorage = "string option option"

definition parseDashboardRole :: "string option \<Rightarrow> DashboardRole option" where
  "parseDashboardRole val =
     (if val = Some ''DRIVER'' then Some DRIVER_ROLE
      else if val = Some ''SUPERVISOR'' then Some SUPERVISOR_ROLE else None)"

definition readInitialRole :: "string \<Rightarrow> SessionStorage \<Rightarrow> DashboardRole option" where
  "readInitialRole hash storage =
     (case dashboardRoleFromHash hash of
        Some linkedRole \<Rightarrow> Some linkedRole
      | None \<Rightarrow> (case storage of Some item \<Rightarrow> parseDashboardRole item | None \<Rightarrow> None))"

definition saveRole :: "DashboardRole \<Rightarrow> SessionStorage \<Rightarrow> SessionStorage" where
  "saveRole role storage = map_option (\<lambda>_. Some (role_value role)) storage"

definition clearRole :: "SessionStorage \<Rightarrow> SessionStorage" where
  "clearRole storage = map_option (\<lambda>_. None) storage"

section \<open>Navigation within a role\<close>

text \<open>\<open>demo\<close> is the build-time constant \<^verbatim>\<open>STATIC_DEMO\<close>.\<close>

definition currentDashboardView :: "bool \<Rightarrow> DashboardRole \<Rightarrow> string \<Rightarrow> DashboardView" where
  "currentDashboardView demo role hash =
     (if demo \<and> role = DRIVER_ROLE \<and> hash = '''' then SPATIAL_VIEW
      else route_view (resolveDashboardRoute role hash))"

text \<open>The view to show and the hash the location is left with.\<close>

definition normalizeLocation :: "DashboardRole \<Rightarrow> string \<Rightarrow> DashboardView \<times> string" where
  "normalizeLocation role hash =
     (let route = resolveDashboardRoute role hash
      in (route_view route, if hash \<noteq> route_hash route then route_hash route else hash))"

definition syncFromLocation ::
    "DashboardRole \<Rightarrow> DashboardView \<times> string \<Rightarrow> DashboardView \<times> string" where
  "syncFromLocation role =
     (\<lambda>(view, hash).
        (case dashboardRoleFromHash hash of
           Some linkedRole \<Rightarrow>
             if linkedRole \<noteq> role then (view, hash) else normalizeLocation role hash
         | None \<Rightarrow> normalizeLocation role hash))"

text \<open>Mounting the hook: its initial state, then its first effect.\<close>

definition mountNavigation :: "bool \<Rightarrow> DashboardRole \<Rightarrow> string \<Rightarrow> DashboardView \<times> string" where
  "mountNavigation demo role hash =
     syncFromLocation role (currentDashboardView demo role hash, hash)"

definition navigateTo :: "DashboardRole \<Rightarrow> DashboardView \<Rightarrow> string \<Rightarrow> DashboardView \<times> string" where
  "navigateTo role requestedView hash =
     (let route = resolveDashboardRoute role (view_value requestedView)
      in (route_view route, if hash \<noteq> route_hash route then route_hash route else hash))"

section \<open>The application\<close>

text \<open>\<open>app_view\<close> is the view of the mounted dashboard, absent while no role is chosen.\<close>

record AppState =
  app_role :: "DashboardRole option"
  app_view :: "DashboardView option"
  app_hash :: string
  app_storage :: SessionStorage

definition enterRole :: "bool \<Rightarrow> DashboardRole \<Rightarrow> AppState \<Rightarrow> AppState" where
  "enterRole demo role s =
     (let (view, hash) = mountNavigation demo role (app_hash s)
      in s\<lparr>app_role := Some role, app_view := Some view, app_hash := hash\<rparr>)"

definition startApp :: "bool \<Rightarrow> string \<Rightarrow> SessionStorage \<Rightarrow> AppState" where
  "startApp demo hash storage =
     (let s = \<lparr>app_role = None, app_view = None, app_hash = hash, app_storage = storage\<rparr>
      in case readInitialRole hash storage of None \<Rightarrow> s | Some role \<Rightarrow> enterRole demo role s)"

text \<open>\<^verbatim>\<open>selectRole\<close>, offered by the login page only.\<close>

definition selectRole :: "bool \<Rightarrow> DashboardRole \<Rightarrow> AppState \<Rightarrow> AppState" where
  "selectRole demo nextRole s =
     (if app_role s \<noteq> None then s
      else
        let initialDestination = (if demo \<and> nextRole = DRIVER_ROLE then ''SPATIAL'' else '''')
        in enterRole demo nextRole
             (s\<lparr>app_storage := saveRole nextRole (app_storage s),
                app_hash := route_hash (resolveDashboardRoute nextRole initialDestination)\<rparr>))"

definition logoutApp :: "AppState \<Rightarrow> AppState" where
  "logoutApp s =
     (if app_role s = None then s
      else s\<lparr>app_storage := clearRole (app_storage s), app_hash := '''', app_role := None,
             app_view := None\<rparr>)"

text \<open>
  A \<^verbatim>\<open>hashchange\<close> or \<^verbatim>\<open>popstate\<close> event: the listener of the application follows a link into the
  other role, and the listener of the navigation hook synchronises the view.
\<close>

definition locationChanged :: "bool \<Rightarrow> string \<Rightarrow> AppState \<Rightarrow> AppState" where
  "locationChanged demo hash s =
     (let s1 = s\<lparr>app_hash := hash\<rparr>;
          linkedRole = dashboardRoleFromHash hash
      in case (app_role s, app_view s) of
           (Some role, Some view) \<Rightarrow>
             (let next = (case linkedRole of Some linked \<Rightarrow> linked | None \<Rightarrow> role);
                  (view', hash') = syncFromLocation next (view, hash)
              in s1\<lparr>app_role := Some next, app_view := Some view', app_hash := hash',
                    app_storage := (if next \<noteq> role then saveRole next (app_storage s)
                      else app_storage s)\<rparr>)
         | _ \<Rightarrow>
             (case linkedRole of
                Some linked \<Rightarrow> enterRole demo linked (s1\<lparr>app_storage := saveRole linked (app_storage s)\<rparr>)
              | None \<Rightarrow> s1))"

definition requestView :: "DashboardView \<Rightarrow> AppState \<Rightarrow> AppState" where
  "requestView view s =
     (case app_role s of
        None \<Rightarrow> s
      | Some role \<Rightarrow>
          (let (view', hash') = navigateTo role view (app_hash s)
           in s\<lparr>app_view := Some view', app_hash := hash'\<rparr>))"

definition documentTitle :: "AppState \<Rightarrow> string" where
  "documentTitle s =
     (case app_view s of
        Some view \<Rightarrow> dashboardViewLabel view @ '' | MI Sense''
      | None \<Rightarrow> ''MI Sense | Choose console'')"

datatype AppEvent =
  SelectRole DashboardRole | RequestView DashboardView | LocationChanged string | Logout

fun app_step :: "bool \<Rightarrow> AppEvent \<Rightarrow> AppState \<Rightarrow> AppState" where
  "app_step demo (SelectRole role) s = selectRole demo role s"
| "app_step demo (RequestView view) s = requestView view s"
| "app_step demo (LocationChanged hash) s = locationChanged demo hash s"
| "app_step demo Logout s = logoutApp s"

definition app_run :: "bool \<Rightarrow> string \<Rightarrow> SessionStorage \<Rightarrow> AppEvent list \<Rightarrow> AppState" where
  "app_run demo hash storage es = fold (app_step demo) es (startApp demo hash storage)"

section \<open>Routes\<close>

lemma allowed_simps [simp]:
  "isDashboardViewAllowed DRIVER_ROLE v \<longleftrightarrow> v \<noteq> SUPERVISOR_VIEW"
  "isDashboardViewAllowed SUPERVISOR_ROLE v \<longleftrightarrow> v = SUPERVISOR_VIEW"
  by (cases v; simp add: isDashboardViewAllowed_def)+

lemma hash_simps [simp]:
  "dashboardViewHash DRIVER_VIEW = ''#driver''" "dashboardViewHash SPATIAL_VIEW = ''#spatial''"
  "dashboardViewHash SETTINGS_VIEW = ''#calibration''" "dashboardViewHash SUPERVISOR_VIEW = ''#fleet''"
  by (simp_all add: dashboardViewHash_def dashboardViews_def)

lemma lower_hash [simp]: "toLowerCase (dashboardViewHash v) = dashboardViewHash v"
  by (cases v) (simp_all add: toLowerCase_def lower_char_def)

lemma viewByHash_of_hash [simp]: "map_of viewByHash (dashboardViewHash v) = Some v"
  by (cases v) (simp_all add: viewByHash_def map_from_def dashboardViews_def)

lemma role_of_hash: "dashboardRoleFromHash (dashboardViewHash v) = Some r \<longleftrightarrow> isDashboardViewAllowed r v"
  unfolding dashboardRoleFromHash_def lower_hash
  by (cases v; cases r) (simp_all add: dashboardViews_def)

lemma default_allowed: "isDashboardViewAllowed r (defaultDashboardView r)"
  by (cases r) (simp_all add: defaultDashboardView_def)

lemma route_allowed: "isDashboardViewAllowed r (route_view (resolveDashboardRoute r d))"
  by (auto simp: resolveDashboardRoute_def Let_def default_allowed split: option.splits)

lemma route_hash_view:
  "route_hash (resolveDashboardRoute r d) = dashboardViewHash (route_view (resolveDashboardRoute r d))"
  by (simp add: resolveDashboardRoute_def Let_def)

lemma hash_starts: "startsWith (dashboardViewHash v) ''#''"
  by (cases v) simp_all

lemma resolve_hash:
  "isDashboardViewAllowed r v \<Longrightarrow>
     resolveDashboardRoute r (dashboardViewHash v) = \<lparr>route_view = v, route_hash = dashboardViewHash v\<rparr>"
  by (simp add: resolveDashboardRoute_def hash_starts)

text \<open>A view allowed for the role, together with its hash.\<close>

definition placed :: "DashboardRole \<Rightarrow> DashboardView \<times> string \<Rightarrow> bool" where
  "placed r p \<longleftrightarrow> isDashboardViewAllowed r (fst p) \<and> snd p = dashboardViewHash (fst p)"

lemma normalize_placed: "placed r (normalizeLocation r h)"
  by (simp add: normalizeLocation_def placed_def route_allowed route_hash_view Let_def)

lemma navigate_placed: "placed r (navigateTo r v h)"
  by (simp add: navigateTo_def placed_def route_allowed route_hash_view Let_def)

lemma sync_placed: "dashboardRoleFromHash h \<in> {None, Some r} \<Longrightarrow> placed r (syncFromLocation r (v, h))"
  by (auto simp: syncFromLocation_def normalize_placed)

section \<open>The invariant of the application\<close>

definition app_ok :: "AppState \<Rightarrow> bool" where
  "app_ok s \<longleftrightarrow> (case app_role s of
     None \<Rightarrow> app_view s = None
   | Some r \<Rightarrow> (\<exists>v. app_view s = Some v \<and> placed r (v, app_hash s)))"

lemma enterRole_ok:
  assumes "dashboardRoleFromHash (app_hash s) \<in> {None, Some r}"
  shows "app_ok (enterRole demo r s)"
  using sync_placed [OF assms, of "currentDashboardView demo r (app_hash s)"]
  by (auto simp: enterRole_def mountNavigation_def app_ok_def split: prod.splits)

lemma startApp_ok: "app_ok (startApp demo hash storage)"
proof (cases "readInitialRole hash storage")
  case None
  then show ?thesis by (simp add: startApp_def app_ok_def)
next
  case (Some r)
  then have "dashboardRoleFromHash hash \<in> {None, Some r}"
    by (auto simp: readInitialRole_def split: option.splits)
  with Some show ?thesis by (simp add: startApp_def enterRole_ok)
qed

lemma locationChanged_ok: "app_ok s \<Longrightarrow> app_ok (locationChanged demo h s)"
proof -
  assume ok: "app_ok s"
  have sync: "placed next (syncFromLocation next (v, h))"
    if "next = (case dashboardRoleFromHash h of Some l \<Rightarrow> l | None \<Rightarrow> r)" for "next" v r
    using that by (intro sync_placed) (auto split: option.splits)
  show ?thesis
  proof (cases "app_role s")
    case None
    with ok show ?thesis
      by (auto simp: locationChanged_def app_ok_def [of s] Let_def enterRole_ok split: option.splits)
        (simp add: app_ok_def)
  next
    case (Some r)
    with ok obtain v where "app_view s = Some v" by (auto simp: app_ok_def)
    with Some sync [OF refl, of r v] show ?thesis
      by (auto simp: locationChanged_def app_ok_def Let_def split: prod.splits)
  qed
qed

lemma app_step_ok: "app_ok s \<Longrightarrow> app_ok (app_step demo e s)"
proof (cases e)
  case (SelectRole r)
  assume ok: "app_ok s"
  have "dashboardRoleFromHash (route_hash (resolveDashboardRoute r d)) = Some r" for d
    by (simp add: route_hash_view role_of_hash route_allowed)
  with ok SelectRole show ?thesis by (simp add: selectRole_def enterRole_ok Let_def)
next
  case (RequestView v)
  assume "app_ok s"
  with RequestView navigate_placed show ?thesis
    by (auto simp: requestView_def app_ok_def split: option.splits prod.splits) metis
qed (simp_all add: locationChanged_ok, auto simp: logoutApp_def app_ok_def)

interpretation app_machine: machine "startApp demo hash storage" "app_step demo" "\<lambda>_. True" app_ok
  for demo hash storage
  by unfold_locales (simp_all add: startApp_ok app_step_ok)

section \<open>Properties\<close>

text \<open>
  Access control: whatever links are followed, views requested and roles chosen, a dashboard
  is mounted exactly when a role is chosen, the view shown is one the policy of that role
  allows, and the location hash is the hash of that view.
\<close>

theorem view_always_allowed:
  "case app_role (app_run demo hash storage es) of
     None \<Rightarrow> app_view (app_run demo hash storage es) = None
   | Some r \<Rightarrow> (\<exists>v. app_view (app_run demo hash storage es) = Some v \<and>
       isDashboardViewAllowed r v \<and> app_hash (app_run demo hash storage es) = dashboardViewHash v)"
  using app_machine.run_inv [of es demo hash storage]
  by (simp add: app_run_def app_ok_def placed_def list_all_iff split: option.splits)

text \<open>
  C36. Reloading the page keeps the place: starting the application again from the location hash
  of a reachable state with a role gives the same role and view, whatever the storage holds.
\<close>

theorem reload_restores:
  assumes "s = app_run demo hash storage es" and "app_role s = Some r"
  shows "app_role (startApp demo' (app_hash s) storage') = app_role s \<and>
    app_view (startApp demo' (app_hash s) storage') = app_view s \<and>
    app_hash (startApp demo' (app_hash s) storage') = app_hash s"
proof -
  have "app_ok s"
    using app_machine.run_inv [of es demo hash storage] by (simp add: assms(1) app_run_def list_all_iff)
  with assms(2) obtain v where v: "app_view s = Some v" "isDashboardViewAllowed r v"
    "app_hash s = dashboardViewHash v"
    by (auto simp: app_ok_def placed_def)
  then have "dashboardRoleFromHash (app_hash s) = Some r" by (simp add: role_of_hash)
  with v assms(2) show ?thesis
    by (simp add: startApp_def readInitialRole_def enterRole_def mountNavigation_def
        syncFromLocation_def normalizeLocation_def resolve_hash Let_def)
qed

theorem reload_restores_witness:
  "app_view (startApp False (app_hash (app_run False ''#spatial'' None [])) None) =
   app_view (app_run False ''#spatial'' None [])"
proof -
  have "app_role (app_run False ''#spatial'' None []) = Some DRIVER_ROLE"
    by (simp add: app_run_def startApp_def readInitialRole_def dashboardRoleFromHash_def
        dashboardViews_def toLowerCase_def lower_char_def enterRole_def Let_def split: prod.splits)
  from reload_restores [OF refl this] show ?thesis by simp
qed

text \<open>
  Logging out is remembered: from any reachable state with a role, the state after logging
  out has no role, and starting the application again from its hash and storage asks for one.
\<close>

theorem logout_forgets:
  assumes "s = app_run demo hash storage es" and "app_role s \<noteq> None"
  shows "app_role (app_step demo Logout s) = None \<and>
    app_role (startApp demo (app_hash (app_step demo Logout s)) (app_storage (app_step demo Logout s)))
      = None"
proof -
  have "dashboardRoleFromHash [] = None"
    by (simp add: dashboardRoleFromHash_def dashboardViews_def toLowerCase_def)
  moreover have "(case clearRole st of Some item \<Rightarrow> parseDashboardRole item | None \<Rightarrow> None) = None" for st
    by (simp add: clearRole_def parseDashboardRole_def split: option.splits)
  ultimately show ?thesis
    using assms(2) by (auto simp: logoutApp_def startApp_def readInitialRole_def Let_def)
qed

theorem logout_forgets_witness:
  "app_role (app_step False Logout (app_run False '''' (Some None) [SelectRole SUPERVISOR_ROLE])) = None"
proof -
  have "app_role (app_run False '''' (Some None) [SelectRole SUPERVISOR_ROLE]) \<noteq> None"
    by (simp add: app_run_def startApp_def readInitialRole_def dashboardRoleFromHash_def
        parseDashboardRole_def dashboardViews_def toLowerCase_def selectRole_def enterRole_def Let_def
        split: prod.splits)
  from logout_forgets [OF refl this] show ?thesis by simp
qed

text \<open>
  Deep links and policies agree: the role a view's hash links to is the one role whose
  policy allows the view, the hash leads back to the view in any letter case, and resolving it
  for a role gives the view where it is allowed and the home view of the role elsewhere.
\<close>

theorem links_match_policies:
  "(dashboardRoleFromHash (dashboardViewHash v) = Some r) = isDashboardViewAllowed r v \<and>
   dashboardViewFromHash (dashboardViewHash v) = v \<and>
   dashboardViewFromHash (toUpperCase (dashboardViewHash v)) = v \<and>
   resolveDashboardRoute r (dashboardViewHash v) =
     (let shown = (if isDashboardViewAllowed r v then v else defaultDashboardView r)
      in \<lparr>route_view = shown, route_hash = dashboardViewHash shown\<rparr>)"
proof -
  have "toLowerCase (toUpperCase (dashboardViewHash v)) = dashboardViewHash v"
    by (cases v; simp only:; code_simp)
  then show ?thesis
    by (simp add: role_of_hash dashboardViewFromHash_def resolveDashboardRoute_def hash_starts Let_def)
qed

text \<open>
  The home view of the demo does not survive the mount: for a driver restored from storage
  on an empty hash the navigation hook starts at the spatial view, as the demo build intends,
  but the effect that runs next resolves the empty hash to the driver view.
\<close>

theorem demo_home_overridden:
  "currentDashboardView True DRIVER_ROLE '''' = SPATIAL_VIEW \<and>
   app_view (startApp True '''' (Some (Some ''DRIVER''))) = Some DRIVER_VIEW"
  by (simp add: currentDashboardView_def startApp_def readInitialRole_def parseDashboardRole_def
      dashboardRoleFromHash_def dashboardViews_def toLowerCase_def enterRole_def mountNavigation_def
      syncFromLocation_def normalizeLocation_def resolveDashboardRoute_def defaultDashboardView_def
      Let_def)

end
