(* ===== verification/DemoPlayback.thy ===== *)
theory DemoPlayback
  imports Telemetry
begin

text \<open>
  The recorded demo: \<^verbatim>\<open>frontend/src/simulation/demoPlayback.ts\<close> (manifest, delta-encoded frames,
  the chunk cache and the player) and the two demo effects of \<^verbatim>\<open>state/useTelemetry.ts\<close> that
  drive it. An \<^verbatim>\<open>await\<close> suspends the player's function; the suspended calls are listed in
  \<open>pb_pending\<close> and resumed by events that carry the outcome of their promise.
\<close>

section \<open>The manifest\<close>

record DemoChunk =
  dc_url :: string
  dc_frames :: nat

record DemoManifest =
  dm_frame_interval_ms :: jsnum
  dm_reference_map :: jsval
  dm_chunks :: "DemoChunk list"

text \<open>The pattern \<^verbatim>\<open>/^\/demo\/[a-zA-Z0-9._-]+\.json\.gz$/\<close>.\<close>

definition url_char :: "char \<Rightarrow> bool" where
  "url_char c \<longleftrightarrow>
     (let n = of_char c :: nat
      in 97 \<le> n \<and> n \<le> 122 \<or> 65 \<le> n \<and> n \<le> 90 \<or> 48 \<le> n \<and> n \<le> 57 \<or>
         c = CHR ''.'' \<or> c = CHR ''_'' \<or> c = CHR ''-'')"

definition isChunkUrl :: "string \<Rightarrow> bool" where
  "isChunkUrl url \<longleftrightarrow>
     startsWith url ''/demo/'' \<and>
     (let rest = drop 6 url; name = take (length rest - 8) rest
      in drop (length rest - 8) rest = ''.json.gz'' \<and> name \<noteq> [] \<and> list_all url_char name)"

definition isManifestChunk :: "jsval \<Rightarrow> bool" where
  "isManifestChunk chunk \<longleftrightarrow>
     truthy chunk \<and>
     (case js_get chunk ''url'' of JStr url \<Rightarrow> isChunkUrl url | _ \<Rightarrow> False) \<and>
     (case js_get chunk ''frames'' of JNum n \<Rightarrow> isInteger n \<and> 0 < n \<and> n \<le> 100 | _ \<Rightarrow> False)"

text \<open>Reading the fields the checks have established.\<close>

definition chunkOf :: "jsval \<Rightarrow> DemoChunk" where
  "chunkOf chunk = \<lparr>dc_url = (case js_get chunk ''url'' of JStr url \<Rightarrow> url | _ \<Rightarrow> ''''),
     dc_frames = (case js_get chunk ''frames'' of JNum (Fin r) \<Rightarrow> nat \<lfloor>r\<rfloor> | _ \<Rightarrow> 0)\<rparr>"

definition readDemoManifest :: "jsval \<Rightarrow> string + DemoManifest" where
  "readDemoManifest v =
     (case js_get v ''frame_interval_ms'' of
        JNum interval \<Rightarrow>
          if js_get v ''version'' = JNum 1 \<and> isFinite interval \<and> 50 \<le> interval \<and> interval \<le> 2000 \<and>
             truthy (js_get v ''reference_map'') \<and> is_array (js_get v ''chunks'') \<and>
             arr_items (js_get v ''chunks'') \<noteq> [] \<and>
             list_all isManifestChunk (arr_items (js_get v ''chunks''))
          then Inr \<lparr>dm_frame_interval_ms = interval, dm_reference_map = js_get v ''reference_map'',
                 dm_chunks = map chunkOf (arr_items (js_get v ''chunks''))\<rparr>
          else Inl ''Invalid demo manifest''
      | _ \<Rightarrow> Inl ''Invalid demo manifest'')"

section \<open>Frames\<close>

text \<open>\<^verbatim>\<open>{ ...previous, ...patch, reference_map }\<close>.\<close>

definition applyPatch :: "jsval \<Rightarrow> jsval \<Rightarrow> jsval \<Rightarrow> jsval" where
  "applyPatch referenceMap previous patch =
     js_set (js_spread previous patch) ''reference_map'' referenceMap"

fun decodePatches :: "jsval \<Rightarrow> jsval \<Rightarrow> jsval list \<Rightarrow> string + jsval list" where
  "decodePatches referenceMap previous [] = Inr []"
| "decodePatches referenceMap previous (patch # patches) =
     (let frame = applyPatch referenceMap previous patch
      in if \<not> isWorldStateSnapshot frame \<or> js_get frame ''mode'' \<noteq> JStr ''SIMULATED''
         then Inl ''Invalid simulated frame''
         else case decodePatches referenceMap frame patches of
                Inr frames \<Rightarrow> Inr (frame # frames) | Inl err \<Rightarrow> Inl err)"

definition decodeDemoFrames :: "jsval \<Rightarrow> DemoManifest \<Rightarrow> nat \<Rightarrow> string + jsval list" where
  "decodeDemoFrames v manifest expected =
     (if \<not> is_array v \<or> length (arr_items v) \<noteq> expected then Inl ''Invalid demo chunk''
      else decodePatches (dm_reference_map manifest) (JObj []) (arr_items v))"

section \<open>The chunk cache\<close>

text \<open>
  \<open>byteLength\<close> gives the size of a compressed chunk. The cache is a \<^verbatim>\<open>Map\<close>, so its first entry
  is the one set longest ago. The eviction loop on an empty cache would read a property of
  \<^verbatim>\<open>undefined\<close>: \<open>None\<close>.
\<close>

record 'b ChunkCache =
  cc_entries :: "(string \<times> 'b) list"
  cc_bytes :: nat

definition maxBytes :: nat where
  "maxBytes = 20 * 1024 * 1024"

definition emptyCache :: "'b ChunkCache" where
  "emptyCache = \<lparr>cc_entries = [], cc_bytes = 0\<rparr>"

fun evictFor :: "('b \<Rightarrow> nat) \<Rightarrow> nat \<Rightarrow> (string \<times> 'b) list \<Rightarrow> nat \<Rightarrow>
    ((string \<times> 'b) list \<times> nat) option" where
  "evictFor byteLength need [] bytes = (if maxBytes < bytes + need then None else Some ([], bytes))"
| "evictFor byteLength need ((url, b) # rest) bytes =
     (if maxBytes < bytes + need then evictFor byteLength need rest (bytes - byteLength b)
      else Some ((url, b) # rest, bytes))"

text \<open>A hit moves the entry to the end; a chunk that was fetched is stored unless it is too big.\<close>

definition cacheHit :: "string \<Rightarrow> 'b ChunkCache \<Rightarrow> 'b option \<times> 'b ChunkCache" where
  "cacheHit url c =
     (case map_of (cc_entries c) url of
        None \<Rightarrow> (None, c)
      | Some b \<Rightarrow> (Some b, c\<lparr>cc_entries := AList.delete url (cc_entries c) @ [(url, b)]\<rparr>))"

definition cacheStore :: "('b \<Rightarrow> nat) \<Rightarrow> string \<Rightarrow> 'b \<Rightarrow> 'b ChunkCache \<Rightarrow> 'b ChunkCache option" where
  "cacheStore byteLength url b c =
     (if byteLength b \<le> maxBytes then
        (case evictFor byteLength (byteLength b) (cc_entries c) (cc_bytes c) of
           None \<Rightarrow> None
         | Some (entries, bytes) \<Rightarrow>
             Some \<lparr>cc_entries = AList.update url b entries, cc_bytes = bytes + byteLength b\<rparr>)
      else Some c)"

text \<open>One load that is not overlapped by another: the fetched chunk is used on a miss.\<close>

definition loadThrough ::
    "('b \<Rightarrow> nat) \<Rightarrow> (string \<Rightarrow> 'b) \<Rightarrow> string \<Rightarrow> 'b ChunkCache \<Rightarrow> ('b \<times> 'b ChunkCache) option" where
  "loadThrough byteLength fetched url c =
     (case cacheHit url c of
        (Some b, c') \<Rightarrow> Some (b, c')
      | (None, c') \<Rightarrow> map_option (\<lambda>c''. (fetched url, c'')) (cacheStore byteLength url (fetched url) c'))"

definition cached_bytes :: "('b \<Rightarrow> nat) \<Rightarrow> (string \<times> 'b) list \<Rightarrow> nat" where
  "cached_bytes byteLength es = (\<Sum>(u, b) \<leftarrow> es. byteLength b)"

lemma cached_bytes_simps [simp]:
  "cached_bytes f [] = 0" "cached_bytes f ((u, b) # es) = f b + cached_bytes f es"
  "cached_bytes f (es @ fs) = cached_bytes f es + cached_bytes f fs"
  by (simp_all add: cached_bytes_def)

definition cache_ok :: "('b \<Rightarrow> nat) \<Rightarrow> 'b ChunkCache \<Rightarrow> bool" where
  "cache_ok byteLength c \<longleftrightarrow> distinct (map fst (cc_entries c)) \<and>
     cc_bytes c = cached_bytes byteLength (cc_entries c) \<and> cc_bytes c \<le> maxBytes"

lemma evictFor_suffix:
  assumes "need \<le> maxBytes" and "bytes = cached_bytes f es"
  shows "\<exists>old kept. es = old @ kept \<and> evictFor f need es bytes = Some (kept, cached_bytes f kept) \<and>
    cached_bytes f kept + need \<le> maxBytes"
  using assms
proof (induction f need es bytes rule: evictFor.induct)
  case (1 f need bytes)
  then show ?case by simp
next
  case (2 f need url b rest bytes)
  show ?case
  proof (cases "maxBytes < bytes + need")
    case True
    with "2.IH" [OF True] "2.prems" obtain old kept where
      "rest = old @ kept" "evictFor f need rest (bytes - f b) = Some (kept, cached_bytes f kept)"
      "cached_bytes f kept + need \<le> maxBytes"
      by auto
    with True show ?thesis by (intro exI [of _ "(url, b) # old"] exI [of _ kept]) simp
  next
    case False
    with "2.prems" show ?thesis by (intro exI [of _ "[]"] exI [of _ "(url, b) # rest"]) simp
  qed
qed

lemma cached_bytes_delete:
  "distinct (map fst es) \<Longrightarrow> map_of es url = Some b \<Longrightarrow>
     cached_bytes f (AList.delete url es) + f b = cached_bytes f es"
proof (induction es)
  case (Cons e es)
  obtain u b' where e: "e = (u, b')" by (cases e)
  show ?case
  proof (cases "u = url")
    case True
    with Cons.prems e have "AList.delete url es = es" by (simp add: delete_id)
    with True Cons.prems e show ?thesis by simp
  qed (use Cons e in \<open>auto\<close>)
qed simp

lemma cacheHit_ok:
  assumes "cache_ok f c" and "cacheHit url c = (r, c')"
  shows "cache_ok f c'" and "r = map_of (cc_entries c) url"
    and "map_of (cc_entries c') = map_of (cc_entries c)"
proof -
  show r: "r = map_of (cc_entries c) url"
    using assms(2) by (auto simp: cacheHit_def split: option.splits)
  show "map_of (cc_entries c') = map_of (cc_entries c)"
    using assms(2) by (auto simp: cacheHit_def fun_eq_iff delete_conv' map_add_def
        simp del: map_of_eq_Some_iff split: option.splits if_splits)
  show "cache_ok f c'"
  proof (cases r)
    case None
    with assms r show ?thesis by (auto simp: cacheHit_def)
  next
    case (Some b)
    with r have hit: "map_of (cc_entries c) url = Some b" by simp
    with assms(2) have c': "c' = c\<lparr>cc_entries := AList.delete url (cc_entries c) @ [(url, b)]\<rparr>"
      by (simp add: cacheHit_def)
    have "cached_bytes f (AList.delete url (cc_entries c)) + f b = cached_bytes f (cc_entries c)"
      using assms(1) hit by (intro cached_bytes_delete) (simp_all add: cache_ok_def)
    then show ?thesis
      using assms(1) by (simp add: cache_ok_def c' distinct_delete delete_notin_dom)
  qed
qed

lemma cacheStore_ok:
  assumes "cache_ok f c" and "map_of (cc_entries c) url = None"
  shows "\<exists>c' old. cacheStore f url b c = Some c' \<and> cache_ok f c' \<and>
    (if f b \<le> maxBytes then \<exists>kept. cc_entries c = old @ kept \<and> cc_entries c' = kept @ [(url, b)]
     else c' = c)"
proof (cases "f b \<le> maxBytes")
  case False
  with assms(1) show ?thesis by (simp add: cacheStore_def)
next
  case True
  obtain old kept where e: "cc_entries c = old @ kept"
      "evictFor f (f b) (cc_entries c) (cc_bytes c) = Some (kept, cached_bytes f kept)"
      "cached_bytes f kept + f b \<le> maxBytes"
    using evictFor_suffix [OF True, of "cc_bytes c" f "cc_entries c"] assms(1)
    by (auto simp: cache_ok_def)
  have "url \<notin> fst ` set kept" using assms(2) e(1) by (auto simp: map_of_eq_None_iff)
  then have "AList.update url b kept = kept @ [(url, b)]" by (induction kept) auto
  with True e(2) have store: "cacheStore f url b c =
      Some \<lparr>cc_entries = kept @ [(url, b)], cc_bytes = cached_bytes f kept + f b\<rparr>"
    by (simp add: cacheStore_def)
  have "distinct (map fst kept)" using assms(1) e(1) by (simp add: cache_ok_def)
  with e(3) \<open>url \<notin> fst ` set kept\<close>
  have "cache_ok f \<lparr>cc_entries = kept @ [(url, b)], cc_bytes = cached_bytes f kept + f b\<rparr>"
    by (simp add: cache_ok_def)
  with True e(1) store show ?thesis by auto
qed

lemma loadThrough_ok:
  assumes "cache_ok f c"
  shows "\<exists>b c'. loadThrough f fetched url c = Some (b, c') \<and> cache_ok f c' \<and>
    b = (case map_of (cc_entries c) url of Some b \<Rightarrow> b | None \<Rightarrow> fetched url) \<and>
    (f b \<le> maxBytes \<longrightarrow> map_of (cc_entries c') url = Some b)"
proof -
  obtain r c1 where hit: "cacheHit url c = (r, c1)" by (cases "cacheHit url c")
  note hit_ok = cacheHit_ok [OF assms hit]
  show ?thesis
  proof (cases r)
    case (Some b)
    with hit_ok have "map_of (cc_entries c) url = Some b" by simp
    with Some hit hit_ok(1,3) show ?thesis by (simp add: loadThrough_def)
  next
    case None
    then have none: "map_of (cc_entries c) url = None" using hit_ok(2) by simp
    then have absent: "map_of (cc_entries c1) url = None" using hit_ok(3) by simp
    from cacheStore_ok [OF hit_ok(1) absent, of "fetched url"] obtain c' old where
      "cacheStore f url (fetched url) c1 = Some c'" "cache_ok f c'"
      "if f (fetched url) \<le> maxBytes
       then \<exists>kept. cc_entries c1 = old @ kept \<and> cc_entries c' = kept @ [(url, fetched url)] else c' = c1"
      by blast
    moreover from this(3) absent have "f (fetched url) \<le> maxBytes \<longrightarrow>
        map_of (cc_entries c') url = Some (fetched url)"
      by (auto simp: map_add_def map_of_eq_None_iff image_Un split: option.splits)
        (metis fst_conv image_eqI map_of_SomeD)
    ultimately show ?thesis using None none hit by (simp add: loadThrough_def)
  qed
qed

fun loadAll ::
    "('b \<Rightarrow> nat) \<Rightarrow> (string \<Rightarrow> 'b) \<Rightarrow> string list \<Rightarrow> 'b ChunkCache \<Rightarrow> 'b ChunkCache option" where
  "loadAll f fetched [] c = Some c"
| "loadAll f fetched (url # urls) c =
     (case loadThrough f fetched url c of None \<Rightarrow> None | Some (_, c') \<Rightarrow> loadAll f fetched urls c')"

definition cache_faithful :: "(string \<Rightarrow> 'b) \<Rightarrow> 'b ChunkCache \<Rightarrow> bool" where
  "cache_faithful fetched c \<longleftrightarrow> (\<forall>url b. map_of (cc_entries c) url = Some b \<longrightarrow> b = fetched url)"

lemma loadThrough_faithful:
  assumes ok: "cache_ok f c" and faithful: "cache_faithful fetched c"
    and load: "loadThrough f fetched url c = Some (b, c')"
  shows "cache_faithful fetched c'"
proof -
  obtain r c1 where hit: "cacheHit url c = (r, c1)" by (cases "cacheHit url c")
  note hit_ok = cacheHit_ok [OF ok hit]
  have same: "cache_faithful fetched c1" using faithful hit_ok(3) by (simp add: cache_faithful_def)
  show ?thesis
  proof (cases r)
    case (Some b')
    with load hit same show ?thesis by (simp add: loadThrough_def)
  next
    case None
    then have absent: "map_of (cc_entries c1) url = None" using hit_ok(2,3) by simp
    have store: "cacheStore f url (fetched url) c1 = Some c'"
      using load hit None by (auto simp: loadThrough_def)
    show ?thesis
    proof (cases "f (fetched url) \<le> maxBytes")
      case True
      with cacheStore_ok [OF hit_ok(1) absent, of "fetched url"] store obtain old kept where
        e: "cc_entries c1 = old @ kept" "cc_entries c' = kept @ [(url, fetched url)]"
        by auto
      have distinct: "distinct (map fst (cc_entries c1))" using hit_ok(1) by (simp add: cache_ok_def)
      have "b = fetched u" if "map_of (cc_entries c') u = Some b" for u b
      proof (cases "(u, b) \<in> set kept")
        case True
        then have "map_of (cc_entries c1) u = Some b"
          using map_of_is_SomeI [OF distinct, of u b] e(1) by simp
        with same show ?thesis by (simp add: cache_faithful_def del: map_of_eq_Some_iff)
      next
        case False
        with map_of_SomeD [OF that] e(2) show ?thesis by simp
      qed
      then show ?thesis by (simp add: cache_faithful_def)
    next
      case False
      with store same show ?thesis by (simp add: cacheStore_def)
    qed
  qed
qed

lemma loadAll_ok:
  assumes "cache_ok f c" "cache_faithful fetched c"
  shows "\<exists>c'. loadAll f fetched urls c = Some c' \<and> cache_ok f c' \<and> cache_faithful fetched c'"
  using assms
proof (induction urls arbitrary: c)
  case Nil
  then show ?case by simp
next
  case (Cons url urls)
  from loadThrough_ok [OF Cons.prems(1), of fetched url] obtain b c1 where
    load: "loadThrough f fetched url c = Some (b, c1)" "cache_ok f c1"
    by blast
  with Cons.IH [OF load(2) loadThrough_faithful [OF Cons.prems load(1)]] show ?case by simp
qed

section \<open>The player\<close>

text \<open>
  What a suspended call of \<^verbatim>\<open>advance\<close> waits for. A pending call has a number (its abort
  controller) and the generation it was started in.
\<close>

datatype Await = AwaitManifest | AwaitChunk DemoChunk

record PendingCall =
  pc_id :: nat
  pc_token :: nat
  pc_await :: Await

datatype DemoStatus = LOADING_DEMO | DEMO | PAUSED | BUFFERING_DEMO

text \<open>The variables of \<^verbatim>\<open>createDemoPlayback\<close>, and the state of the hook its callbacks set.\<close>

record Player =
  pb_active :: bool
  pb_disposed :: bool
  pb_generation :: nat
  pb_manifest :: "DemoManifest option"
  pb_frames :: "jsval list"
  pb_chunkIndex :: nat
  pb_frameIndex :: nat
  pb_retryMs :: jsnum
  pb_timer :: "nat option"
  pb_request :: "nat option"
  pb_pending :: "PendingCall list"
  pb_timers :: "(nat \<times> jsnum) list"
  pb_next :: nat
  pb_aborted :: "nat list"
  demo_world :: jsval
  demo_received :: bool
  demo_status :: DemoStatus
  demo_connection :: ConnectionState

text \<open>The callbacks of the hook.\<close>

definition onWorld :: "jsval \<Rightarrow> Player \<Rightarrow> Player" where
  "onWorld frame p = p\<lparr>demo_received := True, demo_world := frame\<rparr>"

definition onConnection :: "ConnectionState \<Rightarrow> Player \<Rightarrow> Player" where
  "onConnection next p =
     p\<lparr>demo_status := (if next = CONNECTED then DEMO else BUFFERING_DEMO),
       demo_connection := (if demo_received p then CONNECTED else next)\<rparr>"

definition startTimer :: "jsnum \<Rightarrow> Player \<Rightarrow> Player" where
  "startTimer delay p =
     p\<lparr>pb_timers := pb_timers p @ [(pb_next p, delay)], pb_timer := Some (pb_next p),
       pb_next := Suc (pb_next p)\<rparr>"

text \<open>The \<^verbatim>\<open>finally\<close> clause of the call \<open>i\<close>, and its \<^verbatim>\<open>catch\<close> clause.\<close>

definition finishCall :: "nat \<Rightarrow> Player \<Rightarrow> Player" where
  "finishCall i p = (if pb_request p = Some i then p\<lparr>pb_request := None\<rparr> else p)"

definition failCall :: "nat \<Rightarrow> nat \<Rightarrow> Player \<Rightarrow> Player" where
  "failCall i token p =
     (if token \<noteq> pb_generation p then finishCall i p
      else
        let p1 = startTimer (pb_retryMs p) (onConnection DISCONNECTED p)
        in finishCall i (p1\<lparr>pb_retryMs := js_min (pb_retryMs p1 * 2) 30000\<rparr>))"

text \<open>\<^verbatim>\<open>onWorld(frames[frameIndex++])\<close> and what follows it in the same generation.\<close>

definition showFrame :: "nat \<Rightarrow> nat \<Rightarrow> DemoManifest \<Rightarrow> Player \<Rightarrow> Player" where
  "showFrame i token manifest p =
     (if token \<noteq> pb_generation p then finishCall i p
      else
        let p1 = onWorld (pb_frames p ! pb_frameIndex p) (p\<lparr>pb_frameIndex := Suc (pb_frameIndex p)\<rparr>);
            p2 = (onConnection CONNECTED p1)\<lparr>pb_retryMs := 1000\<rparr>
        in finishCall i (startTimer (dm_frame_interval_ms manifest) p2))"

definition awaitCall :: "nat \<Rightarrow> nat \<Rightarrow> Await \<Rightarrow> Player \<Rightarrow> Player" where
  "awaitCall i token a p =
     p\<lparr>pb_pending := pb_pending p @ [\<lparr>pc_id = i, pc_token = token, pc_await = a\<rparr>]\<rparr>"

definition needFrame :: "nat \<Rightarrow> nat \<Rightarrow> DemoManifest \<Rightarrow> Player \<Rightarrow> Player" where
  "needFrame i token manifest p =
     (if length (pb_frames p) \<le> pb_frameIndex p
      then awaitCall i token (AwaitChunk (dm_chunks manifest ! pb_chunkIndex p)) p
      else showFrame i token manifest p)"

definition advance :: "Player \<Rightarrow> Player" where
  "advance p =
     (if \<not> pb_active p \<or> pb_disposed p then p
      else
        let token = pb_generation p;
            i = pb_next p;
            p1 = p\<lparr>pb_request := Some i, pb_next := Suc i\<rparr>
        in case pb_manifest p1 of
             None \<Rightarrow> awaitCall i token AwaitManifest p1
           | Some manifest \<Rightarrow> needFrame i token manifest p1)"

text \<open>A suspended call resumes with the outcome of its promise; \<open>Inl\<close> is a rejection.\<close>

definition resumeManifest :: "nat \<Rightarrow> nat \<Rightarrow> (string + jsval) \<Rightarrow> Player \<Rightarrow> Player" where
  "resumeManifest i token outcome p =
     (case outcome of
        Inl _ \<Rightarrow> failCall i token p
      | Inr v \<Rightarrow>
          (case readDemoManifest v of
             Inl _ \<Rightarrow> failCall i token p
           | Inr loaded \<Rightarrow>
               if token \<noteq> pb_generation p then finishCall i p
               else needFrame i token loaded (p\<lparr>pb_manifest := Some loaded\<rparr>)))"

definition resumeChunk ::
    "nat \<Rightarrow> nat \<Rightarrow> DemoChunk \<Rightarrow> (string + jsval) \<Rightarrow> Player \<Rightarrow> Player" where
  "resumeChunk i token chunk outcome p =
     (case (outcome, pb_manifest p) of
        (Inr data, Some manifest) \<Rightarrow>
          if token \<noteq> pb_generation p then finishCall i p
          else (case decodeDemoFrames data manifest (dc_frames chunk) of
                  Inl _ \<Rightarrow> failCall i token p
                | Inr frames \<Rightarrow> showFrame i token manifest
                    (p\<lparr>pb_frames := frames, pb_frameIndex := 0,
                       pb_chunkIndex := Suc (pb_chunkIndex p) mod length (dm_chunks manifest)\<rparr>))
      | _ \<Rightarrow> failCall i token p)"

definition settle :: "nat \<Rightarrow> (string + jsval) \<Rightarrow> Player \<Rightarrow> Player" where
  "settle i outcome p =
     (case find (\<lambda>c. pc_id c = i) (pb_pending p) of
        None \<Rightarrow> p
      | Some c \<Rightarrow>
          (let p1 = p\<lparr>pb_pending := filter (\<lambda>c. pc_id c \<noteq> i) (pb_pending p)\<rparr>
           in case pc_await c of
                AwaitManifest \<Rightarrow> resumeManifest i (pc_token c) outcome p1
              | AwaitChunk chunk \<Rightarrow> resumeChunk i (pc_token c) chunk outcome p1))"

definition playerTimer :: "nat \<Rightarrow> Player \<Rightarrow> Player" where
  "playerTimer t p =
     (if t \<in> fst ` set (pb_timers p)
      then advance (p\<lparr>pb_timers := filter (\<lambda>x. fst x \<noteq> t) (pb_timers p)\<rparr>) else p)"

definition setActive :: "bool \<Rightarrow> Player \<Rightarrow> Player" where
  "setActive next p =
     (if pb_disposed p \<or> pb_active p = next then p
      else
        let p1 = p\<lparr>pb_active := next, pb_generation := Suc (pb_generation p),
              pb_timers := filter (\<lambda>x. Some (fst x) \<noteq> pb_timer p) (pb_timers p),
              pb_aborted := pb_aborted p @ (case pb_request p of Some i \<Rightarrow> [i] | None \<Rightarrow> [])\<rparr>
        in if next then advance p1 else p1)"

definition disposePlayer :: "Player \<Rightarrow> Player" where
  "disposePlayer p = (setActive False p)\<lparr>pb_disposed := True, pb_frames := []\<rparr>"

text \<open>The effect that follows the visibility of the page and the pause button.\<close>

definition updateActivity :: "bool \<Rightarrow> bool \<Rightarrow> Player \<Rightarrow> Player" where
  "updateActivity hidden paused p =
     (let active = (\<not> hidden \<and> \<not> paused);
          p1 = setActive active p
      in if \<not> active then p1\<lparr>demo_status := PAUSED\<rparr> else p1)"

definition initialPlayer :: Player where
  "initialPlayer = \<lparr>pb_active = False, pb_disposed = False, pb_generation = 0, pb_manifest = None,
     pb_frames = [], pb_chunkIndex = 0, pb_frameIndex = 0, pb_retryMs = 1000, pb_timer = None,
     pb_request = None, pb_pending = [], pb_timers = [], pb_next = 0, pb_aborted = [],
     demo_world = defaultSnapshot, demo_received = False, demo_status = LOADING_DEMO,
     demo_connection = CONNECTING\<rparr>"

text \<open>The cleanup that disposes of the player also removes the visibility listener.\<close>

datatype PlayerEvent =
  ActivityChanged bool bool | PromiseSettled nat "string + jsval" | PlayerTimer nat | DisposePlayer

fun player_step :: "PlayerEvent \<Rightarrow> Player \<Rightarrow> Player" where
  "player_step (ActivityChanged hidden paused) p =
     (if pb_disposed p then p else updateActivity hidden paused p)"
| "player_step (PromiseSettled i outcome) p = settle i outcome p"
| "player_step (PlayerTimer t) p = playerTimer t p"
| "player_step DisposePlayer p = disposePlayer p"

definition player_run :: "PlayerEvent list \<Rightarrow> Player" where
  "player_run es = fold player_step es initialPlayer"

section \<open>Decoding\<close>

definition valid_frame :: "jsval \<Rightarrow> bool" where
  "valid_frame f \<longleftrightarrow> isWorldStateSnapshot f \<and> js_get f ''mode'' = JStr ''SIMULATED''"

lemma decodePatches_valid:
  "decodePatches m prev ps = Inr fs \<Longrightarrow> length fs = length ps \<and> list_all valid_frame fs"
  by (induction ps arbitrary: prev fs)
    (auto simp: Let_def valid_frame_def split: if_splits sum.splits)

lemma decodeDemoFrames_valid:
  "decodeDemoFrames v m n = Inr fs \<Longrightarrow> length fs = n \<and> list_all valid_frame fs"
  by (auto simp: decodeDemoFrames_def dest: decodePatches_valid split: if_splits)

text \<open>The last value a list of patches gives a field, starting from \<open>d\<close>.\<close>

fun latest :: "string \<Rightarrow> jsval \<Rightarrow> jsval list \<Rightarrow> jsval" where
  "latest k d [] = d"
| "latest k d (patch # patches) =
     latest k (case map_of (rev (obj_entries patch)) k of Some w \<Rightarrow> w | None \<Rightarrow> d) patches"

lemma applyPatch_get:
  "js_get (applyPatch m (JObj kvs) patch) k =
    (if k = ''reference_map'' then m else latest k (js_get (JObj kvs) k) [patch])"
proof -
  obtain es where es: "js_spread (JObj kvs) patch = JObj es" by (simp add: js_spread_def)
  have "js_get (js_set (JObj es) ''reference_map'' m) k =
      (if k = ''reference_map'' then m else js_get (JObj es) k)"
    by (rule js_get_set)
  then show ?thesis
    using js_get_spread [of kvs patch k] by (simp add: applyPatch_def es)
qed

lemma applyPatch_object: "\<exists>kvs'. applyPatch m (JObj kvs) patch = JObj kvs'"
  by (simp add: applyPatch_def js_spread_def js_set_def)

lemma latest_append: "latest k d (ps @ qs) = latest k (latest k d ps) qs"
  by (induction ps arbitrary: d) simp_all

lemma decodePatches_fields:
  assumes "decodePatches m (JObj kvs) ps = Inr fs" and "i < length fs"
  shows "js_get (fs ! i) k = (if k = ''reference_map'' then m
    else latest k (js_get (JObj kvs) k) (take (Suc i) ps))"
  using assms
proof (induction ps arbitrary: kvs fs i)
  case Nil
  then show ?case by simp
next
  case (Cons patch ps)
  obtain kvs' where kvs': "applyPatch m (JObj kvs) patch = JObj kvs'"
    using applyPatch_object by blast
  from Cons.prems(1) obtain fs' where fs: "fs = JObj kvs' # fs'"
    "decodePatches m (JObj kvs') ps = Inr fs'"
    by (auto simp: Let_def kvs' split: if_splits sum.splits)
  have head: "js_get (JObj kvs') k = (if k = ''reference_map'' then m
      else latest k (js_get (JObj kvs) k) [patch])"
    using applyPatch_get [of m kvs patch k] by (simp add: kvs')
  show ?case
  proof (cases i)
    case 0
    then show ?thesis using head fs(1) by simp
  next
    case (Suc j)
    with Cons.prems(2) fs have "js_get (fs' ! j) k = (if k = ''reference_map'' then m
        else latest k (js_get (JObj kvs') k) (take (Suc j) ps))"
      by (intro Cons.IH) simp_all
    then show ?thesis using head fs(1) Suc by simp
  qed
qed

lemma manifest_chunk_frames:
  assumes "isManifestChunk ch"
  shows "0 < dc_frames (chunkOf ch) \<and> dc_frames (chunkOf ch) \<le> 100 \<and> isChunkUrl (dc_url (chunkOf ch))"
proof -
  obtain r where r: "js_get ch ''frames'' = JNum (Fin r)" "r = of_int \<lfloor>r\<rfloor>" "0 < r" "r \<le> 100"
    using assms by (auto simp: isManifestChunk_def isInteger_def split: jsval.splits jsnum.splits)
  obtain url where url: "js_get ch ''url'' = JStr url" "isChunkUrl url"
    using assms by (auto simp: isManifestChunk_def split: jsval.splits)
  from r(2-4) have "0 < \<lfloor>r\<rfloor>" "\<lfloor>r\<rfloor> \<le> 100" by linarith+
  with r(1) url show ?thesis by (simp add: chunkOf_def nat_le_iff)
qed

definition good_manifest :: "DemoManifest \<Rightarrow> bool" where
  "good_manifest m \<longleftrightarrow> dm_chunks m \<noteq> [] \<and>
     list_all (\<lambda>ch. 0 < dc_frames ch \<and> dc_frames ch \<le> 100 \<and> isChunkUrl (dc_url ch)) (dm_chunks m) \<and>
     50 \<le> dm_frame_interval_ms m \<and> dm_frame_interval_ms m \<le> 2000"

lemma readDemoManifest_good: "readDemoManifest v = Inr m \<Longrightarrow> good_manifest m"
  by (auto simp: readDemoManifest_def good_manifest_def list_all_iff manifest_chunk_frames
      simp del: num_literals split: jsval.splits if_splits)

section \<open>The invariant of the player\<close>

text \<open>The calls of the current generation.\<close>

definition busy :: "Player \<Rightarrow> PendingCall list" where
  "busy p = filter (\<lambda>c. pc_token c = pb_generation p) (pb_pending p)"

definition good_chunk :: "DemoChunk \<Rightarrow> bool" where
  "good_chunk ch \<longleftrightarrow> 0 < dc_frames ch"

definition cursor_ok :: "DemoManifest option \<Rightarrow> nat \<Rightarrow> bool" where
  "cursor_ok manifest i \<longleftrightarrow>
     (case manifest of None \<Rightarrow> i = 0 | Some m \<Rightarrow> good_manifest m \<and> i < length (dm_chunks m))"

definition data_ok :: "Player \<Rightarrow> bool" where
  "data_ok p \<longleftrightarrow>
     cursor_ok (pb_manifest p) (pb_chunkIndex p) \<and>
     list_all valid_frame (pb_frames p) \<and> isWorldStateSnapshot (demo_world p) \<and>
     (demo_received p \<longrightarrow> valid_frame (demo_world p) \<and> demo_connection p = CONNECTED) \<and>
     1000 \<le> pb_retryMs p \<and> pb_retryMs p \<le> 30000"

definition calls_ok :: "Player \<Rightarrow> bool" where
  "calls_ok p \<longleftrightarrow>
     distinct (map pc_id (pb_pending p)) \<and>
     (\<forall>c \<in> set (pb_pending p). pc_id c < pb_next p \<and> pc_token c \<le> pb_generation p \<and>
        (\<forall>ch. pc_await c = AwaitChunk ch \<longrightarrow> pb_manifest p \<noteq> None \<and> good_chunk ch) \<and>
        (pc_token c = pb_generation p \<and> pc_await c = AwaitManifest \<longrightarrow> pb_manifest p = None)) \<and>
     (pb_disposed p \<longrightarrow> \<not> pb_active p)"

definition idle :: "Player \<Rightarrow> bool" where
  "idle p \<longleftrightarrow> busy p = [] \<and> pb_timers p = []"

text \<open>An active player has one pending call of its generation or one timer, never both.\<close>

definition working :: "Player \<Rightarrow> bool" where
  "working p \<longleftrightarrow> (length (busy p) = 1 \<and> pb_timers p = []) \<or>
     (busy p = [] \<and> (\<exists>t d. pb_timers p = [(t, d)] \<and> pb_timer p = Some t))"

definition player_ok :: "Player \<Rightarrow> bool" where
  "player_ok p \<longleftrightarrow> data_ok p \<and> calls_ok p \<and> (if pb_active p then working p else idle p)"

lemmas player_defs = finishCall_def startTimer_def onWorld_def onConnection_def Let_def

lemma finishCall_fields [simp]:
  "data_ok (finishCall i p) = data_ok p" "calls_ok (finishCall i p) = calls_ok p"
  "idle (finishCall i p) = idle p" "working (finishCall i p) = working p"
  "pb_active (finishCall i p) = pb_active p" "pb_disposed (finishCall i p) = pb_disposed p"
  by (simp_all add: finishCall_def data_ok_def calls_ok_def idle_def working_def busy_def)

lemma finishCall_ok: "player_ok p \<Longrightarrow> player_ok (finishCall i p)"
  by (simp add: player_ok_def)

lemma retry_doubles:
  "1000 \<le> r \<Longrightarrow> r \<le> 30000 \<Longrightarrow> 1000 \<le> js_min (r * 2) 30000 \<and> js_min (r * 2) 30000 \<le> (30000 :: jsnum)"
  by (cases r) auto

lemma failCall_ok:
  assumes "data_ok p" "calls_ok p" "idle p" "pb_active p" "token = pb_generation p"
  shows "player_ok (failCall i token p)"
proof -
  let ?q = "(startTimer (pb_retryMs p) (onConnection DISCONNECTED p))
    \<lparr>pb_retryMs := js_min (pb_retryMs p * 2) 30000\<rparr>"
  have "data_ok ?q"
    using assms(1) retry_doubles [of "pb_retryMs p"]
    by (simp add: data_ok_def startTimer_def onConnection_def del: num_literals)
  moreover have "calls_ok ?q"
    using assms(2) by (auto simp: calls_ok_def startTimer_def onConnection_def less_Suc_eq)
  moreover have "working ?q"
    using assms(3) by (simp add: working_def idle_def busy_def startTimer_def onConnection_def)
  moreover have "failCall i token p = finishCall i ?q"
    using assms(5) by (simp add: failCall_def Let_def startTimer_def onConnection_def)
  ultimately show ?thesis
    using assms(4) by (simp add: player_ok_def startTimer_def onConnection_def)
qed

lemma showFrame_ok:
  assumes "data_ok p" "calls_ok p" "idle p" "pb_active p" "token = pb_generation p"
    and "pb_frameIndex p < length (pb_frames p)"
  shows "player_ok (showFrame i token m p)"
proof -
  let ?f = "pb_frames p ! pb_frameIndex p"
  let ?q = "startTimer (dm_frame_interval_ms m) ((onConnection CONNECTED
    (onWorld ?f (p\<lparr>pb_frameIndex := Suc (pb_frameIndex p)\<rparr>)))\<lparr>pb_retryMs := 1000\<rparr>)"
  have "valid_frame ?f" using assms(1,6) by (simp add: data_ok_def list_all_length)
  then have "data_ok ?q"
    using assms(1) by (simp add: data_ok_def startTimer_def onConnection_def onWorld_def valid_frame_def)
  moreover have "calls_ok ?q"
    using assms(2) by (auto simp: calls_ok_def startTimer_def onConnection_def onWorld_def less_Suc_eq)
  moreover have "working ?q"
    using assms(3) by (simp add: working_def idle_def busy_def startTimer_def onConnection_def onWorld_def)
  moreover have "showFrame i token m p = finishCall i ?q"
    using assms(5) by (simp add: showFrame_def Let_def)
  ultimately show ?thesis
    using assms(4) by (simp add: player_ok_def startTimer_def onConnection_def onWorld_def)
qed

lemma awaitCall_ok:
  assumes "data_ok p" "calls_ok p" "idle p" "pb_active p" "token = pb_generation p"
    and "i \<notin> pc_id ` set (pb_pending p)" "i < pb_next p"
    and "\<forall>ch. a = AwaitChunk ch \<longrightarrow> pb_manifest p \<noteq> None \<and> good_chunk ch"
    and "a = AwaitManifest \<longrightarrow> pb_manifest p = None"
  shows "player_ok (awaitCall i token a p)"
  using assms
  by (auto simp: player_ok_def awaitCall_def data_ok_def calls_ok_def idle_def working_def busy_def)

lemma needFrame_ok:
  assumes "data_ok p" "calls_ok p" "idle p" "pb_active p" "token = pb_generation p"
    and "i \<notin> pc_id ` set (pb_pending p)" "i < pb_next p" "pb_manifest p = Some m"
  shows "player_ok (needFrame i token m p)"
proof (cases "length (pb_frames p) \<le> pb_frameIndex p")
  case True
  have "dm_chunks m ! pb_chunkIndex p \<in> set (dm_chunks m)"
    using assms(1,8) by (simp add: data_ok_def cursor_ok_def)
  then have "good_chunk (dm_chunks m ! pb_chunkIndex p)"
    using assms(1,8) by (simp add: data_ok_def cursor_ok_def good_manifest_def list_all_iff good_chunk_def)
  with True assms show ?thesis by (simp add: needFrame_def awaitCall_ok)
next
  case False
  with assms show ?thesis by (simp add: needFrame_def showFrame_ok)
qed

lemma advance_ok:
  assumes "data_ok p" "calls_ok p" "idle p" "pb_active p"
  shows "player_ok (advance p)"
proof -
  let ?p1 = "p\<lparr>pb_request := Some (pb_next p), pb_next := Suc (pb_next p)\<rparr>"
  have "\<not> pb_disposed p" using assms(2,4) by (auto simp: calls_ok_def)
  have fresh: "pb_next p \<notin> pc_id ` set (pb_pending p)" using assms(2) by (auto simp: calls_ok_def)
  have "data_ok ?p1" "idle ?p1" using assms(1,3) by (simp_all add: data_ok_def idle_def busy_def)
  moreover have "calls_ok ?p1" using assms(2) by (auto simp: calls_ok_def less_Suc_eq)
  ultimately show ?thesis
    using \<open>\<not> pb_disposed p\<close> fresh assms(4)
    by (auto simp: advance_def Let_def awaitCall_ok needFrame_ok split: option.splits)
qed

text \<open>A stale call changes nothing but the request variable.\<close>

lemma resume_stale:
  assumes "token \<noteq> pb_generation p"
  shows "resumeManifest i token outcome p = finishCall i p"
    and "resumeChunk i token ch outcome p = finishCall i p"
  using assms
  by (auto simp: resumeManifest_def resumeChunk_def failCall_def split: sum.splits option.splits)

lemma resumeManifest_ok:
  assumes "data_ok p" "calls_ok p" "idle p" "pb_active p" "token = pb_generation p"
    and "i \<notin> pc_id ` set (pb_pending p)" "i < pb_next p" "pb_chunkIndex p = 0"
  shows "player_ok (resumeManifest i token outcome p)"
proof -
  have "player_ok (needFrame i token m (p\<lparr>pb_manifest := Some m\<rparr>))" if "good_manifest m" for m
  proof (rule needFrame_ok)
    show "data_ok (p\<lparr>pb_manifest := Some m\<rparr>)"
      using assms(1,8) that by (simp add: data_ok_def cursor_ok_def good_manifest_def)
    show "calls_ok (p\<lparr>pb_manifest := Some m\<rparr>)"
      using assms(2,3) by (auto simp: calls_ok_def idle_def busy_def filter_empty_conv)
    show "idle (p\<lparr>pb_manifest := Some m\<rparr>)" using assms(3) by (simp add: idle_def busy_def)
  qed (use assms in simp_all)
  then show ?thesis
    using assms by (auto simp: resumeManifest_def failCall_ok readDemoManifest_good split: sum.splits)
qed

lemma resumeChunk_ok:
  assumes "data_ok p" "calls_ok p" "idle p" "pb_active p" "token = pb_generation p" "good_chunk ch"
  shows "player_ok (resumeChunk i token ch outcome p)"
proof -
  have shown: "player_ok (showFrame i token m (p\<lparr>pb_frames := fs, pb_frameIndex := 0,
      pb_chunkIndex := Suc (pb_chunkIndex p) mod length (dm_chunks m)\<rparr>))"
    if m: "pb_manifest p = Some m" and fs: "decodeDemoFrames v m (dc_frames ch) = Inr fs" for m v fs
  proof (rule showFrame_ok)
    show "data_ok (p\<lparr>pb_frames := fs, pb_frameIndex := 0,
        pb_chunkIndex := Suc (pb_chunkIndex p) mod length (dm_chunks m)\<rparr>)"
      using assms(1) m decodeDemoFrames_valid [OF fs]
      by (simp add: data_ok_def cursor_ok_def good_manifest_def)
    show "calls_ok (p\<lparr>pb_frames := fs, pb_frameIndex := 0,
        pb_chunkIndex := Suc (pb_chunkIndex p) mod length (dm_chunks m)\<rparr>)"
      using assms(2) by (simp add: calls_ok_def)
    show "idle (p\<lparr>pb_frames := fs, pb_frameIndex := 0,
        pb_chunkIndex := Suc (pb_chunkIndex p) mod length (dm_chunks m)\<rparr>)"
      using assms(3) by (simp add: idle_def busy_def)
  qed (use assms decodeDemoFrames_valid [OF fs] in \<open>simp_all add: good_chunk_def\<close>)
  have failed: "player_ok (failCall i token p)" using assms by (simp add: failCall_ok)
  show ?thesis
  proof (cases outcome)
    case (Inr v)
    show ?thesis
    proof (cases "pb_manifest p")
      case (Some m)
      with Inr shown [OF Some] failed assms(5) show ?thesis
        by (auto simp: resumeChunk_def split: sum.splits)
    qed (use Inr failed in \<open>simp add: resumeChunk_def\<close>)
  qed (use failed in \<open>simp add: resumeChunk_def\<close>)
qed

text \<open>Taking the call \<open>i\<close> off the list of suspended calls.\<close>

abbreviation without :: "nat \<Rightarrow> Player \<Rightarrow> Player" where
  "without i p \<equiv> p\<lparr>pb_pending := filter (\<lambda>c. pc_id c \<noteq> i) (pb_pending p)\<rparr>"

lemma without_ok:
  assumes "data_ok p" "calls_ok p"
  shows "data_ok (without i p)" "calls_ok (without i p)"
  using assms by (auto simp: data_ok_def calls_ok_def distinct_map_filter)

lemma settle_stale:
  assumes "find (\<lambda>c. pc_id c = i) (pb_pending p) = Some c" and "pc_token c \<noteq> pb_generation p"
  shows "settle i outcome p = finishCall i (without i p)"
  using assms by (cases "pc_await c") (simp_all add: settle_def resume_stale Let_def)

lemma settle_ok:
  assumes ok: "player_ok p"
  shows "player_ok (settle i outcome p)"
proof (cases "find (\<lambda>c. pc_id c = i) (pb_pending p)")
  case None
  with ok show ?thesis by (simp add: settle_def)
next
  case (Some c)
  then have c: "c \<in> set (pb_pending p)" "pc_id c = i"
    by (auto simp: find_Some_iff)
  have base: "data_ok p" "calls_ok p" using ok by (simp_all add: player_ok_def)
  note removed = without_ok [OF base, of i]
  show ?thesis
  proof (cases "pc_token c = pb_generation p")
    case True
    with c(1) have mem: "c \<in> set (busy p)" by (simp add: busy_def)
    then have active: "pb_active p" and one: "length (busy p) = 1" "pb_timers p = []"
      using ok by (auto simp: player_ok_def idle_def working_def split: if_splits)
    with mem have "busy p = [c]" by (cases "busy p") auto
    then have "filter (\<lambda>c. pc_id c \<noteq> i) (busy p) = []" using c(2) by simp
    then have "busy (without i p) = []" by (simp add: busy_def conj_commute)
    with one have idle: "idle (without i p)" by (simp add: idle_def)
    have fresh: "i \<notin> pc_id ` set (pb_pending (without i p))" by auto
    have i: "i < pb_next p" using base(2) c by (auto simp: calls_ok_def)
    show ?thesis
    proof (cases "pc_await c")
      case AwaitManifest
      then have "pb_manifest p = None" using base(2) c(1) True by (auto simp: calls_ok_def)
      then have "pb_chunkIndex p = 0" using base(1) by (simp add: data_ok_def cursor_ok_def)
      with AwaitManifest Some removed idle active True fresh i show ?thesis
        by (simp add: settle_def resumeManifest_ok)
    next
      case (AwaitChunk ch)
      have "good_chunk ch" using base(2) c AwaitChunk by (auto simp: calls_ok_def)
      with AwaitChunk Some removed idle active True show ?thesis
        by (simp add: settle_def resumeChunk_ok)
    qed
  next
    case False
    have "d = c" if "d \<in> set (pb_pending p)" "pc_id d = i" for d
      using base(2) c that by (auto simp: calls_ok_def distinct_map dest: inj_onD)
    with False have "busy (without i p) = busy p"
      by (auto simp: busy_def intro!: filter_cong)
    then have "working (without i p) = working p" "idle (without i p) = idle p"
      by (simp_all add: idle_def working_def)
    then have "player_ok (without i p)" using ok removed by (simp add: player_ok_def)
    moreover have "settle i outcome p = finishCall i (without i p)"
      by (rule settle_stale [OF Some False])
    ultimately show ?thesis by (simp add: finishCall_ok)
  qed
qed

lemma playerTimer_ok:
  assumes ok: "player_ok p"
  shows "player_ok (playerTimer t p)"
proof (cases "t \<in> fst ` set (pb_timers p)")
  case False
  with ok show ?thesis by (simp add: playerTimer_def)
next
  case True
  let ?q = "p\<lparr>pb_timers := filter (\<lambda>x. fst x \<noteq> t) (pb_timers p)\<rparr>"
  have active: "pb_active p" and empty: "busy p = []" "pb_timers ?q = []"
    using ok True by (auto simp: player_ok_def idle_def working_def split: if_splits)
  have "data_ok ?q" "calls_ok ?q" using ok by (simp_all add: player_ok_def data_ok_def calls_ok_def)
  moreover have "idle ?q" using empty by (simp add: idle_def busy_def)
  ultimately have "player_ok (advance ?q)" using active by (intro advance_ok) simp_all
  with True show ?thesis by (simp add: playerTimer_def)
qed

lemma setActive_ok:
  assumes ok: "player_ok p"
  shows "player_ok (setActive next p)"
proof (cases "pb_disposed p \<or> pb_active p = next")
  case True
  with ok show ?thesis by (simp add: setActive_def)
next
  case False
  define q where "q = p\<lparr>pb_active := next, pb_generation := Suc (pb_generation p),
    pb_timers := filter (\<lambda>x. Some (fst x) \<noteq> pb_timer p) (pb_timers p),
    pb_aborted := pb_aborted p @ (case pb_request p of Some i \<Rightarrow> [i] | None \<Rightarrow> [])\<rparr>"
  have "data_ok q" using ok by (simp add: q_def player_ok_def data_ok_def)
  moreover have "calls_ok q"
    using ok False by (fastforce simp: q_def player_ok_def calls_ok_def)
  moreover have "busy q = []"
    using ok by (fastforce simp: q_def player_ok_def calls_ok_def busy_def filter_empty_conv)
  moreover have "pb_timers q = []"
    using ok by (auto simp: q_def player_ok_def idle_def working_def split: if_splits)
  moreover have "setActive next p = (if next then advance q else q)" "pb_active q = next"
    using False by (simp_all add: setActive_def q_def Let_def)
  moreover from calculation have "idle q" by (simp add: idle_def)
  ultimately show ?thesis by (cases "next") (simp_all add: advance_ok player_ok_def [of q])
qed

lemma setActive_False: "\<not> pb_active (setActive False p) \<or> pb_disposed p"
  by (simp add: setActive_def Let_def)

lemma setActive_disposed [simp]: "pb_disposed p \<Longrightarrow> setActive b p = p"
  by (simp add: setActive_def)

lemma disposePlayer_ok:
  assumes ok: "player_ok p"
  shows "player_ok (disposePlayer p)"
proof -
  have off: "\<not> pb_active (setActive False p)"
    using setActive_False [of p] ok by (auto simp: player_ok_def calls_ok_def)
  with setActive_ok [OF ok, of False] show ?thesis
    by (simp add: disposePlayer_def player_ok_def data_ok_def calls_ok_def idle_def busy_def)
qed

lemma updateActivity_ok: "player_ok p \<Longrightarrow> player_ok (updateActivity hidden paused p)"
proof -
  assume ok: "player_ok p"
  have "player_ok (q\<lparr>demo_status := PAUSED\<rparr>) = player_ok q" for q
    by (simp add: player_ok_def data_ok_def calls_ok_def idle_def working_def busy_def)
  with setActive_ok [OF ok] have "player_ok (let p1 = setActive active p
      in if \<not> active then p1\<lparr>demo_status := PAUSED\<rparr> else p1)" for active
    by (simp add: Let_def)
  then show ?thesis unfolding updateActivity_def Let_def .
qed

lemma player_step_ok: "player_ok p \<Longrightarrow> player_ok (player_step e p)"
  by (cases e) (simp_all add: updateActivity_ok settle_ok playerTimer_ok disposePlayer_ok)

lemma initialPlayer_ok: "player_ok initialPlayer"
  using default_snapshot_ok
  by (simp add: initialPlayer_def player_ok_def data_ok_def cursor_ok_def calls_ok_def idle_def
      busy_def)

text \<open>A stopped player, its calls all stale, shows the same picture whatever is delivered.\<close>

definition stopped :: "Player \<Rightarrow> bool" where
  "stopped p \<longleftrightarrow> pb_disposed p \<and> player_ok p"

definition picture :: "Player \<Rightarrow> jsval \<times> DemoStatus \<times> ConnectionState" where
  "picture p = (demo_world p, demo_status p, demo_connection p)"

lemma finishCall_picture [simp]: "picture (finishCall i p) = picture p"
  by (simp add: finishCall_def picture_def)

lemma settle_idle_picture:
  assumes "idle p"
  shows "picture (settle i outcome p) = picture p" "pb_disposed (settle i outcome p) = pb_disposed p"
proof -
  have "settle i outcome p = finishCall i (without i p)"
    if "find (\<lambda>c. pc_id c = i) (pb_pending p) = Some c" for c
  proof -
    have "pc_token c \<noteq> pb_generation p"
      using assms that by (auto simp: idle_def busy_def filter_empty_conv find_Some_iff)
    then show ?thesis by (rule settle_stale [OF that])
  qed
  then show "picture (settle i outcome p) = picture p" "pb_disposed (settle i outcome p) = pb_disposed p"
    by (cases "find (\<lambda>c. pc_id c = i) (pb_pending p)"; simp add: settle_def; simp add: picture_def)+
qed

lemma stopped_step:
  assumes "stopped p"
  shows "stopped (player_step e p) \<and> picture (player_step e p) = picture p"
proof -
  have "\<not> pb_active p" and idle: "idle p"
    using assms by (auto simp: stopped_def player_ok_def calls_ok_def split: if_splits)
  moreover from idle have "playerTimer t p = p" for t by (simp add: playerTimer_def idle_def)
  ultimately have "pb_disposed (player_step e p) \<and> picture (player_step e p) = picture p"
    using assms settle_idle_picture [OF idle]
    by (cases e) (simp_all add: stopped_def disposePlayer_def picture_def)
  with assms player_step_ok show ?thesis by (simp add: stopped_def)
qed

interpretation player_machine: disposable_machine initialPlayer player_step "\<lambda>_. True" player_ok
  stopped picture
  by unfold_locales (simp_all add: initialPlayer_ok player_step_ok stopped_step)

section \<open>Properties\<close>

text \<open>
  Reading a manifest: one that is accepted has at least one chunk, every chunk has between 1
  and 100 frames and a URL directly under \<^verbatim>\<open>/demo/\<close> (no further slash, so no way out of that
  directory), and the frame interval is between 50 and 2000 ms.
\<close>

theorem accepted_manifest:
  assumes "readDemoManifest v = Inr m"
  shows "dm_chunks m \<noteq> [] \<and>
    list_all (\<lambda>ch. 0 < dc_frames ch \<and> dc_frames ch \<le> 100 \<and>
      (\<exists>name. dc_url ch = ''/demo/'' @ name @ ''.json.gz'' \<and> name \<noteq> [] \<and> CHR ''/'' \<notin> set name))
      (dm_chunks m) \<and>
    50 \<le> dm_frame_interval_ms m \<and> dm_frame_interval_ms m \<le> 2000"
proof -
  have "\<exists>name. url = ''/demo/'' @ name @ ''.json.gz'' \<and> name \<noteq> [] \<and> CHR ''/'' \<notin> set name"
    if url: "isChunkUrl url" for url
  proof -
    obtain rest where rest: "url = ''/demo/'' @ rest" using url
      by (auto simp: isChunkUrl_def startsWith_append)
    let ?n = "length rest - 8"
    have parts: "drop ?n rest = ''.json.gz''" "take ?n rest \<noteq> []" "list_all url_char (take ?n rest)"
      using url by (simp_all add: isChunkUrl_def rest Let_def)
    have "CHR ''/'' \<notin> set (take ?n rest)"
      using parts(3) by (auto simp: list_all_iff url_char_def)
    then show ?thesis
      using parts(1,2) append_take_drop_id [of ?n rest] rest by (intro exI [of _ "take ?n rest"]) simp
  qed
  with readDemoManifest_good [OF assms] show ?thesis
    by (simp add: good_manifest_def list_all_iff)
qed

definition sampleManifest :: jsval where
  "sampleManifest = JObj [(''version'', JNum 1), (''frame_interval_ms'', JNum 200),
     (''reference_map'', JObj []),
     (''chunks'', JArr [JObj [(''url'', JStr ''/demo/a.json.gz''), (''frames'', JNum 2)]])]"

lemma sampleManifest_read:
  "readDemoManifest sampleManifest = Inr \<lparr>dm_frame_interval_ms = 200, dm_reference_map = JObj [],
     dm_chunks = [\<lparr>dc_url = ''/demo/a.json.gz'', dc_frames = 2\<rparr>]\<rparr>"
  by (simp add: readDemoManifest_def sampleManifest_def isManifestChunk_def isChunkUrl_def
      url_char_def truthy_def isInteger_def chunkOf_def)

theorem accepted_manifest_witness:
  "50 \<le> dm_frame_interval_ms \<lparr>dm_frame_interval_ms = 200, dm_reference_map = JObj [],
     dm_chunks = [\<lparr>dc_url = ''/demo/a.json.gz'', dc_frames = 2\<rparr>]\<rparr>"
  using accepted_manifest [OF sampleManifest_read] by simp

text \<open>
  Decoding a chunk: an accepted chunk yields the announced number of frames, each one a valid
  simulated snapshot; in frame \<open>i\<close> every field has the value the latest of the patches
  \<open>0, \<dots>, i\<close> that carries the field gives it, and the reference map is the manifest's.
\<close>

theorem decoded_frames:
  assumes "decodeDemoFrames (JArr patches) m n = Inr fs" and "i < length fs"
  shows "length fs = n \<and> isWorldStateSnapshot (fs ! i) \<and> js_get (fs ! i) ''mode'' = JStr ''SIMULATED'' \<and>
    js_get (fs ! i) k = (if k = ''reference_map'' then dm_reference_map m
      else latest k JUndefined (take (Suc i) patches))"
proof -
  have "decodePatches (dm_reference_map m) (JObj []) patches = Inr fs"
    using assms(1) by (simp add: decodeDemoFrames_def split: if_splits)
  from decodePatches_fields [OF this assms(2), of k] decodeDemoFrames_valid [OF assms(1)] assms(2)
  show ?thesis by (simp add: list_all_length valid_frame_def)
qed

text \<open>The default snapshot and a patch that only advances the sequence number.\<close>

definition samplePatches :: "jsval list" where
  "samplePatches = [defaultSnapshot, JObj [(''sequence'', JNum 1)]]"

lemma guard_cong:
  assumes "isWorldStateSnapshot w" and "\<And>k. k \<noteq> ''sequence'' \<Longrightarrow> js_get (JObj kvs) k = js_get w k"
    and "js_get (JObj kvs) ''sequence'' = JNum (Fin r)"
  shows "isWorldStateSnapshot (JObj kvs)"
proof -
  have "isRecord w" using assms(1) by (simp add: isWorldStateSnapshot_def split: if_splits)
  then show ?thesis
    using assms by (simp add: isWorldStateSnapshot_def hasFiniteNumbers_def hasStrings_def isRecord_def
        isFiniteNumber_def)
qed

lemma default_map_null: "js_get defaultSnapshot ''reference_map'' = JNull"
  by (simp add: defaultSnapshot_def)

lemma default_mode: "js_get defaultSnapshot ''mode'' = JStr ''SIMULATED''"
  by (simp add: defaultSnapshot_def)

lemma sample_decodes:
  "\<exists>fs. decodeDemoFrames (JArr samplePatches) \<lparr>dm_frame_interval_ms = 200, dm_reference_map = JNull,
     dm_chunks = []\<rparr> 2 = Inr fs \<and> length fs = 2"
proof -
  obtain kvs where d: "defaultSnapshot = JObj kvs" by (simp add: defaultSnapshot_def)
  obtain a where a: "applyPatch JNull (JObj []) defaultSnapshot = JObj a"
    using applyPatch_object by blast
  obtain b where b: "applyPatch JNull (JObj a) (JObj [(''sequence'', JNum 1)]) = JObj b"
    using applyPatch_object by blast
  have distinct: "map_of (rev kvs) k = map_of kvs k" for k
  proof -
    have "distinct (map fst kvs)" using d by (auto simp: defaultSnapshot_def)
    then have "map_of (rev kvs) = map_of kvs"
      by (subst map_of_inject_set) (simp_all flip: rev_map)
    then show ?thesis by simp
  qed
  have get_a: "js_get (JObj a) k = js_get defaultSnapshot k" for k
  proof -
    have "map_of (rev (obj_entries defaultSnapshot)) k = map_of kvs k"
      unfolding d obj_entries_JObj by (rule distinct)
    moreover have "js_get defaultSnapshot k = (case map_of kvs k of Some w \<Rightarrow> w | None \<Rightarrow> JUndefined)"
      unfolding d by (simp add: js_get_def)
    ultimately show ?thesis
      using applyPatch_get [of JNull "[]" defaultSnapshot k] default_map_null
      by (simp add: a split: if_splits)
  qed
  have get_b: "js_get (JObj b) k = (if k = ''sequence'' then JNum 1 else js_get (JObj a) k)" for k
    using applyPatch_get [of JNull a "JObj [(''sequence'', JNum 1)]" k, unfolded b] default_map_null
    by (auto simp: get_a)
  have ok_a: "isWorldStateSnapshot (JObj a)"
    by (rule guard_cong [OF default_snapshot_ok]) (simp_all add: get_a, simp add: defaultSnapshot_def)
  have ok_b: "isWorldStateSnapshot (JObj b)"
    by (rule guard_cong [OF default_snapshot_ok]) (simp_all add: get_a get_b)
  show ?thesis
    using ok_a ok_b
    by (simp add: decodeDemoFrames_def samplePatches_def a b [simplified] get_a get_b default_mode Let_def)
qed

theorem decoded_frames_witness:
  "\<exists>fs. decodeDemoFrames (JArr samplePatches) \<lparr>dm_frame_interval_ms = 200, dm_reference_map = JNull,
     dm_chunks = []\<rparr> 2 = Inr fs \<and> js_get (fs ! 1) ''sequence'' = JNum 1"
proof -
  obtain fs where fs: "decodeDemoFrames (JArr samplePatches) \<lparr>dm_frame_interval_ms = 200,
      dm_reference_map = JNull, dm_chunks = []\<rparr> 2 = Inr fs" "length fs = 2"
    using sample_decodes by blast
  have "1 < length fs" using fs(2) by simp
  from decoded_frames [OF fs(1) this, of "''sequence''"] fs show ?thesis
    by (simp add: samplePatches_def)
qed

text \<open>
  The demo only ever shows simulated worlds: whatever the downloads return and whenever the
  page is hidden, paused or left, the rendered world is a valid snapshot, a simulated one as
  soon as a frame has arrived, and from then on the connection stays shown as CONNECTED.
\<close>

theorem demo_world_valid:
  "let p = player_run es in
     isWorldStateSnapshot (demo_world p) \<and>
     (\<not> demo_received p \<or> js_get (demo_world p) ''mode'' = JStr ''SIMULATED'' \<and>
        demo_connection p = CONNECTED)"
  using player_machine.run_inv [of es]
  by (auto simp: player_run_def player_ok_def data_ok_def valid_frame_def list_all_iff Let_def)

theorem demo_world_valid_witness:
  "isWorldStateSnapshot (demo_world (player_run [ActivityChanged False False,
     PromiseSettled 0 (Inl ''offline'')]))"
  using demo_world_valid [of "[ActivityChanged False False, PromiseSettled 0 (Inl ''offline'')]"]
  by (simp add: Let_def)

text \<open>
  C6. The player neither stalls nor runs twice: while it is active exactly one thing will
  continue it, either one suspended call of the current generation or one timer; while it is
  paused, hidden or disposed there is neither. Retries wait between 1 and 30 seconds.
\<close>

theorem one_continuation:
  "length (busy (player_run es)) + length (pb_timers (player_run es)) =
     (if pb_active (player_run es) then 1 else 0) \<and>
   (pb_active (player_run es), pb_disposed (player_run es)) \<noteq> (True, True) \<and>
   1000 \<le> pb_retryMs (player_run es) \<and> pb_retryMs (player_run es) \<le> 30000"
  using player_machine.run_inv [of es]
  by (auto simp: player_run_def player_ok_def data_ok_def calls_ok_def working_def idle_def list_all_iff
      simp del: num_literals split: if_splits)

text \<open>
  Leaving the demo is final: after the player is disposed of, no late download, timer or
  visibility change alters the picture, the status or the connection any more.
\<close>

theorem disposed_picture_frozen:
  "picture (player_run (es @ DisposePlayer # fs)) = picture (player_run (es @ [DisposePlayer]))"
proof -
  have "player_ok (player_run (es @ [DisposePlayer]))"
    using player_machine.run_inv [of "es @ [DisposePlayer]"] by (simp add: player_run_def list_all_iff)
  moreover have "pb_disposed (player_run (es @ [DisposePlayer]))"
    by (simp add: player_run_def disposePlayer_def)
  ultimately show ?thesis
    using player_machine.disposed_run [of "player_run (es @ [DisposePlayer])" fs]
    by (simp add: player_run_def stopped_def)
qed

text \<open>
  The chunk cache is transparent and bounded: however many loads follow each other, none
  fails inside the cache, the next one returns the bytes that belong to its URL and leaves
  them cached if they fit, and the cache holds at most 20 MiB, counted exactly.
\<close>

theorem cache_transparent:
  "\<exists>c b c'. loadAll f fetched urls emptyCache = Some c \<and>
    cc_bytes c = cached_bytes f (cc_entries c) \<and> cc_bytes c \<le> 20971520 \<and>
    loadThrough f fetched url c = Some (b, c') \<and> b = fetched url \<and>
    map_of (cc_entries c') url = (if f (fetched url) \<le> 20971520 then Some (fetched url)
      else map_of (cc_entries c) url)"
proof -
  have "cache_faithful fetched emptyCache" "cache_ok f emptyCache"
    by (simp_all add: cache_faithful_def cache_ok_def emptyCache_def)
  from loadAll_ok [OF this(2,1), of urls] obtain c where
    c: "loadAll f fetched urls emptyCache = Some c" "cache_ok f c" "cache_faithful fetched c"
    by blast
  from loadThrough_ok [OF c(2), of fetched url] c(3) obtain c' where
    c': "loadThrough f fetched url c = Some (fetched url, c')"
    "f (fetched url) \<le> maxBytes \<longrightarrow> map_of (cc_entries c') url = Some (fetched url)"
    by (auto simp: cache_faithful_def split: option.splits)
  moreover have "map_of (cc_entries c') url = map_of (cc_entries c) url"
    if "\<not> f (fetched url) \<le> maxBytes"
    using c'(1) that cacheHit_ok [OF c(2), of url]
    by (cases "cacheHit url c") (auto simp: loadThrough_def cacheStore_def split: option.splits)
  ultimately show ?thesis
    using c by (intro exI [of _ c] exI [of _ "fetched url"] exI [of _ c'])
      (simp add: cache_ok_def maxBytes_def)
qed

end
