(* ===== verification/RouteGeometry.thy ===== *)
theory RouteGeometry
  imports WorldTypes
begin

text \<open>
  Geometry around the vehicle: \<^verbatim>\<open>frontend/src/spatial/routeGeometry.ts\<close>, the conversion to vehicle
  coordinates in \<^verbatim>\<open>spatial/spatialProjection.ts\<close> and the plot of
  \<^verbatim>\<open>driver/driverAwareness.ts\<close>. World coordinates are metres with x to the east and y to the
  north, headings are degrees clockwise from north; in vehicle coordinates y points forward.
\<close>

record VehiclePoint3D =
  v3_x_m :: jsnum
  v3_y_m :: jsnum
  v3_z_m :: jsnum

definition localPoint :: "Point2D \<Rightarrow> VehiclePose \<Rightarrow> jsnum \<Rightarrow> VehiclePoint3D" where
  "localPoint point vehicle z_m =
     (let angle = vp_heading_deg vehicle * js_pi / 180;
          x = pt_x_m point - vp_x_m vehicle;
          y = pt_y_m point - vp_y_m vehicle
      in \<lparr>v3_x_m = x * js_cos angle - y * js_sin angle,
          v3_y_m = x * js_sin angle + y * js_cos angle, v3_z_m = z_m\<rparr>)"

definition worldPointToVehicle :: "SpatialPoint \<Rightarrow> VehiclePose \<Rightarrow> VehiclePoint3D" where
  "worldPointToVehicle point vehicle =
     (let heading = vp_heading_deg vehicle * js_pi / 180;
          deltaX = sp_x_m point - vp_x_m vehicle;
          deltaY = sp_y_m point - vp_y_m vehicle
      in \<lparr>v3_x_m = deltaX * js_cos heading - deltaY * js_sin heading,
          v3_y_m = deltaX * js_sin heading + deltaY * js_cos heading,
          v3_z_m = js_max 0 (sp_height_hint_m point)\<rparr>)"

record PlotPoint =
  plot_x :: jsnum
  plot_y :: jsnum
  plot_distance_m :: jsnum

definition spatialPointToPlot :: "SpatialPoint \<Rightarrow> VehiclePose \<Rightarrow> PlotPoint" where
  "spatialPointToPlot point vehicle =
     (let heading = vp_heading_deg vehicle * js_pi / 180;
          deltaX = sp_x_m point - vp_x_m vehicle;
          deltaY = sp_y_m point - vp_y_m vehicle;
          localX = deltaX * js_cos heading - deltaY * js_sin heading;
          localY = deltaX * js_sin heading + deltaY * js_cos heading
      in \<lparr>plot_x = 120 + localX * 22, plot_y = 120 - localY * 22,
          plot_distance_m = js_hypot localX localY\<rparr>)"

section \<open>Clipping a road\<close>

datatype Axis = X_AXIS | Y_AXIS

fun axis_of :: "Axis \<Rightarrow> VehiclePoint3D \<Rightarrow> jsnum" where
  "axis_of X_AXIS p = v3_x_m p"
| "axis_of Y_AXIS p = v3_y_m p"

fun with_axis :: "Axis \<Rightarrow> jsnum \<Rightarrow> VehiclePoint3D \<Rightarrow> VehiclePoint3D" where
  "with_axis X_AXIS v p = p\<lparr>v3_x_m := v\<rparr>"
| "with_axis Y_AXIS v p = p\<lparr>v3_y_m := v\<rparr>"

text \<open>The test \<^verbatim>\<open>sign * (point[axis] - boundary) >= 0\<close> and the point where an edge crosses.\<close>

definition inside :: "Axis \<Rightarrow> jsnum \<Rightarrow> jsnum \<Rightarrow> VehiclePoint3D \<Rightarrow> bool" where
  "inside axis boundary sign p \<longleftrightarrow> 0 \<le> sign * (axis_of axis p - boundary)"

definition crossing :: "Axis \<Rightarrow> jsnum \<Rightarrow> VehiclePoint3D \<Rightarrow> VehiclePoint3D \<Rightarrow> VehiclePoint3D" where
  "crossing axis boundary previous current =
     (let t = (boundary - axis_of axis previous) / (axis_of axis current - axis_of axis previous)
      in with_axis axis boundary
           \<lparr>v3_x_m = v3_x_m previous + t * (v3_x_m current - v3_x_m previous),
            v3_y_m = v3_y_m previous + t * (v3_y_m current - v3_y_m previous), v3_z_m = 0\<rparr>)"

fun clipEdges ::
    "Axis \<Rightarrow> jsnum \<Rightarrow> jsnum \<Rightarrow> VehiclePoint3D \<Rightarrow> VehiclePoint3D list \<Rightarrow> VehiclePoint3D list" where
  "clipEdges axis boundary sign previous [] = []"
| "clipEdges axis boundary sign previous (current # rest) =
     (if inside axis boundary sign current \<noteq> inside axis boundary sign previous
      then [crossing axis boundary previous current] else []) @
     (if inside axis boundary sign current then [current] else []) @
     clipEdges axis boundary sign current rest"

definition clipPlane :: "Axis \<times> jsnum \<times> jsnum \<Rightarrow> VehiclePoint3D list \<Rightarrow> VehiclePoint3D list" where
  "clipPlane = (\<lambda>(axis, boundary, sign) input.
     if input = [] then [] else clipEdges axis boundary sign (last input) input)"

definition clipRoad :: "VehiclePoint3D list \<Rightarrow> jsnum \<Rightarrow> VehiclePoint3D list" where
  "clipRoad points radius =
     foldl (\<lambda>input plane. clipPlane plane input) points
       [(X_AXIS, - radius, 1), (X_AXIS, radius, - 1), (Y_AXIS, - radius, 1), (Y_AXIS, radius, - 1)]"

section \<open>Lemmas on clipping\<close>

text \<open>A point with finite coordinates on the map, at reals.\<close>

fun coord :: "Axis \<Rightarrow> VehiclePoint3D \<Rightarrow> real \<Rightarrow> bool" where
  "coord a p r \<longleftrightarrow> axis_of a p = Fin r"

definition planar :: "VehiclePoint3D \<Rightarrow> bool" where
  "planar p \<longleftrightarrow> isFinite (v3_x_m p) \<and> isFinite (v3_y_m p)"

lemma planar_axis: "planar p \<Longrightarrow> \<exists>r. axis_of a p = Fin r"
  by (cases a) (auto simp: planar_def isFinite_iff)

lemma planarI: "(\<And>a. isFinite (axis_of a p)) \<Longrightarrow> planar p"
  using axis_of.simps by (metis planar_def)

lemma inside_Fin:
  "axis_of a p = Fin r \<Longrightarrow> inside a (Fin b) (Fin s) p \<longleftrightarrow> 0 \<le> s * (r - b)"
  by (simp add: inside_def)

lemma axis_of_with_axis: "axis_of a (with_axis a' v p) = (if a = a' then v else axis_of a p)"
  by (cases a; cases a') simp_all

lemma between:
  fixes t :: real
  assumes "0 \<le> t" "t \<le> 1" "0 \<le> s * (p - b)" "0 \<le> s * (c - b)"
  shows "0 \<le> s * (p + t * (c - p) - b)"
proof -
  have "s * (p + t * (c - p) - b) = (1 - t) * (s * (p - b)) + t * (s * (c - b))"
    by (simp add: algebra_simps)
  with assms show ?thesis by simp
qed

lemma crossing_axis:
  assumes "planar previous" "planar current"
    and "inside a (Fin b) (Fin s) current \<noteq> inside a (Fin b) (Fin s) previous"
  obtains t where "0 \<le> t" "t \<le> 1"
    "\<And>a' p c. axis_of a' previous = Fin p \<Longrightarrow> axis_of a' current = Fin c \<Longrightarrow>
       axis_of a' (crossing a (Fin b) previous current) = Fin (if a' = a then b else p + t * (c - p))"
proof -
  obtain p c where pc: "axis_of a previous = Fin p" "axis_of a current = Fin c"
    using assms(1,2) planar_axis by blast
  define t where "t = (b - p) / (c - p)"
  have neq: "c \<noteq> p" and sides: "(0 \<le> s * (c - b)) \<noteq> (0 \<le> s * (p - b))"
    using assms(3) pc by (auto simp: inside_Fin)
  then have "p < b \<and> b \<le> c \<or> c < b \<and> b \<le> p \<or> p \<le> b \<and> b < c \<or> c \<le> b \<and> b < p"
    by (cases "0 < s"; cases "s = 0") (auto simp: zero_le_mult_iff not_le)
  then have "0 \<le> t" "t \<le> 1"
    by (auto simp: t_def divide_simps)
  moreover have "axis_of a' (crossing a (Fin b) previous current) =
      Fin (if a' = a then b else p' + t * (c' - p'))"
    if "axis_of a' previous = Fin p'" "axis_of a' current = Fin c'" for a' p' c'
    using that pc neq
    by (cases a'; cases a) (simp_all add: crossing_def t_def)
  ultimately show thesis using that by blast
qed

text \<open>
  One pass keeps the map coordinates finite, puts every point on the inner side of its plane and
  keeps every point on the inner side of another plane, provided the boundary is there itself when
  the planes are parallel.
\<close>

lemma clipEdges_inside:
  assumes "planar previous" "\<forall>p \<in> set input. planar p" "q \<in> set (clipEdges a (Fin b) (Fin s) previous input)"
  shows "planar q \<and> inside a (Fin b) (Fin s) q"
  using assms
proof (induction input arbitrary: previous)
  case (Cons current rest)
  let ?x = "crossing a (Fin b) previous current"
  have "planar ?x \<and> inside a (Fin b) (Fin s) ?x"
    if cross: "inside a (Fin b) (Fin s) current \<noteq> inside a (Fin b) (Fin s) previous"
  proof -
    have pl: "planar previous" "planar current" using Cons.prems by simp_all
    obtain t where x: "\<And>a' p c. axis_of a' previous = Fin p \<Longrightarrow> axis_of a' current = Fin c \<Longrightarrow>
        axis_of a' ?x = Fin (if a' = a then b else p + t * (c - p))"
      by (rule crossing_axis [OF pl cross]) blast
    then have "isFinite (axis_of a' ?x)" for a'
      using planar_axis [OF pl(1), of a'] planar_axis [OF pl(2), of a'] by auto
    moreover have "axis_of a ?x = Fin b"
      using x [of a] planar_axis [OF pl(1), of a] planar_axis [OF pl(2), of a] by auto
    ultimately show ?thesis by (simp add: planarI inside_Fin)
  qed
  with Cons show ?case by (auto split: if_splits)
qed simp

lemma clipEdges_keeps:
  assumes "planar previous" "\<forall>p \<in> set input. planar p"
    and "inside a' (Fin b') (Fin s') previous" "\<forall>p \<in> set input. inside a' (Fin b') (Fin s') p"
    and "a' = a \<Longrightarrow> 0 \<le> s' * (b - b')"
    and "q \<in> set (clipEdges a (Fin b) (Fin s) previous input)"
  shows "inside a' (Fin b') (Fin s') q"
  using assms
proof (induction input arbitrary: previous)
  case (Cons current rest)
  let ?x = "crossing a (Fin b) previous current"
  have "inside a' (Fin b') (Fin s') ?x"
    if cross: "inside a (Fin b) (Fin s) current \<noteq> inside a (Fin b) (Fin s) previous"
  proof -
    have pl: "planar previous" "planar current" using Cons.prems by simp_all
    obtain p c where pc: "axis_of a' previous = Fin p" "axis_of a' current = Fin c"
      using pl planar_axis by blast
    obtain t where t: "0 \<le> t" "t \<le> 1" "axis_of a' ?x = Fin (if a' = a then b else p + t * (c - p))"
      using crossing_axis [OF pl cross] pc by metis
    show ?thesis
      using Cons.prems(3-5) t pc between [of t s' p b' c] by (auto simp: inside_Fin)
  qed
  with Cons show ?case by (auto split: if_splits)
qed simp

lemma clipEdges_member:
  "p \<in> set input \<Longrightarrow> inside a b s p \<Longrightarrow> p \<in> set (clipEdges a b s previous input)"
  by (induction input arbitrary: previous) auto

lemma clipEdges_all_inside:
  "inside a b s previous \<Longrightarrow> \<forall>p \<in> set input. inside a b s p \<Longrightarrow> clipEdges a b s previous input = input"
  by (induction input arbitrary: previous) auto


lemma clipPlane_inside:
  assumes "\<forall>p \<in> set input. planar p" "q \<in> set (clipPlane (a, Fin b, Fin s) input)"
  shows "planar q \<and> inside a (Fin b) (Fin s) q"
proof -
  have "input \<noteq> []" using assms(2) by (auto simp: clipPlane_def)
  with assms show ?thesis
    by (intro clipEdges_inside [of "last input" input]) (simp_all add: clipPlane_def)
qed

lemma clipPlane_keeps:
  assumes "\<forall>p \<in> set input. planar p \<and> inside a' (Fin b') (Fin s') p"
    and "a' = a \<Longrightarrow> 0 \<le> s' * (b - b')" and "q \<in> set (clipPlane (a, Fin b, Fin s) input)"
  shows "inside a' (Fin b') (Fin s') q"
proof -
  have "input \<noteq> []" using assms(3) by (auto simp: clipPlane_def)
  with assms show ?thesis
    by (intro clipEdges_keeps [of "last input" input a' b' s' a b q s]) (simp_all add: clipPlane_def)
qed

lemma clipPlane_member:
  "p \<in> set input \<Longrightarrow> inside a b s p \<Longrightarrow> p \<in> set (clipPlane (a, b, s) input)"
  by (auto simp: clipPlane_def intro: clipEdges_member)

lemma clipPlane_all_inside:
  "\<forall>p \<in> set input. inside a b s p \<Longrightarrow> clipPlane (a, b, s) input = input"
  by (simp add: clipPlane_def clipEdges_all_inside)

definition in_square :: "real \<Rightarrow> VehiclePoint3D \<Rightarrow> bool" where
  "in_square r p \<longleftrightarrow>
     (\<exists>x y. v3_x_m p = Fin x \<and> v3_y_m p = Fin y \<and> \<bar>x\<bar> \<le> r \<and> \<bar>y\<bar> \<le> r)"

lemma in_square_iff:
  "in_square r p \<longleftrightarrow> planar p \<and> inside X_AXIS (Fin (- r)) (Fin 1) p \<and> inside X_AXIS (Fin r) (Fin (- 1)) p \<and>
     inside Y_AXIS (Fin (- r)) (Fin 1) p \<and> inside Y_AXIS (Fin r) (Fin (- 1)) p"
  by (auto simp: in_square_def planar_def isFinite_iff inside_def)

lemma clipRoad_planes:
  "clipRoad ps (Fin r) = clipPlane (Y_AXIS, Fin r, Fin (- 1)) (clipPlane (Y_AXIS, Fin (- r), Fin 1)
     (clipPlane (X_AXIS, Fin r, Fin (- 1)) (clipPlane (X_AXIS, Fin (- r), Fin 1) ps)))"
  by (simp add: clipRoad_def)

text \<open>Rotations preserve lengths.\<close>

lemma rotation_norm: "(u * cos a - v * sin a)\<^sup>2 + (u * sin a + v * cos a)\<^sup>2 = u\<^sup>2 + (v\<^sup>2 :: real)"
proof -
  have "(u * cos a - v * sin a)\<^sup>2 + (u * sin a + v * cos a)\<^sup>2 = (u\<^sup>2 + v\<^sup>2) * ((sin a)\<^sup>2 + (cos a)\<^sup>2)"
    by algebra
  then show ?thesis by simp
qed

section \<open>Properties\<close>

text \<open>
  Clipping a road: for an outline with finite coordinates and a radius that is not negative,
  every point of the clipped outline lies in the square of that radius around the vehicle, every
  vertex of the outline that lies in the square is kept, and an outline that lies in the square
  is returned unchanged.
\<close>

theorem clipped_in_square:
  assumes "list_all planar ps" and "0 \<le> r"
  shows "list_all (in_square r) (clipRoad ps (Fin r)) \<and>
    set (filter (in_square r) ps) \<subseteq> set (clipRoad ps (Fin r)) \<and>
    (list_all (in_square r) ps \<longrightarrow> clipRoad ps (Fin r) = ps)"
proof (intro conjI impI)
  let ?p1 = "clipPlane (X_AXIS, Fin (- r), Fin 1) ps"
  let ?p2 = "clipPlane (X_AXIS, Fin r, Fin (- 1)) ?p1"
  let ?p3 = "clipPlane (Y_AXIS, Fin (- r), Fin 1) ?p2"
  have p0: "\<forall>p \<in> set ps. planar p" using assms(1) by (simp add: list_all_iff)
  have p1: "\<forall>p \<in> set ?p1. planar p \<and> inside X_AXIS (Fin (- r)) (Fin 1) p"
    using clipPlane_inside [OF p0] by blast
  have p2: "\<forall>p \<in> set ?p2. planar p \<and> inside X_AXIS (Fin (- r)) (Fin 1) p \<and> inside X_AXIS (Fin r) (Fin (- 1)) p"
    using clipPlane_inside [of ?p1] clipPlane_keeps [OF p1, of X_AXIS r] p1 assms(2) by simp
  have p3: "\<forall>p \<in> set ?p3. planar p \<and> inside X_AXIS (Fin (- r)) (Fin 1) p \<and>
      inside X_AXIS (Fin r) (Fin (- 1)) p \<and> inside Y_AXIS (Fin (- r)) (Fin 1) p"
    using clipPlane_inside [of ?p2] clipPlane_keeps [of ?p2] p2 by blast
  have "\<forall>p \<in> set (clipRoad ps (Fin r)). in_square r p"
    using clipPlane_inside [of ?p3 _ Y_AXIS r "- 1"] p3 clipPlane_keeps [of ?p3 X_AXIS _ _ Y_AXIS r _ "- 1"]
      clipPlane_keeps [of ?p3 Y_AXIS "- r" 1 Y_AXIS r _ "- 1"] assms(2)
    unfolding in_square_iff clipRoad_planes by simp
  then show "list_all (in_square r) (clipRoad ps (Fin r))" by (simp add: list_all_iff)
  show "set (filter (in_square r) ps) \<subseteq> set (clipRoad ps (Fin r))"
    by (auto simp: in_square_iff clipRoad_planes intro!: clipPlane_member)
  show "clipRoad ps (Fin r) = ps" if "list_all (in_square r) ps"
    using that by (simp add: clipRoad_planes clipPlane_all_inside in_square_iff list_all_iff)
qed

theorem clipped_in_square_witness:
  "list_all (in_square 11) (clipRoad [\<lparr>v3_x_m = Fin (- 3), v3_y_m = 2, v3_z_m = 0\<rparr>,
     \<lparr>v3_x_m = 30, v3_y_m = 2, v3_z_m = 0\<rparr>, \<lparr>v3_x_m = 4, v3_y_m = 40, v3_z_m = 0\<rparr>] (Fin 11))"
  using clipped_in_square [of "[\<lparr>v3_x_m = Fin (- 3), v3_y_m = 2, v3_z_m = 0\<rparr>,
     \<lparr>v3_x_m = 30, v3_y_m = 2, v3_z_m = 0\<rparr>, \<lparr>v3_x_m = 4, v3_y_m = 40, v3_z_m = 0\<rparr>]" 11]
  by (simp add: planar_def)

text \<open>
  The vehicle frame: for finite positions and headings the three conversions (of map points,
  of spatial points and of plotted points) agree, they preserve the distance from the vehicle,
  and a point straight ahead of the vehicle lies on the forward axis at its distance.
\<close>

theorem vehicle_frame:
  assumes "sp_x_m p = Fin x" "sp_y_m p = Fin y" and "vp_x_m v = Fin vx" "vp_y_m v = Fin vy"
    and "vp_heading_deg v = Fin h"
  shows "\<exists>lx ly. localPoint \<lparr>pt_x_m = sp_x_m p, pt_y_m = sp_y_m p\<rparr> v z =
        \<lparr>v3_x_m = Fin lx, v3_y_m = Fin ly, v3_z_m = z\<rparr> \<and>
      worldPointToVehicle p v = \<lparr>v3_x_m = Fin lx, v3_y_m = Fin ly, v3_z_m = js_max 0 (sp_height_hint_m p)\<rparr> \<and>
      plot_distance_m (spatialPointToPlot p v) = Fin (sqrt ((x - vx)\<^sup>2 + (y - vy)\<^sup>2)) \<and>
      lx\<^sup>2 + ly\<^sup>2 = (x - vx)\<^sup>2 + (y - vy)\<^sup>2 \<and>
      (x = vx + d * sin (h * pi / 180) \<and> y = vy + d * cos (h * pi / 180) \<longrightarrow> lx = 0 \<and> ly = d)"
proof -
  let ?a = "h * pi / 180"
  let ?lx = "(x - vx) * cos ?a - (y - vy) * sin ?a"
  let ?ly = "(x - vx) * sin ?a + (y - vy) * cos ?a"
  have dist: "?lx\<^sup>2 + ?ly\<^sup>2 = (x - vx)\<^sup>2 + (y - vy)\<^sup>2" by (rule rotation_norm)
  have ahead: "?lx = 0 \<and> ?ly = d" if "x = vx + d * sin ?a \<and> y = vy + d * cos ?a"
  proof -
    have "d * sin ?a * sin ?a + d * cos ?a * cos ?a = d * ((sin ?a)\<^sup>2 + (cos ?a)\<^sup>2)"
      by algebra
    then show ?thesis using that by simp
  qed
  show ?thesis
  proof (intro exI conjI)
    show "localPoint \<lparr>pt_x_m = sp_x_m p, pt_y_m = sp_y_m p\<rparr> v z =
        \<lparr>v3_x_m = Fin ?lx, v3_y_m = Fin ?ly, v3_z_m = z\<rparr>"
      using assms by (simp add: localPoint_def Let_def)
    show "worldPointToVehicle p v =
        \<lparr>v3_x_m = Fin ?lx, v3_y_m = Fin ?ly, v3_z_m = js_max 0 (sp_height_hint_m p)\<rparr>"
      using assms by (simp add: worldPointToVehicle_def Let_def)
    show "plot_distance_m (spatialPointToPlot p v) = Fin (sqrt ((x - vx)\<^sup>2 + (y - vy)\<^sup>2))"
      using assms dist by (simp add: spatialPointToPlot_def Let_def)
    show "?lx\<^sup>2 + ?ly\<^sup>2 = (x - vx)\<^sup>2 + (y - vy)\<^sup>2" by (rule dist)
    show "x = vx + d * sin ?a \<and> y = vy + d * cos ?a \<longrightarrow> ?lx = 0 \<and> ?ly = d" using ahead by blast
  qed
qed

theorem vehicle_frame_witness:
  "plot_distance_m (spatialPointToPlot
     \<lparr>sp_x_m = 3, sp_y_m = 4, sp_height_hint_m = 0, sp_source_sensor_id = ''front_fixed'', sp_quality = 1,
      sp_timestamp_ms = 1\<rparr>
     \<lparr>vp_haul = None, vp_timestamp_ms = 1, vp_vehicle_id = ''DUMPER_01'', vp_x_m = 0, vp_y_m = 0,
      vp_heading_deg = 30, vp_speed_mps = 0, vp_position_confidence = 1, vp_mode = LIVE\<rparr>) = Fin 5"
  using vehicle_frame [of "\<lparr>sp_x_m = 3, sp_y_m = 4, sp_height_hint_m = 0,
      sp_source_sensor_id = ''front_fixed'', sp_quality = 1, sp_timestamp_ms = 1\<rparr>" 3 4
      "\<lparr>vp_haul = None, vp_timestamp_ms = 1, vp_vehicle_id = ''DUMPER_01'', vp_x_m = 0, vp_y_m = 0,
       vp_heading_deg = 30, vp_speed_mps = 0, vp_position_confidence = 1, vp_mode = LIVE\<rparr>" 0 0 30 0 0]
  by auto

end
