(* ===== verification/SpatialProjection.thy ===== *)
theory SpatialProjection
  imports RouteGeometry SensorSettings
begin

text \<open>
  Projection of the vehicle's surroundings to the screen:
  \<^verbatim>\<open>frontend/src/spatial/spatialProjection.ts\<close>. An optional field is an option; the default
  argument objects are the constants \<open>noImu\<close>, \<open>originPoint\<close> and \<open>noCamera\<close>.
\<close>

record ScreenPoint =
  scr_x :: jsnum
  scr_y :: jsnum
  scr_scale :: jsnum

record ImuOrientation =
  imu_pitch_deg :: jsnum
  imu_roll_deg :: jsnum
  imu_yaw_deg :: jsnum
  imu_suspension_z_m :: "jsnum option"

datatype Projection = PERSPECTIVE | PLAN_PROJECTION

record CameraViewConfig =
  cam_projection :: "Projection option"
  cam_orbitYawDeg :: "jsnum option"
  cam_cameraPitchDeg :: "jsnum option"
  cam_zoomScale :: "jsnum option"
  cam_panOffsetX :: "jsnum option"
  cam_panOffsetY :: "jsnum option"

definition noCamera :: CameraViewConfig where
  "noCamera = \<lparr>cam_projection = None, cam_orbitYawDeg = None, cam_cameraPitchDeg = None,
     cam_zoomScale = None, cam_panOffsetX = None, cam_panOffsetY = None\<rparr>"

definition noImu :: ImuOrientation where
  "noImu = \<lparr>imu_pitch_deg = 0, imu_roll_deg = 0, imu_yaw_deg = 0, imu_suspension_z_m = None\<rparr>"

definition originPoint :: VehiclePoint3D where
  "originPoint = \<lparr>v3_x_m = 0, v3_y_m = 0, v3_z_m = 0\<rparr>"

definition DEFAULT_CAMERA_PITCH_DEG :: jsnum where
  "DEFAULT_CAMERA_PITCH_DEG = 69"

definition CAMERA_PITCH_MIN_DEG :: jsnum where
  "CAMERA_PITCH_MIN_DEG = - 85"

definition CAMERA_PITCH_MAX_DEG :: jsnum where
  "CAMERA_PITCH_MAX_DEG = 85"

lemmas camera_constants [simp] = DEFAULT_CAMERA_PITCH_DEG_def CAMERA_PITCH_MIN_DEG_def
  CAMERA_PITCH_MAX_DEG_def

definition finiteNumber :: "jsnum option \<Rightarrow> jsnum \<Rightarrow> jsnum" where
  "finiteNumber val fallback =
     (case val of Some v \<Rightarrow> if isFinite v then v else fallback | None \<Rightarrow> fallback)"

definition finiteVehiclePoint :: "VehiclePoint3D \<Rightarrow> VehiclePoint3D" where
  "finiteVehiclePoint point =
     \<lparr>v3_x_m = finiteNumber (Some (v3_x_m point)) 0, v3_y_m = finiteNumber (Some (v3_y_m point)) 0,
      v3_z_m = finiteNumber (Some (v3_z_m point)) 0\<rparr>"

section \<open>The camera\<close>

definition cameraOrbitAfterDrag :: "jsnum \<Rightarrow> jsnum \<Rightarrow> jsnum \<Rightarrow> jsnum" where
  "cameraOrbitAfterDrag currentOrbitDeg horizontalDeltaPx degreesPerPixel =
     (let nextOrbitDeg = finiteNumber (Some currentOrbitDeg) 0 +
            finiteNumber (Some horizontalDeltaPx) 0 * finiteNumber (Some degreesPerPixel) (Fin 0.3)
      in js_rem (js_rem nextOrbitDeg 360 + 360) 360)"

definition clampPitch :: "jsnum \<Rightarrow> jsnum" where
  "clampPitch pitchDeg = js_max CAMERA_PITCH_MIN_DEG (js_min CAMERA_PITCH_MAX_DEG pitchDeg)"

definition cameraPitchAfterDrag :: "jsnum \<Rightarrow> jsnum \<Rightarrow> jsnum \<Rightarrow> jsnum" where
  "cameraPitchAfterDrag currentPitchDeg verticalDeltaPx degreesPerPixel =
     (let nextPitchDeg = finiteNumber (Some currentPitchDeg) DEFAULT_CAMERA_PITCH_DEG -
            finiteNumber (Some verticalDeltaPx) 0 * finiteNumber (Some degreesPerPixel) (Fin 0.25)
      in clampPitch nextPitchDeg)"

section \<open>Attitude\<close>

definition applyImuTransform ::
    "VehiclePoint3D \<Rightarrow> ImuOrientation \<Rightarrow> VehiclePoint3D \<Rightarrow> VehiclePoint3D" where
  "applyImuTransform point imu origin =
     (let safePoint = finiteVehiclePoint point;
          safeOrigin = finiteVehiclePoint origin;
          pRad = finiteNumber (Some (imu_pitch_deg imu)) 0 * js_pi / 180;
          rRad = finiteNumber (Some (imu_roll_deg imu)) 0 * js_pi / 180;
          yRad = finiteNumber (Some (imu_yaw_deg imu)) 0 * js_pi / 180;
          dx = v3_x_m safePoint - v3_x_m safeOrigin;
          dy = v3_y_m safePoint - v3_y_m safeOrigin;
          dz = v3_z_m safePoint - v3_z_m safeOrigin;
          x1 = dx * js_cos yRad + dy * js_sin yRad;
          y1 = (- dx) * js_sin yRad + dy * js_cos yRad;
          z1 = dz;
          x2 = x1;
          y2 = y1 * js_cos pRad - z1 * js_sin pRad;
          z2 = y1 * js_sin pRad + z1 * js_cos pRad;
          x3 = x2 * js_cos rRad + z2 * js_sin rRad;
          y3 = y2;
          z3 = (- x2) * js_sin rRad + z2 * js_cos rRad
      in \<lparr>v3_x_m = v3_x_m safeOrigin + x3, v3_y_m = v3_y_m safeOrigin + y3,
          v3_z_m = js_max 0 (v3_z_m safeOrigin + z3 + finiteNumber (imu_suspension_z_m imu) 0)\<rparr>)"

section \<open>Projection\<close>

definition cameraDepthForVehiclePoint :: "VehiclePoint3D \<Rightarrow> CameraViewConfig \<Rightarrow> jsnum" where
  "cameraDepthForVehiclePoint point camera =
     (let safePoint = finiteVehiclePoint point;
          yawDeg = finiteNumber (cam_orbitYawDeg camera) 0;
          pitchDeg = clampPitch (finiteNumber (cam_cameraPitchDeg camera) DEFAULT_CAMERA_PITCH_DEG);
          yawRad = yawDeg * js_pi / 180;
          pitchRad = pitchDeg * js_pi / 180;
          rotatedY = v3_x_m safePoint * js_sin yawRad + v3_y_m safePoint * js_cos yawRad
      in rotatedY * js_cos pitchRad - v3_z_m safePoint * js_sin pitchRad)"

definition clampZoom :: "CameraViewConfig \<Rightarrow> jsnum" where
  "clampZoom camera = js_max (Fin 0.2) (js_min 4 (finiteNumber (cam_zoomScale camera) 1))"

definition projectVehiclePointWithCamera :: "VehiclePoint3D \<Rightarrow> CameraViewConfig \<Rightarrow> ScreenPoint" where
  "projectVehiclePointWithCamera point camera =
     (let safePoint = finiteVehiclePoint point
      in if cam_projection camera = Some PLAN_PROJECTION then
           (let zoom = clampZoom camera
            in \<lparr>scr_x = 500 + finiteNumber (cam_panOffsetX camera) 0 + v3_x_m safePoint * 96 * zoom,
                scr_y = 400 + finiteNumber (cam_panOffsetY camera) 0 - v3_y_m safePoint * 96 * zoom,
                scr_scale = zoom\<rparr>)
         else
           (let yawRad = finiteNumber (cam_orbitYawDeg camera) 0 * js_pi / 180;
                pitchDeg = clampPitch (finiteNumber (cam_cameraPitchDeg camera) DEFAULT_CAMERA_PITCH_DEG);
                pitchRad = pitchDeg * js_pi / 180;
                steepViewProgress = js_max 0 ((\<bar>pitchDeg\<bar> - DEFAULT_CAMERA_PITCH_DEG) /
                  (CAMERA_PITCH_MAX_DEG - DEFAULT_CAMERA_PITCH_DEG));
                zoom = clampZoom camera * (1 - steepViewProgress * Fin 0.38);
                panX = finiteNumber (cam_panOffsetX camera) 0;
                panY = finiteNumber (cam_panOffsetY camera) 0;
                rotatedX = v3_x_m safePoint * js_cos yawRad - v3_y_m safePoint * js_sin yawRad;
                rotatedY = v3_x_m safePoint * js_sin yawRad + v3_y_m safePoint * js_cos yawRad;
                cameraDepth = cameraDepthForVehiclePoint safePoint camera;
                forward = js_max (- 4) (js_min 6 cameraDepth);
                scale = 1 / (1 + js_max 0 (forward + Fin 0.5) * Fin 0.055) * zoom
            in \<lparr>scr_x = 500 + panX + rotatedX * 96 * scale,
                scr_y = 400 + panY - rotatedY * 96 * js_sin pitchRad * zoom -
                  v3_z_m safePoint * 88 * js_cos pitchRad * scale,
                scr_scale = scale\<rparr>))"

definition projectVehiclePoint :: "VehiclePoint3D \<Rightarrow> ScreenPoint" where
  "projectVehiclePoint point = projectVehiclePointWithCamera point noCamera"

section \<open>Ranges\<close>

text \<open>The \<^verbatim>\<open>range\<close> of \<^verbatim>\<open>rangeEndpoint\<close>: the measured one, or a stub without a valid reading.\<close>

definition readingRange :: "jsnum \<Rightarrow> RangeReading option \<Rightarrow> jsnum" where
  "readingRange visualRange reading =
     (let measuredRange = finiteNumber (map_option rr_range_m reading) (Fin 0.55)
      in case reading of
           Some r \<Rightarrow> if rr_is_valid r then js_max 0 (js_min measuredRange visualRange)
             else js_min (Fin 0.55) visualRange
         | None \<Rightarrow> js_min (Fin 0.55) visualRange)"

definition rangeEndpoint :: "SensorDisplaySetting \<Rightarrow> RangeReading option \<Rightarrow> VehiclePoint3D" where
  "rangeEndpoint setting reading =
     (let pose = sd_display_pose setting;
          visualRange = js_max 0 (finiteNumber (Some (sd_visual_range_m setting)) 0);
          range = readingRange visualRange reading;
          yaw = finiteNumber (Some (pose_yaw_deg pose)) 0 +
            (if sd_scanner setting then finiteNumber (map_option rr_angle_deg reading) 0 else 0);
          yawRad = yaw * js_pi / 180;
          pitchRad = finiteNumber (Some (pose_pitch_deg pose)) 0 * js_pi / 180;
          planarRange = range * js_cos pitchRad
      in \<lparr>v3_x_m = finiteNumber (Some (pose_x_m pose)) 0 + js_sin yawRad * planarRange,
          v3_y_m = finiteNumber (Some (pose_y_m pose)) 0 + js_cos yawRad * planarRange,
          v3_z_m = js_max 0 (finiteNumber (Some (pose_z_m pose)) 0 + js_sin pitchRad * range)\<rparr>)"

definition groundRangeEndpoint :: "SensorDisplaySetting \<Rightarrow> RangeReading option \<Rightarrow> VehiclePoint3D" where
  "groundRangeEndpoint setting reading =
     (rangeEndpoint
        (setting\<lparr>sd_display_pose := (sd_display_pose setting)\<lparr>pose_pitch_deg := 0, pose_z_m := 0\<rparr>\<rparr>)
        reading)\<lparr>v3_z_m := 0\<rparr>"

definition hasMeasuredHit :: "RangeReading option \<Rightarrow> bool" where
  "hasMeasuredHit reading =
     (case reading of
        Some r \<Rightarrow> rr_is_valid r \<and> isFinite (rr_range_m r) \<and> 0 < rr_range_m r \<and>
          Fin 0.5 \<le> rr_quality r \<and> rr_range_m r < rr_max_range_m r - Fin 0.01
      | None \<Rightarrow> False)"

definition pointDistanceFromSensor :: "VehiclePoint3D \<Rightarrow> SensorDisplaySetting \<Rightarrow> jsnum" where
  "pointDistanceFromSensor point setting =
     (let safePoint = finiteVehiclePoint point; pose = sd_display_pose setting
      in js_hypot (v3_x_m safePoint - finiteNumber (Some (pose_x_m pose)) 0)
           (v3_y_m safePoint - finiteNumber (Some (pose_y_m pose)) 0))"

text \<open>\<^verbatim>\<open>Number(x.toFixed(2))\<close> of a positive number.\<close>

definition hundredths :: "jsnum \<Rightarrow> jsnum" where
  "hundredths = num_map (\<lambda>r. of_int \<lfloor>r * 100 + 1/2\<rfloor> / 100)"

definition obstacleVisualRadius :: "jsnum \<Rightarrow> jsnum \<Rightarrow> jsnum" where
  "obstacleVisualRadius distanceM scale =
     (let clampedDist = js_max (Fin 0.18) (finiteNumber (Some distanceM) 4);
          proximityFactor = Fin 3.6 / (clampedDist + Fin 0.42);
          radius = js_min 26
            (js_max (Fin 3.2) (Fin 4.4 * proximityFactor * js_max 0 (finiteNumber (Some scale) 1)))
      in hundredths radius)"

datatype ThreatLevel = ALERT | CAUTION | CLEAR | THREAT_UNKNOWN

definition getSensorThreatLevel :: "RangeReading option \<Rightarrow> SensorDisplaySetting \<Rightarrow> ThreatLevel" where
  "getSensorThreatLevel reading setting =
     (case reading of
        None \<Rightarrow> THREAT_UNKNOWN
      | Some r \<Rightarrow>
          if \<not> rr_is_valid r \<or> \<not> isFinite (rr_range_m r) then THREAT_UNKNOWN
          else
            let alertDistance = js_max 0 (finiteNumber (Some (sd_alert_distance_m setting)) 0)
            in if rr_range_m r \<le> alertDistance then ALERT
               else if rr_range_m r \<le> alertDistance * Fin 1.5 then CAUTION
               else CLEAR)"

text \<open>The path of a sensor's field of view, with the points of its arc.\<close>

definition fovPoint :: "VehiclePoint3D \<Rightarrow> jsnum \<Rightarrow> jsnum \<Rightarrow> jsnum \<Rightarrow> CameraViewConfig \<Rightarrow> nat \<Rightarrow> ScreenPoint" where
  "fovPoint origin startAngle step rangeM camera i =
     (let angle = (startAngle + Fin (of_nat i) * step) * js_pi / 180
      in projectVehiclePointWithCamera
           \<lparr>v3_x_m = v3_x_m origin + js_sin angle * rangeM,
            v3_y_m = v3_y_m origin + js_cos angle * rangeM, v3_z_m = 0\<rparr> camera)"

definition generateFovSectorPath ::
    "VehiclePoint3D \<Rightarrow> jsnum \<Rightarrow> jsnum \<Rightarrow> jsnum \<Rightarrow> nat \<Rightarrow> CameraViewConfig \<Rightarrow> string" where
  "generateFovSectorPath origin yawDeg fovDeg rangeM segments camera =
     (let halfFov = fovDeg / 2;
          startAngle = yawDeg - halfFov;
          step = fovDeg / Fin (of_nat segments);
          originScreen = projectVehiclePointWithCamera
            \<lparr>v3_x_m = v3_x_m origin, v3_y_m = v3_y_m origin, v3_z_m = 0\<rparr> camera;
          arc = map (fovPoint origin startAngle step rangeM camera) [0..<segments + 1];
          coords = (\<lambda>pt. toFixed (scr_x pt) 1 @ '' '' @ toFixed (scr_y pt) 1)
      in foldl (\<lambda>acc pt. acc @ '' L '' @ coords pt) (''M '' @ coords originScreen) arc @ '' Z'')"

section \<open>Lemmas\<close>

lemma finiteNumber_Fin: "\<exists>r. finiteNumber v (Fin d) = Fin r"
  by (cases v) (auto simp: finiteNumber_def isFinite_iff)

lemma finiteNumber_id [simp]: "finiteNumber (Some (Fin r)) d = Fin r"
  by (simp add: finiteNumber_def)

lemma finiteVehiclePoint_Fin:
  "\<exists>x y z. finiteVehiclePoint p = \<lparr>v3_x_m = Fin x, v3_y_m = Fin y, v3_z_m = Fin z\<rparr>"
  using finiteNumber_Fin [of "Some (v3_x_m p)" 0] finiteNumber_Fin [of "Some (v3_y_m p)" 0]
    finiteNumber_Fin [of "Some (v3_z_m p)" 0]
  by (auto simp: finiteVehiclePoint_def)

lemma finiteVehiclePoint_idem [simp]: "finiteVehiclePoint (finiteVehiclePoint p) = finiteVehiclePoint p"
  by (auto simp: finiteVehiclePoint_def finiteNumber_def)

lemma clampPitch_Fin: "clampPitch (Fin p) = Fin (max (- 85) (min 85 p))"
  by (simp add: clampPitch_def)

text \<open>The remainder of a finite number lies between the negated modulus and the modulus.\<close>

lemma js_rem_360:
  "\<exists>r k. js_rem (Fin a) 360 = Fin r \<and> a = r + 360 * of_int k \<and> - 360 < r \<and> r < 360 \<and>
     (0 \<le> a \<longrightarrow> 0 \<le> r)"
proof -
  define k :: int where "k = (if 0 \<le> a then \<lfloor>a / 360\<rfloor> else \<lceil>a / 360\<rceil>)"
  then have k: "trunc_real (a / 360) = of_int k" by (simp add: trunc_real_def)
  have b: "0 \<le> a \<Longrightarrow> of_int k \<le> a / 360 \<and> a / 360 < of_int k + 1"
    "a < 0 \<Longrightarrow> a / 360 \<le> of_int k \<and> of_int k - 1 < a / 360"
    using k by (auto simp: trunc_real_def split: if_splits) linarith+
  have "- 360 < a - 360 * of_int k" "a - 360 * of_int k < 360" "0 \<le> a \<Longrightarrow> 0 \<le> a - 360 * of_int k"
    using b by (cases "0 \<le> a"; simp add: field_simps)+
  then show ?thesis using k by (intro exI [of _ "a - 360 * of_int k"] exI [of _ k]) simp
qed


lemma clampPitch_range: "\<exists>p. clampPitch (Fin a) = Fin p \<and> \<bar>p\<bar> \<le> 85"
  by (auto simp: clampPitch_Fin max_def min_def)

lemma clampZoom_range: "\<exists>z. clampZoom camera = Fin z \<and> 0.2 \<le> z \<and> z \<le> 4"
  using finiteNumber_Fin [of "cam_zoomScale camera" 1]
  by (auto simp: clampZoom_def max_def min_def)

text \<open>The scale of the perspective view, as a function of the depth.\<close>

definition depthScale :: "real \<Rightarrow> real" where
  "depthScale depth = 1 / (1 + max 0 (max (- 4) (min 6 depth) + 0.5) * 0.055)"

lemma depthScale_range: "0 < depthScale d" "depthScale d \<le> 1"
proof -
  define m where "m = max 0 (max (- 4) (min 6 d) + 0.5) * (0.055 :: real)"
  have "0 \<le> m" by (simp add: m_def)
  then show "0 < depthScale d" "depthScale d \<le> 1"
    unfolding depthScale_def m_def [symmetric] by simp_all
qed

lemma depthScale_antitone: "d \<le> e \<Longrightarrow> depthScale e \<le> depthScale d"
  unfolding depthScale_def by (intro divide_left_mono) (auto simp: max_def min_def add_pos_nonneg)

lemma cameraDepth_Fin: "\<exists>d. cameraDepthForVehiclePoint p camera = Fin d"
proof -
  obtain x y z where "finiteVehiclePoint p = \<lparr>v3_x_m = Fin x, v3_y_m = Fin y, v3_z_m = Fin z\<rparr>"
    using finiteVehiclePoint_Fin by blast
  moreover obtain w where "finiteNumber (cam_orbitYawDeg camera) (Fin 0) = Fin w"
    using finiteNumber_Fin by blast
  moreover obtain q where "finiteNumber (cam_cameraPitchDeg camera) (Fin 69) = Fin q"
    using finiteNumber_Fin by blast
  ultimately show ?thesis by (simp add: cameraDepthForVehiclePoint_def clampPitch_Fin Let_def)
qed

lemma cameraDepth_safe:
  "cameraDepthForVehiclePoint (finiteVehiclePoint p) camera = cameraDepthForVehiclePoint p camera"
  by (simp add: cameraDepthForVehiclePoint_def)

text \<open>How far the pitch has gone towards a view from above, and what it leaves of the zoom.\<close>

lemma steep_range:
  assumes "\<bar>p\<bar> \<le> 85"
  shows "0.62 \<le> 1 - max 0 ((\<bar>p\<bar> - 69) / 16) * (0.38 :: real)" "1 - max 0 ((\<bar>p\<bar> - 69) / 16) * (0.38 :: real) \<le> 1"
  using assms by (auto simp: max_def field_simps)

lemma projection_scale:
  "\<exists>z. 0 < z \<and> z \<le> 4 \<and> (\<forall>p. \<exists>x y d. cameraDepthForVehiclePoint p camera = Fin d \<and>
     projectVehiclePointWithCamera p camera = \<lparr>scr_x = Fin x, scr_y = Fin y,
       scr_scale = Fin ((if cam_projection camera = Some PLAN_PROJECTION then 1 else depthScale d) * z)\<rparr>)"
proof -
  obtain zoom where zoom: "clampZoom camera = Fin zoom" "0.2 \<le> zoom" "zoom \<le> 4"
    using clampZoom_range by blast
  obtain px py w q where fin: "finiteNumber (cam_panOffsetX camera) (Fin 0) = Fin px"
    "finiteNumber (cam_panOffsetY camera) (Fin 0) = Fin py"
    "finiteNumber (cam_orbitYawDeg camera) (Fin 0) = Fin w"
    "finiteNumber (cam_cameraPitchDeg camera) (Fin 69) = Fin q"
    using finiteNumber_Fin by meson
  define pitch where "pitch = max (- 85) (min 85 q)"
  define steep where "steep = 1 - max 0 ((\<bar>pitch\<bar> - 69) / 16) * (0.38 :: real)"
  define z where "z = (if cam_projection camera = Some PLAN_PROJECTION then zoom else zoom * steep)"
  have "\<bar>pitch\<bar> \<le> 85" by (auto simp: pitch_def max_def min_def)
  from steep_range [OF this] have steep: "0.62 \<le> steep" "steep \<le> 1" by (simp_all add: steep_def)
  with zoom have "0 < zoom * steep" "zoom * steep \<le> 4 * 1"
    by (simp, intro mult_mono) simp_all
  with zoom have z: "0 < z" "z \<le> 4" by (simp_all add: z_def)
  have "\<exists>x y d. cameraDepthForVehiclePoint p camera = Fin d \<and>
     projectVehiclePointWithCamera p camera = \<lparr>scr_x = Fin x, scr_y = Fin y,
       scr_scale = Fin ((if cam_projection camera = Some PLAN_PROJECTION then 1 else depthScale d) * z)\<rparr>" for p
  proof -
    obtain x y h where p: "finiteVehiclePoint p = \<lparr>v3_x_m = Fin x, v3_y_m = Fin y, v3_z_m = Fin h\<rparr>"
      using finiteVehiclePoint_Fin by blast
    obtain d where d: "cameraDepthForVehiclePoint p camera = Fin d" using cameraDepth_Fin by blast
    have d': "cameraDepthForVehiclePoint \<lparr>v3_x_m = Fin x, v3_y_m = Fin y, v3_z_m = Fin h\<rparr> camera = Fin d"
      using cameraDepth_safe [of p camera] p d by simp
    have "1 + max 0 (max (- 4) (min 6 d) + 0.5) * (0.055 :: real) \<noteq> 0"
      using depthScale_range(1) [of d] unfolding depthScale_def by (metis div_by_0 less_irrefl)
    then show ?thesis
      using p d d' fin zoom(1)
      by (simp add: projectVehiclePointWithCamera_def Let_def z_def clampPitch_Fin depthScale_def steep_def
          flip: pitch_def)
  qed
  with z show ?thesis by blast
qed

section \<open>Properties\<close>

text \<open>
  The camera stays in range: dragging gives an orbit of at least 0 and less than 360 degrees,
  equal to the requested one up to full turns, and a pitch of at most 85 degrees either way; a
  NaN or an infinity in the arguments does not get through.
\<close>

theorem camera_in_range:
  "(\<exists>orbit. cameraOrbitAfterDrag c d s = Fin orbit \<and> 0 \<le> orbit \<and> orbit < 360) \<and>
   (\<exists>pitch. cameraPitchAfterDrag c d s = Fin pitch \<and> \<bar>pitch\<bar> \<le> 85) \<and>
   (\<exists>turns :: int. cameraOrbitAfterDrag (Fin c') (Fin d') (Fin s') = Fin (c' + d' * s' + 360 * of_int turns))"
proof (intro conjI)
  have orbit: "\<exists>o' k. js_rem (js_rem (Fin a) 360 + 360) 360 = Fin o' \<and> 0 \<le> o' \<and> o' < 360 \<and>
      o' = a + 360 * of_int k" for a
  proof -
    obtain r k where r: "js_rem (Fin a) 360 = Fin r" "a = r + 360 * of_int k" "- 360 < r"
      using js_rem_360 [of a] by blast
    obtain r' k' where r': "js_rem (Fin (r + 360)) 360 = Fin r'" "r + 360 = r' + 360 * of_int k'"
      "r' < 360" "0 \<le> r + 360 \<longrightarrow> 0 \<le> r'"
      using js_rem_360 [of "r + 360"] by blast
    have "r' = a + 360 * of_int (1 - k - k')" using r(2) r'(2) by (simp add: algebra_simps)
    moreover have "0 \<le> r'" using r(3) r'(4) by simp
    ultimately show ?thesis using r(1) r'(1,3) by (metis num_literals(1) plus_jsnum.simps(1))
  qed
  obtain x y z where xyz: "finiteNumber (Some c) (Fin 0) = Fin x" "finiteNumber (Some d) (Fin 0) = Fin y"
    "finiteNumber (Some s) (Fin 0.3) = Fin z"
    using finiteNumber_Fin by meson
  then show "\<exists>orbit. cameraOrbitAfterDrag c d s = Fin orbit \<and> 0 \<le> orbit \<and> orbit < 360"
    using orbit [of "x + y * z"] by (auto simp: cameraOrbitAfterDrag_def Let_def)
  obtain u v where "finiteNumber (Some c) (Fin 69) = Fin u" "finiteNumber (Some s) (Fin 0.25) = Fin v"
    using finiteNumber_Fin by meson
  then show "\<exists>pitch. cameraPitchAfterDrag c d s = Fin pitch \<and> \<bar>pitch\<bar> \<le> 85"
    using xyz(2) clampPitch_range by (simp add: cameraPitchAfterDrag_def)
  show "\<exists>turns :: int. cameraOrbitAfterDrag (Fin c') (Fin d') (Fin s') = Fin (c' + d' * s' + 360 * of_int turns)"
    using orbit [of "c' + d' * s'"] by (auto simp: cameraOrbitAfterDrag_def Let_def)
qed

text \<open>
  Everything can be drawn: whatever the point and the camera settings, the projection is a
  finite screen point with a scale above 0 and at most 4, and a point that is deeper in the view
  is never drawn at a larger scale.
\<close>

theorem projection_drawable:
  "(\<exists>x y s. projectVehiclePointWithCamera p camera = \<lparr>scr_x = Fin x, scr_y = Fin y, scr_scale = Fin s\<rparr> \<and>
      0 < s \<and> s \<le> 4) \<and>
   (cameraDepthForVehiclePoint p camera \<le> cameraDepthForVehiclePoint q camera \<longrightarrow>
      scr_scale (projectVehiclePointWithCamera q camera) \<le> scr_scale (projectVehiclePointWithCamera p camera))"
proof -
  obtain z where z: "0 < z" "z \<le> 4" and proj: "\<And>p. \<exists>x y d. cameraDepthForVehiclePoint p camera = Fin d \<and>
     projectVehiclePointWithCamera p camera = \<lparr>scr_x = Fin x, scr_y = Fin y,
       scr_scale = Fin ((if cam_projection camera = Some PLAN_PROJECTION then 1 else depthScale d) * z)\<rparr>"
    using projection_scale by blast
  obtain x y d where p: "cameraDepthForVehiclePoint p camera = Fin d"
    "projectVehiclePointWithCamera p camera = \<lparr>scr_x = Fin x, scr_y = Fin y,
       scr_scale = Fin ((if cam_projection camera = Some PLAN_PROJECTION then 1 else depthScale d) * z)\<rparr>"
    using proj by blast
  obtain x' y' e where q: "cameraDepthForVehiclePoint q camera = Fin e"
    "projectVehiclePointWithCamera q camera = \<lparr>scr_x = Fin x', scr_y = Fin y',
       scr_scale = Fin ((if cam_projection camera = Some PLAN_PROJECTION then 1 else depthScale e) * z)\<rparr>"
    using proj by blast
  have "0 < depthScale d * z" "depthScale d * z \<le> 1 * 4"
    using z depthScale_range [of d] by (simp, intro mult_mono) simp_all
  moreover have "depthScale e * z \<le> depthScale d * z" if "d \<le> e"
    using z depthScale_antitone [OF that] by simp
  ultimately show ?thesis using p q z by simp
qed

definition sampleCamera :: CameraViewConfig where
  "sampleCamera = noCamera\<lparr>cam_zoomScale := Some 2\<rparr>"

theorem projection_drawable_witness:
  "scr_scale (projectVehiclePointWithCamera \<lparr>v3_x_m = 0, v3_y_m = 5, v3_z_m = 0\<rparr> sampleCamera) \<le>
   scr_scale (projectVehiclePointWithCamera originPoint sampleCamera)"
proof -
  have "(0 :: real) \<le> 5 * cos (69 * pi / 180)"
    by (intro mult_nonneg_nonneg cos_ge_zero) (simp_all add: divide_simps)
  then have "cameraDepthForVehiclePoint originPoint sampleCamera \<le>
      cameraDepthForVehiclePoint \<lparr>v3_x_m = 0, v3_y_m = 5, v3_z_m = 0\<rparr> sampleCamera"
    by (simp add: cameraDepthForVehiclePoint_def originPoint_def sampleCamera_def noCamera_def
        finiteVehiclePoint_def finiteNumber_def clampPitch_def Let_def)
  with projection_drawable [of originPoint sampleCamera] show ?thesis by blast
qed


section \<open>Sensor ranges\<close>

lemma polar_norm: "sqrt ((sin w * r)\<^sup>2 + (cos w * r)\<^sup>2) = \<bar>r :: real\<bar>"
proof -
  have "(sin w * r)\<^sup>2 + (cos w * r)\<^sup>2 = r\<^sup>2 * ((sin w)\<^sup>2 + (cos w)\<^sup>2)" by algebra
  then show ?thesis by simp
qed

text \<open>The range at which a reading is drawn.\<close>

definition drawn_range :: "real \<Rightarrow> RangeReading option \<Rightarrow> real" where
  "drawn_range visual reading =
     (case reading of
        Some r \<Rightarrow> if rr_is_valid r
          then max 0 (min (case rr_range_m r of Fin a \<Rightarrow> a | _ \<Rightarrow> 0.55) visual) else min 0.55 visual
      | None \<Rightarrow> min 0.55 visual)"

lemma drawn_range_bounds: "0 \<le> visual \<Longrightarrow> 0 \<le> drawn_range visual reading \<and> drawn_range visual reading \<le> visual"
  by (auto simp: drawn_range_def split: option.splits jsnum.splits)

lemma rangeEndpoint_distance:
  assumes "finiteNumber (Some (sd_visual_range_m setting)) 0 = Fin v"
    and "finiteNumber (Some (pose_pitch_deg (sd_display_pose setting))) 0 = Fin pitch"
  shows "pointDistanceFromSensor (rangeEndpoint setting reading) setting =
    Fin \<bar>drawn_range (max 0 v) reading * cos (pitch * pi / 180)\<bar>"
proof -
  let ?pose = "sd_display_pose setting"
  obtain x y z w u where fin: "finiteNumber (Some (pose_x_m ?pose)) (Fin 0) = Fin x"
    "finiteNumber (Some (pose_y_m ?pose)) (Fin 0) = Fin y"
    "finiteNumber (Some (pose_z_m ?pose)) (Fin 0) = Fin z"
    "finiteNumber (Some (pose_yaw_deg ?pose)) (Fin 0) = Fin w"
    "finiteNumber (map_option rr_angle_deg reading) (Fin 0) = Fin u"
    using finiteNumber_Fin by meson
  have range: "readingRange (Fin (max 0 v)) reading = Fin (drawn_range (max 0 v) reading)"
    by (auto simp: readingRange_def drawn_range_def finiteNumber_def split: option.splits jsnum.splits)
  let ?w = "(if sd_scanner setting then w + u else w) * pi / 180"
  let ?r = "drawn_range (max 0 v) reading * cos (pitch * pi / 180)"
  have "v3_x_m (rangeEndpoint setting reading) = Fin (x + sin ?w * ?r)"
    "v3_y_m (rangeEndpoint setting reading) = Fin (y + cos ?w * ?r)"
    using fin range assms by (simp_all add: rangeEndpoint_def Let_def)
  then show ?thesis
    using fin polar_norm [of ?w ?r]
    by (simp add: pointDistanceFromSensor_def finiteVehiclePoint_def Let_def)
qed

text \<open>
  Where a range is drawn: the ground endpoint of a valid finite reading lies at exactly the
  measured distance from the sensor's mount, cut at the visual range of the sensor; without one
  it lies within the visual range.
\<close>

theorem endpoint_at_range:
  assumes "sd_visual_range_m setting = Fin v" "0 \<le> v"
  shows "(\<exists>d. pointDistanceFromSensor (groundRangeEndpoint setting reading) setting = Fin d \<and> d \<le> v) \<and>
    (case reading of
       Some r \<Rightarrow> rr_is_valid r \<and> rr_range_m r = Fin a \<and> 0 \<le> a \<longrightarrow>
         pointDistanceFromSensor (groundRangeEndpoint setting reading) setting = Fin (min a v)
     | None \<Rightarrow> True)"
proof -
  let ?flat = "setting\<lparr>sd_display_pose := (sd_display_pose setting)\<lparr>pose_pitch_deg := 0, pose_z_m := 0\<rparr>\<rparr>"
  have "pointDistanceFromSensor (groundRangeEndpoint setting reading) setting =
      pointDistanceFromSensor (rangeEndpoint ?flat reading) ?flat"
    by (simp add: pointDistanceFromSensor_def groundRangeEndpoint_def finiteVehiclePoint_def Let_def)
  also have "\<dots> = Fin (drawn_range v reading)"
    using rangeEndpoint_distance [of ?flat v 0 reading] drawn_range_bounds [OF assms(2)] assms
    by simp
  finally show ?thesis
    using drawn_range_bounds [OF assms(2), of reading] assms(2)
    by (auto simp: drawn_range_def split: option.splits)
qed

definition sampleReading :: "real \<Rightarrow> RangeReading" where
  "sampleReading a = \<lparr>rr_timestamp_ms = 1, rr_sensor_id = ''front_fixed'', rr_angle_deg = 0,
     rr_range_m = Fin a, rr_quality = 1, rr_max_range_m = 4, rr_is_valid = True, rr_mode = LIVE\<rparr>"

theorem endpoint_at_range_witness:
  "pointDistanceFromSensor (groundRangeEndpoint (leftSetting 1) (Some (sampleReading 1)))
     (leftSetting 1) = Fin 1"
  using endpoint_at_range [of "leftSetting 1" 2 "Some (sampleReading 1)" 1]
  by (simp add: leftSetting_def sampleReading_def)

fun threat_rank :: "ThreatLevel \<Rightarrow> nat" where
  "threat_rank ALERT = 3"
| "threat_rank CAUTION = 2"
| "threat_rank CLEAR = 1"
| "threat_rank THREAT_UNKNOWN = 0"

text \<open>
  Threat levels: the level is UNKNOWN exactly when there is no valid reading with a finite
  range; for the others, a nearer obstacle never gets a milder level than a farther one, and a
  larger alert distance never makes the level milder.
\<close>

theorem threat_monotone:
  assumes "rr_is_valid near" "rr_range_m near = Fin a" and "rr_is_valid far" "rr_range_m far = Fin b"
    and "a \<le> b" and "sd_alert_distance_m strict = Fin d" "sd_alert_distance_m mild = Fin c" "c \<le> d"
  shows "threat_rank (getSensorThreatLevel (Some far) mild) \<le> threat_rank (getSensorThreatLevel (Some near) strict) \<and>
    (getSensorThreatLevel reading mild = THREAT_UNKNOWN) =
      (case reading of Some r \<Rightarrow> \<not> rr_is_valid r \<or> \<not> isFinite (rr_range_m r) | None \<Rightarrow> True)"
  using assms by (auto simp: getSensorThreatLevel_def Let_def max_def split: option.splits)

theorem threat_monotone_witness:
  "threat_rank (getSensorThreatLevel (Some (sampleReading 2)) (leftSetting 1)) \<le>
   threat_rank (getSensorThreatLevel (Some (sampleReading 1)) (leftSetting 1))"
  by (rule threat_monotone [THEN conjunct1, of _ 1 _ 2 _ 1 _ 1]) (simp_all add: sampleReading_def leftSetting_def)

end
