(* ===== verification/Proximity.thy ===== *)
theory Proximity
  imports RouteGeometry DefaultState
begin

text \<open>
  What is near the vehicle: the alert for a hazard ahead in the simulated scene
  (\<^verbatim>\<open>frontend/src/spatial/forwardHazard.ts\<close>), and the clearance from the vehicle's perimeter with
  the rings drawn around it (\<^verbatim>\<open>spatial/truckFootprint.ts\<close>).
\<close>

section \<open>The forward hazard\<close>

datatype HazardKind = TRUCK | ROCK

record ForwardHazard =
  fh_id :: string
  fh_kind :: HazardKind
  fh_distance_m :: jsnum
  fh_title :: string
  fh_detail :: string
  fh_lastSeenMs :: jsnum

definition ENCOUNTER_HOLD_MS :: jsnum where
  "ENCOUNTER_HOLD_MS = 8000"

definition enterDistance :: "VehiclePose \<Rightarrow> jsnum" where
  "enterDistance vehicle = js_max (Fin 7.5) (js_min 12 (vp_speed_mps vehicle * 4 + 2))"

text \<open>Within reach ahead; the alert that is shown already has wider limits.\<close>

definition eligible ::
    "VehiclePose \<Rightarrow> ForwardHazard option \<Rightarrow> string \<Rightarrow> jsnum \<Rightarrow> jsnum \<Rightarrow> jsnum \<Rightarrow> bool" where
  "eligible vehicle previous i x y halfWidth \<longleftrightarrow>
     (let again = map_option fh_id previous = Some i
      in Fin 1.6 < y \<and> y \<le> enterDistance vehicle + (if again then 2 else 0) \<and>
         \<bar>x\<bar> \<le> halfWidth + (if again then Fin 0.35 else 0))"

definition rockCandidate ::
    "WorldState \<Rightarrow> VehiclePose \<Rightarrow> ForwardHazard option \<Rightarrow> ForwardHazard list" where
  "rockCandidate world vehicle previous =
     (case ws_haul_route world of
        None \<Rightarrow> []
      | Some route \<Rightarrow>
          (case hr_obstacle route of
             None \<Rightarrow> []
           | Some rock \<Rightarrow>
               if hr_obstacle_detected route \<noteq> Some True then []
               else
                 let local = localPoint rock vehicle 0
                 in if eligible vehicle previous ''rock'' (v3_x_m local) (v3_y_m local) (Fin 2.7) then
                      (let distance = js_max 0 (v3_y_m local - Fin 1.6 - hr_obstacle_radius_m route)
                       in [\<lparr>fh_id = ''rock'', fh_kind = ROCK, fh_distance_m = distance,
                            fh_title = ''Rock ahead'',
                            fh_detail = ''Rock '' @ toFixed distance 1 @ '' m ahead. Keep clear.'',
                            fh_lastSeenMs = ws_generated_at_ms world\<rparr>])
                    else []))"

definition truckCandidate ::
    "WorldState \<Rightarrow> VehiclePose \<Rightarrow> ForwardHazard option \<Rightarrow> VehiclePose \<Rightarrow> ForwardHazard list" where
  "truckCandidate world vehicle previous peer =
     (if vp_vehicle_id peer = vp_vehicle_id vehicle \<or> vp_mode peer \<noteq> ws_mode world \<or>
         vp_position_confidence peer < Fin 0.5 then []
      else
        let local = localPoint \<lparr>pt_x_m = vp_x_m peer, pt_y_m = vp_y_m peer\<rparr> vehicle 0;
            i = ''truck:'' @ vp_vehicle_id peer
        in if \<not> eligible vehicle previous i (v3_x_m local) (v3_y_m local) (Fin 1.45) then []
           else
             let distance = js_max 0 (v3_y_m local - Fin 3.2)
             in [\<lparr>fh_id = i, fh_kind = TRUCK, fh_distance_m = distance, fh_title = ''Truck ahead'',
                  fh_detail = vp_vehicle_id peer @ '' is '' @ toFixed distance 1 @ '' m ahead. Keep clear.'',
                  fh_lastSeenMs = ws_generated_at_ms world\<rparr>])"

definition hazardCandidates ::
    "WorldState \<Rightarrow> VehiclePose \<Rightarrow> ForwardHazard option \<Rightarrow> ForwardHazard list" where
  "hazardCandidates world vehicle previous =
     rockCandidate world vehicle previous @
     concat (map (truckCandidate world vehicle previous) (ws_vehicles world))"

definition heldHazard :: "WorldState \<Rightarrow> ForwardHazard option \<Rightarrow> ForwardHazard option" where
  "heldHazard world previous =
     (case previous of
        None \<Rightarrow> None
      | Some p \<Rightarrow>
          if fh_lastSeenMs p \<le> ws_generated_at_ms world \<and>
             ws_generated_at_ms world - fh_lastSeenMs p < ENCOUNTER_HOLD_MS
          then Some (p\<lparr>
            fh_title := (if fh_kind p = ROCK then ''Rock encounter'' else ''Truck encounter''),
            fh_detail := (if fh_kind p = ROCK then ''Rock nearby. Keep clear.''
              else ''Truck nearby. Keep clear.'')\<rparr>)
          else None)"

definition selectSimulatedForwardHazard ::
    "WorldState \<Rightarrow> VehiclePose \<Rightarrow> ForwardHazard option \<Rightarrow> ForwardHazard option" where
  "selectSimulatedForwardHazard world vehicle previous =
     (if ws_mode world \<noteq> SIMULATED \<or> vp_position_confidence vehicle < Fin 0.5 then None
      else
        case js_sort (key_before fh_distance_m) (hazardCandidates world vehicle previous) of
          current # _ \<Rightarrow> Some current
        | [] \<Rightarrow> heldHazard world previous)"

section \<open>The perimeter\<close>

record TruckFootprint =
  fp_left :: jsnum
  fp_right :: jsnum
  fp_front :: jsnum
  fp_rear :: jsnum

definition clearanceFromPerimeter :: "VehiclePoint3D \<Rightarrow> TruckFootprint \<Rightarrow> jsnum" where
  "clearanceFromPerimeter point footprint =
     (let dx = js_max_list [fp_left footprint - v3_x_m point, 0, v3_x_m point - fp_right footprint];
          dy = js_max_list [fp_rear footprint - v3_y_m point, 0, v3_y_m point - fp_front footprint]
      in js_hypot dx dy)"

definition ringPoint :: "jsnum \<Rightarrow> jsnum \<times> jsnum \<times> jsnum \<Rightarrow> nat \<Rightarrow> VehiclePoint3D" where
  "ringPoint distance = (\<lambda>(x, y, start) i.
     let angle = (start + Fin (of_nat i) * 90 / 8) * js_pi / 180
     in \<lparr>v3_x_m = x + distance * js_cos angle, v3_y_m = y + distance * js_sin angle, v3_z_m = 0\<rparr>)"

definition perimeterRingPoints :: "TruckFootprint \<Rightarrow> jsnum \<Rightarrow> VehiclePoint3D list" where
  "perimeterRingPoints footprint clearanceM =
     (let distance = js_max 0 clearanceM
      in concat (map (\<lambda>corner. map (ringPoint distance corner) [0..<9])
           [(fp_right footprint, fp_front footprint, 0), (fp_left footprint, fp_front footprint, 90),
            (fp_left footprint, fp_rear footprint, 180), (fp_right footprint, fp_rear footprint, 270)]))"

section \<open>Lemmas\<close>

text \<open>Each corner's arc stays in its quadrant.\<close>

lemma quadrant_signs:
  assumes "0 \<le> b" "b \<le> pi / 2"
  shows "0 \<le> cos b \<and> 0 \<le> sin b" "cos (pi / 2 + b) \<le> 0 \<and> 0 \<le> sin (pi / 2 + b)"
    "cos (pi + b) \<le> 0 \<and> sin (pi + b) \<le> 0"
    "0 \<le> cos (pi + (pi / 2 + b)) \<and> sin (pi + (pi / 2 + b)) \<le> 0"
proof -
  have b: "0 \<le> cos b" "0 \<le> sin b" using assms by (auto intro: cos_ge_zero sin_ge_zero)
  then have q: "cos (pi / 2 + b) \<le> 0" "0 \<le> sin (pi / 2 + b)" by (simp_all add: cos_add sin_add)
  show "0 \<le> cos b \<and> 0 \<le> sin b" "cos (pi / 2 + b) \<le> 0 \<and> 0 \<le> sin (pi / 2 + b)"
    using b q by blast+
  show "cos (pi + b) \<le> 0 \<and> sin (pi + b) \<le> 0"
    "0 \<le> cos (pi + (pi / 2 + b)) \<and> sin (pi + (pi / 2 + b)) \<le> 0"
    unfolding cos_periodic_pi2 sin_periodic_pi2 using b q by simp_all
qed

lemma hypot_scaled: "sqrt ((d * cos a)\<^sup>2 + (d * sin a)\<^sup>2) = \<bar>d :: real\<bar>"
proof -
  have "(d * cos a)\<^sup>2 + (d * sin a)\<^sup>2 = d\<^sup>2 * ((sin a)\<^sup>2 + (cos a)\<^sup>2)" by algebra
  then show ?thesis by simp
qed

text \<open>The clearance of a point displaced outwards from a corner.\<close>

lemma corner_clearance:
  assumes "l \<le> r" "re \<le> f" "0 \<le> d"
    and "x = r \<and> 0 \<le> cos a \<or> x = l \<and> cos a \<le> 0" and "y = f \<and> 0 \<le> sin a \<or> y = re \<and> sin a \<le> 0"
  shows "clearanceFromPerimeter \<lparr>v3_x_m = Fin (x + d * cos a), v3_y_m = Fin (y + d * sin a), v3_z_m = z\<rparr>
    \<lparr>fp_left = Fin l, fp_right = Fin r, fp_front = Fin f, fp_rear = Fin re\<rparr> = Fin d"
proof -
  have outside: "max (u - hi) (max 0 (lo - u)) = \<bar>e\<bar>"
    if "lo \<le> hi" "u = hi + e \<and> 0 \<le> e \<or> u = lo + e \<and> e \<le> 0" for u hi lo e :: real
    using that by (auto simp: max_def abs_if)
  have "x + d * cos a = r + d * cos a \<and> 0 \<le> d * cos a \<or> x + d * cos a = l + d * cos a \<and> d * cos a \<le> 0"
    using assms(3,4) by (auto simp: mult_nonneg_nonpos)
  note dx = outside [OF assms(1) this]
  have "y + d * sin a = f + d * sin a \<and> 0 \<le> d * sin a \<or> y + d * sin a = re + d * sin a \<and> d * sin a \<le> 0"
    using assms(3,5) by (auto simp: mult_nonneg_nonpos)
  note dy = outside [OF assms(2) this]
  show ?thesis
    using hypot_scaled [of d a] dx dy assms(3)
    by (simp add: clearanceFromPerimeter_def js_max_list_def Let_def)
qed

section \<open>Properties\<close>

text \<open>
  The clearance rings are true offsets: for a footprint that is not inverted and a finite
  clearance, the ring has 36 points and every one of them has exactly that clearance from the
  perimeter (none for a negative clearance), along the edges as at the corners.
\<close>

theorem ring_clearance:
  assumes "l \<le> r" "re \<le> f"
    and "fp = \<lparr>fp_left = Fin l, fp_right = Fin r, fp_front = Fin f, fp_rear = Fin re\<rparr>"
  shows "length (perimeterRingPoints fp (Fin c)) = 36 \<and>
    list_all (\<lambda>p. clearanceFromPerimeter p fp = Fin (max 0 c)) (perimeterRingPoints fp (Fin c))"
proof -
  define d where "d = max 0 c"
  have d: "0 \<le> d" by (simp add: d_def)
  have clear: "clearanceFromPerimeter (ringPoint (Fin d) (Fin x, Fin y, Fin s) i) fp = Fin d"
    if "(x, y, s) \<in> {(r, f, 0), (l, f, 90), (l, re, 180), (r, re, 270)}" "i < 9" for x y s i
  proof -
    define b where "b = of_nat i * 90 / 8 * pi / (180 :: real)"
    have "of_nat i \<le> (8 :: real)" using that(2) by simp
    then have b: "0 \<le> b" "b \<le> pi / 2" by (simp_all add: b_def)
    define a where "a = (s + of_nat i * 90 / 8) * pi / 180"
    have "x = r \<and> y = f \<and> a = b \<or> x = l \<and> y = f \<and> a = pi / 2 + b \<or> x = l \<and> y = re \<and> a = pi + b \<or>
        x = r \<and> y = re \<and> a = pi + (pi / 2 + b)"
      using that(1) by (auto simp: a_def b_def field_simps)
    with quadrant_signs [OF b]
    have "(x = r \<and> 0 \<le> cos a \<or> x = l \<and> cos a \<le> 0) \<and> (y = f \<and> 0 \<le> sin a \<or> y = re \<and> sin a \<le> 0)"
      by metis
    then show ?thesis
      using corner_clearance [OF assms(1,2) d, of x a y "0"] assms(3)
      by (simp add: ringPoint_def Let_def a_def)
  qed
  have ring: "perimeterRingPoints fp (Fin c) = concat (map (\<lambda>corner. map (ringPoint (Fin d) corner) [0..<9])
      [(Fin r, Fin f, 0), (Fin l, Fin f, 90), (Fin l, Fin re, 180), (Fin r, Fin re, 270)])"
    using assms(3) by (simp add: perimeterRingPoints_def d_def Let_def)
  have "list_all (\<lambda>p. clearanceFromPerimeter p fp = Fin d) (map (ringPoint (Fin d) corner) [0..<9])"
    if "corner \<in> {(Fin r, Fin f, 0), (Fin l, Fin f, 90), (Fin l, Fin re, 180), (Fin r, Fin re, 270)}" for corner
    using that clear by (auto simp: list_all_iff)
  then have "list_all (\<lambda>p. clearanceFromPerimeter p fp = Fin d) (perimeterRingPoints fp (Fin c))"
    unfolding ring by (simp del: upt_Suc)
  moreover have "length (perimeterRingPoints fp (Fin c)) = 36" by (simp add: ring)
  ultimately show ?thesis by (simp add: d_def)
qed

definition sampleFootprint :: TruckFootprint where
  "sampleFootprint = \<lparr>fp_left = Fin (- 1), fp_right = Fin 1, fp_front = Fin 2, fp_rear = Fin (- 2)\<rparr>"

theorem ring_clearance_witness:
  "list_all (\<lambda>p. clearanceFromPerimeter p sampleFootprint = Fin 3) (perimeterRingPoints sampleFootprint (Fin 3))"
  using ring_clearance [of "- 1" 1 "- 2" 2 sampleFootprint 3] by (simp add: sampleFootprint_def)

section \<open>The choice of the hazard\<close>

lemma localPoint_planar:
  assumes "isFinite (pt_x_m q)" "isFinite (pt_y_m q)"
    and "isFinite (vp_x_m v)" "isFinite (vp_y_m v)" "isFinite (vp_heading_deg v)"
  shows "planar (localPoint q v z)"
  using assms by (auto simp: localPoint_def planar_def isFinite_iff Let_def)

definition finite_pose :: "VehiclePose \<Rightarrow> bool" where
  "finite_pose v \<longleftrightarrow> isFinite (vp_x_m v) \<and> isFinite (vp_y_m v) \<and> isFinite (vp_heading_deg v)"

definition finite_scene :: "WorldState \<Rightarrow> bool" where
  "finite_scene w \<longleftrightarrow> list_all finite_pose (ws_vehicles w) \<and>
     (case ws_haul_route w of
        None \<Rightarrow> True
      | Some route \<Rightarrow> isFinite (hr_obstacle_radius_m route) \<and>
          (case hr_obstacle route of
             None \<Rightarrow> True | Some p \<Rightarrow> isFinite (pt_x_m p) \<and> isFinite (pt_y_m p)))"

text \<open>A distance cut at zero: finite, and not negative.\<close>

definition cut_distance :: "jsnum \<Rightarrow> bool" where
  "cut_distance d \<longleftrightarrow> (\<exists>r. d = Fin r \<and> 0 \<le> r)"

lemma cut_distanceI: "isFinite x \<Longrightarrow> cut_distance (js_max (Fin 0) x)"
  by (auto simp: cut_distance_def isFinite_iff)

lemma candidate_distances:
  assumes "finite_scene w" "finite_pose v" "c \<in> set (hazardCandidates w v prev)"
  shows "cut_distance (fh_distance_m c) \<and> fh_lastSeenMs c = ws_generated_at_ms w"
proof -
  have fin: "isFinite (v3_y_m (localPoint q v 0))" if "isFinite (pt_x_m q)" "isFinite (pt_y_m q)" for q
    using localPoint_planar [OF that, of v 0] assms(2) by (simp add: finite_pose_def planar_def)
  have rock: "cut_distance (fh_distance_m c) \<and> fh_lastSeenMs c = ws_generated_at_ms w"
    if "c \<in> set (rockCandidate w v prev)"
    using that assms(1) fin
    by (auto simp: rockCandidate_def finite_scene_def Let_def split: option.splits if_splits
        intro!: cut_distanceI finite_arith)
  have truck: "cut_distance (fh_distance_m c) \<and> fh_lastSeenMs c = ws_generated_at_ms w"
    if "c \<in> set (truckCandidate w v prev peer)" "peer \<in> set (ws_vehicles w)" for peer
    using that assms(1) fin
    by (auto simp: truckCandidate_def finite_scene_def finite_pose_def list_all_iff Let_def
        split: if_splits intro!: cut_distanceI finite_arith)
  show ?thesis using assms(3) rock truck by (auto simp: hazardCandidates_def)
qed

text \<open>
  Which hazard is announced: in a simulated scene with finite poses and a located vehicle, an
  announced hazard is either a candidate ahead, and then none of the candidates is nearer, or the
  previous one, held while there is no candidate and for less than eight seconds after it was last
  seen, without prolonging that time; a candidate is never passed over in silence.
\<close>

theorem announced_hazard:
  assumes "finite_scene w" "finite_pose v"
    and "ws_mode w = SIMULATED" "Fin 0.5 \<le> vp_position_confidence v"
  shows "case selectSimulatedForwardHazard w v prev of
     None \<Rightarrow> hazardCandidates w v prev = []
   | Some h \<Rightarrow>
       h \<in> set (hazardCandidates w v prev) \<and> fh_lastSeenMs h = ws_generated_at_ms w \<and>
         list_all (\<lambda>c. 0 \<le> fh_distance_m h \<and> fh_distance_m h \<le> fh_distance_m c) (hazardCandidates w v prev) \<or>
       hazardCandidates w v prev = [] \<and>
         (\<exists>p. prev = Some p \<and> fh_id h = fh_id p \<and> fh_lastSeenMs h = fh_lastSeenMs p \<and>
            ws_generated_at_ms w - fh_lastSeenMs p < 8000)"
proof -
  let ?cs = "hazardCandidates w v prev"
  let ?sorted = "js_sort (key_before fh_distance_m) ?cs"
  have active: "\<not> vp_position_confidence v < Fin 0.5" using assms(4) by (cases "vp_position_confidence v") auto
  have cut: "cut_distance (fh_distance_m c)" "fh_lastSeenMs c = ws_generated_at_ms w" if "c \<in> set ?cs" for c
    using candidate_distances [OF assms(1,2) that] by simp_all
  then have fin: "\<forall>c \<in> set ?cs. isFinite (fh_distance_m c)" by (auto simp: cut_distance_def isFinite_iff)
  show ?thesis
  proof (cases ?sorted)
    case Nil
    then have "?cs = []" by simp
    moreover have "selectSimulatedForwardHazard w v prev = heldHazard w prev"
      using assms(3) active Nil by (simp add: selectSimulatedForwardHazard_def)
    ultimately show ?thesis
      by (auto simp: heldHazard_def ENCOUNTER_HOLD_MS_def split: option.splits if_splits)
  next
    case (Cons h rest)
    then have "selectSimulatedForwardHazard w v prev = Some h"
      using assms(3) active by (simp add: selectSimulatedForwardHazard_def)
    moreover have h: "h \<in> set ?cs" using Cons by (metis list.set_intros(1) set_js_sort)
    moreover have "0 \<le> fh_distance_m h \<and> fh_distance_m h \<le> fh_distance_m c" if "c \<in> set ?cs" for c
      using ascending.sort_hd_first [OF fin Cons that] cut [OF that] cut [OF h]
      by (auto simp: cut_distance_def key_before_def)
    ultimately show ?thesis using cut [OF h] by (simp add: list_all_iff)
  qed
qed

theorem announced_hazard_witness:
  "map_option fh_kind (selectSimulatedForwardHazard
     (sampleWorld\<lparr>ws_mode := SIMULATED, ws_vehicles := [defaultVehicle\<lparr>vp_vehicle_id := ''DUMPER_02'',
        vp_y_m := 6, vp_mode := SIMULATED, vp_position_confidence := 1\<rparr>]\<rparr>)
     (defaultVehicle\<lparr>vp_position_confidence := 1\<rparr>) None) = Some TRUCK"
proof -
  let ?w = "sampleWorld\<lparr>ws_mode := SIMULATED, ws_vehicles := [defaultVehicle\<lparr>vp_vehicle_id := ''DUMPER_02'',
      vp_y_m := 6, vp_mode := SIMULATED, vp_position_confidence := 1\<rparr>]\<rparr>"
  let ?v = "defaultVehicle\<lparr>vp_position_confidence := 1\<rparr>"
  have "finite_scene ?w" "finite_pose ?v"
    by (simp_all add: finite_scene_def finite_pose_def sampleWorld_def defaultVehicle_def)
  from announced_hazard [OF this, of None]
  have "case selectSimulatedForwardHazard ?w ?v None of None \<Rightarrow> hazardCandidates ?w ?v None = []
      | Some h \<Rightarrow> h \<in> set (hazardCandidates ?w ?v None)"
    by (auto split: option.splits)
  moreover have "\<exists>c. hazardCandidates ?w ?v None = [c] \<and> fh_kind c = TRUCK"
    by (simp add: hazardCandidates_def rockCandidate_def truckCandidate_def sampleWorld_def
        defaultVehicle_def localPoint_def eligible_def enterDistance_def Let_def)
  ultimately show ?thesis by (auto split: option.splits)
qed

end
