(* ===== verification/MineApi.thy ===== *)
theory MineApi
  imports WorldTypes JsonValue
begin

text \<open>
  The mine and analytics requests: \<^verbatim>\<open>frontend/src/api/mineApi.ts\<close>. A request is its URL, method
  and JSON body; its promise settles with a value or the message of an error. \<open>cast\<close> reads the
  parsed body at the declared type, which the code does without a check. Strings are
  sequences of code units below 256.
\<close>

section \<open>Encoding\<close>

text \<open>The UTF-8 bytes of a code unit below 256, and a byte as two upper-case hex digits.\<close>

definition utf8_bytes :: "char \<Rightarrow> nat list" where
  "utf8_bytes c = (let n = of_char c in if n < 128 then [n] else [192 + n div 64, 128 + n mod 64])"

definition hex_digit :: "nat \<Rightarrow> char" where
  "hex_digit d = (if d < 10 then char_of (48 + d) else char_of (55 + d))"

definition percent :: "nat \<Rightarrow> string" where
  "percent b = [CHR ''%'', hex_digit (b div 16), hex_digit (b mod 16)]"

definition alphanumeric :: "char \<Rightarrow> bool" where
  "alphanumeric c \<longleftrightarrow>
     (let n = of_char c :: nat
      in 97 \<le> n \<and> n \<le> 122 \<or> 65 \<le> n \<and> n \<le> 90 \<or> 48 \<le> n \<and> n \<le> 57)"

definition unreserved :: "char \<Rightarrow> bool" where
  "unreserved c \<longleftrightarrow> alphanumeric c \<or>
     c \<in> {CHR ''-'', CHR ''_'', CHR ''.'', CHR ''!'', CHR ''~'', CHR ''*'', CHR 0x27, CHR ''('', CHR '')''}"

definition encode_char :: "char \<Rightarrow> string" where
  "encode_char c = (if unreserved c then [c] else concat (map percent (utf8_bytes c)))"

definition encodeURIComponent :: "string \<Rightarrow> string" where
  "encodeURIComponent s = concat (map encode_char s)"

text \<open>The serialisation of \<^verbatim>\<open>URLSearchParams\<close>.\<close>

definition form_char :: "char \<Rightarrow> string" where
  "form_char c =
     (if alphanumeric c \<or> c \<in> {CHR ''-'', CHR ''_'', CHR ''.'', CHR ''*''} then [c]
      else if c = CHR '' '' then ''+'' else concat (map percent (utf8_bytes c)))"

definition form_encode :: "string \<Rightarrow> string" where
  "form_encode s = concat (map form_char s)"

section \<open>Requests\<close>

record Request =
  req_url :: string
  req_method :: string
  req_body :: "jsval option"

definition get_request :: "string \<Rightarrow> Request" where
  "get_request url = \<lparr>req_url = url, req_method = ''GET'', req_body = None\<rparr>"

text \<open>What every helper does with the response.\<close>

definition readOk :: "string \<Rightarrow> (jsval \<Rightarrow> 'a) \<Rightarrow> Response \<Rightarrow> string + 'a" where
  "readOk what cast res =
     (if \<not> rsp_ok res then Inl (''Failed to '' @ what @ '': '' @ rsp_statusText res)
      else map_sum id cast (rsp_json res))"

definition fetchMineNetwork :: "(jsval \<Rightarrow> MineNetwork) \<Rightarrow> Request \<times> (Response \<Rightarrow> string + MineNetwork)" where
  "fetchMineNetwork cast =
     (get_request ''/api/mine/network'', readOk ''fetch mine network'' cast)"

fun road_status_string :: "RoadStatus \<Rightarrow> string" where
  "road_status_string OPEN = ''OPEN''"
| "road_status_string RESTRICTED = ''RESTRICTED''"
| "road_status_string CLOSED = ''CLOSED''"

text \<open>\<^verbatim>\<open>JSON.stringify\<close> drops the fields whose value is \<^verbatim>\<open>undefined\<close>.\<close>

definition updateMineEdgeStatus ::
    "(jsval \<Rightarrow> MineEdge) \<Rightarrow> string \<Rightarrow> RoadStatus \<Rightarrow> jsnum option \<Rightarrow> jsnum option \<Rightarrow> string option \<Rightarrow>
     Request \<times> (Response \<Rightarrow> string + MineEdge)" where
  "updateMineEdgeStatus cast edgeId status riskPenalty speedLimitKmh reason =
     (\<lparr>req_url = ''/api/mine/edges/'' @ encodeURIComponent edgeId @ ''/status'',
       req_method = ''POST'',
       req_body = Some (JObj (
         [(''status'', JStr (road_status_string status))] @
         (case riskPenalty of Some x \<Rightarrow> [(''risk_penalty'', JNum x)] | None \<Rightarrow> []) @
         (case speedLimitKmh of Some x \<Rightarrow> [(''speed_limit_kmh'', JNum x)] | None \<Rightarrow> []) @
         [(''reason'', JStr (case reason of Some r \<Rightarrow> r | None \<Rightarrow> ''Manual dispatcher override''))]))\<rparr>,
      readOk ''update edge status'' cast)"

definition fetchNavigationGuidance ::
    "(jsval \<Rightarrow> 'a) \<Rightarrow> string \<Rightarrow> Request \<times> (Response \<Rightarrow> string + 'a)" where
  "fetchNavigationGuidance cast vehicleId =
     (get_request (''/api/navigation/guidance?vehicle_id='' @ encodeURIComponent vehicleId),
      readOk ''fetch guidance'' cast)"

definition fetchFleetVehicles :: "(jsval \<Rightarrow> 'a) \<Rightarrow> Request \<times> (Response \<Rightarrow> string + 'a)" where
  "fetchFleetVehicles cast =
     (get_request ''/api/fleet/vehicles'', readOk ''fetch fleet vehicles'' cast)"

definition fetchHaulageMetrics :: "bool \<Rightarrow> (jsval \<Rightarrow> 'a) \<Rightarrow> Request \<times> (Response \<Rightarrow> string + 'a)" where
  "fetchHaulageMetrics demo cast =
     (get_request (if demo then ''/demo/haulage-metrics.json'' else ''/api/analytics/haulage-metrics''),
      readOk ''fetch haulage metrics'' cast)"

section \<open>Trip history\<close>

text \<open>An absent or empty \<^verbatim>\<open>vehicleId\<close> means every vehicle.\<close>

definition given :: "string option \<Rightarrow> bool" where
  "given vehicleId \<longleftrightarrow> (case vehicleId of Some v \<Rightarrow> v \<noteq> [] | None \<Rightarrow> False)"

definition tripHistoryRequest :: "bool \<Rightarrow> nat \<Rightarrow> string option \<Rightarrow> Request" where
  "tripHistoryRequest demo limit vehicleId =
     (let query = ''limit='' @ nat_str limit @
            (if given vehicleId then ''&vehicle_id='' @ form_encode (the vehicleId) else [])
      in get_request (if demo then ''/demo/trip-history.json''
           else ''/api/analytics/trip-history?'' @ query))"

definition demoTrips :: "nat \<Rightarrow> string option \<Rightarrow> TripHistoryResponse \<Rightarrow> TripHistoryResponse" where
  "demoTrips limit vehicleId history =
     (let trips = filter (\<lambda>trip. \<not> given vehicleId \<or> trip_vehicle_id trip = the vehicleId)
            (th_trips history)
      in \<lparr>th_trips = take limit (js_sort (key_after trip_end_time_ms) trips),
          th_total_trips = Fin (of_nat (length trips)),
          th_total_tonnes = foldl (\<lambda>sum trip. sum + trip_payload_tonnes trip) 0 trips\<rparr>)"

definition fetchTripHistory ::
    "bool \<Rightarrow> (jsval \<Rightarrow> TripHistoryResponse) \<Rightarrow> nat \<Rightarrow> string option \<Rightarrow>
     Request \<times> (Response \<Rightarrow> string + TripHistoryResponse)" where
  "fetchTripHistory demo cast limit vehicleId =
     (tripHistoryRequest demo limit vehicleId,
      \<lambda>res. map_sum id (\<lambda>history. if \<not> demo then history else demoTrips limit vehicleId history)
        (readOk ''fetch trip history'' cast res))"

section \<open>Encoded identifiers\<close>

lemma of_char_less: "(of_char c :: nat) < 256"
  using of_char_mod_256 [of c, where ?'a = nat] by (metis mod_less_divisor zero_less_numeral)

lemma hex_digit_alphanumeric: "d < 16 \<Longrightarrow> alphanumeric (hex_digit d)"
  by (auto simp: hex_digit_def alphanumeric_def Let_def)

lemma of_char_hex: "d < 16 \<Longrightarrow> (of_char (hex_digit d) :: nat) = (if d < 10 then 48 + d else 55 + d)"
  by (simp add: hex_digit_def)

lemma hex_digit_inj: "d < 16 \<Longrightarrow> e < 16 \<Longrightarrow> hex_digit d = hex_digit e \<Longrightarrow> d = e"
proof -
  assume "d < 16" "e < 16" "hex_digit d = hex_digit e"
  then have "(of_char (hex_digit d) :: nat) = of_char (hex_digit e)" by simp
  with \<open>d < 16\<close> \<open>e < 16\<close> show "d = e" by (simp add: of_char_hex split: if_splits)
qed

lemma percent_inj: "a < 256 \<Longrightarrow> b < 256 \<Longrightarrow> percent a = percent b \<Longrightarrow> a = b"
proof -
  assume "a < 256" "b < 256" "percent a = percent b"
  then have "a div 16 = b div 16" "a mod 16 = b mod 16"
    by (auto simp: percent_def intro!: hex_digit_inj)
  then show "a = b" by (metis div_mult_mod_eq)
qed

lemma of_char_div: "(of_char c :: nat) div 64 < 4"
  using of_char_less [of c] by (intro less_mult_imp_div_less) simp

lemma utf8_byte: "b \<in> set (utf8_bytes c) \<Longrightarrow> b < 256"
  using of_char_div [of c] by (auto simp: utf8_bytes_def Let_def split: if_splits)

lemma encode_chars:
  assumes "x \<in> set (encodeURIComponent s)"
  shows "unreserved x \<or> x = CHR ''%''"
proof -
  obtain c where "x \<in> set (encode_char c)" using assms by (auto simp: encodeURIComponent_def)
  moreover have "alphanumeric (hex_digit (b div 16)) \<and> alphanumeric (hex_digit (b mod 16))"
    if "b \<in> set (utf8_bytes c)" for b
    using utf8_byte [OF that] by (simp add: hex_digit_alphanumeric less_mult_imp_div_less)
  ultimately show ?thesis
    by (auto simp: encode_char_def percent_def unreserved_def split: if_splits)
qed

lemma unreserved_not_percent: "unreserved c \<Longrightarrow> c \<noteq> CHR ''%''"
  by (auto simp: unreserved_def alphanumeric_def)

text \<open>The first byte of an encoded character tells how many follow.\<close>

lemma utf8_cases:
  obtains (ascii) n where "utf8_bytes c = [n]" "n < 128" "of_char c = n"
  | (wide) a b where "utf8_bytes c = [a, b]" "192 \<le> a" "a < 256" "b < 256" "of_char c = (a - 192) * 64 + (b - 128)"
proof (cases "(of_char c :: nat) < 128")
  case True
  then show thesis by (intro ascii [of "of_char c"]) (simp_all add: utf8_bytes_def)
next
  case False
  then show thesis
    using of_char_div [of c]
    by (intro wide [of "192 + of_char c div 64" "128 + of_char c mod 64"])
      (simp_all add: utf8_bytes_def Let_def)
qed

lemma char_eqI: "(of_char c :: nat) = of_char d \<Longrightarrow> c = d"
  by simp

lemma encode_char_prefix:
  assumes "encode_char c @ s = encode_char d @ t"
  shows "c = d \<and> s = t"
proof (cases "unreserved c \<or> unreserved d")
  case True
  with assms show ?thesis
    by (cases c rule: utf8_cases; cases d rule: utf8_cases)
      (auto simp: encode_char_def percent_def dest: unreserved_not_percent split: if_splits)
next
  case False
  then have eq: "concat (map percent (utf8_bytes c)) @ s = concat (map percent (utf8_bytes d)) @ t"
    using assms by (simp add: encode_char_def)
  show ?thesis
  proof (cases c rule: utf8_cases)
    case (ascii n)
    show ?thesis
    proof (cases d rule: utf8_cases)
      case (ascii m)
      have "percent n = percent m" "s = t"
        using eq \<open>utf8_bytes c = [n]\<close> ascii(1) by (simp_all add: percent_def)
      then show ?thesis
        using percent_inj [of n m] ascii \<open>n < 128\<close> \<open>of_char c = n\<close> by (intro conjI char_eqI) simp_all
    next
      case (wide a b)
      have "percent n = percent a" using eq \<open>utf8_bytes c = [n]\<close> wide(1) by (simp add: percent_def)
      then have "n = a" using percent_inj [of n a] wide \<open>n < 128\<close> by simp
      with wide \<open>n < 128\<close> show ?thesis by simp
    qed
  next
    case (wide a b)
    show ?thesis
    proof (cases d rule: utf8_cases)
      case (ascii m)
      have "percent a = percent m" using eq \<open>utf8_bytes c = [a, b]\<close> ascii(1) by (simp add: percent_def)
      then have "a = m" using percent_inj [of a m] ascii \<open>a < 256\<close> by simp
      with ascii \<open>192 \<le> a\<close> show ?thesis by simp
    next
      case (wide a' b')
      have "percent a = percent a'" "percent b = percent b'" "s = t"
        using eq \<open>utf8_bytes c = [a, b]\<close> wide(1) by (simp_all add: percent_def)
      then show ?thesis
        using percent_inj [of a a'] percent_inj [of b b'] wide \<open>a < 256\<close> \<open>b < 256\<close>
          \<open>of_char c = (a - 192) * 64 + (b - 128)\<close>
        by (intro conjI char_eqI) simp_all
    qed
  qed
qed

lemma encode_char_nonempty [simp]: "encode_char c \<noteq> []"
  by (cases c rule: utf8_cases) (simp_all add: encode_char_def percent_def)

lemma encodeURIComponent_inj: "encodeURIComponent s = encodeURIComponent t \<Longrightarrow> s = t"
proof (induction s arbitrary: t)
  case Nil
  then show ?case by (cases t) (simp_all add: encodeURIComponent_def)
next
  case (Cons c s)
  then show ?case
    by (cases t) (auto simp: encodeURIComponent_def dest!: encode_char_prefix)
qed

section \<open>Properties\<close>

text \<open>
  An edge identifier cannot leave its place in the URL: whatever it contains, its encoded
  form has no slash, question mark, hash or ampersand, and different edges have different URLs.
\<close>

theorem edge_url_safe:
  "(\<exists>enc. req_url (fst (updateMineEdgeStatus cast edge status risk speed reason)) =
      ''/api/mine/edges/'' @ enc @ ''/status'' \<and>
      set enc \<inter> {CHR ''/'', CHR ''?'', CHR ''#'', CHR ''&''} = {}) \<and>
   (req_url (fst (updateMineEdgeStatus cast edge status risk speed reason)) =
      req_url (fst (updateMineEdgeStatus cast edge' status' risk' speed' reason'))) = (edge = edge')"
proof
  have "set (encodeURIComponent edge) \<inter> {CHR ''/'', CHR ''?'', CHR ''#'', CHR ''&''} = {}"
    by (auto simp: unreserved_def alphanumeric_def dest: encode_chars)
  then show "\<exists>enc. req_url (fst (updateMineEdgeStatus cast edge status risk speed reason)) =
      ''/api/mine/edges/'' @ enc @ ''/status'' \<and>
      set enc \<inter> {CHR ''/'', CHR ''?'', CHR ''#'', CHR ''&''} = {}"
    by (auto simp: updateMineEdgeStatus_def)
  show "(req_url (fst (updateMineEdgeStatus cast edge status risk speed reason)) =
      req_url (fst (updateMineEdgeStatus cast edge' status' risk' speed' reason'))) = (edge = edge')"
    by (auto simp: updateMineEdgeStatus_def dest: encodeURIComponent_inj)
qed

text \<open>
  The demo's trip history behaves like the service: of the trips of the requested vehicle it
  returns the newest, at most \<open>limit\<close> of them, newest first, and no omitted trip is newer
  than a returned one; the totals count all the trips of the vehicle, returned or not.
\<close>

theorem demo_history_newest:
  assumes "list_all (\<lambda>t. isFinite (trip_end_time_ms t)) (th_trips h)"
  shows "let own = filter (\<lambda>t. vehicle = [] \<or> trip_vehicle_id t = vehicle) (th_trips h);
      r = demoTrips limit (Some vehicle) h in
    length (th_trips r) = min limit (length own) \<and>
    (\<exists>omitted. mset own = mset (th_trips r @ omitted) \<and>
      sorted_wrt (\<lambda>a b. trip_end_time_ms b \<le> trip_end_time_ms a) (th_trips r @ omitted)) \<and>
    th_total_trips r = Fin (of_nat (length own)) \<and>
    th_total_tonnes r = foldl (+) 0 (map trip_payload_tonnes own)"
proof -
  let ?own = "filter (\<lambda>t. vehicle = [] \<or> trip_vehicle_id t = vehicle) (th_trips h)"
  let ?sorted = "js_sort (key_after trip_end_time_ms) ?own"
  have r: "demoTrips limit (Some vehicle) h = \<lparr>th_trips = take limit ?sorted,
      th_total_trips = Fin (of_nat (length ?own)),
      th_total_tonnes = foldl (\<lambda>sum trip. sum + trip_payload_tonnes trip) 0 ?own\<rparr>"
    by (simp add: demoTrips_def given_def Let_def)
  have "\<forall>t \<in> set ?own. isFinite (trip_end_time_ms t)" using assms by (simp add: list_all_iff)
  note sorted = sorted_by_key_after [OF this]
  have "\<exists>omitted. mset ?own = mset (take limit ?sorted @ omitted) \<and>
      sorted_wrt (\<lambda>a b. trip_end_time_ms b \<le> trip_end_time_ms a) (take limit ?sorted @ omitted)"
    using sorted by (intro exI [of _ "drop limit ?sorted"]) (simp only: append_take_drop_id mset_js_sort simp_thms)
  moreover have "foldl (\<lambda>sum trip. sum + trip_payload_tonnes trip) x xs =
      foldl (+) x (map trip_payload_tonnes xs)" for x xs
    by (induction xs arbitrary: x) simp_all
  moreover have "length (take limit ?sorted) = min limit (length ?own)" by (simp add: min.commute)
  ultimately show ?thesis unfolding r Let_def TripHistoryResponse.simps by simp
qed

definition sampleTrip :: "string \<Rightarrow> real \<Rightarrow> TripRecord" where
  "sampleTrip i t = \<lparr>trip_source = None, trip_trip_id = i, trip_vehicle_id = ''DUMPER_01'',
     trip_callsign = ''D1'', trip_pickup_node = ''A'', trip_dump_node = ''B'', trip_payload_tonnes = 40,
     trip_start_time_ms = 0, trip_end_time_ms = Fin t, trip_cycle_duration_s = 600,
     trip_loading_wait_s = 0, trip_loaded_travel_s = 0, trip_dumping_wait_s = 0,
     trip_empty_return_s = 0, trip_idle_s = 0, trip_distance_km = 2, trip_avg_speed_kmh = 20,
     trip_route_deviations_count = 0, trip_route_compliance_pct = 100, trip_fuel_litres_est = 8\<rparr>"

theorem demo_history_newest_witness:
  "length (th_trips (demoTrips 1 (Some ''DUMPER_01'') \<lparr>th_trips = [sampleTrip ''a'' 1, sampleTrip ''b'' 2],
     th_total_trips = 2, th_total_tonnes = 80\<rparr>)) = 1"
  using demo_history_newest [of "\<lparr>th_trips = [sampleTrip ''a'' 1, sampleTrip ''b'' 2],
     th_total_trips = 2, th_total_tonnes = 80\<rparr>" "''DUMPER_01''" 1]
  by (simp add: sampleTrip_def Let_def)

end
