(* ===== verification/HaulEfficiency.thy ===== *)
theory HaulEfficiency
  imports Supervisor MineApi
begin

text \<open>
  Haul efficiency: \<^verbatim>\<open>frontend/src/supervisor/haulEfficiency.ts\<close>. Trip records become the trips
  of the efficiency chart, which are summarised and given an axis. Logarithms and powers are
  those of the reals.
\<close>

definition DISPLAYED_TRIP_COUNT :: nat where
  "DISPLAYED_TRIP_COUNT = 15"

definition EFFICIENCY_REFRESH_MS :: jsnum where
  "EFFICIENCY_REFRESH_MS = 30000"

record EfficiencyTrip =
  et_id :: string
  et_number :: nat
  et_payloadT :: jsnum
  et_fuelL :: jsnum
  et_distanceKm :: jsnum
  et_efficiency :: jsnum
  et_durationMin :: jsnum
  et_idleMin :: jsnum
  et_avgSpeedKmh :: jsnum
  et_endedAtMs :: jsnum
  et_source :: "DataMode option"

text \<open>\<^verbatim>\<open>Number.isFinite(new Date(t).getTime())\<close>: the range of time values.\<close>

definition isValidDate :: "jsnum \<Rightarrow> bool" where
  "isValidDate t \<longleftrightarrow> isFinite t \<and> \<bar>t\<bar> \<le> Fin 8640000000000000"

definition toEfficiencyTrip :: "TripRecord \<Rightarrow> nat \<Rightarrow> EfficiencyTrip option" where
  "toEfficiencyTrip trip number =
     (let values = [trip_payload_tonnes trip, trip_fuel_litres_est trip, trip_distance_km trip];
          efficiency = trip_payload_tonnes trip * trip_distance_km trip / trip_fuel_litres_est trip
      in if list_ex (\<lambda>v. \<not> isFinite v \<or> v \<le> 0) values then None
         else if \<not> isFinite (trip_end_time_ms trip) \<or> \<not> isValidDate (trip_end_time_ms trip) then None
         else if \<not> isFinite (trip_cycle_duration_s trip) \<or> trip_cycle_duration_s trip < 0 then None
         else if \<not> isFinite efficiency then None
         else Some \<lparr>et_id = trip_trip_id trip, et_number = number,
           et_payloadT = trip_payload_tonnes trip, et_fuelL = trip_fuel_litres_est trip,
           et_distanceKm = trip_distance_km trip, et_efficiency = efficiency,
           et_durationMin = trip_cycle_duration_s trip / 60,
           et_idleMin = js_max 0 (if isFinite (trip_idle_s trip) then trip_idle_s trip / 60 else 0),
           et_avgSpeedKmh = js_max 0
             (if isFinite (trip_avg_speed_kmh trip) then trip_avg_speed_kmh trip else 0),
           et_endedAtMs = trip_end_time_ms trip, et_source = trip_source trip\<rparr>)"

text \<open>\<^verbatim>\<open>a.end_time_ms - b.end_time_ms || a.trip_id.localeCompare(b.trip_id)\<close> is negative.\<close>

definition trip_before :: "(string \<Rightarrow> string \<Rightarrow> int) \<Rightarrow> TripRecord \<Rightarrow> TripRecord \<Rightarrow> bool" where
  "trip_before lc a b =
     (let difference = trip_end_time_ms a - trip_end_time_ms b
      in if difference = 0 \<or> difference = NaN then lc (trip_trip_id a) (trip_trip_id b) < 0
         else difference < 0)"

text \<open>The callback of \<^verbatim>\<open>flatMap\<close>, with \<^verbatim>\<open>seen\<close> threaded through.\<close>

fun uniqueTrips :: "string set \<Rightarrow> TripRecord list \<Rightarrow> EfficiencyTrip list" where
  "uniqueTrips seen [] = []"
| "uniqueTrips seen (record # records) =
     (if trip_trip_id record \<in> seen then uniqueTrips seen records
      else
        (let seen' = insert (trip_trip_id record) seen
         in case toEfficiencyTrip record 0 of
              Some trip \<Rightarrow> trip # uniqueTrips seen' records
            | None \<Rightarrow> uniqueTrips seen' records))"

text \<open>\<^verbatim>\<open>xs.slice(-n)\<close>; \<^verbatim>\<open>-0\<close> is \<^verbatim>\<open>0\<close>, so a limit of zero keeps everything.\<close>

definition slice_last :: "nat \<Rightarrow> 'a list \<Rightarrow> 'a list" where
  "slice_last n xs = (if n = 0 then xs else drop (length xs - n) xs)"

definition selectEfficiencyTrips ::
    "(string \<Rightarrow> string \<Rightarrow> int) \<Rightarrow> TripRecord list \<Rightarrow> string \<Rightarrow> nat \<Rightarrow> EfficiencyTrip list" where
  "selectEfficiencyTrips lc records vehicleId limit =
     (let own = js_sort (trip_before lc) (filter (\<lambda>trip. trip_vehicle_id trip = vehicleId) records);
          valid = uniqueTrips {} own
      in map (\<lambda>(trip, index). trip\<lparr>et_number := index + 1\<rparr>)
           (zip (slice_last limit valid) [0..<length (slice_last limit valid)]))"

record TripSummary =
  sum_count :: nat
  sum_totalPayload :: jsnum
  sum_totalFuel :: jsnum
  sum_efficiency :: "jsnum option"
  sum_fuelPerTonne :: "jsnum option"
  sum_averagePayload :: "jsnum option"
  sum_minPayload :: "jsnum option"
  sum_maxPayload :: "jsnum option"
  sum_best :: "EfficiencyTrip option"

definition total_of :: "('a \<Rightarrow> jsnum) \<Rightarrow> 'a list \<Rightarrow> jsnum" where
  "total_of f xs = foldl (\<lambda>sum x. sum + f x) 0 xs"

definition better_trip :: "EfficiencyTrip option \<Rightarrow> EfficiencyTrip \<Rightarrow> EfficiencyTrip option" where
  "better_trip best trip =
     (case best of None \<Rightarrow> Some trip
      | Some b \<Rightarrow> if et_efficiency b < et_efficiency trip then Some trip else best)"

definition summarizeTrips :: "EfficiencyTrip list \<Rightarrow> TripSummary" where
  "summarizeTrips trips =
     (let totalPayload = total_of et_payloadT trips;
          totalFuel = total_of et_fuelL trips;
          transportWork = total_of (\<lambda>trip. et_payloadT trip * et_distanceKm trip) trips
      in \<lparr>sum_count = length trips, sum_totalPayload = totalPayload, sum_totalFuel = totalFuel,
          sum_efficiency = (if 0 < totalFuel then Some (transportWork / totalFuel) else None),
          sum_fuelPerTonne = (if 0 < totalPayload then Some (totalFuel / totalPayload) else None),
          sum_averagePayload =
            (if trips \<noteq> [] then Some (totalPayload / Fin (of_nat (length trips))) else None),
          sum_minPayload = (if trips \<noteq> [] then Some (js_min_list (map et_payloadT trips)) else None),
          sum_maxPayload = (if trips \<noteq> [] then Some (js_max_list (map et_payloadT trips)) else None),
          sum_best = foldl better_trip None trips\<rparr>)"

section \<open>The axis\<close>

record EfficiencyScale =
  scale_min :: real
  scale_max :: real
  scale_ticks :: "real list"

text \<open>The finite values, as reals; the branch for none of them, and the one for some.\<close>

definition finite_values :: "jsnum list \<Rightarrow> real list" where
  "finite_values values = List.map_filter (\<lambda>n. case n of Fin r \<Rightarrow> Some r | _ \<Rightarrow> None) values"

definition scaleStep :: "real \<Rightarrow> real" where
  "scaleStep roughStep =
     (let magnitude = 10 powr of_int \<lfloor>log 10 (if roughStep = 0 then 1 else roughStep)\<rfloor>
      in case find (\<lambda>n. roughStep \<le> n) (map (\<lambda>n. n * magnitude) [1, 2, 2.5, 5, 10]) of
           Some step \<Rightarrow> step | None \<Rightarrow> magnitude * 10)"

definition efficiencyScale :: "jsnum list \<Rightarrow> EfficiencyScale" where
  "efficiencyScale values =
     (let finite = finite_values values
      in if finite = [] then \<lparr>scale_min = 0, scale_max = 20, scale_ticks = [0, 5, 10, 15, 20]\<rparr>
         else
           let low = Min (set finite);
               high = Max (set finite);
               padding = max ((high - low) * 0.18) 0.5;
               roughStep = (high - low + padding * 2) / 4;
               step = scaleStep roughStep;
               min = max 0 (of_int \<lfloor>(low - padding) / step\<rfloor> * step);
               max = of_int \<lceil>(high + padding) / step\<rceil> * step
           in \<lparr>scale_min = min, scale_max = max,
               scale_ticks = map (\<lambda>i. min + of_nat i * step)
                 [0..<nat \<lfloor>(max - min) / step + 1/2\<rfloor> + 1]\<rparr>)"

text \<open>The em dash, as its UTF-8 bytes.\<close>

definition em_dash :: string where
  "em_dash = map char_of [226, 128, 148 :: nat]"

definition formatValue :: "jsnum option \<Rightarrow> nat \<Rightarrow> string" where
  "formatValue val digits =
     (case val of Some v \<Rightarrow> if isFinite v then toFixed v digits else em_dash | None \<Rightarrow> em_dash)"

section \<open>Trips\<close>

definition positive :: "jsnum \<Rightarrow> bool" where
  "positive x \<longleftrightarrow> isFinite x \<and> 0 < x"

definition sound_trip :: "EfficiencyTrip \<Rightarrow> bool" where
  "sound_trip t \<longleftrightarrow> positive (et_payloadT t) \<and> positive (et_fuelL t) \<and> positive (et_distanceKm t) \<and>
     positive (et_efficiency t) \<and>
     et_efficiency t = et_payloadT t * et_distanceKm t / et_fuelL t \<and>
     isFinite (et_endedAtMs t) \<and> isFinite (et_durationMin t) \<and> 0 \<le> et_durationMin t \<and>
     0 \<le> et_idleMin t \<and> 0 \<le> et_avgSpeedKmh t"

lemma clamped_nonneg: "0 \<le> js_max 0 (if isFinite x then x / 60 else (0 :: jsnum))"
  and clamped_nonneg': "0 \<le> js_max 0 (if isFinite x then x else (0 :: jsnum))"
  by (cases x; simp)+

lemma toEfficiencyTrip_sound:
  assumes "toEfficiencyTrip r n = Some t"
  shows "sound_trip t \<and> et_id t = trip_trip_id r \<and> et_endedAtMs t = trip_end_time_ms r"
proof -
  from assms obtain p f d where
    pos: "trip_payload_tonnes r = Fin p" "trip_fuel_litres_est r = Fin f" "trip_distance_km r = Fin d"
      "0 < p" "0 < f" "0 < d"
    by (auto simp: toEfficiencyTrip_def Let_def isFinite_iff split: if_splits)
  from assms obtain c e where
    fin: "trip_cycle_duration_s r = Fin c" "0 \<le> c" "trip_end_time_ms r = Fin e"
    by (auto simp: toEfficiencyTrip_def Let_def isFinite_iff not_less split: if_splits)
  from assms pos fin have t: "t = \<lparr>et_id = trip_trip_id r, et_number = n, et_payloadT = Fin p,
      et_fuelL = Fin f, et_distanceKm = Fin d, et_efficiency = Fin (p * d / f),
      et_durationMin = Fin (c / 60),
      et_idleMin = js_max 0 (if isFinite (trip_idle_s r) then trip_idle_s r / 60 else 0),
      et_avgSpeedKmh = js_max 0 (if isFinite (trip_avg_speed_kmh r) then trip_avg_speed_kmh r else 0),
      et_endedAtMs = Fin e, et_source = trip_source r\<rparr>"
    by (simp add: toEfficiencyTrip_def Let_def split: if_splits)
  have "0 < p * d / f" using pos by simp
  with pos fin clamped_nonneg [of "trip_idle_s r"] clamped_nonneg' [of "trip_avg_speed_kmh r"]
  show ?thesis
    unfolding t by (simp add: sound_trip_def positive_def del: if_split)
qed

lemma uniqueTrips_facts:
  assumes "t \<in> set (uniqueTrips seen rs)"
  shows "\<exists>r \<in> set rs. toEfficiencyTrip r 0 = Some t \<and> trip_trip_id r \<notin> seen"
  using assms
proof (induction rs arbitrary: seen)
  case (Cons r rs)
  then show ?case
    by (fastforce simp: Let_def split: if_splits option.splits)
qed simp

lemma uniqueTrips_distinct: "distinct (map et_id (uniqueTrips seen rs))"
proof (induction rs arbitrary: seen)
  case (Cons r rs)
  have "et_id t \<noteq> trip_trip_id r" if "t \<in> set (uniqueTrips (insert (trip_trip_id r) seen) rs)" for t
    using uniqueTrips_facts [OF that] toEfficiencyTrip_sound by fastforce
  with Cons show ?case
    by (auto simp: Let_def dest!: toEfficiencyTrip_sound split: option.splits)
qed simp

lemma uniqueTrips_sorted:
  assumes "sorted_wrt (\<lambda>a b. trip_end_time_ms a \<le> trip_end_time_ms b) rs"
  shows "sorted_wrt (\<lambda>a b. et_endedAtMs a \<le> et_endedAtMs b) (uniqueTrips seen rs)"
  using assms
proof (induction rs arbitrary: seen)
  case (Cons r rs)
  have "et_endedAtMs t \<le> et_endedAtMs t'"
    if "toEfficiencyTrip r 0 = Some t" "t' \<in> set (uniqueTrips s rs)" for t t' s
    using uniqueTrips_facts [OF that(2)] toEfficiencyTrip_sound [OF that(1)] toEfficiencyTrip_sound
      Cons.prems by fastforce
  with Cons show ?case by (auto simp: Let_def split: option.splits)
qed simp

section \<open>The order of trips\<close>

lemma trip_before_finite:
  assumes "isFinite (trip_end_time_ms a)" "isFinite (trip_end_time_ms b)"
  shows "trip_before lc a b \<longleftrightarrow> trip_end_time_ms a < trip_end_time_ms b \<or>
    trip_end_time_ms a = trip_end_time_ms b \<and> lc (trip_trip_id a) (trip_trip_id b) < 0"
  using assms by (auto simp: trip_before_def Let_def isFinite_iff)

sublocale collation < trip_order: comparator "\<lambda>t. isFinite (trip_end_time_ms t)" "trip_before lc"
proof unfold_locales
  fix x y :: TripRecord
  assume "isFinite (trip_end_time_ms x)" "isFinite (trip_end_time_ms y)" "trip_before lc x y"
  then show "\<not> trip_before lc y x"
    using lc_asym by (auto simp: trip_before_finite) (auto simp: isFinite_iff)
next
  fix x y z :: TripRecord
  assume fin: "isFinite (trip_end_time_ms x)" "isFinite (trip_end_time_ms y)"
      "isFinite (trip_end_time_ms z)"
    and "\<not> trip_before lc x y" "\<not> trip_before lc y z"
  with lc_trans [of "trip_trip_id x" "trip_trip_id y" "trip_trip_id z"]
  show "\<not> trip_before lc x z"
    by (auto simp: trip_before_finite) (auto simp: isFinite_iff)
qed

context collation
begin

lemma trips_sorted:
  assumes "\<forall>t \<in> set ts. isFinite (trip_end_time_ms t)"
  shows "sorted_wrt (\<lambda>a b. trip_end_time_ms a \<le> trip_end_time_ms b) (js_sort (trip_before lc) ts)"
proof (rule sorted_wrt_mono_rel [OF _ trip_order.sort_sorted [OF assms]])
  fix a b assume "a \<in> set (js_sort (trip_before lc) ts)" "b \<in> set (js_sort (trip_before lc) ts)"
    and "\<not> trip_before lc b a"
  with assms have "isFinite (trip_end_time_ms a)" "isFinite (trip_end_time_ms b)"
    "\<not> trip_end_time_ms b < trip_end_time_ms a"
    by (simp_all add: trip_before_finite)
  then show "trip_end_time_ms a \<le> trip_end_time_ms b" by (auto simp: isFinite_iff)
qed

end

lemma slice_last_suffix: "\<exists>pre. xs = pre @ slice_last n xs"
  by (metis append_Nil append_take_drop_id slice_last_def)

lemma numbered_map:
  "map f (map (\<lambda>(t, i). t\<lparr>et_number := i + 1\<rparr>) (zip ts [0..<length ts])) = map f ts"
  if "\<And>t n. f (t\<lparr>et_number := n\<rparr>) = f t"
  by (rule nth_equalityI) (simp_all add: that)

lemma numbered_numbers:
  "map et_number (map (\<lambda>(t, i). t\<lparr>et_number := i + 1\<rparr>) (zip ts [0..<length ts])) = [1..<Suc (length ts)]"
  by (rule nth_equalityI) (simp_all del: upt_Suc)

lemma list_all_map_id: "list_all P xs \<longleftrightarrow> list_all (\<lambda>b. b) (map P xs)"
  by (simp add: list.pred_map comp_def)

section \<open>Properties\<close>

text \<open>
  The trips of the chart: for trip records with finite end times and a positive limit, the
  selection has at most \<open>limit\<close> trips, numbered from 1, each once, in order of time, each a
  record of the requested vehicle, with positive finite payload, fuel, distance and
  efficiency (tonne-kilometres per litre) and no negative duration, idle time or speed.
\<close>

theorem selected_trips_sound:
  assumes "collation lc" and "list_all (\<lambda>r. isFinite (trip_end_time_ms r)) records" and "0 < limit"
  shows "let ts = selectEfficiencyTrips lc records vehicle limit in
    length ts \<le> limit \<and> map et_number ts = [1..<Suc (length ts)] \<and> distinct (map et_id ts) \<and>
    sorted_wrt (\<lambda>a b. et_endedAtMs a \<le> et_endedAtMs b) ts \<and> list_all sound_trip ts \<and>
    list_all (\<lambda>t. list_ex (\<lambda>r. trip_trip_id r = et_id t \<and> trip_vehicle_id r = vehicle) records) ts"
proof -
  let ?own = "js_sort (trip_before lc) (filter (\<lambda>r. trip_vehicle_id r = vehicle) records)"
  let ?valid = "uniqueTrips {} ?own"
  let ?last = "slice_last limit ?valid"
  let ?ts = "selectEfficiencyTrips lc records vehicle limit"
  obtain pre where pre: "?valid = pre @ ?last" using slice_last_suffix by blast
  have ts: "?ts = map (\<lambda>(t, i). t\<lparr>et_number := i + 1\<rparr>) (zip ?last [0..<length ?last])"
    by (simp add: selectEfficiencyTrips_def Let_def)
  have fields: "map et_id ?ts = map et_id ?last" "map et_endedAtMs ?ts = map et_endedAtMs ?last"
    "map sound_trip ?ts = map sound_trip ?last"
    unfolding ts by (rule numbered_map, simp add: sound_trip_def)+
  have "length ?last \<le> limit" using assms(3) by (simp add: slice_last_def)
  moreover have len: "length ?ts = length ?last" by (simp add: ts)
  moreover have "map et_number ?ts = [1..<Suc (length ?ts)]"
    unfolding len unfolding ts by (rule numbered_numbers)
  moreover have "distinct (map et_id ?ts)"
    using uniqueTrips_distinct [of "{}" ?own] pre unfolding fields(1)
    by (metis distinct_append map_append)
  moreover have "sorted_wrt (\<lambda>a b. et_endedAtMs a \<le> et_endedAtMs b) ?ts"
  proof -
    have "\<forall>r \<in> set (filter (\<lambda>r. trip_vehicle_id r = vehicle) records). isFinite (trip_end_time_ms r)"
      using assms(2) by (simp add: list_all_iff)
    from uniqueTrips_sorted [OF collation.trips_sorted [OF assms(1) this], of "{}"]
    have "sorted_wrt (\<lambda>a b. et_endedAtMs a \<le> et_endedAtMs b) ?last"
      by (metis pre sorted_wrt_append)
    then have "sorted_wrt (\<le>) (map et_endedAtMs ?last)" by (simp add: sorted_wrt_map)
    then have "sorted_wrt (\<le>) (map et_endedAtMs ?ts)" by (simp only: fields(2))
    then show ?thesis by (simp add: sorted_wrt_map)
  qed
  moreover have facts: "sound_trip t \<and>
      list_ex (\<lambda>r. trip_trip_id r = et_id t \<and> trip_vehicle_id r = vehicle) records"
    if "t \<in> set ?last" for t
  proof -
    have "t \<in> set ?valid" using that pre by (metis Un_iff set_append)
    from uniqueTrips_facts [OF this] obtain r where
      "r \<in> set ?own" "toEfficiencyTrip r 0 = Some t" by blast
    with toEfficiencyTrip_sound show ?thesis by (fastforce simp: list_ex_iff)
  qed
  then have "list_all sound_trip ?last" by (simp add: list_all_iff)
  then have "list_all sound_trip ?ts"
    by (subst list_all_map_id, subst fields(3), subst list_all_map_id [symmetric])
  moreover have "list_all (\<lambda>i. list_ex (\<lambda>r. trip_trip_id r = i \<and> trip_vehicle_id r = vehicle) records)
      (map et_id ?ts)"
    unfolding fields(1) using facts by (simp add: list_all_iff)
  then have "list_all (\<lambda>t. list_ex (\<lambda>r. trip_trip_id r = et_id t \<and> trip_vehicle_id r = vehicle) records) ?ts"
    by (simp add: list.pred_map comp_def)
  ultimately show ?thesis by (simp add: Let_def)
qed

theorem selected_trips_sound_witness:
  "list_all sound_trip (selectEfficiencyTrips codePointCompare
     [sampleTrip ''b'' 2, sampleTrip ''a'' 1, sampleTrip ''b'' 3] ''DUMPER_01'' 2)"
  using selected_trips_sound [OF code_points.collation_axioms,
      of "[sampleTrip ''b'' 2, sampleTrip ''a'' 1, sampleTrip ''b'' 3]" 2 "''DUMPER_01''"]
  by (simp add: sampleTrip_def Let_def)

section \<open>Means of the selected trips\<close>

fun real_of :: "jsnum \<Rightarrow> real" where
  "real_of (Fin r) = r"
| "real_of _ = 0"

lemma total_of_Fin:
  assumes "\<forall>x \<in> set xs. isFinite (f x)"
  shows "total_of f xs = Fin (\<Sum>x \<leftarrow> xs. real_of (f x))"
proof -
  have "foldl (\<lambda>sum x. sum + f x) (Fin a) xs = Fin (a + (\<Sum>x \<leftarrow> xs. real_of (f x)))" for a
    using assms by (induction xs arbitrary: a) (auto simp: isFinite_iff)
  from this [of 0] show ?thesis by (simp add: total_of_def)
qed

lemma weighted_sum_bounds:
  fixes v w :: "'a \<Rightarrow> real"
  assumes "\<forall>x \<in> set xs. 0 \<le> w x \<and> lo \<le> v x \<and> v x \<le> hi"
  shows "lo * (\<Sum>x \<leftarrow> xs. w x) \<le> (\<Sum>x \<leftarrow> xs. v x * w x) \<and>
    (\<Sum>x \<leftarrow> xs. v x * w x) \<le> hi * (\<Sum>x \<leftarrow> xs. w x)"
  using assms
proof (induction xs)
  case (Cons x xs)
  then have "lo * w x \<le> v x * w x" "v x * w x \<le> hi * w x" by (simp_all add: mult_right_mono)
  with Cons show ?case by (simp add: distrib_left)
qed simp

lemma sum_list_positive: "\<forall>x \<in> set xs. 0 < (w x :: real) \<Longrightarrow> xs \<noteq> [] \<Longrightarrow> 0 < (\<Sum>x \<leftarrow> xs. w x)"
proof (induction xs)
  case (Cons x xs)
  then show ?case by (cases "xs = []") (simp_all add: add_pos_pos)
qed simp

lemma weighted_mean:
  fixes v w :: "'a \<Rightarrow> real"
  assumes "\<forall>x \<in> set xs. 0 < w x" and "xs \<noteq> []"
  shows "\<exists>a \<in> set xs. \<exists>b \<in> set xs. v a \<le> (\<Sum>x \<leftarrow> xs. v x * w x) / (\<Sum>x \<leftarrow> xs. w x) \<and>
    (\<Sum>x \<leftarrow> xs. v x * w x) / (\<Sum>x \<leftarrow> xs. w x) \<le> v b"
proof -
  have "Min (v ` set xs) \<in> v ` set xs" "Max (v ` set xs) \<in> v ` set xs" using assms(2) by simp_all
  then obtain a b where ab: "a \<in> set xs" "b \<in> set xs" "v a = Min (v ` set xs)" "v b = Max (v ` set xs)"
    by (metis imageE)
  have "\<forall>x \<in> set xs. 0 \<le> w x \<and> v a \<le> v x \<and> v x \<le> v b"
    unfolding ab(3,4) using assms(1) by (simp add: less_imp_le)
  from weighted_sum_bounds [OF this] sum_list_positive [OF assms]
  have "v a \<le> (\<Sum>x \<leftarrow> xs. v x * w x) / (\<Sum>x \<leftarrow> xs. w x)"
    "(\<Sum>x \<leftarrow> xs. v x * w x) / (\<Sum>x \<leftarrow> xs. w x) \<le> v b"
    by (simp_all add: pos_le_divide_eq pos_divide_le_eq)
  with ab(1,2) show ?thesis by blast
qed

lemma best_from:
  assumes "\<forall>t \<in> insert b0 (set ts). isFinite (et_efficiency t)"
  shows "\<exists>b \<in> insert b0 (set ts). foldl better_trip (Some b0) ts = Some b \<and>
    (\<forall>t \<in> insert b0 (set ts). et_efficiency t \<le> et_efficiency b)"
  using assms
proof (induction ts arbitrary: b0)
  case Nil
  then show ?case by (auto simp: isFinite_iff)
next
  case (Cons t ts)
  define m where "m = (if et_efficiency b0 < et_efficiency t then t else b0)"
  have m: "better_trip (Some b0) t = Some m" "m \<in> {b0, t}"
    "et_efficiency t \<le> et_efficiency m" "et_efficiency b0 \<le> et_efficiency m"
    using Cons.prems by (auto simp: m_def better_trip_def isFinite_iff)
  with Cons.prems have "\<forall>t \<in> insert m (set ts). isFinite (et_efficiency t)" by auto
  from Cons.IH [OF this] obtain b where b: "b \<in> insert m (set ts)"
    "foldl better_trip (Some m) ts = Some b" "\<forall>t \<in> insert m (set ts). et_efficiency t \<le> et_efficiency b"
    by blast
  with m jsnum_le_trans have "\<forall>t' \<in> insert b0 (set (t # ts)). et_efficiency t' \<le> et_efficiency b"
    by (metis insertE insertI1 insertI2 list.simps(15))
  moreover have "b \<in> insert b0 (set (t # ts))" using b(1) m(2) by auto
  ultimately show ?case using b(2) m(1) by auto
qed

lemma best_trip:
  assumes "\<forall>t \<in> set ts. isFinite (et_efficiency t)" and "ts \<noteq> []"
  shows "\<exists>b \<in> set ts. foldl better_trip None ts = Some b \<and>
    (\<forall>t \<in> set ts. et_efficiency t \<le> et_efficiency b)"
proof (cases ts)
  case (Cons b0 bs)
  with best_from [of b0 bs] assms show ?thesis by (simp add: better_trip_def [of None])
qed (simp add: assms(2))

text \<open>
  What the summary of the selected trips says is a mean of them: for trips as the selection
  yields them, the fleet efficiency lies between the efficiencies of two of the trips, the average
  payload between the least and the greatest payload, fuel per tonne is positive, and the best
  trip is one of them that no other surpasses.
\<close>

theorem summary_means:
  assumes "list_all sound_trip ts" and "ts \<noteq> []"
  shows "let s = summarizeTrips ts in sum_count s = length ts \<and>
    (\<exists>e. sum_efficiency s = Some e \<and>
       (\<exists>a \<in> set ts. \<exists>b \<in> set ts. et_efficiency a \<le> e \<and> e \<le> et_efficiency b)) \<and>
    (\<exists>lo avg hi. sum_minPayload s = Some lo \<and> sum_averagePayload s = Some avg \<and>
       sum_maxPayload s = Some hi \<and> 0 < lo \<and> lo \<le> avg \<and> avg \<le> hi) \<and>
    (\<exists>f. sum_fuelPerTonne s = Some f \<and> 0 < f) \<and>
    (\<exists>b \<in> set ts. sum_best s = Some b \<and> (\<forall>t \<in> set ts. et_efficiency t \<le> et_efficiency b))"
proof -
  define P F D E where defs: "P = (\<lambda>t :: EfficiencyTrip. real_of (et_payloadT t))" "F = (\<lambda>t :: EfficiencyTrip. real_of (et_fuelL t))"
    "D = (\<lambda>t :: EfficiencyTrip. real_of (et_distanceKm t))" "E = (\<lambda>t :: EfficiencyTrip. real_of (et_efficiency t))"
  have fin: "et_payloadT t = Fin (P t) \<and> et_fuelL t = Fin (F t) \<and> et_distanceKm t = Fin (D t) \<and>
      et_efficiency t = Fin (E t) \<and> 0 < P t \<and> 0 < F t \<and> 0 < D t \<and> E t * F t = P t * D t"
    if "t \<in> set ts" for t
  proof -
    from assms(1) that have sound: "sound_trip t" by (simp add: list_all_iff)
    then obtain p f d where "et_payloadT t = Fin p" "et_fuelL t = Fin f" "et_distanceKm t = Fin d"
      unfolding sound_trip_def positive_def isFinite_iff by blast
    with sound show ?thesis by (simp add: defs sound_trip_def positive_def)
  qed
  then have totals: "total_of et_payloadT ts = Fin (\<Sum>t \<leftarrow> ts. P t)" "total_of et_fuelL ts = Fin (\<Sum>t \<leftarrow> ts. F t)"
    "total_of (\<lambda>t. et_payloadT t * et_distanceKm t) ts = Fin (\<Sum>t \<leftarrow> ts. E t * F t)"
    by (subst total_of_Fin; simp cong: map_cong)+
  have "map et_payloadT ts = map Fin (map P ts)" using fin by simp
  then have extremes: "js_min_list (map et_payloadT ts) = Fin (Min (P ` set ts))"
    "js_max_list (map et_payloadT ts) = Fin (Max (P ` set ts))"
    using assms(2) js_min_list_Fin [of "map P ts"] js_max_list_Fin [of "map P ts"]
    by (simp_all del: map_map)
  have sums: "0 < (\<Sum>t \<leftarrow> ts. P t)" "0 < (\<Sum>t \<leftarrow> ts. F t)"
    using fin assms(2) by (simp_all add: sum_list_positive)
  obtain a b where e: "a \<in> set ts" "b \<in> set ts"
    "E a \<le> (\<Sum>t \<leftarrow> ts. E t * F t) / (\<Sum>t \<leftarrow> ts. F t)" "(\<Sum>t \<leftarrow> ts. E t * F t) / (\<Sum>t \<leftarrow> ts. F t) \<le> E b"
    using weighted_mean [of ts F E] fin assms(2) by blast
  obtain c d where p: "c \<in> set ts" "d \<in> set ts" "P c \<le> (\<Sum>t \<leftarrow> ts. P t) / length ts"
    "(\<Sum>t \<leftarrow> ts. P t) / length ts \<le> P d"
    using weighted_mean [of ts "\<lambda>_. 1" P] assms(2) by (auto simp: sum_list_triv)
  have lo: "0 < Min (P ` set ts)" using assms(2) fin by simp
  have mean: "Min (P ` set ts) \<le> (\<Sum>t \<leftarrow> ts. P t) / length ts" "(\<Sum>t \<leftarrow> ts. P t) / length ts \<le> Max (P ` set ts)"
    using p by (meson List.finite_set Max_ge Min_le finite_imageI imageI order_trans)+
  have "\<forall>t \<in> set ts. isFinite (et_efficiency t)" using fin by simp
  moreover have "\<exists>a \<in> set ts. et_efficiency a \<le> Fin ((\<Sum>t \<leftarrow> ts. E t * F t) / (\<Sum>t \<leftarrow> ts. F t))"
    "\<exists>b \<in> set ts. Fin ((\<Sum>t \<leftarrow> ts. E t * F t) / (\<Sum>t \<leftarrow> ts. F t)) \<le> et_efficiency b"
    using e fin by (metis Fin_le)+
  ultimately show ?thesis
    using best_trip [of ts] totals extremes sums lo mean assms(2)
    by (auto simp: summarizeTrips_def Let_def)
qed

theorem summary_means_witness:
  "\<exists>f. sum_fuelPerTonne (summarizeTrips [the (toEfficiencyTrip (sampleTrip ''a'' 1) 0)]) = Some f \<and> 0 < f"
proof -
  have "list_all sound_trip [the (toEfficiencyTrip (sampleTrip ''a'' 1) 0)]"
    by (simp add: sampleTrip_def toEfficiencyTrip_def isValidDate_def Let_def sound_trip_def positive_def)
  from summary_means [OF this] show ?thesis by (simp add: Let_def)
qed


section \<open>The axis covers the values\<close>

lemma scaleStep_bound:
  assumes "0 < rough"
  shows "rough \<le> scaleStep rough"
proof -
  let ?m = "10 powr of_int \<lfloor>log 10 rough\<rfloor> :: real"
  have "log 10 rough < of_int \<lfloor>log 10 rough\<rfloor> + 1" by linarith
  then have "10 powr log 10 rough < 10 powr (of_int \<lfloor>log 10 rough\<rfloor> + 1)" by simp
  then have "rough < 10 powr (of_int \<lfloor>log 10 rough\<rfloor> + 1)" using assms by simp
  then have "rough \<le> 10 * ?m" by (simp add: powr_add)
  then show ?thesis
    using assms by (simp add: scaleStep_def Let_def)
qed

lemma floor_add_half: "\<lfloor>of_int n + 1 / 2 :: real\<rfloor> = n"
  by linarith

text \<open>The grid that rounds an interval outwards to multiples of a step, cut at zero.\<close>

lemma outward_grid:
  fixes lo hi step :: real
  assumes "0 < step" and "0 < hi" and "lo < hi" and "hi - lo \<le> 4 * step"
  defines "k \<equiv> max 0 \<lfloor>lo / step\<rfloor>" and "K \<equiv> \<lceil>hi / step\<rceil>"
  shows "max 0 (of_int \<lfloor>lo / step\<rfloor> * step) = of_int k * step"
    and "1 \<le> K - k" and "K - k \<le> 5"
    and "of_int k * step \<le> max 0 lo" and "hi \<le> of_int K * step"
proof -
  show "max 0 (of_int \<lfloor>lo / step\<rfloor> * step) = of_int k * step"
    using assms(1) by (simp add: k_def max_def mult_le_0_iff zero_le_mult_iff)
  have "lo / step < hi / step" "0 < hi / step" using assms(1-3) by (simp_all add: divide_strict_right_mono)
  then show "1 \<le> K - k" unfolding k_def K_def by linarith
  have "hi / step - lo / step \<le> 4" using assms(1,4) by (simp add: field_simps)
  then show "K - k \<le> 5" unfolding k_def K_def by linarith
  have "of_int \<lfloor>lo / step\<rfloor> * step \<le> lo"
    using assms(1) by (metis floor_divide_lower)
  then show "of_int k * step \<le> max 0 lo"
    using assms(1) by (auto simp: k_def max_def)
  show "hi \<le> of_int K * step"
    using assms(1) unfolding K_def by (metis ceiling_divide_upper)
qed

text \<open>
  The axis covers what it shows: for values of which at least one is finite and the finite ones
  are not negative, the axis starts at zero or above and contains every finite value, its ticks
  run from its lower to its upper end in equal positive steps, and there are two to six of them.
\<close>

theorem axis_covers:
  assumes "finite_values values \<noteq> []" and "\<forall>v \<in> set (finite_values values). 0 \<le> v"
  shows "let s = efficiencyScale values in
    0 \<le> scale_min s \<and> (\<forall>v \<in> set (finite_values values). scale_min s \<le> v \<and> v \<le> scale_max s) \<and>
    2 \<le> length (scale_ticks s) \<and> length (scale_ticks s) \<le> 6 \<and>
    hd (scale_ticks s) = scale_min s \<and> last (scale_ticks s) = scale_max s \<and>
    (\<exists>step > 0. scale_ticks s = map (\<lambda>i. scale_min s + of_nat i * step) [0..<length (scale_ticks s)])"
proof -
  let ?V = "set (finite_values values)"
  define low high where "low = Min ?V" and "high = Max ?V"
  define pad where "pad = max ((high - low) * 0.18) 0.5"
  define step where "step = scaleStep ((high - low + pad * 2) / 4)"
  have V: "v \<in> ?V \<Longrightarrow> low \<le> v \<and> v \<le> high" for v by (simp add: low_def high_def)
  have "low \<in> ?V" "high \<in> ?V" using assms(1) by (simp_all add: low_def high_def)
  with V assms(2) have lh: "0 \<le> low" "low \<le> high" by blast+
  have pad: "0.5 \<le> pad" by (simp add: pad_def)
  with lh have rough: "0 < (high - low + pad * 2) / 4" by simp
  from this scaleStep_bound [OF this, folded step_def] have step: "0 < step" "(high + pad) - (low - pad) \<le> 4 * step"
    by (simp_all add: field_simps)
  define k where "k = max 0 \<lfloor>(low - pad) / step\<rfloor>"
  define K where "K = \<lceil>(high + pad) / step\<rceil>"
  have "0 < high + pad" "low - pad < high + pad" using lh pad by simp_all
  note grid = outward_grid [OF step(1) this step(2), folded k_def K_def]
  have n: "(of_int K * step - of_int k * step) / step = of_int (K - k)"
    using step(1) by (simp add: field_simps)
  have s: "efficiencyScale values = \<lparr>scale_min = of_int k * step, scale_max = of_int K * step,
      scale_ticks = map (\<lambda>i. of_int k * step + of_nat i * step) [0..<nat (K - k) + 1]\<rparr>"
    unfolding efficiencyScale_def Let_def low_def [symmetric] high_def [symmetric]
      pad_def [symmetric] step_def [symmetric] K_def [symmetric] grid(1) n
    using assms(1) by (simp only: if_False) (simp add: floor_add_half del: upt_Suc)
  have len: "length (scale_ticks (efficiencyScale values)) = nat (K - k) + 1" by (simp add: s)
  have "last (scale_ticks (efficiencyScale values)) = of_int k * step + of_nat (nat (K - k)) * step"
    by (simp add: s)
  also have "\<dots> = of_int K * step" using grid(2) by (simp add: algebra_simps)
  finally have last: "last (scale_ticks (efficiencyScale values)) = of_int K * step" .
  have "0 \<le> of_int k * step" using step(1) by (simp add: k_def)
  moreover have "of_int k * step \<le> v \<and> v \<le> of_int K * step" if "v \<in> ?V" for v
    using V [OF that] grid(4,5) pad lh by (auto simp: max_def split: if_splits)
  ultimately show ?thesis
    using grid(2,3) step(1) last len
    by (simp add: s hd_map del: upt_Suc) (auto simp: upt_conv_Cons)
qed

theorem axis_covers_witness:
  "length (scale_ticks (efficiencyScale [Fin 12, NaN, Fin 15])) \<le> 6"
proof -
  have "finite_values [Fin 12, NaN, Fin 15] = [12, 15]"
    by (simp add: finite_values_def List.map_filter_def)
  with axis_covers [of "[Fin 12, NaN, Fin 15]"] show ?thesis by (simp add: Let_def)
qed

end
