(* ===== verification/EfficiencyHook.thy ===== *)
theory EfficiencyHook
  imports MineApi
begin

text \<open>
  The trips of a vehicle: the hook \<^verbatim>\<open>frontend/src/supervisor/useHaulageEfficiencyData.ts\<close> as a machine.
  Each run of its effect has an abort controller, a flag for the request in flight and two timers; a
  request settles in an event of its own, in any order and also after its effect was cleaned up. A
  change of the arguments runs the effect again. \<open>demo\<close> is the build constant.
\<close>

section \<open>The hook\<close>

record EfficiencyDataState =
  eff_history :: "TripHistoryResponse option"
  eff_updatedAtMs :: "jsnum option"
  eff_loading :: bool
  eff_error :: bool

definition EMPTY_DATA :: EfficiencyDataState where
  "EMPTY_DATA = \<lparr>eff_history = None, eff_updatedAtMs = None, eff_loading = True, eff_error = False\<rparr>"

definition IDLE_DATA :: EfficiencyDataState where
  "IDLE_DATA = \<lparr>eff_history = None, eff_updatedAtMs = None, eff_loading = False, eff_error = False\<rparr>"

record HookArgs =
  arg_vehicleId :: string
  arg_limit :: nat
  arg_mode :: "DataMode option"

fun mode_text :: "DataMode option \<Rightarrow> string" where
  "mode_text None = ''undefined''"
| "mode_text (Some LIVE) = ''LIVE''"
| "mode_text (Some SIMULATED) = ''SIMULATED''"
| "mode_text (Some REPLAY) = ''REPLAY''"

definition requestKey :: "HookArgs \<Rightarrow> string" where
  "requestKey a = mode_text (arg_mode a) @ '':'' @ arg_vehicleId a @ '':'' @ nat_str (arg_limit a)"

text \<open>One run of the effect, with the arguments it closed over.\<close>

record EffectRun =
  run_args :: HookArgs
  run_aborted :: bool
  run_inFlight :: bool
  run_initialTimer :: bool
  run_refreshTimer :: bool

text \<open>The runs so far; the last one is the current one, unless the vehicle is empty or it was cleaned up.\<close>

record EfficiencyHook =
  efh_args :: HookArgs
  efh_key :: string
  efh_data :: EfficiencyDataState
  efh_runs :: "EffectRun list"

definition cleanupRun :: "EffectRun \<Rightarrow> EffectRun" where
  "cleanupRun run = run\<lparr>run_aborted := True, run_initialTimer := False, run_refreshTimer := False\<rparr>"

definition effectRun :: "bool \<Rightarrow> HookArgs \<Rightarrow> EffectRun" where
  "effectRun demo a = \<lparr>run_args = a, run_aborted = False, run_inFlight = False, run_initialTimer = True,
     run_refreshTimer = \<not> demo\<rparr>"

definition startEffect :: "bool \<Rightarrow> EfficiencyHook \<Rightarrow> EfficiencyHook" where
  "startEffect demo h =
     (if arg_vehicleId (efh_args h) = '''' then h else h\<lparr>efh_runs := efh_runs h @ [effectRun demo (efh_args h)]\<rparr>)"

definition mountHook :: "bool \<Rightarrow> HookArgs \<Rightarrow> EfficiencyHook" where
  "mountHook demo a = startEffect demo \<lparr>efh_args = a, efh_key = '''', efh_data = EMPTY_DATA, efh_runs = []\<rparr>"

text \<open>A render with other arguments cleans up the last run and starts another.\<close>

definition renderHook :: "bool \<Rightarrow> HookArgs \<Rightarrow> EfficiencyHook \<Rightarrow> EfficiencyHook" where
  "renderHook demo a h =
     (if arg_vehicleId a = arg_vehicleId (efh_args h) \<and> arg_limit a = arg_limit (efh_args h) \<and>
         requestKey a = requestKey (efh_args h)
      then h\<lparr>efh_args := a\<rparr>
      else startEffect demo (h\<lparr>efh_args := a, efh_runs := map cleanupRun (efh_runs h)\<rparr>))"

definition unmountHook :: "EfficiencyHook \<Rightarrow> EfficiencyHook" where
  "unmountHook h = h\<lparr>efh_runs := map cleanupRun (efh_runs h)\<rparr>"

text \<open>\<^verbatim>\<open>load\<close> up to its request, from one of the timers; the interval stays, the timeout does not.\<close>

definition fireTimer :: "nat \<Rightarrow> bool \<Rightarrow> EfficiencyHook \<Rightarrow> EfficiencyHook" where
  "fireTimer n initial h =
     (if n < length (efh_runs h) \<and>
         (if initial then run_initialTimer (efh_runs h ! n) else run_refreshTimer (efh_runs h ! n))
      then h\<lparr>efh_runs := (efh_runs h)[n := (efh_runs h ! n)
             \<lparr>run_initialTimer := (run_initialTimer (efh_runs h ! n) \<and> \<not> initial), run_inFlight := True\<rparr>]\<rparr>
      else h)"

text \<open>The rest of \<^verbatim>\<open>load\<close>, when the request of run \<open>n\<close> settles at time \<open>now\<close>.\<close>

definition settleLoad :: "nat \<Rightarrow> (string + TripHistoryResponse) \<Rightarrow> jsnum \<Rightarrow> EfficiencyHook \<Rightarrow> EfficiencyHook" where
  "settleLoad n result now h =
     (if n < length (efh_runs h) \<and> run_inFlight (efh_runs h ! n) then
        let run = efh_runs h ! n; key = requestKey (run_args run);
            h' = h\<lparr>efh_runs := (efh_runs h)[n := run\<lparr>run_inFlight := False\<rparr>]\<rparr>
        in if run_aborted run then h'
           else case result of
             Inr history \<Rightarrow> h'\<lparr>efh_key := key, efh_data :=
               \<lparr>eff_history = Some history, eff_updatedAtMs = Some now, eff_loading = False, eff_error = False\<rparr>\<rparr>
           | Inl _ \<Rightarrow> h'\<lparr>efh_key := key, efh_data :=
               (if efh_key h = key then efh_data h else EMPTY_DATA)\<lparr>eff_loading := False, eff_error := True\<rparr>\<rparr>
      else h)"

text \<open>What the hook returns to the page.\<close>

definition efficiencyView :: "EfficiencyHook \<Rightarrow> EfficiencyDataState" where
  "efficiencyView h =
     (if arg_vehicleId (efh_args h) = '''' then IDLE_DATA
      else if efh_key h = requestKey (efh_args h) then efh_data h else EMPTY_DATA)"

section \<open>The hook as a machine\<close>

datatype EfficiencyEvent =
  Rendered HookArgs
| InitialTimerFired nat
| RefreshTimerFired nat
| LoadSettled nat HookArgs "string + TripHistoryResponse" jsnum
| HookUnmounted

text \<open>A settled load names the arguments of its request; another one is no event of this run.\<close>

fun efficiency_step :: "bool \<Rightarrow> EfficiencyEvent \<Rightarrow> EfficiencyHook \<Rightarrow> EfficiencyHook" where
  "efficiency_step demo (Rendered a) h = renderHook demo a h"
| "efficiency_step demo (InitialTimerFired n) h = fireTimer n True h"
| "efficiency_step demo (RefreshTimerFired n) h = fireTimer n False h"
| "efficiency_step demo (LoadSettled n a result now) h =
     (if n < length (efh_runs h) \<and> run_args (efh_runs h ! n) = a then settleLoad n result now h else h)"
| "efficiency_step demo HookUnmounted h = unmountHook h"

definition efficiency_run :: "bool \<Rightarrow> HookArgs \<Rightarrow> EfficiencyEvent list \<Rightarrow> EfficiencyHook" where
  "efficiency_run demo a es = fold (efficiency_step demo) es (mountHook demo a)"

text \<open>
  The contract with the backend: an answer to a request satisfies some relation \<open>belongs\<close> to the
  vehicle and the limit that were asked for. The invariant: the data kept under a key belong to
  every request with that key.
\<close>

fun answers_request :: "(string \<Rightarrow> nat \<Rightarrow> TripHistoryResponse \<Rightarrow> bool) \<Rightarrow> EfficiencyEvent \<Rightarrow> bool" where
  "answers_request belongs (LoadSettled n a (Inr history) now) = belongs (arg_vehicleId a) (arg_limit a) history"
| "answers_request belongs _ = True"

definition data_current :: "(string \<Rightarrow> nat \<Rightarrow> TripHistoryResponse \<Rightarrow> bool) \<Rightarrow> EfficiencyHook \<Rightarrow> bool" where
  "data_current belongs h \<longleftrightarrow>
     (\<forall>a history. efh_key h = requestKey a \<and> eff_history (efh_data h) = Some history \<longrightarrow>
        belongs (arg_vehicleId a) (arg_limit a) history)"

section \<open>Keys tell requests apart\<close>

lemma mode_text_no_colon: "CHR '':'' \<notin> set (mode_text m)"
  by (cases m rule: mode_text.cases) simp_all

lemma split_first_colon:
  assumes "u @ CHR '':'' # s = v @ CHR '':'' # t" "CHR '':'' \<notin> set u" "CHR '':'' \<notin> set v"
  shows "u = v \<and> s = t"
proof -
  have "takeWhile (\<lambda>c. c \<noteq> CHR '':'') (w @ CHR '':'' # r) = w" if "CHR '':'' \<notin> set w" for w r
    using that by (subst takeWhile_append2) auto
  with assms have "u = v" by metis
  with assms(1) show ?thesis by simp
qed

lemma requestKey_inj:
  assumes "requestKey a = requestKey b"
  shows "arg_vehicleId a = arg_vehicleId b \<and> arg_limit a = arg_limit b"
proof -
  have rest: "arg_vehicleId a @ CHR '':'' # nat_str (arg_limit a) = arg_vehicleId b @ CHR '':'' # nat_str (arg_limit b)"
    using split_first_colon [of "mode_text (arg_mode a)" _ "mode_text (arg_mode b)"] assms mode_text_no_colon
    by (simp add: requestKey_def)
  then have "rev (nat_str (arg_limit a)) @ CHR '':'' # rev (arg_vehicleId a) =
      rev (nat_str (arg_limit b)) @ CHR '':'' # rev (arg_vehicleId b)"
    by (metis rev_append rev.simps(2) append.assoc append_Cons append_Nil)
  from split_first_colon [OF this] have "nat_str (arg_limit a) = nat_str (arg_limit b)"
    "arg_vehicleId a = arg_vehicleId b"
    using nat_str_no_sign(2) by (simp_all)
  then show ?thesis using nat_str_inj by blast
qed

lemma requestKey_nonempty: "requestKey a \<noteq> []"
  by (simp add: requestKey_def)

section \<open>The page shows the trips of its vehicle\<close>

lemma settleLoad_current:
  assumes "data_current belongs h"
    and "\<And>history. result = Inr history \<Longrightarrow> n < length (efh_runs h) \<Longrightarrow>
      belongs (arg_vehicleId (run_args (efh_runs h ! n))) (arg_limit (run_args (efh_runs h ! n))) history"
  shows "data_current belongs (settleLoad n result now h)"
proof (cases result)
  case (Inr history)
  then show ?thesis
    using assms by (auto simp: settleLoad_def data_current_def Let_def dest!: requestKey_inj)
next
  case (Inl e)
  then show ?thesis
    using assms by (auto simp: settleLoad_def data_current_def Let_def EMPTY_DATA_def)
qed

lemma data_current_step:
  assumes "data_current belongs h" "answers_request belongs e"
  shows "data_current belongs (efficiency_step demo e h)"
proof (cases e)
  case (LoadSettled n a result now)
  then show ?thesis
    using assms by (cases result) (auto intro!: settleLoad_current)
qed (use assms(1) in \<open>auto simp: data_current_def renderHook_def startEffect_def fireTimer_def unmountHook_def\<close>)

interpretation efficiency_machine: machine "mountHook demo a" "efficiency_step demo" "answers_request belongs"
  "data_current belongs" for demo a belongs
proof unfold_locales
  show "data_current belongs (mountHook demo a)"
    using requestKey_nonempty by (auto simp: data_current_def mountHook_def startEffect_def EMPTY_DATA_def)
qed (rule data_current_step)

text \<open>
  The page never shows the trips of another vehicle: whatever requests are started, overtaken,
  aborted, refreshed or failed while the vehicle, the limit and the mode change, the history the hook
  returns answers a request for the vehicle and the limit it was last rendered with.
\<close>

theorem trips_of_shown_vehicle:
  assumes "list_all (answers_request belongs) es"
    and "eff_history (efficiencyView (efficiency_run demo a es)) = Some history"
  shows "belongs (arg_vehicleId (efh_args (efficiency_run demo a es)))
    (arg_limit (efh_args (efficiency_run demo a es))) history"
  using efficiency_machine.run_inv [OF assms(1), of demo a] assms(2)
  by (auto simp: efficiency_run_def efficiencyView_def data_current_def IDLE_DATA_def EMPTY_DATA_def split: if_splits)

definition hookArgs :: "string \<Rightarrow> HookArgs" where
  "hookArgs v = \<lparr>arg_vehicleId = v, arg_limit = 20, arg_mode = None\<rparr>"

definition noTrips :: TripHistoryResponse where
  "noTrips = \<lparr>th_trips = [], th_total_trips = 0, th_total_tonnes = 0\<rparr>"

theorem trips_of_shown_vehicle_witness:
  "eff_history (efficiencyView (efficiency_run False (hookArgs ''A'')
     [InitialTimerFired 0, Rendered (hookArgs ''B''), InitialTimerFired 1,
      LoadSettled 1 (hookArgs ''B'') (Inr noTrips) 5, LoadSettled 0 (hookArgs ''A'') (Inl ''aborted'') 6])) = Some noTrips \<and>
   arg_vehicleId (efh_args (efficiency_run False (hookArgs ''A'')
     [InitialTimerFired 0, Rendered (hookArgs ''B''), InitialTimerFired 1,
      LoadSettled 1 (hookArgs ''B'') (Inr noTrips) 5, LoadSettled 0 (hookArgs ''A'') (Inl ''aborted'') 6])) = ''B''"
proof -
  let ?es = "[InitialTimerFired 0, Rendered (hookArgs ''B''), InitialTimerFired 1,
      LoadSettled 1 (hookArgs ''B'') (Inr noTrips) 5, LoadSettled 0 (hookArgs ''A'') (Inl ''aborted'') 6]"
  have "eff_history (efficiencyView (efficiency_run False (hookArgs ''A'') ?es)) = Some noTrips"
    by (simp add: efficiency_run_def mountHook_def startEffect_def effectRun_def renderHook_def fireTimer_def
        settleLoad_def cleanupRun_def efficiencyView_def hookArgs_def Let_def)
  moreover have "list_all (answers_request (\<lambda>v _ _. v = ''B'')) ?es" by (simp add: hookArgs_def)
  ultimately show ?thesis
    using trips_of_shown_vehicle [of "\<lambda>v _ _. v = ''B''" ?es False "hookArgs ''A''" noTrips] by simp
qed

end
