(* ===== verification/MapLayout.thy ===== *)
theory MapLayout
  imports WorldTypes
begin

text \<open>
  Coordinates and layout of the maps: \<^verbatim>\<open>frontend/src/maps/locationProvider.ts\<close> (conversion between
  metres and degrees), the site of \<^verbatim>\<open>maps/campusConfig.ts\<close>, and \<^verbatim>\<open>twin/planLayout.ts\<close> (extent,
  scale bar and labels of the plan).
\<close>

section \<open>Geodetic coordinates\<close>

record GeoCoordinates =
  geo_lat :: jsnum
  geo_lng :: jsnum
  geo_altitude_m :: "jsnum option"

definition METRES_PER_DEGREE_LAT :: jsnum where
  "METRES_PER_DEGREE_LAT = 111320"

definition cartesianToGeodetic :: "jsnum \<Rightarrow> jsnum \<Rightarrow> GeoCoordinates \<Rightarrow> GeoCoordinates" where
  "cartesianToGeodetic x_m y_m anchor =
     (let latRad = geo_lat anchor * js_pi / 180;
          metresPerDegreeLng = METRES_PER_DEGREE_LAT * js_cos latRad;
          latOffset = y_m / METRES_PER_DEGREE_LAT;
          lngOffset = (if 0 < metresPerDegreeLng then x_m / metresPerDegreeLng else 0)
      in \<lparr>geo_lat = geo_lat anchor + latOffset, geo_lng = geo_lng anchor + lngOffset,
          geo_altitude_m = geo_altitude_m anchor\<rparr>)"

definition geodeticToCartesian :: "GeoCoordinates \<Rightarrow> GeoCoordinates \<Rightarrow> Point2D" where
  "geodeticToCartesian coords anchor =
     (let latRad = geo_lat anchor * js_pi / 180;
          metresPerDegreeLng = METRES_PER_DEGREE_LAT * js_cos latRad;
          y_m = (geo_lat coords - geo_lat anchor) * METRES_PER_DEGREE_LAT;
          x_m = (geo_lng coords - geo_lng anchor) * metresPerDegreeLng
      in \<lparr>pt_x_m = x_m, pt_y_m = y_m\<rparr>)"

text \<open>The degree sign is the code unit 176.\<close>

definition formatCoordinates :: "GeoCoordinates \<Rightarrow> nat \<Rightarrow> string" where
  "formatCoordinates coords precision =
     (let latHemisphere = (if 0 \<le> geo_lat coords then ''N'' else ''S'');
          lngHemisphere = (if 0 \<le> geo_lng coords then ''E'' else ''W'');
          absLat = toFixed \<bar>geo_lat coords\<bar> precision;
          absLng = toFixed \<bar>geo_lng coords\<bar> precision
      in absLat @ [CHR 0xB0] @ '' '' @ latHemisphere @ '', '' @ absLng @ [CHR 0xB0] @ '' '' @ lngHemisphere)"

record MapTileLayer =
  tile_name :: string
  tile_url :: string
  tile_subdomains :: "string list"
  tile_attribution :: string
  tile_maxZoom :: jsnum

record CampusMapConfig =
  cfg_campusName :: string
  cfg_locationLabel :: string
  cfg_locationCode :: string
  cfg_siteCenter :: GeoCoordinates
  cfg_anchor :: GeoCoordinates
  cfg_defaultZoom :: jsnum
  cfg_minimapZoom :: jsnum
  cfg_extendedZoom :: jsnum
  cfg_maxZoom :: jsnum
  cfg_minZoom :: jsnum
  cfg_tiles :: MapTileLayer

definition ROAD_MAP_TILES :: MapTileLayer where
  "ROAD_MAP_TILES = \<lparr>tile_name = ''Road map'',
     tile_url = ''https://tile.openstreetmap.org/{z}/{x}/{y}.png'', tile_subdomains = [],
     tile_attribution = ''&copy; OpenStreetMap contributors'', tile_maxZoom = 18\<rparr>"

definition DEFAULT_CAMPUS_CONFIG :: CampusMapConfig where
  "DEFAULT_CAMPUS_CONFIG = \<lparr>cfg_campusName = ''NMDC Bailadila iron ore mines'',
     cfg_locationLabel = ''Bailadila, Dantewada, Chhattisgarh'', cfg_locationCode = ''Bailadila'',
     cfg_siteCenter = \<lparr>geo_lat = Fin 18.6731, geo_lng = Fin 81.2481, geo_altitude_m = None\<rparr>,
     cfg_anchor = \<lparr>geo_lat = Fin 18.6731, geo_lng = Fin 81.2481, geo_altitude_m = Some 920\<rparr>,
     cfg_defaultZoom = 15, cfg_minimapZoom = 15, cfg_extendedZoom = 14, cfg_maxZoom = 18,
     cfg_minZoom = 12, cfg_tiles = ROAD_MAP_TILES\<rparr>"

section \<open>The extent and the scale bar of the plan\<close>

record PlanBounds =
  plan_x :: jsnum
  plan_y :: jsnum
  plan_width :: jsnum
  plan_height :: jsnum

definition cartography :: "MapFeature \<Rightarrow> PropertyValue option" where
  "cartography f = map_of (mf_properties f) ''cartography''"

definition planPoints :: "MapFeature list \<Rightarrow> Point2D list" where
  "planPoints features =
     concat (map mf_points (filter (\<lambda>f. cartography f \<noteq> Some (PropStr ''contour'')) features))"

definition planBounds :: "MapFeature list \<Rightarrow> PlanBounds" where
  "planBounds features =
     (let points = planPoints features
      in if points = [] then \<lparr>plan_x = 0, plan_y = 0, plan_width = 40, plan_height = 40\<rparr>
         else
           let minX = js_min_list (map pt_x_m points); maxX = js_max_list (map pt_x_m points);
               minY = js_min_list (map pt_y_m points); maxY = js_max_list (map pt_y_m points)
           in \<lparr>plan_x = (minX + maxX) / 2, plan_y = (minY + maxY) / 2,
               plan_width = js_max 20 (maxX - minX), plan_height = js_max 20 (maxY - minY)\<rparr>)"

text \<open>\<^verbatim>\<open>Math.log10\<close> and powers of ten.\<close>

fun js_log10 :: "jsnum \<Rightarrow> jsnum" where
  "js_log10 (Fin r) = (if 0 < r then Fin (log 10 r) else if r = 0 then NegInf else NaN)"
| "js_log10 PosInf = PosInf"
| "js_log10 _ = NaN"

fun js_pow10 :: "jsnum \<Rightarrow> jsnum" where
  "js_pow10 (Fin r) = Fin (10 powr r)"
| "js_pow10 PosInf = PosInf"
| "js_pow10 NegInf = Fin 0"
| "js_pow10 NaN = NaN"

definition scaleDistance :: "jsnum \<Rightarrow> jsnum" where
  "scaleDistance pixelsPerMetre =
     (let target = 90 / pixelsPerMetre;
          magnitude = js_pow10 (js_floor (js_log10 target))
      in case find (\<lambda>n. n \<le> target) (map (\<lambda>n. n * magnitude) [5, 2, 1]) of
           Some n \<Rightarrow> n | None \<Rightarrow> magnitude)"

section \<open>Labels\<close>

record PlanLabel =
  lab_id :: string
  lab_text :: string
  lab_x :: jsnum
  lab_y :: jsnum

record LabelBox =
  box_left :: jsnum
  box_top :: jsnum
  box_width :: jsnum
  box_height :: jsnum

text \<open>The marker of a label, which no label should cover.\<close>

definition markerBox :: "PlanLabel \<Rightarrow> LabelBox" where
  "markerBox label = \<lparr>box_left = lab_x label - 16, box_top = lab_y label - 18,
     box_width = 32, box_height = 36\<rparr>"

definition labelWidth :: "jsnum \<Rightarrow> PlanLabel \<Rightarrow> jsnum" where
  "labelWidth width label = js_min (width - 24) (Fin (of_nat (length (lab_text label))) * 7 + 20)"

definition candidateOffsets :: "jsnum \<Rightarrow> (jsnum \<times> jsnum) list" where
  "candidateOffsets w =
     [(20, - 13), (- w - 20, - 13), (- w / 2, - 43), (- w / 2, 22), (20, - 57), (- w - 20, 38),
      (20, 52), (- w - 20, - 72)]"

definition candidateBoxes :: "jsnum \<Rightarrow> jsnum \<Rightarrow> PlanLabel \<Rightarrow> LabelBox list" where
  "candidateBoxes width height label =
     (let w = labelWidth width label; h = 26
      in map (\<lambda>(dx, dy).
           \<lparr>box_left = js_max 8 (js_min (width - w - 8) (lab_x label + dx)),
            box_top = js_max 48 (js_min (height - h - 50) (lab_y label + dy)),
            box_width = w, box_height = h\<rparr>) (candidateOffsets w))"

text \<open>The area of the overlap with what is already placed, with a margin of four pixels.\<close>

definition overlap :: "LabelBox \<Rightarrow> LabelBox \<Rightarrow> jsnum" where
  "overlap box other =
     js_max 0 (js_min (box_left box + box_width box + 4) (box_left other + box_width other) -
               js_max (box_left box - 4) (box_left other)) *
     js_max 0 (js_min (box_top box + box_height box + 4) (box_top other + box_height other) -
               js_max (box_top box - 4) (box_top other))"

definition boxScore :: "LabelBox list \<Rightarrow> LabelBox \<Rightarrow> jsnum" where
  "boxScore occupied box = foldl (\<lambda>total other. total + overlap box other) 0 occupied"

text \<open>\<^verbatim>\<open>reduce\<close> without an initial value starts from the first candidate.\<close>

fun leastBox :: "LabelBox list \<Rightarrow> LabelBox \<Rightarrow> LabelBox list \<Rightarrow> LabelBox" where
  "leastBox occupied best [] = best"
| "leastBox occupied best (candidate # rest) =
     leastBox occupied (if boxScore occupied candidate < boxScore occupied best then candidate else best) rest"

definition bestBox :: "jsnum \<Rightarrow> jsnum \<Rightarrow> LabelBox list \<Rightarrow> PlanLabel \<Rightarrow> LabelBox" where
  "bestBox width height occupied label =
     (let boxes = candidateBoxes width height label in leastBox occupied (hd boxes) (tl boxes))"

fun placeFrom ::
    "jsnum \<Rightarrow> jsnum \<Rightarrow> LabelBox list \<Rightarrow> PlanLabel list \<Rightarrow> (PlanLabel \<times> LabelBox) list" where
  "placeFrom width height occupied [] = []"
| "placeFrom width height occupied (label # labels) =
     (let box = bestBox width height occupied label
      in (label, box) # placeFrom width height (occupied @ [box]) labels)"

definition placeLabels :: "PlanLabel list \<Rightarrow> jsnum \<Rightarrow> jsnum \<Rightarrow> (PlanLabel \<times> LabelBox) list" where
  "placeLabels labels width height = placeFrom width height (map markerBox labels) labels"

section \<open>Lemmas on labels\<close>

definition finite_box :: "LabelBox \<Rightarrow> bool" where
  "finite_box b \<longleftrightarrow> isFinite (box_left b) \<and> isFinite (box_top b) \<and> isFinite (box_width b) \<and>
     isFinite (box_height b)"

definition finite_label :: "PlanLabel \<Rightarrow> bool" where
  "finite_label l \<longleftrightarrow> isFinite (lab_x l) \<and> isFinite (lab_y l)"

lemma overlap_finite: "finite_box a \<Longrightarrow> finite_box b \<Longrightarrow> isFinite (overlap a b)"
  unfolding overlap_def finite_box_def by (intro finite_arith) simp_all

lemma boxScore_finite:
  assumes "finite_box b" "\<forall>o' \<in> set occ. finite_box o'"
  shows "isFinite (boxScore occ b)"
proof -
  have "isFinite s \<Longrightarrow> isFinite (foldl (\<lambda>total other. total + overlap b other) s occ)" for s
    using assms by (induction occ arbitrary: s) (auto simp: overlap_finite finite_arith)
  then show ?thesis by (simp add: boxScore_def)
qed

text \<open>Folding to a least element.\<close>

lemma leastBox_least:
  assumes "\<forall>b \<in> insert best (set bs). isFinite (boxScore occ b)"
  shows "leastBox occ best bs \<in> insert best (set bs) \<and>
    (\<forall>b \<in> insert best (set bs). boxScore occ (leastBox occ best bs) \<le> boxScore occ b)"
  using assms
proof (induction bs arbitrary: best)
  case Nil
  then show ?case by (auto simp: isFinite_iff)
next
  case (Cons c bs)
  define m where "m = (if boxScore occ c < boxScore occ best then c else best)"
  have m: "m \<in> {best, c}" "boxScore occ m \<le> boxScore occ best" "boxScore occ m \<le> boxScore occ c"
    using Cons.prems by (auto simp: m_def isFinite_iff)
  then have "\<forall>b \<in> insert m (set bs). isFinite (boxScore occ b)" using Cons.prems by auto
  from Cons.IH [OF this] have ih: "leastBox occ m bs \<in> insert m (set bs)"
    "\<forall>b \<in> insert m (set bs). boxScore occ (leastBox occ m bs) \<le> boxScore occ b" by blast+
  with m jsnum_le_trans show ?case
    by (simp add: m_def [symmetric]) blast
qed

lemma candidateBoxes_finite:
  assumes "isFinite width" "isFinite height" "finite_label l" "b \<in> set (candidateBoxes width height l)"
  shows "finite_box b"
proof -
  have w: "isFinite (labelWidth width l)"
    unfolding labelWidth_def using assms(1) by (intro finite_arith) simp_all
  then have "isFinite dx \<and> isFinite dy" if "(dx, dy) \<in> set (candidateOffsets (labelWidth width l))" for dx dy
    using that by (auto simp: candidateOffsets_def intro!: finite_arith)
  with w assms show ?thesis
    by (auto simp: candidateBoxes_def finite_box_def finite_label_def Let_def intro!: finite_arith)
qed

lemma bestBox_least:
  assumes "isFinite width" "isFinite height" "finite_label l" "\<forall>o' \<in> set occ. finite_box o'"
  shows "bestBox width height occ l \<in> set (candidateBoxes width height l) \<and>
    (\<forall>b \<in> set (candidateBoxes width height l). boxScore occ (bestBox width height occ l) \<le> boxScore occ b)"
proof -
  let ?bs = "candidateBoxes width height l"
  have ne: "?bs \<noteq> []" by (simp add: candidateBoxes_def candidateOffsets_def Let_def)
  then have set: "insert (hd ?bs) (set (tl ?bs)) = set ?bs" by (metis list.collapse list.simps(15))
  have "\<forall>b \<in> set ?bs. isFinite (boxScore occ b)"
    using candidateBoxes_finite [OF assms(1-3)] assms(4) by (simp add: boxScore_finite)
  then show ?thesis
    using leastBox_least [of "hd ?bs" "tl ?bs" occ] unfolding set by (simp add: bestBox_def Let_def)
qed

text \<open>What is occupied when the label \<open>i\<close> is placed: the markers and the earlier labels.\<close>

definition occupiedAt :: "LabelBox list \<Rightarrow> (PlanLabel \<times> LabelBox) list \<Rightarrow> nat \<Rightarrow> LabelBox list" where
  "occupiedAt markers placed i = markers @ map snd (take i placed)"

lemma placeFrom_labels: "map fst (placeFrom width height occ ls) = ls"
  by (induction ls arbitrary: occ) (simp_all add: Let_def)

lemma placeFrom_box:
  "i < length ls \<Longrightarrow> snd (placeFrom width height occ ls ! i) =
     bestBox width height (occupiedAt occ (placeFrom width height occ ls) i) (ls ! i)"
proof (induction ls arbitrary: occ i)
  case (Cons l ls)
  then show ?case by (cases i) (simp_all add: Let_def occupiedAt_def)
qed simp

lemma placeFrom_finite:
  assumes "isFinite width" "isFinite height" "\<forall>l \<in> set ls. finite_label l" "\<forall>o' \<in> set occ. finite_box o'"
    and "(l, b) \<in> set (placeFrom width height occ ls)"
  shows "finite_box b"
  using assms(3-5)
proof (induction ls arbitrary: occ)
  case (Cons k ls)
  have "finite_box (bestBox width height occ k)"
    using bestBox_least [OF assms(1,2), THEN conjunct1] Cons.prems
    by (intro candidateBoxes_finite [OF assms(1,2), of k]) simp_all
  with Cons.IH [of "occ @ [bestBox width height occ k]"] Cons.prems show ?case
    by (auto simp: Let_def)
qed simp

lemma candidateBoxes_inside:
  assumes "width = Fin w" "height = Fin h" "finite_label l" "b \<in> set (candidateBoxes width height l)"
  shows "\<exists>left top bw. b = \<lparr>box_left = Fin left, box_top = Fin top, box_width = Fin bw, box_height = 26\<rparr> \<and>
    labelWidth width l = Fin bw \<and> 8 \<le> left \<and> left \<le> max 8 (w - bw - 8) \<and>
    48 \<le> top \<and> top \<le> max 48 (h - 76)"
proof -
  obtain bw where bw: "labelWidth width l = Fin bw" by (simp add: labelWidth_def assms(1))
  obtain x y where xy: "lab_x l = Fin x" "lab_y l = Fin y"
    using assms(3) by (auto simp: finite_label_def isFinite_iff)
  obtain dx dy where d: "(dx, dy) \<in> set (candidateOffsets (Fin bw))"
    "b = \<lparr>box_left = js_max 8 (js_min (width - Fin bw - 8) (lab_x l + dx)),
       box_top = js_max 48 (js_min (height - 26 - 50) (lab_y l + dy)), box_width = Fin bw, box_height = 26\<rparr>"
    using assms(4) bw by (auto simp: candidateBoxes_def Let_def)
  then obtain u v where "dx = Fin u" "dy = Fin v"
    by (auto simp: candidateOffsets_def)
  then show ?thesis using d(2) bw xy assms(1,2) by (auto simp: max_def min_def)
qed

section \<open>Properties\<close>

text \<open>
  Metres and degrees: away from the poles the conversion to degrees and back returns the same
  offsets in metres, and the anchor is where the offsets are zero.
\<close>

theorem geodetic_roundtrip:
  assumes "geo_lat anchor = Fin lat" "geo_lng anchor = Fin lng" "\<bar>lat\<bar> < 90"
  shows "geodeticToCartesian (cartesianToGeodetic (Fin x) (Fin y) anchor) anchor =
      \<lparr>pt_x_m = Fin x, pt_y_m = Fin y\<rparr> \<and>
    cartesianToGeodetic 0 0 anchor = anchor"
proof -
  have "- 90 * pi < lat * pi" "lat * pi < 90 * pi"
    using assms(3) mult_strict_right_mono [OF _ pi_gt_zero, of "- 90" lat]
      mult_strict_right_mono [OF _ pi_gt_zero, of lat 90] by auto
  then have "0 < cos (lat * pi / 180)" by (intro cos_gt_zero_pi) simp_all
  then have "0 < 111320 * cos (lat * pi / 180)" by simp
  then show ?thesis
    using assms by (simp add: geodeticToCartesian_def cartesianToGeodetic_def METRES_PER_DEGREE_LAT_def Let_def)
qed

theorem geodetic_roundtrip_witness:
  "geodeticToCartesian (cartesianToGeodetic (Fin 25) (Fin (- 40)) (cfg_anchor DEFAULT_CAMPUS_CONFIG))
     (cfg_anchor DEFAULT_CAMPUS_CONFIG) = \<lparr>pt_x_m = Fin 25, pt_y_m = Fin (- 40)\<rparr>"
  using geodetic_roundtrip [of "cfg_anchor DEFAULT_CAMPUS_CONFIG" "18.6731" "81.2481" 25 "- 40"]
  by (simp add: DEFAULT_CAMPUS_CONFIG_def)

text \<open>
  Labels of the plan: for a finite view and finite positions every label is placed once and in
  order, in a box of the label's width that begins inside the margins of the view and ends inside
  them where it fits; and of the eight candidate boxes no one overlaps less with the markers and
  the labels placed before.
\<close>

theorem labels_placed:
  assumes "list_all finite_label labels" "i < length labels"
  shows "let placed = placeLabels labels (Fin w) (Fin h); (label, box) = placed ! i in
    map fst placed = labels \<and>
    (\<exists>left top bw. box = \<lparr>box_left = Fin left, box_top = Fin top, box_width = Fin bw, box_height = 26\<rparr> \<and>
       labelWidth (Fin w) label = Fin bw \<and> 8 \<le> left \<and> left \<le> max 8 (w - bw - 8) \<and>
       48 \<le> top \<and> top \<le> max 48 (h - 76)) \<and>
    list_all (\<lambda>b. boxScore (occupiedAt (map markerBox labels) placed i) box \<le>
       boxScore (occupiedAt (map markerBox labels) placed i) b) (candidateBoxes (Fin w) (Fin h) label)"
proof -
  let ?markers = "map markerBox labels"
  let ?placed = "placeLabels labels (Fin w) (Fin h)"
  have labels: "\<forall>l \<in> set labels. finite_label l" using assms(1) by (simp add: list_all_iff)
  have markers: "\<forall>o' \<in> set ?markers. finite_box o'"
    using labels by (auto simp: markerBox_def finite_box_def finite_label_def intro!: finite_arith)
  have fst: "map fst ?placed = labels" by (simp add: placeLabels_def placeFrom_labels)
  then have "length ?placed = length labels" by (metis length_map)
  with assms(2) fst have li: "fst (?placed ! i) = labels ! i" by (metis nth_map)
  have occ: "\<forall>o' \<in> set (occupiedAt ?markers ?placed i). finite_box o'"
    using markers placeFrom_finite [of "Fin w" "Fin h" labels ?markers] labels
    by (fastforce simp: occupiedAt_def placeLabels_def dest: in_set_takeD)
  have box: "snd (?placed ! i) = bestBox (Fin w) (Fin h) (occupiedAt ?markers ?placed i) (labels ! i)"
    using placeFrom_box [OF assms(2)] by (simp add: placeLabels_def)
  have "finite_label (labels ! i)" using labels assms(2) by simp
  with bestBox_least [of "Fin w" "Fin h" "labels ! i", OF _ _ _ occ] candidateBoxes_inside [OF refl refl this]
  show ?thesis
    using fst li by (cases "?placed ! i") (simp add: box [symmetric] list_all_iff Let_def)
qed

theorem labels_placed_witness:
  "box_height (snd (placeLabels [\<lparr>lab_id = ''a'', lab_text = ''Crusher'', lab_x = 30, lab_y = 40\<rparr>] (Fin 800) (Fin 600) ! 0)) = 26"
  using labels_placed [of "[\<lparr>lab_id = ''a'', lab_text = ''Crusher'', lab_x = 30, lab_y = 40\<rparr>]" 0 800 600]
  by (auto simp: finite_label_def Let_def split: prod.splits)

end
