(* ===== verification/LidarFrame.thy ===== *)
theory LidarFrame
  imports RouteGeometry SpatialPoints
begin

text \<open>
  The driver's lidar frame: \<^verbatim>\<open>frontend/src/driver/lidarFrame.ts\<close>. A flat coordinate array under
  construction is kept as the list of its points and flattened when the frame is built. Two loops of
  the code have no obvious bound, so they are partial functions whose value \<open>None\<close> is not returning:
  the sampling of a road edge and the reduction of an angle. The angle loop repeats a subtraction, so
  its rounding matters: \<open>rnd\<close> is the rounding of a finite result to the number format.
\<close>

type_synonym ScenePoint = "jsnum \<times> jsnum \<times> jsnum"

definition LIDAR_RADIUS_M :: jsnum where
  "LIDAR_RADIUS_M = 80"

definition ROAD_POINT_SPACING_M :: jsnum where
  "ROAD_POINT_SPACING_M = Fin 1.6"

definition MAX_ROAD_POINTS :: nat where
  "MAX_ROAD_POINTS = 2500"

record LidarPath =
  lp_id :: string
  lp_positions :: "jsnum list"
  lp_closed :: bool

datatype EntityKind = VEHICLE_ENTITY | OBSTACLE_ENTITY | OBJECT_ENTITY

record LidarEntity =
  le_id :: string
  le_kind :: EntityKind
  le_position :: ScenePoint
  le_size :: ScenePoint
  le_yawRad :: jsnum

record LidarFrame =
  lf_roadPositions :: "jsnum list"
  lf_returnPositions :: "jsnum list"
  lf_returnColors :: "jsnum list"
  lf_paths :: "LidarPath list"
  lf_entities :: "LidarEntity list"
  lf_returnCount :: jsnum
  lf_roadPointCount :: jsnum

fun flat :: "ScenePoint \<Rightarrow> jsnum list" where
  "flat (x, y, z) = [x, y, z]"

definition scenePoint :: "jsnum \<Rightarrow> jsnum \<Rightarrow> jsnum \<Rightarrow> ScenePoint" where
  "scenePoint x y height = (x, js_max 0 height, - y)"

definition finite_coords :: "jsnum list \<Rightarrow> bool" where
  "finite_coords values = list_all isFinite values"

section \<open>Angles\<close>

partial_function (option) unwindDown :: "(real \<Rightarrow> real) \<Rightarrow> jsnum \<Rightarrow> jsnum option" where
  "unwindDown rnd angle =
     (if js_pi < angle then unwindDown rnd (num_map rnd (angle - js_pi * 2)) else Some angle)"

partial_function (option) unwindUp :: "(real \<Rightarrow> real) \<Rightarrow> jsnum \<Rightarrow> jsnum option" where
  "unwindUp rnd angle =
     (if angle < - js_pi then unwindUp rnd (num_map rnd (angle + js_pi * 2)) else Some angle)"

definition normalizeAngleRadians :: "(real \<Rightarrow> real) \<Rightarrow> jsnum \<Rightarrow> jsnum option" where
  "normalizeAngleRadians rnd val = Option.bind (unwindDown rnd val) (unwindUp rnd)"

section \<open>Colours\<close>

definition heightColor :: "jsnum \<Rightarrow> ScenePoint" where
  "heightColor height =
     (let t = js_max 0 (js_min 1 (height / 4))
      in if t < Fin 0.25 then (Fin 0.08, Fin 0.42 + t * Fin 1.6, 1)
         else if t < Fin 0.5 then (Fin 0.08, 1, 1 - (t - Fin 0.25) * Fin 2.8)
         else if t < Fin 0.75 then ((t - Fin 0.5) * Fin 3.2, 1, Fin 0.18)
         else (1, 1 - (t - Fin 0.75) * Fin 3.2, Fin 0.08))"

section \<open>Roads\<close>

definition roadFeatures :: "WorldState \<Rightarrow> MapFeature list" where
  "roadFeatures world =
     (let features = (case ws_reference_map world of Some m \<Rightarrow> rm_features m | None \<Rightarrow> []);
          roads = filter (\<lambda>f. mf_feature_type f = ROAD) features
      in if roads \<noteq> [] then roads
         else case List.find (\<lambda>f. mf_feature_type f = ROUTE \<or> mf_feature_type f = CENTERLINE) features of
           Some route \<Rightarrow> [route]
         | None \<Rightarrow>
             (case Option.bind (ws_haul_route world) hr_planned_path of
                Some path \<Rightarrow>
                  if path \<noteq> []
                  then [\<lparr>mf_feature_id = ''planned-path'', mf_feature_type = ROUTE,
                         mf_geometry_type = POLYLINE, mf_points = path,
                         mf_label = ''Planned path'', mf_properties = []\<rparr>]
                  else []
              | None \<Rightarrow> []))"

text \<open>The samples of one edge, from number \<open>sample\<close> on.\<close>

definition edgeSample :: "Point2D \<Rightarrow> Point2D \<Rightarrow> VehiclePose \<Rightarrow> jsnum \<Rightarrow> nat \<Rightarrow> VehiclePoint3D" where
  "edgeSample start end' vehicle sampleCount sample =
     (let t = Fin (real sample) / sampleCount
      in localPoint \<lparr>pt_x_m = pt_x_m start + (pt_x_m end' - pt_x_m start) * t,
                     pt_y_m = pt_y_m start + (pt_y_m end' - pt_y_m start) * t\<rparr> vehicle 0)"

definition beyondRadius :: "VehiclePoint3D \<Rightarrow> bool" where
  "beyondRadius local \<longleftrightarrow> LIDAR_RADIUS_M < js_hypot (v3_x_m local) (v3_y_m local)"

text \<open>
  The loop over the samples, for a budget of points and the point made of a sample: the view and the
  spatial map run it with different constants.
\<close>

partial_function (option) sampleLoop ::
    "nat \<Rightarrow> (VehiclePoint3D \<Rightarrow> ScenePoint) \<Rightarrow> Point2D \<Rightarrow> Point2D \<Rightarrow> VehiclePose \<Rightarrow> jsnum \<Rightarrow> nat \<Rightarrow>
     ScenePoint list \<Rightarrow> ScenePoint list option" where
  "sampleLoop budget place start end' vehicle sampleCount sample positions =
     (if Fin (real sample) \<le> sampleCount then
        if budget \<le> length positions then Some positions
        else
          let local = edgeSample start end' vehicle sampleCount sample
          in sampleLoop budget place start end' vehicle sampleCount (Suc sample)
               (if beyondRadius local then positions else positions @ [place local])
      else Some positions)"

definition roadPoint :: "VehiclePoint3D \<Rightarrow> ScenePoint" where
  "roadPoint local = scenePoint (v3_x_m local) (v3_y_m local) (Fin 0.025)"

definition sampleCountOf :: "jsnum \<Rightarrow> Point2D \<Rightarrow> Point2D \<Rightarrow> jsnum" where
  "sampleCountOf spacing start end' =
     js_max 1 (js_ceil (js_hypot (pt_x_m end' - pt_x_m start) (pt_y_m end' - pt_y_m start) / spacing))"

definition sampleEdge :: "VehiclePose \<Rightarrow> Point2D \<times> Point2D \<Rightarrow> ScenePoint list \<Rightarrow> ScenePoint list option" where
  "sampleEdge vehicle = (\<lambda>(start, end') positions.
     sampleLoop MAX_ROAD_POINTS roadPoint start end' vehicle
       (sampleCountOf ROAD_POINT_SPACING_M start end') 0 positions)"

fun sampleEdges :: "VehiclePose \<Rightarrow> (Point2D \<times> Point2D) list \<Rightarrow> ScenePoint list \<Rightarrow> ScenePoint list option" where
  "sampleEdges vehicle [] positions = Some positions"
| "sampleEdges vehicle (edge # edges) positions =
     Option.bind (sampleEdge vehicle edge positions) (sampleEdges vehicle edges)"

definition isClosed :: "MapFeature \<Rightarrow> bool" where
  "isClosed feature \<longleftrightarrow> mf_geometry_type feature = POLYGON"

definition featureEdges :: "MapFeature \<Rightarrow> (Point2D \<times> Point2D) list" where
  "featureEdges feature =
     (let points = mf_points feature;
          edgeCount = (if isClosed feature then length points else length points - 1)
      in map (\<lambda>edge. (points ! edge, points ! ((edge + 1) mod length points))) [0..<edgeCount])"

definition featurePath :: "VehiclePose \<Rightarrow> MapFeature \<Rightarrow> LidarPath list" where
  "featurePath vehicle feature =
     (let localPath = map (\<lambda>point. localPoint point vehicle 0) (mf_points feature);
          clipped = (if isClosed feature then clipRoad localPath LIDAR_RADIUS_M
                     else filter (\<lambda>p. js_hypot (v3_x_m p) (v3_y_m p) \<le> LIDAR_RADIUS_M) localPath)
      in if 2 \<le> length clipped
         then [\<lparr>lp_id = mf_feature_id feature,
                lp_positions = concat (map (\<lambda>p. flat (scenePoint (v3_x_m p) (v3_y_m p) (Fin 0.04))) clipped),
                lp_closed = isClosed feature\<rparr>]
         else [])"

fun buildRoads ::
    "VehiclePose \<Rightarrow> MapFeature list \<Rightarrow> ScenePoint list \<Rightarrow> LidarPath list \<Rightarrow>
     (ScenePoint list \<times> LidarPath list) option" where
  "buildRoads vehicle [] positions paths = Some (positions, paths)"
| "buildRoads vehicle (feature # features) positions paths =
     (if length (mf_points feature) < 2 then buildRoads vehicle features positions paths
      else Option.bind (sampleEdges vehicle (featureEdges feature) positions)
        (\<lambda>positions'. buildRoads vehicle features positions' (paths @ featurePath vehicle feature)))"

definition buildRoadData :: "WorldState \<Rightarrow> VehiclePose \<Rightarrow> (ScenePoint list \<times> LidarPath list) option" where
  "buildRoadData world vehicle = buildRoads vehicle (roadFeatures world) [] []"

section \<open>Entities\<close>

definition entitySize :: "string \<Rightarrow> ScenePoint" where
  "entitySize objectType =
     (let type = toLowerCase objectType
      in if str_includes type ''truck'' \<or> str_includes type ''vehicle'' then (Fin 3.2, Fin 3.1, Fin 6.2)
         else if str_includes type ''person'' then (Fin 0.8, Fin 1.9, Fin 0.8)
         else if str_includes type ''rock'' \<or> str_includes type ''obstacle'' then (Fin 1.4, Fin 1.3, Fin 1.4)
         else (Fin 1.8, Fin 1.8, Fin 1.8))"

definition withinRadius :: "VehiclePoint3D \<Rightarrow> bool" where
  "withinRadius local \<longleftrightarrow> \<not> beyondRadius local"

definition peerPoint :: "VehiclePose \<Rightarrow> VehiclePose \<Rightarrow> VehiclePoint3D" where
  "peerPoint vehicle peer = localPoint \<lparr>pt_x_m = vp_x_m peer, pt_y_m = vp_y_m peer\<rparr> vehicle 0"

definition vehicleEntity :: "(real \<Rightarrow> real) \<Rightarrow> VehiclePose \<Rightarrow> VehiclePose \<Rightarrow> LidarEntity option" where
  "vehicleEntity rnd vehicle peer =
     (let local = peerPoint vehicle peer
      in map_option (\<lambda>yaw. \<lparr>le_id = ''vehicle:'' @ vp_vehicle_id peer, le_kind = VEHICLE_ENTITY,
           le_position = scenePoint (v3_x_m local) (v3_y_m local) (Fin 1.55),
           le_size = (Fin 3.2, Fin 3.1, Fin 6.2), le_yawRad = yaw\<rparr>)
         (normalizeAngleRadians rnd ((vp_heading_deg peer - vp_heading_deg vehicle) * js_pi / 180)))"

definition vehicleEntities ::
    "(real \<Rightarrow> real) \<Rightarrow> WorldState \<Rightarrow> VehiclePose \<Rightarrow> LidarEntity list option" where
  "vehicleEntities rnd world vehicle =
     those (map (vehicleEntity rnd vehicle)
       (filter (\<lambda>peer. \<not> (vp_vehicle_id peer = vp_vehicle_id vehicle \<or> vp_position_confidence peer < Fin 0.5) \<and>
            withinRadius (peerPoint vehicle peer)) (ws_vehicles world)))"

definition objectEntities :: "WorldState \<Rightarrow> VehiclePose \<Rightarrow> LidarEntity list" where
  "objectEntities world vehicle =
     concat (map (\<lambda>obj.
       let local = localPoint \<lparr>pt_x_m = lo_x_m obj, pt_y_m = lo_y_m obj\<rparr> vehicle 0;
           size = entitySize (lo_object_type obj)
       in if lo_confidence obj < Fin 0.5 \<or> beyondRadius local then []
          else [\<lparr>le_id = ''object:'' @ lo_object_id obj, le_kind = OBJECT_ENTITY,
                 le_position = scenePoint (v3_x_m local) (v3_y_m local) (fst (snd size) / 2),
                 le_size = size, le_yawRad = 0\<rparr>]) (ws_live_objects world))"

definition radarEntities :: "WorldState \<Rightarrow> LidarEntity list" where
  "radarEntities world =
     concat (map (\<lambda>detection.
       let bearing = ro_bearing_deg detection * js_pi / 180;
           x = js_sin bearing * ro_range_m detection;
           y = js_cos bearing * ro_range_m detection
       in if ro_confidence detection < Fin 0.5 \<or> LIDAR_RADIUS_M < ro_range_m detection then []
          else [\<lparr>le_id = ''radar:'' @ ro_detection_id detection, le_kind = OBJECT_ENTITY,
                 le_position = scenePoint x y 1, le_size = (Fin 1.8, 2, Fin 1.8), le_yawRad = 0\<rparr>])
       (ws_radar_objects world))"

definition obstacleEntities :: "WorldState \<Rightarrow> VehiclePose \<Rightarrow> LidarEntity list" where
  "obstacleEntities world vehicle =
     (case ws_haul_route world of
        Some route \<Rightarrow>
          (case (if hr_obstacle_detected route = Some True then hr_obstacle route else None) of
             Some obstacle \<Rightarrow>
               let local = localPoint obstacle vehicle 0;
                   radius = js_max (Fin 0.3) (hr_obstacle_radius_m route)
               in if js_hypot (v3_x_m local) (v3_y_m local) \<le> LIDAR_RADIUS_M
                  then [\<lparr>le_id = ''haul-obstacle'', le_kind = OBSTACLE_ENTITY,
                         le_position = scenePoint (v3_x_m local) (v3_y_m local) radius,
                         le_size = (radius * 2, radius * 2, radius * 2), le_yawRad = 0\<rparr>]
                  else []
           | None \<Rightarrow> [])
      | None \<Rightarrow> [])"

definition finiteEntity :: "LidarEntity \<Rightarrow> bool" where
  "finiteEntity entity \<longleftrightarrow> finite_coords (flat (le_position entity) @ flat (le_size entity) @ [le_yawRad entity])"

definition buildEntities :: "(real \<Rightarrow> real) \<Rightarrow> WorldState \<Rightarrow> VehiclePose \<Rightarrow> LidarEntity list option" where
  "buildEntities rnd world vehicle =
     map_option (\<lambda>peers. filter finiteEntity
       (peers @ objectEntities world vehicle @ radarEntities world @ obstacleEntities world vehicle))
     (vehicleEntities rnd world vehicle)"

section \<open>The frame\<close>

text \<open>The points shown, each with its place in the scene; those without finite coordinates are left out.\<close>

definition lidarReturns :: "WorldState \<Rightarrow> VehiclePose \<Rightarrow> (ScenePoint \<times> ScenePoint) list" where
  "lidarReturns world vehicle =
     concat (map (\<lambda>point.
       let local = worldPointToVehicle point vehicle;
           position = scenePoint (v3_x_m local) (v3_y_m local) (v3_z_m local)
       in if finite_coords (flat position) then [(position, heightColor (v3_z_m local))] else [])
       (availableSpatialPoints (ws_spatial_points world) (ws_sensor_health world) True
          (ws_generated_at_ms world) vehicle LIDAR_RADIUS_M None))"

definition buildLidarFrame :: "(real \<Rightarrow> real) \<Rightarrow> WorldState \<Rightarrow> VehiclePose \<Rightarrow> LidarFrame option" where
  "buildLidarFrame rnd world vehicle =
     Option.bind (buildRoadData world vehicle) (\<lambda>(positions, paths).
       let returns = lidarReturns world vehicle;
           roadPositions = concat (map flat positions);
           returnPositions = concat (map (flat \<circ> fst) returns);
           returnColors = concat (map (flat \<circ> snd) returns)
       in map_option (\<lambda>entities.
            \<lparr>lf_roadPositions = roadPositions, lf_returnPositions = returnPositions,
             lf_returnColors = returnColors, lf_paths = paths, lf_entities = entities,
             lf_returnCount = Fin (real (length returnPositions)) / 3,
             lf_roadPointCount = Fin (real (length roadPositions)) / 3\<rparr>)
          (buildEntities rnd world vehicle))"

section \<open>The loops return\<close>

definition roads_ok :: "nat \<Rightarrow> ScenePoint list \<Rightarrow> bool" where
  "roads_ok budget positions \<longleftrightarrow> length positions \<le> budget \<and>
     list_all (\<lambda>(x, y, z). \<not> LIDAR_RADIUS_M < js_hypot x z) positions"

text \<open>A way of placing a sample that keeps its distance.\<close>

definition places :: "(VehiclePoint3D \<Rightarrow> ScenePoint) \<Rightarrow> bool" where
  "places place \<longleftrightarrow> (\<forall>local. case place local of (x, h, z) \<Rightarrow> js_hypot x z = js_hypot (v3_x_m local) (v3_y_m local))"

lemma js_hypot_uminus [simp]: "js_hypot a (- b) = js_hypot a b"
  by (cases a; cases b) (simp_all add: js_hypot_def)

lemma places_roadPoint: "places roadPoint"
  by (simp add: places_def roadPoint_def scenePoint_def)

lemma roads_ok_snoc:
  "\<lbrakk>places place; roads_ok budget positions; \<not> budget \<le> length positions; \<not> beyondRadius local\<rbrakk> \<Longrightarrow>
   roads_ok budget (positions @ [place local])"
  by (auto simp: roads_ok_def places_def beyondRadius_def split: prod.splits)

lemma js_floor_le: "Fin (real n) \<le> Fin c \<Longrightarrow> n \<le> nat \<lfloor>c\<rfloor>"
  by simp linarith

text \<open>A finite number of samples: the loop counts up to it.\<close>

lemma sampleLoop_finite:
  assumes "places place"
  shows "roads_ok budget positions \<Longrightarrow>
   \<exists>positions'. sampleLoop budget place start end' vehicle (Fin c) sample positions = Some positions' \<and>
     roads_ok budget positions'"
proof (induction "Suc (nat \<lfloor>c\<rfloor>) - sample" arbitrary: sample positions rule: less_induct)
  case less
  show ?case
  proof (cases "Fin (real sample) \<le> Fin c \<and> \<not> budget \<le> length positions")
    case True
    define local where "local = edgeSample start end' vehicle (Fin c) sample"
    define next_positions where
      "next_positions = (if beyondRadius local then positions else positions @ [place local])"
    have "Suc (nat \<lfloor>c\<rfloor>) - Suc sample < Suc (nat \<lfloor>c\<rfloor>) - sample"
      using js_floor_le True by fastforce
    moreover have "roads_ok budget next_positions"
      using less.prems True by (simp add: next_positions_def roads_ok_snoc assms)
    moreover have "sampleLoop budget place start end' vehicle (Fin c) sample positions =
        sampleLoop budget place start end' vehicle (Fin c) (Suc sample) next_positions"
      using True by (subst sampleLoop.simps) (simp add: next_positions_def local_def Let_def)
    ultimately show ?thesis using less.hyps by metis
  next
    case False
    then show ?thesis using less.prems by (subst sampleLoop.simps) auto
  qed
qed

text \<open>An infinite number of samples: all of them are NaN, and are kept until the budget is spent.\<close>

lemma infinite_edge_kept:
  assumes "sampleCountOf (Fin spacing) start end' = PosInf" "0 < spacing"
  shows "\<not> beyondRadius (edgeSample start end' vehicle PosInf sample)"
proof -
  have "js_hypot (pt_x_m end' - pt_x_m start) (pt_y_m end' - pt_y_m start) = PosInf"
    using assms
    by (cases "js_hypot (pt_x_m end' - pt_x_m start) (pt_y_m end' - pt_y_m start)")
      (auto simp: sampleCountOf_def js_max_def js_ceil_def inf_of_sign_def split: if_splits)
  then have "pt_x_m end' - pt_x_m start \<in> {PosInf, NegInf} \<or> pt_y_m end' - pt_y_m start \<in> {PosInf, NegInf}"
    by (auto simp: js_hypot_def split: if_splits jsnum.splits)
  then show ?thesis
    by (auto simp: edgeSample_def localPoint_def beyondRadius_def Let_def js_hypot_def inf_of_sign_def)
qed

lemma sampleLoop_infinite:
  assumes "places place" "sampleCountOf (Fin spacing) start end' = PosInf" "0 < spacing"
  shows "roads_ok budget positions \<Longrightarrow>
   \<exists>positions'. sampleLoop budget place start end' vehicle PosInf sample positions = Some positions' \<and>
     roads_ok budget positions'"
proof (induction "budget - length positions" arbitrary: sample positions rule: less_induct)
  case less
  show ?case
  proof (cases "budget \<le> length positions")
    case False
    define local where "local = edgeSample start end' vehicle PosInf sample"
    have kept: "\<not> beyondRadius local" unfolding local_def by (rule infinite_edge_kept [OF assms(2,3)])
    define next_positions where "next_positions = positions @ [place local]"
    have "budget - length next_positions < budget - length positions"
      using False by (simp add: next_positions_def)
    moreover have "roads_ok budget next_positions"
      using less.prems False kept by (simp add: next_positions_def roads_ok_snoc assms(1))
    moreover have "sampleLoop budget place start end' vehicle PosInf sample positions =
        sampleLoop budget place start end' vehicle PosInf (Suc sample) next_positions"
      using False kept by (subst sampleLoop.simps) (simp add: next_positions_def local_def Let_def)
    ultimately show ?thesis using less.hyps by metis
  next
    case True
    then show ?thesis using less.prems by (subst sampleLoop.simps) auto
  qed
qed

lemma sampleLoop_returns:
  assumes "places place" "0 < spacing" "roads_ok budget positions"
  shows "\<exists>positions'. sampleLoop budget place start end' vehicle (sampleCountOf (Fin spacing) start end') 0 positions =
      Some positions' \<and> roads_ok budget positions'"
proof (cases "sampleCountOf (Fin spacing) start end'")
  case (Fin c)
  then show ?thesis using sampleLoop_finite [OF assms(1,3)] by simp
next
  case PosInf
  then show ?thesis using sampleLoop_infinite [OF assms(1) _ assms(2,3)] by simp
qed (subst sampleLoop.simps; simp add: assms)+

lemma sampleEdges_returns:
  "roads_ok MAX_ROAD_POINTS positions \<Longrightarrow>
   \<exists>positions'. sampleEdges vehicle edges positions = Some positions' \<and> roads_ok MAX_ROAD_POINTS positions'"
proof (induction edges arbitrary: positions)
  case (Cons e edges)
  obtain p where "sampleEdge vehicle e positions = Some p" "roads_ok MAX_ROAD_POINTS p"
    using sampleLoop_returns [OF places_roadPoint _ Cons.prems, of "1.6"]
    by (cases e) (force simp: sampleEdge_def ROAD_POINT_SPACING_M_def)
  with Cons.IH [of p] show ?case by simp
qed simp

lemma buildRoads_returns:
  "roads_ok MAX_ROAD_POINTS positions \<Longrightarrow>
   \<exists>positions' paths'. buildRoads vehicle features positions paths = Some (positions', paths') \<and>
     roads_ok MAX_ROAD_POINTS positions'"
proof (induction features arbitrary: positions paths)
  case (Cons feature features)
  obtain p where "sampleEdges vehicle (featureEdges feature) positions = Some p" "roads_ok MAX_ROAD_POINTS p"
    using sampleEdges_returns [OF Cons.prems] by blast
  with Cons show ?case by simp
qed simp

text \<open>
  Every angle below some magnitude is reduced, as long as the rounding is off by less than a turn
  there; the result lies in the half turn on each side, up to one rounding.
\<close>

definition rounds_within :: "(real \<Rightarrow> real) \<Rightarrow> real \<Rightarrow> real \<Rightarrow> bool" where
  "rounds_within rnd bound err \<longleftrightarrow>
     err \<le> 1 \<and> (\<forall>x. \<bar>x\<bar> \<le> bound \<longrightarrow> \<bar>rnd x - x\<bar> \<le> err)"

lemma unwindDown_step:
  "unwindDown rnd (Fin r) = (if pi < r then unwindDown rnd (Fin (rnd (r - pi * 2))) else Some (Fin r))"
  by (subst unwindDown.simps) simp

lemma unwindUp_step:
  "unwindUp rnd (Fin r) = (if r < - pi then unwindUp rnd (Fin (rnd (r + pi * 2))) else Some (Fin r))"
  by (subst unwindUp.simps) simp

lemma unwindDown_returns:
  assumes "rounds_within rnd bound err" and "pi + 1 \<le> bound"
  shows "\<bar>r\<bar> \<le> bound \<Longrightarrow>
    \<exists>a. unwindDown rnd (Fin r) = Some (Fin a) \<and> a \<le> pi \<and> (- (pi + err) \<le> a \<or> a = r)"
proof (induction "nat \<lceil>r\<rceil>" arbitrary: r rule: less_induct)
  case less
  show ?case
  proof (cases "pi < r")
    case True
    have small: "\<bar>r - pi * 2\<bar> \<le> bound" using True less.prems pi_ge_two assms(2) by linarith
    have near: "\<bar>rnd (r - pi * 2) - (r - pi * 2)\<bar> \<le> err" "err \<le> 1"
      using assms(1) small by (auto simp: rounds_within_def)
    have "nat \<lceil>rnd (r - pi * 2)\<rceil> < nat \<lceil>r\<rceil>" using near True pi_ge_two by linarith
    moreover have "\<bar>rnd (r - pi * 2)\<bar> \<le> bound" using near True less.prems pi_ge_two assms(2) by linarith
    ultimately obtain a where
      "unwindDown rnd (Fin (rnd (r - pi * 2))) = Some (Fin a)" "a \<le> pi"
      "- (pi + err) \<le> a \<or> a = rnd (r - pi * 2)"
      using less.hyps by blast
    moreover have "- (pi + err) \<le> rnd (r - pi * 2)" using near True by linarith
    ultimately show ?thesis using True by (auto simp: unwindDown_step [of rnd r])
  next
    case False
    then show ?thesis by (simp add: unwindDown_step)
  qed
qed

lemma unwindUp_returns:
  assumes "rounds_within rnd bound err" and "pi + 1 \<le> bound"
  shows "\<bar>r\<bar> \<le> bound \<Longrightarrow> r \<le> pi + err \<Longrightarrow>
    \<exists>a. unwindUp rnd (Fin r) = Some (Fin a) \<and> - pi \<le> a \<and> a \<le> pi + err"
proof (induction "nat \<lceil>- r\<rceil>" arbitrary: r rule: less_induct)
  case less
  show ?case
  proof (cases "r < - pi")
    case True
    have small: "\<bar>r + pi * 2\<bar> \<le> bound" using True less.prems pi_ge_two assms(2) by linarith
    have near: "\<bar>rnd (r + pi * 2) - (r + pi * 2)\<bar> \<le> err" "err \<le> 1"
      using assms(1) small by (auto simp: rounds_within_def)
    have "nat \<lceil>- rnd (r + pi * 2)\<rceil> < nat \<lceil>- r\<rceil>" using near True pi_ge_two by linarith
    moreover have "\<bar>rnd (r + pi * 2)\<bar> \<le> bound" using near True less.prems pi_ge_two assms(2) by linarith
    moreover have "rnd (r + pi * 2) \<le> pi + err" using near True by linarith
    ultimately show ?thesis using less.hyps True by (simp add: unwindUp_step [of rnd r])
  next
    case False
    then show ?thesis using less.prems by (simp add: unwindUp_step)
  qed
qed

lemma angle_normalizes_bound:
  assumes "rounds_within rnd bound err" and "pi + 1 \<le> bound" and "\<bar>r\<bar> \<le> bound"
  shows "\<exists>a. normalizeAngleRadians rnd (Fin r) = Some (Fin a) \<and> - pi \<le> a \<and> a \<le> pi + err"
proof -
  have "\<bar>rnd r - r\<bar> \<le> err" "err \<le> 1" using assms(1,3) by (auto simp: rounds_within_def)
  then have err: "0 \<le> err" "err \<le> 1" by linarith+
  obtain a where a: "unwindDown rnd (Fin r) = Some (Fin a)" "a \<le> pi" "- (pi + err) \<le> a \<or> a = r"
    using unwindDown_returns [OF assms] by blast
  have "\<bar>a\<bar> \<le> bound"
  proof (cases "a = r")
    case False
    then show ?thesis using a(2,3) assms(2) err pi_gt_zero by auto
  qed (use assms(3) in simp)
  moreover have "a \<le> pi + err" using a(2) err by linarith
  ultimately show ?thesis
    using unwindUp_returns [OF assms(1,2)] a(1) by (simp add: normalizeAngleRadians_def)
qed

text \<open>
  The angle loops return: a finite angle below some magnitude, where the rounding of a
  subtraction is off by at most one, is reduced after finitely many turns to a value between minus pi
  and pi, up to one rounding.
\<close>

theorem angle_normalizes:
  assumes "rounds_within rnd bound err" and "pi + 1 \<le> bound" and "\<bar>r\<bar> \<le> bound"
  shows "\<exists>a. normalizeAngleRadians rnd (Fin r) = Some (Fin a) \<and> - pi \<le> a \<and> a \<le> pi + err"
  by (rule angle_normalizes_bound [OF assms])

text \<open>Rounding down to quarters, and rounding to the nearest multiple of 16.\<close>

definition quarters :: "real \<Rightarrow> real" where
  "quarters x = of_int \<lfloor>4 * x\<rfloor> / 4"

definition sixteens :: "real \<Rightarrow> real" where
  "sixteens x = 16 * of_int \<lfloor>x / 16 + 1 / 2\<rfloor>"

lemma quarters_rounds: "rounds_within quarters 100 (1/4)"
proof -
  have "\<bar>quarters x - x\<bar> \<le> 1/4" for x unfolding quarters_def by linarith
  then show ?thesis by (simp add: rounds_within_def)
qed

theorem angle_normalizes_witness:
  "\<exists>a. normalizeAngleRadians quarters (Fin 50) = Some (Fin a) \<and> - pi \<le> a \<and> a \<le> pi + 1 / 4"
  using angle_normalizes [OF quarters_rounds, of 50] pi_less_4 by simp

text \<open>If the loop returns, a step that leaves the angle where it is was not taken.\<close>

lemma unwindDown_moves:
  assumes "unwindDown rnd angle = Some a"
  shows "\<not> (js_pi < angle \<and> num_map rnd (angle - js_pi * 2) = angle)"
proof (rule unwindDown.raw_induct [where P = "\<lambda>rnd angle _. \<not> (js_pi < angle \<and> num_map rnd (angle - js_pi * 2) = angle)",
    OF _ assms], rule notI)
  fix loop rnd angle a
  assume IH: "\<And>rnd angle a. loop rnd angle = Some a \<Longrightarrow>
      \<not> (js_pi < angle \<and> num_map rnd (angle - js_pi * 2) = angle)"
    and step: "(if js_pi < angle then loop rnd (num_map rnd (angle - js_pi * 2)) else Some angle) = Some a"
    and hang: "js_pi < angle \<and> num_map rnd (angle - js_pi * 2) = angle"
  then have "loop rnd angle = Some a" by simp
  with IH hang show False by blast
qed

text \<open>
  C35. The angle loop can run forever: an angle above pi so large that subtracting a full turn rounds
  back to the same number is never reduced, and neither is plus infinity.
\<close>

theorem angle_hangs:
  assumes "angle = PosInf \<or> (\<exists>r. angle = Fin r \<and> pi < r \<and> rnd (r - pi * 2) = r)"
  shows "normalizeAngleRadians rnd angle = None"
proof -
  have again: "js_pi < angle" "num_map rnd (angle - js_pi * 2) = angle"
    using assms by (auto simp: minus_jsnum_def)
  then have "unwindDown rnd angle = None" using unwindDown_moves by (cases "unwindDown rnd angle") blast+
  then show ?thesis by (simp add: normalizeAngleRadians_def)
qed

theorem angle_hangs_witness: "normalizeAngleRadians sixteens (Fin 160) = None"
proof -
  have "\<lfloor>(160 - pi * 2) / 16 + 1 / 2\<rfloor> = 10"
    using pi_less_4 pi_ge_two unfolding floor_eq_iff by (intro conjI) (auto simp: field_simps)
  then show ?thesis
    using angle_hangs [of "Fin 160" sixteens] pi_less_4 by (simp add: sixteens_def)
qed

section \<open>What a frame holds\<close>

definition entityNear :: "LidarEntity \<Rightarrow> bool" where
  "entityNear entity = (case le_position entity of (x, height, z) \<Rightarrow> js_hypot x z \<le> LIDAR_RADIUS_M)"

lemma finite_position:
  assumes "finiteEntity e" "le_position e = (x, h, z)"
  shows "isFinite x" "isFinite z"
  using assms by (simp_all add: finiteEntity_def finite_coords_def)

lemma near_of_within:
  assumes "finiteEntity e" and "le_position e = scenePoint (v3_x_m local) (v3_y_m local) h"
    and "\<not> beyondRadius local"
  shows "entityNear e"
proof -
  obtain x z where "v3_x_m local = Fin x" "- v3_y_m local = Fin z"
    using finite_position [OF assms(1)] assms(2) by (auto simp: scenePoint_def isFinite_iff)
  then show ?thesis
    using assms(2,3)
    by (cases "v3_y_m local") (auto simp: entityNear_def scenePoint_def beyondRadius_def LIDAR_RADIUS_M_def)
qed

lemma vehicleEntity_position:
  "vehicleEntity rnd vehicle peer = Some e \<Longrightarrow>
   \<exists>h. le_position e = scenePoint (v3_x_m (peerPoint vehicle peer)) (v3_y_m (peerPoint vehicle peer)) h"
  by (auto simp: vehicleEntity_def Let_def)

lemma those_member: "those xs = Some ys \<Longrightarrow> y \<in> set ys \<Longrightarrow> Some y \<in> set xs"
  by (induction xs arbitrary: ys) (auto split: option.splits)

lemma those_total: "list_all (\<lambda>x. x \<noteq> None) xs \<Longrightarrow> \<exists>ys. those xs = Some ys"
  by (induction xs) auto

lemma vehicle_near:
  assumes "vehicleEntities rnd world vehicle = Some peers" "e \<in> set peers" "finiteEntity e"
  shows "entityNear e"
proof -
  from those_member [OF assms(1) [unfolded vehicleEntities_def] assms(2)] obtain peer
    where "vehicleEntity rnd vehicle peer = Some e" "withinRadius (peerPoint vehicle peer)"
    by (auto simp: image_iff)
  then show ?thesis
    using vehicleEntity_position near_of_within assms(3) by (metis withinRadius_def)
qed

lemma object_near:
  "e \<in> set (objectEntities world vehicle) \<Longrightarrow> finiteEntity e \<Longrightarrow> entityNear e"
  by (auto simp: objectEntities_def Let_def split: if_splits elim!: near_of_within)

lemma obstacle_near:
  assumes "e \<in> set (obstacleEntities world vehicle)" "finiteEntity e"
  shows "entityNear e"
proof -
  obtain obstacle h where "le_position e =
      scenePoint (v3_x_m (localPoint obstacle vehicle 0)) (v3_y_m (localPoint obstacle vehicle 0)) h"
    "js_hypot (v3_x_m (localPoint obstacle vehicle 0)) (v3_y_m (localPoint obstacle vehicle 0)) \<le> LIDAR_RADIUS_M"
    using assms(1) by (auto simp: obstacleEntities_def Let_def split: option.splits if_splits)
  then show ?thesis
    by (intro near_of_within [OF assms(2)]) (auto simp: beyondRadius_def less_eq_jsnum_def LIDAR_RADIUS_M_def
      elim: less_jsnum.elims)
qed

lemma radar_near:
  assumes "e \<in> set (radarEntities world)" "finiteEntity e"
    and "list_all (\<lambda>d. 0 \<le> ro_range_m d) (ws_radar_objects world)"
  shows "entityNear e"
proof -
  obtain d where d: "d \<in> set (ws_radar_objects world)" "\<not> LIDAR_RADIUS_M < ro_range_m d"
    "le_position e = scenePoint (js_sin (ro_bearing_deg d * js_pi / 180) * ro_range_m d)
       (js_cos (ro_bearing_deg d * js_pi / 180) * ro_range_m d) 1"
    using assms(1) by (auto simp: radarEntities_def Let_def split: if_splits)
  have "0 \<le> ro_range_m d" using d(1) assms(3) by (simp add: list_all_iff)
  then obtain r where r: "ro_range_m d = Fin r" "0 \<le> r" "r \<le> 80"
    using d(2) by (cases "ro_range_m d") (auto simp: LIDAR_RADIUS_M_def)
  have "isFinite (js_sin (ro_bearing_deg d * js_pi / 180) * ro_range_m d)"
    using finite_position [OF assms(2)] d(3) by (simp add: scenePoint_def)
  then obtain b where "ro_bearing_deg d * js_pi / 180 = Fin b"
    by (cases "ro_bearing_deg d * js_pi / 180") simp_all
  moreover have "sqrt ((sin b * r)\<^sup>2 + (cos b * r)\<^sup>2) = r"
    using r(2) by (simp add: power_mult_distrib flip: distrib_right)
  ultimately show ?thesis
    using d(3) r by (simp add: entityNear_def scenePoint_def LIDAR_RADIUS_M_def)
qed

lemma buildEntities_sound:
  assumes "buildEntities rnd world vehicle = Some entities"
    and "list_all (\<lambda>d. 0 \<le> ro_range_m d) (ws_radar_objects world)"
  shows "list_all finiteEntity entities \<and> list_all entityNear entities"
proof -
  obtain peers where "vehicleEntities rnd world vehicle = Some peers"
    "entities = filter finiteEntity
       (peers @ objectEntities world vehicle @ radarEntities world @ obstacleEntities world vehicle)"
    using assms(1) by (auto simp: buildEntities_def)
  then show ?thesis
    using vehicle_near object_near obstacle_near radar_near assms(2) by (auto simp: list_all_iff)
qed

text \<open>The headings of the fleet, small enough for the angle loop.\<close>

definition headings_below :: "real \<Rightarrow> VehiclePose list \<Rightarrow> bool" where
  "headings_below limit vehicles \<longleftrightarrow>
     list_all (\<lambda>v. case vp_heading_deg v of Fin h \<Rightarrow> \<bar>h\<bar> \<le> limit | _ \<Rightarrow> False) vehicles"

lemma vehicleEntity_returns:
  assumes "rounds_within rnd bound err" "pi + 1 \<le> bound" "headings_below (20 * bound) [vehicle, peer]"
  shows "vehicleEntity rnd vehicle peer \<noteq> None"
proof -
  obtain g h where gh: "vp_heading_deg peer = Fin g" "vp_heading_deg vehicle = Fin h"
    "\<bar>g\<bar> \<le> 20 * bound" "\<bar>h\<bar> \<le> 20 * bound"
    using assms(3) by (auto simp: headings_below_def split: jsnum.splits)
  then have "\<bar>g - h\<bar> \<le> 40 * bound" by linarith
  then have "\<bar>g - h\<bar> * pi \<le> 40 * bound * 4" using pi_less_4 by (intro mult_mono) auto
  moreover have "0 \<le> bound" using assms(2) pi_gt_zero by linarith
  ultimately have "\<bar>(g - h) * pi / 180\<bar> \<le> bound" by (simp add: abs_mult)
  from angle_normalizes_bound [OF assms(1,2) this] show ?thesis
    by (auto simp: vehicleEntity_def Let_def gh)
qed

lemma buildEntities_returns:
  assumes "rounds_within rnd bound err" "pi + 1 \<le> bound"
    and "headings_below (20 * bound) (vehicle # ws_vehicles world)"
  shows "\<exists>entities. buildEntities rnd world vehicle = Some entities"
proof -
  have "\<exists>peers. vehicleEntities rnd world vehicle = Some peers"
    unfolding vehicleEntities_def
  proof (rule those_total, unfold list_all_iff, rule ballI)
    fix e
    assume "e \<in> set (map (vehicleEntity rnd vehicle)
       (filter (\<lambda>peer. \<not> (vp_vehicle_id peer = vp_vehicle_id vehicle \<or> vp_position_confidence peer < Fin 0.5) \<and>
            withinRadius (peerPoint vehicle peer)) (ws_vehicles world)))"
    then obtain peer where "e = vehicleEntity rnd vehicle peer" "peer \<in> set (ws_vehicles world)" by auto
    moreover have "headings_below (20 * bound) [vehicle, peer]"
      using assms(3) calculation(2) by (auto simp: headings_below_def list_all_iff)
    ultimately show "e \<noteq> None" using vehicleEntity_returns [OF assms(1,2)] by simp
  qed
  then show ?thesis by (auto simp: buildEntities_def)
qed

lemma length_flat1: "length (flat p) = 3"
  by (cases p rule: flat.cases) simp

lemma length_flat: "length (concat (map (flat \<circ> f) xs)) = 3 * length xs"
  by (induction xs) (auto simp: length_flat1)

lemma length_optional: "(\<And>x. length (f x) \<le> 1) \<Longrightarrow> length (concat (map f xs)) \<le> length xs"
proof (induction xs)
  case (Cons a xs)
  then have "length (f a) \<le> 1" "length (concat (map f xs)) \<le> length xs" by blast+
  then show ?case by simp
qed simp

lemma length_lidarReturns: "length (lidarReturns world vehicle) \<le> 240"
  unfolding lidarReturns_def
  by (rule order_trans [OF length_optional shown_count]) (simp add: Let_def)



end
