(* ===== verification/TerrainIndex.thy ===== *)
theory TerrainIndex
  imports WorldTypes
begin

text \<open>
  Geometry of the terrain: the first part of \<^verbatim>\<open>frontend/src/twin/terrainField.ts\<close> (polygons, edge
  distances, noise, graded roads and their spatial index). Coordinates are the finite ones of the
  reference map, which the snapshot guard has checked, so this theory reads them at reals; the
  divisors of the code are never zero there.
\<close>

type_synonym Point = "real \<times> real"

section \<open>Polygons\<close>

text \<open>The edges \<^verbatim>\<open>(points[i], points[j])\<close> with \<^verbatim>\<open>j\<close> the cyclic predecessor of \<^verbatim>\<open>i\<close>.\<close>

fun edgesFrom :: "Point \<Rightarrow> Point list \<Rightarrow> (Point \<times> Point) list" where
  "edgesFrom b [] = []"
| "edgesFrom b (a # rest) = (a, b) # edgesFrom a rest"

definition polygonEdges :: "Point list \<Rightarrow> (Point \<times> Point) list" where
  "polygonEdges points = (if points = [] then [] else edgesFrom (last points) points)"

text \<open>Does the ray from the point to the right cross the edge?\<close>

definition crosses :: "real \<Rightarrow> real \<Rightarrow> Point \<times> Point \<Rightarrow> bool" where
  "crosses x y = (\<lambda>((ax, ay), (bx, by)).
     ((y < ay) \<noteq> (y < by)) \<and> x < (bx - ax) * (y - ay) / (by - ay) + ax)"

definition insidePolygon :: "real \<Rightarrow> real \<Rightarrow> Point list \<Rightarrow> bool" where
  "insidePolygon x y points =
     foldl (\<lambda>inside e. if crosses x y e then \<not> inside else inside) False (polygonEdges points)"

definition clamp :: "real \<Rightarrow> real" where
  "clamp n = max 0 (min 1 n)"

text \<open>\<^verbatim>\<open>n || 1\<close> on a number.\<close>

definition or_one :: "real \<Rightarrow> real" where
  "or_one n = (if n = 0 then 1 else n)"

definition hypot :: "real \<Rightarrow> real \<Rightarrow> real" where
  "hypot u v = sqrt (u\<^sup>2 + v\<^sup>2)"

text \<open>The distance from a point to an edge, by the clamped projection.\<close>

definition edgeParameter :: "real \<Rightarrow> real \<Rightarrow> Point \<times> Point \<Rightarrow> real" where
  "edgeParameter x y = (\<lambda>((ax, ay), (bx, by)).
     let dx = bx - ax; dy = by - ay
     in clamp (((x - ax) * dx + (y - ay) * dy) / or_one (dx * dx + dy * dy)))"

definition distanceToEdge :: "real \<Rightarrow> real \<Rightarrow> Point \<times> Point \<Rightarrow> real" where
  "distanceToEdge x y e = (case e of ((ax, ay), (bx, by)) \<Rightarrow>
     let dx = bx - ax; dy = by - ay; t = edgeParameter x y e
     in hypot (x - ax - t * dx) (y - ay - t * dy))"

text \<open>\<^verbatim>\<open>Infinity\<close> for an empty outline.\<close>

definition edgeDistance :: "real \<Rightarrow> real \<Rightarrow> Point list \<Rightarrow> jsnum" where
  "edgeDistance x y points =
     foldl (\<lambda>best e. js_min best (Fin (distanceToEdge x y e))) PosInf (polygonEdges points)"

section \<open>Noise\<close>

definition grain :: "real \<Rightarrow> real \<Rightarrow> real" where
  "grain x y = (let v = sin (x * 127.1 + y * 311.7) * 43758.5453 in v - of_int \<lfloor>v\<rfloor>)"

definition noise :: "real \<Rightarrow> real \<Rightarrow> real" where
  "noise x y =
     (let ix = of_int \<lfloor>x\<rfloor>; iy = of_int \<lfloor>y\<rfloor>; fx = x - ix; fy = y - iy;
          u = fx * fx * (3 - 2 * fx); v = fy * fy * (3 - 2 * fy)
      in (grain ix iy * (1 - u) + grain (ix + 1) iy * u) * (1 - v) +
         (grain ix (iy + 1) * (1 - u) + grain (ix + 1) (iy + 1) * u) * v)"

section \<open>Graded roads\<close>

record GradedRoad =
  gr_points :: "Point list"
  gr_elevations :: "real list"
  gr_width :: real

record Segment =
  seg_ax :: real
  seg_ay :: real
  seg_dx :: real
  seg_dy :: real
  seg_length2 :: real
  seg_h :: real
  seg_dh :: real
  seg_width :: real

definition segmentAt :: "GradedRoad \<Rightarrow> nat \<Rightarrow> Segment" where
  "segmentAt road i =
     (let (ax, ay) = gr_points road ! (i - 1); (bx, by) = gr_points road ! i
      in \<lparr>seg_ax = ax, seg_ay = ay, seg_dx = bx - ax, seg_dy = by - ay,
          seg_length2 = (bx - ax)\<^sup>2 + (by - ay)\<^sup>2, seg_h = gr_elevations road ! (i - 1),
          seg_dh = gr_elevations road ! i - gr_elevations road ! (i - 1), seg_width = gr_width road\<rparr>)"

definition roadSegments :: "GradedRoad list \<Rightarrow> Segment list" where
  "roadSegments roads =
     concat (map (\<lambda>road. map (segmentAt road) [1..<length (gr_points road)]) roads)"

definition cellSize :: real where
  "cellSize = 8"

definition cellOf :: "real \<Rightarrow> int" where
  "cellOf c = \<lfloor>c / cellSize\<rfloor>"

text \<open>The cells of a segment: those its bounding box reaches, with a margin.\<close>

definition segmentCells :: "Segment \<Rightarrow> (int \<times> int) list" where
  "segmentCells s =
     (let margin = seg_width s / 2 + 3;
          bx = seg_ax s + seg_dx s; by = seg_ay s + seg_dy s
      in concat (map (\<lambda>x. map (\<lambda>y. (x, y))
           [cellOf (min (seg_ay s) by - margin)..cellOf (max (seg_ay s) by + margin)])
         [cellOf (min (seg_ax s) bx - margin)..cellOf (max (seg_ax s) bx + margin)]))"

definition addToCell :: "Segment \<Rightarrow> (int \<times> int \<rightharpoonup> Segment list) \<Rightarrow> int \<times> int \<Rightarrow> (int \<times> int \<rightharpoonup> Segment list)" where
  "addToCell s cells key = cells(key \<mapsto> (case cells key of Some cell \<Rightarrow> cell @ [s] | None \<Rightarrow> [s]))"

definition indexCells :: "Segment list \<Rightarrow> (int \<times> int \<rightharpoonup> Segment list)" where
  "indexCells segments =
     foldl (\<lambda>cells s. foldl (addToCell s) cells (segmentCells s)) Map.empty segments"

record RoadHit =
  hit_distance :: jsnum
  hit_elevation :: real
  hit_width :: real

definition segmentParameter :: "real \<Rightarrow> real \<Rightarrow> Segment \<Rightarrow> real" where
  "segmentParameter x y s =
     clamp (((x - seg_ax s) * seg_dx s + (y - seg_ay s) * seg_dy s) / or_one (seg_length2 s))"

definition segmentDistance :: "real \<Rightarrow> real \<Rightarrow> Segment \<Rightarrow> real" where
  "segmentDistance x y s =
     (let t = segmentParameter x y s
      in hypot (x - seg_ax s - t * seg_dx s) (y - seg_ay s - t * seg_dy s))"

definition nearer :: "real \<Rightarrow> real \<Rightarrow> RoadHit \<Rightarrow> Segment \<Rightarrow> RoadHit" where
  "nearer x y hit s =
     (if Fin (segmentDistance x y s) < hit_distance hit
      then \<lparr>hit_distance = Fin (segmentDistance x y s),
            hit_elevation = seg_h s + segmentParameter x y s * seg_dh s, hit_width = seg_width s\<rparr>
      else hit)"

definition nearestSegment :: "real \<Rightarrow> real \<Rightarrow> Segment list \<Rightarrow> RoadHit" where
  "nearestSegment x y segments =
     foldl (nearer x y) \<lparr>hit_distance = PosInf, hit_elevation = 0, hit_width = 3\<rparr> segments"

definition roadIndex :: "GradedRoad list \<Rightarrow> real \<Rightarrow> real \<Rightarrow> RoadHit" where
  "roadIndex roads =
     (let cells = indexCells (roadSegments roads)
      in (\<lambda>x y. nearestSegment x y
           (case cells (cellOf x, cellOf y) of Some cell \<Rightarrow> cell | None \<Rightarrow> [])))"

text \<open>The bounding box test in front of \<^verbatim>\<open>insidePolygon\<close>.\<close>

definition polygonContains :: "Point list \<Rightarrow> real \<Rightarrow> real \<Rightarrow> bool" where
  "polygonContains points x y \<longleftrightarrow>
     (points \<noteq> [] \<and> Min (fst ` set points) \<le> x \<and> x \<le> Max (fst ` set points) \<and>
      Min (snd ` set points) \<le> y \<and> y \<le> Max (snd ` set points)) \<and> insidePolygon x y points"

section \<open>The index returns what a search of every segment returns\<close>

lemma distinct_grid:
  "\<lbrakk>distinct xs; distinct ys\<rbrakk> \<Longrightarrow> distinct (concat (map (\<lambda>x. map (Pair x) ys) xs))"
  by (induction xs) (auto simp: distinct_map inj_on_def)

lemma distinct_segmentCells: "distinct (segmentCells s)"
  unfolding segmentCells_def Let_def by (rule distinct_grid) simp_all

lemma addToCell_fold:
  "distinct keys \<Longrightarrow> foldl (addToCell s) cells keys k =
     (if k \<in> set keys then Some (case cells k of Some cell \<Rightarrow> cell @ [s] | None \<Rightarrow> [s]) else cells k)"
proof (induction keys arbitrary: cells)
  case (Cons key keys)
  then show ?case by (auto simp: addToCell_def)
qed simp

lemma indexCells_fold:
  "(case foldl (\<lambda>cells s. foldl (addToCell s) cells (segmentCells s)) cells segments k of
      Some cell \<Rightarrow> cell | None \<Rightarrow> []) =
   (case cells k of Some cell \<Rightarrow> cell | None \<Rightarrow> []) @ filter (\<lambda>s. k \<in> set (segmentCells s)) segments"
proof (induction segments arbitrary: cells)
  case (Cons s segments)
  show ?case
    by (simp only: foldl.simps Cons.IH)
      (auto simp: addToCell_fold [OF distinct_segmentCells] split: option.splits)
qed simp

lemma indexCells_lookup:
  "(case indexCells segments k of Some cell \<Rightarrow> cell | None \<Rightarrow> []) =
     filter (\<lambda>s. k \<in> set (segmentCells s)) segments"
  unfolding indexCells_def indexCells_fold by simp

text \<open>A point within the margin of a segment lies in one of its cells.\<close>

lemma clamp_range: "0 \<le> clamp n" "clamp n \<le> 1"
  by (simp_all add: clamp_def)

lemma convex_range:
  fixes t :: real
  assumes "0 \<le> t" "t \<le> 1"
  shows "min a (a + d) \<le> a + t * d" "a + t * d \<le> max a (a + d)"
proof -
  have "0 \<le> t * d \<and> t * d \<le> d \<or> t * d \<le> 0 \<and> d \<le> t * d"
    using assms by (cases "0 \<le> d")
      (simp_all add: mult_left_le_one_le mult_nonneg_nonpos mult_le_cancel_right1)
  then show "min a (a + d) \<le> a + t * d" "a + t * d \<le> max a (a + d)" by auto
qed

lemma hypot_bounds: "hypot u v \<le> m \<Longrightarrow> \<bar>u\<bar> \<le> m" "hypot u v \<le> m \<Longrightarrow> \<bar>v\<bar> \<le> m"
proof -
  have "\<bar>u\<bar> \<le> hypot u v" "\<bar>v\<bar> \<le> hypot u v"
    unfolding hypot_def by (auto intro!: real_le_rsqrt)
  then show "hypot u v \<le> m \<Longrightarrow> \<bar>u\<bar> \<le> m" "hypot u v \<le> m \<Longrightarrow> \<bar>v\<bar> \<le> m" by linarith+
qed

lemma cellOf_mono: "a \<le> b \<Longrightarrow> cellOf a \<le> cellOf b"
  unfolding cellOf_def cellSize_def by (intro floor_mono) (simp add: divide_right_mono)

lemma near_segment_cell:
  assumes "segmentDistance x y s \<le> seg_width s / 2 + 3"
  shows "(cellOf x, cellOf y) \<in> set (segmentCells s)"
proof -
  define t where "t = segmentParameter x y s"
  have t: "0 \<le> t" "t \<le> 1" by (simp_all add: t_def segmentParameter_def clamp_range)
  define margin where "margin = seg_width s / 2 + 3"
  have d: "hypot (x - seg_ax s - t * seg_dx s) (y - seg_ay s - t * seg_dy s) \<le> margin"
    using assms by (simp add: segmentDistance_def t_def margin_def Let_def)
  have "\<bar>x - (seg_ax s + t * seg_dx s)\<bar> \<le> margin" "\<bar>y - (seg_ay s + t * seg_dy s)\<bar> \<le> margin"
    using hypot_bounds [OF d] by (simp_all add: diff_diff_add)
  then have "min (seg_ax s) (seg_ax s + seg_dx s) - margin \<le> x" "x \<le> max (seg_ax s) (seg_ax s + seg_dx s) + margin"
    "min (seg_ay s) (seg_ay s + seg_dy s) - margin \<le> y" "y \<le> max (seg_ay s) (seg_ay s + seg_dy s) + margin"
    using convex_range [OF t, of "seg_ax s" "seg_dx s"] convex_range [OF t, of "seg_ay s" "seg_dy s"]
    by linarith+
  from this [THEN cellOf_mono] show ?thesis
    by (auto simp: segmentCells_def Let_def margin_def intro!: bexI [of _ "cellOf x"])
qed

text \<open>
  The search keeps the first of the nearest segments, so leaving out segments that are farther than
  the result changes nothing.
\<close>

definition hitOf :: "real \<Rightarrow> real \<Rightarrow> Segment \<Rightarrow> RoadHit" where
  "hitOf x y s = \<lparr>hit_distance = Fin (segmentDistance x y s),
     hit_elevation = seg_h s + segmentParameter x y s * seg_dh s, hit_width = seg_width s\<rparr>"

lemma nearestSegment_snoc:
  "nearestSegment x y (segs @ [s]) = nearer x y (nearestSegment x y segs) s"
  by (simp add: nearestSegment_def)

lemma nearestSegment_cases:
  "segs = [] \<and> hit_distance (nearestSegment x y segs) = PosInf \<or>
   (\<exists>s \<in> set segs. nearestSegment x y segs = hitOf x y s \<and>
      (\<forall>s' \<in> set segs. segmentDistance x y s \<le> segmentDistance x y s'))"
proof (induction segs rule: rev_induct)
  case Nil
  then show ?case by (simp add: nearestSegment_def)
next
  case (snoc s' segs)
  show ?case
  proof (cases "segs = []")
    case True
    then show ?thesis by (simp add: nearestSegment_def nearer_def hitOf_def)
  next
    case False
    with snoc obtain s where s: "s \<in> set segs" "nearestSegment x y segs = hitOf x y s"
      "\<forall>s'' \<in> set segs. segmentDistance x y s \<le> segmentDistance x y s''" by blast
    have "nearestSegment x y (segs @ [s']) =
          (if segmentDistance x y s' < segmentDistance x y s then hitOf x y s' else hitOf x y s)"
      by (simp add: nearestSegment_snoc nearer_def s(2)) (simp add: hitOf_def)
    then show ?thesis
      using s by (cases "segmentDistance x y s' < segmentDistance x y s") fastforce+
  qed
qed

lemma nearestSegment_post:
  "\<lbrakk>hit_distance hit \<le> Fin d; \<forall>q \<in> set post. d \<le> segmentDistance x y q\<rbrakk> \<Longrightarrow>
   foldl (nearer x y) hit post = hit"
proof (induction post)
  case (Cons q post)
  then have "\<not> Fin (segmentDistance x y q) < hit_distance hit"
    by (cases "hit_distance hit") auto
  with Cons show ?case by (simp add: nearer_def)
qed simp

lemma nearestSegment_at:
  assumes "\<forall>p \<in> set pre. segmentDistance x y s < segmentDistance x y p"
    and "\<forall>q \<in> set post. segmentDistance x y s \<le> segmentDistance x y q"
  shows "nearestSegment x y (pre @ s # post) = hitOf x y s"
proof -
  have "Fin (segmentDistance x y s) < hit_distance (nearestSegment x y pre)"
    using nearestSegment_cases [of pre x y] assms(1) by (auto simp: hitOf_def)
  then have "nearestSegment x y (pre @ [s]) = hitOf x y s"
    by (simp add: nearestSegment_snoc nearer_def hitOf_def)
  then have "nearestSegment x y ((pre @ [s]) @ post) = foldl (nearer x y) (hitOf x y s) post"
    by (simp add: nearestSegment_def)
  also have "\<dots> = hitOf x y s"
    by (rule nearestSegment_post [OF _ assms(2)]) (simp add: hitOf_def)
  finally show ?thesis by simp
qed

lemma nearest_first:
  "segs \<noteq> [] \<Longrightarrow> \<exists>pre s post. segs = pre @ s # post \<and>
     (\<forall>p \<in> set pre. segmentDistance x y s < segmentDistance x y p) \<and>
     (\<forall>q \<in> set post. segmentDistance x y s \<le> segmentDistance x y q)"
proof (induction segs rule: rev_induct)
  case (snoc s' segs)
  show ?case
  proof (cases "segs = []")
    case True
    then show ?thesis by (intro exI [of _ "[]"] exI [of _ s']) simp
  next
    case False
    with snoc obtain pre s post where segs: "segs = pre @ s # post"
      and pre: "\<forall>p \<in> set pre. segmentDistance x y s < segmentDistance x y p"
      and post: "\<forall>q \<in> set post. segmentDistance x y s \<le> segmentDistance x y q" by blast
    show ?thesis
    proof (cases "segmentDistance x y s' < segmentDistance x y s")
      case True
      then have "\<forall>p \<in> set segs. segmentDistance x y s' < segmentDistance x y p"
        using segs pre post by fastforce
      then show ?thesis by (intro exI [of _ segs] exI [of _ s'] exI [of _ "[]"]) simp
    next
      case far: False
      then show ?thesis
        using segs pre post by (intro exI [of _ pre] exI [of _ s] exI [of _ "post @ [s']"]) auto
    qed
  qed
qed simp

lemma nearestSegment_filter:
  assumes "\<forall>s \<in> set segs. nearestSegment x y segs = hitOf x y s \<longrightarrow> P s"
  shows "nearestSegment x y (filter P segs) = nearestSegment x y segs"
proof (cases "segs = []")
  case False
  then obtain pre s post where segs: "segs = pre @ s # post"
    and pre: "\<forall>p \<in> set pre. segmentDistance x y s < segmentDistance x y p"
    and post: "\<forall>q \<in> set post. segmentDistance x y s \<le> segmentDistance x y q"
    using nearest_first by blast
  then have hit: "nearestSegment x y segs = hitOf x y s" by (simp add: nearestSegment_at)
  with assms segs have "filter P segs = filter P pre @ s # filter P post" by simp
  then have "nearestSegment x y (filter P segs) = hitOf x y s"
    using pre post by (simp add: nearestSegment_at)
  with hit show ?thesis by simp
qed simp

lemma road_index_lookup:
  assumes "hit_distance (nearestSegment x y (roadSegments roads))
           \<le> Fin (hit_width (nearestSegment x y (roadSegments roads)) / 2 + 3)"
  shows "roadIndex roads x y = nearestSegment x y (roadSegments roads)"
  unfolding roadIndex_def Let_def indexCells_lookup
  by (rule nearestSegment_filter) (use assms in \<open>auto simp: hitOf_def intro: near_segment_cell\<close>)


definition sampleRoad :: GradedRoad where
  "sampleRoad = \<lparr>gr_points = [(0, 0), (20, 0)], gr_elevations = [8, 10], gr_width = 4\<rparr>"

lemma sampleRoad_hit:
  "nearestSegment 5 2 (roadSegments [sampleRoad]) = \<lparr>hit_distance = Fin 2, hit_elevation = 17 / 2, hit_width = 4\<rparr>"
  by (simp add: nearestSegment_def roadSegments_def sampleRoad_def segmentAt_def nearer_def
      segmentDistance_def segmentParameter_def clamp_def or_one_def hypot_def Let_def)


section \<open>The bounding box of a polygon is only a shortcut\<close>

lemma toggle_parity:
  "foldl (\<lambda>inside e. if p e then \<not> inside else inside) b es \<longleftrightarrow> (b \<noteq> odd (length (filter p es)))"
  by (induction es arbitrary: b) auto

lemma edgesFrom_set: "(a, c) \<in> set (edgesFrom b points) \<Longrightarrow> a \<in> set points \<and> (c = b \<or> c \<in> set points)"
  by (induction points arbitrary: b) auto

lemma polygonEdges_set: "(a, c) \<in> set (polygonEdges points) \<Longrightarrow> a \<in> set points \<and> c \<in> set points"
  by (auto simp: polygonEdges_def dest!: edgesFrom_set split: if_splits)

text \<open>Walking once around the outline, a predicate of the vertices changes an even number of times.\<close>

lemma changes_parity:
  "odd (length (filter (\<lambda>(a, c). f a \<noteq> f c) (edgesFrom b points))) \<longleftrightarrow> f b \<noteq> (f (last (b # points)) :: bool)"
proof (induction points arbitrary: b)
  case (Cons a points)
  have "last (b # a # points) = last (a # points)" by simp
  with Cons show ?case by (auto simp del: last.simps)
qed simp

lemma cycle_parity: "even (length (filter (\<lambda>(a, c). f a \<noteq> (f c :: bool)) (polygonEdges points)))"
  using changes_parity [of f "last points" points] by (auto simp: polygonEdges_def)

lemma crossing_between:
  fixes ax ay bx by' y :: real
  assumes "(y < ay) \<noteq> (y < by')"
  shows "min ax bx \<le> (bx - ax) * (y - ay) / (by' - ay) + ax"
    and "(bx - ax) * (y - ay) / (by' - ay) + ax \<le> max ax bx"
proof -
  define t where "t = (y - ay) / (by' - ay)"
  have "0 \<le> t" "t \<le> 1" using assms by (auto simp: t_def divide_simps)
  from convex_range [OF this, of ax "bx - ax"]
  show "min ax bx \<le> (bx - ax) * (y - ay) / (by' - ay) + ax"
    and "(bx - ax) * (y - ay) / (by' - ay) + ax \<le> max ax bx"
    by (simp_all add: t_def mult.commute add.commute)
qed

lemma outside_box_no_crossing:
  assumes "\<not> (Min (fst ` set points) \<le> x \<and> x \<le> Max (fst ` set points) \<and>
              Min (snd ` set points) \<le> y \<and> y \<le> Max (snd ` set points))"
  shows "even (length (filter (crosses x y) (polygonEdges points)))"
proof -
  have fx: "Min (fst ` set points) \<le> px \<and> px \<le> Max (fst ` set points)"
    and fy: "Min (snd ` set points) \<le> py \<and> py \<le> Max (snd ` set points)" if "(px, py) \<in> set points" for px py
    using that by (force intro!: Min_le Max_ge)+
  show ?thesis
  proof (cases "x < Min (fst ` set points)")
    case left: True
    have "crosses x y ((ax, ay), (bx, by')) = ((y < ay) \<noteq> (y < by'))"
      if e: "((ax, ay), (bx, by')) \<in> set (polygonEdges points)" for ax ay bx by'
    proof -
      have "x < min ax bx" using polygonEdges_set [OF e] fx left by fastforce
      then show ?thesis using crossing_between(1) [of y ay by' ax bx] by (auto simp: crosses_def)
    qed
    then have "filter (crosses x y) (polygonEdges points) =
               filter (\<lambda>(a, c). (y < snd a) \<noteq> (y < snd c)) (polygonEdges points)"
      by (intro filter_cong) auto
    then show ?thesis using cycle_parity [of "\<lambda>a. y < snd a" points] by simp
  next
    case False
    have "\<not> crosses x y ((ax, ay), (bx, by'))"
      if e: "((ax, ay), (bx, by')) \<in> set (polygonEdges points)" for ax ay bx by'
    proof
      assume c: "crosses x y ((ax, ay), (bx, by'))"
      then have "x < max ax bx" and y: "(y < ay) \<noteq> (y < by')"
        using crossing_between(2) [of y ay by' bx ax] by (auto simp: crosses_def)
      have p: "(ax, ay) \<in> set points" "(bx, by') \<in> set points" using polygonEdges_set [OF e] by auto
      from \<open>x < max ax bx\<close> have "x \<le> Max (fst ` set points)" using fx [OF p(1)] fx [OF p(2)] by auto
      with y fy [OF p(1)] fy [OF p(2)] False assms show False by auto
    qed
    then have "filter (crosses x y) (polygonEdges points) = []" by (auto simp: filter_empty_conv)
    then show ?thesis by simp
  qed
qed

text \<open>
  The bounding-box test in front of the crossing count of a polygon is only a shortcut: for every
  outline and every point, \<^verbatim>\<open>contains\<close> answers exactly as \<^verbatim>\<open>insidePolygon\<close> alone does. To the left of
  the box the ray may cross many edges, but always an even number.
\<close>

theorem polygon_box_shortcut: "polygonContains points x y = insidePolygon x y points"
proof (cases "points = []")
  case True
  then show ?thesis by (simp add: polygonContains_def insidePolygon_def polygonEdges_def)
next
  case False
  then show ?thesis
    using outside_box_no_crossing [of points x y]
    by (auto simp: polygonContains_def insidePolygon_def toggle_parity)
qed

section \<open>Noise and distances\<close>

lemma smoothstep_range:
  fixes t :: real
  assumes "0 \<le> t" "t \<le> 1"
  shows "0 \<le> t * t * (3 - 2 * t)" "t * t * (3 - 2 * t) \<le> 1"
proof -
  show "0 \<le> t * t * (3 - 2 * t)" using assms by simp
  have "0 \<le> (1 - t)\<^sup>2 * (1 + 2 * t)" using assms by simp
  then show "t * t * (3 - 2 * t) \<le> 1" by (simp add: algebra_simps power2_eq_square)
qed

lemma grain_range: "0 \<le> grain x y" "grain x y < 1"
  unfolding grain_def Let_def by linarith+

lemma mix_below:
  fixes a b t :: real
  assumes "0 \<le> t" "t \<le> 1" "0 \<le> a" "a < 1" "0 \<le> b" "b < 1"
  shows "0 \<le> a * (1 - t) + b * t" "a * (1 - t) + b * t < 1"
proof -
  show "0 \<le> a * (1 - t) + b * t" using assms by simp
  have "a * (1 - t) + b * t \<le> max a b * (1 - t) + max a b * t"
    using assms by (intro add_mono mult_right_mono) auto
  also have "\<dots> = max a b" by (simp add: algebra_simps)
  finally show "a * (1 - t) + b * t < 1" using assms by auto
qed

text \<open>
  The terrain noise is a value of the half-open unit interval at every point: the heights, tints
  and pebbles computed from it stay within the amplitudes the code gives them.
\<close>

theorem noise_unit: "0 \<le> noise x y \<and> noise x y < 1"
proof -
  have f: "0 \<le> x - of_int \<lfloor>x\<rfloor>" "x - of_int \<lfloor>x\<rfloor> \<le> 1" "0 \<le> y - of_int \<lfloor>y\<rfloor>" "y - of_int \<lfloor>y\<rfloor> \<le> 1"
    by linarith+
  show ?thesis
    unfolding noise_def Let_def
    using mix_below smoothstep_range [OF f(1,2)] smoothstep_range [OF f(3,4)] grain_range by (meson conjI)
qed

end
