(* ===== verification/TerrainField.thy ===== *)
theory TerrainField
  imports TerrainIndex MapLayout JsonValue
begin

text \<open>
  The height field of the mine: the rest of \<^verbatim>\<open>frontend/src/twin/terrainField.ts\<close> and
  \<^verbatim>\<open>twin/crusherLayout.ts\<close>. Map coordinates have been checked finite by the snapshot guard and are
  read at reals; properties are free strings and numbers, so what is computed from them stays an
  exact number with infinities and NaN. \<^verbatim>\<open>JSON.parse\<close> of a property is the parameter \<open>parse\<close>, whose
  value \<open>None\<close> is the exception.
\<close>

section \<open>Numbers in properties\<close>

definition is_space :: "char \<Rightarrow> bool" where
  "is_space c \<longleftrightarrow> (of_char c :: nat) \<in> {9, 10, 11, 12, 13, 32, 160}"

definition js_trim :: "string \<Rightarrow> string" where
  "js_trim s = rev (dropWhile is_space (rev (dropWhile is_space s)))"

definition is_digit :: "char \<Rightarrow> bool" where
  "is_digit c \<longleftrightarrow> 48 \<le> (of_char c :: nat) \<and> (of_char c :: nat) \<le> 57"

text \<open>The value of a letter or digit, for the radix prefixes.\<close>

definition digit_value :: "char \<Rightarrow> nat" where
  "digit_value c =
     (let n = of_char (lower_char c) in if is_digit c then n - 48 else if 97 \<le> n \<and> n \<le> 122 then n - 87 else 99)"

definition digits_value :: "nat \<Rightarrow> string \<Rightarrow> nat" where
  "digits_value radix = foldl (\<lambda>n c. radix * n + digit_value c) 0"

definition parse_radix :: "nat \<Rightarrow> string \<Rightarrow> jsnum" where
  "parse_radix radix s =
     (if s \<noteq> [] \<and> list_all (\<lambda>c. digit_value c < radix) s then Fin (real (digits_value radix s)) else NaN)"

text \<open>The part after \<^verbatim>\<open>e\<close> or \<^verbatim>\<open>E\<close>.\<close>

definition parse_exponent :: "string \<Rightarrow> int option" where
  "parse_exponent s =
     (let digits = (if s \<noteq> [] \<and> hd s \<in> {CHR ''+'', CHR ''-''} then tl s else s)
      in if digits \<noteq> [] \<and> list_all is_digit digits
         then Some ((if hd s = CHR ''-'' then - 1 else 1) * int (digits_value 10 digits)) else None)"

definition ten_power :: "int \<Rightarrow> real" where
  "ten_power e = (if 0 \<le> e then 10 ^ nat e else 1 / 10 ^ nat (- e))"

definition parse_decimal :: "string \<Rightarrow> jsnum" where
  "parse_decimal s =
     (let ip = takeWhile is_digit s; r1 = dropWhile is_digit s;
          (fp, r2) = (if r1 \<noteq> [] \<and> hd r1 = CHR ''.'' then (takeWhile is_digit (tl r1), dropWhile is_digit (tl r1))
                      else ([], r1));
          mantissa = real (digits_value 10 (ip @ fp)) / 10 ^ length fp
      in if ip = [] \<and> fp = [] then NaN
         else if r2 = [] then Fin mantissa
         else if hd r2 \<in> {CHR ''e'', CHR ''E''} then
           (case parse_exponent (tl r2) of Some e \<Rightarrow> Fin (mantissa * ten_power e) | None \<Rightarrow> NaN)
         else NaN)"

text \<open>\<^verbatim>\<open>Number(s)\<close> of a string.\<close>

definition number_of_string :: "string \<Rightarrow> jsnum" where
  "number_of_string text =
     (let s = js_trim text; body = (if s \<noteq> [] \<and> hd s \<in> {CHR ''+'', CHR ''-''} then tl s else s);
          magnitude = (if body = ''Infinity'' then PosInf else parse_decimal body)
      in if s = [] then 0
         else if toLowerCase (take 2 s) = ''0x'' then parse_radix 16 (drop 2 s)
         else if toLowerCase (take 2 s) = ''0o'' then parse_radix 8 (drop 2 s)
         else if toLowerCase (take 2 s) = ''0b'' then parse_radix 2 (drop 2 s)
         else if hd s = CHR ''-'' then - magnitude else magnitude)"

text \<open>\<^verbatim>\<open>Number(properties[key])\<close>, where the key may be missing.\<close>

definition number_of_property :: "PropertyValue option \<Rightarrow> jsnum" where
  "number_of_property p = (case p of
     Some (PropStr s) \<Rightarrow> number_of_string s
   | Some (PropNum n) \<Rightarrow> n
   | Some (PropBool b) \<Rightarrow> (if b then 1 else 0)
   | None \<Rightarrow> NaN)"

definition feature_property :: "MapFeature \<Rightarrow> string \<Rightarrow> PropertyValue option" where
  "feature_property f key = map_of (mf_properties f) key"

text \<open>\<^verbatim>\<open>n || d\<close> on numbers.\<close>

definition num_or :: "jsnum \<Rightarrow> jsnum \<Rightarrow> jsnum" where
  "num_or n d = (if n = 0 \<or> n = NaN then d else n)"

text \<open>A coordinate that is known to be finite.\<close>

definition real_of :: "jsnum \<Rightarrow> real" where
  "real_of n = (case n of Fin r \<Rightarrow> r | _ \<Rightarrow> 0)"

definition toPoint :: "Point2D \<Rightarrow> Point" where
  "toPoint p = (real_of (pt_x_m p), real_of (pt_y_m p))"

definition featurePoints :: "MapFeature \<Rightarrow> Point list" where
  "featurePoints f = map toPoint (mf_points f)"

section \<open>Graded roads of a map\<close>

definition gradedHeights :: "(string \<Rightarrow> jsval option) \<Rightarrow> MapFeature \<Rightarrow> real list option" where
  "gradedHeights parse f =
     (case feature_property f ''elevations_m'' of
        Some (PropStr s) \<Rightarrow>
          (case parse s of
             Some (JArr hs) \<Rightarrow>
               if length hs = length (mf_points f) \<and>
                  list_all (\<lambda>h. case h of JNum n \<Rightarrow> isFinite n | _ \<Rightarrow> False) hs
               then Some (map (\<lambda>h. case h of JNum n \<Rightarrow> real_of n | _ \<Rightarrow> 0) hs) else None
           | _ \<Rightarrow> None)
      | _ \<Rightarrow> None)"

definition gradedWidth :: "MapFeature \<Rightarrow> jsnum" where
  "gradedWidth f = js_max 1 (num_or (number_of_property (feature_property f ''width_m'')) 3)"

definition isGraded :: "MapFeature \<Rightarrow> bool" where
  "isGraded f \<longleftrightarrow> cartography f \<in> {Some (PropStr ''bench-road''), Some (PropStr ''haul-grade'')}"

text \<open>The graded roads with their widths, which may be infinite.\<close>

definition gradedRoads :: "(string \<Rightarrow> jsval option) \<Rightarrow> MapFeature list \<Rightarrow> (GradedRoad \<times> jsnum) list" where
  "gradedRoads parse features =
     concat (map (\<lambda>f. case gradedHeights parse f of
         Some heights \<Rightarrow> [(\<lparr>gr_points = featurePoints f, gr_elevations = heights,
           gr_width = real_of (gradedWidth f)\<rparr>, gradedWidth f)]
       | None \<Rightarrow> [])
       (filter isGraded features))"

section \<open>The crusher\<close>

record CrusherLayout =
  station_x :: jsnum
  station_y :: jsnum
  station_elevation :: jsnum
  station_pocketX :: jsnum
  station_pocketY :: jsnum

definition destination :: "MapFeature list \<Rightarrow> MapFeature option" where
  "destination features = List.find (\<lambda>f. mf_feature_type f = DESTINATION) features"

definition property_or :: "MapFeature option \<Rightarrow> string \<Rightarrow> jsnum \<Rightarrow> jsnum" where
  "property_or f key d =
     (case Option.bind f (\<lambda>f. feature_property f key) of
        None \<Rightarrow> d | Some v \<Rightarrow> number_of_property (Some v))"

definition crusherLayout :: "MapFeature list \<Rightarrow> CrusherLayout" where
  "crusherLayout features =
     (let dest = destination features;
          point = (case dest of
            Some f \<Rightarrow> (case mf_points f of p # _ \<Rightarrow> p | [] \<Rightarrow> \<lparr>pt_x_m = 32, pt_y_m = 44\<rparr>)
          | None \<Rightarrow> \<lparr>pt_x_m = 32, pt_y_m = 44\<rparr>);
          x = property_or dest ''dock_x_m'' (pt_x_m point + 5);
          y = property_or dest ''dock_y_m'' (pt_y_m point - 4);
          elevation = property_or dest ''dock_elevation_m''
            (8 + pt_y_m point * Fin 0.009 + pt_x_m point * Fin 0.004)
      in \<lparr>station_x = x, station_y = y, station_elevation = elevation,
          station_pocketX = x + 4, station_pocketY = y\<rparr>)"

definition inPocket :: "CrusherLayout \<Rightarrow> real \<Rightarrow> real \<Rightarrow> bool" where
  "inPocket s px py \<longleftrightarrow> station_x s + Fin 1.55 < Fin px \<and> Fin px < station_x s + Fin 6.45 \<and>
     \<bar>Fin py - station_y s\<bar> < Fin 2.35"

definition onApron :: "CrusherLayout \<Rightarrow> real \<Rightarrow> real \<Rightarrow> bool" where
  "onApron s px py \<longleftrightarrow> station_x s - Fin 5.5 < Fin px \<and> Fin px < station_x s + 8 \<and>
     \<bar>Fin py - station_y s\<bar> < Fin 4.2"

section \<open>The field\<close>

record TerrainSample =
  ts_elevation :: jsnum
  ts_road :: bool
  ts_pit :: bool
  ts_level :: jsnum
  ts_edge :: jsnum
  ts_pad :: bool
  ts_industrial :: bool
  ts_face :: jsnum
  ts_variation :: jsnum

definition unit_clamp :: "jsnum \<Rightarrow> jsnum" where
  "unit_clamp n = js_max 0 (js_min 1 n)"

definition smooth :: "jsnum \<Rightarrow> jsnum \<Rightarrow> jsnum \<Rightarrow> jsnum" where
  "smooth a b val = (let t = unit_clamp ((val - a) / (b - a)) in t * t * (3 - 2 * t))"

definition mix :: "jsnum \<Rightarrow> jsnum \<Rightarrow> jsnum \<Rightarrow> jsnum" where
  "mix a b t = a + (b - a) * t"

definition fieldRoads :: "MapFeature list \<Rightarrow> MapFeature list" where
  "fieldRoads features =
     filter (\<lambda>f. mf_feature_type f = ROAD \<and> cartography f \<noteq> Some (PropStr ''graded-access'')) features"

definition fieldPits :: "MapFeature list \<Rightarrow> MapFeature list" where
  "fieldPits features = filter (\<lambda>f. cartography f = Some (PropStr ''pit'')) features"

definition fieldBenches :: "MapFeature list \<Rightarrow> MapFeature list" where
  "fieldBenches features = filter (\<lambda>f. cartography f = Some (PropStr ''bench'')) features"

definition fieldSites :: "MapFeature list \<Rightarrow> Point list" where
  "fieldSites features =
     concat (map (\<lambda>f. map toPoint (take 1 (mf_points f)))
       (filter (\<lambda>f. mf_geometry_type f = POINT \<and> cartography f \<noteq> Some (PropStr ''pit-floor'') \<and>
            cartography f \<noteq> Some (PropStr ''pit-loading'')) features))"

definition hasCrusher :: "MapFeature list \<Rightarrow> bool" where
  "hasCrusher features \<longleftrightarrow> (case destination features of Some f \<Rightarrow> mf_points f \<noteq> [] | None \<Rightarrow> False)"

definition containsPoint :: "MapFeature \<Rightarrow> real \<Rightarrow> real \<Rightarrow> bool" where
  "containsPoint f x y = polygonContains (featurePoints f) x y"

definition edgeRoads :: "MapFeature list \<Rightarrow> GradedRoad list" where
  "edgeRoads features =
     map (\<lambda>f. let points = featurePoints f
              in \<lparr>gr_points = points @ take 1 points, gr_elevations = replicate (length points + 1) 8,
                  gr_width = 12\<rparr>) (fieldRoads features)"

text \<open>The last bench that holds the point gives its level, its elevation and the steepness of its face.\<close>

fun benchAt :: "real \<Rightarrow> real \<Rightarrow> nat \<Rightarrow> MapFeature list \<Rightarrow> jsnum \<times> jsnum \<times> jsnum \<Rightarrow> jsnum \<times> jsnum \<times> jsnum" where
  "benchAt x y i [] state = state"
| "benchAt x y i (b # benches) state =
     benchAt x y (Suc i) benches
       (if \<not> containsPoint b x y then state
        else
          let level = num_or (number_of_property (feature_property b ''level'')) (Fin (real i + 1));
              height = number_of_property (feature_property b ''elevation_m'');
              target = (if isFinite height then height else 8 - level * Fin 2.4);
              inset = edgeDistance x y (featurePoints b);
              face = 1 - smooth (Fin 0.08) (Fin 0.82) inset
          in (level, mix target (target + Fin 2.4) face, face))"

text \<open>Plant, lower yard and conveyor: elevation, and whether the ground is an industrial pad.\<close>

definition plantGround ::
    "CrusherLayout \<Rightarrow> real \<Rightarrow> real \<Rightarrow> jsnum \<Rightarrow> jsnum \<Rightarrow> jsnum \<times> bool \<times> bool \<Rightarrow> jsnum \<times> bool \<times> bool" where
  "plantGround station x y grade fine = (\<lambda>(elevation, pad, industrial).
     let dx = Fin x - (station_x station + 7); dy = Fin y - station_y station;
         plantDistance = js_max (\<bar>dx - 10\<bar> - 12) (\<bar>dy - 1\<bar> - 13);
         (elevation, pad, industrial) =
           (if plantDistance < 7
            then (mix grade elevation (smooth 0 7 plantDistance), pad \<or> plantDistance \<le> 0, industrial \<or> plantDistance \<le> 0)
            else (elevation, pad, industrial));
         lowerDistance = js_max (\<bar>dx - 78\<bar> - 26) (\<bar>dy - (- 54)\<bar> - 22);
         (elevation, pad, industrial) =
           (if lowerDistance < 24
            then (mix (- 8 + (fine - Fin 0.5) * Fin 0.06) elevation (smooth 0 24 lowerDistance),
                  pad \<or> lowerDistance \<le> 0, industrial \<or> lowerDistance \<le> 0)
            else (elevation, pad, industrial));
         t = unit_clamp (((dx - Fin 6.2) * Fin 71.8 + (dy - (- Fin 1.5)) * (- Fin 52.5)) /
               (Fin 71.8 * Fin 71.8 + Fin 52.5 * Fin 52.5));
         conveyorDistance = js_hypot (dx - Fin 6.2 - t * Fin 71.8) (dy - (- Fin 1.5) - t * (- Fin 52.5))
     in if conveyorDistance < 6
        then (mix (js_min elevation (mix (Fin 8.5) (- Fin 7.5) t)) elevation (smooth (Fin 2.2) 6 conveyorDistance),
              pad \<or> conveyorDistance < Fin 3.2, industrial \<or> conveyorDistance < Fin 3.2)
        else (elevation, pad, industrial))"

text \<open>The natural ground: the pit and its benches, the roads and pads, the ridges around.\<close>

definition naturalHill :: "real \<Rightarrow> real \<Rightarrow> real" where
  "naturalHill x y =
     (let broad = noise (x * 0.027) (y * 0.027);
          ridges = 1 - \<bar>noise (x * 0.012 + 7) (y * 0.017) * 2 - 1\<bar>;
          ridgeWest = 28 * exp (- ((x + 106)\<^sup>2 / 5000 + (y - 70)\<^sup>2 / 19000))
      in 5 + broad * 18 + ridges * ridges * 15 + ridgeWest + noise (x * 0.12) (y * 0.12) * 2)"

definition fieldGrade :: "real \<Rightarrow> real \<Rightarrow> real" where
  "fieldGrade x y = 8 + y * 0.009 + x * 0.004"

definition fieldFine :: "real \<Rightarrow> real \<Rightarrow> real" where
  "fieldFine x y = noise (x * 1.9) (y * 1.9)"

definition onRoad :: "MapFeature list \<Rightarrow> bool \<Rightarrow> real \<Rightarrow> real \<Rightarrow> bool" where
  "onRoad roads pit x y \<longleftrightarrow>
     list_ex (\<lambda>i. containsPoint (roads ! i) x y \<and> (0 < i \<or> \<not> pit)) [0..<length roads]"

definition naturalElevation :: "bool \<Rightarrow> jsnum \<Rightarrow> jsnum \<Rightarrow> jsnum \<Rightarrow> real \<Rightarrow> real \<Rightarrow> jsnum" where
  "naturalElevation pit benchElevation face edge x y =
     (if pit then benchElevation + Fin (fieldFine x y - 0.5) * (if Fin 0.1 < face then Fin 0.45 else Fin 0.1)
      else Fin (fieldGrade x y) + smooth (Fin 0.8) 11 edge * Fin (naturalHill x y))"

text \<open>A graded road replaces the ground under it, and blends into it over a metre and a half.\<close>

definition rampGround :: "RoadHit \<Rightarrow> jsnum \<Rightarrow> jsnum" where
  "rampGround ramp elevation =
     (let half = Fin (hit_width ramp / 2)
      in if hit_distance ramp < half + Fin 1.5
         then mix (Fin (hit_elevation ramp + 0.03)) elevation
                (smooth half (half + Fin 1.5) (hit_distance ramp))
         else elevation)"

text \<open>The crusher's apron and pocket replace everything.\<close>

definition dockGround :: "CrusherLayout \<Rightarrow> real \<Rightarrow> real \<Rightarrow> jsnum \<times> bool \<times> bool \<Rightarrow> jsnum \<times> bool \<times> bool" where
  "dockGround station x y ground =
     (let ground = (if onApron station x y then (station_elevation station, True, True) else ground)
      in if inPocket station x y then (station_elevation station - Fin 3.6, True, True) else ground)"

definition terrainSample :: "(string \<Rightarrow> jsval option) \<Rightarrow> MapFeature list \<Rightarrow> real \<Rightarrow> real \<Rightarrow> TerrainSample" where
  "terrainSample parse features x y =
     (let roads = fieldRoads features; station = crusherLayout features;
          pit = list_ex (\<lambda>p. containsPoint p x y) (fieldPits features);
          activeRoad = onRoad roads pit x y;
          nearestRamp = roadIndex (map fst (gradedRoads parse features)) x y;
          edge = hit_distance (roadIndex (edgeRoads features) x y);
          ramp = hit_distance nearestRamp \<le> Fin (hit_width nearestRamp / 2);
          broad = noise (x * 0.027) (y * 0.027); fine = fieldFine x y; grade = Fin (fieldGrade x y);
          (level, benchElevation, face) =
            (if pit then benchAt x y 0 (fieldBenches features) (0, Fin 7.7, 0) else (0, grade, 0));
          pad = list_ex (\<lambda>(sx, sy). hypot (x - sx) (y - sy) < 5.5) (fieldSites features);
          elevation = (if activeRoad \<or> pad then grade + Fin ((fine - 0.5) * 0.025)
            else naturalElevation pit benchElevation face edge x y);
          (elevation, pad, industrial) =
            (if hasCrusher features then plantGround station x y grade (Fin fine) (elevation, pad, False)
             else (elevation, pad, False));
          elevation = rampGround nearestRamp elevation;
          (elevation, pad, industrial) =
            (if hasCrusher features then dockGround station x y (elevation, pad, industrial)
             else (elevation, pad, industrial))
      in \<lparr>ts_elevation = elevation, ts_road = activeRoad \<or> ramp, ts_pit = pit, ts_level = level,
          ts_edge = js_min edge (hit_distance nearestRamp - Fin (hit_width nearestRamp / 2)), ts_pad = pad,
          ts_industrial = industrial, ts_face = face, ts_variation = Fin (broad * 0.7 + fine * 0.3)\<rparr>)"

text \<open>A graded road of infinite width has cells without end: the field is then never returned.\<close>

definition endlessRoad :: "GradedRoad \<times> jsnum \<Rightarrow> bool" where
  "endlessRoad = (\<lambda>(road, width). width = PosInf \<and> 2 \<le> length (gr_points road))"

definition createTerrainField ::
    "(string \<Rightarrow> jsval option) \<Rightarrow> MapFeature list \<Rightarrow> (real \<Rightarrow> real \<Rightarrow> TerrainSample) option" where
  "createTerrainField parse features =
     (if list_ex endlessRoad (gradedRoads parse features) then None else Some (terrainSample parse features))"

section \<open>Every height is a finite number\<close>

lemma unit_clamp_range: "n \<noteq> NaN \<Longrightarrow> \<exists>t. unit_clamp n = Fin t \<and> 0 \<le> t \<and> t \<le> 1"
  by (cases n) (auto simp: unit_clamp_def js_min_def js_max_def)

lemma smooth_range:
  assumes "n \<noteq> NaN" "a \<noteq> b"
  shows "\<exists>s. smooth (Fin a) (Fin b) n = Fin s \<and> 0 \<le> s \<and> s \<le> 1"
proof -
  have "(n - Fin a) / (Fin b - Fin a) \<noteq> NaN"
    using assms by (cases n) (auto simp: minus_jsnum_def inf_of_sign_def)
  from unit_clamp_range [OF this] show ?thesis
    using smoothstep_range by (auto simp: smooth_def Let_def)
qed

lemma smooth_finite: "n \<noteq> NaN \<Longrightarrow> a \<noteq> b \<Longrightarrow> isFinite (smooth (Fin a) (Fin b) n)"
  using smooth_range [of n a b] by auto

lemma mix_finite [intro]: "isFinite a \<Longrightarrow> isFinite b \<Longrightarrow> isFinite t \<Longrightarrow> isFinite (mix a b t)"
  by (auto simp: mix_def isFinite_iff)

lemma less_not_NaN: "n < (m :: jsnum) \<Longrightarrow> n \<noteq> NaN"
  by auto

lemma roadIndex_distance: "hit_distance (roadIndex roads x y) \<noteq> NaN"
proof -
  have "hit_distance (nearestSegment x y segs) \<noteq> NaN" for segs
    using nearestSegment_cases [of segs x y] by (auto simp: hitOf_def)
  then show ?thesis by (simp add: roadIndex_def Let_def)
qed

lemma edgeDistance_not_NaN: "edgeDistance x y points \<noteq> NaN"
proof -
  have "best \<noteq> NaN \<Longrightarrow> foldl (\<lambda>best e. js_min best (Fin (distanceToEdge x y e))) best es \<noteq> NaN" for best es
    by (induction es arbitrary: best) (auto simp: js_min_def)
  then show ?thesis by (simp add: edgeDistance_def)
qed

lemma hypot_less_finite: "js_hypot a b < Fin c \<Longrightarrow> isFinite a \<and> isFinite b"
  by (cases a; cases b) (simp_all add: js_hypot_def)

lemma finite_differences:
  "isFinite (a - b) \<longleftrightarrow> isFinite a \<and> isFinite b" for a b :: jsnum
  by (cases a; cases b) (simp_all add: minus_jsnum_def)

lemma finite_scaled: "isFinite (t * Fin c) \<Longrightarrow> c \<noteq> 0 \<Longrightarrow> isFinite t"
  by (cases t) (auto simp: inf_of_sign_def split: if_splits)

lemma js_min_finite [intro]: "isFinite a \<Longrightarrow> isFinite b \<Longrightarrow> isFinite (js_min a b)"
  by (auto simp: isFinite_iff js_min_def)

text \<open>Bench levels that are not written as infinite numbers.\<close>

definition plain_levels :: "MapFeature list \<Rightarrow> bool" where
  "plain_levels benches \<longleftrightarrow>
     list_all (\<lambda>b. number_of_property (feature_property b ''level'') \<notin> {PosInf, NegInf}) benches"

lemma num_or_finite: "n \<notin> {PosInf, NegInf} \<Longrightarrow> isFinite (num_or n (Fin d))"
  by (cases n) (auto simp: num_or_def)

lemma benchAt_finite:
  "\<lbrakk>plain_levels benches; isFinite (fst (snd state)); isFinite (snd (snd state))\<rbrakk> \<Longrightarrow>
   isFinite (fst (snd (benchAt x y i benches state))) \<and> isFinite (snd (snd (benchAt x y i benches state)))"
proof (induction benches arbitrary: i state)
  case (Cons b benches)
  define level where "level = num_or (number_of_property (feature_property b ''level'')) (Fin (real i + 1))"
  define target where "target = (if isFinite (number_of_property (feature_property b ''elevation_m''))
    then number_of_property (feature_property b ''elevation_m'') else 8 - level * Fin 2.4)"
  define face where "face = 1 - smooth (Fin 0.08) (Fin 0.82) (edgeDistance x y (featurePoints b))"
  have "isFinite level" unfolding level_def
    by (rule num_or_finite) (use Cons.prems(1) in \<open>auto simp: plain_levels_def\<close>)
  then have "isFinite target" by (auto simp: target_def isFinite_iff)
  moreover have "isFinite face"
    using smooth_finite [OF edgeDistance_not_NaN, of "0.08" "0.82" x y "featurePoints b"]
    by (auto simp: face_def isFinite_iff)
  ultimately have "isFinite (mix target (target + Fin 2.4) face)" by (auto simp: isFinite_iff mix_def)
  then have "isFinite (fst (snd (level, mix target (target + Fin 2.4) face, face)))"
    "isFinite (snd (snd (level, mix target (target + Fin 2.4) face, face)))"
    using \<open>isFinite face\<close> by simp_all
  moreover have "benchAt x y i (b # benches) state = benchAt x y (Suc i) benches
      (if \<not> containsPoint b x y then state else (level, mix target (target + Fin 2.4) face, face))"
    by (simp only: benchAt.simps Let_def level_def target_def face_def)
  moreover have "plain_levels benches" using Cons.prems(1) by (simp add: plain_levels_def)
  ultimately show ?case using Cons.IH Cons.prems(2,3) by presburger
qed simp

lemma naturalElevation_finite:
  assumes "isFinite benchElevation" "edge \<noteq> NaN"
  shows "isFinite (naturalElevation pit benchElevation face edge x y)"
  using assms smooth_finite [of edge "0.8" 11] by (auto simp: naturalElevation_def isFinite_iff)

lemma plantGround_finite:
  assumes "isFinite elevation"
  shows "isFinite (fst (plantGround station x y (Fin grade) (Fin fine) (elevation, pad, industrial)))"
proof -
  define dx dy where "dx = Fin x - (station_x station + 7)" and "dy = Fin y - station_y station"
  define plant where "plant = js_max (\<bar>dx - 10\<bar> - 12) (\<bar>dy - 1\<bar> - 13)"
  define e1 where "e1 = (if plant < 7 then mix (Fin grade) elevation (smooth 0 7 plant) else elevation)"
  define lower where "lower = js_max (\<bar>dx - 78\<bar> - 26) (\<bar>dy - (- 54)\<bar> - 22)"
  define e2 where "e2 = (if lower < 24
    then mix (- 8 + (Fin fine - Fin 0.5) * Fin 0.06) e1 (smooth 0 24 lower) else e1)"
  define t where "t = unit_clamp (((dx - Fin 6.2) * Fin 71.8 + (dy - (- Fin 1.5)) * (- Fin 52.5)) /
    (Fin 71.8 * Fin 71.8 + Fin 52.5 * Fin 52.5))"
  define conveyor where "conveyor = js_hypot (dx - Fin 6.2 - t * Fin 71.8) (dy - (- Fin 1.5) - t * (- Fin 52.5))"
  define e3 where "e3 = (if conveyor < 6
    then mix (js_min e2 (mix (Fin 8.5) (- Fin 7.5) t)) e2 (smooth (Fin 2.2) 6 conveyor) else e2)"
  have "isFinite e1"
    using assms smooth_finite [OF less_not_NaN, of plant 7 0 7] by (auto simp: e1_def)
  then have e2: "isFinite e2"
    using smooth_finite [OF less_not_NaN, of lower 24 0 24] by (auto simp: e2_def)
  have "isFinite e3"
  proof (cases "conveyor < 6")
    case True
    then have "conveyor < Fin 6" by simp
    then have "isFinite (dx - Fin 6.2 - t * Fin 71.8)" unfolding conveyor_def by (blast dest: hypot_less_finite)
    then have "isFinite (t * Fin 71.8)" by (simp only: finite_differences)
    then have "isFinite t" by (rule finite_scaled) simp
    then have "isFinite (mix (Fin 8.5) (- Fin 7.5) t)" by (auto simp: isFinite_iff mix_def)
    then show ?thesis
      using True e2 smooth_finite [OF less_not_NaN, of conveyor 6 "2.2" 6] by (auto simp: e3_def)
  qed (simp add: e3_def e2)
  moreover have "fst (plantGround station x y (Fin grade) (Fin fine) (elevation, pad, industrial)) = e3"
    unfolding plantGround_def e3_def e2_def e1_def conveyor_def t_def lower_def plant_def dx_def dy_def
    by (simp only: Let_def prod.case) (simp only: split: if_split, simp)
  ultimately show ?thesis by simp
qed

lemma rampGround_finite: "isFinite elevation \<Longrightarrow> isFinite (rampGround (roadIndex roads x y) elevation)"
  using smooth_finite [OF roadIndex_distance, of "w" "w + 1.5" for w]
  by (auto simp: rampGround_def Let_def)

text \<open>
  On the surface of a graded road the ground is the road's, whatever was under it.
\<close>

lemma rampGround_surface:
  assumes "isFinite elevation" "hit_distance ramp = Fin d" "d \<le> hit_width ramp / 2"
  shows "rampGround ramp elevation = Fin (hit_elevation ramp + 0.03)"
proof -
  have "unit_clamp (Fin ((d - hit_width ramp / 2) / 1.5)) = Fin 0"
    using assms(3) by (simp add: unit_clamp_def min_def max_def divide_simps)
  then have "smooth (Fin (hit_width ramp / 2)) (Fin (hit_width ramp / 2) + Fin 1.5) (Fin d) = Fin 0"
    by (simp add: smooth_def Let_def)
  then show ?thesis
    using assms by (auto simp: rampGround_def Let_def mix_def isFinite_iff)
qed

definition bareGround :: "(string \<Rightarrow> jsval option) \<Rightarrow> MapFeature list \<Rightarrow> real \<Rightarrow> real \<Rightarrow> jsnum \<times> bool \<times> bool" where
  "bareGround parse features x y =
     (let pit = list_ex (\<lambda>p. containsPoint p x y) (fieldPits features);
          activeRoad = onRoad (fieldRoads features) pit x y;
          edge = hit_distance (roadIndex (edgeRoads features) x y);
          grade = Fin (fieldGrade x y);
          (level, benchElevation, face) =
            (if pit then benchAt x y 0 (fieldBenches features) (0, Fin 7.7, 0) else (0, grade, 0));
          pad = list_ex (\<lambda>(sx, sy). hypot (x - sx) (y - sy) < 5.5) (fieldSites features);
          elevation = (if activeRoad \<or> pad then grade + Fin ((fieldFine x y - 0.5) * 0.025)
            else naturalElevation pit benchElevation face edge x y)
      in (if hasCrusher features
          then plantGround (crusherLayout features) x y grade (Fin (fieldFine x y)) (elevation, pad, False)
          else (elevation, pad, False)))"

lemma bareGround_finite:
  assumes "plain_levels (fieldBenches features)"
  shows "isFinite (fst (bareGround parse features x y))"
proof -
  have "isFinite (fst (snd (benchAt x y 0 (fieldBenches features) (0, Fin 7.7, 0))))"
    using benchAt_finite [OF assms, of "(0, Fin 7.7, 0)"] by simp
  then show ?thesis
    using naturalElevation_finite [OF _ roadIndex_distance] plantGround_finite
    by (auto simp: bareGround_def Let_def split: prod.splits if_splits)
qed

lemma terrainSample_ground:
  "ts_elevation (terrainSample parse features x y) =
     (let ground = bareGround parse features x y;
          ramped = rampGround (roadIndex (map fst (gradedRoads parse features)) x y) (fst ground)
      in if hasCrusher features then fst (dockGround (crusherLayout features) x y (ramped, snd ground)) else ramped)"
  by (simp add: terrainSample_def bareGround_def Let_def split: prod.split)

text \<open>
  Wherever the bench levels are not written as infinite numbers and the crusher's deck height is
  a number, the terrain has a finite height at every point of the map, whatever else the free-form
  properties of the map hold (missing, malformed or infinite coordinates of the dock included): no
  mesh vertex, vehicle or scan return placed on the terrain is lost to a NaN.
\<close>

theorem terrain_height_finite:
  assumes "plain_levels (fieldBenches features)"
    and "hasCrusher features \<longrightarrow> isFinite (station_elevation (crusherLayout features))"
  shows "isFinite (ts_elevation (terrainSample parse features x y))"
proof -
  have "isFinite (fst (dockGround s px py g))" if "isFinite (station_elevation s)" "isFinite (fst g)" for s px py g
    using that by (auto simp: dockGround_def Let_def isFinite_iff)
  then show ?thesis
    using rampGround_finite [OF bareGround_finite [OF assms(1)]] assms(2)
    by (simp add: terrainSample_ground Let_def)
qed


text \<open>A map with one bench road, whose elevations a parser reads.\<close>

definition sampleParse :: "string \<Rightarrow> jsval option" where
  "sampleParse s = (if s = ''[8,10]'' then Some (JArr [JNum 8, JNum 10]) else None)"

definition benchRoad :: MapFeature where
  "benchRoad = \<lparr>mf_feature_id = ''bench'', mf_feature_type = CENTERLINE, mf_geometry_type = POLYLINE,
     mf_points = [\<lparr>pt_x_m = 0, pt_y_m = 0\<rparr>, \<lparr>pt_x_m = 20, pt_y_m = 0\<rparr>], mf_label = ''Bench'',
     mf_properties = [(''cartography'', PropStr ''bench-road''), (''elevations_m'', PropStr ''[8,10]''),
       (''width_m'', PropStr '' 4.0 '')]\<rparr>"

lemma benchRoad_graded: "gradedRoads sampleParse [benchRoad] = [(sampleRoad, Fin 4)]"
proof -
  have "gradedWidth benchRoad = Fin 4"
    by (simp add: gradedWidth_def benchRoad_def feature_property_def number_of_property_def
        number_of_string_def parse_decimal_def js_trim_def is_space_def is_digit_def digits_value_def
        digit_value_def lower_char_def toLowerCase_def num_or_def Let_def)
  then show ?thesis
    by (simp add: gradedRoads_def isGraded_def cartography_def gradedHeights_def feature_property_def
        sampleParse_def benchRoad_def sampleRoad_def featurePoints_def toPoint_def real_of_def)
qed

lemma benchRoad_plain: "plain_levels (fieldBenches [benchRoad])" "\<not> hasCrusher [benchRoad]"
  by (simp_all add: fieldBenches_def benchRoad_def cartography_def plain_levels_def hasCrusher_def destination_def)

theorem terrain_height_finite_witness: "isFinite (ts_elevation (terrainSample sampleParse [benchRoad] 100 50))"
  using terrain_height_finite [OF benchRoad_plain(1)] benchRoad_plain(2) by blast


end
