(* ===== verification/TerrainMemo.thy ===== *)
theory TerrainMemo
  imports TerrainField
begin

text \<open>
  The memoised terrain of \<^verbatim>\<open>frontend/src/spatial/mappingFrame.ts\<close>: at most two height fields, one
  per map key, each with the samples already taken, per millimetre. Both are \<^verbatim>\<open>Map\<close> objects: lists in
  insertion order, the oldest entry first. The abstract specification is the height field of the map
  that was asked for, read somewhere in the millimetre of the point.
\<close>

section \<open>The caches\<close>

record TerrainCache =
  tc_field :: "real \<Rightarrow> real \<Rightarrow> TerrainSample"
  tc_samples :: "(string \<times> TerrainSample) list"

type_synonym TerrainCaches = "(string \<times> TerrainCache) list"

definition terrainKey :: "ReferenceMap \<Rightarrow> string" where
  "terrainKey m = rm_map_id m @ '':'' @ num_str (rm_version m) @ '':'' @ num_str (rm_created_at_ms m)"

text \<open>The first part of \<^verbatim>\<open>terrainFor\<close>: \<open>None\<close> when the field of a new map is never built.\<close>

definition openTerrain :: "(string \<Rightarrow> jsval option) \<Rightarrow> ReferenceMap \<Rightarrow> TerrainCaches \<Rightarrow> TerrainCaches option" where
  "openTerrain parse m caches =
     (case map_of caches (terrainKey m) of
        Some cache \<Rightarrow> Some caches
      | None \<Rightarrow>
          map_option (\<lambda>field.
            let caches' = caches @ [(terrainKey m, \<lparr>tc_field = field, tc_samples = []\<rparr>)]
            in if 2 < length caches' then tl caches' else caches')
          (createTerrainField parse (rm_features m)))"

definition millimetre :: "real \<Rightarrow> int" where
  "millimetre c = \<lfloor>c * 1000 + 1 / 2\<rfloor>"

definition positionKey :: "real \<Rightarrow> real \<Rightarrow> string" where
  "positionKey x y = num_str (js_round (Fin x * 1000)) @ '','' @ num_str (js_round (Fin y * 1000))"

text \<open>The closure that \<^verbatim>\<open>terrainFor\<close> returns.\<close>

definition sampleTerrain :: "TerrainCache \<Rightarrow> real \<Rightarrow> real \<Rightarrow> TerrainSample \<times> TerrainCache" where
  "sampleTerrain cache x y =
     (case map_of (tc_samples cache) (positionKey x y) of
        Some saved \<Rightarrow> (saved, cache)
      | None \<Rightarrow>
          let sample = tc_field cache x y;
              kept = (if 60000 \<le> length (tc_samples cache) then drop 15000 (tc_samples cache) else tc_samples cache)
          in (sample, cache\<lparr>tc_samples := kept @ [(positionKey x y, sample)]\<rparr>))"

type_synonym TerrainRequest = "ReferenceMap \<times> real \<times> real"

definition terrainAt ::
    "(string \<Rightarrow> jsval option) \<Rightarrow> TerrainRequest \<Rightarrow> TerrainCaches \<Rightarrow> (TerrainSample \<times> TerrainCaches) option" where
  "terrainAt parse = (\<lambda>(m, x, y) caches.
     Option.bind (openTerrain parse m caches) (\<lambda>caches.
       case map_of caches (terrainKey m) of
         Some cache \<Rightarrow>
           let (sample, cache') = sampleTerrain cache x y
           in Some (sample, AList.update (terrainKey m) cache' caches)
       | None \<Rightarrow> None))"

text \<open>A sequence of requests, with their answers.\<close>

fun terrainRun ::
    "(string \<Rightarrow> jsval option) \<Rightarrow> TerrainRequest list \<Rightarrow> TerrainCaches \<Rightarrow> (TerrainSample list \<times> TerrainCaches) option" where
  "terrainRun parse [] caches = Some ([], caches)"
| "terrainRun parse (r # rs) caches =
     Option.bind (terrainAt parse r caches) (\<lambda>(sample, caches').
       map_option (\<lambda>(samples, caches''). (sample # samples, caches'')) (terrainRun parse rs caches'))"

section \<open>The specification\<close>

text \<open>What a request may be answered: the height of its map somewhere in its millimetre.\<close>

definition answers :: "(string \<Rightarrow> jsval option) \<Rightarrow> TerrainRequest \<Rightarrow> TerrainSample \<Rightarrow> bool" where
  "answers parse = (\<lambda>(m, x, y) sample.
     \<exists>x' y'. millimetre x' = millimetre x \<and> millimetre y' = millimetre y \<and>
       sample = terrainSample parse (rm_features m) x' y')"

text \<open>Maps with the same key are the same map, and their height fields can be built.\<close>

definition maps_ok :: "(string \<Rightarrow> jsval option) \<Rightarrow> ReferenceMap set \<Rightarrow> bool" where
  "maps_ok parse maps \<longleftrightarrow>
     (\<forall>m \<in> maps. createTerrainField parse (rm_features m) \<noteq> None \<and>
        (\<forall>m' \<in> maps. terrainKey m = terrainKey m' \<longrightarrow> rm_features m = rm_features m'))"

definition samples_ok :: "TerrainCache \<Rightarrow> bool" where
  "samples_ok cache \<longleftrightarrow> length (tc_samples cache) \<le> 60000 \<and>
     (\<forall>(k, s) \<in> set (tc_samples cache). \<exists>x y. k = positionKey x y \<and> s = tc_field cache x y)"

definition memo_ok :: "(string \<Rightarrow> jsval option) \<Rightarrow> ReferenceMap set \<Rightarrow> TerrainCaches \<Rightarrow> bool" where
  "memo_ok parse maps caches \<longleftrightarrow> length caches \<le> 2 \<and> distinct (map fst caches) \<and>
     (\<forall>(k, cache) \<in> set caches. samples_ok cache \<and>
        (\<exists>m \<in> maps. k = terrainKey m \<and> tc_field cache = terrainSample parse (rm_features m)))"

section \<open>The memo refines the specification\<close>

lemma num_str_millimetre: "num_str (js_round (Fin x * 1000)) = int_str (millimetre x)"
  by (simp add: num_str_def millimetre_def)

lemma int_str_no_comma: "CHR '','' \<notin> set (int_str i)"
proof -
  have "CHR '','' \<noteq> digit_char d" if "d < 10" for d
    using of_char_digit_char [OF that] by (auto dest: arg_cong [where f = "of_char :: char \<Rightarrow> nat"])
  then show ?thesis using nat_str_digits by (auto simp: int_str_def)
qed

lemma positionKey_inj:
  assumes "positionKey x y = positionKey x' y'"
  shows "millimetre x = millimetre x' \<and> millimetre y = millimetre y'"
proof -
  have first: "takeWhile (\<lambda>c. c \<noteq> CHR '','') (int_str i @ CHR '','' # t) = int_str i" for i t
    using int_str_no_comma [of i] by (subst takeWhile_append2) auto
  have eq: "int_str (millimetre x) @ CHR '','' # int_str (millimetre y) =
      int_str (millimetre x') @ CHR '','' # int_str (millimetre y')"
    using assms by (simp only: positionKey_def num_str_millimetre append_Cons append_Nil)
  from arg_cong [OF eq, of "takeWhile (\<lambda>c. c \<noteq> CHR '','')"] have "int_str (millimetre x) = int_str (millimetre x')"
    by (simp only: first)
  with eq show ?thesis using int_str_inj by fastforce
qed

lemma sampleTerrain_ok:
  assumes "samples_ok cache" "sampleTerrain cache x y = (sample, cache')"
  shows "samples_ok cache' \<and> tc_field cache' = tc_field cache \<and>
    (\<exists>x' y'. millimetre x' = millimetre x \<and> millimetre y' = millimetre y \<and> sample = tc_field cache x' y')"
proof (cases "map_of (tc_samples cache) (positionKey x y)")
  case (Some saved)
  then have "(positionKey x y, saved) \<in> set (tc_samples cache)" by (rule map_of_SomeD)
  then obtain x' y' where "positionKey x y = positionKey x' y'" "saved = tc_field cache x' y'"
    using assms(1) by (auto simp: samples_ok_def)
  moreover have "sample = saved" "cache' = cache" using assms(2) Some by (simp_all add: sampleTerrain_def)
  ultimately show ?thesis using assms(1) positionKey_inj by metis
next
  case None
  define kept where "kept = (if 60000 \<le> length (tc_samples cache) then drop 15000 (tc_samples cache) else tc_samples cache)"
  have "sample = tc_field cache x y" "cache' = cache\<lparr>tc_samples := kept @ [(positionKey x y, sample)]\<rparr>"
    using assms(2) None by (auto simp: sampleTerrain_def Let_def kept_def)
  moreover have "length kept < 60000" using assms(1) by (auto simp: kept_def samples_ok_def)
  moreover have "set kept \<subseteq> set (tc_samples cache)" by (auto simp: kept_def dest: in_set_dropD)
  ultimately show ?thesis using assms(1) by (fastforce simp: samples_ok_def)
qed

lemma createTerrainField_value:
  "createTerrainField parse features \<noteq> None \<Longrightarrow> createTerrainField parse features = Some (terrainSample parse features)"
  by (simp add: createTerrainField_def split: if_splits)

lemma openTerrain_ok:
  assumes "maps_ok parse maps" "m \<in> maps" "memo_ok parse maps caches"
  obtains caches' cache where "openTerrain parse m caches = Some caches'" "memo_ok parse maps caches'"
    "map_of caches' (terrainKey m) = Some cache"
proof (cases "map_of caches (terrainKey m)")
  case (Some cache)
  then show ?thesis using that [of caches cache] assms(3) by (simp add: openTerrain_def)
next
  case None
  define entry where "entry = (terrainKey m, \<lparr>tc_field = terrainSample parse (rm_features m), tc_samples = []\<rparr>)"
  define caches' where "caches' = (if 2 < length (caches @ [entry]) then tl (caches @ [entry]) else caches @ [entry])"
  have field: "createTerrainField parse (rm_features m) = Some (terrainSample parse (rm_features m))"
    using assms(1,2) createTerrainField_value unfolding maps_ok_def by blast
  have "length caches' \<le> 2" using assms(3) by (auto simp: caches'_def memo_ok_def)
  moreover have "distinct (map fst (caches @ [entry]))"
    using assms(3) None by (auto simp: memo_ok_def entry_def map_of_eq_None_iff)
  then have "distinct (map fst caches')" unfolding caches'_def by (simp only: map_tl distinct_tl split: if_split) simp
  moreover have "set (tl (caches @ [entry])) \<subseteq> set (caches @ [entry])" by (auto dest: list.set_sel(2) [rotated])
  then have "set caches' \<subseteq> insert entry (set caches)" by (auto simp: caches'_def)
  moreover have "samples_ok (snd entry)" by (simp add: entry_def samples_ok_def)
  ultimately have "memo_ok parse maps caches'"
    using assms(2,3) unfolding memo_ok_def by (fastforce simp: entry_def)
  moreover have "map_of caches' (terrainKey m) = Some (snd entry)"
    using None by (cases caches) (auto simp: caches'_def entry_def map_add_def split: option.splits if_splits)
  moreover have "openTerrain parse m caches = Some caches'"
    using None by (simp add: openTerrain_def field caches'_def entry_def Let_def)
  ultimately show ?thesis using that by blast
qed

lemma set_update_distinct:
  "distinct (map fst m) \<Longrightarrow> set (AList.update k v m) = insert (k, v) {(k', v') \<in> set m. k' \<noteq> k}"
  by (induction m) (auto simp: image_iff)

lemma length_update_present: "k \<in> fst ` set m \<Longrightarrow> length (AList.update k v m) = length m"
  by (induction m) auto

lemma terrainAt_ok:
  assumes "maps_ok parse maps" "m \<in> maps" "memo_ok parse maps caches"
  obtains sample caches' where "terrainAt parse (m, x, y) caches = Some (sample, caches')"
    "memo_ok parse maps caches'" "answers parse (m, x, y) sample"
proof -
  obtain opened cache where opened: "openTerrain parse m caches = Some opened" "memo_ok parse maps opened"
    "map_of opened (terrainKey m) = Some cache" by (rule openTerrain_ok [OF assms])
  obtain sample cache' where s: "sampleTerrain cache x y = (sample, cache')" by fastforce
  have entry: "(terrainKey m, cache) \<in> set opened" using opened(3) by (rule map_of_SomeD)
  then obtain m' where m': "m' \<in> maps" "terrainKey m = terrainKey m'"
    "tc_field cache = terrainSample parse (rm_features m')" and ok: "samples_ok cache"
    using opened(2) by (auto simp: memo_ok_def)
  then have features: "rm_features m' = rm_features m" using assms(1,2) by (metis maps_ok_def)
  note after = sampleTerrain_ok [OF ok s]
  have "terrainAt parse (m, x, y) caches = Some (sample, AList.update (terrainKey m) cache' opened)"
    by (simp add: terrainAt_def opened(1,3) s)
  moreover have "terrainKey m \<in> fst ` set opened" using entry by force
  then have "memo_ok parse maps (AList.update (terrainKey m) cache' opened)"
    using opened(2) after m' by (auto simp: memo_ok_def set_update_distinct distinct_update length_update_present)
  moreover have "answers parse (m, x, y) sample"
    using after m'(3) features by (auto simp: answers_def)
  ultimately show ?thesis using that by blast
qed

text \<open>The machine of requests: the contract holds for any set of maps that are told apart by their keys.\<close>

lemma terrainRun_ok:
  "\<lbrakk>maps_ok parse maps; fst ` set rs \<subseteq> maps; memo_ok parse maps caches\<rbrakk> \<Longrightarrow>
   \<exists>samples caches'. terrainRun parse rs caches = Some (samples, caches') \<and>
     memo_ok parse maps caches' \<and> list_all2 (answers parse) rs samples"
proof (induction rs arbitrary: caches)
  case (Cons r rs)
  obtain m x y where r: "r = (m, x, y)" by (cases r)
  obtain sample caches1 where one: "terrainAt parse (m, x, y) caches = Some (sample, caches1)"
    "memo_ok parse maps caches1" "answers parse (m, x, y) sample"
    using terrainAt_ok [of parse maps m caches x y] Cons.prems r by auto
  obtain samples caches' where rest: "terrainRun parse rs caches1 = Some (samples, caches')"
    "memo_ok parse maps caches'" "list_all2 (answers parse) rs samples"
    using Cons.IH [of caches1] Cons.prems one(2) by auto
  then show ?case using one r by simp
qed simp


definition sampleMap :: "string \<Rightarrow> ReferenceMap" where
  "sampleMap name = \<lparr>rm_map_id = name, rm_name = name, rm_version = 1, rm_created_at_ms = 0,
     rm_coordinate_frame = ''LOCAL_CARTESIAN_METRES'', rm_coordinate_frame_id = None, rm_source = ''test'',
     rm_source_detail = None, rm_geographic_anchor = None, rm_features = [benchRoad]\<rparr>"


end
