(* ===== verification/TruckMesh.thy ===== *)
theory TruckMesh
  imports Proximity TerrainIndex SensorSettings
begin

text \<open>
  The mesh of the truck and the fit of the drawn truck to its sensors:
  \<^verbatim>\<open>frontend/src/spatial/truckMesh.ts\<close> and the first part of \<^verbatim>\<open>spatial/truckFootprint.ts\<close>. The
  coordinates of the mesh are constants of the program, so they are reals. The builder's list of
  surfaces is the state that \<open>face\<close>, \<open>solid\<close>, \<open>box\<close>, \<open>detail\<close> and \<open>tire\<close> extend; a surface that
  receives details later is referred to by its position.
\<close>

type_synonym Coordinate = "real \<times> real \<times> real"

record SurfaceDetail =
  sd_points :: "Coordinate list"
  sd_fill :: string

record TruckSurface =
  tsf_key :: string
  tsf_part :: string
  tsf_points :: "Coordinate list"
  tsf_fill :: string
  tsf_details :: "SurfaceDetail list"

definition PAINT :: string where "PAINT = ''#d9a441''"
definition EDGE :: string where "EDGE = ''#efc36b''"
definition STEEL :: string where "STEEL = ''#54616b''"
definition FRAME :: string where "FRAME = ''#303940''"
definition RUBBER :: string where "RUBBER = ''#303337''"
definition GLASS :: string where "GLASS = ''#294955''"

fun subtract :: "Coordinate \<Rightarrow> Coordinate \<Rightarrow> Coordinate" where
  "subtract (ax, ay, az) (bx, by, bz) = (ax - bx, ay - by, az - bz)"

fun cross_product :: "Coordinate \<Rightarrow> Coordinate \<Rightarrow> Coordinate" where
  "cross_product (ax, ay, az) (bx, by, bz) = (ay * bz - az * by, az * bx - ax * bz, ax * by - ay * bx)"

fun dot_product :: "Coordinate \<Rightarrow> Coordinate \<Rightarrow> real" where
  "dot_product (ax, ay, az) (bx, by, bz) = ax * bx + ay * by + az * bz"

definition hypot3 :: "Coordinate \<Rightarrow> real" where
  "hypot3 p = sqrt (dot_product p p)"

text \<open>The unit normal by the first three points; the zero vector of a degenerate face stays zero.\<close>

definition surfaceNormal :: "Coordinate list \<Rightarrow> Coordinate" where
  "surfaceNormal points =
     (let (nx, ny, nz) = cross_product (subtract (points ! 1) (points ! 0)) (subtract (points ! 2) (points ! 0));
          length' = or_one (hypot3 (nx, ny, nz))
      in (nx / length', ny / length', nz / length'))"

section \<open>Shading\<close>

definition hex_value :: "char \<Rightarrow> nat" where
  "hex_value c = (let n = of_char c in if n < 58 then n - 48 else n - 87)"

definition hex_char :: "nat \<Rightarrow> char" where
  "hex_char d = (if d < 10 then char_of (48 + d) else char_of (87 + d))"

text \<open>The two hexadecimal digits of a byte, with the leading zero of \<^verbatim>\<open>padStart\<close>.\<close>

definition hex_byte :: "nat \<Rightarrow> string" where
  "hex_byte n = [hex_char (n div 16), hex_char (n mod 16)]"

definition channel :: "string \<Rightarrow> nat \<Rightarrow> nat" where
  "channel color offset = 16 * hex_value (color ! offset) + hex_value (color ! (offset + 1))"

definition shade :: "string \<Rightarrow> Coordinate \<Rightarrow> string" where
  "shade color = (\<lambda>(nx, ny, nz).
     let light = max 0 (- 0.4 * nx + 0.3 * ny + 0.86 * nz);
         strength = 0.62 + light * 0.48
     in ''#'' @ concat (map (\<lambda>offset. hex_byte (nat (min 255 \<lfloor>real (channel color offset) * strength + 1/2\<rfloor>)))
          [1, 3, 5]))"

section \<open>The builder\<close>

type_synonym MeshStep = "TruckSurface list \<Rightarrow> TruckSurface list"

definition build :: "MeshStep list \<Rightarrow> MeshStep" where
  "build steps surfaces = foldl (\<lambda>s f. f s) surfaces steps"

definition face :: "string \<Rightarrow> Coordinate list \<Rightarrow> string \<Rightarrow> MeshStep" where
  "face part vertices color surfaces =
     surfaces @ [\<lparr>tsf_key = part @ ''-'' @ nat_str (length surfaces), tsf_part = part, tsf_points = vertices,
       tsf_fill = shade color (surfaceNormal vertices), tsf_details = []\<rparr>]"

definition solidCenter :: "Coordinate list \<Rightarrow> Coordinate list \<Rightarrow> Coordinate" where
  "solidCenter lower upper =
     foldl (\<lambda>(sx, sy, sz) (vx, vy, vz). let n = real (length lower * 2)
         in (sx + vx / n, sy + vy / n, sz + vz / n)) (0, 0, 0) (lower @ upper)"

text \<open>Vertices in the order that turns the normal away from the centre.\<close>

definition outward :: "Coordinate \<Rightarrow> Coordinate list \<Rightarrow> Coordinate list" where
  "outward center vertices =
     (if dot_product (surfaceNormal vertices) (subtract (vertices ! 0) center) < 0 then rev vertices else vertices)"

text \<open>Bottom, top, then the sides in the order of the lower outline.\<close>

definition solidFaces :: "Coordinate list \<Rightarrow> Coordinate list \<Rightarrow> Coordinate list list" where
  "solidFaces lower upper =
     map (outward (solidCenter lower upper))
       (lower # upper # map (\<lambda>i. let next = (i + 1) mod length lower
          in [lower ! i, lower ! next, upper ! next, upper ! i]) [0..<length lower])"

definition solid :: "string \<Rightarrow> Coordinate list \<Rightarrow> Coordinate list \<Rightarrow> string \<Rightarrow> MeshStep" where
  "solid part lower upper color = build (map (\<lambda>vertices. face part vertices color) (solidFaces lower upper))"

definition boxLower :: "Coordinate \<Rightarrow> Coordinate \<Rightarrow> Coordinate list" where
  "boxLower = (\<lambda>(x, y, z) (X, Y, Z). [(x, y, z), (X, y, z), (X, Y, z), (x, Y, z)])"

definition boxUpper :: "Coordinate \<Rightarrow> Coordinate \<Rightarrow> Coordinate list" where
  "boxUpper = (\<lambda>(x, y, z) (X, Y, Z). [(x, y, Z), (X, y, Z), (X, Y, Z), (x, Y, Z)])"

definition box :: "string \<Rightarrow> Coordinate \<Rightarrow> Coordinate \<Rightarrow> string \<Rightarrow> MeshStep" where
  "box part mn mx color = solid part (boxLower mn mx) (boxUpper mn mx) color"

definition detail :: "nat \<Rightarrow> Coordinate list \<Rightarrow> string \<Rightarrow> MeshStep" where
  "detail host vertices fill surfaces =
     surfaces[host := (surfaces ! host)\<lparr>tsf_details :=
       tsf_details (surfaces ! host) @ [\<lparr>sd_points = vertices, sd_fill = fill\<rparr>]\<rparr>]"

definition frontPanel :: "nat \<Rightarrow> real \<Rightarrow> real \<Rightarrow> real \<Rightarrow> real \<Rightarrow> real \<Rightarrow> string \<Rightarrow> MeshStep" where
  "frontPanel host x X y z Z fill = detail host [(x, y, z), (X, y, z), (X, y, Z), (x, y, Z)] fill"

text \<open>A solid with steps that refer to its surfaces: the top is at 1, side \<open>k\<close> at \<open>2 + k\<close>.\<close>

definition hosting :: "MeshStep \<Rightarrow> (nat \<Rightarrow> MeshStep list) \<Rightarrow> MeshStep" where
  "hosting host steps surfaces = build (steps (length surfaces)) (host surfaces)"

definition top_of :: "nat \<Rightarrow> nat" where
  "top_of first = first + 1"

definition side_of :: "nat \<Rightarrow> nat \<Rightarrow> nat" where
  "side_of first k = first + 2 + k"

section \<open>Wheels\<close>

definition wheelPoint :: "real \<Rightarrow> real \<Rightarrow> real \<Rightarrow> real \<Rightarrow> real \<Rightarrow> real \<Rightarrow> real \<Rightarrow> Coordinate" where
  "wheelPoint x y radius angle axial longitudinal height =
     (let radians = angle * pi / 180
      in (x + axial * cos radians + longitudinal * sin radians,
          y - axial * sin radians + longitudinal * cos radians, radius + height))"

definition radial :: "real \<Rightarrow> real \<Rightarrow> real \<Rightarrow> real \<Rightarrow> real \<Rightarrow> real \<Rightarrow> real \<Rightarrow> Coordinate" where
  "radial x y radius angle axial r theta = wheelPoint x y radius angle axial (sin theta * r) (cos theta * r)"

definition ring :: "real \<Rightarrow> real \<Rightarrow> real \<Rightarrow> real \<Rightarrow> real \<Rightarrow> real \<Rightarrow> Coordinate list" where
  "ring x y radius angle axial r =
     map (\<lambda>i. radial x y radius angle axial r (real i * pi * 2 / 32)) [0..<32]"

definition bands :: "real \<Rightarrow> real \<Rightarrow> (real \<times> real) list" where
  "bands width radius =
     [(- width / 2, radius * 0.86), (- width * 0.34, radius), (width * 0.34, radius), (width / 2, radius * 0.86)]"

definition treadFace :: "string \<Rightarrow> real \<Rightarrow> real \<Rightarrow> real \<Rightarrow> real \<Rightarrow> real \<Rightarrow> nat \<Rightarrow> nat \<Rightarrow> MeshStep" where
  "treadFace wheel x y width radius angle band i =
     (let (ax, ar) = bands width radius ! band; (bx, br) = bands width radius ! (band + 1);
          t = real i * pi * 2 / 32; next = real (i + 1) * pi * 2 / 32; pt = radial x y radius angle
      in hosting (face wheel [pt ax ar t, pt bx br t, pt bx br next, pt ax ar next] RUBBER) (\<lambda>host.
           if band = 1
           then [detail host [pt ax ar (t + 0.035), pt 0 radius (t + 0.075), pt bx br (t + 0.035),
                  pt bx br (t + 0.085), pt 0 radius (t + 0.125), pt ax ar (t + 0.085)] ''#14191c'']
           else []))"

definition bolt :: "real \<Rightarrow> real \<Rightarrow> real \<Rightarrow> real \<Rightarrow> real \<Rightarrow> nat \<Rightarrow> Coordinate list" where
  "bolt x y radius angle axial i =
     (let theta = real i * pi / 5
      in map (\<lambda>j. wheelPoint x y radius angle axial
           (sin theta * radius * 0.35 + sin (real j * pi / 3) * 0.014)
           (cos theta * radius * 0.35 + cos (real j * pi / 3) * 0.014)) [0..<6])"

definition wheelCap :: "string \<Rightarrow> real \<Rightarrow> real \<Rightarrow> real \<Rightarrow> real \<Rightarrow> real \<Rightarrow> real \<Rightarrow> MeshStep" where
  "wheelCap wheel x y width radius angle side =
     (let axial = side * width / 2; pt = ring x y radius angle axial;
          vertices = (if 0 < side then rev (pt (radius * 0.86)) else pt (radius * 0.86))
      in hosting (face wheel vertices RUBBER) (\<lambda>cap.
           [detail cap (pt (radius * 0.72)) ''#171d21'', detail cap (pt (radius * 0.57)) ''#a1abb0'',
            detail cap (pt (radius * 0.48)) ''#505d66''] @
           map (\<lambda>i. detail cap (bolt x y radius angle axial i) ''#c3c9c7'') [0..<10] @
           [detail cap (pt (radius * 0.23)) ''#b59858'', detail cap (pt (radius * 0.14)) ''#5a6266'']))"

definition tire :: "string \<Rightarrow> real \<Rightarrow> real \<Rightarrow> real \<Rightarrow> real \<Rightarrow> real \<Rightarrow> MeshStep" where
  "tire wheel x y width radius angle =
     build (concat (map (\<lambda>band. map (treadFace wheel x y width radius angle band) [0..<32]) [0..<3]) @
       map (wheelCap wheel x y width radius angle) [- 1, 1])"

section \<open>The parts, in the order of the code\<close>

definition undercarriage :: "MeshStep list" where
  "undercarriage =
     [box ''truck-solid-core'' (-0.44, -1.29, 0.28) (0.44, 1.12, 0.52) FRAME] @
     map (\<lambda>x. box ''truck-undercarriage'' (x, -1.3, 0.23) (x + 0.08, 1.12, 0.4) STEEL) [-0.36, 0.28] @
     concat (map (\<lambda>y.
       [box ''truck-undercarriage'' (-0.73, y - 0.075, 0.29) (0.73, y + 0.075, 0.4) FRAME,
        box ''truck-undercarriage'' (-0.15, y - 0.14, 0.23) (0.15, y + 0.14, 0.46) STEEL]) [-0.77, 0.77]) @
     [box ''truck-undercarriage'' (-0.045, -0.78, 0.26) (0.045, 0.82, 0.33) STEEL]"

definition steeringAngle :: "jsnum \<Rightarrow> real" where
  "steeringAngle steerAngleDeg = (case steerAngleDeg of Fin a \<Rightarrow> max (- 45) (min 45 a) | _ \<Rightarrow> 0)"

definition wheels :: "real \<Rightarrow> MeshStep list" where
  "wheels steering =
     [tire ''wheel-front-left'' (-0.66) 0.77 0.26 0.35 steering,
      tire ''wheel-front-right'' 0.66 0.77 0.26 0.35 steering,
      tire ''wheel-rear-left-outer'' (-0.71) (-0.77) 0.22 0.39 0,
      tire ''wheel-rear-left-inner'' (-0.46) (-0.77) 0.21 0.39 0,
      tire ''wheel-rear-right-outer'' 0.71 (-0.77) 0.22 0.39 0,
      tire ''wheel-rear-right-inner'' 0.46 (-0.77) 0.21 0.39 0]"

definition bedWall :: "real \<Rightarrow> nat \<Rightarrow> MeshStep list" where
  "bedWall side i =
     (let x = (\<lambda>v. v * side); rear = -1.36 + real i * 0.338; front = rear + 0.338
      in [solid ''truck-dump-body'' [(x 0.53, rear, 0.65), (x 0.59, rear, 0.61), (x 0.59, front, 0.61), (x 0.53, front, 0.65)]
            [(x 0.74, rear, 1.22), (x 0.8, rear, 1.24), (x 0.8, front, 1.24), (x 0.74, front, 1.22)] PAINT,
          solid ''truck-bed-rib'' [(x 0.59, rear, 0.62), (x 0.62, rear, 0.62), (x 0.62, rear + 0.04, 0.62), (x 0.59, rear + 0.04, 0.62)]
            [(x 0.8, rear, 1.24), (x 0.83, rear, 1.24), (x 0.83, rear + 0.04, 1.24), (x 0.8, rear + 0.04, 1.24)] EDGE])"

definition bedSide :: "real \<Rightarrow> MeshStep list" where
  "bedSide side =
     (let x = (\<lambda>v. v * side)
      in concat (map (bedWall side) [0..<5]) @
         [box ''truck-bed-rail'' (min (x 0.73) (x 0.82), -1.39, 1.22) (max (x 0.73) (x 0.82), 0.38, 1.27) EDGE,
          box ''truck-rear-mudguard'' (min (x 0.4) (x 0.83), -1.2, 0.13) (max (x 0.4) (x 0.83), -1.16, 0.65) RUBBER,
          box ''truck-fuel-tank'' (min (x 0.46) (x 0.64), -0.18, 0.29) (max (x 0.46) (x 0.64), 0.28, 0.55) STEEL])"

definition dumpBed :: "MeshStep list" where
  "dumpBed =
     [box ''truck-dump-body'' (-0.56, -1.36, 0.59) (0.56, 0.33, 0.66) STEEL] @
     concat (map bedSide [- 1, 1]) @
     [solid ''truck-dump-body'' [(-0.53, 0.28, 0.64), (0.53, 0.28, 0.64), (0.59, 0.36, 0.61), (-0.59, 0.36, 0.61)]
        [(-0.74, 0.28, 1.22), (0.74, 0.28, 1.22), (0.8, 0.36, 1.24), (-0.8, 0.36, 1.24)] PAINT]"

definition rearEnd :: "MeshStep list" where
  "rearEnd =
     [hosting (solid ''truck-tailgate'' [(-0.59, -1.4, 0.61), (0.59, -1.4, 0.61), (0.53, -1.34, 0.65), (-0.53, -1.34, 0.65)]
        [(-0.8, -1.4, 1.24), (0.8, -1.4, 1.24), (0.74, -1.34, 1.22), (-0.74, -1.34, 1.22)] PAINT)
        (\<lambda>tail. concat (map (\<lambda>x.
           [frontPanel (side_of tail 0) (x - 0.025) (x + 0.025) (-1.4) 0.7 1.17 ''#a27a36'',
            box ''truck-tailgate-hinge'' (x - 0.055, -1.44, 0.63) (x + 0.055, -1.38, 0.72) STEEL]) [-0.48, 0, 0.48])),
      box ''truck-rear-bumper'' (-0.66, -1.44, 0.3) (0.66, -1.35, 0.4) FRAME] @
     map (\<lambda>x. hosting (box ''truck-rear-lamp'' (x, -1.45, 0.43) (x + 0.12, -1.37, 0.49) FRAME)
       (\<lambda>lamp. [frontPanel (side_of lamp 0) (x + 0.012) (x + 0.065) (-1.45) 0.441 0.48 ''#b44738'',
                frontPanel (side_of lamp 0) (x + 0.073) (x + 0.108) (-1.45) 0.441 0.48 ''#d5a14a''])) [-0.55, 0.43]"

definition canopy :: "MeshStep list" where
  "canopy =
     [solid ''truck-canopy'' [(-0.8, 0.32, 1.24), (0.8, 0.32, 1.24), (0.72, 0.91, 1.37), (-0.72, 0.91, 1.37)]
        [(-0.8, 0.32, 1.29), (0.8, 0.32, 1.29), (0.72, 0.91, 1.42), (-0.72, 0.91, 1.42)] PAINT,
      box ''truck-canopy-lip'' (-0.73, 0.89, 1.37) (0.73, 0.94, 1.42) EDGE,
      box ''truck-front-deck'' (-0.7, 0.37, 0.52) (0.7, 1.18, 0.62) PAINT]"

definition windshieldY :: "real \<Rightarrow> real" where
  "windshieldY z = 1.12 - (z - 0.62) * 0.18 / 0.62"

definition frontGlass :: "nat \<Rightarrow> real \<Rightarrow> real \<Rightarrow> real \<Rightarrow> real \<Rightarrow> string \<Rightarrow> MeshStep" where
  "frontGlass cab x X z Z fill =
     detail (side_of cab 2) [(x, windshieldY z, z), (X, windshieldY z, z), (X, windshieldY Z, Z), (x, windshieldY Z, Z)] fill"

definition cabX :: "nat \<Rightarrow> real \<Rightarrow> real" where
  "cabX side z = (if side = 3 then -0.57 + (z - 0.62) * 0.02 / 0.62 else 0.08 - (z - 0.62) * 0.02 / 0.62)"

definition cabWindow :: "nat \<Rightarrow> nat \<Rightarrow> MeshStep list" where
  "cabWindow cab side =
     (let xAt = cabX side
      in [detail (side_of cab side) [(xAt 0.81, 0.51, 0.81), (xAt 0.81, 1.04, 0.81), (xAt 1.19, 0.93, 1.19), (xAt 1.19, 0.51, 1.19)] ''#19272d'',
          detail (side_of cab side) [(xAt 0.84, 0.54, 0.84), (xAt 0.84, 1.005, 0.84), (xAt 1.16, 0.912, 1.16), (xAt 1.16, 0.54, 1.16)] GLASS,
          detail (side_of cab side) [(xAt 1.1, 0.54, 1.1), (xAt 1.1, 0.925, 1.1), (xAt 1.16, 0.912, 1.16), (xAt 1.16, 0.54, 1.16)] ''#67848a'',
          detail (side_of cab side) [(xAt 0.74, 0.53, 0.74), (xAt 0.74, 0.64, 0.74), (xAt 0.76, 0.64, 0.76), (xAt 0.76, 0.53, 0.76)] ''#26323a''])"

definition cabin :: "MeshStep list" where
  "cabin =
     [hosting (solid ''truck-cab-assembly'' [(-0.57, 0.44, 0.62), (0.08, 0.44, 0.62), (0.08, 1.12, 0.62), (-0.57, 1.12, 0.62)]
        [(-0.55, 0.46, 1.24), (0.06, 0.46, 1.24), (0.06, 0.94, 1.24), (-0.55, 0.94, 1.24)] PAINT)
      (\<lambda>cab.
        [frontGlass cab (-0.53) 0.035 0.81 1.2 ''#151f25'', frontGlass cab (-0.508) 0.012 0.838 1.176 GLASS,
         frontGlass cab (-0.508) 0.012 1.11 1.176 ''#5b7b84'', frontGlass cab (-0.264) (-0.252) 0.83 1.19 ''#1c292f'',
         detail (side_of cab 2) [(-0.46, windshieldY 0.85, 0.85), (-0.33, windshieldY 0.99, 0.99),
           (-0.32, windshieldY 0.99, 0.99), (-0.448, windshieldY 0.85, 0.85)] ''#101a20''] @
        concat (map (cabWindow cab) [1, 3]))]"

definition frontEnd :: "MeshStep list" where
  "frontEnd =
     [hosting (box ''truck-engine-cover'' (0.14, 0.42, 0.62) (0.61, 1.09, 0.89) PAINT)
        (\<lambda>engine. map (\<lambda>i. let y = 0.52 + real i * 0.07
           in detail (top_of engine) [(0.22, y, 0.89), (0.54, y, 0.89), (0.54, y + 0.022, 0.89), (0.22, y + 0.022, 0.89)] ''#564a34'')
           [0..<7]),
      hosting (box ''truck-front-fascia'' (-0.52, 1.13, 0.43) (0.52, 1.2, 0.73) FRAME)
        (\<lambda>radiator. frontPanel (side_of radiator 2) (-0.4) 0.4 1.2 0.48 0.68 ''#111b21'' #
           map (\<lambda>i. frontPanel (side_of radiator 2) (-0.38) 0.38 1.2 (0.49 + real i * 0.032) (0.5 + real i * 0.032) ''#68716d'')
           [0..<6]),
      box ''truck-bumper'' (-0.72, 1.18, 0.29) (0.72, 1.28, 0.43) PAINT] @
     map (\<lambda>x. hosting (box ''truck-headlamp'' (x, 1.18, 0.49) (x + 0.22, 1.225, 0.6) FRAME)
       (\<lambda>lamp. [frontPanel (side_of lamp 2) (x + 0.023) (x + 0.093) 1.225 0.516 0.576 ''#e2ebdd'',
                frontPanel (side_of lamp 2) (x + 0.113) (x + 0.183) 1.225 0.516 0.576 ''#e2ebdd''])) [-0.67, 0.45] @
     map (\<lambda>x. box ''truck-tow-eye'' (x, 1.28, 0.31) (x + 0.08, 1.32, 0.37) STEEL) [-0.48, 0.4]"

definition fittings :: "MeshStep list" where
  "fittings =
     map (\<lambda>i. box ''truck-access-step'' (-0.73, 1.055 + real i * 0.027, 0.22 + real i * 0.115)
       (-0.52, 1.19 + real i * 0.027, 0.252 + real i * 0.115) STEEL) [0..<3] @
     map (\<lambda>x. box ''truck-handrail'' (x, 1.205, 0.36) (x + 0.018, 1.223, 0.91) EDGE) [-0.72, -0.52] @
     [box ''truck-handrail'' (-0.72, 1.205, 0.89) (-0.5, 1.223, 0.91) EDGE,
      box ''truck-mirror-arm'' (-0.72, 0.98, 1.02) (-0.54, 1, 1.04) STEEL,
      hosting (box ''truck-mirror'' (-0.76, 0.96, 0.97) (-0.69, 1.01, 1.12) FRAME)
        (\<lambda>mirror. [frontPanel (side_of mirror 0) (-0.75) (-0.7) 0.96 0.985 1.1 ''#8da3a7'']),
      box ''truck-exhaust'' (0.47, 0.39, 0.85) (0.53, 0.45, 1.31) STEEL,
      box ''truck-exhaust-cap'' (0.46, 0.38, 1.29) (0.55, 0.47, 1.33) FRAME,
      box ''truck-beacon-base'' (-0.48, 0.96, 1.19) (-0.38, 1.06, 1.25) FRAME,
      box ''truck-beacon-lens'' (-0.465, 0.975, 1.25) (-0.395, 1.045, 1.32) ''#e9a52a'']"

definition oreColors :: "string list" where
  "oreColors = [''#62241a'', ''#4a1911'', ''#782e21'', ''#873527'', ''#3d130c'']"

text \<open>Slice \<open>s\<close> of the heap, between two stations along the bed.\<close>

definition oreY :: "real \<Rightarrow> real" where
  "oreY t = -1.32 + t * (0.26 - -1.32)"

definition oreHeight :: "real \<Rightarrow> real" where
  "oreHeight t = 0.66 + sin (t * pi) * (1.14 - 0.66) * 0.95"

definition oreSlice :: "nat \<Rightarrow> MeshStep list" where
  "oreSlice s =
     (let t0 = real s / 5; t1 = real (s + 1) / 5; y0 = oreY t0; y1 = oreY t1;
          h0 = oreHeight t0; h1 = oreHeight t1; color = (\<lambda>k. oreColors ! ((s * 2 + k) mod length oreColors))
      in [face ''truck-ore-cargo'' [(-0.47, y0, 0.66), (-0.18, y0, h0), (-0.18, y1, h1), (-0.47, y1, 0.66)] (color 0),
          face ''truck-ore-cargo'' [(-0.18, y0, h0), (0.18, y0, h0), (0.18, y1, h1), (-0.18, y1, h1)] (color 1),
          face ''truck-ore-cargo'' [(0.18, y0, h0), (0.47, y0, 0.66), (0.47, y1, 0.66), (0.18, y1, h1)] (color 2)])"

definition oreCargo :: "MeshStep list" where
  "oreCargo =
     concat (map oreSlice [0..<5]) @
     [face ''truck-ore-cargo'' [(-0.47, 0.26, 0.66), (0, 0.26, 0.66 + 0.3), (0.47, 0.26, 0.66)] ''#4a1911'',
      face ''truck-ore-cargo'' [(0.47, -1.32, 0.66), (0, -1.32, 0.66 + 0.3), (-0.47, -1.32, 0.66)] ''#3d130c'']"

definition buildTruckMesh :: "jsnum \<Rightarrow> TruckSurface list" where
  "buildTruckMesh steerAngleDeg =
     build (undercarriage @ wheels (steeringAngle steerAngleDeg) @ dumpBed @ rearEnd @ canopy @ cabin @
       frontEnd @ fittings @ oreCargo) []"

definition DUMP_BED_PARTS :: "string set" where
  "DUMP_BED_PARTS = {''truck-dump-body'', ''truck-bed-rib'', ''truck-bed-rail'', ''truck-tailgate'',
     ''truck-tailgate-hinge'', ''truck-canopy'', ''truck-canopy-lip'', ''truck-ore-cargo''}"

definition TRUCK_HINGE_Y_M :: jsnum where
  "TRUCK_HINGE_Y_M = Fin (-1.41)"

definition TRUCK_HINGE_Z_M :: jsnum where
  "TRUCK_HINGE_Z_M = Fin 0.675"

section \<open>The drawn truck and its sensors\<close>

definition meshVertices :: "Coordinate list" where
  "meshVertices = concat (map tsf_points (buildTruckMesh (Fin 0)))"

definition MODEL_FOOTPRINT :: TruckFootprint where
  "MODEL_FOOTPRINT =
     \<lparr>fp_left = js_min_list (map (\<lambda>(x, y, z). Fin x) meshVertices),
      fp_right = js_max_list (map (\<lambda>(x, y, z). Fin x) meshVertices),
      fp_front = js_max_list (map (\<lambda>(x, y, z). Fin y) meshVertices),
      fp_rear = js_min_list (map (\<lambda>(x, y, z). Fin y) meshVertices)\<rparr>"

record TruckGeometry =
  tg_scale :: jsnum
  tg_footprint :: TruckFootprint

definition mountLimits :: "SensorDisplayPose list \<Rightarrow> jsnum list" where
  "mountLimits mounts =
     filter (\<lambda>v. isFinite v \<and> 0 < v)
       [js_min_list (0 # map pose_x_m mounts) / fp_left MODEL_FOOTPRINT,
        js_max_list (0 # map pose_x_m mounts) / fp_right MODEL_FOOTPRINT,
        js_max_list (0 # map pose_y_m mounts) / fp_front MODEL_FOOTPRINT,
        js_min_list (0 # map pose_y_m mounts) / fp_rear MODEL_FOOTPRINT]"

definition truckDisplayGeometry :: "SensorDisplaySetting list \<Rightarrow> bool \<Rightarrow> TruckGeometry" where
  "truckDisplayGeometry sensors fitToSensors =
     (let mounts = map sd_display_pose sensors;
          scale = (if fitToSensors then js_min_list (1 # mountLimits mounts) else 1)
      in \<lparr>tg_scale = scale, tg_footprint =
           \<lparr>fp_left = fp_left MODEL_FOOTPRINT * scale, fp_right = fp_right MODEL_FOOTPRINT * scale,
            fp_front = fp_front MODEL_FOOTPRINT * scale, fp_rear = fp_rear MODEL_FOOTPRINT * scale\<rparr>\<rparr>)"

section \<open>The builder only adds surfaces\<close>

text \<open>The key of a surface is its part and its position.\<close>

definition keyed :: "TruckSurface list \<Rightarrow> bool" where
  "keyed surfaces \<longleftrightarrow>
     (\<forall>i < length surfaces. tsf_key (surfaces ! i) = tsf_part (surfaces ! i) @ ''-'' @ nat_str i)"

definition adds :: "MeshStep \<Rightarrow> bool" where
  "adds step \<longleftrightarrow> (\<forall>s. (\<exists>new. map tsf_points (step s) = map tsf_points s @ new) \<and> (keyed s \<longrightarrow> keyed (step s)))"

named_theorems mesh_steps

lemma adds_face [mesh_steps]: "adds (face part vertices color)"
  by (auto simp: adds_def face_def keyed_def nth_append less_Suc_eq)

lemma adds_detail [mesh_steps]: "adds (detail host vertices fill)"
proof -
  have "map tsf_points (detail host vertices fill s) = map tsf_points s" for s
    by (cases "host < length s") (simp_all add: detail_def map_update list_update_same_conv list_update_beyond)
  moreover have "keyed (detail host vertices fill s)" if "keyed s" for s
    unfolding keyed_def
  proof (intro allI impI)
    fix i assume "i < length (detail host vertices fill s)"
    then show "tsf_key (detail host vertices fill s ! i) = tsf_part (detail host vertices fill s ! i) @ ''-'' @ nat_str i"
      using that by (cases "i = host") (auto simp: keyed_def detail_def)
  qed
  ultimately show ?thesis by (simp add: adds_def)
qed

lemma adds_then:
  assumes "adds f" "adds g" shows "adds (\<lambda>s. g (f s))"
  unfolding adds_def
proof (intro allI conjI impI)
  fix s
  obtain n1 where "map tsf_points (f s) = map tsf_points s @ n1" using assms(1) by (auto simp: adds_def)
  moreover obtain n2 where "map tsf_points (g (f s)) = map tsf_points (f s) @ n2" using assms(2) by (auto simp: adds_def)
  ultimately show "\<exists>new. map tsf_points (g (f s)) = map tsf_points s @ new" by simp
  show "keyed (g (f s))" if "keyed s" using assms that by (simp add: adds_def)
qed

lemma adds_build [mesh_steps]: "list_all adds steps \<Longrightarrow> adds (build steps)"
proof (induction steps)
  case Nil
  then show ?case by (simp add: adds_def build_def)
next
  case (Cons step steps)
  have "build (step # steps) = (\<lambda>s. build steps (step s))" by (simp add: build_def fun_eq_iff)
  with Cons adds_then show ?case by simp
qed

lemma adds_solid [mesh_steps]: "adds (solid part lower upper color)"
  unfolding solid_def by (intro adds_build) (simp add: list_all_iff adds_face)

lemma adds_box [mesh_steps]: "adds (box part mn mx color)"
  by (simp add: box_def adds_solid)

lemma adds_frontPanel [mesh_steps]: "adds (frontPanel host x X y z Z fill)"
  by (simp add: frontPanel_def adds_detail)

lemma adds_frontGlass [mesh_steps]: "adds (frontGlass cab x X z Z fill)"
  by (simp add: frontGlass_def adds_detail)

lemma adds_hosting [mesh_steps]:
  "adds host \<Longrightarrow> (\<And>n. list_all adds (steps n)) \<Longrightarrow> adds (hosting host steps)"
  using adds_then [OF _ adds_build] by (force simp: adds_def hosting_def)

lemma adds_wheels:
  "adds (treadFace wheel x y width radius angle band i)" "adds (wheelCap wheel x y width radius angle side)"
  by (auto simp: treadFace_def wheelCap_def Let_def list_all_iff split: prod.split intro!: mesh_steps)

lemma adds_tire [mesh_steps]: "adds (tire wheel x y width radius angle)"
  unfolding tire_def by (intro adds_build) (auto simp: list_all_iff adds_wheels)

lemma adds_groups:
  "list_all adds undercarriage" "list_all adds (wheels steering)" "list_all adds dumpBed"
  "list_all adds rearEnd" "list_all adds canopy" "list_all adds cabin" "list_all adds frontEnd"
  "list_all adds fittings" "list_all adds oreCargo"
  by (auto simp: list_all_iff undercarriage_def wheels_def dumpBed_def bedSide_def bedWall_def rearEnd_def
      canopy_def cabin_def cabWindow_def frontEnd_def fittings_def oreCargo_def oreSlice_def Let_def
      intro!: mesh_steps)

lemma adds_mesh: "adds (build (undercarriage @ wheels a @ dumpBed @ rearEnd @ canopy @ cabin @ frontEnd @ fittings @ oreCargo))"
  by (intro adds_build) (simp add: adds_groups)

lemma nat_str_no_dash: "c \<in> set (nat_str n) \<Longrightarrow> c \<noteq> CHR ''-''"
  using nat_str_no_sign(1) by metis

lemma split_last_dash: "p @ CHR ''-'' # nat_str i = q @ CHR ''-'' # nat_str j \<Longrightarrow> nat_str i = nat_str j"
proof -
  have last: "takeWhile (\<lambda>c. c \<noteq> CHR ''-'') (rev (p @ CHR ''-'' # nat_str i)) = rev (nat_str i)" for p i
    using nat_str_no_dash by (simp add: takeWhile_append)
  assume "p @ CHR ''-'' # nat_str i = q @ CHR ''-'' # nat_str j"
  then show ?thesis using last [of p i] last [of q j] by simp
qed

text \<open>
  Every surface of the truck has a key of its own, at every steering angle: the key a view
  uses to keep a drawn face apart from the others never repeats.
\<close>

theorem mesh_keys_distinct: "distinct (map tsf_key (buildTruckMesh steerAngleDeg))"
proof -
  have "keyed (buildTruckMesh steerAngleDeg)"
    using adds_mesh unfolding buildTruckMesh_def adds_def by (simp add: keyed_def)
  then show ?thesis
    by (auto simp: distinct_conv_nth keyed_def dest!: split_last_dash nat_str_inj)
qed

section \<open>Boxes are closed outwards\<close>

lemma box_center:
  "solidCenter (boxLower (x, y, z) (X, Y, Z)) (boxUpper (x, y, z) (X, Y, Z)) = ((x + X) / 2, (y + Y) / 2, (z + Z) / 2)"
  by (simp add: solidCenter_def boxLower_def boxUpper_def Let_def field_simps)

text \<open>
  Every face of a box is wound outwards: its normal has length one and points away from the
  centre of the box, so a face that looks away from the viewer can be left out without opening a hole.
\<close>

theorem box_faces_outward:
  assumes "x < X" "y < Y" "z < Z"
    and "vertices \<in> set (solidFaces (boxLower (x, y, z) (X, Y, Z)) (boxUpper (x, y, z) (X, Y, Z)))"
  shows "hypot3 (surfaceNormal vertices) = 1 \<and>
    0 < dot_product (surfaceNormal vertices)
          (subtract (vertices ! 0) (solidCenter (boxLower (x, y, z) (X, Y, Z)) (boxUpper (x, y, z) (X, Y, Z))))"
proof -
  obtain a b c where size: "X = x + a" "Y = y + b" "Z = z + c" "0 < a" "0 < b" "0 < c"
    using assms(1-3) by (metis add.commute diff_add_cancel diff_gt_0_iff_gt)
  have six: "vertices \<in> outward (x + a / 2, y + b / 2, z + c / 2) `
    {[(x, y, z), (x + a, y, z), (x + a, y + b, z), (x, y + b, z)],
     [(x, y, z + c), (x + a, y, z + c), (x + a, y + b, z + c), (x, y + b, z + c)],
     [(x, y, z), (x + a, y, z), (x + a, y, z + c), (x, y, z + c)],
     [(x + a, y, z), (x + a, y + b, z), (x + a, y + b, z + c), (x + a, y, z + c)],
     [(x + a, y + b, z), (x, y + b, z), (x, y + b, z + c), (x + a, y + b, z + c)],
     [(x, y + b, z), (x, y, z), (x, y, z + c), (x, y + b, z + c)]}"
    using assms(4) unfolding solidFaces_def box_center
    by (simp add: boxLower_def boxUpper_def size(1-3) upt_rec add_divide_distrib)
  show ?thesis
    unfolding box_center size(1-3)
    using six size(4-6)
    by (auto simp: outward_def surfaceNormal_def or_one_def hypot3_def power2_eq_square)
qed

theorem box_faces_outward_witness:
  "hypot3 (surfaceNormal (solidFaces (boxLower (0, 0, 0) (1, 2, 3)) (boxUpper (0, 0, 0) (1, 2, 3)) ! 0)) = 1"
proof -
  have "solidFaces (boxLower (0, 0, 0) (1, 2, 3)) (boxUpper (0, 0, 0) (1, 2, 3)) ! 0
      \<in> set (solidFaces (boxLower (0, 0, 0) (1, 2, 3)) (boxUpper (0, 0, 0) (1, 2, 3)))"
    by (simp add: solidFaces_def)
  then show ?thesis using box_faces_outward [of 0 1 0 2 0 3] by simp
qed

section \<open>The footprint and the fit\<close>

lemma build_faces:
  "map tsf_points (build (map (\<lambda>vertices. face part vertices color) vs) s) = map tsf_points s @ vs"
  by (induction vs arbitrary: s) (simp_all add: build_def face_def)

lemma outward_set: "set (outward c vertices) = set vertices"
  by (simp add: outward_def)

lemma core_vertices:
  "{(-0.44, -1.29, 0.28), (0.44, 1.12, 0.28)} \<subseteq> set meshVertices"
proof -
  define core where "core = box ''truck-solid-core'' (-0.44, -1.29, 0.28) (0.44, 1.12, 0.52) FRAME"
  obtain rest where rest: "undercarriage @ wheels (steeringAngle (Fin 0)) @ dumpBed @ rearEnd @ canopy @ cabin @
      frontEnd @ fittings @ oreCargo = core # rest"
    by (simp add: undercarriage_def core_def)
  have "list_all adds (core # rest)" unfolding rest [symmetric] by (simp add: adds_groups)
  then have "adds (build rest)" by (intro adds_build) simp
  then obtain new where "map tsf_points (build rest (core [])) = map tsf_points (core []) @ new"
    by (auto simp: adds_def)
  moreover have "buildTruckMesh (Fin 0) = build rest (core [])"
    unfolding buildTruckMesh_def rest by (simp add: build_def)
  moreover define low where "low = boxLower (-0.44, -1.29, 0.28) (0.44, 1.12, 0.52)"
  define bottom where "bottom = outward (solidCenter low (boxUpper (-0.44, -1.29, 0.28) (0.44, 1.12, 0.52))) low"
  have "bottom \<in> set (map tsf_points (core []))"
    unfolding core_def box_def solid_def build_faces bottom_def low_def by (simp add: solidFaces_def)
  ultimately have "bottom \<in> set (map tsf_points (buildTruckMesh (Fin 0)))" by simp
  then have "set bottom \<subseteq> set meshVertices" unfolding meshVertices_def by auto
  moreover have "set bottom = set low" by (simp add: bottom_def outward_set)
  ultimately show ?thesis by (simp add: low_def boxLower_def)
qed

lemma model_footprint:
  obtains l r f b where "MODEL_FOOTPRINT = \<lparr>fp_left = Fin l, fp_right = Fin r, fp_front = Fin f, fp_rear = Fin b\<rparr>"
    "l < 0" "0 < r" "0 < f" "b < 0"
proof -
  have ne: "meshVertices \<noteq> []" using core_vertices by auto
  define xs where "xs = map (\<lambda>(x, y, z). x) meshVertices"
  define ys where "ys = map (\<lambda>(x, y, z). y) meshVertices"
  have members: "-0.44 \<in> set xs" "0.44 \<in> set xs" "-1.29 \<in> set ys" "1.12 \<in> set ys"
    using core_vertices by (force simp: xs_def ys_def)+
  have lists: "map (\<lambda>(x, y, z). Fin x) meshVertices = map Fin xs" "map (\<lambda>(x, y, z). Fin y) meshVertices = map Fin ys"
    by (auto simp: xs_def ys_def)
  have "Min (set xs) \<le> -0.44" "0.44 \<le> Max (set xs)" "Min (set ys) \<le> -1.29" "1.12 \<le> Max (set ys)"
    using Min_le [OF _ members(1)] Max_ge [OF _ members(2)] Min_le [OF _ members(3)] Max_ge [OF _ members(4)]
    by simp_all
  moreover have "xs \<noteq> []" "ys \<noteq> []" using members by auto
  then have "MODEL_FOOTPRINT = \<lparr>fp_left = Fin (Min (set xs)), fp_right = Fin (Max (set xs)),
      fp_front = Fin (Max (set ys)), fp_rear = Fin (Min (set ys))\<rparr>"
    by (simp add: MODEL_FOOTPRINT_def lists js_min_list_Fin js_max_list_Fin)
  ultimately show ?thesis
    by (intro that [of "Min (set xs)" "Max (set xs)" "Max (set ys)" "Min (set ys)"]) simp_all
qed

text \<open>Coordinates of the mounts, with the origin.\<close>

definition mountXs :: "SensorDisplaySetting list \<Rightarrow> jsnum list" where
  "mountXs sensors = 0 # map (pose_x_m \<circ> sd_display_pose) sensors"

definition mountYs :: "SensorDisplaySetting list \<Rightarrow> jsnum list" where
  "mountYs sensors = 0 # map (pose_y_m \<circ> sd_display_pose) sensors"

definition finite_mounts :: "SensorDisplaySetting list \<Rightarrow> bool" where
  "finite_mounts sensors \<longleftrightarrow> list_all isFinite (mountXs sensors @ mountYs sensors)"

lemma finite_extremes:
  assumes "list_all isFinite ns"
  obtains mn mx where "js_min_list (0 # ns) = Fin mn" "js_max_list (0 # ns) = Fin mx" "mn \<le> 0" "0 \<le> mx"
proof -
  obtain g where "map id ns = map (Fin \<circ> g) ns"
  proof (rule finite_numbers_as_map [of ns id])
    show "\<forall>x \<in> set ns. isFinite (id x)" using assms by (simp add: list_all_iff)
  qed
  then have "0 # ns = map Fin (0 # map g ns)" by simp
  moreover have "js_min_list (map Fin (0 # map g ns)) = Fin (Min (set (0 # map g ns)))"
    "js_max_list (map Fin (0 # map g ns)) = Fin (Max (set (0 # map g ns)))"
    by (intro js_min_list_Fin js_max_list_Fin, simp)+
  ultimately show ?thesis
    using that [of "Min (set (0 # map g ns))" "Max (set (0 # map g ns))"] by (metis List.finite_set Max_ge Min_le list.set_intros(1))
qed

lemma positive_limits:
  "js_min_list (1 # filter (\<lambda>v. isFinite v \<and> 0 < v) (map Fin vs)) = Fin (Min (set (1 # filter (\<lambda>v. 0 < v) vs)))"
proof -
  have "1 # filter (\<lambda>v. isFinite v \<and> 0 < v) (map Fin vs) = map Fin (1 # filter (\<lambda>v. 0 < v) vs)"
    by (simp add: filter_map o_def)
  then show ?thesis by (simp only: js_min_list_Fin [of "1 # filter (\<lambda>v. 0 < v) vs"] list.distinct(2) not_False_eq_True)
qed

lemma scaled_limit:
  fixes k :: real
  shows "l < 0 \<Longrightarrow> k \<le> v / l \<Longrightarrow> v \<le> l * k" and "0 < l \<Longrightarrow> k \<le> v / l \<Longrightarrow> l * k \<le> v"
  by (simp_all add: field_simps)

text \<open>
  The drawn truck is fitted to its sensors: for finite mount positions the scale is in the unit
  interval and positive, and on every side that carries a sensor the outline of the truck does not
  reach beyond the outermost mount, so that sensor is never drawn inside the body of the truck.
\<close>

theorem truck_fits_sensors:
  assumes "finite_mounts sensors"
  shows "\<exists>scale. tg_scale (truckDisplayGeometry sensors True) = Fin scale \<and> 0 < scale \<and> scale \<le> 1 \<and>
    (let outline = tg_footprint (truckDisplayGeometry sensors True)
     in (js_min_list (mountXs sensors) < 0 \<longrightarrow> js_min_list (mountXs sensors) \<le> fp_left outline) \<and>
        (0 < js_max_list (mountXs sensors) \<longrightarrow> fp_right outline \<le> js_max_list (mountXs sensors)) \<and>
        (0 < js_max_list (mountYs sensors) \<longrightarrow> fp_front outline \<le> js_max_list (mountYs sensors)) \<and>
        (js_min_list (mountYs sensors) < 0 \<longrightarrow> js_min_list (mountYs sensors) \<le> fp_rear outline))"
proof -
  obtain x0 x1 where x: "js_min_list (mountXs sensors) = Fin x0" "js_max_list (mountXs sensors) = Fin x1" "x0 \<le> 0" "0 \<le> x1"
    using finite_extremes [of "tl (mountXs sensors)"] assms by (auto simp: finite_mounts_def mountXs_def)
  obtain y0 y1 where y: "js_min_list (mountYs sensors) = Fin y0" "js_max_list (mountYs sensors) = Fin y1" "y0 \<le> 0" "0 \<le> y1"
    using finite_extremes [of "tl (mountYs sensors)"] assms by (auto simp: finite_mounts_def mountYs_def)
  obtain l r f b where m: "MODEL_FOOTPRINT = \<lparr>fp_left = Fin l, fp_right = Fin r, fp_front = Fin f, fp_rear = Fin b\<rparr>"
    "l < 0" "0 < r" "0 < f" "b < 0" by (rule model_footprint)
  define limits where "limits = filter (\<lambda>v. 0 < v) [x0 / l, x1 / r, y1 / f, y0 / b]"
  define k where "k = Min (set (1 # limits))"
  have "js_min_list (1 # mountLimits (map sd_display_pose sensors)) = Fin k"
  proof -
    have quotients: "Fin x0 / Fin l = Fin (x0 / l)" "Fin x1 / Fin r = Fin (x1 / r)"
      "Fin y1 / Fin f = Fin (y1 / f)" "Fin y0 / Fin b = Fin (y0 / b)" using m(2-5) by simp_all
    have "mountLimits (map sd_display_pose sensors) =
        filter (\<lambda>v. isFinite v \<and> 0 < v) (map Fin [x0 / l, x1 / r, y1 / f, y0 / b])"
      using x(1,2) y(1,2)
      by (simp only: mountLimits_def mountXs_def mountYs_def map_map m(1) TruckFootprint.simps quotients list.map)
    then show ?thesis by (simp only: positive_limits k_def limits_def)
  qed
  then have geometry: "truckDisplayGeometry sensors True = \<lparr>tg_scale = Fin k, tg_footprint =
      \<lparr>fp_left = Fin (l * k), fp_right = Fin (r * k), fp_front = Fin (f * k), fp_rear = Fin (b * k)\<rparr>\<rparr>"
    by (simp add: truckDisplayGeometry_def Let_def m(1))
  have "k \<in> set (1 # limits)" unfolding k_def by (intro Min_in) simp_all
  moreover have "\<forall>v \<in> set (1 # limits). 0 < v" unfolding limits_def by (simp only: list.set set_filter) auto
  ultimately have "0 < k" by blast
  moreover have least: "k \<le> v" if "v \<in> set (1 # limits)" for v unfolding k_def using that by (intro Min_le) simp_all
  moreover have "x0 \<le> l * k" if "x0 < 0"
    using least [of "x0 / l"] that m(2) by (intro scaled_limit(1)) (simp_all add: limits_def divide_neg_neg)
  moreover have "r * k \<le> x1" if "0 < x1"
    using least [of "x1 / r"] that m(3) by (intro scaled_limit(2)) (simp_all add: limits_def)
  moreover have "f * k \<le> y1" if "0 < y1"
    using least [of "y1 / f"] that m(4) by (intro scaled_limit(2)) (simp_all add: limits_def)
  moreover have "y0 \<le> b * k" if "y0 < 0"
    using least [of "y0 / b"] that m(5) by (intro scaled_limit(1)) (simp_all add: limits_def divide_neg_neg)
  ultimately show ?thesis by (simp add: geometry Let_def x y)
qed

theorem truck_fits_sensors_witness:
  "\<exists>scale. tg_scale (truckDisplayGeometry DEFAULT_SENSORS True) = Fin scale \<and> 0 < scale \<and> scale \<le> 1"
  using truck_fits_sensors [of DEFAULT_SENSORS]
  by (auto simp: finite_mounts_def mountXs_def mountYs_def DEFAULT_SENSORS_def)

end
