(* ===== verification/MappingFrame.thy ===== *)
theory MappingFrame
  imports TerrainMemo TruckMesh LidarFrame SpatialProjection
begin

text \<open>
  The spatial map around the vehicle: \<^verbatim>\<open>frontend/src/spatial/mappingFrame.ts\<close>. Poses and map points have
  been checked finite by the snapshot guard and are read at reals where a loop runs over them.
  \<open>field\<close> stands for the answers of \<^verbatim>\<open>terrainFor\<close> (theory TerrainMemo), \<open>parse\<close> for \<^verbatim>\<open>JSON.parse\<close> and \<open>rnd\<close>
  for the rounding in the angle loop. Arrays of coordinates and of colours that are filled together
  are one list of pairs.
\<close>

type_synonym Height = "ReferenceMap \<Rightarrow> real \<Rightarrow> real \<Rightarrow> TerrainSample"
type_synonym ScanReturn = "ScenePoint \<times> ScenePoint"
type_synonym Pose = "real \<times> real \<times> real"

definition SIMULATED_TRUCK_SIZE :: "real \<times> real \<times> real" where
  "SIMULATED_TRUCK_SIZE = (1.6, 1.65, 3.2)"

definition truckSize :: ScenePoint where
  "truckSize = (case SIMULATED_TRUCK_SIZE of (w, h, l) \<Rightarrow> (Fin w, Fin h, Fin l))"

definition MAPPING_POINT_SPACING_M :: jsnum where
  "MAPPING_POINT_SPACING_M = Fin 0.28"

definition MAPPING_ROAD_POINTS :: nat where
  "MAPPING_ROAD_POINTS = 40000"

datatype MappingEntityKind = MAPPED_VEHICLE | SCANNED_VEHICLE | MAPPED_OBSTACLE | MAPPED_OBJECT

record MappingEntity =
  me_id :: string
  me_kind :: MappingEntityKind
  me_position :: ScenePoint
  me_size :: ScenePoint
  me_yawRad :: jsnum

datatype FrameSource = MEASURED | REFERENCE_SIMULATION | SIMULATED_PREVIEW | WAITING

record MappingFrame =
  mfr_roadPositions :: "ScenePoint list"
  mfr_roadColors :: "ScenePoint list option"
  mfr_roadTransform :: "(ScenePoint \<times> jsnum) option"
  mfr_returnPositions :: "ScenePoint list"
  mfr_returnColors :: "ScenePoint list"
  mfr_paths :: "LidarPath list"
  mfr_entities :: "MappingEntity list"
  mfr_returnCount :: nat
  mfr_roadPointCount :: nat
  mfr_source :: FrameSource
  mfr_egoSize :: ScenePoint
  mfr_measuredCount :: nat

record SpatialPreview =
  pre_points :: "jsnum list"
  pre_entities :: "MappingEntity list"

definition mappingPoint :: "jsnum \<Rightarrow> jsnum \<Rightarrow> jsnum \<Rightarrow> ScenePoint" where
  "mappingPoint x y height = (x, height, - y)"

section \<open>Colours and the preview\<close>

definition mappingHeightColor :: "jsnum \<Rightarrow> jsnum \<Rightarrow> ScenePoint" where
  "mappingHeightColor height forward =
     (let t = js_max 0 (js_min 1 (height / 5 + js_max 0 forward / 85))
      in if t < Fin 0.25 then (Fin 0.32 - t, Fin 0.12 + t * Fin 1.5, 1)
         else if t < Fin 0.5 then (Fin 0.07, Fin 0.5 + (t - Fin 0.25) * 2, 1)
         else if t < Fin 0.75 then ((t - Fin 0.5) * Fin 2.8, 1, 1 - (t - Fin 0.5) * Fin 3.6)
         else (1, 1 - (t - Fin 0.75) * 3, Fin 0.1))"

fun previewReturns :: "jsnum list \<Rightarrow> ScanReturn list" where
  "previewReturns (x # y # z # rest) =
     (if finite_coords [x, y, z] then (mappingPoint x y z, mappingHeightColor z y) # previewReturns rest
      else previewReturns rest)"
| "previewReturns _ = []"

definition previewCloud :: "SpatialPreview \<Rightarrow> ScanReturn list" where
  "previewCloud preview = previewReturns (take 108000 (pre_points preview))"

definition distanceColorStops :: "(real \<times> Coordinate) list" where
  "distanceColorStops =
     [(0, (1, 0.08, 0.1)), (4, (1, 0.34, 0.13)), (9, (1, 0.75, 0.19)), (18, (0.19, 0.85, 0.82)),
      (36, (0.22, 0.42, 1)), (60, (0.2, 0.32, 0.87))]"

text \<open>The stop at or after the distance; after the last stop, the last one.\<close>

definition upperStop :: "real \<Rightarrow> nat" where
  "upperStop distance =
     (let index = length (takeWhile (\<lambda>(range, _). \<not> distance \<le> range) distanceColorStops)
      in if index = 0 then 1 else if index = length distanceColorStops then length distanceColorStops - 1
         else index)"

definition mixChannel :: "real \<Rightarrow> real \<Rightarrow> real \<Rightarrow> real \<Rightarrow> jsnum" where
  "mixChannel strength amount from to = Fin ((from + (to - from) * amount) * strength)"

definition distanceColor :: "real \<Rightarrow> real \<Rightarrow> ScenePoint" where
  "distanceColor distance strength =
     (let upper = upperStop distance; lower = upper - 1;
          (r0, f1, f2, f3) = distanceColorStops ! lower; (r1, t1, t2, t3) = distanceColorStops ! upper;
          amount = clamp ((distance - r0) / (r1 - r0))
      in (mixChannel strength amount f1 t1, mixChannel strength amount f2 t2, mixChannel strength amount f3 t3))"

section \<open>Loops over reals\<close>

text \<open>\<^verbatim>\<open>for (v = start; v <= limit; v += step)\<close> and the same with \<^verbatim>\<open><\<close>, for a positive step.\<close>

definition stepsTo :: "real \<Rightarrow> real \<Rightarrow> real \<Rightarrow> real list" where
  "stepsTo start step limit =
     (if start \<le> limit then map (\<lambda>k. start + real k * step) [0..<Suc (nat \<lfloor>(limit - start) / step\<rfloor>)] else [])"

definition stepsBelow :: "real \<Rightarrow> real \<Rightarrow> real \<Rightarrow> real list" where
  "stepsBelow start step limit = map (\<lambda>k. start + real k * step) [0..<nat \<lceil>(limit - start) / step\<rceil>]"

text \<open>A loop that stops once the budget is reached.\<close>

definition whileRoom :: "nat \<Rightarrow> ('a \<Rightarrow> 'b list \<Rightarrow> 'b list) \<Rightarrow> 'a list \<Rightarrow> 'b list \<Rightarrow> 'b list" where
  "whileRoom budget f xs ps = foldl (\<lambda>ps x. if budget \<le> length ps then ps else f x ps) ps xs"

definition poseOf :: "VehiclePose \<Rightarrow> Pose" where
  "poseOf v = (real_of (vp_x_m v), real_of (vp_y_m v), real_of (vp_heading_deg v))"

definition toLocal :: "Pose \<Rightarrow> real \<Rightarrow> real \<Rightarrow> real \<times> real" where
  "toLocal = (\<lambda>(vx, vy, heading) x y.
     let h = heading * pi / 180; dx = x - vx; dy = y - vy
     in (dx * cos h - dy * sin h, dx * sin h + dy * cos h))"

section \<open>The road network\<close>

definition mappingRoads :: "WorldState \<Rightarrow> MapFeature list" where
  "mappingRoads world =
     (let features = (case ws_reference_map world of Some m \<Rightarrow> rm_features m | None \<Rightarrow> []);
          roads = filter (\<lambda>f. mf_feature_type f = ROAD) features
      in if roads \<noteq> [] then roads
         else case List.find (\<lambda>f. mf_feature_type f = ROUTE \<or> mf_feature_type f = CENTERLINE) features of
           Some route \<Rightarrow> [route]
         | None \<Rightarrow>
             if ws_mode world = SIMULATED then
               (case Option.bind (ws_haul_route world) hr_planned_path of
                  Some path \<Rightarrow>
                    if path \<noteq> []
                    then [\<lparr>mf_feature_id = ''planned-path'', mf_feature_type = ROUTE,
                           mf_geometry_type = POLYLINE, mf_points = path,
                           mf_label = ''Planned path'', mf_properties = []\<rparr>]
                    else []
                | None \<Rightarrow> [])
             else [])"

definition mappingRoadPoint :: "VehiclePoint3D \<Rightarrow> ScenePoint" where
  "mappingRoadPoint local = mappingPoint (v3_x_m local) (v3_y_m local) (Fin 0.025)"

fun mappingEdges :: "VehiclePose \<Rightarrow> (Point2D \<times> Point2D) list \<Rightarrow> ScenePoint list \<Rightarrow> ScenePoint list option" where
  "mappingEdges vehicle [] positions = Some positions"
| "mappingEdges vehicle ((start, end') # edges) positions =
     Option.bind (sampleLoop 12000 mappingRoadPoint start end' vehicle
       (sampleCountOf MAPPING_POINT_SPACING_M start end') 0 positions) (mappingEdges vehicle edges)"

definition mappingClip :: "VehiclePose \<Rightarrow> MapFeature \<Rightarrow> VehiclePoint3D list" where
  "mappingClip vehicle feature =
     (let localPath = map (\<lambda>point. localPoint point vehicle 0) (mf_points feature)
      in if isClosed feature then clipRoad localPath LIDAR_RADIUS_M
         else filter (\<lambda>p. js_hypot (v3_x_m p) (v3_y_m p) \<le> LIDAR_RADIUS_M) localPath)"

text \<open>Where a horizontal line meets the outline, from left to right.\<close>

definition scanIntersections :: "Point list \<Rightarrow> real \<Rightarrow> real list" where
  "scanIntersections points y =
     sort (map (\<lambda>((ax, ay), (bx, by)). ax + (y - ay) * (bx - ax) / (by - ay))
       (filter (\<lambda>((ax, ay), (bx, by)). (y < ay) \<noteq> (y < by)) (polygonEdges points)))"

fun scanPairs :: "real list \<Rightarrow> (real \<times> real) list" where
  "scanPairs (a # b # rest) = (a, b) # scanPairs rest"
| "scanPairs _ = []"

definition scanSpan :: "Pose \<Rightarrow> real \<Rightarrow> real \<times> real \<Rightarrow> ScenePoint list \<Rightarrow> ScenePoint list" where
  "scanSpan pose y = (\<lambda>(a, b) positions.
     let vx = fst pose; minX = of_int \<lceil>max (vx - 54) a / 0.46\<rceil> * 0.46; maxX = min (vx + 54) b
     in whileRoom 12000 (\<lambda>x ps. let (lx, ly) = toLocal pose x y
          in if \<bar>lx\<bar> \<le> 24 \<and> - 10 \<le> ly \<and> ly \<le> 46 then ps @ [mappingPoint (Fin lx) (Fin ly) (Fin 0.025)] else ps)
        (stepsBelow minX 0.46 maxX) positions)"

definition scanLines :: "Pose \<Rightarrow> Point list \<Rightarrow> ScenePoint list \<Rightarrow> ScenePoint list" where
  "scanLines pose points =
     (let vy = fst (snd pose);
          minY = of_int \<lceil>max (vy - 54) (Min (set (map snd points))) / 0.46\<rceil> * 0.46;
          maxY = min (vy + 54) (Max (set (map snd points)))
      in whileRoom 12000 (\<lambda>y ps. foldl (\<lambda>ps pair. scanSpan pose y pair ps) ps
           (scanPairs (scanIntersections points y))) (stepsBelow minY 0.46 maxY))"

fun mappingFeatures ::
    "VehiclePose \<Rightarrow> MapFeature list \<Rightarrow> ScenePoint list \<Rightarrow> LidarPath list \<Rightarrow>
     (ScenePoint list \<times> LidarPath list) option" where
  "mappingFeatures vehicle [] positions paths = Some (positions, paths)"
| "mappingFeatures vehicle (feature # features) positions paths =
     (if length (mf_points feature) < 2 then mappingFeatures vehicle features positions paths
      else Option.bind (mappingEdges vehicle (featureEdges feature) positions) (\<lambda>sampled.
        let clipped = mappingClip vehicle feature;
            scanned = (if isClosed feature \<and> 3 \<le> length clipped
              then scanLines (poseOf vehicle) (featurePoints feature) sampled else sampled);
            paths' = (if 2 \<le> length clipped
              then paths @ [\<lparr>lp_id = mf_feature_id feature,
                lp_positions = concat (map (\<lambda>p. flat (mappingPoint (v3_x_m p) (v3_y_m p) (Fin 0.04))) clipped),
                lp_closed = isClosed feature\<rparr>] else paths)
        in mappingFeatures vehicle features scanned paths'))"

text \<open>Berms: height bands along their edges.\<close>

definition bermStep :: "real \<times> real \<Rightarrow> real \<times> real \<Rightarrow> real \<Rightarrow> real \<Rightarrow> ScenePoint list \<Rightarrow> ScenePoint list" where
  "bermStep = (\<lambda>(sx, sy) (ex, ey) count step ps.
     let t = step / max 1 count; x = sx + (ex - sx) * t; y = sy + (ey - sy) * t
     in if 25 < \<bar>x\<bar> \<or> y < - 10 \<or> 46 < y then ps
        else whileRoom MAPPING_ROAD_POINTS (\<lambda>z ps. ps @ [mappingPoint (Fin x) (Fin y) (Fin z)]) (stepsTo 0.12 0.16 2.4) ps)"

definition bermEdge :: "Pose \<Rightarrow> Point \<times> Point \<Rightarrow> ScenePoint list \<Rightarrow> ScenePoint list" where
  "bermEdge pose = (\<lambda>((ax, ay), (bx, by)) ps.
     let s = toLocal pose ax ay; e = toLocal pose bx by;
         count = of_int \<lceil>hypot (fst e - fst s) (snd e - snd s) / 0.25\<rceil>
     in foldl (\<lambda>ps step. bermStep s e count step ps) ps (stepsTo 0 1 (min count 2000)))"

definition berms :: "Pose \<Rightarrow> MapFeature list \<Rightarrow> ScenePoint list \<Rightarrow> ScenePoint list" where
  "berms pose features positions =
     foldl (\<lambda>ps feature. let points = featurePoints feature
         in foldl (\<lambda>ps edge. bermEdge pose edge ps) ps (zip points (tl points)))
       positions (filter (\<lambda>f. mf_feature_type f = BERM) features)"

definition mappingRoadData :: "WorldState \<Rightarrow> VehiclePose \<Rightarrow> (ScenePoint list \<times> LidarPath list) option" where
  "mappingRoadData world vehicle =
     map_option (\<lambda>(positions, paths).
       (berms (poseOf vehicle) (case ws_reference_map world of Some m \<Rightarrow> rm_features m | None \<Rightarrow> []) positions, paths))
     (mappingFeatures vehicle (mappingRoads world) [] [])"

section \<open>The simulated scan of a graded map\<close>

text \<open>Samples of the truck's mesh: position in the truck and whether it is a wheel.\<close>

type_synonym TruckSample = "real \<times> real \<times> real \<times> bool"

definition triangleSamples :: "bool \<Rightarrow> Coordinate \<Rightarrow> Coordinate \<Rightarrow> Coordinate \<Rightarrow> TruckSample list" where
  "triangleSamples wheel = (\<lambda>(ax, ay, az) (bx, by, bz) (cx, cy, cz).
     let length' = max (max (hypot3 (ax - bx, ay - by, az - bz)) (hypot3 (ax - cx, ay - cy, az - cz)))
           (hypot3 (bx - cx, by - cy, bz - cz));
         steps = nat (max 1 (min 18 \<lceil>length' / 0.3\<rceil>))
     in concat (map (\<lambda>i. map (\<lambda>j.
          let u = real i / real steps; v = real j / real steps; w = 1 - u - v
          in (ax * w + bx * u + cx * v, ay * w + by * u + cy * v, az * w + bz * u + cz * v, wheel))
          [0..<Suc (steps - i)]) [0..<Suc steps]))"

definition surfaceSamples :: "TruckSurface \<Rightarrow> TruckSample list" where
  "surfaceSamples surface =
     (let points = tsf_points surface
      in concat (map (\<lambda>triangle. triangleSamples (startsWith (tsf_part surface) ''wheel'')
           (points ! 0) (points ! triangle) (points ! (triangle + 1))) [1..<length points - 1]))"

definition scannedParts :: "TruckSurface list \<Rightarrow> TruckSurface list" where
  "scannedParts = filter (\<lambda>f. tsf_part f \<notin> {''truck-ore-cargo'', ''truck-solid-core'', ''truck-undercarriage''})"

text \<open>Every n-th sample, for the least n that leaves at most \<open>target\<close> of them.\<close>

definition thinned :: "nat \<Rightarrow> 'a list \<Rightarrow> 'a list" where
  "thinned target xs =
     map snd (filter (\<lambda>(i, _). i mod nat (max 1 \<lceil>real (length xs) / real target\<rceil>) = 0) (zip [0..<length xs] xs))"

definition fitSamples :: "TruckSample list \<Rightarrow> TruckSample list" where
  "fitSamples samples =
     (let xs = set (map fst samples); ys = set (map (fst \<circ> snd) samples); zs = set (map (fst \<circ> snd \<circ> snd) samples);
          body = filter (\<lambda>(x, y, z, wheel). \<not> wheel) samples; wheels = filter (\<lambda>(x, y, z, wheel). wheel) samples;
          (w, h, l) = SIMULATED_TRUCK_SIZE
      in map (\<lambda>(x, y, z, wheel).
           ((x - (Min xs + Max xs) / 2) * w / (Max xs - Min xs),
            (y - (Min ys + Max ys) / 2) * l / (Max ys - Min ys),
            (z - Min zs) * h / (Max zs - Min zs), wheel))
         (thinned 360 body @ thinned 100 wheels))"

definition truckSamples :: "TruckSample list" where
  "truckSamples = fitSamples (concat (map surfaceSamples (scannedParts (buildTruckMesh (Fin 0)))))"

record GradedData =
  gd_returns :: "ScanReturn list"
  gd_egoHeight :: jsnum

definition egoHeight :: "(real \<Rightarrow> real \<Rightarrow> TerrainSample) \<Rightarrow> VehiclePose \<Rightarrow> jsnum" where
  "egoHeight field vehicle =
     (case vp_haul vehicle of Some haul \<Rightarrow> hv_road_elevation_m haul
      | None \<Rightarrow> ts_elevation (field (real_of (vp_x_m vehicle)) (real_of (vp_y_m vehicle))))"

definition emit :: "real \<times> real \<Rightarrow> jsnum \<Rightarrow> ScenePoint \<Rightarrow> ScanReturn" where
  "emit = (\<lambda>(x, y) z color. ((Fin x, z, - Fin y), color))"

definition groundReturn ::
    "(real \<Rightarrow> real \<Rightarrow> TerrainSample) \<Rightarrow> Pose \<Rightarrow> jsnum \<Rightarrow> bool \<Rightarrow> real \<Rightarrow> real \<Rightarrow> ScanReturn list" where
  "groundReturn field pose ego near x y =
     (let (lx, ly) = toLocal pose x y; distance = hypot lx ly; ground = field x y;
          elevation = ts_elevation ground - ego
      in if 27 < \<bar>lx\<bar> \<or> ly < - 12 \<or> 46 < ly \<or> (if near then 10 < distance else distance \<le> 10) then []
         else if Fin 6.5 < elevation then []
         else [emit (lx, ly) elevation (distanceColor distance
           ((if ts_road ground then 0.74 else if Fin 0.15 < ts_face ground then 0.85 else 0.67) *
            (0.86 + 0.14 * grain (x * 0.6) (y * 0.6))))])"

definition sampleGround ::
    "(real \<Rightarrow> real \<Rightarrow> TerrainSample) \<Rightarrow> Pose \<Rightarrow> jsnum \<Rightarrow> real \<Rightarrow> bool \<Rightarrow> ScanReturn list" where
  "sampleGround field pose ego spacing near =
     (let radius = (if near then 12 else 62); (vx, vy, heading) = pose;
          line = (\<lambda>c. stepsTo (of_int \<lfloor>(c - radius) / spacing\<rfloor> * spacing) spacing (c + radius))
      in concat (map (\<lambda>y. concat (map (\<lambda>x. groundReturn field pose ego near x y) (line vx))) (line vy)))"

definition wallStep ::
    "(real \<Rightarrow> real \<Rightarrow> TerrainSample) \<Rightarrow> Pose \<Rightarrow> jsnum \<Rightarrow> Point \<Rightarrow> Point \<Rightarrow> real \<Rightarrow> real \<Rightarrow> ScanReturn list" where
  "wallStep field pose ego = (\<lambda>(ax, ay) (bx, by) steps step.
     let t = step / steps; x = ax + (bx - ax) * t; y = ay + (by - ay) * t;
         (lx, ly) = toLocal pose x y; distance = hypot lx ly; top = ts_elevation (field x y) - ego
     in if 27 < \<bar>lx\<bar> \<or> ly < - 10 \<or> 45 < ly then []
        else if top < - 12 \<or> Fin 6.5 < top - Fin 2.2 then []
        else concat (map (\<lambda>z. if top - Fin z \<le> Fin 6.5 then [emit (lx, ly) (top - Fin z) (distanceColor distance 0.87)] else [])
          (stepsTo 0 (if distance < 12 then 0.2 else 0.34) 2.2)))"

definition wallFeatures :: "MapFeature list \<Rightarrow> MapFeature list" where
  "wallFeatures features =
     filter (\<lambda>f. mf_feature_type f = BERM \<or> cartography f = Some (PropStr ''graded-access'')) features"

definition wallEdges :: "MapFeature \<Rightarrow> (Point \<times> Point) list" where
  "wallEdges f = map (\<lambda>(a, b). (toPoint a, toPoint b)) (featureEdges f)"

definition sampleWalls ::
    "(real \<Rightarrow> real \<Rightarrow> TerrainSample) \<Rightarrow> Pose \<Rightarrow> jsnum \<Rightarrow> MapFeature list \<Rightarrow> ScanReturn list \<Rightarrow> ScanReturn list" where
  "sampleWalls field pose ego features returns =
     foldl (\<lambda>rs f. whileRoom 20000 (\<lambda>(a, b) rs.
         let steps = max 1 (of_int \<lceil>hypot (fst b - fst a) (snd b - snd a) / 0.34\<rceil>)
         in whileRoom 20000 (\<lambda>step rs. rs @ wallStep field pose ego a b steps step) (stepsTo 0 1 steps) rs)
       (wallEdges f) rs) returns (wallFeatures features)"

text \<open>A loose stone in a cell of the grid of 7 m.\<close>

definition stoneReturns ::
    "(real \<Rightarrow> real \<Rightarrow> TerrainSample) \<Rightarrow> Pose \<Rightarrow> jsnum \<Rightarrow> int \<Rightarrow> int \<Rightarrow> ScanReturn list" where
  "stoneReturns field pose ego gx gy =
     (let cx = of_int gx; cy = of_int gy;
          x = (cx + 0.3 + grain (cx + 7) cy * 0.4) * 7; y = (cy + 0.3 + grain cx (cy + 9) * 0.4) * 7;
          (lx, ly) = toLocal pose x y; ground = field x y; height = ts_elevation ground;
          slope = js_max (js_max \<bar>ts_elevation (field (x + 0.5) y) - height\<bar> \<bar>ts_elevation (field (x - 0.5) y) - height\<bar>)
            (js_max \<bar>ts_elevation (field x (y + 0.5)) - height\<bar> \<bar>ts_elevation (field x (y - 0.5)) - height\<bar>);
          size = 0.55 + grain (cx + 11) (cy + 17) * 0.9
      in if grain cx cy < 0.64 then []
         else if 27 < \<bar>lx\<bar> \<or> ly < - 11 \<or> 45 < ly then []
         else if ts_road ground \<or> Fin 0.08 < ts_face ground \<or> Fin 0.18 < slope \<or> ts_edge ground < Fin 1.2 \<or>
           10 < ts_edge ground then []
         else concat (map (\<lambda>row. map (\<lambda>column.
           let angle = real column * pi * 2 / 14; rise = real row / 5;
               radiusAtHeight = size * sin ((0.15 + rise * 0.82) * pi);
               (rx, ry) = toLocal pose (x + cos angle * radiusAtHeight) (y + sin angle * radiusAtHeight * 0.7)
           in emit (rx, ry) (height - ego + Fin (rise * size * 1.1)) (distanceColor (hypot rx ry) 0.78))
           [0..<14]) [0..<6]))"

definition sampleStones :: "(real \<Rightarrow> real \<Rightarrow> TerrainSample) \<Rightarrow> Pose \<Rightarrow> jsnum \<Rightarrow> ScanReturn list" where
  "sampleStones field pose ego =
     (let (vx, vy, heading) = pose
      in concat (map (\<lambda>gy. concat (map (\<lambda>gx. stoneReturns field pose ego gx gy)
           [\<lfloor>(vx - 65) / 7\<rfloor>..\<lceil>(vx + 65) / 7\<rceil>])) [\<lfloor>(vy - 65) / 7\<rfloor>..\<lceil>(vy + 65) / 7\<rceil>]))"

definition rockReturns ::
    "(real \<Rightarrow> real \<Rightarrow> TerrainSample) \<Rightarrow> Pose \<Rightarrow> jsnum \<Rightarrow> HaulRouteState option \<Rightarrow> ScanReturn list" where
  "rockReturns field pose ego route =
     (case Option.bind route hr_obstacle of
        None \<Rightarrow> []
      | Some rock \<Rightarrow>
          let (rx, ry) = toPoint rock; (lx, ly) = toLocal pose rx ry;
              base = ts_elevation (field rx ry) - ego;
              radius = js_max (Fin 0.4) (case route of Some r \<Rightarrow> hr_obstacle_radius_m r | None \<Rightarrow> Fin 0.4)
          in if \<bar>lx\<bar> < 27 \<and> - 10 < ly \<and> ly < 45
             then concat (map (\<lambda>row. map (\<lambda>column.
               let angle = real column * pi * 2 / 24; rise = real row / 9;
                   width = real_of radius * (1 - rise * rise) * (0.88 + grain (real column) (real row) * 0.2)
               in emit (toLocal pose (rx + cos angle * width) (ry + sin angle * width))
                    (base + Fin rise * radius * Fin 1.6) (1, Fin (0.035 + rise * 0.1), Fin 0.08))
               [0..<24]) [0..<10])
             else [])"

text \<open>The dotted mark in front of the vehicle.\<close>

definition guideReturns :: "(real \<Rightarrow> real \<Rightarrow> TerrainSample) \<Rightarrow> Pose \<Rightarrow> jsnum \<Rightarrow> ScanReturn list" where
  "guideReturns field pose ego =
     (let (vx, vy, heading) = pose; h = heading * pi / 180
      in concat (map (\<lambda>row. map (\<lambda>i.
           let lx = of_int i * 0.11; ly = row + 0.23 * (1 - \<bar>of_int i\<bar> / 10)
           in emit (lx, ly) (ts_elevation (field (vx + lx * cos h + ly * sin h) (vy - lx * sin h + ly * cos h)) - ego + Fin 0.09)
                (Fin 0.08, 1, Fin 0.27)) [- 10..10]) [2.8, 4.7, 6.6]))"

definition peerReturns ::
    "(real \<Rightarrow> real \<Rightarrow> TerrainSample) \<Rightarrow> WorldState \<Rightarrow> VehiclePose \<Rightarrow> jsnum \<Rightarrow> VehiclePose \<Rightarrow> ScanReturn list" where
  "peerReturns field world vehicle ego peer =
     (let pose = poseOf vehicle; (px, py, heading) = poseOf peer; (lx, ly) = toLocal pose px py;
          yaw = heading * pi / 180;
          base = (case vp_haul peer of Some haul \<Rightarrow> hv_road_elevation_m haul | None \<Rightarrow> ts_elevation (field px py))
      in if vp_vehicle_id peer = vp_vehicle_id vehicle \<or> vp_mode peer \<noteq> ws_mode world \<or>
           vp_position_confidence peer < Fin 0.5 then []
         else if 31 < \<bar>lx\<bar> \<or> ly < - 16 \<or> 59 < ly then []
         else map (\<lambda>(tx, ty, tz, wheel).
           let (x, y) = toLocal pose (px + tx * cos yaw + ty * sin yaw) (py - tx * sin yaw + ty * cos yaw)
           in (mappingPoint (Fin x) (Fin y) (base - ego + Fin tz),
               if wheel then (Fin 0.35, Fin 0.47, Fin 0.84) else (Fin 0.48, Fin 0.87, 1))) truckSamples)"

definition sampleGradedData :: "Height \<Rightarrow> WorldState \<Rightarrow> ReferenceMap \<Rightarrow> VehiclePose \<Rightarrow> GradedData" where
  "sampleGradedData height world m vehicle =
     (let field = height m; ego = egoHeight field vehicle; pose = poseOf vehicle;
          ground = sampleGround field pose ego 0.72 False @ sampleGround field pose ego 0.27 True;
          walls = sampleWalls field pose ego (rm_features m) ground
      in \<lparr>gd_returns = walls @ sampleStones field pose ego @ rockReturns field pose ego (ws_haul_route world) @
            guideReturns field pose ego @ concat (map (peerReturns field world vehicle ego) (ws_vehicles world)),
          gd_egoHeight = ego\<rparr>)"

section \<open>The frame cache\<close>

text \<open>The obstacle of the route stands for its printed coordinates.\<close>

record GradedFrameCache =
  gc_mapKey :: string
  gc_timestamp :: jsnum
  gc_pose :: VehiclePose
  gc_height :: jsnum
  gc_vehicleCount :: nat
  gc_rock :: "Point2D option"
  gc_data :: GradedData

definition routeRock :: "WorldState \<Rightarrow> Point2D option" where
  "routeRock world = Option.bind (ws_haul_route world) hr_obstacle"

definition headingChange :: "VehiclePose \<Rightarrow> VehiclePose \<Rightarrow> jsnum" where
  "headingChange vehicle anchor = js_rem (vp_heading_deg vehicle - vp_heading_deg anchor + 540) 360 - 180"

definition outdated :: "WorldState \<Rightarrow> ReferenceMap \<Rightarrow> VehiclePose \<Rightarrow> GradedFrameCache \<Rightarrow> bool" where
  "outdated world m vehicle cached \<longleftrightarrow>
     (let age = ws_generated_at_ms world - gc_timestamp cached;
          moved = js_hypot (vp_x_m vehicle - vp_x_m (gc_pose cached)) (vp_y_m vehicle - vp_y_m (gc_pose cached))
      in gc_mapKey cached \<noteq> terrainKey m \<or> age < 0 \<or> 350 \<le> age \<or> Fin 1.2 \<le> moved \<or>
         9 \<le> \<bar>headingChange vehicle (gc_pose cached)\<bar> \<or>
         gc_vehicleCount cached \<noteq> length (ws_vehicles world) \<or> gc_rock cached \<noteq> routeRock world)"

definition freshGradedFrame :: "Height \<Rightarrow> WorldState \<Rightarrow> ReferenceMap \<Rightarrow> VehiclePose \<Rightarrow> GradedFrameCache" where
  "freshGradedFrame height world m vehicle =
     (let data = sampleGradedData height world m vehicle
      in \<lparr>gc_mapKey = terrainKey m, gc_timestamp = ws_generated_at_ms world, gc_pose = vehicle,
          gc_height = gd_egoHeight data, gc_vehicleCount = length (ws_vehicles world), gc_rock = routeRock world,
          gc_data = data\<rparr>)"

text \<open>Where the anchor's scan is drawn for the current pose: a shift and a turn.\<close>

definition anchorTransform :: "VehiclePose \<Rightarrow> VehiclePose \<Rightarrow> jsnum \<Rightarrow> jsnum \<Rightarrow> ScenePoint \<times> jsnum" where
  "anchorTransform vehicle anchor anchorHeight height =
     (let yawRad = (vp_heading_deg vehicle - vp_heading_deg anchor) * js_pi / 180;
          heading = vp_heading_deg vehicle * js_pi / 180;
          dx = vp_x_m anchor - vp_x_m vehicle; dy = vp_y_m anchor - vp_y_m vehicle;
          x = dx * js_cos heading - dy * js_sin heading; y = dx * js_sin heading + dy * js_cos heading
      in ((x, anchorHeight - height, - y), yawRad))"

definition buildGradedData ::
    "Height \<Rightarrow> WorldState \<Rightarrow> ReferenceMap \<Rightarrow> VehiclePose \<Rightarrow> GradedFrameCache option \<Rightarrow>
     (GradedData \<times> ScenePoint \<times> jsnum) \<times> GradedFrameCache" where
  "buildGradedData height world m vehicle cache =
     (let anchor = (case cache of
            Some cached \<Rightarrow> if outdated world m vehicle cached then freshGradedFrame height world m vehicle else cached
          | None \<Rightarrow> freshGradedFrame height world m vehicle)
      in ((gc_data anchor, anchorTransform vehicle (gc_pose anchor) (gc_height anchor) (egoHeight (height m) vehicle)),
          anchor))"

section \<open>Entities\<close>

definition mappingEntitySize :: "string \<Rightarrow> ScenePoint" where
  "mappingEntitySize objectType =
     (let type = toLowerCase objectType
      in if str_includes type ''truck'' \<or> str_includes type ''vehicle'' then truckSize
         else if str_includes type ''person'' then (Fin 0.8, Fin 1.9, Fin 0.8)
         else if str_includes type ''rock'' \<or> str_includes type ''obstacle'' then (Fin 1.4, Fin 1.3, Fin 1.4)
         else (Fin 1.8, Fin 1.8, Fin 1.8))"

text \<open>A map with graded roads that is shown simulated.\<close>

definition gradedMap :: "(string \<Rightarrow> jsval option) \<Rightarrow> WorldState \<Rightarrow> ReferenceMap option" where
  "gradedMap parse world =
     (case ws_reference_map world of
        Some m \<Rightarrow> if gradedRoads parse (rm_features m) \<noteq> [] then Some m else None
      | None \<Rightarrow> None)"

definition roadElevation :: "VehiclePose \<Rightarrow> jsnum" where
  "roadElevation v = (case vp_haul v of Some haul \<Rightarrow> hv_road_elevation_m haul | None \<Rightarrow> 0)"

definition mappedPeer :: "(string \<Rightarrow> jsval option) \<Rightarrow> WorldState \<Rightarrow> VehiclePose \<Rightarrow> VehiclePose \<Rightarrow> bool" where
  "mappedPeer parse world vehicle peer \<longleftrightarrow>
     (let local = peerPoint vehicle peer;
          scanned = (ws_mode world = SIMULATED \<and> gradedMap parse world \<noteq> None)
      in \<not> (vp_vehicle_id peer = vp_vehicle_id vehicle \<or> vp_position_confidence peer < Fin 0.5 \<or>
            vp_mode peer \<noteq> ws_mode world) \<and>
         \<not> beyondRadius local \<and>
         \<not> (scanned \<and> (28 < \<bar>v3_x_m local\<bar> \<or> v3_y_m local < - 12 \<or> 46 < v3_y_m local)))"

definition mappingVehicle ::
    "(string \<Rightarrow> jsval option) \<Rightarrow> (real \<Rightarrow> real) \<Rightarrow> WorldState \<Rightarrow> VehiclePose \<Rightarrow> VehiclePose \<Rightarrow> MappingEntity option" where
  "mappingVehicle parse rnd world vehicle peer =
     (let local = peerPoint vehicle peer; (w, h, l) = truckSize;
          scanned = (ws_mode world = SIMULATED \<and> gradedMap parse world \<noteq> None)
      in map_option (\<lambda>yaw. \<lparr>me_id = ''vehicle:'' @ vp_vehicle_id peer,
           me_kind = (if scanned then SCANNED_VEHICLE else MAPPED_VEHICLE),
           me_position = mappingPoint (v3_x_m local) (v3_y_m local)
             (h / 2 + roadElevation peer - roadElevation vehicle),
           me_size = truckSize, me_yawRad = yaw\<rparr>)
         (normalizeAngleRadians rnd ((vp_heading_deg peer - vp_heading_deg vehicle) * js_pi / 180)))"

definition staleObservation :: "WorldState \<Rightarrow> jsnum \<Rightarrow> bool" where
  "staleObservation world timestamp \<longleftrightarrow> 2000 < ws_generated_at_ms world - timestamp"

definition mappingObjects :: "WorldState \<Rightarrow> VehiclePose \<Rightarrow> MappingEntity list" where
  "mappingObjects world vehicle =
     concat (map (\<lambda>obj.
       let local = localPoint \<lparr>pt_x_m = lo_x_m obj, pt_y_m = lo_y_m obj\<rparr> vehicle 0;
           size = mappingEntitySize (lo_object_type obj)
       in if lo_confidence obj < Fin 0.5 \<or> lo_mode obj \<noteq> ws_mode world \<or>
            staleObservation world (lo_timestamp_ms obj) \<or> beyondRadius local then []
          else [\<lparr>me_id = ''object:'' @ lo_object_id obj, me_kind = MAPPED_OBJECT,
                 me_position = mappingPoint (v3_x_m local) (v3_y_m local) (fst (snd size) / 2),
                 me_size = size, me_yawRad = 0\<rparr>]) (ws_live_objects world))"

definition mappingRadar :: "WorldState \<Rightarrow> MappingEntity list" where
  "mappingRadar world =
     concat (map (\<lambda>detection.
       let bearing = ro_bearing_deg detection * js_pi / 180;
           x = js_sin bearing * ro_range_m detection;
           y = js_cos bearing * ro_range_m detection
       in if ro_confidence detection < Fin 0.5 \<or> LIDAR_RADIUS_M < ro_range_m detection \<or>
            ro_mode detection \<noteq> ws_mode world \<or> staleObservation world (ro_timestamp_ms detection) then []
          else [\<lparr>me_id = ''radar:'' @ ro_detection_id detection, me_kind = MAPPED_OBJECT,
                 me_position = mappingPoint x y 1, me_size = (Fin 1.8, 2, Fin 1.8), me_yawRad = 0\<rparr>])
       (ws_radar_objects world))"

definition mappingObstacle :: "(string \<Rightarrow> jsval option) \<Rightarrow> WorldState \<Rightarrow> VehiclePose \<Rightarrow> MappingEntity list" where
  "mappingObstacle parse world vehicle =
     (case ws_haul_route world of
        Some route \<Rightarrow>
          (case (if ws_mode world = SIMULATED \<and> hr_obstacle_detected route = Some True then hr_obstacle route else None) of
             Some obstacle \<Rightarrow>
               let local = localPoint obstacle vehicle 0;
                   radius = js_max (Fin 0.3) (hr_obstacle_radius_m route)
               in if gradedMap parse world = None \<and> js_hypot (v3_x_m local) (v3_y_m local) \<le> LIDAR_RADIUS_M
                  then [\<lparr>me_id = ''haul-obstacle'', me_kind = MAPPED_OBSTACLE,
                         me_position = mappingPoint (v3_x_m local) (v3_y_m local) radius,
                         me_size = (radius * 2, radius * 2, radius * 2), me_yawRad = 0\<rparr>]
                  else []
           | None \<Rightarrow> [])
      | None \<Rightarrow> [])"

definition finiteMapping :: "MappingEntity \<Rightarrow> bool" where
  "finiteMapping entity \<longleftrightarrow>
     finite_coords (flat (me_position entity) @ flat (me_size entity) @ [me_yawRad entity])"

definition mappingEntities ::
    "(string \<Rightarrow> jsval option) \<Rightarrow> (real \<Rightarrow> real) \<Rightarrow> WorldState \<Rightarrow> VehiclePose \<Rightarrow> MappingEntity list option" where
  "mappingEntities parse rnd world vehicle =
     map_option (\<lambda>peers. filter finiteMapping
       (peers @ mappingObjects world vehicle @ mappingRadar world @ mappingObstacle parse world vehicle))
     (those (map (mappingVehicle parse rnd world vehicle) (filter (mappedPeer parse world vehicle) (ws_vehicles world))))"

section \<open>The frame\<close>

text \<open>Road positions with colours, paths and the transform of a cached scan.\<close>

record RoadData =
  rd_positions :: "ScenePoint list"
  rd_colors :: "ScenePoint list option"
  rd_paths :: "LidarPath list"
  rd_transform :: "(ScenePoint \<times> jsnum) option"

definition frameRoad ::
    "(string \<Rightarrow> jsval option) \<Rightarrow> Height \<Rightarrow> WorldState \<Rightarrow> VehiclePose \<Rightarrow> bool \<Rightarrow> GradedFrameCache option \<Rightarrow>
     (RoadData \<times> GradedFrameCache option) option" where
  "frameRoad parse height world vehicle online cache =
     (if online \<and> ws_mode world = SIMULATED \<and> Fin 0.5 \<le> vp_position_confidence vehicle then
        (case gradedMap parse world of
           Some m \<Rightarrow>
             let ((data, transform), cache') = buildGradedData height world m vehicle cache
             in Some (\<lparr>rd_positions = map fst (gd_returns data), rd_colors = Some (map snd (gd_returns data)),
                  rd_paths = [], rd_transform = Some transform\<rparr>, Some cache')
         | None \<Rightarrow>
             map_option (\<lambda>(positions, paths).
               (\<lparr>rd_positions = positions, rd_colors = None, rd_paths = paths, rd_transform = None\<rparr>, cache))
             (mappingRoadData world vehicle))
      else Some (\<lparr>rd_positions = [], rd_colors = None, rd_paths = [], rd_transform = None\<rparr>, cache))"

definition measuredReturns :: "WorldState \<Rightarrow> VehiclePose \<Rightarrow> SensorDisplaySetting list \<Rightarrow> bool \<Rightarrow> ScanReturn list" where
  "measuredReturns world vehicle sensors online =
     concat (map (\<lambda>point.
       let local = worldPointToVehicle point vehicle;
           position = mappingPoint (v3_x_m local) (v3_y_m local) (Fin 0.04)
       in if finite_coords (flat position) then [(position, (Fin 0.18, Fin 0.88, 1))] else [])
       (availableSpatialPoints (ws_spatial_points world) (ws_sensor_health world) online
          (ws_generated_at_ms world) vehicle LIDAR_RADIUS_M (Some sensors)))"

definition egoOutline :: "SensorDisplaySetting list \<Rightarrow> ScenePoint" where
  "egoOutline sensors =
     (let footprint = tg_footprint (truckDisplayGeometry sensors True)
      in (fp_right footprint - fp_left footprint, Fin 0.45, fp_front footprint - fp_rear footprint))"

definition buildMappingFrame ::
    "(string \<Rightarrow> jsval option) \<Rightarrow> (real \<Rightarrow> real) \<Rightarrow> Height \<Rightarrow> WorldState \<Rightarrow> VehiclePose \<Rightarrow>
     SensorDisplaySetting list \<Rightarrow> bool \<Rightarrow> SpatialPreview option \<Rightarrow> GradedFrameCache option \<Rightarrow>
     (MappingFrame \<times> GradedFrameCache option) option" where
  "buildMappingFrame parse rnd height world vehicle sensors online preview cache =
     Option.bind (frameRoad parse height world vehicle online cache) (\<lambda>(road, cache').
       let measured = measuredReturns world vehicle sensors online;
           shown = (if measured = [] \<and> rd_positions road = [] \<and> ws_mode world \<noteq> REPLAY then preview else None);
           cloud = (case shown of Some p \<Rightarrow> previewCloud p | None \<Rightarrow> measured);
           source = (if shown \<noteq> None then SIMULATED_PREVIEW
             else if rd_positions road \<noteq> [] then REFERENCE_SIMULATION
             else if measured \<noteq> [] then MEASURED else WAITING);
           entities = (case shown of
               Some p \<Rightarrow> Some (pre_entities p)
             | None \<Rightarrow> if online \<and> Fin 0.5 \<le> vp_position_confidence vehicle
                 then mappingEntities parse rnd world vehicle else Some [])
       in map_option (\<lambda>entities.
            (\<lparr>mfr_roadPositions = rd_positions road, mfr_roadColors = rd_colors road,
              mfr_roadTransform = rd_transform road, mfr_returnPositions = map fst cloud,
              mfr_returnColors = map snd cloud, mfr_paths = rd_paths road, mfr_entities = entities,
              mfr_returnCount = length cloud, mfr_roadPointCount = length (rd_positions road),
              mfr_source = source,
              mfr_egoSize = (if source = MEASURED \<or> source = WAITING then egoOutline sensors else truckSize),
              mfr_measuredCount = length measured\<rparr>, cache')) entities)"

section \<open>The frame is built, and keeps its sources apart\<close>

lemma whileRoom_inv:
  assumes "\<And>x ps. I ps \<Longrightarrow> length ps < budget \<Longrightarrow> I (f x ps)"
  shows "I ps \<Longrightarrow> I (whileRoom budget f xs ps)"
  using assms by (induction xs arbitrary: ps) (simp_all add: whileRoom_def)

lemma foldl_inv: "(\<And>x s. I s \<Longrightarrow> I (f s x)) \<Longrightarrow> I s \<Longrightarrow> I (foldl f s xs)"
  by (induction xs arbitrary: s) simp_all

lemma places_mappingRoadPoint: "places mappingRoadPoint"
  by (simp add: places_def mappingRoadPoint_def mappingPoint_def)

lemma window_in_radius:
  assumes "\<bar>lx\<bar> \<le> 24" "- 10 \<le> ly" "ly \<le> 46"
  shows "\<not> LIDAR_RADIUS_M < js_hypot (Fin lx) (- Fin ly)"
proof -
  have "sqrt (lx\<^sup>2 + ly\<^sup>2) \<le> \<bar>lx\<bar> + \<bar>ly\<bar>" by (rule sqrt_sum_squares_le_sum_abs)
  then have "sqrt (lx\<^sup>2 + ly\<^sup>2) \<le> 80" using assms by linarith
  then show ?thesis by (simp add: LIDAR_RADIUS_M_def)
qed

lemma scanSpan_ok: "roads_ok 12000 ps \<Longrightarrow> roads_ok 12000 (scanSpan pose y pair ps)"
  unfolding scanSpan_def
  by (cases pair, simp only: prod.case Let_def, erule whileRoom_inv [rotated])
    (use window_in_radius in \<open>auto simp: roads_ok_def mappingPoint_def split: prod.splits\<close>)

lemma scanLines_ok: "roads_ok 12000 ps \<Longrightarrow> roads_ok 12000 (scanLines pose points ps)"
  unfolding scanLines_def Let_def
  by (erule whileRoom_inv [rotated]) (auto intro!: foldl_inv [of "roads_ok 12000"] scanSpan_ok)

lemma mappingEdges_returns:
  "roads_ok 12000 positions \<Longrightarrow>
   \<exists>positions'. mappingEdges vehicle edges positions = Some positions' \<and> roads_ok 12000 positions'"
proof (induction edges arbitrary: positions)
  case (Cons e edges)
  obtain start end' where e: "e = (start, end')" by (cases e)
  obtain p where "sampleLoop 12000 mappingRoadPoint start end' vehicle
      (sampleCountOf MAPPING_POINT_SPACING_M start end') 0 positions = Some p" "roads_ok 12000 p"
    using sampleLoop_returns [OF places_mappingRoadPoint _ Cons.prems, of "0.28"]
    by (force simp: MAPPING_POINT_SPACING_M_def)
  with Cons.IH [of p] show ?case by (simp add: e)
qed simp

lemma mappingFeatures_returns:
  "roads_ok 12000 positions \<Longrightarrow> mappingFeatures vehicle features positions paths \<noteq> None"
proof (induction features arbitrary: positions paths)
  case (Cons feature features)
  obtain p where "mappingEdges vehicle (featureEdges feature) positions = Some p" "roads_ok 12000 p"
    using mappingEdges_returns [OF Cons.prems] by blast
  with Cons scanLines_ok show ?case by (simp add: Let_def)
qed simp

lemma frameRoad_returns: "\<exists>road cache'. frameRoad parse height world vehicle online cache = Some (road, cache')"
proof -
  have "mappingRoadData world vehicle \<noteq> None"
    using mappingFeatures_returns [of "[]" vehicle "mappingRoads world" "[]"]
    by (simp add: mappingRoadData_def roads_ok_def)
  then show ?thesis
    by (auto simp: frameRoad_def split: option.splits prod.splits)
qed

lemma frameRoad_context:
  "\<lbrakk>frameRoad parse height world vehicle online cache = Some (road, cache');
    \<not> (online \<and> ws_mode world = SIMULATED \<and> Fin 0.5 \<le> vp_position_confidence vehicle)\<rbrakk> \<Longrightarrow> rd_positions road = []"
  by (auto simp: frameRoad_def)

lemma mappingEntities_returns:
  assumes "rounds_within rnd bound err" "pi + 1 \<le> bound"
    and "headings_below (20 * bound) (vehicle # ws_vehicles world)"
  shows "\<exists>entities. mappingEntities parse rnd world vehicle = Some entities"
proof -
  have "mappingVehicle parse rnd world vehicle peer \<noteq> None" if "peer \<in> set (ws_vehicles world)" for peer
  proof -
    have "vehicleEntity rnd vehicle peer \<noteq> None"
      by (rule vehicleEntity_returns [OF assms(1,2)])
        (use assms(3) that in \<open>auto simp: headings_below_def list_all_iff\<close>)
    then show ?thesis by (auto simp: vehicleEntity_def mappingVehicle_def Let_def split: prod.split)
  qed
  then have "list_all (\<lambda>x. x \<noteq> None)
      (map (mappingVehicle parse rnd world vehicle) (filter (mappedPeer parse world vehicle) (ws_vehicles world)))"
    by (auto simp: list_all_iff)
  from those_total [OF this] show ?thesis by (auto simp: mappingEntities_def)
qed

lemma measured_offline: "measuredReturns world vehicle sensors False = []"
  by (simp add: measuredReturns_def availableSpatialPoints_def)

text \<open>What the source shown with a frame says of its content.\<close>

definition source_honest ::
    "WorldState \<Rightarrow> VehiclePose \<Rightarrow> SensorDisplaySetting list \<Rightarrow> bool \<Rightarrow> MappingFrame \<Rightarrow> bool" where
  "source_honest world vehicle sensors online frame \<longleftrightarrow>
     (case mfr_source frame of
        SIMULATED_PREVIEW \<Rightarrow> mfr_measuredCount frame = 0 \<and> mfr_roadPositions frame = [] \<and> ws_mode world \<noteq> REPLAY
      | REFERENCE_SIMULATION \<Rightarrow> mfr_roadPositions frame \<noteq> [] \<and> online \<and> ws_mode world = SIMULATED \<and>
          zip (mfr_returnPositions frame) (mfr_returnColors frame) = measuredReturns world vehicle sensors online
      | MEASURED \<Rightarrow> mfr_roadPositions frame = [] \<and> online \<and> 0 < mfr_returnCount frame \<and>
          zip (mfr_returnPositions frame) (mfr_returnColors frame) = measuredReturns world vehicle sensors online
      | WAITING \<Rightarrow> mfr_roadPositions frame = [] \<and> mfr_returnPositions frame = [])"



section \<open>The cached scan is drawn where it belongs\<close>

definition finite_pose :: "VehiclePose \<Rightarrow> bool" where
  "finite_pose v \<longleftrightarrow> isFinite (vp_x_m v) \<and> isFinite (vp_y_m v) \<and> isFinite (vp_heading_deg v)"

text \<open>A turn about the vertical axis of the scene, then a shift.\<close>

definition turn_and_shift :: "ScenePoint \<times> jsnum \<Rightarrow> ScenePoint \<Rightarrow> ScenePoint" where
  "turn_and_shift = (\<lambda>((sx, sy, sz), yaw) (x, y, z).
     (sx + (x * js_cos yaw + z * js_sin yaw), sy + y, sz + (z * js_cos yaw - x * js_sin yaw)))"

lemma angle_difference:
  "g * pi / 180 = h * pi / 180 + (g - h) * pi / 180" for g h :: real
  by (simp add: field_simps)

text \<open>
  Reusing a scan is exact: a point of the terrain that was scanned in the frame of an older pose
  and is drawn with the transform computed for the current pose appears exactly where a scan from the
  current pose puts it, at the height above the current road level.
\<close>

theorem cached_scan_in_place:
  assumes "finite_pose vehicle" and "finite_pose anchor"
  shows "turn_and_shift (anchorTransform vehicle anchor (Fin anchorHeight) (Fin height))
       (fst (emit (toLocal (poseOf anchor) x y) (Fin (z - anchorHeight)) color)) =
     fst (emit (toLocal (poseOf vehicle) x y) (Fin (z - height)) color)"
proof -
  obtain vx vy g where v: "vp_x_m vehicle = Fin vx" "vp_y_m vehicle = Fin vy" "vp_heading_deg vehicle = Fin g"
    using assms(1) by (auto simp: finite_pose_def isFinite_iff)
  obtain ax ay h where a: "vp_x_m anchor = Fin ax" "vp_y_m anchor = Fin ay" "vp_heading_deg anchor = Fin h"
    using assms(2) by (auto simp: finite_pose_def isFinite_iff)
  define p q where "p = h * pi / 180" and "q = (g - h) * pi / 180"
  have g: "g * pi / 180 = p + q" unfolding p_def q_def by (rule angle_difference)
  show ?thesis
    by (simp add: turn_and_shift_def anchorTransform_def emit_def toLocal_def poseOf_def v a real_of_def Let_def
        g cos_add sin_add flip: p_def q_def) (simp add: algebra_simps)
qed

definition turned :: "real \<Rightarrow> real \<Rightarrow> real \<Rightarrow> VehiclePose" where
  "turned x y heading = defaultVehicle\<lparr>vp_x_m := Fin x, vp_y_m := Fin y, vp_heading_deg := Fin heading\<rparr>"

theorem cached_scan_in_place_witness:
  "turn_and_shift (anchorTransform (turned 1 2 5) (turned 0 2 0) (Fin 8) (Fin 9))
       (fst (emit (toLocal (poseOf (turned 0 2 0)) 3 4) (Fin (8.5 - 8)) (0, 0, 0))) =
     fst (emit (toLocal (poseOf (turned 1 2 5)) 3 4) (Fin (8.5 - 9)) (0, 0, 0))"
  by (rule cached_scan_in_place) (simp_all add: finite_pose_def turned_def)

section \<open>A cached scan is recent\<close>

type_synonym ScanCall = "WorldState \<times> ReferenceMap \<times> VehiclePose"

text \<open>The calls of one view, from a cache on.\<close>

fun gradedRun :: "Height \<Rightarrow> ScanCall list \<Rightarrow> GradedFrameCache option \<Rightarrow> GradedData list" where
  "gradedRun height [] cache = []"
| "gradedRun height ((world, m, vehicle) # calls) cache =
     (let ((data, _), cache') = buildGradedData height world m vehicle cache
      in data # gradedRun height calls (Some cache'))"

definition finite_call :: "ScanCall \<Rightarrow> bool" where
  "finite_call = (\<lambda>(world, m, vehicle). finite_pose vehicle \<and> isFinite (ws_generated_at_ms world))"

text \<open>The specification: how far an older call may be from a current one to stand in for it.\<close>

definition stands_in :: "ScanCall \<Rightarrow> ScanCall \<Rightarrow> bool" where
  "stands_in = (\<lambda>(w0, m0, v0) (w, m, v).
     let age = real_of (ws_generated_at_ms w) - real_of (ws_generated_at_ms w0);
         (x0, y0, h0) = poseOf v0; (x, y, h) = poseOf v
     in terrainKey m0 = terrainKey m \<and> 0 \<le> age \<and> age < 350 \<and> hypot (x - x0) (y - y0) < 1.2 \<and>
        (\<exists>k. \<bar>h - h0 - 360 * of_int k\<bar> < 9) \<and>
        length (ws_vehicles w0) = length (ws_vehicles w) \<and> routeRock w0 = routeRock w)"

definition scan_of :: "Height \<Rightarrow> ScanCall \<Rightarrow> GradedFrameCache" where
  "scan_of height = (\<lambda>(world, m, vehicle). freshGradedFrame height world m vehicle)"

lemma stands_in_refl: "finite_call c \<Longrightarrow> stands_in c c"
  by (cases c) (auto simp: stands_in_def poseOf_def hypot_def Let_def intro!: exI [of _ 0])

lemma kept_stands_in:
  assumes "finite_call (w0, m0, v0)" "finite_call (w, m, v)" "\<not> outdated w m v (scan_of height (w0, m0, v0))"
  shows "stands_in (w0, m0, v0) (w, m, v)"
proof -
  obtain t0 x0 y0 h0 where c0: "ws_generated_at_ms w0 = Fin t0" "vp_x_m v0 = Fin x0" "vp_y_m v0 = Fin y0"
    "vp_heading_deg v0 = Fin h0" using assms(1) by (auto simp: finite_call_def finite_pose_def isFinite_iff)
  obtain t x y h where c: "ws_generated_at_ms w = Fin t" "vp_x_m v = Fin x" "vp_y_m v = Fin y"
    "vp_heading_deg v = Fin h" using assms(2) by (auto simp: finite_call_def finite_pose_def isFinite_iff)
  obtain r k where r: "js_rem (Fin (h - h0 + 540)) 360 = Fin r" "h - h0 + 540 = r + 360 * of_int k"
    using js_rem_360 [of "h - h0 + 540"] by blast
  have "headingChange v v0 = Fin (r - 180)" using r(1) by (simp add: headingChange_def c c0 del: js_rem.simps)
  then have "\<bar>r - 180\<bar> < 9"
    using assms(3) by (simp add: outdated_def scan_of_def freshGradedFrame_def Let_def)
  then have "\<bar>h - h0 - 360 * of_int (k - 1)\<bar> < 9" using r(2) by simp
  then have "\<exists>k. \<bar>h - h0 - 360 * of_int k\<bar> < 9" by blast
  moreover have "0 \<le> t - t0" "t - t0 < 350" "sqrt ((x - x0)\<^sup>2 + (y - y0)\<^sup>2) < 1.2"
    "terrainKey m0 = terrainKey m" "length (ws_vehicles w0) = length (ws_vehicles w)" "routeRock w0 = routeRock w"
    using assms(3) by (simp_all add: outdated_def scan_of_def freshGradedFrame_def c c0 Let_def)
  ultimately show ?thesis
    by (simp add: stands_in_def poseOf_def real_of_def c c0 hypot_def Let_def)
qed

lemma gradedRun_recent:
  assumes "\<forall>c \<in> past. finite_call c" "list_all finite_call calls"
    and "cache = None \<or> (\<exists>c \<in> past. cache = Some (scan_of height c))"
  shows "list_all2 (\<lambda>c data. \<exists>c0 \<in> past \<union> set calls. stands_in c0 c \<and> data = gc_data (scan_of height c0))
    calls (gradedRun height calls cache)"
  using assms
proof (induction calls arbitrary: past cache)
  case (Cons c calls)
  obtain w m v where c: "c = (w, m, v)" by (cases c)
  define anchor where "anchor = snd (buildGradedData height w m v cache)"
  obtain c0 where c0: "c0 \<in> insert c past" "anchor = scan_of height c0" "stands_in c0 c"
  proof (cases "\<exists>cached. cache = Some cached \<and> \<not> outdated w m v cached")
    case True
    then obtain c0 where "c0 \<in> past" "cache = Some (scan_of height c0)" "\<not> outdated w m v (scan_of height c0)"
      using Cons.prems(3) by auto
    moreover have "stands_in c0 c"
      using kept_stands_in [of "fst c0" "fst (snd c0)" "snd (snd c0)" w m v height] calculation Cons.prems(1,2) c by auto
    ultimately show ?thesis by (intro that [of c0]) (auto simp: anchor_def buildGradedData_def Let_def)
  next
    case False
    then have "anchor = scan_of height c"
      by (auto simp: anchor_def buildGradedData_def scan_of_def c Let_def split: option.split)
    then show ?thesis using stands_in_refl [of c] Cons.prems(2) by (intro that [of c]) auto
  qed
  have run: "gradedRun height (c # calls) cache = gc_data anchor # gradedRun height calls (Some anchor)"
    by (simp add: c anchor_def buildGradedData_def Let_def)
  have "list_all2 (\<lambda>c1 data. \<exists>c0 \<in> insert c past \<union> set calls. stands_in c0 c1 \<and> data = gc_data (scan_of height c0))
      calls (gradedRun height calls (Some anchor))"
    using Cons.IH [of "insert c past" "Some anchor"] Cons.prems(1,2) c0(1,2) by auto
  then have "list_all2 (\<lambda>c1 data. \<exists>c0 \<in> past \<union> set (c # calls). stands_in c0 c1 \<and> data = gc_data (scan_of height c0))
      calls (gradedRun height calls (Some anchor))"
    by (rule list_all2_mono) auto
  with c0 show ?case unfolding run by (auto simp: list_all2_Cons)
qed simp

text \<open>
  The frame cache never shows a scan that is out of date: in every sequence of frames with finite
  poses and times, from an empty cache, the scan of each frame is one that was taken for a frame of
  the sequence on the same map, less than 350 ms old, from a pose less than 1.2 m and 9 degrees (full
  turns aside) away, with as many vehicles and the same obstacle.
\<close>

theorem graded_frames_recent:
  assumes "list_all finite_call calls"
  shows "list_all2 (\<lambda>c data. \<exists>c0 \<in> set calls. stands_in c0 c \<and>
      data = (case c0 of (world, m, vehicle) \<Rightarrow> sampleGradedData height world m vehicle))
    calls (gradedRun height calls None)"
proof -
  have "gc_data (scan_of height c0) = (case c0 of (world, m, vehicle) \<Rightarrow> sampleGradedData height world m vehicle)" for c0
    by (cases c0) (simp add: scan_of_def freshGradedFrame_def Let_def)
  then show ?thesis using gradedRun_recent [of "{}" calls None height] assms by simp
qed

theorem graded_frames_recent_witness:
  "list_all2 (\<lambda>c data. \<exists>c0 \<in> set [(sampleWorld, sampleMap ''a'', turned 0 2 0), (sampleWorld, sampleMap ''a'', turned 1 2 5)].
      stands_in c0 c \<and> data = (case c0 of (world, m, vehicle) \<Rightarrow>
        sampleGradedData (\<lambda>m. terrainSample sampleParse (rm_features m)) world m vehicle))
    [(sampleWorld, sampleMap ''a'', turned 0 2 0), (sampleWorld, sampleMap ''a'', turned 1 2 5)]
    (gradedRun (\<lambda>m. terrainSample sampleParse (rm_features m))
      [(sampleWorld, sampleMap ''a'', turned 0 2 0), (sampleWorld, sampleMap ''a'', turned 1 2 5)] None)"
  by (rule graded_frames_recent) (simp add: finite_call_def finite_pose_def turned_def sampleWorld_def)

section \<open>Colours and budgets\<close>

lemma convex_unit:
  fixes a b t :: real
  assumes "0 \<le> t" "t \<le> 1" "0 \<le> a" "a \<le> 1" "0 \<le> b" "b \<le> 1"
  shows "0 \<le> a + (b - a) * t" "a + (b - a) * t \<le> 1"
  using convex_range [OF assms(1,2), of a "b - a"] assms(3-6) by (auto simp: mult.commute)

lemma mixChannel_range:
  assumes "0 \<le> s" "s \<le> 1" "0 \<le> t" "t \<le> 1" "0 \<le> a" "a \<le> 1" "0 \<le> b" "b \<le> 1"
  shows "0 \<le> mixChannel s t a b \<and> mixChannel s t a b \<le> 1"
  using convex_unit [OF assms(3-8)] assms(1,2) by (simp add: mixChannel_def mult_le_one)

lemma upperStop_cases: "upperStop distance \<in> {1, 2, 3, 4, 5}"
proof -
  have "length (takeWhile p distanceColorStops) \<le> 6" for p
    using length_takeWhile_le [of p distanceColorStops] by (simp add: distanceColorStops_def)
  moreover have "n \<in> {0, 1, 2, 3, 4, 5, 6}" if "n \<le> 6" for n :: nat
    using that by (simp only: insert_iff empty_iff) linarith
  ultimately have "length (takeWhile p distanceColorStops) \<in> {0, 1, 2, 3, 4, 5, 6}" for p by blast
  then show ?thesis
    by (auto simp: upperStop_def Let_def distanceColorStops_def)
qed

text \<open>
  The colour of a scan return is a colour: for every distance and every shade in the unit interval,
  each of its channels is between 0 and 1.
\<close>

theorem distance_color_unit:
  assumes "0 \<le> strength" and "strength \<le> 1"
  shows "list_all (\<lambda>c. 0 \<le> c \<and> c \<le> 1) (flat (distanceColor distance strength))"
proof -
  have "0 \<le> clamp n" "clamp n \<le> 1" for n by (rule clamp_range)+
  then show ?thesis
    using upperStop_cases [of distance] mixChannel_range [OF assms]
    by (auto simp: distanceColor_def distanceColorStops_def Let_def)
qed

theorem distance_color_unit_witness:
  "list_all (\<lambda>c. 0 \<le> c \<and> c \<le> 1) (flat (distanceColor 7 (0.74 * 0.9)))"
  by (rule distance_color_unit) simp_all

lemma multiples_below:
  assumes "0 < k" "n \<le> k * target"
  shows "length (filter (\<lambda>i. i mod k = 0) [0..<n]) \<le> target"
proof -
  have "length (filter (\<lambda>i. i mod k = 0) [0..<n]) = card {i. i < n \<and> i mod k = 0}"
    by (simp flip: distinct_card)
  also have "\<dots> \<le> card {..<target}"
  proof (rule card_inj_on_le [where f = "\<lambda>i. i div k"])
    show "inj_on (\<lambda>i. i div k) {i. i < n \<and> i mod k = 0}"
      by (rule inj_onI) (metis (mono_tags, lifting) mem_Collect_eq mult_div_mod_eq)
    show "(\<lambda>i. i div k) ` {i. i < n \<and> i mod k = 0} \<subseteq> {..<target}"
      using assms by (auto simp: less_mult_imp_div_less mult.commute dest: order.strict_trans2)
  qed simp
  finally show ?thesis by simp
qed

lemma filter_zip_index: "map fst (filter (\<lambda>(i, _). p i) (zip [0..<length xs] xs)) = filter p [0..<length xs]"
proof -
  have "map fst (filter (\<lambda>(i, _). p i) (zip is xs)) = filter p is" if "length is = length xs" for "is" :: "nat list"
    using that by (induction "is" xs rule: list_induct2) auto
  then show ?thesis by simp
qed

lemma thinned_length:
  assumes "0 < target"
  shows "length (thinned target xs) \<le> target"
proof -
  define k where "k = nat (max 1 \<lceil>real (length xs) / real target\<rceil>)"
  have "real (length xs) / real target \<le> real k" unfolding k_def by linarith
  then have "real (length xs) \<le> real k * real target" using assms by (simp add: field_simps)
  then have "length xs \<le> k * target" by (metis of_nat_le_iff of_nat_mult)
  moreover have "0 < k" by (simp add: k_def)
  moreover have "length (thinned target xs) = length (filter (\<lambda>i. i mod k = 0) [0..<length xs])"
    unfolding filter_zip_index [symmetric] by (simp add: thinned_def k_def)
  ultimately show ?thesis using multiples_below by simp
qed

text \<open>
  A peer truck adds few returns to a scan: whatever the mesh, its scan samples are thinned to at
  most 360 of the body and 100 of the wheels, so a fleet of peers cannot flood the frame.
\<close>

theorem truck_samples_few: "length (peerReturns field world vehicle ego peer) \<le> 460"
proof -
  have "length truckSamples \<le> 460"
    unfolding truckSamples_def fitSamples_def Let_def length_map length_append
    using add_mono [OF thinned_length [of 360] thinned_length [of 100]]
    by (simp add: SIMULATED_TRUCK_SIZE_def)
  then show ?thesis by (simp add: peerReturns_def Let_def split: prod.split)
qed

end
