(* ===== verification/SimulationControls.thy ===== *)
theory SimulationControls
  imports MineApi
begin

text \<open>
  The simulation controls: the requests of \<^verbatim>\<open>frontend/src/simulation/simulationApi.ts\<close> and the component of
  \<^verbatim>\<open>simulation/SimulationControls.tsx\<close> as a machine. Its events are the clicks (a disabled button is not
  clicked), the outcome of the request in flight and a new state from the snapshot. \<open>cast\<close>
  reads the parsed body at the declared type.
\<close>

section \<open>Requests\<close>

fun scenario_value :: "SimulationScenario \<Rightarrow> string" where
  "scenario_value HAUL = ''HAUL''"
| "scenario_value NORMAL = ''NORMAL''"
| "scenario_value FOG = ''FOG''"
| "scenario_value OBSTACLE = ''OBSTACLE''"
| "scenario_value EMERGENCY = ''EMERGENCY''"
| "scenario_value SCENARIO_1_DENSE_FOG = ''SCENARIO_1_DENSE_FOG''"
| "scenario_value SCENARIO_2_VEHICLE_AHEAD = ''SCENARIO_2_VEHICLE_AHEAD''"
| "scenario_value SCENARIO_3_OPPOSING_VEHICLE = ''SCENARIO_3_OPPOSING_VEHICLE''"
| "scenario_value SCENARIO_4_STATIC_OBSTACLE = ''SCENARIO_4_STATIC_OBSTACLE''"
| "scenario_value SCENARIO_5_ROAD_CLOSURE_REROUTE = ''SCENARIO_5_ROAD_CLOSURE_REROUTE''"
| "scenario_value SCENARIO_6_PAYLOAD_ROUTING = ''SCENARIO_6_PAYLOAD_ROUTING''"
| "scenario_value SCENARIO_7_FLEET_MONITORING = ''SCENARIO_7_FLEET_MONITORING''"
| "scenario_value SCENARIO_8_HAULAGE_ANALYTICS = ''SCENARIO_8_HAULAGE_ANALYTICS''"

record SimulationControlRequest =
  ctl_scenario :: "SimulationScenario option"
  ctl_running :: "bool option"
  ctl_speed_scale :: "jsnum option"
  ctl_obstacle_enabled :: "bool option"
  ctl_visibility_score :: "jsnum option"
  ctl_reset :: "bool option"

definition emptyControl :: SimulationControlRequest where
  "emptyControl = \<lparr>ctl_scenario = None, ctl_running = None, ctl_speed_scale = None, ctl_obstacle_enabled = None,
     ctl_visibility_score = None, ctl_reset = None\<rparr>"

definition scenarioControl :: "SimulationScenario \<Rightarrow> SimulationControlRequest" where
  "scenarioControl scenario = emptyControl\<lparr>ctl_scenario := Some scenario\<rparr>"

definition movementControl :: "bool \<Rightarrow> SimulationControlRequest" where
  "movementControl running = emptyControl\<lparr>ctl_running := Some (\<not> running)\<rparr>"

definition resetControl :: SimulationControlRequest where
  "resetControl = emptyControl\<lparr>ctl_reset := Some True\<rparr>"

text \<open>\<^verbatim>\<open>JSON.stringify(control)\<close>, before printing.\<close>

definition optional_field :: "string \<Rightarrow> ('a \<Rightarrow> jsval) \<Rightarrow> 'a option \<Rightarrow> (string \<times> jsval) list" where
  "optional_field key encode v = (case v of Some x \<Rightarrow> [(key, encode x)] | None \<Rightarrow> [])"

definition controlBody :: "SimulationControlRequest \<Rightarrow> jsval" where
  "controlBody c = JObj (
     optional_field ''scenario'' (JStr \<circ> scenario_value) (ctl_scenario c) @
     optional_field ''running'' JBool (ctl_running c) @
     optional_field ''speed_scale'' JNum (ctl_speed_scale c) @
     optional_field ''obstacle_enabled'' JBool (ctl_obstacle_enabled c) @
     optional_field ''visibility_score'' JNum (ctl_visibility_score c) @
     optional_field ''reset'' JBool (ctl_reset c))"

definition readSimulationState :: "(jsval \<Rightarrow> SimulationState) \<Rightarrow> Response \<Rightarrow> string + SimulationState" where
  "readSimulationState cast res =
     (if \<not> rsp_ok res then Inl (''Simulation request failed with status '' @ num_str (rsp_status res))
      else map_sum id cast (rsp_json res))"

definition loadSimulationState :: "(jsval \<Rightarrow> SimulationState) \<Rightarrow> Request \<times> (Response \<Rightarrow> string + SimulationState)" where
  "loadSimulationState cast = (get_request ''/api/simulation'', readSimulationState cast)"

definition sendSimulationControl ::
    "(jsval \<Rightarrow> SimulationState) \<Rightarrow> SimulationControlRequest \<Rightarrow> Request \<times> (Response \<Rightarrow> string + SimulationState)" where
  "sendSimulationControl cast control =
     (\<lparr>req_url = ''/api/simulation/control'', req_method = ''POST'', req_body = Some (controlBody control)\<rparr>,
      readSimulationState cast)"

section \<open>The component\<close>

definition bailadilaScenarios :: "SimulationScenario list" where
  "bailadilaScenarios = [SCENARIO_1_DENSE_FOG, SCENARIO_2_VEHICLE_AHEAD, SCENARIO_3_OPPOSING_VEHICLE,
     SCENARIO_4_STATIC_OBSTACLE, SCENARIO_5_ROAD_CLOSURE_REROUTE, SCENARIO_6_PAYLOAD_ROUTING,
     SCENARIO_7_FLEET_MONITORING, SCENARIO_8_HAULAGE_ANALYTICS]"

definition baselineScenarios :: "SimulationScenario list" where
  "baselineScenarios = [NORMAL, FOG, OBSTACLE, EMERGENCY]"

datatype RequestStatus = REQUEST_IDLE | REQUEST_UPDATING | REQUEST_ERROR
datatype ScenarioGroup = BAILADILA | BASELINE

text \<open>\<open>sc_sent\<close> is every request the component has made; \<open>sc_inFlight\<close> counts the unsettled ones.\<close>

record Controls =
  ctrl_state :: SimulationState
  sc_status :: RequestStatus
  sc_viewGroup :: ScenarioGroup
  sc_inFlight :: nat
  sc_sent :: "SimulationControlRequest list"

definition mountControls :: "SimulationState \<Rightarrow> Controls" where
  "mountControls simulation = \<lparr>ctrl_state = simulation, sc_status = REQUEST_IDLE, sc_viewGroup = BAILADILA,
     sc_inFlight = 0, sc_sent = []\<rparr>"

definition busy_controls :: "Controls \<Rightarrow> bool" where
  "busy_controls c \<longleftrightarrow> sc_status c = REQUEST_UPDATING"

definition shownScenarios :: "Controls \<Rightarrow> SimulationScenario list" where
  "shownScenarios c = (case sc_viewGroup c of BAILADILA \<Rightarrow> bailadilaScenarios | BASELINE \<Rightarrow> baselineScenarios)"

text \<open>\<^verbatim>\<open>apply\<close> up to its \<^verbatim>\<open>await\<close>, and after it.\<close>

definition applyControl :: "SimulationControlRequest \<Rightarrow> Controls \<Rightarrow> Controls" where
  "applyControl control c =
     c\<lparr>sc_status := REQUEST_UPDATING, sc_inFlight := sc_inFlight c + 1, sc_sent := sc_sent c @ [control]\<rparr>"

definition settleControl :: "string + SimulationState \<Rightarrow> Controls \<Rightarrow> Controls" where
  "settleControl result c =
     (if sc_inFlight c = 0 then c
      else case result of
        Inr state \<Rightarrow> c\<lparr>sc_inFlight := sc_inFlight c - 1, ctrl_state := state, sc_status := REQUEST_IDLE\<rparr>
      | Inl _ \<Rightarrow> c\<lparr>sc_inFlight := sc_inFlight c - 1, sc_status := REQUEST_ERROR\<rparr>)"

datatype ControlsEvent =
  ScenarioClicked SimulationScenario
| MovementClicked
| ResetClicked
| GroupClicked ScenarioGroup
| ControlSettled "string + SimulationState"
| SimulationChanged SimulationState

fun controls_step :: "ControlsEvent \<Rightarrow> Controls \<Rightarrow> Controls" where
  "controls_step (ScenarioClicked s) c =
     (if busy_controls c \<or> s \<notin> set (shownScenarios c) then c else applyControl (scenarioControl s) c)"
| "controls_step MovementClicked c =
     (if busy_controls c then c else applyControl (movementControl (sim_running (ctrl_state c))) c)"
| "controls_step ResetClicked c = (if busy_controls c then c else applyControl resetControl c)"
| "controls_step (GroupClicked g) c = c\<lparr>sc_viewGroup := g\<rparr>"
| "controls_step (ControlSettled result) c = settleControl result c"
| "controls_step (SimulationChanged simulation) c = c\<lparr>ctrl_state := simulation\<rparr>"

definition controls_run :: "SimulationState \<Rightarrow> ControlsEvent list \<Rightarrow> Controls" where
  "controls_run simulation es = fold controls_step es (mountControls simulation)"

section \<open>One request at a time\<close>

text \<open>What the bodies of requests say: exactly one field, a scenario with a button, a movement or a reset.\<close>

definition offered :: "SimulationControlRequest \<Rightarrow> bool" where
  "offered control \<longleftrightarrow>
     (\<exists>s \<in> set (bailadilaScenarios @ baselineScenarios). controlBody control = JObj [(''scenario'', JStr (scenario_value s))]) \<or>
     (\<exists>b. controlBody control = JObj [(''running'', JBool b)]) \<or>
     controlBody control = JObj [(''reset'', JBool True)]"

definition one_request :: "Controls \<Rightarrow> bool" where
  "one_request c \<longleftrightarrow> sc_inFlight c = (if busy_controls c then 1 else 0) \<and> list_all offered (sc_sent c)"

lemmas control_defs = scenarioControl_def movementControl_def resetControl_def emptyControl_def controlBody_def optional_field_def

lemma offered_controls:
  "s \<in> set (shownScenarios c) \<Longrightarrow> offered (scenarioControl s)"
  "offered (movementControl b)" "offered resetControl"
  by (auto simp: offered_def control_defs shownScenarios_def split: ScenarioGroup.splits)

interpretation controls_machine: machine "mountControls simulation" controls_step "\<lambda>_. True" one_request
proof
  show "one_request (mountControls simulation)"
    by (simp add: one_request_def mountControls_def busy_controls_def)
  show "one_request (controls_step e c)" if "one_request c" for e c
    using that
    by (cases e)
      (auto simp: applyControl_def offered_controls settleControl_def one_request_def busy_controls_def split: sum.splits if_splits)
qed

text \<open>
  The simulation controls have one request in flight at most, and are busy exactly while they have one,
  so they never stay busy after an answer; each request asks for one thing only: a scenario that has a button,
  the start or stop of movement, or a reset; and a click on the movement button while idle asks for the
  opposite of the movement shown.
\<close>

theorem controls_one_request:
  "let c = controls_run simulation es
   in sc_inFlight c = (if sc_status c = REQUEST_UPDATING then 1 else 0) \<and> list_all offered (sc_sent c) \<and>
      sc_status (controls_step (ControlSettled result) c) \<noteq> REQUEST_UPDATING \<and>
      sc_sent (controls_step MovementClicked c) = sc_sent c @
        (if sc_status c = REQUEST_UPDATING then [] else [emptyControl\<lparr>ctl_running := Some (\<not> sim_running (ctrl_state c))\<rparr>])"
proof -
  have inv: "one_request (controls_run simulation es)"
    unfolding controls_run_def by (rule controls_machine.run_inv) (simp add: list_all_iff)
  show ?thesis
    unfolding Let_def using inv
    by (auto simp: one_request_def busy_controls_def settleControl_def applyControl_def movementControl_def split: sum.splits if_splits)
qed

end
