(* ===== verification/ThemePreference.thy ===== *)
theory ThemePreference
  imports Prelude
begin

text \<open>
  The colour theme: \<^verbatim>\<open>frontend/src/theme.ts\<close>, the part of \<^verbatim>\<open>App.tsx\<close> that holds it and the toggle of
  \<^verbatim>\<open>components/ThemeToggle.tsx\<close>. The slot of \<^verbatim>\<open>localStorage\<close> is \<open>None\<close> where access to it throws, and
  else its item; \<open>prefersDark\<close> is the answer of \<^verbatim>\<open>matchMedia\<close>, \<open>None\<close> in a browser without it.
\<close>

datatype Theme = LIGHT | DARK

fun theme_value :: "Theme \<Rightarrow> string" where
  "theme_value LIGHT = ''light''"
| "theme_value DARK = ''dark''"

definition THEME_STORAGE_KEY :: string where
  "THEME_STORAGE_KEY = ''fogsen-theme''"

type_synonym LocalStorage = "(string \<rightharpoonup> string) option"

definition resolveTheme :: "string option \<Rightarrow> bool \<Rightarrow> Theme" where
  "resolveTheme storedTheme prefersDark =
     (if storedTheme = Some ''light'' then LIGHT else if storedTheme = Some ''dark'' then DARK
      else if prefersDark then DARK else LIGHT)"

fun oppositeTheme :: "Theme \<Rightarrow> Theme" where
  "oppositeTheme DARK = LIGHT"
| "oppositeTheme LIGHT = DARK"

definition readInitialTheme :: "LocalStorage \<Rightarrow> bool option \<Rightarrow> Theme" where
  "readInitialTheme storage prefersDark =
     resolveTheme (Option.bind storage (\<lambda>items. items THEME_STORAGE_KEY))
       (case prefersDark of Some dark \<Rightarrow> dark | None \<Rightarrow> True)"

definition saveTheme :: "Theme \<Rightarrow> LocalStorage \<Rightarrow> LocalStorage" where
  "saveTheme theme storage = map_option (\<lambda>items. items(THEME_STORAGE_KEY \<mapsto> theme_value theme)) storage"

text \<open>What \<^verbatim>\<open>applyTheme\<close> writes to the page; the meta tag may be missing.\<close>

record ThemedPage =
  page_theme :: string
  page_colorScheme :: string
  page_metaColor :: "string option"

definition applyTheme :: "Theme \<Rightarrow> ThemedPage \<Rightarrow> ThemedPage" where
  "applyTheme theme page =
     page\<lparr>page_theme := theme_value theme, page_colorScheme := theme_value theme,
       page_metaColor := map_option (\<lambda>_. if theme = DARK then ''#0a0d12'' else ''#f4f6f8'') (page_metaColor page)\<rparr>"

section \<open>The application\<close>

record ThemeState =
  thm_theme :: Theme
  thm_page :: ThemedPage
  thm_storage :: LocalStorage

definition mountTheme :: "LocalStorage \<Rightarrow> bool option \<Rightarrow> ThemedPage \<Rightarrow> ThemeState" where
  "mountTheme storage prefersDark page =
     (let initialTheme = readInitialTheme storage prefersDark
      in \<lparr>thm_theme = initialTheme, thm_page = applyTheme initialTheme page, thm_storage = storage\<rparr>)"

text \<open>\<^verbatim>\<open>changeTheme\<close> with the effect that follows it, and a click on the toggle.\<close>

definition changeTheme :: "Theme \<Rightarrow> ThemeState \<Rightarrow> ThemeState" where
  "changeTheme nextTheme s =
     s\<lparr>thm_theme := nextTheme, thm_storage := saveTheme nextTheme (thm_storage s),
       thm_page := applyTheme nextTheme (thm_page s)\<rparr>"

definition toggleTheme :: "ThemeState \<Rightarrow> ThemeState" where
  "toggleTheme s = changeTheme (oppositeTheme (thm_theme s)) s"

definition toggleLabel :: "ThemeState \<Rightarrow> string" where
  "toggleLabel s = ''Use '' @ theme_value (oppositeTheme (thm_theme s)) @ '' mode''"

section \<open>Properties\<close>

lemma resolve_value: "resolveTheme (Some (theme_value t)) dark = t"
  by (cases t) (simp_all add: resolveTheme_def)

lemma opposite_opposite: "oppositeTheme (oppositeTheme t) = t"
  by (cases t) simp_all

definition page_shows :: "ThemeState \<Rightarrow> bool" where
  "page_shows s \<longleftrightarrow> thm_page s = applyTheme (thm_theme s) (thm_page s)"

lemma stored_theme: "thm_theme (mountTheme (Some (items(THEME_STORAGE_KEY \<mapsto> theme_value t))) dark page) = t"
  by (simp add: mountTheme_def Let_def readInitialTheme_def resolve_value)

lemma apply_idem: "applyTheme t (applyTheme t page) = applyTheme t page"
  by (cases "page_metaColor page") (simp_all add: applyTheme_def)

lemma toggle_page: "page_shows (toggleTheme s)"
  by (simp add: page_shows_def toggleTheme_def changeTheme_def apply_idem)

lemma toggles_theme: "thm_theme ((toggleTheme ^^ n) s) = (if even n then thm_theme s else oppositeTheme (thm_theme s))"
  by (induction n) (simp_all add: toggleTheme_def changeTheme_def opposite_opposite)

lemma toggles_storage:
  "thm_storage ((toggleTheme ^^ Suc n) s) =
     map_option (\<lambda>items. items(THEME_STORAGE_KEY \<mapsto> theme_value (thm_theme ((toggleTheme ^^ Suc n) s)))) (thm_storage s)"
proof (induction n)
  case 0
  then show ?case by (simp add: toggleTheme_def changeTheme_def saveTheme_def del: fun_upd_apply)
next
  case (Suc n)
  have "thm_storage ((toggleTheme ^^ Suc (Suc n)) s) =
      saveTheme (thm_theme ((toggleTheme ^^ Suc (Suc n)) s)) (thm_storage ((toggleTheme ^^ Suc n) s))"
    by (simp add: toggleTheme_def changeTheme_def)
  also have "\<dots> = map_option (\<lambda>items. items(THEME_STORAGE_KEY \<mapsto> theme_value (thm_theme ((toggleTheme ^^ Suc (Suc n)) s))))
      (thm_storage s)"
    unfolding Suc saveTheme_def by (simp add: option.map_comp comp_def del: funpow.simps)
  finally show ?case .
qed

text \<open>
  The theme: after any number of clicks on the toggle the page shows the current theme, which is the
  initial one after an even and the other one after an odd number; a page opened then with the same
  storage starts with that theme, whatever the system prefers, when at least one click was saved; and
  storage that throws neither stops the toggle nor is written to.
\<close>

theorem theme_survives_reload:
  "let s0 = mountTheme storage dark page; s = (toggleTheme ^^ n) s0
   in page_shows s \<and> thm_theme s = (if even n then thm_theme s0 else oppositeTheme (thm_theme s0)) \<and>
      (n = 0 \<or> storage = None \<or> thm_theme (mountTheme (thm_storage s) dark' page') = thm_theme s) \<and>
      (thm_storage s = None) = (storage = None)"
proof (cases n)
  case 0
  then show ?thesis by (simp add: mountTheme_def page_shows_def apply_idem Let_def)
next
  case (Suc m)
  have "page_shows ((toggleTheme ^^ n) (mountTheme storage dark page))"
    unfolding Suc by (simp add: toggle_page)
  moreover have "thm_storage (mountTheme storage dark page) = storage" by (simp add: mountTheme_def Let_def)
  moreover have "thm_storage ((toggleTheme ^^ n) (mountTheme storage dark page)) =
      map_option (\<lambda>items. items(THEME_STORAGE_KEY \<mapsto> theme_value (thm_theme ((toggleTheme ^^ n) (mountTheme storage dark page)))))
        storage"
    unfolding Suc using toggles_storage [of m "mountTheme storage dark page"] calculation(2) by simp
  ultimately show ?thesis unfolding Let_def
    by (cases storage) (simp_all add: stored_theme toggles_theme del: fun_upd_apply)
qed

end
