(* ===== verification/DriverProximity.thy ===== *)
theory DriverProximity
  imports SpatialProjection Selectors
begin

text \<open>
  The range field of the driver's view: \<^verbatim>\<open>frontend/src/driver/ProximityWidget.tsx\<close>. What the component
  computes from readings, health and settings is a record: the alert, the plot with its hazard sectors,
  returns and sensor markers, and the card of each sensor. Fixed shapes and style sheets
  are left out.
\<close>

section \<open>Names and readings\<close>

text \<open>\<^verbatim>\<open>s.split(sep)\<close>, and a word with its first letter in upper case; an empty word has none.\<close>

fun split_on :: "char \<Rightarrow> string \<Rightarrow> string list" where
  "split_on sep [] = [[]]"
| "split_on sep (c # cs) =
     (if c = sep then [] # split_on sep cs
      else case split_on sep cs of w # ws \<Rightarrow> (c # w) # ws | [] \<Rightarrow> [[c]])"

fun capitalised :: "string \<Rightarrow> string" where
  "capitalised [] = ''undefined''"
| "capitalised (c # cs) = upper_char c # cs"

fun join_words :: "string list \<Rightarrow> string" where
  "join_words [] = []"
| "join_words [w] = w"
| "join_words (w # ws) = w @ '' '' @ join_words ws"

definition displayName :: "string \<Rightarrow> string" where
  "displayName sensorId = join_words (map capitalised (split_on (CHR ''_'') sensorId))"

definition latestReading :: "RangeReading list \<Rightarrow> string \<Rightarrow> RangeReading option" where
  "latestReading readings sensorId =
     (case js_sort (key_after rr_timestamp_ms) (filter (\<lambda>r. rr_sensor_id r = sensorId) readings) of
        [] \<Rightarrow> None | r # _ \<Rightarrow> Some r)"

type_synonym ProximityAlert = "SensorDisplaySetting \<times> RangeReading"

definition activeProximityAlerts ::
    "RangeReading list \<Rightarrow> SensorDisplaySetting list \<Rightarrow> ProximityAlert list" where
  "activeProximityAlerts readings sensors =
     js_sort (key_before (rr_range_m \<circ> snd))
       (concat (map (\<lambda>sensor. case latestReading readings (sd_sensor_id sensor) of
            Some reading \<Rightarrow> if getSensorThreatLevel (Some reading) sensor = ALERT then [(sensor, reading)] else []
          | None \<Rightarrow> []) sensors))"

section \<open>The plot\<close>

type_synonym PlotPosition = "jsnum \<times> jsnum"

definition sensorPlotOrigin :: "SensorDisplaySetting \<Rightarrow> PlotPosition" where
  "sensorPlotOrigin sensor =
     (120 + pose_x_m (sd_display_pose sensor) * 44, 120 - pose_y_m (sd_display_pose sensor) * 44)"

definition sensorPlotDirection :: "SensorDisplaySetting \<Rightarrow> RangeReading option \<Rightarrow> PlotPosition" where
  "sensorPlotDirection sensor reading =
     (let (ox, oy) = sensorPlotOrigin sensor; pose = sd_display_pose sensor;
          yaw = pose_yaw_deg pose + (if sd_scanner sensor then case reading of Some r \<Rightarrow> rr_angle_deg r | None \<Rightarrow> 0 else 0);
          pitchRadians = pose_pitch_deg pose * js_pi / 180;
          length' = 18 * js_max (Fin 0.2) (js_cos pitchRadians);
          yawRadians = yaw * js_pi / 180
      in (ox + js_sin yawRadians * length', oy - js_cos yawRadians * length'))"

text \<open>\<^verbatim>\<open>readingById\<close>, and whether the sector of some sensors is lit.\<close>

definition readingById :: "RangeReading list \<Rightarrow> (string \<times> RangeReading) list" where
  "readingById readings = map_from (map (\<lambda>r. (rr_sensor_id r, r)) readings)"

definition sectorAlert :: "SensorDisplaySetting list \<Rightarrow> RangeReading list \<Rightarrow> string list \<Rightarrow> bool" where
  "sectorAlert sensors readings ids \<longleftrightarrow>
     list_ex (\<lambda>sensor. sd_sensor_id sensor \<in> set ids \<and>
       getSensorThreatLevel (map_of (readingById readings) (sd_sensor_id sensor)) sensor = ALERT) sensors"

record PlottedReturn =
  ret_position :: PlotPosition
  ret_radius :: jsnum
  ret_ripple :: bool
  ret_low :: bool
  ret_title :: string

definition plottedReturn :: "VehiclePose \<Rightarrow> SpatialPoint \<Rightarrow> PlottedReturn" where
  "plottedReturn vehicle point =
     (let endpoint = spatialPointToPlot point vehicle; dist = plot_distance_m endpoint
      in \<lparr>ret_position = (plot_x endpoint, plot_y endpoint),
          ret_radius = js_min 11 (js_max (Fin 3.2) (Fin 9.5 / (dist + Fin 0.35))),
          ret_ripple = dist \<le> 1, ret_low = sp_quality point < Fin 0.65,
          ret_title = displayName (sp_source_sensor_id point) @ '' return: '' @ toFixed dist 2 @ '' m from vehicle''\<rparr>)"

record SensorMarker =
  mark_sensor :: string
  mark_origin :: PlotPosition
  mark_endpoint :: PlotPosition
  mark_radius :: nat
  mark_alert :: bool
  mark_down :: bool
  mark_title :: string

definition sensorMarker :: "RangeReading list \<Rightarrow> SensorDisplaySetting \<Rightarrow> SensorMarker" where
  "sensorMarker readings sensor =
     (let reading = latestReading readings (sd_sensor_id sensor); pitch = pose_pitch_deg (sd_display_pose sensor)
      in \<lparr>mark_sensor = sd_sensor_id sensor, mark_origin = sensorPlotOrigin sensor,
          mark_endpoint = sensorPlotDirection sensor reading, mark_radius = (if sd_scanner sensor then 5 else 4),
          mark_alert = (getSensorThreatLevel reading sensor = ALERT), mark_down = (pitch < - 5),
          mark_title = sd_label sensor @ '': '' @ (if sd_scanner sensor then ''servo head'' else ''fixed'') @ '', '' @
            toFixed pitch 0 @ [CHR 0xB0] @ '' pitch'' @
            (case reading of
               Some r \<Rightarrow> if rr_is_valid r then '' ('' @ toFixed (rr_range_m r) 2 @ '' m)'' else []
             | None \<Rightarrow> [])\<rparr>)"

record TofRangePlot =
  tof_front :: bool
  tof_rear :: bool
  tof_left :: bool
  tof_right :: bool
  tof_beacon :: string
  tof_returns :: "PlottedReturn list"
  tof_markers :: "SensorMarker list"
  tof_label :: string

definition tofRangePlot ::
    "SpatialPoint list \<Rightarrow> VehiclePose \<Rightarrow> SensorDisplaySetting list \<Rightarrow> RangeReading list \<Rightarrow> string option \<Rightarrow> TofRangePlot" where
  "tofRangePlot points vehicle sensors readings label =
     (let front = sectorAlert sensors readings [''front_scanner'', ''front_fixed''];
          rear = sectorAlert sensors readings [''rear_scanner''];
          left = sectorAlert sensors readings [''left_side''];
          right = sectorAlert sensors readings [''right_side'']
      in \<lparr>tof_front = front, tof_rear = rear, tof_left = left, tof_right = right,
          tof_beacon = (if front \<or> rear \<or> left \<or> right then ''#ef4444'' else ''#f59e0b''),
          tof_returns = map (plottedReturn vehicle) points, tof_markers = map (sensorMarker readings) sensors,
          tof_label = (case label of Some l \<Rightarrow> l
            | None \<Rightarrow> ''Vehicle-centred ToF view with '' @ nat_str (length points) @ '' mapped returns'')\<rparr>)"

section \<open>The widget\<close>

fun sensor_label :: "string \<Rightarrow> string" where
  "sensor_label sensorId =
     (case map_of (zip TOF_SENSOR_IDS [''Front scanner'', ''Front fixed'', ''Rear scanner'', ''Left side'', ''Right side'']) sensorId
      of Some l \<Rightarrow> l | None \<Rightarrow> ''undefined'')"

definition healthById :: "SensorHealth list \<Rightarrow> (string \<times> SensorHealth) list" where
  "healthById sensorHealth = map_from (map (\<lambda>s. (sh_sensor_id s, s)) sensorHealth)"

definition reporting :: "SensorStatus option \<Rightarrow> bool" where
  "reporting status \<longleftrightarrow> status \<in> {Some HEALTHY, Some DEGRADED}"

definition trustedReadings :: "bool \<Rightarrow> RangeReading list \<Rightarrow> SensorHealth list \<Rightarrow> RangeReading list" where
  "trustedReadings online readings sensorHealth =
     (if online
      then filter (\<lambda>r. reporting (map_option sh_status (map_of (healthById sensorHealth) (rr_sensor_id r))) \<and>
             isUsableRangeReading r) readings
      else [])"

definition trustedPoints :: "bool \<Rightarrow> RangeReading list \<Rightarrow> SpatialPoint list \<Rightarrow> SpatialPoint list" where
  "trustedPoints online trusted points =
     (if online then filter (\<lambda>p. sp_source_sensor_id p \<in> rr_sensor_id ` set trusted) points else [])"

record SensorCard =
  card_sensor :: string
  card_status :: SensorStatus
  card_alert :: bool
  card_caution :: bool
  card_label :: string
  card_value :: string
  card_meta :: string
  card_gauge :: "(jsnum \<times> jsnum) option"

definition sensorCard ::
    "bool \<Rightarrow> RangeReading list \<Rightarrow> SensorHealth list \<Rightarrow> SensorDisplaySetting list \<Rightarrow> string \<Rightarrow> SensorCard" where
  "sensorCard online trusted sensorHealth settings sensorId =
     (let health = map_of (healthById sensorHealth) sensorId;
          setting = map_of (map_from (map (\<lambda>s. (sd_sensor_id s, s)) settings)) sensorId;
          status = (if online then case health of Some h \<Rightarrow> sh_status h | None \<Rightarrow> OFFLINE else OFFLINE);
          shown = (case latestReading trusted sensorId of
              Some r \<Rightarrow> if online \<and> reporting (Some status) \<and> isUsableRangeReading r then Some r else None
            | None \<Rightarrow> None);
          isScanner = (sensorId = ''front_scanner'' \<or> sensorId = ''rear_scanner'');
          threat = (case setting of Some s \<Rightarrow> getSensorThreatLevel (latestReading trusted sensorId) s | None \<Rightarrow> THREAT_UNKNOWN);
          maxRange = (case setting of Some s \<Rightarrow> sd_visual_range_m s | None \<Rightarrow> 4);
          alertDist = (case setting of Some s \<Rightarrow> sd_alert_distance_m s | None \<Rightarrow> 1)
      in \<lparr>card_sensor = sensorId, card_status = status,
          card_alert = (shown \<noteq> None \<and> threat = ALERT), card_caution = (shown \<noteq> None \<and> threat = CAUTION),
          card_label = sensor_label sensorId,
          card_value = (case shown of Some r \<Rightarrow> toFixed (rr_range_m r) 2 @ '' m'' | None \<Rightarrow> ''Unknown''),
          card_meta = (case shown of
              Some r \<Rightarrow> (if isScanner then toFixed (rr_angle_deg r) 0 @ [CHR 0xB0] @ '' scan, '' else []) @
                num_str (js_round (rr_quality r * 100)) @ ''% quality''
            | None \<Rightarrow> ''No trusted range''),
          card_gauge = map_option (\<lambda>r. (js_max 5 (js_min 100 (rr_range_m r / maxRange * 100)),
            js_min 95 (alertDist / maxRange * 100))) shown\<rparr>)"

record ProximityView =
  px_alert :: "(string \<times> string) option"
  px_plot :: TofRangePlot
  px_empty :: "string option"
  px_trusted :: nat
  px_cards :: "SensorCard list"

definition proximityWidget ::
    "SpatialPoint list \<Rightarrow> VehiclePose \<Rightarrow> RangeReading list \<Rightarrow> SensorHealth list \<Rightarrow> SensorDisplaySetting list \<Rightarrow> bool \<Rightarrow>
     ProximityView" where
  "proximityWidget points vehicle readings sensorHealth settings online =
     (let trusted = trustedReadings online readings sensorHealth;
          shownPoints = trustedPoints online trusted points;
          trustedCount = card (rr_sensor_id ` set trusted)
      in \<lparr>px_alert = (case activeProximityAlerts trusted settings of
              (sensor, reading) # _ \<Rightarrow> Some (sd_label sensor, toFixed (rr_range_m reading) 2 @ '' m'')
            | [] \<Rightarrow> None),
          px_plot = tofRangePlot shownPoints vehicle settings trusted
            (Some (''Vehicle-centred ToF view with '' @ nat_str (length shownPoints) @ '' mapped returns'')),
          px_empty = (if shownPoints = [] then
              Some (if 0 < trustedCount then ''No mapped returns'' else ''No trusted ranges'') else None),
          px_trusted = trustedCount,
          px_cards = map (sensorCard online trusted sensorHealth settings) TOF_SENSOR_IDS\<rparr>)"

section \<open>The latest reading and the alerts\<close>

lemma latest_Some_D:
  assumes "latestReading rs i = Some r"
  shows "r \<in> set rs" "rr_sensor_id r = i"
proof -
  obtain rest where "js_sort (key_after rr_timestamp_ms) (filter (\<lambda>r. rr_sensor_id r = i) rs) = r # rest"
    using assms unfolding latestReading_def by (auto split: list.splits)
  then have "r \<in> set (js_sort (key_after rr_timestamp_ms) (filter (\<lambda>r. rr_sensor_id r = i) rs))"
    by (simp del: set_js_sort)
  then show "r \<in> set rs" "rr_sensor_id r = i" by simp_all
qed

lemma latest_None_iff: "latestReading rs i = None \<longleftrightarrow> i \<notin> rr_sensor_id ` set rs"
proof -
  have "latestReading rs i = None \<longleftrightarrow> filter (\<lambda>r. rr_sensor_id r = i) rs = []"
    unfolding latestReading_def by (metis js_sort_Nil_iff list.exhaust list.simps(4,5) option.distinct(1))
  then show ?thesis by (auto simp: filter_empty_conv)
qed

lemma latest_newest:
  assumes "\<forall>r \<in> set rs. isFinite (rr_timestamp_ms r)" "latestReading rs i = Some r"
    and "r' \<in> set rs" "rr_sensor_id r' = i"
  shows "rr_timestamp_ms r' \<le> rr_timestamp_ms r"
proof -
  let ?rs = "filter (\<lambda>r. rr_sensor_id r = i) rs"
  obtain rest where sorted: "js_sort (key_after rr_timestamp_ms) ?rs = r # rest"
    using assms(2) unfolding latestReading_def by (auto split: list.splits)
  have "sorted_wrt (\<lambda>a b. rr_timestamp_ms b \<le> rr_timestamp_ms a) (r # rest)"
    using sorted_by_key_after [of ?rs rr_timestamp_ms] assms(1) unfolding sorted by simp
  moreover have "r' \<in> set (r # rest)" using assms(3,4) unfolding sorted [symmetric] by simp
  moreover have "isFinite (rr_timestamp_ms r)" using assms(1) latest_Some_D [OF assms(2)] by blast
  ultimately show ?thesis by (auto intro: jsnum_le_refl)
qed

text \<open>Where every sensor has one reading at most, the latest one is the one of the map.\<close>

lemma latest_unique:
  assumes "distinct (map rr_sensor_id rs)"
  shows "map_of (readingById rs) i = latestReading rs i"
proof (cases "latestReading rs i")
  case None
  then have "map_of (readingById rs) i = None"
    unfolding readingById_def map_from_keyed_None_iff latest_None_iff .
  with None show ?thesis by simp
next
  case (Some r)
  have "map_of (readingById rs) i \<noteq> None"
    unfolding readingById_def map_from_keyed_None_iff using latest_Some_D [OF Some] by force
  then obtain r' where r': "map_of (readingById rs) i = Some r'" by blast
  then have "r' \<in> set rs" "rr_sensor_id r' = i"
    unfolding readingById_def by (auto dest: map_from_keyed_SomeD)
  then have "r' = r" using latest_Some_D [OF Some] assms by (metis inj_on_contraD distinct_map)
  with r' Some show ?thesis by simp
qed

lemma alerts_set:
  "(s, r) \<in> set (activeProximityAlerts rs ss) \<longleftrightarrow>
     s \<in> set ss \<and> latestReading rs (sd_sensor_id s) = Some r \<and> getSensorThreatLevel (Some r) s = ALERT"
  unfolding activeProximityAlerts_def by (auto split: option.splits if_splits)

lemma threat_alert_iff:
  "getSensorThreatLevel (Some r) s = ALERT \<longleftrightarrow>
     rr_is_valid r \<and> isFinite (rr_range_m r) \<and> rr_range_m r \<le> js_max 0 (finiteNumber (Some (sd_alert_distance_m s)) 0)"
  by (auto simp: getSensorThreatLevel_def Let_def)

lemma first_alert_nearest:
  assumes "activeProximityAlerts rs ss = (s, r) # rest" "(s', r') \<in> set (activeProximityAlerts rs ss)"
  shows "rr_range_m r \<le> rr_range_m r'"
proof -
  let ?key = "rr_range_m \<circ> snd"
  have "\<forall>a \<in> set (activeProximityAlerts rs ss). isFinite (?key a)"
    by (auto simp: alerts_set threat_alert_iff)
  then have "sorted_wrt (\<lambda>a b. ?key a \<le> ?key b) (activeProximityAlerts rs ss)"
    unfolding activeProximityAlerts_def by (intro sorted_by_key_before) simp
  moreover have "isFinite (rr_range_m r)"
    using alerts_set [of s r rs ss] unfolding assms(1) by (simp add: threat_alert_iff)
  ultimately show ?thesis using assms by (auto intro: jsnum_le_refl)
qed

section \<open>The alert of the widget\<close>

text \<open>A reading that counts: usable, and from a sensor whose last health report is a working one.\<close>

definition counts :: "bool \<Rightarrow> SensorHealth list \<Rightarrow> RangeReading \<Rightarrow> bool" where
  "counts online sensorHealth r \<longleftrightarrow> online \<and> isUsableRangeReading r \<and>
     (\<exists>h. find (\<lambda>h. sh_sensor_id h = rr_sensor_id r) (rev sensorHealth) = Some h \<and> sh_status h \<in> {HEALTHY, DEGRADED})"

lemma trusted_set: "r \<in> set (trustedReadings online rs hs) \<longleftrightarrow> r \<in> set rs \<and> counts online hs r"
  by (auto simp: trustedReadings_def counts_def reporting_def healthById_def map_of_map_from_keyed)

text \<open>A newest counting reading of the sensor is within its alert distance.\<close>

definition in_alert ::
    "bool \<Rightarrow> RangeReading list \<Rightarrow> SensorHealth list \<Rightarrow> SensorDisplaySetting \<Rightarrow> RangeReading \<Rightarrow> bool" where
  "in_alert online readings sensorHealth s r \<longleftrightarrow>
     r \<in> set readings \<and> counts online sensorHealth r \<and> rr_sensor_id r = sd_sensor_id s \<and>
     rr_range_m r \<le> js_max 0 (sd_alert_distance_m s) \<and>
     (\<forall>r' \<in> set readings. counts online sensorHealth r' \<and> rr_sensor_id r' = sd_sensor_id s \<longrightarrow>
        rr_timestamp_ms r' \<le> rr_timestamp_ms r)"

definition sole_newest :: "bool \<Rightarrow> RangeReading list \<Rightarrow> SensorHealth list \<Rightarrow> RangeReading \<Rightarrow> bool" where
  "sole_newest online readings sensorHealth r \<longleftrightarrow>
     (\<forall>r' \<in> set readings. counts online sensorHealth r' \<and> rr_sensor_id r' = rr_sensor_id r \<and>
        rr_timestamp_ms r \<le> rr_timestamp_ms r' \<longrightarrow> r' = r)"

lemma alert_in_alert:
  assumes "\<forall>r \<in> set rs. isFinite (rr_timestamp_ms r)" "isFinite (sd_alert_distance_m s)"
    and "latestReading (trustedReadings online rs hs) (sd_sensor_id s) = Some r"
  shows "getSensorThreatLevel (Some r) s = ALERT \<longleftrightarrow> in_alert online rs hs s r"
proof -
  let ?trusted = "trustedReadings online rs hs"
  have finite_times: "\<forall>r \<in> set ?trusted. isFinite (rr_timestamp_ms r)" using assms(1) by (simp add: trusted_set)
  have newest: "\<forall>r' \<in> set rs. counts online hs r' \<and> rr_sensor_id r' = sd_sensor_id s \<longrightarrow>
      rr_timestamp_ms r' \<le> rr_timestamp_ms r"
    using latest_newest [OF finite_times assms(3)] by (simp add: trusted_set)
  have r: "r \<in> set rs" "counts online hs r" "rr_sensor_id r = sd_sensor_id s"
    using latest_Some_D [OF assms(3)] by (simp_all add: trusted_set)
  have "rr_is_valid r" "isFinite (rr_range_m r)"
    using r(2) by (simp_all add: counts_def isUsableRangeReading_def)
  moreover have "finiteNumber (Some (sd_alert_distance_m s)) 0 = sd_alert_distance_m s"
    using assms(2) by (simp add: finiteNumber_def)
  ultimately show ?thesis using r newest by (simp add: threat_alert_iff in_alert_def)
qed

lemma sole_newest_latest:
  assumes "\<forall>r \<in> set rs. isFinite (rr_timestamp_ms r)"
    and "in_alert online rs hs s r" "sole_newest online rs hs r"
  shows "latestReading (trustedReadings online rs hs) (sd_sensor_id s) = Some r"
proof -
  let ?trusted = "trustedReadings online rs hs"
  have r: "r \<in> set ?trusted" "rr_sensor_id r = sd_sensor_id s" using assms(2) by (simp_all add: in_alert_def trusted_set)
  then have "latestReading ?trusted (sd_sensor_id s) \<noteq> None" unfolding latest_None_iff by force
  then obtain r' where r': "latestReading ?trusted (sd_sensor_id s) = Some r'" by blast
  have "rr_timestamp_ms r \<le> rr_timestamp_ms r'"
    by (rule latest_newest [OF _ r' r]) (simp add: assms(1) trusted_set)
  moreover have "r' \<in> set rs" "counts online hs r'" "rr_sensor_id r' = rr_sensor_id r"
    using latest_Some_D [OF r'] r(2) by (simp_all add: trusted_set)
  ultimately show ?thesis using assms(3) r' by (auto simp: sole_newest_def)
qed

text \<open>
  C16. The proximity alert of the driver is exact: for readings with finite times and settings with finite
  alert distances, an alert is shown only for a configured sensor whose newest trusted reading (connected,
  usable, from a sensor last reported healthy or degraded) is within its alert distance; when some
  sensor's newest trusted reading, unrivalled in time, is within that distance an alert is shown; and the one
  shown is of a range no greater than that of any such sensor.
\<close>

theorem proximity_alert_exact:
  assumes "\<forall>r \<in> set readings. isFinite (rr_timestamp_ms r)"
    and "\<forall>s \<in> set settings. isFinite (sd_alert_distance_m s)"
  shows "case px_alert (proximityWidget points vehicle readings sensorHealth settings online) of
      None \<Rightarrow> \<not> (\<exists>s \<in> set settings. \<exists>r. in_alert online readings sensorHealth s r \<and>
          sole_newest online readings sensorHealth r)
    | Some (label, text) \<Rightarrow> \<exists>s \<in> set settings. \<exists>r. in_alert online readings sensorHealth s r \<and>
        label = sd_label s \<and> text = toFixed (rr_range_m r) 2 @ '' m'' \<and>
        (\<forall>s' \<in> set settings. \<forall>r'. in_alert online readings sensorHealth s' r' \<and>
           sole_newest online readings sensorHealth r' \<longrightarrow> rr_range_m r \<le> rr_range_m r')"
proof -
  let ?trusted = "trustedReadings online readings sensorHealth"
  let ?alerts = "activeProximityAlerts ?trusted settings"
  have sound: "s \<in> set settings \<and> in_alert online readings sensorHealth s r" if "(s, r) \<in> set ?alerts" for s r
    using that alert_in_alert [OF assms(1)] assms(2) by (auto simp: alerts_set)
  have complete: "(s, r) \<in> set ?alerts"
    if "s \<in> set settings" "in_alert online readings sensorHealth s r" "sole_newest online readings sensorHealth r" for s r
    using sole_newest_latest [OF assms(1) that(2,3)] that alert_in_alert [OF assms(1)] assms(2) by (auto simp: alerts_set)
  have alert: "px_alert (proximityWidget points vehicle readings sensorHealth settings online) =
      (case ?alerts of (s, r) # _ \<Rightarrow> Some (sd_label s, toFixed (rr_range_m r) 2 @ '' m'') | [] \<Rightarrow> None)"
    by (simp add: proximityWidget_def Let_def)
  show ?thesis
  proof (cases ?alerts)
    case Nil
    then have "\<not> (\<exists>s \<in> set settings. \<exists>r. in_alert online readings sensorHealth s r \<and>
        sole_newest online readings sensorHealth r)"
      using complete by force
    then show ?thesis unfolding alert Nil list.case option.case .
  next
    case (Cons a rest)
    obtain s r where a: "a = (s, r)" by (cases a)
    have "(s, r) \<in> set ?alerts" using Cons a by simp
    from sound [OF this] have sr: "s \<in> set settings" "in_alert online readings sensorHealth s r" by auto
    have least: "rr_range_m r \<le> rr_range_m r'"
      if "s' \<in> set settings" "in_alert online readings sensorHealth s' r' \<and> sole_newest online readings sensorHealth r'"
      for s' r'
      using first_alert_nearest [OF Cons [unfolded a]] complete that by blast
    show ?thesis unfolding alert Cons a list.case option.case prod.case
      using sr least by blast
  qed
qed

definition nearReading :: RangeReading where
  "nearReading = \<lparr>rr_timestamp_ms = 2, rr_sensor_id = ''front_fixed'', rr_angle_deg = 0, rr_range_m = Fin 0.5,
     rr_quality = 1, rr_max_range_m = 4, rr_is_valid = True, rr_mode = LIVE\<rparr>"

definition frontHealth :: SensorHealth where
  "frontHealth = \<lparr>sh_sensor_id = ''front_fixed'', sh_status = HEALTHY, sh_last_update_ms = 2, sh_confidence = 1,
     sh_detail = None\<rparr>"

definition frontSetting :: SensorDisplaySetting where
  "frontSetting = \<lparr>sd_sensor_id = ''front_fixed'', sd_label = ''Front fixed'', sd_scanner = False,
     sd_display_pose = \<lparr>pose_x_m = 0, pose_y_m = 1, pose_z_m = 0, pose_yaw_deg = 0, pose_pitch_deg = 0\<rparr>,
     sd_alert_distance_m = 1, sd_visual_range_m = 4\<rparr>"

theorem proximity_alert_exact_witness:
  "px_alert (proximityWidget [] defaultVehicle [nearReading] [frontHealth] [frontSetting] True) \<noteq> None"
proof -
  have "in_alert True [nearReading] [frontHealth] frontSetting nearReading" "sole_newest True [nearReading] [frontHealth] nearReading"
    by (simp_all add: nearReading_def frontHealth_def frontSetting_def in_alert_def sole_newest_def counts_def
        isUsableRangeReading_def)
  moreover have "\<forall>r \<in> set [nearReading]. isFinite (rr_timestamp_ms r)"
    "\<forall>s \<in> set [frontSetting]. isFinite (sd_alert_distance_m s)"
    by (simp_all add: nearReading_def frontSetting_def)
  from proximity_alert_exact [OF this, where points = "[]" and vehicle = defaultVehicle and
      sensorHealth = "[frontHealth]" and online = True]
  have "px_alert (proximityWidget [] defaultVehicle [nearReading] [frontHealth] [frontSetting] True) = None \<longrightarrow>
      \<not> (in_alert True [nearReading] [frontHealth] frontSetting nearReading \<and> sole_newest True [nearReading] [frontHealth] nearReading)"
    by auto
  ultimately show ?thesis by blast
qed

section \<open>The parts of the view agree\<close>

lemma marker_alert:
  "mark_alert (sensorMarker rs s) \<longleftrightarrow> getSensorThreatLevel (latestReading rs (sd_sensor_id s)) s = ALERT"
  "mark_sensor (sensorMarker rs s) = sd_sensor_id s"
  by (simp_all add: sensorMarker_def Let_def)

lemma sector_markers:
  assumes "distinct (map rr_sensor_id rs)"
  shows "sectorAlert ss rs ids \<longleftrightarrow> (\<exists>m \<in> set (map (sensorMarker rs) ss). mark_sensor m \<in> set ids \<and> mark_alert m)"
  using latest_unique [OF assms] by (simp add: sectorAlert_def list_ex_iff marker_alert)

lemma no_reading_no_threat: "getSensorThreatLevel None s = THREAT_UNKNOWN"
  by (simp add: getSensorThreatLevel_def)

lemma card_marker:
  assumes "distinct (map sd_sensor_id ss)"
  shows "card_alert (sensorCard online (trustedReadings online rs hs) hs ss i) \<longleftrightarrow>
    (\<exists>m \<in> set (map (sensorMarker (trustedReadings online rs hs)) ss). mark_sensor m = i \<and> mark_alert m)"
proof -
  let ?trusted = "trustedReadings online rs hs"
  let ?setting = "map_of (map_from (map (\<lambda>s. (sd_sensor_id s, s)) ss)) i"
  have shown: "online \<and> isUsableRangeReading r \<and>
      (\<exists>h. map_of (healthById hs) i = Some h \<and> reporting (Some (sh_status h)))"
    if "latestReading ?trusted i = Some r" for r
    using latest_Some_D [OF that] by (auto simp: trustedReadings_def reporting_def split: if_splits)
  have one: "s \<in> set ss \<and> sd_sensor_id s = i \<longleftrightarrow> ?setting = Some s" for s
  proof
    assume s: "s \<in> set ss \<and> sd_sensor_id s = i"
    then have "?setting \<noteq> None" unfolding map_from_keyed_None_iff by force
    then obtain s' where s': "?setting = Some s'" by blast
    then have "s' \<in> set ss" "sd_sensor_id s' = i" by (auto dest: map_from_keyed_SomeD)
    then have "s' = s" using s inj_onD [of sd_sensor_id "set ss" s' s] assms by (simp add: distinct_map)
    with s' show "?setting = Some s" by simp
  qed (auto dest: map_from_keyed_SomeD)
  have "card_alert (sensorCard online ?trusted hs ss i) \<longleftrightarrow>
      (\<exists>s. ?setting = Some s \<and> getSensorThreatLevel (latestReading ?trusted i) s = ALERT)"
  proof (cases "latestReading ?trusted i")
    case None
    then show ?thesis by (auto simp: sensorCard_def Let_def no_reading_no_threat)
  next
    case (Some r)
    from shown [OF this] obtain h where h: "online" "isUsableRangeReading r" "map_of (healthById hs) i = Some h"
      "reporting (Some (sh_status h))" by blast
    show ?thesis unfolding sensorCard_def Let_def Some using h by (simp split: option.split)
  qed
  also have "\<dots> \<longleftrightarrow> (\<exists>s \<in> set ss. sd_sensor_id s = i \<and> getSensorThreatLevel (latestReading ?trusted i) s = ALERT)"
    using one by blast
  finally show ?thesis by (auto simp: marker_alert)
qed

lemma alert_markers:
  "activeProximityAlerts rs ss \<noteq> [] \<longleftrightarrow> (\<exists>m \<in> set (map (sensorMarker rs) ss). mark_alert m)"
proof -
  have "activeProximityAlerts rs ss \<noteq> [] \<longleftrightarrow> (\<exists>s r. (s, r) \<in> set (activeProximityAlerts rs ss))"
    by (metis list.set_intros(1) list.set_cases list.exhaust surj_pair empty_iff list.set(1))
  also have "\<dots> \<longleftrightarrow> (\<exists>s \<in> set ss. getSensorThreatLevel (latestReading rs (sd_sensor_id s)) s = ALERT)"
    unfolding alerts_set by (metis ThreatLevel.distinct(6) no_reading_no_threat option.exhaust)
  finally show ?thesis by (simp add: marker_alert)
qed

text \<open>Some marker of the plot for one of these sensors is in alert.\<close>

definition marked :: "ProximityView \<Rightarrow> string set \<Rightarrow> bool" where
  "marked view ids \<longleftrightarrow> (\<exists>m \<in> set (tof_markers (px_plot view)). mark_sensor m \<in> ids \<and> mark_alert m)"

text \<open>
  The four places that show a hazard agree: when no sensor has two readings and no two settings name
  the same sensor, a hazard sector is lit exactly when a sensor marker of that side is in alert, the
  card of a sensor is in alert exactly when its marker is, and the alert line is shown exactly when some
  marker is in alert.
\<close>

theorem hazard_views_agree:
  assumes "distinct (map rr_sensor_id readings)" "distinct (map sd_sensor_id settings)"
  shows "let view = proximityWidget points vehicle readings sensorHealth settings online; plot = px_plot view
    in tof_front plot = marked view {''front_scanner'', ''front_fixed''} \<and>
       tof_rear plot = marked view {''rear_scanner''} \<and> tof_left plot = marked view {''left_side''} \<and>
       tof_right plot = marked view {''right_side''} \<and>
       (\<forall>c \<in> set (px_cards view). card_alert c = marked view {card_sensor c}) \<and>
       (px_alert view \<noteq> None) = marked view UNIV"
proof -
  let ?trusted = "trustedReadings online readings sensorHealth"
  define view where "view = proximityWidget points vehicle readings sensorHealth settings online"
  have markers: "tof_markers (px_plot view) = map (sensorMarker ?trusted) settings"
    by (simp add: view_def proximityWidget_def tofRangePlot_def Let_def)
  have distinct_trusted: "distinct (map rr_sensor_id ?trusted)"
    using assms(1) by (simp add: trustedReadings_def distinct_map_filter)
  note sectors = sector_markers [OF distinct_trusted, of settings]
  have cards: "\<forall>c \<in> set (px_cards view). card_alert c = marked view {card_sensor c}"
  proof
    fix c assume "c \<in> set (px_cards view)"
    then obtain i where c: "c = sensorCard online ?trusted sensorHealth settings i"
      by (auto simp: view_def proximityWidget_def Let_def)
    then have "card_sensor c = i" by (simp add: sensorCard_def Let_def)
    then show "card_alert c = marked view {card_sensor c}"
      using card_marker [OF assms(2), of online readings sensorHealth i] unfolding marked_def markers c by simp
  qed
  have banner: "(px_alert view \<noteq> None) = marked view UNIV"
    using alert_markers [of ?trusted settings] unfolding marked_def markers
    by (auto simp: view_def proximityWidget_def Let_def split: list.splits)
  have sides: "tof_front (px_plot view) = marked view {''front_scanner'', ''front_fixed''}"
      "tof_rear (px_plot view) = marked view {''rear_scanner''}" "tof_left (px_plot view) = marked view {''left_side''}"
      "tof_right (px_plot view) = marked view {''right_side''}"
    unfolding marked_def markers by (simp_all add: view_def proximityWidget_def tofRangePlot_def Let_def sectors)
  show ?thesis unfolding view_def [symmetric] Let_def using cards banner sides by blast
qed

theorem hazard_views_agree_witness:
  "tof_front (px_plot (proximityWidget [] defaultVehicle [nearReading] [frontHealth] [frontSetting] True)) =
   marked (proximityWidget [] defaultVehicle [nearReading] [frontHealth] [frontSetting] True) {''front_scanner'', ''front_fixed''}"
  using hazard_views_agree [where readings = "[nearReading]" and settings = "[frontSetting]" and points = "[]" and
      vehicle = defaultVehicle and sensorHealth = "[frontHealth]" and online = True]
  by (simp add: Let_def)

text \<open>
  With two readings of one sensor the sector follows the last one in the list, whatever its age, and the
  marker the newest one.
\<close>

lemma sector_follows_last_reading:
  defines "old \<equiv> nearReading\<lparr>rr_timestamp_ms := 1, rr_range_m := 3\<rparr>"
  shows "\<not> sectorAlert [frontSetting] [nearReading, old] [''front_fixed''] \<and>
    mark_alert (sensorMarker [nearReading, old] frontSetting)"
  by (simp add: old_def sectorAlert_def readingById_def map_from_def nearReading_def frontSetting_def
      getSensorThreatLevel_def finiteNumber_def Let_def marker_alert latestReading_def key_after_def)

end
