(* ===== verification/DriverDashboard.thy ===== *)
theory DriverDashboard
  imports DriverProximity Proximity Telemetry SpatialPoints Supervisor
begin

text \<open>
  The driver's dashboard, \<^verbatim>\<open>frontend/src/driver/DriverDashboard.tsx\<close>: the banner, the safe corridor, the
  speed, the emergency control and the range field, computed from the snapshot, the connection and the
  hazard held since the last render. \<open>driver_render\<close> is one render; the hazard held in a ref and whether the
  map is open are the state of the component.
\<close>

section \<open>Texts\<close>

text \<open>\<^verbatim>\<open>toLowerCase().replace("_", "-")\<close>: the first underscore only.\<close>

fun first_to_dash :: "string \<Rightarrow> string" where
  "first_to_dash [] = []"
| "first_to_dash (c # cs) = (if c = CHR ''_'' then CHR ''-'' # cs else c # first_to_dash cs)"

definition emergencyClass :: "EmergencyLevel \<Rightarrow> string" where
  "emergencyClass level = first_to_dash (toLowerCase (level_string level))"

fun corridor_value :: "CorridorState \<Rightarrow> string" where
  "corridor_value GREEN = ''GREEN''"
| "corridor_value YELLOW = ''YELLOW''"
| "corridor_value RED = ''RED''"
| "corridor_value GREY = ''GREY''"

fun corridorDetail :: "CorridorState \<Rightarrow> string" where
  "corridorDetail GREEN = ''Path clear''"
| "corridorDetail YELLOW = ''Reduce speed''"
| "corridorDetail RED = ''Stop''"
| "corridorDetail GREY = ''Sensor coverage incomplete''"

section \<open>What a render shows\<close>

datatype Banner =
  NoBanner
| TelemetryBanner bool string string
| EmergencyBanner string bool string string
| ProximityBanner string string

record DriverView =
  dv_available :: bool
  dv_connection :: ConnectionState
  dv_banner :: Banner
  dv_corridor :: CorridorState
  dv_corridorLabel :: string
  dv_corridorDetail :: string
  dv_corridorBadge :: string
  dv_speed :: string
  dv_heading :: string
  dv_nearest :: string
  dv_control :: string
  dv_proximity :: ProximityView

definition displayEmergencyState :: "WorldState \<Rightarrow> ForwardHazard option \<Rightarrow> EmergencyLevel" where
  "displayEmergencyState world forward =
     (if ws_mode world = SIMULATED \<and> em_state (ws_emergency world) \<noteq> EMERGENCY_STOP
      then (case forward of
          Some hazard \<Rightarrow> if fh_distance_m hazard < Fin 1.5 then CRITICAL else WARNING
        | None \<Rightarrow> SAFE)
      else em_state (ws_emergency world))"

definition displayEmergencyReason :: "WorldState \<Rightarrow> ForwardHazard option \<Rightarrow> string option" where
  "displayEmergencyReason world forward =
     (case forward of
        Some hazard \<Rightarrow>
          if ws_mode world = SIMULATED \<and> displayEmergencyState world forward \<noteq> EMERGENCY_STOP
          then Some (fh_detail hazard) else em_reason (ws_emergency world)
      | None \<Rightarrow> em_reason (ws_emergency world))"

definition telemetryBanner :: "ConnectionState \<Rightarrow> Banner" where
  "telemetryBanner connection =
     (case connection of
        CONNECTING \<Rightarrow> TelemetryBanner False ''CONNECTING'' ''Waiting for live vehicle and sensor data.''
      | CONNECTED \<Rightarrow> TelemetryBanner True ''VEHICLE DATA MISSING'' ''No primary vehicle was reported.''
      | DISCONNECTED \<Rightarrow> TelemetryBanner True ''TELEMETRY LOST'' ''Live vehicle and sensor data are unavailable.'')"

definition emergencyBanner :: "WorldState \<Rightarrow> ForwardHazard option \<Rightarrow> Banner" where
  "emergencyBanner world forward =
     (let state = displayEmergencyState world forward
      in EmergencyBanner (emergencyClass state) (ws_mode world = SIMULATED \<and> state = WARNING)
           (if state = EMERGENCY_STOP then ''EMERGENCY STOP''
            else case forward of Some hazard \<Rightarrow> fh_title hazard | None \<Rightarrow> underscores_to_spaces (level_string state))
           (case displayEmergencyReason world forward of
              Some reason \<Rightarrow> reason | None \<Rightarrow> ''Reduce speed and check the safe corridor.''))"

definition driverBanner ::
    "WorldState \<Rightarrow> bool \<Rightarrow> ConnectionState \<Rightarrow> ForwardHazard option \<Rightarrow> ProximityAlert option \<Rightarrow> Banner" where
  "driverBanner world available connection forward nearestAlert =
     (if \<not> available then telemetryBanner connection
      else if displayEmergencyState world forward \<noteq> SAFE then emergencyBanner world forward
      else case nearestAlert of
        Some (sensor, reading) \<Rightarrow>
          ProximityBanner ''PROXIMITY ALERT'' (sd_label sensor @ '': '' @ toFixed (rr_range_m reading) 2 @ '' m'')
      | None \<Rightarrow> NoBanner)"

definition emergencyControl :: "WorldState \<Rightarrow> bool \<Rightarrow> EmergencyLevel \<Rightarrow> string" where
  "emergencyControl world available state =
     (if \<not> available then ''UNVERIFIED''
      else if em_motor_cut (ws_emergency world) then ''MOTOR CUT''
      else if state = EMERGENCY_STOP then ''STOP REQUEST''
      else if state = SAFE then ''NO STOP REQUEST''
      else level_string state)"

definition nearestProximityAlert ::
    "WorldState \<Rightarrow> RangeReading list \<Rightarrow> SensorDisplaySetting list \<Rightarrow> ProximityAlert option" where
  "nearestProximityAlert world ranges sensorSettings =
     (if ws_mode world = LIVE
      then (case activeProximityAlerts ranges sensorSettings of a # _ \<Rightarrow> Some a | [] \<Rightarrow> None) else None)"

text \<open>The values every part of the view uses: availability, vehicle, trusted ranges and the forward hazard.\<close>

definition vehicleTelemetryAvailable :: "WorldState \<Rightarrow> ConnectionState \<Rightarrow> bool" where
  "vehicleTelemetryAvailable world connection \<longleftrightarrow> connection = CONNECTED \<and> primaryVehicleOrNull world \<noteq> None"

definition driverRanges :: "WorldState \<Rightarrow> ConnectionState \<Rightarrow> RangeReading list" where
  "driverRanges world connection =
     availableRangeReadings (ws_ranges world) (ws_sensor_health world) (vehicleTelemetryAvailable world connection)"

definition forwardHazard :: "WorldState \<Rightarrow> ConnectionState \<Rightarrow> ForwardHazard option \<Rightarrow> ForwardHazard option" where
  "forwardHazard world connection held =
     (if vehicleTelemetryAvailable world connection
      then selectSimulatedForwardHazard world (primaryVehicle world) held else None)"

definition completeCoverage :: "RangeReading list \<Rightarrow> bool" where
  "completeCoverage ranges \<longleftrightarrow> list_all (\<lambda>i. i \<in> rr_sensor_id ` set ranges) TOF_SENSOR_IDS"

definition driverView ::
    "WorldState \<Rightarrow> ConnectionState \<Rightarrow> SensorDisplaySetting list \<Rightarrow> ForwardHazard option \<Rightarrow> DriverView" where
  "driverView world connection sensorSettings forward =
     (let available = vehicleTelemetryAvailable world connection;
          vehicle = primaryVehicle world; ranges = driverRanges world connection;
          points = availableSpatialPoints (ws_spatial_points world) (ws_sensor_health world) available
            (ws_generated_at_ms world) vehicle 4 (Some sensorSettings);
          state = displayEmergencyState world forward;
          coverage = completeCoverage ranges;
          corridor = (if available \<and> coverage then sc_state (ws_safe_corridor world) else GREY);
          confidence = (if available then js_round (sc_confidence (ws_safe_corridor world) * 100) else 0)
      in \<lparr>dv_available = available,
          dv_connection = (if connection = CONNECTED \<and> primaryVehicleOrNull world = None then DISCONNECTED else connection),
          dv_banner = driverBanner world available connection forward (nearestProximityAlert world ranges sensorSettings),
          dv_corridor = corridor,
          dv_corridorLabel = (if corridor = GREY then ''UNVERIFIED'' else corridor_value corridor),
          dv_corridorDetail = corridorDetail corridor,
          dv_corridorBadge = (if \<not> available then ''OFFLINE''
            else if coverage then num_str confidence @ ''%''
            else nat_str (card (rr_sensor_id ` set ranges)) @ ''/'' @ nat_str (length TOF_SENSOR_IDS) @ '' SENSORS''),
          dv_speed = (if available then formatNumber (vp_speed_mps vehicle * Fin 3.6) 1 else ''--''),
          dv_heading = (if available then formatNumber (vp_heading_deg vehicle) 0 @ [CHR 0xB0] else ''--''),
          dv_nearest = (case nearestRange ranges of None \<Rightarrow> ''--'' | Some d \<Rightarrow> formatNumber d 2 @ '' m''),
          dv_control = emergencyControl world available state,
          dv_proximity = proximityWidget points vehicle ranges (ws_sensor_health world) sensorSettings available\<rparr>)"

section \<open>The component\<close>

record DriverDashboard =
  dd_forward :: "ForwardHazard option"
  dd_mapExtended :: bool
  dd_wasAvailable :: "bool option"
  dd_view :: "DriverView option"

definition mountDriver :: DriverDashboard where
  "mountDriver = \<lparr>dd_forward = None, dd_mapExtended = False, dd_wasAvailable = None, dd_view = None\<rparr>"

text \<open>One render with the effect that follows it when the availability has changed.\<close>

definition driver_render ::
    "WorldState \<Rightarrow> ConnectionState \<Rightarrow> SensorDisplaySetting list \<Rightarrow> DriverDashboard \<Rightarrow> DriverDashboard" where
  "driver_render world connection sensorSettings d =
     (let available = vehicleTelemetryAvailable world connection;
          forward = forwardHazard world connection (dd_forward d)
      in d\<lparr>dd_forward := forward, dd_view := Some (driverView world connection sensorSettings forward),
           dd_wasAvailable := Some available,
           dd_mapExtended := (if dd_wasAvailable d \<noteq> Some available \<and> \<not> available then False else dd_mapExtended d)\<rparr>)"

text \<open>The minimap, and its button, is on the screen of an available vehicle only.\<close>

definition mapShown :: "DriverDashboard \<Rightarrow> bool" where
  "mapShown d \<longleftrightarrow> dd_mapExtended d \<and> dd_wasAvailable d = Some True"

datatype DriverEvent =
  DriverRendered WorldState ConnectionState "SensorDisplaySetting list"
| MapExpanded
| MapClosed

fun driver_step :: "DriverEvent \<Rightarrow> DriverDashboard \<Rightarrow> DriverDashboard" where
  "driver_step (DriverRendered world connection settings) d = driver_render world connection settings d"
| "driver_step MapExpanded d = (if dd_wasAvailable d = Some True then d\<lparr>dd_mapExtended := True\<rparr> else d)"
| "driver_step MapClosed d = (if mapShown d then d\<lparr>dd_mapExtended := False\<rparr> else d)"

definition driver_run :: "DriverEvent list \<Rightarrow> DriverDashboard" where
  "driver_run es = fold driver_step es mountDriver"

section \<open>The map\<close>

definition driver_ok :: "DriverDashboard \<Rightarrow> bool" where
  "driver_ok d \<longleftrightarrow> (dd_mapExtended d \<longrightarrow> dd_wasAvailable d = Some True) \<and>
     dd_wasAvailable d = map_option dv_available (dd_view d) \<and>
     (dd_wasAvailable d \<noteq> Some True \<longrightarrow> dd_forward d = None)"

lemma available_view: "dv_available (driverView world connection settings forward) = vehicleTelemetryAvailable world connection"
  by (simp add: driverView_def Let_def)

interpretation driver_machine: machine mountDriver driver_step "\<lambda>_. True" driver_ok
proof
  show "driver_ok mountDriver" by (simp add: driver_ok_def mountDriver_def)
  show "driver_ok (driver_step e d)" if "driver_ok d" for e d
    using that
    by (cases e; cases "dd_view d")
      (auto simp: driver_ok_def driver_render_def Let_def available_view forwardHazard_def mapShown_def)
qed

text \<open>
  The driver's map is on the screen only while the vehicle's telemetry is: after any sequence of renders
  and clicks an opened map belongs to a last render with a connected, reported vehicle, and without
  one no hazard is held over to the next render.
\<close>

theorem driver_map_needs_vehicle:
  "(dd_mapExtended (driver_run es) \<longrightarrow> mapShown (driver_run es) \<and>
      map_option dv_available (dd_view (driver_run es)) = Some True) \<and>
   (map_option dv_available (dd_view (driver_run es)) = Some False \<longrightarrow> dd_forward (driver_run es) = None)"
  using driver_machine.run_inv [of es, folded driver_run_def]
  by (cases "dd_view (driver_run es)") (auto simp: driver_ok_def mapShown_def list_all_iff)

section \<open>What the driver is told\<close>

lemma available_reading:
  "r \<in> set (driverRanges world connection) \<longleftrightarrow>
     vehicleTelemetryAvailable world connection \<and> r \<in> set (ws_ranges world) \<and> isUsableRangeReading r \<and>
     (\<exists>h \<in> set (ws_sensor_health world). sh_sensor_id h = rr_sensor_id r \<and> sh_status h \<in> {HEALTHY, DEGRADED})"
proof -
  have "rr_sensor_id r \<in> set (availableSensorIds (ws_sensor_health world)) \<longleftrightarrow>
      (\<exists>h \<in> set (ws_sensor_health world). sh_sensor_id h = rr_sensor_id r \<and> sh_status h \<in> {HEALTHY, DEGRADED})"
    unfolding availableSensorIds_def by force
  then show ?thesis by (auto simp: driverRanges_def availableRangeReadings_def usableRangeReadings_def)
qed

lemma no_alert_iff:
  "activeProximityAlerts rs ss = [] \<longleftrightarrow> (\<forall>s \<in> set ss. getSensorThreatLevel (latestReading rs (sd_sensor_id s)) s \<noteq> ALERT)"
  using alert_markers [of rs ss] by (auto simp: marker_alert)

text \<open>Every required sensor has a trusted reading.\<close>

definition fully_covered :: "WorldState \<Rightarrow> bool" where
  "fully_covered world \<longleftrightarrow> (\<forall>i \<in> set TOF_SENSOR_IDS. \<exists>r \<in> set (ws_ranges world). rr_sensor_id r = i \<and> isUsableRangeReading r \<and>
     (\<exists>h \<in> set (ws_sensor_health world). sh_sensor_id h = i \<and> sh_status h \<in> {HEALTHY, DEGRADED}))"

lemma coverage_sound: "completeCoverage (driverRanges world connection) \<Longrightarrow> fully_covered world"
  unfolding fully_covered_def
proof
  fix i assume covered: "completeCoverage (driverRanges world connection)" and i: "i \<in> set TOF_SENSOR_IDS"
  have "i \<in> rr_sensor_id ` set (driverRanges world connection)"
    using covered i unfolding completeCoverage_def list_all_iff by (rule bspec)
  then obtain r where r: "r \<in> set (driverRanges world connection)" "i = rr_sensor_id r" by (rule imageE)
  show "\<exists>r \<in> set (ws_ranges world). rr_sensor_id r = i \<and> isUsableRangeReading r \<and>
      (\<exists>h \<in> set (ws_sensor_health world). sh_sensor_id h = i \<and> sh_status h \<in> {HEALTHY, DEGRADED})"
    using r(1) unfolding available_reading r(2) by (intro bexI [of _ r]) (simp_all only: simp_thms)
qed

lemma forward_simulated: "forwardHazard world connection held \<noteq> None \<Longrightarrow> ws_mode world = SIMULATED"
  by (auto simp: forwardHazard_def selectSimulatedForwardHazard_def split: if_splits)

lemma no_banner_iff:
  "driverBanner world available connection forward alert = NoBanner \<longleftrightarrow>
     available \<and> displayEmergencyState world forward = SAFE \<and> alert = None"
  by (auto simp: driverBanner_def telemetryBanner_def emergencyBanner_def Let_def split: ConnectionState.splits option.splits)

lemma offline_ranges: "\<not> vehicleTelemetryAvailable world connection \<Longrightarrow> driverRanges world connection = []"
  by (simp add: driverRanges_def availableRangeReadings_def)

lemma offline_widget: "tof_returns (px_plot (proximityWidget points vehicle ranges health settings False)) = []"
  by (simp add: proximityWidget_def tofRangePlot_def trustedPoints_def Let_def)

text \<open>
  C17. What the driver is told is sound, whatever hazard was held before. No banner is shown only for a connected,
  reported vehicle without an emergency stop, and then in the live mode the emergency state is safe and no
  sensor's latest trusted reading is within its alert distance, and in a simulation there is no hazard
  ahead. The corridor is green only if the snapshot says so and each of the five range sensors has a
  usable reading and a working health report. A motor cut is always named, an emergency stop always
  heads the banner, and without a reported vehicle the driver sees a telemetry banner and no value at all.
\<close>

theorem driver_screen_sound:
  assumes "dd_view (driver_render world connection settings d) = Some v"
  defines "available \<equiv> connection = CONNECTED \<and> primaryVehicleOrNull world \<noteq> None"
  shows "(dv_banner v = NoBanner \<longrightarrow> available \<and> em_state (ws_emergency world) \<noteq> EMERGENCY_STOP \<and>
      (ws_mode world = LIVE \<longrightarrow> em_state (ws_emergency world) = SAFE \<and>
         (\<forall>s \<in> set settings. getSensorThreatLevel (latestReading (driverRanges world connection) (sd_sensor_id s)) s \<noteq> ALERT)) \<and>
      (ws_mode world = SIMULATED \<longrightarrow> dd_forward (driver_render world connection settings d) = None)) \<and>
    (dv_corridor v = GREEN \<longrightarrow> available \<and> sc_state (ws_safe_corridor world) = GREEN \<and> fully_covered world) \<and>
    (dv_control v = ''MOTOR CUT'' \<longleftrightarrow> available \<and> em_motor_cut (ws_emergency world)) \<and>
    (available \<and> em_state (ws_emergency world) = EMERGENCY_STOP \<longrightarrow>
      (\<exists>style sim detail. dv_banner v = EmergencyBanner style sim ''EMERGENCY STOP'' detail)) \<and>
    (\<not> available \<longrightarrow> (\<exists>loud title detail. dv_banner v = TelemetryBanner loud title detail) \<and>
      dv_corridorLabel v = ''UNVERIFIED'' \<and> dv_speed v = ''--'' \<and> dv_heading v = ''--'' \<and> dv_nearest v = ''--'' \<and>
      dv_control v = ''UNVERIFIED'' \<and> tof_returns (px_plot (dv_proximity v)) = [])"
proof -
  define forward where "forward = forwardHazard world connection (dd_forward d)"
  have v: "v = driverView world connection settings forward"
    and held: "dd_forward (driver_render world connection settings d) = forward"
    using assms(1) by (simp_all add: driver_render_def Let_def forward_def)
  have available: "vehicleTelemetryAvailable world connection = available"
    by (simp add: available_def vehicleTelemetryAvailable_def)
  note view = v driverView_def Let_def available
  have banner: "dv_banner v = driverBanner world available connection forward
      (nearestProximityAlert world (driverRanges world connection) settings)"
    by (simp add: view)
  have quiet: "available \<and> em_state (ws_emergency world) \<noteq> EMERGENCY_STOP \<and>
      (ws_mode world = LIVE \<longrightarrow> em_state (ws_emergency world) = SAFE \<and> activeProximityAlerts (driverRanges world connection) settings = []) \<and>
      (ws_mode world = SIMULATED \<longrightarrow> forward = None)" if "dv_banner v = NoBanner"
    using that unfolding banner no_banner_iff
    by (auto simp: displayEmergencyState_def nearestProximityAlert_def split: if_splits option.splits list.splits)
  have green: "available \<and> sc_state (ws_safe_corridor world) = GREEN \<and> fully_covered world" if "dv_corridor v = GREEN"
    using that coverage_sound by (auto simp: view split: if_splits)
  have cut: "dv_control v = ''MOTOR CUT'' \<longleftrightarrow> available \<and> em_motor_cut (ws_emergency world)"
    by (cases "displayEmergencyState world forward") (auto simp: view emergencyControl_def)
  have stop: "\<exists>style sim detail. dv_banner v = EmergencyBanner style sim ''EMERGENCY STOP'' detail"
    if "available" "em_state (ws_emergency world) = EMERGENCY_STOP"
    using that by (simp add: banner driverBanner_def emergencyBanner_def displayEmergencyState_def Let_def ex_bool_eq)
  have offline: "(\<exists>loud title detail. dv_banner v = TelemetryBanner loud title detail) \<and>
      dv_corridorLabel v = ''UNVERIFIED'' \<and> dv_speed v = ''--'' \<and> dv_heading v = ''--'' \<and> dv_nearest v = ''--'' \<and>
      dv_control v = ''UNVERIFIED'' \<and> tof_returns (px_plot (dv_proximity v)) = []" if "\<not> available"
    using that offline_ranges [of world connection] unfolding banner
    by (simp add: view driverBanner_def telemetryBanner_def emergencyControl_def offline_widget nearestRange_def
        usableRangeReadings_def ex_bool_eq split: ConnectionState.split)
  show ?thesis unfolding held using quiet green cut stop offline by (simp add: no_alert_iff)
qed

theorem driver_screen_sound_witness:
  "\<exists>v. dd_view (driver_render sampleWorld CONNECTED [frontSetting] mountDriver) = Some v \<and> dv_control v = ''MOTOR CUT''"
proof -
  obtain v where v: "dd_view (driver_render sampleWorld CONNECTED [frontSetting] mountDriver) = Some v"
    by (simp add: driver_render_def Let_def)
  have "primaryVehicleOrNull sampleWorld \<noteq> None" "em_motor_cut (ws_emergency sampleWorld)"
    by (simp_all add: primaryVehicleOrNull_def sampleWorld_def defaultVehicle_def)
  with v show ?thesis using driver_screen_sound [OF v] by simp
qed

end
