(* ===== verification/SpatialDashboard.thy ===== *)
theory SpatialDashboard
  imports DriverDashboard MappingFrame
begin

text \<open>
  The spatial dashboard: the alert of \<^verbatim>\<open>frontend/src/spatial/SpatialDashboard.tsx\<close>, and from
  \<^verbatim>\<open>spatial/PointCloudMapping.tsx\<close> the activity line of the haul and the loading of the preview.
\<close>

section \<open>The alert\<close>

definition recentReading :: "WorldState \<Rightarrow> RangeReading \<Rightarrow> bool" where
  "recentReading world reading \<longleftrightarrow>
     ws_generated_at_ms world - rr_timestamp_ms reading \<le> 2000 \<and> rr_timestamp_ms reading \<le> ws_generated_at_ms world"

definition spatialRanges :: "WorldState \<Rightarrow> ConnectionState \<Rightarrow> RangeReading list" where
  "spatialRanges world connection = filter (recentReading world) (driverRanges world connection)"

text \<open>The first configured sensor in alert, with its reading.\<close>

definition spatialHazard ::
    "WorldState \<Rightarrow> ConnectionState \<Rightarrow> SensorDisplaySetting list \<Rightarrow> (SensorDisplaySetting \<times> RangeReading option) option" where
  "spatialHazard world connection sensorSettings =
     (if ws_mode world = SIMULATED then None
      else find (\<lambda>(sensor, reading). getSensorThreatLevel reading sensor = ALERT)
        (map (\<lambda>sensor. (sensor, find (\<lambda>r. rr_sensor_id r = sd_sensor_id sensor) (spatialRanges world connection)))
          sensorSettings))"

definition backendWarning :: "WorldState \<Rightarrow> ConnectionState \<Rightarrow> bool" where
  "backendWarning world connection \<longleftrightarrow> vehicleTelemetryAvailable world connection \<and>
     (if ws_mode world = SIMULATED then em_state (ws_emergency world) = EMERGENCY_STOP
      else em_state (ws_emergency world) \<noteq> SAFE)"

record SpatialAlert =
  sal_title :: string
  sal_detail :: "string option"
  sal_simulated :: bool

definition spatialAlert ::
    "WorldState \<Rightarrow> ConnectionState \<Rightarrow> SensorDisplaySetting list \<Rightarrow> ForwardHazard option \<Rightarrow> SpatialAlert option" where
  "spatialAlert world connection sensorSettings forward =
     (let hazard = spatialHazard world connection sensorSettings;
          backend = backendWarning world connection;
          emergency = (backend \<and> em_state (ws_emergency world) \<noteq> WARNING);
          title = (if emergency
            then if em_state (ws_emergency world) = EMERGENCY_STOP then ''Automatic Emergency Stop Simulation''
                 else ''Critical proximity''
            else case forward of
              Some f \<Rightarrow> fh_title f
            | None \<Rightarrow> (case hazard of
                Some (sensor, _) \<Rightarrow> ''Proximity hazard: '' @ sd_label sensor
              | None \<Rightarrow> ''Warning active''));
          detail = (if emergency then em_reason (ws_emergency world)
            else case forward of
              Some f \<Rightarrow> Some (fh_detail f)
            | None \<Rightarrow> (case hazard of
                Some (_, reading) \<Rightarrow> map_option (\<lambda>r. toFixed (rr_range_m r) 2 @ '' m from sensor. Check the surroundings.'') reading
              | None \<Rightarrow> em_reason (ws_emergency world)))
      in if hazard \<noteq> None \<or> forward \<noteq> None \<or> backend
         then Some \<lparr>sal_title = title, sal_detail = detail, sal_simulated = (ws_mode world = SIMULATED)\<rparr> else None)"

text \<open>A render keeps the forward hazard in a ref, as the driver's dashboard does.\<close>

definition spatial_render ::
    "WorldState \<Rightarrow> ConnectionState \<Rightarrow> SensorDisplaySetting list \<Rightarrow> ForwardHazard option \<Rightarrow>
     SpatialAlert option \<times> ForwardHazard option" where
  "spatial_render world connection sensorSettings held =
     (let forward = forwardHazard world connection held
      in (spatialAlert world connection sensorSettings forward, forward))"

section \<open>The activity of the haul\<close>

definition haulPhaseLabels :: "(string \<times> string) list" where
  "haulPhaseLabels = [(''QUEUED'', ''Waiting to load''), (''LOADING'', ''Loading iron ore''),
     (''HAULING'', ''Hauling to crusher''), (''REVERSING'', ''Reversing into tipping bay''),
     (''DUMPING'', ''Tipping iron ore''), (''LOWERING'', ''Lowering empty bed''),
     (''EXITING'', ''Leaving tipping bay''), (''RETURNING'', ''Returning to pit floor'')]"

definition progressPhases :: "string set" where
  "progressPhases = {''LOADING'', ''REVERSING'', ''DUMPING'', ''LOWERING'', ''EXITING''}"

record HaulActivity =
  act_label :: string
  act_phase :: string
  act_speedKmh :: jsnum
  act_progress :: "jsnum option"

definition haulActivity :: "WorldState \<Rightarrow> VehiclePose \<Rightarrow> bool \<Rightarrow> HaulActivity option" where
  "haulActivity world vehicle online =
     (if \<not> online \<or> ws_mode world \<noteq> SIMULATED \<or> vp_position_confidence vehicle < Fin 0.5 then None
      else map_option (\<lambda>haul.
        let phase = hv_phase haul
        in \<lparr>act_label =
             (if em_state (ws_emergency world) = EMERGENCY_STOP then ''Emergency stop active''
              else if \<not> sim_running (ws_simulation world) then ''Fleet paused''
              else case map_of haulPhaseLabels phase of Some label \<Rightarrow> label | None \<Rightarrow> ''Haul in progress''),
            act_phase = phase, act_speedKmh = js_round (js_max 0 (vp_speed_mps vehicle) * Fin 3.6),
            act_progress = (if phase \<in> progressPhases \<and> sim_running (ws_simulation world)
              then Some (js_round (js_max 0 (js_min 1 (hv_phase_progress haul)) * 100)) else None)\<rparr>)
        (vp_haul vehicle))"

section \<open>The preview\<close>

text \<open>
  The request for the preview is shared by all instances of the component; \<open>NoRequest\<close> is also the state
  after a failure. \<open>readPreview\<close> is what the response handler does; \<open>cast\<close> reads the checked body.
\<close>

datatype PreviewRequest = NoRequest | PreviewPending | PreviewLoaded SpatialPreview

definition readPreview :: "(jsval \<Rightarrow> SpatialPreview) \<Rightarrow> Response \<Rightarrow> string + SpatialPreview" where
  "readPreview cast response =
     (if \<not> rsp_ok response then Inl ''Preview unavailable''
      else case rsp_json response of
        Inl err \<Rightarrow> Inl err
      | Inr body \<Rightarrow>
          if js_get body ''source'' \<noteq> JStr ''SIMULATED'' \<or>
             js_get body ''coordinate_frame'' \<noteq> JStr ''VEHICLE_X_RIGHT_Y_FORWARD_Z_UP'' \<or>
             \<not> is_array (js_get body ''points'') \<or> \<not> is_array (js_get body ''entities'')
          then Inl ''Invalid preview'' else Inr (cast body))"

record PointCloud =
  pc_request :: PreviewRequest
  pc_needs :: "bool option"
  pc_subscribed :: bool
  pc_preview :: "SpatialPreview option"
  pc_previewError :: "string option"

definition mountPointCloud :: "PreviewRequest \<Rightarrow> PointCloud" where
  "mountPointCloud request =
     \<lparr>pc_request = request, pc_needs = None, pc_subscribed = False, pc_preview = None, pc_previewError = None\<rparr>"

text \<open>The effect: it runs when the need for the preview has changed, and cancels the previous run.\<close>

definition needPreview :: "bool \<Rightarrow> PointCloud \<Rightarrow> PointCloud" where
  "needPreview needs c =
     (if pc_needs c = Some needs then c
      else c\<lparr>pc_needs := Some needs, pc_subscribed := needs,
        pc_request := (if needs \<and> pc_request c = NoRequest then PreviewPending else pc_request c)\<rparr>)"

text \<open>The response settles the shared request; a resolved request reaches a subscriber in a later task.\<close>

definition settlePreview :: "(string + SpatialPreview) \<Rightarrow> PointCloud \<Rightarrow> PointCloud" where
  "settlePreview result c =
     (if pc_request c \<noteq> PreviewPending then c
      else case result of
        Inr preview \<Rightarrow> c\<lparr>pc_request := PreviewLoaded preview\<rparr>
      | Inl _ \<Rightarrow> c\<lparr>pc_request := NoRequest, pc_subscribed := False,
          pc_previewError := (if pc_subscribed c then Some ''Surroundings unavailable'' else pc_previewError c)\<rparr>)"

definition deliverPreview :: "PointCloud \<Rightarrow> PointCloud" where
  "deliverPreview c =
     (case pc_request c of
        PreviewLoaded preview \<Rightarrow>
          if pc_subscribed c then c\<lparr>pc_preview := Some preview, pc_previewError := None, pc_subscribed := False\<rparr> else c
      | _ \<Rightarrow> c)"

datatype PreviewEvent = NeedChanged bool | PreviewSettled "string + SpatialPreview" | PreviewDelivered

fun preview_step :: "PreviewEvent \<Rightarrow> PointCloud \<Rightarrow> PointCloud" where
  "preview_step (NeedChanged needs) c = needPreview needs c"
| "preview_step (PreviewSettled result) c = settlePreview result c"
| "preview_step PreviewDelivered c = deliverPreview c"

section \<open>Both dashboards raise the same alarms\<close>

lemma find_latest:
  assumes "distinct (map rr_sensor_id rs)"
  shows "find (\<lambda>r. rr_sensor_id r = i) rs = latestReading rs i"
proof (cases "latestReading rs i")
  case None
  then have "find (\<lambda>r. rr_sensor_id r = i) rs = None" unfolding latest_None_iff by (auto simp: find_None_iff)
  with None show ?thesis by simp
next
  case (Some r)
  then have "find (\<lambda>r. rr_sensor_id r = i) rs \<noteq> None"
    using latest_Some_D [OF Some] by (auto simp: find_None_iff)
  then obtain r' where r': "find (\<lambda>r. rr_sensor_id r = i) rs = Some r'" by blast
  then have "r' \<in> set rs" "rr_sensor_id r' = i" by (auto simp: find_Some_iff)
  then have "r' = r"
    using latest_Some_D [OF Some] inj_onD [of rr_sensor_id "set rs" r' r] assms by (simp add: distinct_map)
  with r' Some show ?thesis by simp
qed

lemma driver_ranges_subset: "set (driverRanges world connection) \<subseteq> set (ws_ranges world)"
  by (auto simp: available_reading)

lemma driver_ranges_distinct:
  "distinct (map rr_sensor_id (ws_ranges world)) \<Longrightarrow> distinct (map rr_sensor_id (driverRanges world connection))"
  by (simp add: driverRanges_def availableRangeReadings_def usableRangeReadings_def distinct_map_filter)

lemma hazard_active:
  assumes "distinct (map rr_sensor_id (ws_ranges world))" "\<forall>r \<in> set (ws_ranges world). recentReading world r"
    and "ws_mode world \<noteq> SIMULATED"
  shows "spatialHazard world connection settings \<noteq> None \<longleftrightarrow>
    activeProximityAlerts (driverRanges world connection) settings \<noteq> []"
proof -
  have ranges: "spatialRanges world connection = driverRanges world connection"
    unfolding spatialRanges_def using assms(2) driver_ranges_subset by (intro filter_True) blast
  show ?thesis
    using assms(3) find_latest [OF driver_ranges_distinct [OF assms(1), of connection]]
    by (simp add: spatialHazard_def ranges find_None_iff no_alert_iff)
qed

definition alarmed :: "Banner \<Rightarrow> bool" where
  "alarmed b \<longleftrightarrow> (case b of EmergencyBanner _ _ _ _ \<Rightarrow> True | ProximityBanner _ _ \<Rightarrow> True | _ \<Rightarrow> False)"

lemma alarmed_iff:
  "alarmed (driverBanner world available connection forward alert) \<longleftrightarrow>
     available \<and> (displayEmergencyState world forward \<noteq> SAFE \<or> alert \<noteq> None)"
  by (auto simp: alarmed_def driverBanner_def telemetryBanner_def emergencyBanner_def Let_def
      split: ConnectionState.splits option.splits)

text \<open>
  C18. The driver's dashboard and the spatial dashboard raise an alarm for the same snapshots: with one reading per
  sensor, none of them older than two seconds or from the future, and outside a replay, the spatial view
  shows an alert exactly when the driver's banner is an emergency or a proximity alert, for every connection,
  settings and hazard held before.
\<close>

theorem alarms_agree:
  assumes "distinct (map rr_sensor_id (ws_ranges world))" "\<forall>r \<in> set (ws_ranges world). recentReading world r"
    and "ws_mode world \<noteq> REPLAY"
    and "dd_view (driver_render world connection settings d) = Some v"
  shows "fst (spatial_render world connection settings (dd_forward d)) \<noteq> None \<longleftrightarrow> alarmed (dv_banner v)"
proof -
  define forward where "forward = forwardHazard world connection (dd_forward d)"
  have banner: "dv_banner v = driverBanner world (vehicleTelemetryAvailable world connection) connection forward
      (nearestProximityAlert world (driverRanges world connection) settings)"
    using assms(4) by (auto simp: driver_render_def Let_def forward_def driverView_def)
  have alert: "fst (spatial_render world connection settings (dd_forward d)) \<noteq> None \<longleftrightarrow>
      spatialHazard world connection settings \<noteq> None \<or> forward \<noteq> None \<or> backendWarning world connection"
    by (simp add: spatial_render_def spatialAlert_def Let_def forward_def)
  have available: "forward \<noteq> None \<Longrightarrow> vehicleTelemetryAvailable world connection \<and> ws_mode world = SIMULATED"
    unfolding forward_def using forward_simulated by (auto simp: forwardHazard_def split: if_splits)
  have offline: "\<not> vehicleTelemetryAvailable world connection \<Longrightarrow> activeProximityAlerts (driverRanges world connection) settings = []"
    by (simp add: offline_ranges activeProximityAlerts_def latestReading_def)
  consider "ws_mode world = SIMULATED" | "ws_mode world = LIVE" using assms(3) by (cases "ws_mode world") auto
  then show ?thesis
  proof cases
    case 1
    then show ?thesis
      unfolding alert banner alarmed_iff using available
      by (auto simp: spatialHazard_def backendWarning_def displayEmergencyState_def nearestProximityAlert_def split: option.splits)
  next
    case 2
    then have "spatialHazard world connection settings \<noteq> None \<longleftrightarrow> activeProximityAlerts (driverRanges world connection) settings \<noteq> []"
      by (intro hazard_active [OF assms(1,2)]) simp
    moreover have "forward = None" using available 2 by (cases forward) auto
    ultimately show ?thesis
      unfolding alert banner alarmed_iff using 2 offline
      by (auto simp: backendWarning_def displayEmergencyState_def nearestProximityAlert_def split: list.splits)
  qed
qed

theorem alarms_agree_witness:
  "fst (spatial_render sampleWorld CONNECTED [frontSetting] None) \<noteq> None"
proof -
  obtain v where v: "dd_view (driver_render sampleWorld CONNECTED [frontSetting] mountDriver) = Some v"
    by (simp add: driver_render_def Let_def)
  have world: "vehicleTelemetryAvailable sampleWorld CONNECTED" "em_state (ws_emergency sampleWorld) = EMERGENCY_STOP"
    by (simp_all add: vehicleTelemetryAvailable_def primaryVehicleOrNull_def sampleWorld_def defaultVehicle_def)
  then have "alarmed (dv_banner v)"
    using v by (auto simp: driver_render_def Let_def driverView_def alarmed_iff displayEmergencyState_def)
  then show ?thesis
    using alarms_agree [OF _ _ _ v] by (simp add: sampleWorld_def mountDriver_def)
qed

end
