(* ===== verification/SupervisorDashboard.thy ===== *)
theory SupervisorDashboard
  imports Supervisor
begin

text \<open>
  The supervisor's workspace: the section and the selected vehicle of
  \<^verbatim>\<open>frontend/src/supervisor/SupervisorDashboard.tsx\<close> as a machine over the view model, its overview
  figures and lists, the sensor panel of \<^verbatim>\<open>supervisor/VehicleSensors.tsx\<close> and the age texts of the cards.
\<close>

section \<open>Ages\<close>

definition age_text :: "string \<Rightarrow> jsnum \<Rightarrow> string" where
  "age_text suffix ageMs =
     (if ageMs < 1000 then ''Now''
      else if ageMs < 60000 then num_str (js_round (ageMs / 1000)) @ ''s'' @ suffix
      else num_str (js_round (ageMs / 60000)) @ ''m'' @ suffix)"

definition formatTelemetryAge :: "jsnum \<Rightarrow> string" where
  "formatTelemetryAge ageMs = (if \<not> isFinite ageMs \<or> ageMs < 0 then ''Unknown'' else age_text '' ago'' ageMs)"

text \<open>\<^verbatim>\<open>formatAge\<close> of \<^verbatim>\<open>components/SensorHealthList.tsx\<close>; a time of zero or NaN is falsy.\<close>

definition formatAge :: "jsnum option \<Rightarrow> jsnum \<Rightarrow> string" where
  "formatAge referenceTimestampMs lastUpdateMs =
     (case referenceTimestampMs of
        None \<Rightarrow> ''No update''
      | Some t \<Rightarrow>
          if t \<in> {0, NaN} \<or> lastUpdateMs \<in> {0, NaN} then ''No update''
          else age_text '''' (js_max 0 (t - lastUpdateMs)))"

section \<open>The panel of truck sensors\<close>

record TruckSensors =
  trs_id :: string
  trs_online :: bool
  trs_coordinates :: "string option"
  trs_status :: string
  trs_motion :: "string option"
  trs_load :: "string option"
  trs_scale :: "string option"

definition gpsCoordinates :: "VehicleTelemetry option \<Rightarrow> string option" where
  "gpsCoordinates sample =
     (case sample of
        None \<Rightarrow> None
      | Some t \<Rightarrow>
          let gps = vt_gps t
          in if vt_online t \<and> 0 < gps_bytes gps \<and> gps_fix gps
             then (case (gps_lat gps, gps_lon gps) of
                 (Some lat, Some lon) \<Rightarrow> Some (toFixed lat 6 @ '', '' @ toFixed lon 6)
               | _ \<Rightarrow> None)
             else None)"

definition gpsStatus :: "VehicleTelemetry option \<Rightarrow> string" where
  "gpsStatus sample =
     (case sample of
        None \<Rightarrow> ''Waiting for telemetry''
      | Some t \<Rightarrow>
          let gps = vt_gps t
          in if \<not> vt_online t then ''Waiting for telemetry''
             else if \<not> 0 < gps_bytes gps then ''GPS data not detected''
             else if gpsCoordinates sample \<noteq> None
               then num_str (gps_sats gps) @ '' satellites '' @ [CHR 0xB7] @ '' HDOP '' @
                 (case gps_hdop gps of Some h \<Rightarrow> toFixed h 1 | None \<Rightarrow> ''unknown'')
             else ''Receiving GPS '' @ [CHR 0xB7] @ '' '' @ num_str (gps_sats gps) @ '' satellites'')"

definition gpsMotion :: "VehicleTelemetry option \<Rightarrow> string option" where
  "gpsMotion sample =
     (if gpsCoordinates sample = None then None
      else map_option (\<lambda>t. ''Speed '' @ (case gps_speed_mps (vt_gps t) of Some s \<Rightarrow> toFixed s 2 | None \<Rightarrow> ''unknown'') @
        '' m/s '' @ [CHR 0xB7] @ '' Fix age '' @ num_str (case gps_age (vt_gps t) of Some a \<Rightarrow> a | None \<Rightarrow> 0) @ '' ms'') sample)"

definition loadText :: "VehicleTelemetry option \<Rightarrow> string" where
  "loadText sample =
     (case Option.bind sample (\<lambda>t. if vt_online t then vt_load t else None) of
        None \<Rightarrow> ''Unavailable''
      | Some load \<Rightarrow>
          if \<not> load_ready load then ''Unavailable''
          else case (load_calibrated load, load_kg load) of
            (True, Some kg) \<Rightarrow> toFixed kg 2 @ '' kg''
          | _ \<Rightarrow> if load_taring load then ''Taring unloaded platform''
              else if load_tared load then ''Tared, reference mass needed'' else ''Not tared'')"

definition scaleText :: "VehicleTelemetry option \<Rightarrow> string option" where
  "scaleText sample =
     (case Option.bind sample (\<lambda>t. if vt_online t then vt_load t else None) of
        None \<Rightarrow> None
      | Some load \<Rightarrow>
          if load_ready load \<and> \<not> load_calibrated load
          then Some (''Net scale reading: '' @ (case load_net_raw load of Some n \<Rightarrow> num_str n | None \<Rightarrow> ''--''))
          else None)"

definition truckSensors :: "WorldState \<Rightarrow> string \<Rightarrow> bool \<Rightarrow> TruckSensors" where
  "truckSensors world i first =
     (let sample = Option.bind (ws_vehicle_telemetry world) (find (\<lambda>t. vt_vehicle_id t = i))
      in \<lparr>trs_id = i, trs_online = (case sample of Some t \<Rightarrow> vt_online t | None \<Rightarrow> False),
          trs_coordinates = gpsCoordinates sample, trs_status = gpsStatus sample, trs_motion = gpsMotion sample,
          trs_load = (if first then Some (loadText sample) else None),
          trs_scale = (if first then scaleText sample else None)\<rparr>)"

definition vehicleSensors :: "WorldState \<Rightarrow> TruckSensors list option" where
  "vehicleSensors world =
     (if ws_mode world \<noteq> LIVE then None
      else Some [truckSensors world ''DUMPER_01'' True, truckSensors world ''DUMPER_02'' False])"

section \<open>The workspace\<close>

datatype SupervisorSection = OVERVIEW | FLEET | EFFICIENCY | ALERTS | NETWORK

record SupervisorDashboard =
  sd_section :: SupervisorSection
  sd_selected :: "string option"
  sd_model :: SupervisorViewModel

text \<open>The effect that keeps the selection in the fleet.\<close>

definition keepSelection :: "SupervisorViewModel \<Rightarrow> string option \<Rightarrow> string option" where
  "keepSelection model selected =
     (if svm_vehicles model = [] then None
      else if list_ex (\<lambda>v. Some (sv_vehicleId v) = selected) (svm_vehicles model) then selected
      else Some (sv_vehicleId (case svm_primary model of
        Some primary \<Rightarrow> pts_vehicle primary | None \<Rightarrow> hd (svm_vehicles model))))"

definition runEffect :: "SupervisorDashboard \<Rightarrow> SupervisorDashboard" where
  "runEffect d = d\<lparr>sd_selected := keepSelection (sd_model d) (sd_selected d)\<rparr>"

definition mountSupervisor :: "(string \<Rightarrow> string \<Rightarrow> int) \<Rightarrow> WorldState \<Rightarrow> SupervisorDashboard" where
  "mountSupervisor lc world = runEffect
     \<lparr>sd_section = (if ws_mode world = SIMULATED \<and> ws_haul_route world \<noteq> None then FLEET else OVERVIEW),
      sd_selected = Some (ws_primary_vehicle_id world), sd_model = createSupervisorViewModel lc world\<rparr>"

datatype SupervisorEvent =
  SnapshotShown WorldState
| SectionChosen SupervisorSection
| VehicleSelected string
| VehicleOpened string

fun supervisor_step :: "(string \<Rightarrow> string \<Rightarrow> int) \<Rightarrow> SupervisorEvent \<Rightarrow> SupervisorDashboard \<Rightarrow> SupervisorDashboard" where
  "supervisor_step lc (SnapshotShown world) d = runEffect (d\<lparr>sd_model := createSupervisorViewModel lc world\<rparr>)"
| "supervisor_step lc (SectionChosen section) d = d\<lparr>sd_section := section\<rparr>"
| "supervisor_step lc (VehicleSelected i) d = runEffect (d\<lparr>sd_selected := Some i\<rparr>)"
| "supervisor_step lc (VehicleOpened i) d = runEffect (d\<lparr>sd_selected := Some i, sd_section := FLEET\<rparr>)"

definition supervisor_run :: "(string \<Rightarrow> string \<Rightarrow> int) \<Rightarrow> WorldState \<Rightarrow> SupervisorEvent list \<Rightarrow> SupervisorDashboard" where
  "supervisor_run lc world es = fold (supervisor_step lc) es (mountSupervisor lc world)"

definition selectedVehicle :: "SupervisorDashboard \<Rightarrow> SupervisorVehicle option" where
  "selectedVehicle d = find (\<lambda>v. Some (sv_vehicleId v) = sd_selected d) (svm_vehicles (sd_model d))"

section \<open>The overview\<close>

record OverviewFigures =
  ovf_available :: string
  ovf_availableText :: string
  ovf_attention :: nat
  ovf_attentionText :: string
  ovf_critical :: nat
  ovf_criticalText :: string
  ovf_visibility :: string
  ovf_visibilityText :: string

definition overviewFigures :: "SupervisorViewModel \<Rightarrow> OverviewFigures" where
  "overviewFigures model =
     (let counts = svm_counts model;
          criticalIssues = length (filter (\<lambda>i. si_severity i = ISSUE_CRITICAL) (svm_issues model));
          attentionCount = cnt_attention counts + cnt_critical counts + cnt_lost counts + cnt_unknown counts
      in \<lparr>ovf_available = nat_str (cnt_online counts) @ '' / '' @ nat_str (cnt_total counts),
          ovf_availableText = (if cnt_online counts = cnt_total counts then ''All known vehicles reporting''
            else nat_str (cnt_total counts - cnt_online counts) @ '' awaiting telemetry''),
          ovf_attention = attentionCount,
          ovf_attentionText = (if attentionCount = 0 then ''No fleet exceptions'' else ''Vehicles outside nominal state''),
          ovf_critical = criticalIssues,
          ovf_criticalText = (if criticalIssues = 0 then ''No critical exceptions'' else ''Immediate review required''),
          ovf_visibility = (case svm_primary model of
            Some p \<Rightarrow> num_str (pts_visibilityPercent p) @ ''%'' | None \<Rightarrow> ''--''),
          ovf_visibilityText = (case svm_primary model of
            Some p \<Rightarrow> underscores_to_spaces (visibility_string (pts_visibilityState p)) | None \<Rightarrow> ''Unavailable'')\<rparr>)"

definition overviewIssues :: "SupervisorViewModel \<Rightarrow> SupervisorIssue list" where
  "overviewIssues model = take 5 (svm_issues model)"

definition overviewHistory :: "SupervisorViewModel \<Rightarrow> AlertEvent list" where
  "overviewHistory model = take 3 (svm_history model)"

section \<open>The selection stays in the fleet\<close>

definition selection_ok :: "SupervisorDashboard \<Rightarrow> bool" where
  "selection_ok d \<longleftrightarrow> keepSelection (sd_model d) (sd_selected d) = sd_selected d \<and>
     (\<forall>p. svm_primary (sd_model d) = Some p \<longrightarrow> pts_vehicle p \<in> set (svm_vehicles (sd_model d)))"

lemma primary_listed:
  assumes "svm_primary (createSupervisorViewModel lc world) = Some p"
  shows "pts_vehicle p \<in> set (svm_vehicles (createSupervisorViewModel lc world))"
proof -
  obtain v where "find sv_isPrimary (svm_vehicles (createSupervisorViewModel lc world)) = Some v" "pts_vehicle p = v"
    using assms by (auto simp: createSupervisorViewModel_def primarySummary_def Let_def split: option.splits)
  then show ?thesis unfolding find_Some_iff by (metis nth_mem)
qed

lemma keep_idem:
  assumes "\<forall>p. svm_primary m = Some p \<longrightarrow> pts_vehicle p \<in> set (svm_vehicles m)"
  shows "keepSelection m (keepSelection m i) = keepSelection m i"
proof -
  have "\<exists>v \<in> set (svm_vehicles m). sv_vehicleId v =
      sv_vehicleId (case svm_primary m of Some primary \<Rightarrow> pts_vehicle primary | None \<Rightarrow> hd (svm_vehicles m))"
    if "svm_vehicles m \<noteq> []"
    using that assms by (cases "svm_primary m") auto
  then show ?thesis by (auto simp: keepSelection_def list_ex_iff)
qed

lemma selection_effect: "selection_ok (runEffect d) \<longleftrightarrow>
    (\<forall>p. svm_primary (sd_model d) = Some p \<longrightarrow> pts_vehicle p \<in> set (svm_vehicles (sd_model d)))"
  using keep_idem by (auto simp: selection_ok_def runEffect_def)

interpretation supervisor_machine: machine "mountSupervisor lc world" "supervisor_step lc" "\<lambda>_. True" selection_ok
proof
  show "selection_ok (mountSupervisor lc world)"
    by (simp add: mountSupervisor_def selection_effect primary_listed)
  fix e and d :: SupervisorDashboard
  assume ok: "selection_ok d"
  show "selection_ok (supervisor_step lc e d)"
  proof (cases e)
    case (SectionChosen chosen)
    then show ?thesis using ok by (simp add: selection_ok_def)
  next
    case (SnapshotShown world)
    then show ?thesis by (simp add: selection_effect primary_listed)
  next
    case (VehicleSelected i)
    with ok show ?thesis by (simp add: selection_effect) (simp add: selection_ok_def)
  next
    case (VehicleOpened i)
    with ok show ?thesis by (simp add: selection_effect) (simp add: selection_ok_def)
  qed
qed

lemma selection_filled:
  assumes "selection_ok d"
  shows "(selectedVehicle d = None \<longleftrightarrow> svm_vehicles (sd_model d) = []) \<and>
    map_option sv_vehicleId (selectedVehicle d) = sd_selected d \<and> runEffect d = d"
proof -
  have keep: "keepSelection (sd_model d) (sd_selected d) = sd_selected d" using assms by (simp add: selection_ok_def)
  have fix_point: "runEffect d = d" by (simp add: runEffect_def keep)
  show ?thesis
  proof (cases "svm_vehicles (sd_model d) = []")
    case True
    then have "sd_selected d = None" using keep by (simp add: keepSelection_def)
    then show ?thesis using True fix_point by (simp add: selectedVehicle_def)
  next
    case False
    with keep assms have "list_ex (\<lambda>v. Some (sv_vehicleId v) = sd_selected d) (svm_vehicles (sd_model d))"
      by (cases "svm_primary (sd_model d)") (auto simp: keepSelection_def selection_ok_def list_ex_iff split: if_splits)
    then obtain u where u: "selectedVehicle d = Some u"
      by (cases "selectedVehicle d") (auto simp: list_ex_iff selectedVehicle_def find_None_iff)
    then have "sd_selected d = Some (sv_vehicleId u)" by (auto simp: selectedVehicle_def find_Some_iff)
    with u False fix_point show ?thesis by simp
  qed
qed

text \<open>
  C12. The supervisor always looks at a vehicle of the fleet: after any sequence of snapshots and clicks the
  selection is empty exactly when no vehicle is listed, and otherwise names a listed one, so the panel of the
  selected vehicle is filled; and the effect that repairs it has nothing left to do, so it never renders
  in a loop.
\<close>

theorem selection_in_fleet:
  "let d = supervisor_run lc world es
   in (selectedVehicle d = None \<longleftrightarrow> svm_vehicles (sd_model d) = []) \<and>
      (sd_selected d = None \<longleftrightarrow> svm_vehicles (sd_model d) = []) \<and>
      map_option sv_vehicleId (selectedVehicle d) = sd_selected d \<and> runEffect d = d"
proof -
  have "selection_ok (supervisor_run lc world es)"
    unfolding supervisor_run_def by (rule supervisor_machine.run_inv) (simp add: list_all_iff)
  from selection_filled [OF this] show ?thesis
    unfolding Let_def by (metis map_option_is_None)
qed

section \<open>The overview hides nothing critical behind something less so\<close>

lemma take_critical_first:
  assumes "sorted_wrt R xs" "x \<in> set (drop n xs)" "y \<in> set (take n xs)"
  shows "R y x"
proof -
  have "sorted_wrt R (take n xs @ drop n xs)" using assms(1) by simp
  then show ?thesis using assms(2,3) unfolding sorted_wrt_append by blast
qed

text \<open>
  C11. The overview of the supervisor is faithful to the fleet: the number of vehicles that need
  attention is that of the vehicles whose tone is not nominal, the number of critical issues is zero exactly
  when no issue is critical, and the five issues shown are the most severe ones: while a critical issue is left
  out, all five shown are critical.
\<close>

theorem overview_faithful:
  assumes "collation lc"
  shows "let model = createSupervisorViewModel lc world
    in ovf_attention (overviewFigures model) = length (filter (\<lambda>v. sv_tone v \<noteq> nominal) (svm_vehicles model)) \<and>
    (ovf_critical (overviewFigures model) = 0 \<longleftrightarrow> (\<forall>i \<in> set (svm_issues model). si_severity i \<noteq> ISSUE_CRITICAL)) \<and>
    (\<forall>i \<in> set (svm_issues model). si_severity i = ISSUE_CRITICAL \<longrightarrow> i \<in> set (overviewIssues model) \<or>
       length (overviewIssues model) = 5 \<and> (\<forall>j \<in> set (overviewIssues model). si_severity j = ISSUE_CRITICAL))"
proof -
  define model where "model = createSupervisorViewModel lc world"
  have tones: "length (filter (\<lambda>v. sv_tone v \<noteq> nominal) vs) =
      toneCount attention vs + toneCount critical vs + toneCount lost vs + toneCount unknown vs" for vs
  proof (induction vs)
    case (Cons v vs)
    then show ?case by (cases "sv_tone v") (simp_all add: toneCount_def)
  qed (simp add: toneCount_def)
  have sorted: "sorted_wrt (\<lambda>a b. \<not> compareIssues lc b a < 0) (svm_issues model)"
    using collation.issue_list_sorted [OF assms(1)] unfolding model_def svm_simps(3) by blast
  have hidden: "length (overviewIssues model) = 5 \<and> (\<forall>j \<in> set (overviewIssues model). si_severity j = ISSUE_CRITICAL)"
    if "i \<in> set (svm_issues model)" "si_severity i = ISSUE_CRITICAL" "i \<notin> set (overviewIssues model)" for i
  proof -
    have "set (svm_issues model) = set (take 5 (svm_issues model)) \<union> set (drop 5 (svm_issues model))"
      by (metis append_take_drop_id set_append)
    with that(1,3) have i: "i \<in> set (drop 5 (svm_issues model))" unfolding overviewIssues_def by blast
    then have "length (overviewIssues model) = 5"
      unfolding overviewIssues_def by (cases "5 \<le> length (svm_issues model)") simp_all
    moreover have "si_severity j = ISSUE_CRITICAL" if "j \<in> set (overviewIssues model)" for j
      using take_critical_first [OF sorted i, of j] that \<open>si_severity i = ISSUE_CRITICAL\<close>
      by (cases "si_severity j") (auto simp: overviewIssues_def compareIssues_def)
    ultimately show ?thesis by blast
  qed
  show ?thesis
    unfolding model_def [symmetric] using hidden
    by (auto simp add: overviewFigures_def Let_def tones model_def svm_simps(2) supervisorCounts_def filter_empty_conv)
qed

theorem overview_faithful_witness:
  "ovf_attention (overviewFigures (createSupervisorViewModel codePointCompare sampleWorld)) =
     length (filter (\<lambda>v. sv_tone v \<noteq> nominal) (svm_vehicles (createSupervisorViewModel codePointCompare sampleWorld)))"
  using overview_faithful [OF code_points.collation_axioms, of sampleWorld]
  unfolding Let_def by blast

end
