(* ===== verification/V2XPanel.thy ===== *)
theory V2XPanel
  imports SupervisorDashboard MineApi
begin

text \<open>
  The coordination panel of the supervisor, \<^verbatim>\<open>frontend/src/supervisor/V2XPanel.tsx\<close>, as a machine: its tabs with
  their keyboard, the advisories that its buttons send, the notice about the last one and the timers that clear
  the notice. \<open>demo\<close> is the constant \<^verbatim>\<open>STATIC_DEMO\<close>.
\<close>

section \<open>Tabs\<close>

datatype V2XTab = TAB_LINKS | TAB_ADVISORIES | TAB_LOG

definition V2X_TABS :: "V2XTab list" where
  "V2X_TABS = [TAB_LINKS, TAB_ADVISORIES, TAB_LOG]"

definition tabIndex :: "V2XTab \<Rightarrow> nat" where
  "tabIndex tab = length (takeWhile (\<lambda>t. t \<noteq> tab) V2X_TABS)"

definition selectTabFromKeyboard :: "string \<Rightarrow> V2XTab \<Rightarrow> V2XTab option" where
  "selectTabFromKeyboard key currentTab =
     (let n = length V2X_TABS; currentIndex = tabIndex currentTab
      in if key = ''ArrowRight'' then Some (V2X_TABS ! ((currentIndex + 1) mod n))
         else if key = ''ArrowLeft'' then Some (V2X_TABS ! ((currentIndex + n - 1) mod n))
         else if key = ''Home'' then Some (V2X_TABS ! 0)
         else if key = ''End'' then Some (V2X_TABS ! (n - 1)) else None)"

section \<open>Advisories\<close>

fun advisory_value :: "V2IAdvisoryType \<Rightarrow> string" where
  "advisory_value ADV_FOG_WARNING = ''FOG_WARNING''"
| "advisory_value ADV_SPEED_RESTRICTION = ''SPEED_RESTRICTION''"
| "advisory_value ADV_HAZARD_ZONE = ''HAZARD_ZONE''"
| "advisory_value ADV_PASSAGE_PRIORITY = ''PASSAGE_PRIORITY''"
| "advisory_value ADV_DISPATCH = ''DISPATCH''"
| "advisory_value ADV_ROAD_MAINTENANCE = ''ROAD_MAINTENANCE''"

record Advisory =
  adv_type :: V2IAdvisoryType
  adv_title :: string
  adv_detail :: string
  adv_speedLimit :: "nat option"

definition offeredAdvisories :: "Advisory list" where
  "offeredAdvisories =
     [\<lparr>adv_type = ADV_FOG_WARNING, adv_title = ''Dense fog warning'',
       adv_detail = ''Low visibility ahead. Maximum vehicle speed restricted to 20 km/h.'', adv_speedLimit = Some 20\<rparr>,
      \<lparr>adv_type = ADV_HAZARD_ZONE, adv_title = ''Berm Shift Alert'',
       adv_detail = ''Haul road berm shift reported at Section C. Proceed with caution.'', adv_speedLimit = None\<rparr>,
      \<lparr>adv_type = ADV_PASSAGE_PRIORITY, adv_title = ''Narrow Pit Priority Granted'',
       adv_detail = ''The assigned loaded vehicle has passage priority on North Ramp.'', adv_speedLimit = None\<rparr>,
      \<lparr>adv_type = ADV_ROAD_MAINTENANCE, adv_title = ''Active Road Maintenance'',
       adv_detail = ''Grading operation active on Main Haul Road. Single lane traffic.'', adv_speedLimit = Some 15\<rparr>,
      \<lparr>adv_type = ADV_SPEED_RESTRICTION, adv_title = ''Pit Ramp Speed Restriction'',
       adv_detail = ''Wet ramp conditions. Pit speed restricted to 15 km/h.'', adv_speedLimit = Some 15\<rparr>]"

text \<open>\<^verbatim>\<open>now.toString(36).toUpperCase()\<close> of a time in milliseconds.\<close>

fun base36 :: "nat \<Rightarrow> string" where
  "base36 n = (if n < 36 then [] else base36 (n div 36)) @ [if n mod 36 < 10 then char_of (48 + n mod 36) else char_of (55 + n mod 36)]"

definition advisoryRequest :: "nat \<Rightarrow> Advisory \<Rightarrow> Request" where
  "advisoryRequest now a =
     \<lparr>req_url = ''/api/v2x/broadcast-advisory'', req_method = ''POST'', req_body = Some (JObj
       [(''message_id'', JStr (''ADV-'' @ base36 now)), (''timestamp_ms'', JNum (Fin (real now))),
        (''rsu_id'', JStr ''RSU_SUPERVISOR_CONSOLE''), (''rsu_name'', JStr ''Central Dispatch Console''),
        (''advisory_type'', JStr (advisory_value (adv_type a))), (''title'', JStr (adv_title a)),
        (''detail'', JStr (adv_detail a)),
        (''speed_limit_kmh'', case adv_speedLimit a of Some v \<Rightarrow> JNum (Fin (real v)) | None \<Rightarrow> JNull)])\<rparr>"

section \<open>The panel\<close>

datatype NoticeType = NOTICE_SUCCESS | NOTICE_ERROR | NOTICE_INFO

text \<open>\<open>vx_pending\<close> holds the title of the advisory on its way, \<open>vx_timers\<close> the running timers by number.\<close>

record V2XPanel =
  vx_tab :: V2XTab
  vx_isBroadcasting :: bool
  vx_notice :: "(NoticeType \<times> string) option"
  vx_pending :: "string list"
  vx_timers :: "nat list"
  vx_nextTimer :: nat
  vx_sent :: "Request list"

definition mountV2X :: V2XPanel where
  "mountV2X = \<lparr>vx_tab = TAB_LINKS, vx_isBroadcasting = False, vx_notice = None, vx_pending = [], vx_timers = [],
     vx_nextTimer = 0, vx_sent = []\<rparr>"

text \<open>\<^verbatim>\<open>handleBroadcast\<close> up to the \<^verbatim>\<open>await\<close>, and after it: the answer decides the notice.\<close>

definition beginBroadcast :: "nat \<Rightarrow> Advisory \<Rightarrow> V2XPanel \<Rightarrow> V2XPanel" where
  "beginBroadcast now a p =
     p\<lparr>vx_isBroadcasting := True, vx_notice := Some (NOTICE_INFO, ''Sending advisory in simulation...''),
       vx_pending := vx_pending p @ [adv_title a], vx_sent := vx_sent p @ [advisoryRequest now a]\<rparr>"

definition finishBroadcast :: "bool \<Rightarrow> V2XPanel \<Rightarrow> V2XPanel" where
  "finishBroadcast ok p =
     (case vx_pending p of
        [] \<Rightarrow> p
      | title # rest \<Rightarrow>
          p\<lparr>vx_pending := rest, vx_isBroadcasting := False,
            vx_notice := Some (if ok then (NOTICE_SUCCESS, ''Advisory \"'' @ title @ ''\" sent in simulation.'')
              else (NOTICE_ERROR, ''Advisory could not be sent.'')),
            vx_timers := vx_timers p @ [vx_nextTimer p], vx_nextTimer := Suc (vx_nextTimer p)\<rparr>)"

definition clearNotice :: "nat \<Rightarrow> V2XPanel \<Rightarrow> V2XPanel" where
  "clearNotice i p =
     (if i \<in> set (vx_timers p) then p\<lparr>vx_notice := None, vx_timers := removeAll i (vx_timers p)\<rparr> else p)"

datatype V2XEvent =
  TabClicked V2XTab
| TabKey string
| AdvisoryClicked nat Advisory
| BroadcastSettled bool
| NoticeTimerFired nat

text \<open>A key goes to the button of the active tab, which alone is in the tab order.\<close>

fun v2x_step :: "bool \<Rightarrow> V2XEvent \<Rightarrow> V2XPanel \<Rightarrow> V2XPanel" where
  "v2x_step demo (TabClicked tab) p = p\<lparr>vx_tab := tab\<rparr>"
| "v2x_step demo (TabKey key) p =
     (case selectTabFromKeyboard key (vx_tab p) of Some tab \<Rightarrow> p\<lparr>vx_tab := tab\<rparr> | None \<Rightarrow> p)"
| "v2x_step demo (AdvisoryClicked now a) p =
     (if demo \<or> vx_isBroadcasting p \<or> vx_tab p \<noteq> TAB_ADVISORIES \<or> a \<notin> set offeredAdvisories then p
      else beginBroadcast now a p)"
| "v2x_step demo (BroadcastSettled ok) p = finishBroadcast ok p"
| "v2x_step demo (NoticeTimerFired i) p = clearNotice i p"

definition v2x_run :: "bool \<Rightarrow> V2XEvent list \<Rightarrow> V2XPanel" where
  "v2x_run demo es = fold (v2x_step demo) es mountV2X"

text \<open>What the lists show: the last sixteen messages, the newest first, and the age of a peer's last report.\<close>

definition formatPeerAge :: "jsnum \<Rightarrow> jsnum \<Rightarrow> string" where
  "formatPeerAge lastSeenMs referenceTimestampMs = age_text '' ago'' (js_max 0 (referenceTimestampMs - lastSeenMs))"

definition shownMessages :: "V2XMessage list \<Rightarrow> V2XMessage list" where
  "shownMessages messages = rev (drop (length messages - 16) messages)"

section \<open>One advisory at a time\<close>

definition restrictive :: "Request \<Rightarrow> bool" where
  "restrictive r \<longleftrightarrow> (\<exists>now. \<exists>a \<in> set offeredAdvisories. r = advisoryRequest now a)"

definition v2x_ok :: "bool \<Rightarrow> V2XPanel \<Rightarrow> bool" where
  "v2x_ok demo p \<longleftrightarrow> length (vx_pending p) = (if vx_isBroadcasting p then 1 else 0) \<and> list_all restrictive (vx_sent p) \<and>
     (demo \<longrightarrow> vx_sent p = []) \<and> (\<forall>i \<in> set (vx_timers p). i < vx_nextTimer p) \<and> distinct (vx_timers p) \<and>
     (vx_notice p \<noteq> None \<longrightarrow> vx_isBroadcasting p \<or> vx_timers p \<noteq> [])"

interpretation v2x_machine: machine mountV2X "v2x_step demo" "\<lambda>_. True" "v2x_ok demo"
proof
  show "v2x_ok demo mountV2X" by (simp add: v2x_ok_def mountV2X_def)
  fix e p
  assume ok: "v2x_ok demo p"
  show "v2x_ok demo (v2x_step demo e p)"
  proof (cases e)
    case (AdvisoryClicked now a)
    then show ?thesis using ok by (auto simp: v2x_ok_def beginBroadcast_def restrictive_def)
  next
    case (BroadcastSettled good)
    then show ?thesis using ok
      by (auto simp: v2x_ok_def finishBroadcast_def less_Suc_eq split: list.split if_splits)
  next
    case (NoticeTimerFired i)
    then show ?thesis using ok by (auto simp: v2x_ok_def clearNotice_def distinct_removeAll)
  qed (use ok in \<open>auto simp: v2x_ok_def split: option.splits\<close>)
qed

text \<open>
  The coordination panel sends one advisory at a time: in every sequence of clicks, keys, answers and timers
  the send buttons are locked exactly while one advisory is on its way, every request is one of the offered
  advisories, the recorded demo sends none, and a notice is on the screen only while an advisory is
  on its way or a timer that will clear it is running.
\<close>

theorem one_advisory_at_a_time:
  "let p = v2x_run demo es
   in length (vx_pending p) = (if vx_isBroadcasting p then 1 else 0) \<and> list_all restrictive (vx_sent p) \<and>
      (demo \<longrightarrow> vx_sent p = []) \<and> (vx_notice p \<noteq> None \<longrightarrow> vx_isBroadcasting p \<or> vx_timers p \<noteq> [])"
  using v2x_machine.run_inv [of es demo] by (simp add: v2x_run_def v2x_ok_def list_all_iff)

text \<open>
  The timer that clears a notice is not stopped by the next one: here the notice of a second advisory is gone while
  that advisory is still on its way.
\<close>

lemma earlier_timer_clears_notice:
  defines "fog \<equiv> offeredAdvisories ! 0"
  shows "let p = v2x_run False [TabClicked TAB_ADVISORIES, AdvisoryClicked 1 fog, BroadcastSettled True,
       AdvisoryClicked 2 fog, NoticeTimerFired 0]
     in vx_isBroadcasting p \<and> vx_pending p = [''Dense fog warning''] \<and> vx_notice p = None"
  by (simp add: fog_def v2x_run_def mountV2X_def offeredAdvisories_def beginBroadcast_def finishBroadcast_def
      clearNotice_def Let_def)

text \<open>The keyboard goes round the tabs and back.\<close>

lemma tabs_round:
  "Option.bind (selectTabFromKeyboard ''ArrowRight'' t) (selectTabFromKeyboard ''ArrowLeft'') = Some t"
  by (cases t) (simp_all add: selectTabFromKeyboard_def V2X_TABS_def tabIndex_def)

end
