(* ===== verification/VehicleCards.thy ===== *)
theory VehicleCards
  imports SupervisorDashboard DriverDashboard
begin

text \<open>
  What the supervisor reads of one vehicle: the row of the fleet directory (\<^verbatim>\<open>frontend/src/supervisor/FleetCard.tsx\<close>),
  the panel of the selected vehicle (\<^verbatim>\<open>SelectedVehiclePanel\<close> of \<^verbatim>\<open>supervisor/SupervisorDashboard.tsx\<close>) and the list
  of its range sensors (\<^verbatim>\<open>components/SensorHealthList.tsx\<close>), as texts.
\<close>

section \<open>Names\<close>

fun TONE_LABELS :: "SupervisorVehicleTone \<Rightarrow> string" where
  "TONE_LABELS nominal = ''Nominal''"
| "TONE_LABELS attention = ''Needs attention''"
| "TONE_LABELS critical = ''Critical''"
| "TONE_LABELS lost = ''Contact lost''"
| "TONE_LABELS unknown = ''Position unknown''"

fun tone_value :: "SupervisorVehicleTone \<Rightarrow> string" where
  "tone_value nominal = ''nominal''"
| "tone_value attention = ''attention''"
| "tone_value critical = ''critical''"
| "tone_value lost = ''lost''"
| "tone_value unknown = ''unknown''"

fun link_value :: "LinkStatus \<Rightarrow> string" where
  "link_value LINK_EXCELLENT = ''EXCELLENT''"
| "link_value LINK_GOOD = ''GOOD''"
| "link_value LINK_DEGRADED = ''DEGRADED''"
| "link_value LINK_LOST = ''LOST''"

fun sensor_status_value :: "SensorStatus \<Rightarrow> string" where
  "sensor_status_value HEALTHY = ''HEALTHY''"
| "sensor_status_value DEGRADED = ''DEGRADED''"
| "sensor_status_value STALE = ''STALE''"
| "sensor_status_value OFFLINE = ''OFFLINE''"

definition degree_sign :: string where
  "degree_sign = [CHR 0xB0]"

section \<open>The fleet directory\<close>

record FleetRow =
  row_id :: string
  row_source :: string
  row_tone :: string
  row_safety :: string
  row_speed :: "string \<times> string"
  row_position :: "string \<times> string"
  row_link :: string
  row_age :: string
  row_selected :: bool

definition linkLabel :: "SupervisorVehicle \<Rightarrow> string" where
  "linkLabel truck =
     (if sv_isPrimary truck then ''Direct''
      else case sv_linkStatus truck of Some link \<Rightarrow> toLowerCase (link_value link) | None \<Rightarrow> ''Not reported'')"

definition fleetCard :: "SupervisorVehicle \<Rightarrow> bool \<Rightarrow> FleetRow" where
  "fleetCard truck isSelected =
     \<lparr>row_id = sv_vehicleId truck, row_source = sv_sourceLabel truck, row_tone = TONE_LABELS (sv_tone truck),
      row_safety = (case sv_emergencyState truck of Some state \<Rightarrow> underscores_to_spaces state | None \<Rightarrow> ''Safety unavailable''),
      row_speed = (if sv_hasPosition truck then (formatNumber (sv_speedMps truck * Fin 3.6) 1, ''km/h'')
        else (''--'', ''Awaiting GPS fix'')),
      row_position = (if sv_hasPosition truck
        then (formatNumber (sv_xM truck) 1 @ '', '' @ formatNumber (sv_yM truck) 1, ''local metres'')
        else (''--'', ''Not available'')),
      row_link = linkLabel truck, row_age = formatTelemetryAge (sv_ageMs truck), row_selected = isSelected\<rparr>"

text \<open>The directory: the rows in the order of the view model, the selected one marked.\<close>

definition fleetRows :: "SupervisorDashboard \<Rightarrow> FleetRow list" where
  "fleetRows d = map (\<lambda>v. fleetCard v (sd_selected d = Some (sv_vehicleId v))) (svm_vehicles (sd_model d))"

section \<open>Range sensors\<close>

text \<open>
  \<^verbatim>\<open>displayName\<close> of this file is written like the one of the range field, \<open>DriverProximity.displayName\<close>.
\<close>

record SensorRow =
  srw_name :: string
  srw_detail :: string
  srw_state :: string
  srw_confidence :: string
  srw_age :: string

definition sensorRow :: "jsnum option \<Rightarrow> SensorHealth \<Rightarrow> SensorRow" where
  "sensorRow referenceTimestampMs sensor =
     \<lparr>srw_name = displayName (sh_sensor_id sensor),
      srw_detail = (case sh_detail sensor of Some d \<Rightarrow> d | None \<Rightarrow> ''Reporting normally''),
      srw_state = toLowerCase (sensor_status_value (sh_status sensor)),
      srw_confidence = num_str (js_round (sh_confidence sensor * 100)) @ ''%'',
      srw_age = formatAge referenceTimestampMs (sh_last_update_ms sensor)\<rparr>"

definition sensorHealthList :: "jsnum option \<Rightarrow> SensorHealth list \<Rightarrow> SensorRow list" where
  "sensorHealthList referenceTimestampMs = map (sensorRow referenceTimestampMs)"

section \<open>The panel of the selected vehicle\<close>

record PrimaryFigures =
  pf_nearest :: string
  pf_visibility :: string
  pf_corridor :: string
  pf_environment :: string
  pf_healthy :: string
  pf_sensors :: "SensorRow list"

record PeerFigures =
  prf_source :: string
  prf_note :: string
  prf_link :: string
  prf_distance :: string
  prf_safety :: string

datatype VehicleFigures = PrimaryVehicle PrimaryFigures | PeerVehicle PeerFigures

record SelectedPanel =
  spn_id :: string
  spn_status :: string
  spn_speed :: string
  spn_heading :: string
  spn_position :: string
  spn_lastUpdate :: string
  spn_figures :: VehicleFigures

definition primaryFigures :: "PrimaryTelemetrySummary \<Rightarrow> jsnum \<Rightarrow> PrimaryFigures" where
  "primaryFigures p referenceTimeMs =
     \<lparr>pf_nearest = (case pts_nearestObstacleM p of None \<Rightarrow> ''--'' | Some d \<Rightarrow> formatNumber d 2 @ '' m''),
      pf_visibility = num_str (pts_visibilityPercent p) @ ''% '' @ [CHR 0xB7] @ '' '' @
        underscores_to_spaces (visibility_string (pts_visibilityState p)),
      pf_corridor = corridor_value (pts_corridorState p) @ '' '' @ [CHR 0xB7] @ '' '' @
        num_str (js_round (pts_corridorConfidence p * 100)) @ ''%'',
      pf_environment = formatNumber (pts_temperatureC p) 1 @ degree_sign @ ''C '' @ [CHR 0xB7] @ '' '' @
        formatNumber (pts_pressureHpa p) 0 @ '' hPa'',
      pf_healthy = nat_str (tof_healthy (pts_sensorSummary p)) @ ''/'' @ nat_str (tof_total (pts_sensorSummary p)) @ '' healthy'',
      pf_sensors = sensorHealthList (Some referenceTimeMs) (pts_sensors p)\<rparr>"

definition peerFigures :: "SupervisorVehicle \<Rightarrow> PeerFigures" where
  "peerFigures vehicle =
     \<lparr>prf_source = sv_sourceLabel vehicle,
      prf_note = (if sv_hasPosition vehicle
        then ''This peer reports position, motion, and coordination status. Environment and range-sensor data are unavailable for this vehicle.''
        else ''The vehicle is connected. Position and movement will appear after its GPS reports a valid fix.''),
      prf_link = (case sv_linkStatus vehicle of Some link \<Rightarrow> toLowerCase (link_value link) | None \<Rightarrow> ''Not reported''),
      prf_distance = (case sv_distanceM vehicle of None \<Rightarrow> ''--'' | Some d \<Rightarrow> formatNumber d 1 @ '' m''),
      prf_safety = (case sv_emergencyState vehicle of Some state \<Rightarrow> underscores_to_spaces state | None \<Rightarrow> ''Unavailable'')\<rparr>"

definition selectedPanel ::
    "SupervisorVehicle option \<Rightarrow> PrimaryTelemetrySummary option \<Rightarrow> jsnum \<Rightarrow> SelectedPanel option" where
  "selectedPanel vehicle primary referenceTimeMs =
     map_option (\<lambda>v. \<lparr>spn_id = sv_vehicleId v, spn_status = underscores_to_spaces (tone_value (sv_tone v)),
        spn_speed = (if sv_hasPosition v then formatNumber (sv_speedMps v * Fin 3.6) 1 @ '' km/h'' else ''Unavailable''),
        spn_heading = (if sv_hasPosition v then formatNumber (sv_headingDeg v) 0 @ degree_sign else ''Unavailable''),
        spn_position = (if sv_hasPosition v
          then formatNumber (sv_xM v) 1 @ '', '' @ formatNumber (sv_yM v) 1 @ '' m'' else ''Awaiting GPS fix''),
        spn_lastUpdate = formatTelemetryAge (js_max 0 (referenceTimeMs - sv_lastUpdateMs v)),
        spn_figures = (case primary of
            Some p \<Rightarrow> if sv_isPrimary v then PrimaryVehicle (primaryFigures p referenceTimeMs) else PeerVehicle (peerFigures v)
          | None \<Rightarrow> PeerVehicle (peerFigures v))\<rparr>) vehicle"

definition dashboardPanel :: "SupervisorDashboard \<Rightarrow> SelectedPanel option" where
  "dashboardPanel d = selectedPanel (selectedVehicle d) (svm_primary (sd_model d)) (svm_referenceTimeMs (sd_model d))"

section \<open>The panel is about the selected vehicle\<close>

lemma primary_vehicle_id:
  assumes "v \<in> set (svm_vehicles (createSupervisorViewModel lc world))" "sv_isPrimary v"
  shows "sv_vehicleId v = ws_primary_vehicle_id world"
proof -
  obtain new where "collectVehicles world = map (worldVehicle world) (ws_vehicles world) @
      map (peerVehicle world) (extraPeers world) @ map (telemetryVehicle world) new"
    using collectVehicles_groups by blast
  then show ?thesis using assms by (auto simp: svm_simps)
qed

lemma primary_summary_nearest:
  "svm_primary (createSupervisorViewModel lc world) = Some p \<Longrightarrow>
     pts_nearestObstacleM p = nearestRange (availableRangeReadings (ws_ranges world) (ws_sensor_health world) True)"
  by (auto simp: createSupervisorViewModel_def primarySummary_def Let_def split: option.splits)

lemma selected_vehicle_listed:
  "selectedVehicle d = Some v \<Longrightarrow> v \<in> set (svm_vehicles (sd_model d)) \<and> sd_selected d = Some (sv_vehicleId v)"
  by (auto simp: selectedVehicle_def find_Some_iff in_set_conv_nth)

lemma text_not_dashes:
  assumes "CHR '' '' \<in> set s"
  shows "s \<noteq> ''--''"
  using assms by auto

lemma position_text: "(a @ CHR '','' # CHR '' '' # b = ''--'') = False" "(a @ '' m'' = ''--'') = False"
  using text_not_dashes [of "a @ CHR '','' # CHR '' '' # b"] text_not_dashes [of "a @ '' m''"] by simp_all

lemma primary_nearest: "pf_nearest (primaryFigures p t) = ''--'' \<longleftrightarrow> pts_nearestObstacleM p = None"
  by (cases "pts_nearestObstacleM p") (simp_all add: primaryFigures_def position_text)



text \<open>
  A vehicle known from its own telemetry that has gone offline has the tone of a lost one, while its panel
  says that it is connected.
\<close>

lemma offline_vehicle_called_connected:
  assumes "\<not> vt_online sample" and "v = telemetryVehicle world sample" and "selectedPanel (Some v) primary t = Some panel"
  shows "spn_status panel = ''lost'' \<and> (\<exists>f. spn_figures panel = PeerVehicle f \<and>
    prf_note f = ''The vehicle is connected. Position and movement will appear after its GPS reports a valid fix.'')"
  using assms by (auto simp: selectedPanel_def telemetryVehicle_def peerFigures_def underscores_to_spaces_def split: option.splits)

end
