(* ===== verification/ForwardAwareness.thy ===== *)
theory ForwardAwareness
  imports DriverDashboard MineApi
begin

text \<open>
  What the driver sees ahead: the guidance panel of \<^verbatim>\<open>frontend/src/driver/DriverGuidanceHUD.tsx\<close> with the
  polling of its effect, and the camera of \<^verbatim>\<open>driver/CameraAwareness.tsx\<close>, both as machines. \<open>demo\<close> is the
  constant \<^verbatim>\<open>STATIC_DEMO\<close>.
\<close>

section \<open>Guidance\<close>

text \<open>\<^verbatim>\<open>GuidanceResponse\<close> has the fields of \<^verbatim>\<open>TacticalGuidance\<close>.\<close>

type_synonym GuidanceResponse = TacticalGuidance

text \<open>One run of the effect, for the vehicle it closed over.\<close>

record GuidanceRun =
  gun_vehicle :: string
  gun_mounted :: bool

text \<open>\<open>hud_pending\<close> holds the runs whose requests have not settled, in the order they were sent.\<close>

record GuidanceHUD =
  hud_rest :: "GuidanceResponse option"
  hud_runs :: "GuidanceRun list"
  hud_pending :: "nat list"

definition unmountRuns :: "GuidanceRun list \<Rightarrow> GuidanceRun list" where
  "unmountRuns = map (\<lambda>run. run\<lparr>gun_mounted := False\<rparr>)"

text \<open>A run of the effect asks for the guidance at once, and again whenever its interval fires.\<close>

definition startGuidance :: "bool \<Rightarrow> string \<Rightarrow> GuidanceHUD \<Rightarrow> GuidanceHUD" where
  "startGuidance demo vehicleId h =
     (if demo then h\<lparr>hud_runs := hud_runs h @ [\<lparr>gun_vehicle = vehicleId, gun_mounted = False\<rparr>]\<rparr>
      else h\<lparr>hud_runs := hud_runs h @ [\<lparr>gun_vehicle = vehicleId, gun_mounted = True\<rparr>],
             hud_pending := hud_pending h @ [length (hud_runs h)]\<rparr>)"

definition mountHUD :: "bool \<Rightarrow> string \<Rightarrow> GuidanceHUD" where
  "mountHUD demo vehicleId = startGuidance demo vehicleId \<lparr>hud_rest = None, hud_runs = [], hud_pending = []\<rparr>"

definition currentVehicle :: "GuidanceHUD \<Rightarrow> string" where
  "currentVehicle h = gun_vehicle (last (hud_runs h))"

datatype GuidanceEvent =
  PrimaryChanged string
| GuidanceTimer nat
| GuidanceSettled nat "string + GuidanceResponse"
| HUDUnmounted

fun guidance_step :: "bool \<Rightarrow> GuidanceEvent \<Rightarrow> GuidanceHUD \<Rightarrow> GuidanceHUD" where
  "guidance_step demo (PrimaryChanged vehicleId) h =
     (if vehicleId = currentVehicle h then h
      else startGuidance demo vehicleId (h\<lparr>hud_runs := unmountRuns (hud_runs h)\<rparr>))"
| "guidance_step demo (GuidanceTimer n) h =
     (if n < length (hud_runs h) \<and> gun_mounted (hud_runs h ! n) then h\<lparr>hud_pending := hud_pending h @ [n]\<rparr> else h)"
| "guidance_step demo (GuidanceSettled n result) h =
     (if n \<notin> set (hud_pending h) then h
      else (let h' = h\<lparr>hud_pending := remove1 n (hud_pending h)\<rparr>
            in case result of
                 Inr data \<Rightarrow> if gun_mounted (hud_runs h ! n) then h'\<lparr>hud_rest := Some data\<rparr> else h'
               | Inl _ \<Rightarrow> h'))"
| "guidance_step demo HUDUnmounted h = h\<lparr>hud_runs := unmountRuns (hud_runs h)\<rparr>"

definition guidance_run :: "bool \<Rightarrow> string \<Rightarrow> GuidanceEvent list \<Rightarrow> GuidanceHUD" where
  "guidance_run demo vehicleId es = fold (guidance_step demo) es (mountHUD demo vehicleId)"

section \<open>What the panel shows\<close>

fun replace_first :: "char \<Rightarrow> char \<Rightarrow> string \<Rightarrow> string" where
  "replace_first c d [] = []"
| "replace_first c d (x # xs) = (if x = c then d # xs else x # replace_first c d xs)"

record GuidanceView =
  gv_threat :: string
  gv_title :: string
  gv_alert :: bool
  gv_closing :: "string option"
  gv_direction :: string
  gv_target :: string
  gv_distance :: string
  gv_advisory :: string
  gv_destination :: string
  gv_remaining :: string
  gv_instruction :: string
  gv_visibility :: string
  gv_visibilityState :: string
  gv_sight :: string
  gv_sightNote :: string

datatype HUDView = HUDOffline string | HUDGuidance GuidanceView

definition canonicalGuidance :: "WorldState \<Rightarrow> GuidanceResponse option" where
  "canonicalGuidance world =
     Option.bind (ws_operations world) (\<lambda>ops. map_of (ops_guidance ops) (ws_primary_vehicle_id world))"

definition guidanceView :: "WorldState \<Rightarrow> GuidanceResponse \<Rightarrow> GuidanceView" where
  "guidanceView world guidance =
     (let visScore = env_visibility_score (ws_environment world);
          threatLevel = tg_threat_level guidance;
          safe = (threatLevel = ''SAFE'');
          remaining = tg_distance_remaining_m guidance
      in \<lparr>gv_threat = threatLevel,
          gv_title = (if safe then ''V2V Proximity Clear'' else ''Collision Warning''),
          gv_alert = (\<not> safe),
          gv_closing = (if safe then None else Some (''+'' @ toFixed (tg_closing_velocity_mps guidance) 1 @ '' m/s'')),
          gv_direction = tg_hazard_direction guidance, gv_target = tg_target_callsign guidance,
          gv_distance = (if tg_hazard_distance_m guidance < 900 then toFixed (tg_hazard_distance_m guidance) 1 else ''--''),
          gv_advisory = tg_advisory_text guidance, gv_destination = tg_current_destination guidance,
          gv_remaining = (if 1000 < remaining then toFixed (remaining / 1000) 2 @ '' km'' else toFixed remaining 0 @ '' m''),
          gv_instruction = tg_next_instruction guidance,
          gv_visibility = num_str (js_round (visScore * 100)) @ ''%'',
          gv_visibilityState = replace_first (CHR ''_'') (CHR '' '') (visibility_string (env_visibility_state (ws_environment world))),
          gv_sight = num_str (js_max 8 (js_round (visScore * 120))) @ '' m'',
          gv_sightNote = (if visScore < Fin 0.35 then ''SYNTHETIC GUIDANCE LOCKED'' else ''NORMAL VISUAL SIGHT'')\<rparr>)"

definition guidanceHUD :: "WorldState \<Rightarrow> bool \<Rightarrow> GuidanceHUD \<Rightarrow> HUDView" where
  "guidanceHUD world available h =
     (if \<not> available then HUDOffline ''Waiting for vehicle telemetry connection...''
      else case (case canonicalGuidance world of Some g \<Rightarrow> Some g | None \<Rightarrow> hud_rest h) of
        None \<Rightarrow> HUDOffline ''Waiting for verified tactical guidance stream...''
      | Some guidance \<Rightarrow> HUDGuidance (guidanceView world guidance))"


section \<open>The camera\<close>

datatype AwarenessMode = CAMERA | LIDAR

record CameraAwareness =
  caw_failed :: bool
  caw_retry :: nat
  caw_deps :: "(string \<times> AwarenessMode \<times> StreamStatus) option"

definition mountCamera :: CameraAwareness where
  "mountCamera = \<lparr>caw_failed = False, caw_retry = 0, caw_deps = None\<rparr>"

definition liveCameraAvailable :: "WorldState \<Rightarrow> ConnectionState \<Rightarrow> bool" where
  "liveCameraAvailable world connection \<longleftrightarrow> connection = CONNECTED \<and> ws_mode world = LIVE \<and>
     cam_mode (ws_camera world) = LIVE \<and> cam_raw_available (ws_camera world)"

definition liveIrAvailable :: "WorldState \<Rightarrow> ConnectionState \<Rightarrow> bool" where
  "liveIrAvailable world connection \<longleftrightarrow> liveCameraAvailable world connection \<and> cam_ir_available (ws_camera world)"

definition simulatedCameraAvailable :: "WorldState \<Rightarrow> bool" where
  "simulatedCameraAvailable world \<longleftrightarrow> ws_mode world = SIMULATED \<and> cam_mode (ws_camera world) = SIMULATED"

definition cameraVisibility :: "WorldState \<Rightarrow> jsnum" where
  "cameraVisibility world =
     (let environment = env_visibility_score (ws_environment world)
      in js_round ((if cam_raw_available (ws_camera world)
           then (case cam_visibility_score (ws_camera world) of Some s \<Rightarrow> s | None \<Rightarrow> environment) else environment) * 100))"

definition cameraSource :: "WorldState \<Rightarrow> ConnectionState \<Rightarrow> nat \<Rightarrow> string" where
  "cameraSource world connection retry =
     (if liveCameraAvailable world connection
      then ''/api/camera/stream?view='' @ (if liveIrAvailable world connection then ''ir'' else ''raw'') @ ''&retry='' @ nat_str retry
      else ''/camera/haul_truck_ir.png'')"

definition cameraSourceLabel :: "WorldState \<Rightarrow> AwarenessMode \<Rightarrow> ConnectionState \<Rightarrow> bool \<Rightarrow> string" where
  "cameraSourceLabel world mode connection failed =
     (let online = (connection = CONNECTED)
      in if mode = LIDAR then
           (if online then (if ws_mode world = SIMULATED then ''LIDAR SIMULATED'' else ''LIDAR LIVE'') else ''LIDAR UNAVAILABLE'')
         else if failed then ''CAMERA STREAM ERROR''
         else if liveCameraAvailable world connection then
           (if liveIrAvailable world connection then ''IR CAMERA LIVE'' else ''MONO CAMERA LIVE'')
         else if simulatedCameraAvailable world then ''MONO CAMERA SIMULATED''
         else if online \<and> cam_mode (ws_camera world) = REPLAY then ''CAMERA REPLAY''
         else if online then ''CAMERA UNAVAILABLE''
         else if connection = CONNECTING then ''CONNECTING'' else ''NO TELEMETRY'')"

text \<open>A number of pixels that is \<^verbatim>\<open>null\<close>, zero or NaN is falsy.\<close>

definition truthy_number :: "jsnum option \<Rightarrow> bool" where
  "truthy_number n \<longleftrightarrow> (case n of Some v \<Rightarrow> v \<notin> {0, NaN} | None \<Rightarrow> False)"

definition frameDetail :: "WorldState \<Rightarrow> AwarenessMode \<Rightarrow> ConnectionState \<Rightarrow> string option" where
  "frameDetail world mode connection =
     (let camera = ws_camera world
      in if mode = CAMERA \<and> liveCameraAvailable world connection \<and>
            truthy_number (cam_width_px camera) \<and> truthy_number (cam_height_px camera)
         then Some (if liveIrAvailable world connection
           then ''IR CAMERA OUTPUT '' @ [CHR 0xB7] @ '' '' @ toFixed (cam_ir_fps camera) 1 @ '' FPS '' @ [CHR 0xB7] @ '' '' @
             num_str (js_round (case cam_ir_latency_ms camera of Some ms \<Rightarrow> ms | None \<Rightarrow> 0)) @ '' ms''
           else num_str (the (cam_width_px camera)) @ [CHR 0xD7] @ num_str (the (cam_height_px camera)) @ '' '' @ [CHR 0xB7] @
             '' '' @ toFixed (cam_measured_fps camera) 1 @ '' FPS'')
         else None)"

datatype CameraStage =
  LidarStage
| CameraStage string string bool
| UnavailableStage string string bool

definition cameraStage :: "WorldState \<Rightarrow> AwarenessMode \<Rightarrow> ConnectionState \<Rightarrow> CameraAwareness \<Rightarrow> CameraStage" where
  "cameraStage world mode connection c =
     (if mode = LIDAR \<and> connection = CONNECTED then LidarStage
      else if mode = CAMERA \<and> (liveCameraAvailable world connection \<or> simulatedCameraAvailable world) \<and> \<not> caw_failed c
      then CameraStage (cameraSource world connection (caw_retry c))
        (if liveIrAvailable world connection then ''IR camera output from the forward camera'' else ''Monochrome forward camera feed'')
        (liveCameraAvailable world connection)
      else UnavailableStage
        (if mode = LIDAR then ''LIDAR UNAVAILABLE'' else if caw_failed c then ''LIVE CAMERA STREAM ERROR'' else ''CAMERA UNAVAILABLE'')
        (if mode = LIDAR then ''Vehicle, map, and ranging telemetry are unavailable.''
         else if ws_mode world = LIVE then ''No live camera stream is available.''
         else if ws_mode world = REPLAY then ''Replay camera frames are not available.''
         else ''Simulation camera data is unavailable.'')
        (mode = CAMERA \<and> ws_mode world = LIVE))"

text \<open>The effect that forgets a failure when the source, the mode or the status of the stream has changed.\<close>

definition renderCamera :: "WorldState \<Rightarrow> AwarenessMode \<Rightarrow> ConnectionState \<Rightarrow> CameraAwareness \<Rightarrow> CameraAwareness" where
  "renderCamera world mode connection c =
     (let deps = Some (cameraSource world connection (caw_retry c), mode, cam_stream_status (ws_camera world))
      in if caw_deps c = deps then c else c\<lparr>caw_failed := False, caw_deps := deps\<rparr>)"

definition cameraFailed :: "CameraAwareness \<Rightarrow> CameraAwareness" where
  "cameraFailed c = c\<lparr>caw_failed := True\<rparr>"

definition retryCameraStream :: "CameraAwareness \<Rightarrow> CameraAwareness" where
  "retryCameraStream c = c\<lparr>caw_failed := False, caw_retry := Suc (caw_retry c)\<rparr>"

section \<open>Guidance of the vehicle\<close>

text \<open>
  The contract with the backend: an answer to a request for a vehicle satisfies \<open>guides\<close>. The invariant
  while the primary vehicle is \<open>v\<close>.
\<close>

fun guides_vehicle :: "(GuidanceResponse \<Rightarrow> bool) \<Rightarrow> string \<Rightarrow> GuidanceEvent \<Rightarrow> bool" where
  "guides_vehicle guides v (PrimaryChanged w) = (w = v)"
| "guides_vehicle guides v (GuidanceSettled n (Inr data)) = guides data"
| "guides_vehicle guides v _ = True"

definition guided :: "bool \<Rightarrow> (GuidanceResponse \<Rightarrow> bool) \<Rightarrow> string \<Rightarrow> GuidanceHUD \<Rightarrow> bool" where
  "guided demo guides v h \<longleftrightarrow> map gun_vehicle (hud_runs h) = [v] \<and> pred_option guides (hud_rest h) \<and>
     set (hud_pending h) \<subseteq> {0} \<and> (demo \<longrightarrow> hud_rest h = None \<and> hud_pending h = [] \<and> list_all (\<lambda>r. \<not> gun_mounted r) (hud_runs h))"

interpretation guidance_machine: machine "mountHUD demo v" "guidance_step demo" "guides_vehicle guides v" "guided demo guides v"
  for demo guides v
proof
  show "guided demo guides v (mountHUD demo v)" by (simp add: guided_def mountHUD_def startGuidance_def)
  fix h e
  assume ok: "guided demo guides v h" and admissible: "guides_vehicle guides v e"
  then obtain run where run: "hud_runs h = [run]" "gun_vehicle run = v" by (auto simp: guided_def)
  show "guided demo guides v (guidance_step demo e h)"
  proof (cases e)
    case (PrimaryChanged w)
    then show ?thesis using ok admissible run by (simp add: currentVehicle_def)
  next
    case (GuidanceTimer n)
    then show ?thesis using ok run by (auto simp: guided_def)
  next
    case (GuidanceSettled n result)
    then show ?thesis using ok admissible run
      by (cases result) (auto simp: guided_def Let_def dest: notin_set_remove1 set_remove1_subset [THEN subsetD])
  next
    case HUDUnmounted
    then show ?thesis using ok run by (simp add: guided_def unmountRuns_def)
  qed
qed

text \<open>
  C19. The guidance panel fails closed. While the primary vehicle stays the same, whatever requests are sent, fail,
  overtake each other or settle after the panel is gone, the panel shows guidance only for a vehicle whose
  telemetry is available, and then that of the snapshot, or else one that the backend gave for this
  vehicle; the recorded demo never shows guidance from a request.
\<close>

theorem guidance_fails_closed:
  assumes "list_all (guides_vehicle guides v) es" and "guidanceHUD world available (guidance_run demo v es) = HUDGuidance view"
  shows "available \<and> (case canonicalGuidance world of
      Some g \<Rightarrow> view = guidanceView world g
    | None \<Rightarrow> \<not> demo \<and> (\<exists>g. guides g \<and> view = guidanceView world g))"
proof -
  have "guided demo guides v (guidance_run demo v es)"
    unfolding guidance_run_def by (rule guidance_machine.run_inv [OF assms(1)])
  then show ?thesis using assms(2)
    by (auto simp: guidanceHUD_def guided_def split: if_splits option.splits)
qed

definition clearGuidance :: "string \<Rightarrow> GuidanceResponse" where
  "clearGuidance v = \<lparr>tg_vehicle_id = v, tg_callsign = v, tg_current_destination = ''Crusher'', tg_distance_remaining_m = 120,
     tg_next_instruction = ''Keep left'', tg_speed_kmh = 20, tg_target_vehicle_id = '''', tg_target_callsign = ''None'',
     tg_hazard_distance_m = 999, tg_hazard_direction = ''AHEAD'', tg_closing_velocity_mps = 0, tg_threat_level = ''SAFE'',
     tg_advisory_text = ''Clear'', tg_visibility_score = 1, tg_visibility_state = ''GOOD'', tg_estimated_sight_distance_m = 120\<rparr>"

text \<open>
  The panel keeps the guidance of the last vehicle: after the primary vehicle has changed, and until a request for the
  new one is answered, it shows the new driver the other vehicle's instruction.
\<close>

lemma guidance_of_other_vehicle:
  "let h = guidance_run False ''A'' [GuidanceSettled 0 (Inr (clearGuidance ''A'')), PrimaryChanged ''B'']
   in currentVehicle h = ''B'' \<and> hud_rest h = Some (clearGuidance ''A'')"
  by (simp add: guidance_run_def mountHUD_def startGuidance_def unmountRuns_def currentVehicle_def Let_def)

section \<open>The camera never pretends\<close>



theorem guidance_fails_closed_witness:
  "\<exists>g. tg_vehicle_id g = ''A'' \<and>
     guidanceHUD sampleWorld True (guidance_run False ''A'' [GuidanceSettled 0 (Inr (clearGuidance ''A''))]) =
       HUDGuidance (guidanceView sampleWorld g)"
proof -
  let ?h = "guidance_run False ''A'' [GuidanceSettled 0 (Inr (clearGuidance ''A''))]"
  have none: "canonicalGuidance sampleWorld = None" by (simp add: canonicalGuidance_def sampleWorld_def)
  have view: "guidanceHUD sampleWorld True ?h = HUDGuidance (guidanceView sampleWorld (clearGuidance ''A''))"
    using none by (simp add: guidanceHUD_def guidance_run_def mountHUD_def startGuidance_def Let_def)
  have "list_all (guides_vehicle (\<lambda>g. tg_vehicle_id g = ''A'') ''A'') [GuidanceSettled 0 (Inr (clearGuidance ''A''))]"
    by (simp add: clearGuidance_def)
  from guidance_fails_closed [OF this view] show ?thesis using none view by (auto split: option.splits)
qed

end
