(* ===== verification/KeyedLayer.thy ===== *)
theory KeyedLayer
  imports Prelude
begin

text \<open>
  Layers of drawn objects kept by identifier: the maps and the renderers bring a \<^verbatim>\<open>Map\<close> of markers, lines or meshes
  up to date with a list of items, creating an object for a new identifier, refreshing the object of a known one
  and removing the objects whose identifier is gone. The contract \<open>keyed_layer\<close> says what creating and
  refreshing promise, and its lemma what the layer then shows.
\<close>

section \<open>Reconciling\<close>

type_synonym 'm layer = "(string \<times> 'm) list"

definition upsert :: "('x \<Rightarrow> string) \<Rightarrow> ('x \<Rightarrow> 'm) \<Rightarrow> ('x \<Rightarrow> 'm \<Rightarrow> 'm) \<Rightarrow> 'x \<Rightarrow> 'm layer \<Rightarrow> 'm layer" where
  "upsert key create refresh x layer =
     AList.update (key x) (case map_of layer (key x) of None \<Rightarrow> create x | Some m \<Rightarrow> refresh x m) layer"

definition prune :: "('x \<Rightarrow> string) \<Rightarrow> 'x list \<Rightarrow> 'm layer \<Rightarrow> 'm layer" where
  "prune key xs layer = filter (\<lambda>(k, m). k \<in> key ` set xs) layer"

text \<open>The maps remove what is gone after the loop over the items, the renderers before it.\<close>

definition reconcile ::
    "('x \<Rightarrow> string) \<Rightarrow> ('x \<Rightarrow> 'm) \<Rightarrow> ('x \<Rightarrow> 'm \<Rightarrow> 'm) \<Rightarrow> 'x list \<Rightarrow> 'm layer \<Rightarrow> 'm layer" where
  "reconcile key create refresh xs layer = prune key xs (fold (upsert key create refresh) xs layer)"

definition reconcile_pruned ::
    "('x \<Rightarrow> string) \<Rightarrow> ('x \<Rightarrow> 'm) \<Rightarrow> ('x \<Rightarrow> 'm \<Rightarrow> 'm) \<Rightarrow> 'x list \<Rightarrow> 'm layer \<Rightarrow> 'm layer" where
  "reconcile_pruned key create refresh xs layer = fold (upsert key create refresh) xs (prune key xs layer)"

text \<open>The abstract layer: the last item of each identifier.\<close>

definition current_items :: "('x \<Rightarrow> string) \<Rightarrow> 'x list \<Rightarrow> string \<Rightarrow> 'x option" where
  "current_items key xs k = find (\<lambda>x. key x = k) (rev xs)"

lemma current_items_snoc: "current_items key (xs @ [x]) k = (if key x = k then Some x else current_items key xs k)"
  by (simp add: current_items_def)

lemma current_items_None: "current_items key xs k = None \<longleftrightarrow> k \<notin> key ` set xs"
  by (auto simp: current_items_def find_None_iff)

lemma current_items_Some: "current_items key xs k = Some x \<Longrightarrow> x \<in> set xs \<and> key x = k"
  by (auto simp: current_items_def find_Some_iff in_set_conv_nth rev_nth)
     (metis diff_Suc_less length_greater_0_conv length_pos_if_in_set list.size(3) not_less_zero rev_nth)

lemma prune_map_of: "map_of (prune key xs layer) k = (if k \<in> key ` set xs then map_of layer k else None)"
  by (induction layer) (auto simp: prune_def)

lemma prune_distinct: "distinct (map fst layer) \<Longrightarrow> distinct (map fst (prune key xs layer))"
  by (auto simp: prune_def distinct_map_filter)

lemma upsert_map_of:
  "map_of (upsert key create refresh x layer) =
     (map_of layer)(key x \<mapsto> (case map_of layer (key x) of None \<Rightarrow> create x | Some m \<Rightarrow> refresh x m))"
  by (simp add: upsert_def update_conv')

lemma upsert_distinct: "distinct (map fst layer) \<Longrightarrow> distinct (map fst (upsert key create refresh x layer))"
  by (simp add: upsert_def distinct_update)

lemma upserts_distinct: "distinct (map fst layer) \<Longrightarrow> distinct (map fst (fold (upsert key create refresh) xs layer))"
  by (induction xs arbitrary: layer) (simp_all add: upsert_distinct)

text \<open>A list of items that are read off other items.\<close>

lemma upserts_map:
  fixes create :: "'a \<Rightarrow> 'b"
  shows "fold (upsert key create refresh) (map f xs) layer =
     fold (upsert (\<lambda>x. key (f x)) (\<lambda>x. create (f x)) (\<lambda>x. refresh (f x))) xs layer"
  by (induction xs arbitrary: layer) (simp_all add: upsert_def)

lemma prune_map: "prune key (map f xs) layer = prune (\<lambda>x. key (f x)) xs layer"
  by (simp add: prune_def image_image)

lemma reconcile_map:
  "reconcile key create refresh (map f xs) layer =
     reconcile (\<lambda>x. key (f x)) (\<lambda>x. create (f x)) (\<lambda>x. refresh (f x)) xs layer"
  by (simp add: reconcile_def upserts_map prune_map)

lemma reconcile_pruned_map:
  "reconcile_pruned key create refresh (map f xs) layer =
     reconcile_pruned (\<lambda>x. key (f x)) (\<lambda>x. create (f x)) (\<lambda>x. refresh (f x)) xs layer"
  by (simp add: reconcile_pruned_def upserts_map prune_map)

lemma current_items_map: "current_items key (map f xs) k = map_option f (current_items (\<lambda>x. key (f x)) xs k)"
proof -
  have "find P (map f ys) = map_option f (find (P \<circ> f) ys)" for P ys by (induction ys) simp_all
  then show ?thesis by (simp add: current_items_def rev_map comp_def)
qed

section \<open>The contract\<close>

text \<open>
  \<open>depicts x m\<close>: the object \<open>m\<close> is drawn as item \<open>x\<close> asks. Creating it shows the item, and so does refreshing an object
  that showed an item of the same identifier; \<open>admits\<close> are the items the layer is given.
\<close>

locale keyed_layer =
  fixes key :: "'x \<Rightarrow> string" and create :: "'x \<Rightarrow> 'm" and refresh :: "'x \<Rightarrow> 'm \<Rightarrow> 'm"
    and admits :: "'x \<Rightarrow> bool" and depicts :: "'x \<Rightarrow> 'm \<Rightarrow> bool"
  assumes depicts_create: "admits x \<Longrightarrow> depicts x (create x)"
    and depicts_refresh: "admits x \<Longrightarrow> admits y \<Longrightarrow> depicts y m \<Longrightarrow> key y = key x \<Longrightarrow> depicts x (refresh x m)"
begin

definition layer_ok :: "'m layer \<Rightarrow> bool" where
  "layer_ok layer \<longleftrightarrow> distinct (map fst layer) \<and> (\<forall>k m. map_of layer k = Some m \<longrightarrow> (\<exists>y. admits y \<and> key y = k \<and> depicts y m))"

lemma empty_ok: "layer_ok []"
  by (simp add: layer_ok_def)

lemma upsert_ok: "layer_ok layer \<Longrightarrow> admits x \<Longrightarrow> layer_ok (upsert key create refresh x layer)"
  using depicts_create depicts_refresh
  by (fastforce simp: layer_ok_def upsert_map_of upsert_distinct split: option.splits)

lemma upserts_ok: "layer_ok layer \<Longrightarrow> list_all admits xs \<Longrightarrow> layer_ok (fold (upsert key create refresh) xs layer)"
  by (induction xs arbitrary: layer) (simp_all add: upsert_ok)

lemma prune_ok: "layer_ok layer \<Longrightarrow> layer_ok (prune key xs layer)"
  by (auto simp: layer_ok_def prune_map_of prune_distinct split: if_splits)

text \<open>So does a change to every object that leaves it drawn for the same items.\<close>

lemma mapped_ok:
  assumes "layer_ok layer" and "\<And>x m. depicts x m \<Longrightarrow> depicts x (g m)"
  shows "layer_ok (map (\<lambda>(k, m). (k, g m)) layer)"
proof -
  have keys: "map fst (map (\<lambda>(k, m). (k, g m)) layer) = map fst layer" by (induction layer) auto
  have found: "map_of (map (\<lambda>(k, m). (k, g m)) layer) = map_option g \<circ> map_of layer" by (rule map_of_map)
  show ?thesis
    using assms(1) unfolding layer_ok_def keys found by (auto intro: assms(2)) (metis assms(2))
qed

text \<open>After the loop over the items each of them is drawn as its last occurrence asks.\<close>

lemma upserts_show:
  assumes "layer_ok layer" "list_all admits xs" "current_items key xs k = Some x"
  shows "\<exists>m. map_of (fold (upsert key create refresh) xs layer) k = Some m \<and> depicts x m"
  using assms(2,3)
proof (induction xs rule: rev_induct)
  case (snoc y ys)
  let ?layer = "fold (upsert key create refresh) ys layer"
  have ok: "layer_ok ?layer" using upserts_ok [OF assms(1)] snoc.prems(1) by simp
  show ?case
  proof (cases "key y = k")
    case True
    then have "x = y" "admits y" using snoc.prems by (simp_all add: current_items_snoc)
    then show ?thesis
      using True ok depicts_create depicts_refresh
      by (fastforce simp: upsert_map_of layer_ok_def split: option.splits)
  next
    case False
    then show ?thesis using snoc by (simp add: current_items_snoc upsert_map_of)
  qed
qed (simp add: current_items_def)

lemma upserts_other:
  "k \<notin> key ` set xs \<Longrightarrow> map_of (fold (upsert key create refresh) xs layer) k = map_of layer k"
  by (induction xs arbitrary: layer) (auto simp: upsert_map_of)

text \<open>The layer refines the abstract one: it has an object for exactly the current items, and shows them.\<close>

lemma refines_current:
  assumes "layer_ok start" "list_all admits xs"
    and "\<And>k. k \<in> key ` set xs \<Longrightarrow> map_of layer k = map_of (fold (upsert key create refresh) xs start) k"
    and "\<And>k. k \<notin> key ` set xs \<Longrightarrow> map_of layer k = None"
  shows "rel_option depicts (current_items key xs k) (map_of layer k)"
proof (cases "current_items key xs k")
  case None
  then show ?thesis using assms(4) by (simp add: current_items_None)
next
  case (Some x)
  then have "k \<in> key ` set xs" using current_items_Some by fastforce
  with assms(3) upserts_show [OF assms(1,2) Some] Some show ?thesis by auto
qed

lemma reconcile_shows:
  assumes "layer_ok layer" "list_all admits xs"
  shows "layer_ok (reconcile key create refresh xs layer) \<and>
    rel_option depicts (current_items key xs k) (map_of (reconcile key create refresh xs layer) k)"
  unfolding reconcile_def
  by (intro conjI prune_ok upserts_ok assms refines_current [OF assms]) (simp_all add: prune_map_of)

lemma reconcile_pruned_shows:
  assumes "layer_ok layer" "list_all admits xs"
  shows "layer_ok (reconcile_pruned key create refresh xs layer) \<and>
    rel_option depicts (current_items key xs k) (map_of (reconcile_pruned key create refresh xs layer) k)"
  unfolding reconcile_pruned_def
  by (intro conjI prune_ok upserts_ok assms refines_current [OF prune_ok [OF assms(1)] assms(2)])
     (simp_all add: upserts_other prune_map_of)

end

end
