(* ===== verification/CampusMaps.thy ===== *)
theory CampusMaps
  imports KeyedLayer MapLayout DriverDashboard
begin

text \<open>
  The driver's maps over Leaflet: \<^verbatim>\<open>frontend/src/driver/CampusMinimap.tsx\<close> and
  \<^verbatim>\<open>driver/CampusExtendedMapModal.tsx\<close>. A map is its vehicle marker, the layer of peer markers, the route, the
  centre and whether it follows the vehicle; Leaflet keeps what it is told. The distance of two
  coordinates, \<^verbatim>\<open>LatLng.distanceTo\<close>, is the parameter \<open>metres\<close>.
\<close>

section \<open>Identifiers as markup\<close>

definition entities :: "(char \<times> string) list" where
  "entities = [(CHR ''&'', ''&amp;''), (CHR ''<'', ''&lt;''), (CHR ''>'', ''&gt;''), (CHR 0x22, ''&quot;''), (CHR 0x27, ''&#039;'')]"

definition escape_with :: "(char \<times> string) list \<Rightarrow> string \<Rightarrow> string" where
  "escape_with table s = concat (map (\<lambda>c. case map_of table c of Some e \<Rightarrow> e | None \<Rightarrow> [c]) s)"

definition escapeHtml :: "string \<Rightarrow> string" where
  "escapeHtml = escape_with entities"

section \<open>Icons and markers\<close>

definition normalizedHeading :: "jsnum \<Rightarrow> jsnum" where
  "normalizedHeading headingDeg = js_rem (js_rem headingDeg 360 + 360) 360"

record VehicleIcon =
  ic_heading :: jsnum
  ic_fill :: string
  ic_primary :: bool
  ic_label :: string

definition createVehicleIcon :: "jsnum \<Rightarrow> string \<Rightarrow> bool \<Rightarrow> bool \<Rightarrow> VehicleIcon" where
  "createVehicleIcon headingDeg vehicleId primary isEmergency =
     \<lparr>ic_heading = normalizedHeading headingDeg,
      ic_fill = (if isEmergency then ''#dc2626'' else if primary then ''#0284c7'' else ''#d97706''),
      ic_primary = primary, ic_label = escapeHtml vehicleId\<rparr>"

type_synonym LatLng = "jsnum \<times> jsnum"

record Marker =
  mk_position :: LatLng
  mk_icon :: VehicleIcon

definition siteCoordinates :: "jsnum \<Rightarrow> jsnum \<Rightarrow> LatLng" where
  "siteCoordinates x_m y_m =
     (let geo = cartesianToGeodetic x_m y_m (cfg_anchor DEFAULT_CAMPUS_CONFIG) in (geo_lat geo, geo_lng geo))"

definition updateMarkerHeading :: "jsnum \<Rightarrow> Marker \<Rightarrow> Marker" where
  "updateMarkerHeading headingDeg m = m\<lparr>mk_icon := (mk_icon m)\<lparr>ic_heading := normalizedHeading headingDeg\<rparr>\<rparr>"

definition emergencyReported :: "string \<Rightarrow> bool" where
  "emergencyReported state \<longleftrightarrow> state \<noteq> '''' \<and> state \<noteq> ''SAFE''"

definition updatePeerMarkerAppearance :: "string \<Rightarrow> Marker \<Rightarrow> Marker" where
  "updatePeerMarkerAppearance state m =
     m\<lparr>mk_icon := (mk_icon m)\<lparr>ic_fill := (if emergencyReported state then ''#dc2626'' else ''#d97706'')\<rparr>\<rparr>"

definition createPeer :: "V2XPeerNode \<Rightarrow> Marker" where
  "createPeer peer =
     \<lparr>mk_position = siteCoordinates (peer_x_m peer) (peer_y_m peer),
      mk_icon = createVehicleIcon (peer_heading_deg peer) (peer_vehicle_id peer) False (emergencyReported (peer_emergency_state peer))\<rparr>"

definition refreshMinimapPeer :: "V2XPeerNode \<Rightarrow> Marker \<Rightarrow> Marker" where
  "refreshMinimapPeer peer m =
     updateMarkerHeading (peer_heading_deg peer) (m\<lparr>mk_position := siteCoordinates (peer_x_m peer) (peer_y_m peer)\<rparr>)"

definition refreshModalPeer :: "V2XPeerNode \<Rightarrow> Marker \<Rightarrow> Marker" where
  "refreshModalPeer peer m =
     updatePeerMarkerAppearance (peer_emergency_state peer)
       (updateMarkerHeading (peer_heading_deg peer) (m\<lparr>mk_position := siteCoordinates (peer_x_m peer) (peer_y_m peer)\<rparr>))"

section \<open>The maps\<close>

record CampusMap =
  cmap_vehicle :: Marker
  cmap_coords :: LatLng
  cmap_peers :: "Marker layer"
  cmap_route :: "LatLng list option"
  cmap_showRoute :: bool
  cmap_follow :: bool
  cmap_center :: LatLng
  cmap_deps :: "(LatLng \<times> jsnum \<times> bool) option"

text \<open>The first route of the reference map, when it has two points at least; drawn once, at the mount.\<close>

definition campusRoute :: "WorldState \<Rightarrow> LatLng list option" where
  "campusRoute world =
     (case Option.bind (ws_reference_map world) (\<lambda>m. find (\<lambda>f. mf_feature_type f = ROUTE) (rm_features m)) of
        Some feature \<Rightarrow> if 1 < length (mf_points feature)
          then Some (map (\<lambda>p. siteCoordinates (pt_x_m p) (pt_y_m p)) (mf_points feature)) else None
      | None \<Rightarrow> None)"

definition mountCampusMap :: "WorldState \<Rightarrow> VehiclePose \<Rightarrow> CampusMap" where
  "mountCampusMap world vehicle =
     (let coords = siteCoordinates (vp_x_m vehicle) (vp_y_m vehicle);
          vehicleId = (if vp_vehicle_id vehicle = '''' then ''DUMPER_01'' else vp_vehicle_id vehicle)
      in \<lparr>cmap_vehicle = \<lparr>mk_position = coords, mk_icon = createVehicleIcon (vp_heading_deg vehicle) vehicleId True False\<rparr>,
          cmap_coords = coords, cmap_peers = [], cmap_route = campusRoute world, cmap_showRoute = True, cmap_follow = True,
          cmap_center = coords, cmap_deps = None\<rparr>)"

text \<open>The effect on the vehicle: it runs when the position, the heading or following has changed.\<close>

definition followVehicle :: "(LatLng \<Rightarrow> LatLng \<Rightarrow> real) \<Rightarrow> real \<Rightarrow> jsnum \<Rightarrow> CampusMap \<Rightarrow> CampusMap" where
  "followVehicle metres limit headingDeg m =
     (let deps = Some (cmap_coords m, headingDeg, cmap_follow m)
      in if cmap_deps m = deps then m
         else m\<lparr>cmap_deps := deps,
           cmap_vehicle := updateMarkerHeading headingDeg ((cmap_vehicle m)\<lparr>mk_position := cmap_coords m\<rparr>),
           cmap_center := (if cmap_follow m \<and> limit < metres (cmap_center m) (cmap_coords m) then cmap_coords m else cmap_center m)\<rparr>)"

definition renderCampusMap ::
    "(LatLng \<Rightarrow> LatLng \<Rightarrow> real) \<Rightarrow> real \<Rightarrow> (V2XPeerNode \<Rightarrow> Marker \<Rightarrow> Marker) \<Rightarrow> WorldState \<Rightarrow> VehiclePose \<Rightarrow> CampusMap \<Rightarrow> CampusMap" where
  "renderCampusMap metres limit refresh world vehicle m =
     (let m' = followVehicle metres limit (vp_heading_deg vehicle)
            (m\<lparr>cmap_coords := siteCoordinates (vp_x_m vehicle) (vp_y_m vehicle)\<rparr>)
      in m'\<lparr>cmap_peers := reconcile peer_vehicle_id createPeer refresh (activePeers world) (cmap_peers m')\<rparr>)"

text \<open>The button that follows again; the new value of following makes the effect run in the render after it.\<close>

definition recenter :: "CampusMap \<Rightarrow> CampusMap" where
  "recenter m = m\<lparr>cmap_follow := True, cmap_center := cmap_coords m\<rparr>"

definition dragMap :: "LatLng \<Rightarrow> CampusMap \<Rightarrow> CampusMap" where
  "dragMap center m = m\<lparr>cmap_follow := False, cmap_center := center\<rparr>"

datatype MinimapEvent =
  MinimapRendered WorldState VehiclePose
| MinimapDragged LatLng
| MinimapRecentered

fun minimap_step :: "(LatLng \<Rightarrow> LatLng \<Rightarrow> real) \<Rightarrow> MinimapEvent \<Rightarrow> CampusMap \<Rightarrow> CampusMap" where
  "minimap_step metres (MinimapRendered world vehicle) m = renderCampusMap metres 8 refreshMinimapPeer world vehicle m"
| "minimap_step metres (MinimapDragged center) m = dragMap center m"
| "minimap_step metres MinimapRecentered m = (if cmap_follow m then m else recenter m)"

datatype ModalEvent =
  ModalRendered WorldState VehiclePose
| ModalDragged LatLng
| FollowClicked
| RouteToggled
| VehicleFocused LatLng

fun modal_step :: "(LatLng \<Rightarrow> LatLng \<Rightarrow> real) \<Rightarrow> ModalEvent \<Rightarrow> CampusMap \<Rightarrow> CampusMap" where
  "modal_step metres (ModalRendered world vehicle) m = renderCampusMap metres 12 refreshModalPeer world vehicle m"
| "modal_step metres (ModalDragged center) m = dragMap center m"
| "modal_step metres FollowClicked m = recenter m"
| "modal_step metres RouteToggled m = m\<lparr>cmap_showRoute := \<not> cmap_showRoute m\<rparr>"
| "modal_step metres (VehicleFocused p) m = m\<lparr>cmap_follow := False, cmap_center := p\<rparr>"

definition routeShown :: "CampusMap \<Rightarrow> LatLng list option" where
  "routeShown m = (if cmap_showRoute m then cmap_route m else None)"

definition modalClosedBy :: "string \<Rightarrow> bool" where
  "modalClosedBy key \<longleftrightarrow> key = ''Escape''"

record ModalFigures =
  mdl_coords :: string
  mdl_speed :: string
  mdl_heading :: string
  mdl_corridor :: string
  mdl_nearby :: nat

definition modalFigures :: "WorldState \<Rightarrow> VehiclePose \<Rightarrow> bool \<Rightarrow> ModalFigures" where
  "modalFigures world vehicle online =
     \<lparr>mdl_coords = formatCoordinates (cartesianToGeodetic (vp_x_m vehicle) (vp_y_m vehicle) (cfg_anchor DEFAULT_CAMPUS_CONFIG)) 5,
      mdl_speed = (if online then formatNumber (vp_speed_mps vehicle * Fin 3.6) 1 @ '' km/h'' else ''--''),
      mdl_heading = (if online then formatNumber (vp_heading_deg vehicle) 0 @ [CHR 0xB0] else ''--''),
      mdl_corridor = corridor_value (if online then sc_state (ws_safe_corridor world) else GREY),
      mdl_nearby = length (activePeers world)\<rparr>"

text \<open>The cards of the sidebar: this vehicle and its peers, each with its link and two figures.\<close>

record DriverCard =
  dcd_name :: string
  dcd_link :: "LinkStatus option"
  dcd_figures :: "string \<times> string"
  dcd_focus :: LatLng

definition vehicleCard :: "VehiclePose \<Rightarrow> DriverCard" where
  "vehicleCard vehicle =
     \<lparr>dcd_name = (if vp_vehicle_id vehicle = '''' then ''DUMPER_01'' else vp_vehicle_id vehicle), dcd_link = None,
      dcd_figures = (toFixed (vp_speed_mps vehicle * Fin 3.6) 1 @ '' km/h'',
        num_str (js_round (vp_heading_deg vehicle)) @ [CHR 0xB0]),
      dcd_focus = siteCoordinates (vp_x_m vehicle) (vp_y_m vehicle)\<rparr>"

definition peerCard :: "V2XPeerNode \<Rightarrow> DriverCard" where
  "peerCard peer =
     \<lparr>dcd_name = peer_vehicle_id peer, dcd_link = Some (peer_link_status peer),
      dcd_figures = (num_str (peer_distance_m peer) @ '' m away'', toFixed (peer_speed_mps peer * Fin 3.6) 1 @ '' km/h''),
      dcd_focus = siteCoordinates (peer_x_m peer) (peer_y_m peer)\<rparr>"

definition driverCards :: "WorldState \<Rightarrow> VehiclePose \<Rightarrow> DriverCard list" where
  "driverCards world vehicle = vehicleCard vehicle # map peerCard (activePeers world)"

text \<open>
  Without a connection the figures over the map give no speed, while the card of the vehicle beside them still
  gives the last one.
\<close>

lemma card_speed_offline:
  "mdl_speed (modalFigures world vehicle False) = ''--'' \<and>
   fst (dcd_figures (hd (driverCards world vehicle))) = toFixed (vp_speed_mps vehicle * Fin 3.6) 1 @ '' km/h''"
  by (simp add: modalFigures_def driverCards_def vehicleCard_def)

definition minimap_run :: "(LatLng \<Rightarrow> LatLng \<Rightarrow> real) \<Rightarrow> WorldState \<Rightarrow> VehiclePose \<Rightarrow> MinimapEvent list \<Rightarrow> CampusMap" where
  "minimap_run metres world vehicle es = fold (minimap_step metres) es (mountCampusMap world vehicle)"

definition modal_run :: "(LatLng \<Rightarrow> LatLng \<Rightarrow> real) \<Rightarrow> WorldState \<Rightarrow> VehiclePose \<Rightarrow> ModalEvent list \<Rightarrow> CampusMap" where
  "modal_run metres world vehicle es = fold (modal_step metres) es (mountCampusMap world vehicle)"


section \<open>Labels read as the identifiers\<close>

text \<open>How a browser reads text with these character references back.\<close>

function html_text :: "(char \<times> string) list \<Rightarrow> string \<Rightarrow> string" where
  "html_text table s =
     (case find (\<lambda>(c, e). e \<noteq> [] \<and> take (length e) s = e) table of
        Some (c, e) \<Rightarrow> c # html_text table (drop (length e) s)
      | None \<Rightarrow> (case s of [] \<Rightarrow> [] | c # cs \<Rightarrow> c # html_text table cs))"
  by pat_completeness auto
termination
proof (relation "measure (length \<circ> snd)")
  fix table and s :: string and x c e
  assume "find (\<lambda>(c, e). e \<noteq> [] \<and> take (length e) s = e) table = Some x" "(c, e) = x"
  then have "e \<noteq> [] \<and> take (length e) s = e" by (auto simp: find_Some_iff)
  then have "s \<noteq> []" "0 < length e" by auto
  then show "((table, drop (length e) s), table, s) \<in> measure (length \<circ> snd)" by simp
qed simp_all

declare html_text.simps [simp del]

text \<open>
  A table of references: each is an ampersand and more, none of the escaped characters is among the rest of one, and none
  begins another.
\<close>

definition reference_table :: "(char \<times> string) list \<Rightarrow> bool" where
  "reference_table table \<longleftrightarrow> map_of table (CHR ''&'') \<noteq> None \<and>
     list_all (\<lambda>(c, e). e \<noteq> [] \<and> hd e = CHR ''&'' \<and> last e = CHR '';'' \<and> CHR '';'' \<notin> set (butlast e)) table \<and>
     distinct (map snd table) \<and> distinct (map fst table)"

lemma reference_unique:
  assumes "take (length a) (b @ t) = a" "a \<noteq> []" "b \<noteq> []" "last a = c" "c \<notin> set (butlast a)" "last b = c" "c \<notin> set (butlast b)"
  shows "a = b"
proof -
  have split: "takeWhile (\<lambda>x. x \<noteq> c) (xs @ t') = butlast xs" if "xs \<noteq> []" "last xs = c" "c \<notin> set (butlast xs)" for xs t'
  proof -
    have "takeWhile (\<lambda>x. x \<noteq> c) (butlast xs @ c # t') = butlast xs"
      using that(3) by (subst takeWhile_append2) auto
    moreover have "xs @ t' = butlast xs @ c # t'" using that(1,2) by (metis append.assoc append_Cons append_Nil append_butlast_last_id)
    ultimately show ?thesis by (simp only:)
  qed
  obtain t' where "b @ t = a @ t'" using assms(1) by (metis append_take_drop_id)
  then have "butlast a = butlast b" using split [of a t'] split [of b t] assms by metis
  then show ?thesis using assms by (metis append_butlast_last_id)
qed

lemma html_text_escape:
  assumes "reference_table table"
  shows "html_text table (escape_with table s) = s"
proof (induction s)
  case Nil
  have "find (\<lambda>(c, e). e \<noteq> [] \<and> take (length e) ([] :: string) = e) table = None" by (auto simp: find_None_iff)
  then show ?case by (simp add: escape_with_def html_text.simps [of table "[]"])
next
  case (Cons c s)
  let ?rest = "escape_with table s"
  have tab: "e \<noteq> [] \<and> hd e = CHR ''&'' \<and> last e = CHR '';'' \<and> CHR '';'' \<notin> set (butlast e)" if "(d, e) \<in> set table" for d e
    using assms that by (auto simp: reference_table_def list_all_iff)
  show ?case
  proof (cases "map_of table c")
    case None
    then have "c \<noteq> CHR ''&''" using assms by (auto simp: reference_table_def)
    then have "find (\<lambda>(d, e). e \<noteq> [] \<and> take (length e) (c # ?rest) = e) table = None"
      using tab by (fastforce simp: find_None_iff neq_Nil_conv)
    then show ?thesis using None Cons by (simp add: escape_with_def html_text.simps [of table "c # _"])
  next
    case (Some e)
    then have ce: "(c, e) \<in> set table" by (rule map_of_SomeD)
    have "(d, e') = (c, e)" if "(d, e') \<in> set table" "take (length e') (e @ ?rest) = e'" for d e'
    proof -
      have "e' = e" by (rule reference_unique [OF that(2)]) (use tab [OF that(1)] tab [OF ce] in auto)
      moreover have "inj_on snd (set table)" using assms by (simp add: reference_table_def distinct_map)
      note inj_onD [OF this, of "(d, e')" "(c, e)"]
      ultimately show ?thesis using that(1) ce by simp
    qed
    note unique = this
    let ?found = "find (\<lambda>(d, e'). e' \<noteq> [] \<and> take (length e') (e @ ?rest) = e') table"
    have "?found \<noteq> None" using ce tab [OF ce] unfolding find_None_iff by (auto intro!: exI [of _ c] exI [of _ e])
    then obtain d e' where found: "?found = Some (d, e')" by auto
    then have "(d, e') \<in> set table" "take (length e') (e @ ?rest) = e'" by (auto simp: find_Some_iff in_set_conv_nth)
    with unique [OF this] found have "?found = Some (c, e)" by simp
    then show ?thesis using Some Cons by (simp add: escape_with_def html_text.simps [of table "e @ _"])
  qed
qed

lemma escape_safe:
  assumes "\<forall>(d, e) \<in> set table. c \<notin> set e" "map_of table c \<noteq> None"
  shows "c \<notin> set (escape_with table s)"
proof -
  have "c \<notin> set (case map_of table d of Some e \<Rightarrow> e | None \<Rightarrow> [d])" for d
    using assms by (cases "map_of table d") (auto dest: map_of_SomeD)
  then show ?thesis by (auto simp: escape_with_def)
qed

lemma entities_table: "reference_table entities"
  by (simp add: reference_table_def entities_def)

text \<open>
  A vehicle's identifier cannot change the map's markup: whatever the identifier, its label has no tag bracket and no quote,
  and a browser reads the label back as the identifier.
\<close>

theorem label_is_text:
  "CHR ''<'' \<notin> set (escapeHtml s) \<and> CHR ''>'' \<notin> set (escapeHtml s) \<and> CHR 0x22 \<notin> set (escapeHtml s) \<and>
   CHR 0x27 \<notin> set (escapeHtml s) \<and> html_text entities (escapeHtml s) = s"
  using html_text_escape [OF entities_table, of s]
  by (simp add: escapeHtml_def escape_safe entities_def)


section \<open>The peers on the map\<close>

definition positioned :: "V2XPeerNode \<Rightarrow> Marker \<Rightarrow> bool" where
  "positioned peer m \<longleftrightarrow> mk_position m = mk_position (createPeer peer) \<and>
     ic_heading (mk_icon m) = normalizedHeading (peer_heading_deg peer) \<and>
     ic_label (mk_icon m) = escapeHtml (peer_vehicle_id peer) \<and> \<not> ic_primary (mk_icon m)"

lemmas marker_defs = createPeer_def refreshMinimapPeer_def refreshModalPeer_def updateMarkerHeading_def
  updatePeerMarkerAppearance_def createVehicleIcon_def positioned_def

interpretation minimap_layer: keyed_layer peer_vehicle_id createPeer refreshMinimapPeer "\<lambda>_. True" positioned
  by unfold_locales (simp_all add: marker_defs)

interpretation modal_layer: keyed_layer peer_vehicle_id createPeer refreshModalPeer "\<lambda>_. True" "\<lambda>peer m. m = createPeer peer"
  by unfold_locales (simp_all add: marker_defs)

text \<open>The vehicle of the last render and whether the map is where it should be.\<close>

definition centred :: "(LatLng \<Rightarrow> LatLng \<Rightarrow> real) \<Rightarrow> real \<Rightarrow> CampusMap \<Rightarrow> bool" where
  "centred metres limit m \<longleftrightarrow> (cmap_follow m \<longrightarrow> metres (cmap_center m) (cmap_coords m) \<le> limit) \<and>
     (\<forall>c h f. cmap_deps m = Some (c, h, f) \<longrightarrow> c = cmap_coords m)"

lemma follow_centred:
  assumes "\<And>p. metres p p = 0" "0 \<le> limit" "centred metres limit m"
  shows "centred metres limit (followVehicle metres limit h (m\<lparr>cmap_coords := c\<rparr>))"
proof (cases "cmap_deps m = Some (c, h, cmap_follow m)")
  case True
  then have "c = cmap_coords m" using assms(3) by (auto simp: centred_def)
  then show ?thesis using True assms by (simp add: centred_def followVehicle_def Let_def)
next
  case False
  then show ?thesis using assms by (auto simp: centred_def followVehicle_def Let_def)
qed

lemma render_centred:
  assumes "\<And>p. metres p p = 0" "0 \<le> limit" "centred metres limit m"
  shows "centred metres limit (renderCampusMap metres limit refresh world vehicle m)"
  using follow_centred [OF assms] by (simp add: renderCampusMap_def Let_def centred_def)

lemma follow_peers: "cmap_peers (followVehicle metres limit h m) = cmap_peers m"
  by (simp add: followVehicle_def Let_def)

lemma render_peers:
  "cmap_peers (renderCampusMap metres limit refresh world vehicle m) =
     reconcile peer_vehicle_id createPeer refresh (activePeers world) (cmap_peers m)"
  by (simp add: renderCampusMap_def Let_def follow_peers)

interpretation minimap_peers: machine "mountCampusMap w v" "minimap_step metres" "\<lambda>_. True" "\<lambda>m. minimap_layer.layer_ok (cmap_peers m)"
  for w v metres
proof
  show "minimap_layer.layer_ok (cmap_peers (mountCampusMap w v))"
    by (simp add: mountCampusMap_def Let_def minimap_layer.empty_ok)
  fix m :: CampusMap and e
  assume "minimap_layer.layer_ok (cmap_peers m)"
  then show "minimap_layer.layer_ok (cmap_peers (minimap_step metres e m))"
    using minimap_layer.reconcile_shows by (cases e) (simp_all add: list_all_iff render_peers dragMap_def recenter_def)
qed

interpretation modal_peers: machine "mountCampusMap w v" "modal_step metres" "\<lambda>_. True" "\<lambda>m. modal_layer.layer_ok (cmap_peers m)"
  for w v metres
proof
  show "modal_layer.layer_ok (cmap_peers (mountCampusMap w v))"
    by (simp add: mountCampusMap_def Let_def modal_layer.empty_ok)
  fix m :: CampusMap and e
  assume "modal_layer.layer_ok (cmap_peers m)"
  then show "modal_layer.layer_ok (cmap_peers (modal_step metres e m))"
    using modal_layer.reconcile_shows by (cases e) (simp_all add: list_all_iff render_peers dragMap_def recenter_def)
qed

text \<open>
  C22. The maps show the peers of the snapshot and nobody else: after any sequence of renders, drags and clicks, a render
  leaves one marker for each reported identifier and none for another, at the position and heading of the last report
  of that identifier; the large map also shows its emergency, the minimap need not.
\<close>

theorem maps_show_peers:
  "rel_option positioned (current_items peer_vehicle_id (activePeers world) k)
     (map_of (cmap_peers (minimap_run metres w v (es @ [MinimapRendered world vehicle]))) k) \<and>
   rel_option (\<lambda>peer m. m = createPeer peer) (current_items peer_vehicle_id (activePeers world) k)
     (map_of (cmap_peers (modal_run metres w v (fs @ [ModalRendered world vehicle]))) k)"
  using minimap_layer.reconcile_shows [OF minimap_peers.run_inv [of es]] modal_layer.reconcile_shows [OF modal_peers.run_inv [of fs]]
  by (simp add: minimap_run_def modal_run_def render_peers list_all_iff)

text \<open>
  The minimap paints a peer's marker once: a peer that reports an emergency later keeps the colour of a safe one, while the
  large map turns red.
\<close>

definition peerReporting :: "string \<Rightarrow> V2XPeerNode" where
  "peerReporting state = \<lparr>peer_vehicle_id = ''D2'', peer_last_seen_ms = 0, peer_x_m = 0, peer_y_m = 0, peer_distance_m = 0,
     peer_bearing_deg = None, peer_speed_mps = 0, peer_heading_deg = 0, peer_emergency_state = state, peer_rssi_dbm = 0,
     peer_link_status = LINK_GOOD\<rparr>"

lemma minimap_colour_stale:
  "ic_fill (mk_icon (refreshMinimapPeer (peerReporting ''EMERGENCY_STOP'') (createPeer (peerReporting ''SAFE'')))) = ''#d97706'' \<and>
   ic_fill (mk_icon (refreshModalPeer (peerReporting ''EMERGENCY_STOP'') (createPeer (peerReporting ''SAFE'')))) = ''#dc2626''"
  by (simp add: marker_defs peerReporting_def emergencyReported_def)

section \<open>Following\<close>

text \<open>
  The maps as machines over \<open>centred\<close>, under the documented fact that a coordinate is at distance zero from itself.
\<close>

locale map_distance =
  fixes metres :: "LatLng \<Rightarrow> LatLng \<Rightarrow> real"
  assumes metres_refl: "metres p p = 0"
begin

sublocale minimap_follow: machine "mountCampusMap w v" "minimap_step metres" "\<lambda>_. True" "centred metres 8" for w v
proof
  show "centred metres 8 (mountCampusMap w v)" by (simp add: mountCampusMap_def Let_def centred_def metres_refl)
  show "centred metres 8 (minimap_step metres e m)" if "centred metres 8 m" for e m
    using that render_centred [of metres 8 m] metres_refl
    by (cases e) (simp_all add: dragMap_def recenter_def centred_def)
qed

sublocale modal_follow: machine "mountCampusMap w v" "modal_step metres" "\<lambda>_. True" "centred metres 12" for w v
proof
  show "centred metres 12 (mountCampusMap w v)" by (simp add: mountCampusMap_def Let_def centred_def metres_refl)
  show "centred metres 12 (modal_step metres e m)" if "centred metres 12 m" for e m
    using that render_centred [of metres 12 m] metres_refl
    by (cases e) (simp_all add: dragMap_def recenter_def centred_def)
qed

lemma minimap_centred: "centred metres 8 (minimap_run metres w v es)"
  unfolding minimap_run_def by (rule minimap_follow.run_inv) (simp add: list_all_iff)

lemma modal_centred: "centred metres 12 (modal_run metres w v es)"
  unfolding modal_run_def by (rule modal_follow.run_inv) (simp add: list_all_iff)

end

text \<open>The documented distance: along a great circle of a sphere with the radius of the earth.\<close>

definition radians_of :: "jsnum \<Rightarrow> real" where
  "radians_of degrees = (case degrees of Fin r \<Rightarrow> r * pi / 180 | _ \<Rightarrow> 0)"

definition sphereDistance :: "LatLng \<Rightarrow> LatLng \<Rightarrow> real" where
  "sphereDistance p q =
     (let lat = radians_of (fst p); lat' = radians_of (fst q); dlat = lat' - lat; dlng = radians_of (snd q) - radians_of (snd p)
      in 2 * 6371000 * arcsin (sqrt ((sin (dlat / 2))\<^sup>2 + cos lat * cos lat' * (sin (dlng / 2))\<^sup>2)))"

interpretation sphere: map_distance sphereDistance
  by unfold_locales (simp add: sphereDistance_def)

text \<open>
  A map that follows the vehicle keeps it in sight: as long as a coordinate has distance zero from itself, after any sequence of
  renders, drags and clicks a following minimap is centred within 8 metres of the last position of the vehicle and a following
  large map within 12; a drag stops following, and then no render moves the map.
\<close>

theorem maps_follow_vehicle:
  assumes "\<And>p. metres p p = 0"
  shows "let m = minimap_run metres w v es; n = modal_run metres w v fs
    in (cmap_follow m \<longrightarrow> metres (cmap_center m) (cmap_coords m) \<le> 8) \<and>
       (cmap_follow n \<longrightarrow> metres (cmap_center n) (cmap_coords n) \<le> 12) \<and>
       (\<forall>world vehicle. cmap_center (minimap_step metres (MinimapRendered world vehicle) (minimap_step metres (MinimapDragged c) m)) = c \<and>
          cmap_center (modal_step metres (ModalRendered world vehicle) (modal_step metres (ModalDragged c) n)) = c)"
proof -
  have "map_distance metres" by unfold_locales (rule assms)
  from map_distance.minimap_centred [OF this, of w v es] map_distance.modal_centred [OF this, of w v fs]
  show ?thesis by (simp add: Let_def centred_def renderCampusMap_def followVehicle_def dragMap_def)
qed

theorem maps_follow_vehicle_witness:
  "\<exists>metres. metres (cmap_center (minimap_run metres sampleWorld defaultVehicle [MinimapDragged (0, 0), MinimapRecentered]))
     (cmap_coords (minimap_run metres sampleWorld defaultVehicle [MinimapDragged (0, 0), MinimapRecentered])) \<le> 8"
proof -
  let ?d = "\<lambda>p q :: LatLng. if p = q then 0 else 100 :: real"
  have "cmap_follow (minimap_run ?d sampleWorld defaultVehicle [MinimapDragged (0, 0), MinimapRecentered])"
    by (simp add: minimap_run_def dragMap_def recenter_def)
  then show ?thesis
    using maps_follow_vehicle [of ?d sampleWorld defaultVehicle "[MinimapDragged (0, 0), MinimapRecentered]"] unfolding Let_def
    by (intro exI [of _ ?d]) simp
qed

end
