(* ===== verification/EfficiencyPanel.thy ===== *)
theory EfficiencyPanel
  imports HaulEfficiency EfficiencyHook
begin

text \<open>
  The haul efficiency page, \<^verbatim>\<open>frontend/src/supervisor/HaulEfficiencyPanel.tsx\<close>: the geometry of its
  chart, the keys of the chart, the detail card and the page as a machine around the hook that loads
  the trips. Times are printed by parameters: \<open>clock\<close> is \<^verbatim>\<open>timeLabel\<close> and \<open>day\<close> the date of a record,
  both of the browser's locale. \<open>lc\<close> is \<^verbatim>\<open>localeCompare\<close>, as in the selection of the trips.
\<close>

definition middle_dot :: string where
  "middle_dot = '' '' @ [CHR 0xB7] @ '' ''"

fun sourceLabel :: "DataMode option \<Rightarrow> string" where
  "sourceLabel (Some SIMULATED) = ''Simulated''"
| "sourceLabel (Some REPLAY) = ''Replay''"
| "sourceLabel (Some LIVE) = ''Live''"
| "sourceLabel None = ''Source unknown''"

definition haulNumber :: "EfficiencyTrip \<Rightarrow> string" where
  "haulNumber trip = pad_zeros 2 (nat_str (et_number trip))"

section \<open>The geometry of the chart\<close>

text \<open>The observer's width, at least 260; the plot keeps 48 on the left and 22 on the right.\<close>

definition observedWidth :: "jsnum \<Rightarrow> jsnum" where
  "observedWidth contentWidth = js_max 260 contentWidth"

definition chartRight :: "jsnum \<Rightarrow> jsnum" where
  "chartRight width = width - 22"

definition chartSlot :: "jsnum \<Rightarrow> nat \<Rightarrow> jsnum" where
  "chartSlot width trips = (chartRight width - 48) / js_max (Fin (of_nat trips)) 1"

definition chartX :: "jsnum \<Rightarrow> nat \<Rightarrow> nat \<Rightarrow> jsnum" where
  "chartX width trips index = 48 + chartSlot width trips * (Fin (of_nat index) + Fin (1/2))"

definition chartScale :: "EfficiencyTrip list \<Rightarrow> EfficiencyScale" where
  "chartScale trips = efficiencyScale (if trips \<noteq> [] then map et_efficiency trips else [0])"

definition chartY :: "EfficiencyScale \<Rightarrow> jsnum \<Rightarrow> jsnum" where
  "chartY scale val =
     222 - (val - Fin (scale_min scale)) / (Fin (scale_max scale) - Fin (scale_min scale)) * (222 - 38)"

definition payloadMax :: "EfficiencyTrip list \<Rightarrow> jsnum" where
  "payloadMax trips = js_max 20 (js_ceil (js_max_list (map et_payloadT trips @ [0]) / 20) * 20)"

definition payloadY :: "jsnum \<Rightarrow> jsnum \<Rightarrow> jsnum" where
  "payloadY greatest val = 362 - val / greatest * (362 - 284)"

text \<open>Commands of an SVG path.\<close>

datatype PathCommand =
  MoveTo jsnum jsnum
| LineTo jsnum jsnum
| VerticalTo jsnum
| HorizontalTo jsnum
| QuadraticTo jsnum jsnum jsnum jsnum
| ClosePath

definition efficiencyPath :: "jsnum \<Rightarrow> EfficiencyTrip list \<Rightarrow> PathCommand list" where
  "efficiencyPath width trips =
     map (\<lambda>(index, trip).
       (if index \<noteq> 0 then LineTo else MoveTo) (chartX width (length trips) index)
         (chartY (chartScale trips) (et_efficiency trip)))
       (enumerate 0 trips)"

definition efficiencyArea :: "jsnum \<Rightarrow> EfficiencyTrip list \<Rightarrow> PathCommand list" where
  "efficiencyArea width trips =
     (if 1 < length trips
      then efficiencyPath width trips @
        [LineTo (chartX width (length trips) (length trips - 1)) 222, LineTo (chartX width (length trips) 0) 222, ClosePath]
      else [])"

definition tickEvery :: "jsnum \<Rightarrow> nat \<Rightarrow> nat" where
  "tickEvery width trips = (if width < 480 then 3 else if 20 < trips then 2 else 1)"

definition barWidth :: "jsnum \<Rightarrow> jsnum" where
  "barWidth slot = js_min 18 (slot * Fin 0.48)"

definition payloadBar :: "jsnum \<Rightarrow> jsnum \<Rightarrow> jsnum \<Rightarrow> PathCommand list" where
  "payloadBar px bar barTop =
     (let radius = js_min 4 (js_max 0 (bar / 2 - Fin 0.5))
      in [MoveTo (px - bar / 2) 362, VerticalTo (barTop + radius),
          QuadraticTo (px - bar / 2) barTop (px - bar / 2 + radius) barTop,
          HorizontalTo (px + bar / 2 - radius),
          QuadraticTo (px + bar / 2) barTop (px + bar / 2) (barTop + radius),
          VerticalTo 362, ClosePath])"

record HaulMark =
  mark_id :: string
  mark_active :: bool
  mark_x :: jsnum
  mark_y :: jsnum
  mark_radius :: jsnum
  mark_bar :: "PathCommand list"
  mark_tick :: "string option"
  mark_label :: string

definition haulMark :: "jsnum \<Rightarrow> EfficiencyTrip list \<Rightarrow> string option \<Rightarrow> nat \<Rightarrow> EfficiencyTrip \<Rightarrow> HaulMark" where
  "haulMark width trips activeId index trip =
     (let px = chartX width (length trips) index; isActive = (activeId = Some (et_id trip))
      in \<lparr>mark_id = et_id trip, mark_active = isActive, mark_x = px,
          mark_y = chartY (chartScale trips) (et_efficiency trip),
          mark_radius = (if isActive then 6 else Fin 4.5),
          mark_bar = payloadBar px (barWidth (chartSlot width (length trips)))
            (payloadY (payloadMax trips) (et_payloadT trip)),
          mark_tick = (if index mod tickEvery width (length trips) = 0 \<or> index = length trips - 1
            then Some (haulNumber trip) else None),
          mark_label = ''Haul '' @ nat_str (et_number trip) @ '': '' @ formatValue (Some (et_efficiency trip)) 2 @
            '' t'' @ [CHR 0xB7] @ ''km/L, '' @ formatValue (Some (et_payloadT trip)) 1 @ '' tonnes, '' @
            formatValue (Some (et_fuelL trip)) 1 @ '' litres estimated fuel''\<rparr>)"

text \<open>What the chart draws; a line across the plot is its height.\<close>

record HaulCycleChart =
  hcc_readout :: "(string \<times> string) option"
  hcc_empty :: "(string \<times> string) option"
  hcc_grid :: "(jsnum \<times> string) list"
  hcc_average :: "jsnum option"
  hcc_path :: "PathCommand list"
  hcc_area :: "PathCommand list"
  hcc_payloadGrid :: "(jsnum \<times> jsnum) list"
  hcc_marks :: "HaulMark list"

definition findTrip :: "EfficiencyTrip list \<Rightarrow> string option \<Rightarrow> EfficiencyTrip option" where
  "findTrip trips activeId = find (\<lambda>trip. activeId = Some (et_id trip)) trips"

definition haulCycleChart :: "jsnum \<Rightarrow> EfficiencyTrip list \<Rightarrow> string option \<Rightarrow> bool \<Rightarrow> HaulCycleChart" where
  "haulCycleChart width trips activeId loading =
     (let scale = chartScale trips; greatest = payloadMax trips
      in \<lparr>hcc_readout = map_option (\<lambda>active.
            (formatValue (Some (et_efficiency active)) 2 @ '' t'' @ [CHR 0xB7] @ ''km/L'',
             ''Haul '' @ haulNumber active @ middle_dot @ formatValue (Some (et_payloadT active)) 1 @ '' t payload'' @
             middle_dot @ formatValue (Some (et_fuelL active)) 1 @ '' L estimated fuel''))
            (findTrip trips activeId),
          hcc_empty = (if trips \<noteq> [] then None
            else if loading then Some (''Loading completed hauls'', ''Fetching this truck's trip history.'')
            else Some (''No completed hauls yet'',
              ''A haul appears after the truck finishes its loaded journey, unloading and empty return.'')),
          hcc_grid = (if trips = [] then [] else map (\<lambda>val. (chartY scale (Fin val), formatValue (Some (Fin val)) 1)) (scale_ticks scale)),
          hcc_average = (if trips = [] then None else map_option (chartY scale) (sum_efficiency (summarizeTrips trips))),
          hcc_path = (if trips = [] then [] else efficiencyPath width trips),
          hcc_area = (if trips = [] then [] else efficiencyArea width trips),
          hcc_payloadGrid = (if trips = [] then [] else map (\<lambda>val. (payloadY greatest val, val)) [0, greatest / 2, greatest]),
          hcc_marks = map (\<lambda>(index, trip). haulMark width trips activeId index trip) (enumerate 0 trips)\<rparr>)"

text \<open>
  A key on the target of trip \<open>index\<close>: the calls of \<^verbatim>\<open>onInspect\<close> it leads to. Escape clears and blurs;
  an arrow moves the focus to the neighbour, which blurs the one and focuses the other.
\<close>

definition haulKey :: "EfficiencyTrip list \<Rightarrow> nat \<Rightarrow> string \<Rightarrow> string option list" where
  "haulKey trips index key =
     (if key = ''Escape'' then [None, None]
      else if key = ''ArrowLeft'' \<or> key = ''ArrowRight'' then
        (let next = int index + (if key = ''ArrowRight'' then 1 else -1);
             target = nat (max 0 (min (int (length trips) - 1) next))
         in if target = index \<or> length trips \<le> target then [] else [None, Some (et_id (trips ! target))])
      else [])"

section \<open>The detail of a haul\<close>

record TripDetail =
  td_heading :: string
  td_number :: string
  td_efficiency :: string
  td_payload :: string
  td_fuel :: string
  td_distance :: string
  td_duration :: string
  td_idle :: string
  td_completed :: string
  td_source :: string

definition tripDetail :: "(jsnum \<Rightarrow> string) \<Rightarrow> EfficiencyTrip option \<Rightarrow> DataMode option \<Rightarrow> bool \<Rightarrow> TripDetail" where
  "tripDetail clock trip mode latest =
     \<lparr>td_heading = (if latest then ''Latest completed haul'' else ''Selected haul''),
      td_number = (case trip of Some t \<Rightarrow> CHR ''#'' # haulNumber t | None \<Rightarrow> ''--''),
      td_efficiency = formatValue (map_option et_efficiency trip) 2,
      td_payload = formatValue (map_option et_payloadT trip) 1,
      td_fuel = formatValue (map_option et_fuelL trip) 1,
      td_distance = formatValue (map_option et_distanceKm trip) 2,
      td_duration = formatValue (map_option et_durationMin trip) 1,
      td_idle = formatValue (map_option et_idleMin trip) 1,
      td_completed = (case trip of Some t \<Rightarrow> clock (et_endedAtMs t) | None \<Rightarrow> ''--''),
      td_source = sourceLabel (case Option.bind trip et_source of Some s \<Rightarrow> Some s | None \<Rightarrow> mode) @
        '' trip'' @ middle_dot @ ''fuel is estimated''\<rparr>"


section \<open>The page as a machine\<close>

record HaulPanel =
  hp_vehicles :: "SupervisorVehicle list"
  hp_world :: "WorldState option"
  hp_selectedVehicleId :: string
  hp_limit :: nat
  hp_activeId :: "string option"
  hp_showRecords :: bool
  hp_hook :: EfficiencyHook

definition panelVehicle :: "SupervisorVehicle list \<Rightarrow> string \<Rightarrow> string" where
  "panelVehicle vehicles selectedVehicleId =
     (if list_ex (\<lambda>vehicle. sv_vehicleId vehicle = selectedVehicleId) vehicles then selectedVehicleId
      else case vehicles of vehicle # _ \<Rightarrow> sv_vehicleId vehicle | [] \<Rightarrow> '''')"

definition panelMode :: "HaulPanel \<Rightarrow> DataMode option" where
  "panelMode p = map_option ws_mode (hp_world p)"

definition panelArgs :: "HaulPanel \<Rightarrow> HookArgs" where
  "panelArgs p = \<lparr>arg_vehicleId = panelVehicle (hp_vehicles p) (hp_selectedVehicleId p), arg_limit = hp_limit p,
     arg_mode = panelMode p\<rparr>"

definition mountPanel :: "bool \<Rightarrow> SupervisorVehicle list \<Rightarrow> WorldState option \<Rightarrow> HaulPanel" where
  "mountPanel demo vehicles world =
     \<lparr>hp_vehicles = vehicles, hp_world = world, hp_selectedVehicleId = '''', hp_limit = DISPLAYED_TRIP_COUNT,
      hp_activeId = None, hp_showRecords = False,
      hp_hook = mountHook demo \<lparr>arg_vehicleId = panelVehicle vehicles '''', arg_limit = DISPLAYED_TRIP_COUNT,
        arg_mode = map_option ws_mode world\<rparr>\<rparr>"

text \<open>A render: the hook is called with the vehicle, the window and the mode of the page.\<close>

definition renderPanel :: "bool \<Rightarrow> HaulPanel \<Rightarrow> HaulPanel" where
  "renderPanel demo p = p\<lparr>hp_hook := renderHook demo (panelArgs p) (hp_hook p)\<rparr>"

definition chooseVehicle :: "string \<Rightarrow> HaulPanel \<Rightarrow> HaulPanel" where
  "chooseVehicle v p = p\<lparr>hp_selectedVehicleId := v, hp_activeId := None\<rparr>"

definition chooseWindow :: "nat \<Rightarrow> HaulPanel \<Rightarrow> HaulPanel" where
  "chooseWindow n p = p\<lparr>hp_limit := n, hp_activeId := None\<rparr>"

definition toggleRecords :: "HaulPanel \<Rightarrow> HaulPanel" where
  "toggleRecords p = p\<lparr>hp_showRecords := \<not> hp_showRecords p\<rparr>"

definition panelTrips :: "(string \<Rightarrow> string \<Rightarrow> int) \<Rightarrow> HaulPanel \<Rightarrow> EfficiencyTrip list" where
  "panelTrips lc p =
     selectEfficiencyTrips lc
       (case eff_history (efficiencyView (hp_hook p)) of Some history \<Rightarrow> th_trips history | None \<Rightarrow> [])
       (panelVehicle (hp_vehicles p) (hp_selectedVehicleId p)) (hp_limit p)"

definition panelLatest :: "(string \<Rightarrow> string \<Rightarrow> int) \<Rightarrow> HaulPanel \<Rightarrow> EfficiencyTrip option" where
  "panelLatest lc p = (let trips = panelTrips lc p in if trips = [] then None else Some (last trips))"

definition panelActive :: "(string \<Rightarrow> string \<Rightarrow> int) \<Rightarrow> HaulPanel \<Rightarrow> EfficiencyTrip option" where
  "panelActive lc p =
     (case findTrip (panelTrips lc p) (hp_activeId p) of Some trip \<Rightarrow> Some trip | None \<Rightarrow> panelLatest lc p)"

text \<open>The events of the page; those of the hook keep their place in its runs.\<close>

datatype PanelEvent =
  PanelProps "SupervisorVehicle list" "WorldState option"
| VehicleChosen string
| WindowChosen nat
| HaulInspected "string option"
| HaulKeyed nat string
| RecordsToggled
| PanelTimer nat bool
| PanelLoaded nat HookArgs "string + TripHistoryResponse" jsnum

definition inspectHaul :: "string option \<Rightarrow> HaulPanel \<Rightarrow> HaulPanel" where
  "inspectHaul trip p = p\<lparr>hp_activeId := trip\<rparr>"

fun panel_step :: "(string \<Rightarrow> string \<Rightarrow> int) \<Rightarrow> bool \<Rightarrow> PanelEvent \<Rightarrow> HaulPanel \<Rightarrow> HaulPanel" where
  "panel_step lc demo (PanelProps vehicles world) p = renderPanel demo (p\<lparr>hp_vehicles := vehicles, hp_world := world\<rparr>)"
| "panel_step lc demo (VehicleChosen v) p = renderPanel demo (chooseVehicle v p)"
| "panel_step lc demo (WindowChosen n) p = renderPanel demo (chooseWindow n p)"
| "panel_step lc demo (HaulInspected trip) p = renderPanel demo (inspectHaul trip p)"
| "panel_step lc demo (HaulKeyed index key) p =
     renderPanel demo (fold inspectHaul (haulKey (panelTrips lc p) index key) p)"
| "panel_step lc demo RecordsToggled p = renderPanel demo (toggleRecords p)"
| "panel_step lc demo (PanelTimer n initial) p =
     renderPanel demo (p\<lparr>hp_hook := efficiency_step demo
       (if initial then InitialTimerFired n else RefreshTimerFired n) (hp_hook p)\<rparr>)"
| "panel_step lc demo (PanelLoaded n a result now) p =
     renderPanel demo (p\<lparr>hp_hook := efficiency_step demo (LoadSettled n a result now) (hp_hook p)\<rparr>)"

definition panel_run ::
    "(string \<Rightarrow> string \<Rightarrow> int) \<Rightarrow> bool \<Rightarrow> SupervisorVehicle list \<Rightarrow> WorldState option \<Rightarrow> PanelEvent list \<Rightarrow> HaulPanel" where
  "panel_run lc demo vehicles world es = fold (panel_step lc demo) es (mountPanel demo vehicles world)"

section \<open>What the page shows\<close>

definition targetPayload :: "WorldState option \<Rightarrow> string \<Rightarrow> jsnum option" where
  "targetPayload world vehicleId =
     (case Option.bind world ws_operations of None \<Rightarrow> None
      | Some operations \<Rightarrow> map_option vom_target_payload_tonnes (map_of (ops_fleet operations) vehicleId))"

definition tripSource :: "DataMode option \<Rightarrow> EfficiencyTrip \<Rightarrow> DataMode option" where
  "tripSource mode trip = (case et_source trip of Some s \<Rightarrow> Some s | None \<Rightarrow> mode)"

definition allSimulated :: "DataMode option \<Rightarrow> EfficiencyTrip list \<Rightarrow> bool" where
  "allSimulated mode trips =
     (if trips \<noteq> [] then list_all (\<lambda>trip. tripSource mode trip = Some SIMULATED) trips else mode = Some SIMULATED)"

definition panelSource :: "DataMode option \<Rightarrow> EfficiencyTrip list \<Rightarrow> DataMode option" where
  "panelSource mode trips = (if allSimulated mode trips then Some SIMULATED else mode)"

definition updateLabel :: "(jsnum \<Rightarrow> string) \<Rightarrow> bool \<Rightarrow> EfficiencyDataState \<Rightarrow> string" where
  "updateLabel clock demo data =
     (if eff_error data then
        (case eff_updatedAtMs data of
           Some t \<Rightarrow> if t \<noteq> 0 \<and> t \<noteq> NaN then ''Refresh failed'' @ middle_dot @ ''showing data from '' @ clock t
             else ''Trip history unavailable'' @ middle_dot @ ''retrying every 30 seconds''
         | None \<Rightarrow> ''Trip history unavailable'' @ middle_dot @ ''retrying every 30 seconds'')
      else if eff_loading data then ''Loading trip history''
      else if demo then ''Recorded demo history''
      else ''Updated '' @ clock (case eff_updatedAtMs data of Some t \<Rightarrow> t | None \<Rightarrow> 0) @ middle_dot @ ''every 30 sec'')"

record RecordRow =
  rec_number :: string
  rec_completed :: string
  rec_payload :: string
  rec_fuel :: string
  rec_distance :: string
  rec_cycle :: string
  rec_efficiency :: string
  rec_source :: string

definition recordRow ::
    "(jsnum \<Rightarrow> string) \<Rightarrow> (jsnum \<Rightarrow> string) \<Rightarrow> DataMode option \<Rightarrow> EfficiencyTrip \<Rightarrow> RecordRow" where
  "recordRow clock day mode trip =
     \<lparr>rec_number = haulNumber trip, rec_completed = day (et_endedAtMs trip) @ '' '' @ clock (et_endedAtMs trip),
      rec_payload = formatValue (Some (et_payloadT trip)) 1, rec_fuel = formatValue (Some (et_fuelL trip)) 1,
      rec_distance = formatValue (Some (et_distanceKm trip)) 2, rec_cycle = formatValue (Some (et_durationMin trip)) 1,
      rec_efficiency = formatValue (Some (et_efficiency trip)) 2, rec_source = sourceLabel (tripSource mode trip)\<rparr>"

record HaulPanelView =
  hpv_badge :: string
  hpv_options :: "(string \<times> string) list"
  hpv_vehicle :: string
  hpv_capacity :: string
  hpv_stale :: bool
  hpv_update :: string
  hpv_kpis :: "(string \<times> string) list"
  hpv_chart :: HaulCycleChart
  hpv_detail :: TripDetail
  hpv_best :: "string \<times> string"
  hpv_note :: string
  hpv_toggle :: string
  hpv_records :: "RecordRow list option"

definition modeBadge :: "DataMode option \<Rightarrow> string" where
  "modeBadge source = (if source = None then ''SOURCE UNKNOWN'' else mode_text source)"

definition panelKpis :: "string \<Rightarrow> EfficiencyTrip list \<Rightarrow> (string \<times> string) list" where
  "panelKpis vehicleId trips =
     (let s = summarizeTrips trips
      in [(formatValue (sum_efficiency s) 2, ''Fuel-weighted across '' @ nat_str (sum_count s) @ '' hauls''),
          (formatValue (sum_averagePayload s) 1,
            if trips \<noteq> [] then formatValue (sum_minPayload s) 1 @ '' to '' @ formatValue (sum_maxPayload s) 1 @ '' t per haul''
            else ''Waiting for a completed load''),
          (formatValue (sum_fuelPerTonne s) 3,
            formatValue (if trips \<noteq> [] then Some (sum_totalFuel s) else None) 1 @ '' L estimated total fuel''),
          (formatValue (if trips \<noteq> [] then Some (sum_totalPayload s) else None) 1,
            nat_str (sum_count s) @ '' completed hauls'' @ middle_dot @ vehicleId)])"

definition bestText :: "EfficiencyTrip list \<Rightarrow> string \<times> string" where
  "bestText trips =
     (case sum_best (summarizeTrips trips) of
        Some best \<Rightarrow> (''Best in this window: '' @ formatValue (Some (et_efficiency best)) 2 @ '' t'' @ [CHR 0xB7] @ ''km/L'',
          formatValue (Some (et_payloadT best)) 1 @ '' t moved using '' @ formatValue (Some (et_fuelL best)) 1 @
          '' L of estimated fuel.'')
      | None \<Rightarrow> (''Best haul appears after a cycle completes'', ''Only completed trip records are compared.''))"

text \<open>No page without vehicles; else everything below is drawn from the selected trips.\<close>

definition panelView ::
    "(string \<Rightarrow> string \<Rightarrow> int) \<Rightarrow> (jsnum \<Rightarrow> string) \<Rightarrow> (jsnum \<Rightarrow> string) \<Rightarrow> bool \<Rightarrow> jsnum \<Rightarrow> HaulPanel \<Rightarrow> HaulPanelView option" where
  "panelView lc clock day demo width p =
     (if hp_vehicles p = [] then None
      else
        let vehicleId = panelVehicle (hp_vehicles p) (hp_selectedVehicleId p);
            data = efficiencyView (hp_hook p);
            trips = panelTrips lc p;
            latest = panelLatest lc p;
            active = panelActive lc p;
            mode = panelMode p;
            source = panelSource mode trips
        in Some
          \<lparr>hpv_badge = modeBadge source,
           hpv_options = map (\<lambda>vehicle. (sv_vehicleId vehicle,
             sv_vehicleId vehicle @ (if sv_isPrimary vehicle then middle_dot @ ''Primary'' else ''''))) (hp_vehicles p),
           hpv_vehicle = vehicleId,
           hpv_capacity = (case targetPayload (hp_world p) vehicleId of
             Some capacity \<Rightarrow> if capacity \<noteq> 0 \<and> capacity \<noteq> NaN then formatValue (Some capacity) 0 @ '' t rated payload''
               else ''Completed cycle analysis''
           | None \<Rightarrow> ''Completed cycle analysis''),
           hpv_stale = eff_error data,
           hpv_update = updateLabel clock demo data,
           hpv_kpis = panelKpis vehicleId trips,
           hpv_chart = haulCycleChart width trips
             (if map_option et_id active = hp_activeId p then hp_activeId p else None) (eff_loading data),
           hpv_detail = tripDetail clock active source (map_option et_id active = map_option et_id latest),
           hpv_best = bestText trips,
           hpv_note = (if allSimulated mode trips then ''Simulated history, including startup demonstration trips.''
             else ''Recorded trips for the selected truck.'') @ '' The table and charts use the same data.'',
           hpv_toggle = (if hp_showRecords p then ''Hide records''
             else ''View '' @ nat_str (length trips) @ '' haul records''),
           hpv_records = (if hp_showRecords p then Some (map (recordRow clock day mode) trips) else None)\<rparr>)"



section \<open>Everything is drawn inside the plot\<close>

lemma chartX_Fin:
  assumes "0 < n"
  shows "chartX (Fin w) n i = Fin (48 + (w - 70) / n * (i + 1 / 2))"
  using assms by (simp add: chartX_def chartSlot_def chartRight_def max_def)

lemma chartX_inside:
  fixes w :: real and i n :: nat
  assumes "i < n" and "260 \<le> w"
  shows "48 < 48 + (w - 70) / n * (i + 1 / 2)" and "48 + (w - 70) / n * (i + 1 / 2) < w - 22"
proof -
  show "48 < 48 + (w - 70) / n * (i + 1 / 2)" using assms by (simp add: mult_pos_pos divide_pos_pos)
  have "i + 1 \<le> n" using assms(1) by simp
  then have "real i + 1 / 2 < n" by linarith
  then have "(w - 70) * (i + 1 / 2) < (w - 70) * n" using assms(2) by (intro mult_strict_left_mono) simp_all
  then have "(w - 70) / n * (i + 1 / 2) < w - 70" using assms by (simp add: field_simps)
  then show "48 + (w - 70) / n * (i + 1 / 2) < w - 22" by simp
qed

lemma sound_efficiencies:
  assumes "list_all sound_trip trips"
  shows "\<forall>t \<in> set trips. \<exists>e p. et_efficiency t = Fin e \<and> 0 < e \<and> et_payloadT t = Fin p \<and> 0 < p"
  using assms by (auto simp: list_all_iff sound_trip_def positive_def isFinite_iff)

lemma finite_values_iff: "v \<in> set (finite_values xs) \<longleftrightarrow> Fin v \<in> set xs"
  by (force simp: finite_values_def List.map_filter_def split: jsnum.splits)

lemma scale_positive:
  assumes "finite_values values \<noteq> []" and "\<forall>v \<in> set (finite_values values). 0 \<le> v"
  shows "scale_min (efficiencyScale values) < scale_max (efficiencyScale values)"
proof -
  let ?s = "efficiencyScale values"
  from axis_covers [OF assms] obtain step where *: "0 < step" "2 \<le> length (scale_ticks ?s)"
    "last (scale_ticks ?s) = scale_max ?s"
    "scale_ticks ?s = map (\<lambda>i. scale_min ?s + of_nat i * step) [0..<length (scale_ticks ?s)]"
    by (auto simp: Let_def)
  define n where "n = length (scale_ticks ?s)"
  have "scale_ticks ?s = map (\<lambda>i. scale_min ?s + of_nat i * step) [0..<n]" "2 \<le> n"
    using *(2,4) by (simp_all only: n_def)
  then have "last (scale_ticks ?s) = scale_min ?s + of_nat (n - 1) * step"
    by (simp add: last_map)
  moreover have "0 < real (n - 1) * step" using *(1) \<open>2 \<le> n\<close> by simp
  ultimately show ?thesis using *(3) by linarith
qed

text \<open>The axis of the chart: its ends, and where a value between them is drawn.\<close>

lemma chartScale_covers:
  assumes "list_all sound_trip trips" and "trips \<noteq> []"
  shows "scale_min (chartScale trips) < scale_max (chartScale trips)"
    and "t \<in> set trips \<Longrightarrow> Fin (scale_min (chartScale trips)) \<le> et_efficiency t \<and>
      et_efficiency t \<le> Fin (scale_max (chartScale trips))"
    and "v \<in> set (scale_ticks (chartScale trips)) \<Longrightarrow>
      scale_min (chartScale trips) \<le> v \<and> v \<le> scale_max (chartScale trips)"
proof -
  let ?effs = "map et_efficiency trips"
  let ?s = "chartScale trips"
  have scale: "?s = efficiencyScale ?effs" using assms(2) by (simp add: chartScale_def)
  have effs: "\<exists>e. et_efficiency t = Fin e \<and> 0 < e" if "t \<in> set trips" for t
    using sound_efficiencies [OF assms(1)] that by blast
  have vals: "finite_values ?effs \<noteq> []" "\<forall>v \<in> set (finite_values ?effs). 0 \<le> v"
  proof -
    obtain t where "t \<in> set trips" using assms(2) by (cases trips) auto
    with effs obtain e where "Fin e \<in> set ?effs" by (metis imageI list.set_map)
    then show "finite_values ?effs \<noteq> []" by (metis empty_iff finite_values_iff list.set(1))
    show "\<forall>v \<in> set (finite_values ?effs). 0 \<le> v"
      using effs by (fastforce simp: finite_values_iff)
  qed
  from scale_positive [OF vals] show "scale_min ?s < scale_max ?s" by (simp add: scale)
  from axis_covers [OF vals] have covers: "\<forall>v \<in> set (finite_values ?effs). scale_min ?s \<le> v \<and> v \<le> scale_max ?s"
    and last: "last (scale_ticks ?s) = scale_max ?s" and len: "2 \<le> length (scale_ticks ?s)"
    by (simp_all add: Let_def scale)
  show "Fin (scale_min ?s) \<le> et_efficiency t \<and> et_efficiency t \<le> Fin (scale_max ?s)" if "t \<in> set trips"
  proof -
    note t = that
    from effs [OF t] obtain e where e: "et_efficiency t = Fin e" by blast
    with t have "Fin e \<in> set ?effs" by (metis imageI list.set_map)
    then show ?thesis using covers e by (simp add: finite_values_iff)
  qed
  from axis_covers [OF vals] obtain step where step: "0 < step"
    "scale_ticks ?s = map (\<lambda>i. scale_min ?s + of_nat i * step) [0..<length (scale_ticks ?s)]"
    by (auto simp: Let_def scale)
  define n where "n = length (scale_ticks ?s)"
  have ticks: "scale_ticks ?s = map (\<lambda>i. scale_min ?s + of_nat i * step) [0..<n]" "2 \<le> n"
    using step(2) len by (simp_all only: n_def)
  then have "scale_max ?s = scale_min ?s + of_nat (n - 1) * step" using last by (simp add: last_map)
  moreover have "of_nat i * step \<le> of_nat (n - 1) * step" if "i < n" for i
    using that step(1) by (intro mult_right_mono) auto
  ultimately show "scale_min ?s \<le> v \<and> v \<le> scale_max ?s" if "v \<in> set (scale_ticks ?s)"
    using that step(1) by (auto simp: ticks(1))
qed

lemma chartY_inside:
  assumes "scale_min s < scale_max s" and "Fin (scale_min s) \<le> v" and "v \<le> Fin (scale_max s)"
  shows "\<exists>y. chartY s v = Fin y \<and> 38 \<le> y \<and> y \<le> 222"
proof -
  obtain r where r: "v = Fin r" "scale_min s \<le> r" "r \<le> scale_max s"
    using assms(2,3) by (cases v) simp_all
  define q where "q = (r - scale_min s) / (scale_max s - scale_min s)"
  have "0 \<le> q" "q \<le> 1" using assms(1) r(2,3) by (simp_all add: q_def)
  moreover have "chartY s v = Fin (222 - q * 184)"
    using assms(1) by (simp add: chartY_def r(1) q_def)
  ultimately show ?thesis by simp
qed

lemma payloadMax_covers:
  assumes "list_all sound_trip trips"
  shows "\<exists>pm. payloadMax trips = Fin pm \<and> 20 \<le> pm \<and>
    (\<forall>t \<in> set trips. \<exists>p. et_payloadT t = Fin p \<and> 0 < p \<and> p \<le> pm)"
proof -
  have "\<forall>t \<in> set trips. \<exists>p. et_payloadT t = Fin p \<and> 0 < p"
    using sound_efficiencies [OF assms] by blast
  then obtain f where f: "\<forall>t \<in> set trips. et_payloadT t = Fin (f t) \<and> 0 < f t" by metis
  let ?ps = "map f trips @ [0]"
  have "map et_payloadT trips @ [0] = map Fin ?ps" using f by simp
  then have greatest: "js_max_list (map et_payloadT trips @ [0]) = Fin (Max (set ?ps))"
    using js_max_list_Fin [of ?ps] by (simp del: map_append)
  have pm: "payloadMax trips = Fin (max 20 (of_int \<lceil>Max (set ?ps) / 20\<rceil> * 20))"
    unfolding payloadMax_def greatest by simp
  have "f t \<le> max 20 (of_int \<lceil>Max (set ?ps) / 20\<rceil> * 20)" if "t \<in> set trips" for t
  proof -
    have "f t \<le> Max (set ?ps)" using that by (intro Max_ge) auto
    also have "\<dots> \<le> of_int \<lceil>Max (set ?ps) / 20\<rceil> * 20"
      using le_of_int_ceiling [of "Max (set ?ps) / 20"] by linarith
    finally show ?thesis by (simp only: le_max_iff_disj simp_thms)
  qed
  with f have "\<forall>t \<in> set trips. \<exists>p. et_payloadT t = Fin p \<and> 0 < p \<and>
      p \<le> max 20 (of_int \<lceil>Max (set ?ps) / 20\<rceil> * 20)" by metis
  with pm max.cobounded1 show ?thesis by blast
qed

lemma payloadY_inside:
  assumes "0 \<le> p" and "p \<le> pm" and "20 \<le> pm"
  shows "\<exists>y. payloadY (Fin pm) (Fin p) = Fin y \<and> 284 \<le> y \<and> y \<le> 362"
proof -
  define q where "q = p / pm"
  have "0 \<le> q" "q \<le> 1" using assms by (simp_all add: q_def)
  moreover have "payloadY (Fin pm) (Fin p) = Fin (362 - q * 78)" using assms(3) by (simp add: payloadY_def q_def)
  ultimately show ?thesis by simp
qed

lemma barWidth_Fin: "barWidth (Fin s) = Fin (min 18 (s * 0.48))"
  by (simp add: barWidth_def)

text \<open>A mark of the chart, and the drawing of the whole chart.\<close>

definition mark_inside :: "real \<Rightarrow> nat \<Rightarrow> HaulMark \<Rightarrow> bool" where
  "mark_inside w n m \<longleftrightarrow>
     (\<exists>x y barTop b. mark_x m = Fin x \<and> mark_y m = Fin y \<and> 38 \<le> y \<and> y \<le> 222 \<and>
        mark_bar m = payloadBar (Fin x) (Fin b) (Fin barTop) \<and> 284 \<le> barTop \<and> barTop \<le> 362 \<and>
        0 < b \<and> b < (w - 70) / n \<and> 48 < x - b / 2 \<and> x + b / 2 < w - 22)"

lemma haulMark_inside:
  assumes "list_all sound_trip trips" and "i < length trips" and "260 \<le> w"
  shows "mark_inside w (length trips) (haulMark (Fin w) trips activeId i (trips ! i))"
proof -
  let ?n = "length trips"
  let ?t = "trips ! i"
  define slot where "slot = (w - 70) / ?n"
  define x where "x = 48 + slot * (i + 1 / 2)"
  define b where "b = min 18 (slot * 0.48)"
  have n: "trips \<noteq> []" "0 < ?n" "?t \<in> set trips" using assms(2) by auto
  have slot: "0 < slot" using assms(3) n(2) by (simp add: slot_def)
  have b: "0 < b" "b < slot" using slot by (auto simp: b_def min_def)
  have "slot * (i + 1) \<le> slot * ?n" using slot assms(2) by (intro mult_left_mono) simp_all
  also have "\<dots> = w - 70" using n(2) by (simp add: slot_def)
  finally have "slot * i + slot \<le> w - 70" by (simp add: algebra_simps)
  moreover have "0 \<le> slot * i" using slot by simp
  moreover have "x = 48 + (slot * i + slot / 2)" by (simp add: x_def algebra_simps)
  ultimately have sides: "48 < x - b / 2" "x + b / 2 < w - 22"
    using b by linarith+
  have mx: "chartX (Fin w) ?n i = Fin x" using n(2) by (simp add: chartX_Fin x_def slot_def)
  have bar: "barWidth (chartSlot (Fin w) ?n) = Fin b"
  proof -
    have "max (real ?n) 1 = ?n" using n(2) by linarith
    then have "chartSlot (Fin w) ?n = Fin slot" using n(1) by (simp add: chartSlot_def chartRight_def slot_def)
    then show ?thesis by (simp only: barWidth_Fin b_def)
  qed
  obtain y where y: "chartY (chartScale trips) (et_efficiency ?t) = Fin y" "38 \<le> y" "y \<le> 222"
    using chartY_inside [OF chartScale_covers(1) [OF assms(1) n(1)]] chartScale_covers(2) [OF assms(1) n(1) n(3)] by blast
  obtain pm p where pm: "payloadMax trips = Fin pm" "20 \<le> pm" "et_payloadT ?t = Fin p" "0 < p" "p \<le> pm"
    using payloadMax_covers [OF assms(1)] n(3) by blast
  obtain barTop where barTop: "payloadY (Fin pm) (Fin p) = Fin barTop" "284 \<le> barTop" "barTop \<le> 362"
    using payloadY_inside [of p pm] pm by auto
  have "mark_x (haulMark (Fin w) trips activeId i ?t) = Fin x" "mark_y (haulMark (Fin w) trips activeId i ?t) = Fin y"
    "mark_bar (haulMark (Fin w) trips activeId i ?t) = payloadBar (Fin x) (Fin b) (Fin barTop)"
    by (simp_all add: haulMark_def Let_def mx y(1) bar pm(1,3) barTop(1))
  with y barTop b sides show ?thesis unfolding mark_inside_def slot_def by blast
qed

lemma average_inside:
  assumes "list_all sound_trip trips" and "trips \<noteq> []"
  shows "\<exists>y. hcc_average (haulCycleChart width trips activeId loading) = Some (Fin y) \<and> 38 \<le> y \<and> y \<le> 222"
proof -
  from summary_means [OF assms] obtain e a b where e: "sum_efficiency (summarizeTrips trips) = Some e"
    "a \<in> set trips" "b \<in> set trips" "et_efficiency a \<le> e" "e \<le> et_efficiency b"
    by (auto simp: Let_def)
  note cover = chartScale_covers [OF assms]
  have "Fin (scale_min (chartScale trips)) \<le> e" "e \<le> Fin (scale_max (chartScale trips))"
    using cover(2) e by (meson jsnum_le_trans)+
  from chartY_inside [OF cover(1) this] show ?thesis
    using assms(2) e(1) by (auto simp: haulCycleChart_def Let_def)
qed

lemma enumerate_map_nth: "map (\<lambda>(i, x). f i x) (enumerate 0 xs) = map (\<lambda>i. f i (xs ! i)) [0..<length xs]"
  by (rule nth_equalityI) (simp_all add: nth_enumerate_eq)

lemma chart_marks:
  "hcc_marks (haulCycleChart width trips activeId loading) =
     map (\<lambda>i. haulMark width trips activeId i (trips ! i)) [0..<length trips]"
  by (simp add: haulCycleChart_def Let_def enumerate_map_nth)

text \<open>
  C15. The chart stays inside its plot: for trips as the selection yields them and any width the
  observer can report, each haul has its own dot and bar, in order; every dot is between the lower and the
  upper edge of the efficiency plot, every bar starts at the base line, rises no higher than the payload
  plot, lies between the left and the right edge and is narrower than the distance to the next haul, so no
  two overlap; and the line of the average and every line of the grid are inside the plot too.
\<close>

theorem chart_inside_plot:
  assumes "list_all sound_trip trips" and "trips \<noteq> []" and "260 \<le> w"
  shows "let chart = haulCycleChart (Fin w) trips activeId loading; n = length trips in
    map mark_id (hcc_marks chart) = map et_id trips \<and>
    list_all (mark_inside w n) (hcc_marks chart) \<and>
    map mark_x (hcc_marks chart) = map (\<lambda>i. Fin (48 + (w - 70) / n * (i + 1 / 2))) [0..<n] \<and>
    (\<exists>y. hcc_average chart = Some (Fin y) \<and> 38 \<le> y \<and> y \<le> 222) \<and>
    list_all (\<lambda>(h, _). \<exists>y. h = Fin y \<and> 38 \<le> y \<and> y \<le> 222) (hcc_grid chart)"
proof -
  let ?chart = "haulCycleChart (Fin w) trips activeId loading"
  have "map mark_id (hcc_marks ?chart) = map et_id trips"
    by (rule nth_equalityI) (simp_all add: chart_marks haulMark_def Let_def)
  moreover have "list_all (mark_inside w (length trips)) (hcc_marks ?chart)"
    using haulMark_inside [OF assms(1) _ assms(3)] by (simp add: chart_marks list_all_iff)
  moreover have "map mark_x (hcc_marks ?chart) =
      map (\<lambda>i. Fin (48 + (w - 70) / length trips * (i + 1 / 2))) [0..<length trips]"
    using assms(2) by (simp add: chart_marks haulMark_def Let_def chartX_Fin)
  moreover note average_inside [OF assms(1,2), of "Fin w" activeId loading]
  moreover have "list_all (\<lambda>(h, _). \<exists>y. h = Fin y \<and> 38 \<le> y \<and> y \<le> 222) (hcc_grid ?chart)"
  proof -
    note cover = chartScale_covers [OF assms(1,2)]
    have "\<exists>y. chartY (chartScale trips) (Fin v) = Fin y \<and> 38 \<le> y \<and> y \<le> 222"
      if "v \<in> set (scale_ticks (chartScale trips))" for v
      by (rule chartY_inside [OF cover(1)]) (use cover(3) [OF that] in simp_all)
    then show ?thesis using assms(2) by (simp add: haulCycleChart_def Let_def list_all_iff)
  qed
  ultimately show ?thesis by (simp only: Let_def simp_thms)
qed



section \<open>The page shows the trips of its vehicle\<close>

fun panel_answer :: "(string \<Rightarrow> nat \<Rightarrow> TripHistoryResponse \<Rightarrow> bool) \<Rightarrow> PanelEvent \<Rightarrow> bool" where
  "panel_answer belongs (PanelLoaded n a result now) = answers_request belongs (LoadSettled n a result now)"
| "panel_answer belongs (WindowChosen n) = (n \<in> {15, 30})"
| "panel_answer belongs _ = True"

definition load_dated :: "EfficiencyHook \<Rightarrow> bool" where
  "load_dated h \<longleftrightarrow> eff_loading (efh_data h) \<or> eff_error (efh_data h) \<or>
     (\<exists>history t. eff_history (efh_data h) = Some history \<and> eff_updatedAtMs (efh_data h) = Some t)"

definition panel_inv :: "(string \<Rightarrow> nat \<Rightarrow> TripHistoryResponse \<Rightarrow> bool) \<Rightarrow> HaulPanel \<Rightarrow> bool" where
  "panel_inv belongs p \<longleftrightarrow> efh_args (hp_hook p) = panelArgs p \<and> data_current belongs (hp_hook p) \<and>
     load_dated (hp_hook p) \<and> hp_limit p \<in> {15, 30}"

lemma load_dated_step: "load_dated h \<Longrightarrow> load_dated (efficiency_step demo e h)"
proof (cases e)
  case (LoadSettled n a result now)
  moreover assume "load_dated h"
  ultimately show ?thesis
    by (cases result) (auto simp: load_dated_def settleLoad_def Let_def EMPTY_DATA_def)
qed (auto simp: load_dated_def renderHook_def startEffect_def fireTimer_def unmountHook_def)

lemma render_args: "efh_args (renderHook demo a h) = a"
  by (simp add: renderHook_def startEffect_def)

text \<open>A render keeps the data of the hook; so the page keeps its invariant whatever changed before.\<close>

lemma renderPanel_inv:
  assumes "data_current belongs (hp_hook p)" and "load_dated (hp_hook p)" and "hp_limit p \<in> {15, 30}"
  shows "panel_inv belongs (renderPanel demo p)"
proof -
  have "data_current belongs (renderHook demo (panelArgs p) (hp_hook p))"
    using data_current_step [OF assms(1), of "Rendered (panelArgs p)" demo] by simp
  moreover have "load_dated (renderHook demo (panelArgs p) (hp_hook p))"
    using load_dated_step [OF assms(2), of demo "Rendered (panelArgs p)"] by simp
  moreover have "panelArgs (renderPanel demo p) = panelArgs p"
    by (simp add: renderPanel_def panelArgs_def panelMode_def)
  ultimately show ?thesis
    using assms(3) by (simp add: panel_inv_def renderPanel_def render_args)
qed

lemma inspect_keeps:
  "hp_hook (fold inspectHaul is p) = hp_hook p" "hp_limit (fold inspectHaul is p) = hp_limit p"
  by (induction "is" arbitrary: p) (simp_all add: inspectHaul_def)

lemma panel_inv_step:
  assumes "panel_inv belongs p" and "panel_answer belongs e"
  shows "panel_inv belongs (panel_step lc demo e p)"
proof -
  have hook: "data_current belongs (hp_hook p)" "load_dated (hp_hook p)" "hp_limit p \<in> {15, 30}"
    using assms(1) by (simp_all add: panel_inv_def)
  show ?thesis
  proof (cases e)
    case (PanelTimer n initial)
    with hook show ?thesis
      by (cases initial) (auto intro!: renderPanel_inv data_current_step load_dated_step
        simp del: efficiency_step.simps)
  next
    case (PanelLoaded n a result now)
    with hook assms(2) show ?thesis
      by (auto intro!: renderPanel_inv data_current_step load_dated_step simp del: efficiency_step.simps)
  qed (use hook assms(2) in \<open>auto intro!: renderPanel_inv
    simp: chooseVehicle_def chooseWindow_def toggleRecords_def inspectHaul_def inspect_keeps\<close>)
qed

interpretation haul_panel: machine "mountPanel demo vehicles world" "panel_step lc demo" "panel_answer belongs"
  "panel_inv belongs" for demo vehicles world lc belongs
proof unfold_locales
  show "panel_inv belongs (mountPanel demo vehicles world)"
    using requestKey_nonempty
    by (auto simp: panel_inv_def mountPanel_def mountHook_def startEffect_def panelArgs_def panelMode_def
      data_current_def load_dated_def EMPTY_DATA_def DISPLAYED_TRIP_COUNT_def)
qed (rule panel_inv_step)

lemma panelVehicle_in_fleet:
  "vehicles \<noteq> [] \<Longrightarrow> panelVehicle vehicles v \<in> sv_vehicleId ` set vehicles"
  by (auto simp: panelVehicle_def list_ex_iff split: list.splits)

lemma panel_history:
  assumes "panel_inv belongs p" and "eff_history (efficiencyView (hp_hook p)) = Some history"
  shows "belongs (panelVehicle (hp_vehicles p) (hp_selectedVehicleId p)) (hp_limit p) history"
proof -
  have "efh_key (hp_hook p) = requestKey (panelArgs p)" "eff_history (efh_data (hp_hook p)) = Some history"
    using assms by (auto simp: panel_inv_def efficiencyView_def IDLE_DATA_def EMPTY_DATA_def split: if_splits)
  with assms(1) have "belongs (arg_vehicleId (panelArgs p)) (arg_limit (panelArgs p)) history"
    by (auto simp: panel_inv_def data_current_def)
  then show ?thesis by (simp add: panelArgs_def)
qed

lemma findTrip_Some: "findTrip trips i = Some t \<Longrightarrow> t \<in> set trips \<and> i = Some (et_id t)"
  by (auto simp: findTrip_def find_Some_iff)

lemma findTrip_None: "findTrip trips i = None \<longleftrightarrow> i \<notin> Some ` et_id ` set trips"
  by (auto simp: findTrip_def find_None_iff)

lemma panelActive_cases:
  "case panelActive lc p of
     None \<Rightarrow> panelTrips lc p = []
   | Some t \<Rightarrow> t \<in> set (panelTrips lc p) \<and>
       (hp_activeId p = Some (et_id t) \<or> hp_activeId p \<notin> Some ` et_id ` set (panelTrips lc p) \<and> t = last (panelTrips lc p))"
  using findTrip_Some [of "panelTrips lc p" "hp_activeId p"] findTrip_None [of "panelTrips lc p" "hp_activeId p"]
  by (auto simp: panelActive_def panelLatest_def Let_def split: option.splits)

lemma panelTrips_sound:
  assumes "collation lc" and "panel_inv belongs p"
    and "\<And>v n h. belongs v n h \<Longrightarrow> list_all (\<lambda>r. isFinite (trip_end_time_ms r)) (th_trips h)"
  defines "trips \<equiv> panelTrips lc p" and "v \<equiv> panelVehicle (hp_vehicles p) (hp_selectedVehicleId p)"
  shows "length trips \<le> hp_limit p" and "list_all sound_trip trips" and "distinct (map et_id trips)"
    and "sorted_wrt (\<lambda>a b. et_endedAtMs a \<le> et_endedAtMs b) trips"
    and "t \<in> set trips \<Longrightarrow> \<exists>history. eff_history (efficiencyView (hp_hook p)) = Some history \<and>
      belongs v (hp_limit p) history \<and>
      list_ex (\<lambda>r. trip_trip_id r = et_id t \<and> trip_vehicle_id r = v) (th_trips history)"
proof -
  have limit: "0 < hp_limit p" using assms(2) by (auto simp: panel_inv_def)
  define records where "records = (case eff_history (efficiencyView (hp_hook p)) of Some history \<Rightarrow> th_trips history | None \<Rightarrow> [])"
  have finite: "list_all (\<lambda>r. isFinite (trip_end_time_ms r)) records"
    using assms(3) panel_history [OF assms(2)] by (auto simp: records_def split: option.splits)
  have trips: "trips = selectEfficiencyTrips lc records v (hp_limit p)"
    by (simp add: trips_def panelTrips_def records_def v_def)
  note sel = selected_trips_sound [OF assms(1) finite limit, of v, unfolded Let_def, folded trips]
  show "length trips \<le> hp_limit p" "list_all sound_trip trips" "distinct (map et_id trips)"
    "sorted_wrt (\<lambda>a b. et_endedAtMs a \<le> et_endedAtMs b) trips"
    using sel by blast+
  assume "t \<in> set trips"
  with sel have own: "list_ex (\<lambda>r. trip_trip_id r = et_id t \<and> trip_vehicle_id r = v) records"
    by (simp add: list_all_iff)
  then obtain history where "eff_history (efficiencyView (hp_hook p)) = Some history" "records = th_trips history"
    by (cases "eff_history (efficiencyView (hp_hook p))") (auto simp: records_def)
  with own panel_history [OF assms(2)] show "\<exists>history. eff_history (efficiencyView (hp_hook p)) = Some history \<and>
      belongs v (hp_limit p) history \<and>
      list_ex (\<lambda>r. trip_trip_id r = et_id t \<and> trip_vehicle_id r = v) (th_trips history)"
    by (auto simp: v_def)
qed

lemma chart_ids: "map mark_id (hcc_marks (haulCycleChart width trips activeId loading)) = map et_id trips"
  by (rule nth_equalityI) (simp_all add: chart_marks haulMark_def Let_def)

lemma panelView_fields:
  assumes "panelView lc clock day demo width p = Some page"
  shows "hp_vehicles p \<noteq> []" and "hpv_vehicle page = panelVehicle (hp_vehicles p) (hp_selectedVehicleId p)"
    and "fst ` set (hpv_options page) = sv_vehicleId ` set (hp_vehicles p)"
    and "map mark_id (hcc_marks (hpv_chart page)) = map et_id (panelTrips lc p)"
    and "td_efficiency (hpv_detail page) = formatValue (map_option et_efficiency (panelActive lc p)) 2"
    and "hpv_stale page = eff_error (efficiencyView (hp_hook p))"
proof -
  show vehicles: "hp_vehicles p \<noteq> []" using assms by (auto simp: panelView_def)
  note page = assms [unfolded panelView_def Let_def if_not_P [OF vehicles] option.inject, symmetric]
  show "hpv_vehicle page = panelVehicle (hp_vehicles p) (hp_selectedVehicleId p)"
    "fst ` set (hpv_options page) = sv_vehicleId ` set (hp_vehicles p)"
    "map mark_id (hcc_marks (hpv_chart page)) = map et_id (panelTrips lc p)"
    "td_efficiency (hpv_detail page) = formatValue (map_option et_efficiency (panelActive lc p)) 2"
    "hpv_stale page = eff_error (efficiencyView (hp_hook p))"
    unfolding page by (simp_all add: chart_ids tripDetail_def image_image)
qed


definition truckVehicle :: "string \<Rightarrow> SupervisorVehicle" where
  "truckVehicle v = \<lparr>sv_haul = None, sv_vehicleId = v, sv_isPrimary = True, sv_isSimulated = False,
     sv_sourceLabel = ''LIVE'', sv_hasPosition = True, sv_xM = 0, sv_yM = 0, sv_headingDeg = 0, sv_speedMps = 0,
     sv_positionConfidence = None, sv_emergencyState = None, sv_linkStatus = None, sv_distanceM = None,
     sv_lastUpdateMs = 0, sv_ageMs = 0, sv_tone = nominal\<rparr>"

definition loadedPanel :: "HaulPanel" where
  "loadedPanel = panel_run codePointCompare False [truckVehicle ''DUMPER_01''] None
     [PanelTimer 0 True,
      PanelLoaded 0 \<lparr>arg_vehicleId = ''DUMPER_01'', arg_limit = 15, arg_mode = None\<rparr>
        (Inr \<lparr>th_trips = [sampleTrip ''a'' 1], th_total_trips = 1, th_total_tonnes = 90\<rparr>) 5,
      WindowChosen 30]"


theorem chart_inside_plot_witness:
  "\<exists>y. hcc_average (haulCycleChart (Fin 800) [the (toEfficiencyTrip (sampleTrip ''a'' 1) 0)] None False) = Some (Fin y) \<and> 38 \<le> y"
proof -
  have "list_all sound_trip [the (toEfficiencyTrip (sampleTrip ''a'' 1) 0)]"
    by (simp add: sampleTrip_def toEfficiencyTrip_def isValidDate_def Let_def sound_trip_def positive_def)
  from chart_inside_plot [OF this, of 800 None False] show ?thesis by (auto simp: Let_def)
qed

text \<open>An arrow key moves to the neighbour of a haul and never leaves the chart; Escape leaves none inspected.\<close>

lemma haulKey_neighbour:
  assumes "index < length trips" and "haulKey trips index key \<noteq> []"
  shows "case last (haulKey trips index key) of
      None \<Rightarrow> key = ''Escape''
    | Some i \<Rightarrow> \<exists>j < length trips. i = et_id (trips ! j) \<and> (j = index + 1 \<and> key = ''ArrowRight'' \<or> Suc j = index \<and> key = ''ArrowLeft'')"
proof -
  have right: "nat (int index + 1) = Suc index" by simp
  have left: "nat (int index - 1) = index - 1" by simp
  show ?thesis
    using assms unfolding haulKey_def Let_def
    by (cases "key = ''ArrowRight''"; cases "key = ''ArrowLeft''")
      (auto simp: right left split: if_splits intro!: exI [of _ "index - 1"])
qed


end
