(* ===== verification/SettingsPage.thy ===== *)
theory SettingsPage
  imports SensorSettings VehicleCards EfficiencyHook
begin

text \<open>
  The calibration page, \<^verbatim>\<open>frontend/src/settings/SensorSettingsPage.tsx\<close>: the number fields of a
  sensor, the form that saves it, the placement preview and the live summary of a sensor. The page is a machine
  around the settings hook that also keeps what was sent to the backend.
\<close>

section \<open>Fields\<close>

text \<open>The change handler of a number field: a value that is not finite is not passed on.\<close>

definition numberField :: "jsnum \<Rightarrow> jsnum option" where
  "numberField next = (if isFinite next then Some next else None)"

datatype SettingField =
  RIGHT_POSITION
| FORWARD_POSITION
| HEIGHT
| YAW
| PITCH
| ALERT_DISTANCE
| VISUAL_RANGE

definition SETTING_FIELDS :: "SettingField list" where
  "SETTING_FIELDS = [RIGHT_POSITION, FORWARD_POSITION, HEIGHT, YAW, PITCH, ALERT_DISTANCE, VISUAL_RANGE]"

fun field_value :: "SensorDisplaySetting \<Rightarrow> SettingField \<Rightarrow> jsnum" where
  "field_value sensor RIGHT_POSITION = pose_x_m (sd_display_pose sensor)"
| "field_value sensor FORWARD_POSITION = pose_y_m (sd_display_pose sensor)"
| "field_value sensor HEIGHT = pose_z_m (sd_display_pose sensor)"
| "field_value sensor YAW = pose_yaw_deg (sd_display_pose sensor)"
| "field_value sensor PITCH = pose_pitch_deg (sd_display_pose sensor)"
| "field_value sensor ALERT_DISTANCE = sd_alert_distance_m sensor"
| "field_value sensor VISUAL_RANGE = sd_visual_range_m sensor"

text \<open>The attributes \<^verbatim>\<open>min\<close> and \<^verbatim>\<open>max\<close> of each field.\<close>

fun field_limits :: "SettingField \<Rightarrow> real \<times> real" where
  "field_limits RIGHT_POSITION = (- 2, 2)"
| "field_limits FORWARD_POSITION = (- 2, 2)"
| "field_limits HEIGHT = (0, 2)"
| "field_limits YAW = (- 180, 180)"
| "field_limits PITCH = (- 90, 90)"
| "field_limits ALERT_DISTANCE = (0.05, 8)"
| "field_limits VISUAL_RANGE = (0.1, 8)"

fun field_label :: "SettingField \<Rightarrow> string \<times> string" where
  "field_label RIGHT_POSITION = (''Right position'', ''m'')"
| "field_label FORWARD_POSITION = (''Forward position'', ''m'')"
| "field_label HEIGHT = (''Height'', ''m'')"
| "field_label YAW = (''Yaw'', [CHR 0xB0])"
| "field_label PITCH = (''Pitch'', [CHR 0xB0])"
| "field_label ALERT_DISTANCE = (''Alert distance'', ''m'')"
| "field_label VISUAL_RANGE = (''Visual range'', ''m'')"

text \<open>\<^verbatim>\<open>updatePose\<close> and the two handlers that replace a distance.\<close>

fun updateField :: "SettingField \<Rightarrow> jsnum \<Rightarrow> SensorDisplaySetting \<Rightarrow> SensorDisplaySetting" where
  "updateField RIGHT_POSITION v s = s\<lparr>sd_display_pose := (sd_display_pose s)\<lparr>pose_x_m := v\<rparr>\<rparr>"
| "updateField FORWARD_POSITION v s = s\<lparr>sd_display_pose := (sd_display_pose s)\<lparr>pose_y_m := v\<rparr>\<rparr>"
| "updateField HEIGHT v s = s\<lparr>sd_display_pose := (sd_display_pose s)\<lparr>pose_z_m := v\<rparr>\<rparr>"
| "updateField YAW v s = s\<lparr>sd_display_pose := (sd_display_pose s)\<lparr>pose_yaw_deg := v\<rparr>\<rparr>"
| "updateField PITCH v s = s\<lparr>sd_display_pose := (sd_display_pose s)\<lparr>pose_pitch_deg := v\<rparr>\<rparr>"
| "updateField ALERT_DISTANCE v s = s\<lparr>sd_alert_distance_m := v\<rparr>"
| "updateField VISUAL_RANGE v s = s\<lparr>sd_visual_range_m := v\<rparr>"

definition hasInvalidAlertDistance :: "SensorDisplaySetting \<Rightarrow> bool" where
  "hasInvalidAlertDistance sensor \<longleftrightarrow> sd_visual_range_m sensor < sd_alert_distance_m sensor"

text \<open>
  The submit event: the browser raises it only when no field suffers from a range underflow or overflow
  (constraint validation of number inputs; the step of a field is left open).
\<close>

definition formValid :: "SensorDisplaySetting \<Rightarrow> bool" where
  "formValid sensor \<longleftrightarrow> list_all (\<lambda>field. case field_limits field of (lo, hi) \<Rightarrow>
     \<not> field_value sensor field < Fin lo \<and> \<not> Fin hi < field_value sensor field) SETTING_FIELDS"

section \<open>The page as a machine\<close>

record SettingsPage =
  spg_hook :: SettingsHook
  spg_sent :: "SensorDisplaySetting list"

definition mountSettingsPage :: SettingsPage where
  "mountSettingsPage = \<lparr>spg_hook = initialSettingsHook, spg_sent = []\<rparr>"

definition shownSensor :: "SettingsPage \<Rightarrow> SensorId \<Rightarrow> SensorDisplaySetting option" where
  "shownSensor p i = find (\<lambda>sensor. sd_sensor_id sensor = i) (ss_sensors (hook_settings (spg_hook p)))"

definition typeField :: "SensorId \<Rightarrow> SettingField \<Rightarrow> jsnum \<Rightarrow> SettingsPage \<Rightarrow> SettingsPage" where
  "typeField i field next p =
     (case shownSensor p i of None \<Rightarrow> p
      | Some sensor \<Rightarrow> (case numberField next of None \<Rightarrow> p
          | Some v \<Rightarrow> p\<lparr>spg_hook := updateSensor i (updateField field v sensor) (spg_hook p)\<rparr>))"

definition submitForm :: "bool \<Rightarrow> SensorId \<Rightarrow> SettingsPage \<Rightarrow> SettingsPage" where
  "submitForm demo i p =
     (case shownSensor p i of None \<Rightarrow> p
      | Some sensor \<Rightarrow>
          if \<not> formValid sensor \<or> hasInvalidAlertDistance sensor then p
          else let (h, request) = saveSensorBegin demo i (spg_hook p)
               in p\<lparr>spg_hook := h, spg_sent := spg_sent p @ (case request of Some s \<Rightarrow> [s] | None \<Rightarrow> [])\<rparr>)"

definition zeroDisabled :: "SensorSettingsState \<Rightarrow> bool" where
  "zeroDisabled settings \<longleftrightarrow> \<not> imu_available (ss_imu_zero settings) \<or> imu_status (ss_imu_zero settings) = ZEROING"

definition clickZero :: "bool \<Rightarrow> SettingsPage \<Rightarrow> SettingsPage" where
  "clickZero demo p =
     (if zeroDisabled (hook_settings (spg_hook p)) then p
      else p\<lparr>spg_hook := fst (zeroImuBegin demo (spg_hook p))\<rparr>)"

datatype SettingsPageEvent =
  FieldTyped SensorId SettingField jsnum
| FormSubmitted SensorId
| ZeroClicked
| PageLoaded "string + SensorSettingsState"
| SaveAnswered SensorId "string + SensorDisplaySetting"
| ZeroAnswered "string + ImuZeroState"
| PageUnmounted

fun settings_page_step :: "bool \<Rightarrow> SettingsPageEvent \<Rightarrow> SettingsPage \<Rightarrow> SettingsPage" where
  "settings_page_step demo (FieldTyped i field next) p = typeField i field next p"
| "settings_page_step demo (FormSubmitted i) p = submitForm demo i p"
| "settings_page_step demo ZeroClicked p = clickZero demo p"
| "settings_page_step demo (PageLoaded r) p = p\<lparr>spg_hook := settingsLoaded demo r (spg_hook p)\<rparr>"
| "settings_page_step demo (SaveAnswered i r) p = p\<lparr>spg_hook := saveSensorDone i r (spg_hook p)\<rparr>"
| "settings_page_step demo (ZeroAnswered r) p = p\<lparr>spg_hook := zeroImuDone r (spg_hook p)\<rparr>"
| "settings_page_step demo PageUnmounted p = p\<lparr>spg_hook := disposeSettings (spg_hook p)\<rparr>"

definition settings_page_run :: "bool \<Rightarrow> SettingsPageEvent list \<Rightarrow> SettingsPage" where
  "settings_page_run demo es = fold (settings_page_step demo) es mountSettingsPage"

section \<open>What the page shows\<close>

record PreviewMarker =
  pmk_x :: jsnum
  pmk_y :: jsnum
  pmk_length :: jsnum
  pmk_rotation :: jsnum
  pmk_radius :: nat
  pmk_down :: bool
  pmk_title :: string

definition previewMarker :: "SensorDisplaySetting \<Rightarrow> PreviewMarker" where
  "previewMarker sensor =
     (let pose = sd_display_pose sensor;
          pitchRadians = pose_pitch_deg pose * js_pi / 180
      in \<lparr>pmk_x = 160 + pose_x_m pose * 88, pmk_y = 116 - pose_y_m pose * 88,
          pmk_length = js_min (sd_visual_range_m sensor) 4 * 20 * js_cos pitchRadians,
          pmk_rotation = pose_yaw_deg pose, pmk_radius = (if sd_scanner sensor then 6 else 4),
          pmk_down = (pose_pitch_deg pose < - 5),
          pmk_title = sd_label sensor @ '': '' @ toFixed (pose_yaw_deg pose) 0 @ [CHR 0xB0] @ '' yaw, '' @
            toFixed (pose_pitch_deg pose) 0 @ [CHR 0xB0] @ '' pitch''\<rparr>)"

record SettingCard =
  stc_kind :: string
  stc_label :: string
  stc_status :: SensorStatus
  stc_value :: string
  stc_detail :: string
  stc_fields :: "((string \<times> string) \<times> jsnum) list"
  stc_invalid :: bool
  stc_save :: string

definition displayHealthStatus :: "WorldState \<Rightarrow> ConnectionState \<Rightarrow> SensorId \<Rightarrow> SensorStatus" where
  "displayHealthStatus world connection i =
     (if connection = CONNECTED
      then (case find (\<lambda>item. sh_sensor_id item = i) (ws_sensor_health world) of Some health \<Rightarrow> sh_status health | None \<Rightarrow> OFFLINE)
      else OFFLINE)"

definition trustedReading :: "WorldState \<Rightarrow> ConnectionState \<Rightarrow> SensorId \<Rightarrow> RangeReading option" where
  "trustedReading world connection i =
     (case find (\<lambda>item. rr_sensor_id item = i) (ws_ranges world) of
        Some reading \<Rightarrow>
          if connection = CONNECTED \<and> isUsableRangeReading reading \<and>
             displayHealthStatus world connection i \<in> {HEALTHY, DEGRADED}
          then Some reading else None
      | None \<Rightarrow> None)"

definition settingCard :: "WorldState \<Rightarrow> ConnectionState \<Rightarrow> SensorDisplaySetting \<Rightarrow> SettingCard" where
  "settingCard world connection sensor =
     (let status = displayHealthStatus world connection (sd_sensor_id sensor);
          trusted = trustedReading world connection (sd_sensor_id sensor)
      in \<lparr>stc_kind = (if sd_scanner sensor then ''Sweep ToF'' else ''Fixed ToF''), stc_label = sd_label sensor,
          stc_status = status,
          stc_value = (case trusted of Some reading \<Rightarrow> toFixed (rr_range_m reading) 2 @ '' m'' | None \<Rightarrow> ''Unknown''),
          stc_detail = (case trusted of
              Some reading \<Rightarrow> if sd_scanner sensor
                then toFixed (rr_angle_deg reading) 0 @ [CHR 0xB0] @ '' head '' @ [CHR 0xB7] @ '' '' @ sensor_status_value status
                else sensor_status_value status
            | None \<Rightarrow> sensor_status_value status),
          stc_fields = map (\<lambda>field. (field_label field, field_value sensor field)) SETTING_FIELDS,
          stc_invalid = hasInvalidAlertDistance sensor, stc_save = ''Save '' @ sd_label sensor\<rparr>)"

fun connection_text :: "ConnectionState \<Rightarrow> string" where
  "connection_text CONNECTING = ''CONNECTING''"
| "connection_text CONNECTED = ''CONNECTED''"
| "connection_text DISCONNECTED = ''DISCONNECTED''"

record SettingsPageView =
  spv_badge :: string
  spv_zeroLabel :: string
  spv_zeroDisabled :: bool
  spv_zeroDetail :: string
  spv_preview :: "PreviewMarker list"
  spv_cards :: "SettingCard list"
  spv_message :: string

definition settingsPageView :: "WorldState \<Rightarrow> ConnectionState \<Rightarrow> SettingsHook \<Rightarrow> SettingsPageView" where
  "settingsPageView world connection h =
     (let settings = hook_settings h; imu = ss_imu_zero settings
      in \<lparr>spv_badge = (if connection = CONNECTED then mode_text (Some (ws_mode world)) else connection_text connection),
          spv_zeroLabel = (if imu_status imu = ZEROING then ''Zeroing...'' else ''Zero IMU''),
          spv_zeroDisabled = zeroDisabled settings,
          spv_zeroDetail = (case imu_detail imu of Some d \<Rightarrow> d | None \<Rightarrow> ''IMU status unavailable.''),
          spv_preview = map previewMarker (ss_sensors settings),
          spv_cards = map (settingCard world connection) (ss_sensors settings),
          spv_message = (case hook_message h of Some m \<Rightarrow> m
            | None \<Rightarrow> if hook_connection h = SAVED then ''Settings saved.'' else ''Loading display settings...'')\<rparr>)"

section \<open>Only valid settings are sent\<close>

definition finite_setting :: "SensorDisplaySetting \<Rightarrow> bool" where
  "finite_setting s \<longleftrightarrow> list_all (\<lambda>field. isFinite (field_value s field)) SETTING_FIELDS"

definition valid_setting :: "SensorDisplaySetting \<Rightarrow> bool" where
  "valid_setting s \<longleftrightarrow> sd_sensor_id s \<in> set SENSOR_IDS \<and> sd_alert_distance_m s \<le> sd_visual_range_m s \<and>
     list_all (\<lambda>field. case field_limits field of (lo, hi) \<Rightarrow> Fin lo \<le> field_value s field \<and> field_value s field \<le> Fin hi)
       SETTING_FIELDS"

text \<open>The backend answers with settings of the sensors it was asked for, whose numbers are numbers.\<close>

fun settings_answer :: "SettingsPageEvent \<Rightarrow> bool" where
  "settings_answer (PageLoaded (Inr s)) = (map sd_sensor_id (ss_sensors s) = SENSOR_IDS \<and> list_all finite_setting (ss_sensors s))"
| "settings_answer (SaveAnswered i (Inr saved)) = (sd_sensor_id saved = i \<and> finite_setting saved)"
| "settings_answer _ = True"

definition settings_page_inv :: "SettingsPage \<Rightarrow> bool" where
  "settings_page_inv p \<longleftrightarrow> sensors_kept (spg_hook p) \<and>
     list_all finite_setting (ss_sensors (hook_settings (spg_hook p))) \<and> list_all valid_setting (spg_sent p)"

lemma SETTING_FIELDS_all: "field \<in> set SETTING_FIELDS"
  by (cases field) (simp_all add: SETTING_FIELDS_def)

lemma updateField_id [simp]: "sd_sensor_id (updateField field v s) = sd_sensor_id s"
  by (cases field) simp_all

lemma field_value_update: "field_value (updateField field v s) other = (if other = field then v else field_value s other)"
  by (cases field; cases other) simp_all

lemma finite_update: "finite_setting s \<Longrightarrow> isFinite v \<Longrightarrow> finite_setting (updateField field v s)"
  by (simp add: finite_setting_def list_all_iff field_value_update)

lemma finite_replaced:
  "list_all finite_setting (ss_sensors s) \<Longrightarrow> finite_setting setting \<Longrightarrow>
     list_all finite_setting (ss_sensors (replaceSensor i setting s))"
  by (auto simp: replaceSensor_def list_all_iff)

lemma shownSensor_Some:
  assumes "shownSensor p i = Some s"
  shows "s \<in> set (ss_sensors (hook_settings (spg_hook p)))" and "sd_sensor_id s = i"
  using assms by (auto simp: shownSensor_def find_Some_iff)

text \<open>The two guards of the form are exactly what a valid setting needs, once its numbers are finite.\<close>

lemma guards_valid:
  assumes "finite_setting s" and "sd_sensor_id s \<in> set SENSOR_IDS"
  shows "valid_setting s \<longleftrightarrow> formValid s \<and> \<not> hasInvalidAlertDistance s"
proof -
  have fin: "isFinite (field_value s field)" for field
    using assms(1) SETTING_FIELDS_all by (simp add: finite_setting_def list_all_iff)
  from fin [of ALERT_DISTANCE] fin [of VISUAL_RANGE]
  have "sd_alert_distance_m s \<le> sd_visual_range_m s \<longleftrightarrow> \<not> hasInvalidAlertDistance s"
    by (simp add: hasInvalidAlertDistance_def finite_not_less)
  moreover have "(case field_limits field of (lo, hi) \<Rightarrow> Fin lo \<le> field_value s field \<and> field_value s field \<le> Fin hi) \<longleftrightarrow>
      (case field_limits field of (lo, hi) \<Rightarrow> \<not> field_value s field < Fin lo \<and> \<not> Fin hi < field_value s field)" for field
    using fin [of field] by (auto simp: finite_not_less split: prod.splits)
  ultimately show ?thesis
    using assms(2) by (auto simp: valid_setting_def formValid_def)
qed

lemma submitForm_inv:
  assumes "settings_page_inv p"
  shows "settings_page_inv (submitForm demo i p)"
proof (cases "shownSensor p i")
  case (Some s)
  have inv: "sensors_kept (spg_hook p)" "list_all finite_setting (ss_sensors (hook_settings (spg_hook p)))"
    using assms by (simp_all add: settings_page_inv_def)
  note s = shownSensor_Some [OF Some]
  have "finite_setting s" using inv(2) s(1) by (simp add: list_all_iff)
  moreover have "sd_sensor_id s \<in> set SENSOR_IDS" using inv(1) s(1) by (metis image_eqI list.set_map sensors_kept_def)
  ultimately have valid: "formValid s \<Longrightarrow> \<not> hasInvalidAlertDistance s \<Longrightarrow> valid_setting s"
    using guards_valid by blast
  have "hook_settings (fst (saveSensorBegin demo i (spg_hook p))) = hook_settings (spg_hook p)"
    "snd (saveSensorBegin demo i (spg_hook p)) \<in> {None, Some s}"
    using Some by (auto simp: saveSensorBegin_def shownSensor_def)
  then show ?thesis
    using assms Some valid
    by (auto simp: submitForm_def settings_page_inv_def sensors_kept_def Let_def split: prod.splits)
qed (use assms in \<open>simp add: submitForm_def\<close>)

lemma settings_page_step_inv:
  assumes "settings_page_inv p" and "settings_answer e"
  shows "settings_page_inv (settings_page_step demo e p)"
proof -
  have inv: "sensors_kept (spg_hook p)" "list_all finite_setting (ss_sensors (hook_settings (spg_hook p)))"
    using assms(1) by (simp_all add: settings_page_inv_def)
  show ?thesis
  proof (cases e)
    case (FieldTyped i field typed)
    show ?thesis
    proof (cases "shownSensor p i")
      case (Some s)
      with shownSensor_Some [OF Some] inv have "finite_setting s" by (simp add: list_all_iff)
      with assms(1) inv Some shownSensor_Some(2) [OF Some] FieldTyped show ?thesis
        by (auto simp: settings_page_inv_def typeField_def numberField_def updateSensor_def sensors_kept_def
          replaceSensor_ids intro!: finite_replaced finite_update)
    qed (use assms(1) FieldTyped in \<open>simp add: typeField_def\<close>)
  next
    case (FormSubmitted i)
    with submitForm_inv [OF assms(1)] show ?thesis by simp
  next
    case (PageLoaded r)
    with assms show ?thesis
      by (cases r) (simp_all add: settings_page_inv_def sensors_kept_def)
  next
    case (SaveAnswered i r)
    with assms show ?thesis
      by (cases r) (simp_all add: settings_page_inv_def sensors_kept_def replaceSensor_ids finite_replaced)
  next
    case (ZeroAnswered r)
    with assms show ?thesis
      by (cases r) (simp_all add: settings_page_inv_def sensors_kept_def)
  qed (use assms(1) in \<open>simp_all add: settings_page_inv_def sensors_kept_def clickZero_def zeroImuBegin_def disposeSettings_def\<close>)
qed

interpretation settings_page: machine mountSettingsPage "settings_page_step demo" settings_answer settings_page_inv for demo
proof unfold_locales
  have "sensors_kept initialSettingsHook"
    by (simp add: sensors_kept_def initialSettingsHook_def defaultSensorSettings_def DEFAULT_SENSORS_def SENSOR_IDS_def)
  moreover have "list_all finite_setting DEFAULT_SENSORS"
    by (simp add: DEFAULT_SENSORS_def finite_setting_def SETTING_FIELDS_def)
  ultimately show "settings_page_inv mountSettingsPage"
    by (simp add: settings_page_inv_def mountSettingsPage_def initialSettingsHook_def defaultSensorSettings_def)
qed (rule settings_page_step_inv)



section \<open>The summary of a sensor agrees with the driver's card\<close>

lemma filter_key_distinct:
  assumes "distinct (map key xs)"
  shows "filter (\<lambda>x. key x = k) xs = (case find (\<lambda>x. key x = k) xs of Some x \<Rightarrow> [x] | None \<Rightarrow> [])"
  using assms
proof (induction xs)
  case (Cons x xs)
  have "key x = k \<Longrightarrow> filter (\<lambda>x. key x = k) xs = []" 
  proof -
    assume "key x = k"
    with Cons.prems have "k \<notin> key ` set xs" by auto
    then show ?thesis by (metis (mono_tags, lifting) filter_False imageI)
  qed
  with Cons show ?case by (cases "key x = k") simp_all
qed simp

lemma find_rev_distinct:
  assumes "distinct (map key xs)"
  shows "find (\<lambda>x. key x = k) (rev xs) = find (\<lambda>x. key x = k) xs"
proof -
  have "filter (\<lambda>x. key x = k) (rev xs) = rev (filter (\<lambda>x. key x = k) xs)" by (simp add: rev_filter)
  with filter_key_distinct [OF assms, of k] filter_key_distinct [of key "rev xs" k] assms
  show ?thesis by (auto simp: rev_map [symmetric] split: option.splits)
qed

text \<open>
  The calibration page and the driver's sensor cards agree on what a sensor measures: when the
  snapshot has at most one reading and one health record of each sensor, the status and the distance the page
  shows for a sensor are those of the driver's card, be the feed connected or not.
\<close>

theorem summary_agrees_with_driver:
  assumes "distinct (map rr_sensor_id (ws_ranges world))" and "distinct (map sh_sensor_id (ws_sensor_health world))"
  shows "let online = (connection = CONNECTED);
      driver = sensorCard online (trustedReadings online (ws_ranges world) (ws_sensor_health world))
        (ws_sensor_health world) settings (sd_sensor_id sensor);
      page = settingCard world connection sensor
    in stc_status page = card_status driver \<and> stc_value page = card_value driver"
proof -
  let ?i = "sd_sensor_id sensor"
  let ?online = "connection = CONNECTED"
  let ?trusted = "trustedReadings ?online (ws_ranges world) (ws_sensor_health world)"
  have health: "map_of (healthById (ws_sensor_health world)) ?i = find (\<lambda>item. sh_sensor_id item = ?i) (ws_sensor_health world)"
    unfolding healthById_def map_of_map_from_keyed by (rule find_rev_distinct [OF assms(2)])
  have trusted: "filter (\<lambda>r. rr_sensor_id r = ?i) ?trusted =
    (if ?online then filter (\<lambda>r. reporting (map_option sh_status (find (\<lambda>item. sh_sensor_id item = ?i) (ws_sensor_health world))) \<and>
       isUsableRangeReading r) (filter (\<lambda>r. rr_sensor_id r = ?i) (ws_ranges world)) else [])"
    unfolding trustedReadings_def health [symmetric] by (auto intro!: filter_cong)
  have "latestReading ?trusted ?i = (case find (\<lambda>r. rr_sensor_id r = ?i) (ws_ranges world) of
      Some r \<Rightarrow> if ?online \<and> reporting (map_option sh_status (find (\<lambda>item. sh_sensor_id item = ?i) (ws_sensor_health world))) \<and>
        isUsableRangeReading r then Some r else None
    | None \<Rightarrow> None)"
    unfolding latestReading_def trusted filter_key_distinct [OF assms(1)]
    by (simp split: option.splits)
  then show ?thesis
    by (auto simp: settingCard_def sensorCard_def Let_def trustedReading_def displayHealthStatus_def health reporting_def
      split: option.splits if_splits)
qed


text \<open>With two readings of one sensor the page shows the first of the list, the driver's card the latest.\<close>

lemma first_reading_shown:
  assumes "ws_ranges world = [r, r']" and "rr_sensor_id r = i" and "rr_sensor_id r' = i"
    and "isUsableRangeReading r" and "isUsableRangeReading r'" and "rr_timestamp_ms r = 1" and "rr_timestamp_ms r' = 2"
    and "ws_sensor_health world = [h]" and "sh_sensor_id h = i" and "sh_status h = HEALTHY"
  shows "trustedReading world CONNECTED i = Some r"
    and "latestReading (trustedReadings True (ws_ranges world) (ws_sensor_health world)) i = Some r'"
  using assms by (simp_all add: trustedReading_def displayHealthStatus_def latestReading_def trustedReadings_def
      healthById_def map_from_def reporting_def key_after_def)

definition measuredWorld :: WorldState where
  "measuredWorld = sampleWorld\<lparr>ws_ranges := [nearReading],
     ws_sensor_health := [frontHealth]\<rparr>"

theorem summary_agrees_with_driver_witness:
  "stc_value (settingCard measuredWorld CONNECTED (DEFAULT_SENSORS ! 1)) = ''0.50 m'' \<and>
   card_value (sensorCard True (trustedReadings True (ws_ranges measuredWorld) (ws_sensor_health measuredWorld))
     (ws_sensor_health measuredWorld) DEFAULT_SENSORS ''front_fixed'') = ''0.50 m''"
proof -
  have "distinct (map rr_sensor_id (ws_ranges measuredWorld))" "distinct (map sh_sensor_id (ws_sensor_health measuredWorld))"
    by (simp_all add: measuredWorld_def)
  from summary_agrees_with_driver [OF this, of CONNECTED DEFAULT_SENSORS "DEFAULT_SENSORS ! 1"]
  have "stc_value (settingCard measuredWorld CONNECTED (DEFAULT_SENSORS ! 1)) =
    card_value (sensorCard True (trustedReadings True (ws_ranges measuredWorld) (ws_sensor_health measuredWorld))
     (ws_sensor_health measuredWorld) DEFAULT_SENSORS ''front_fixed'')"
    by (simp add: Let_def DEFAULT_SENSORS_def)
  moreover have "stc_value (settingCard measuredWorld CONNECTED (DEFAULT_SENSORS ! 1)) = ''0.50 m''"
    by (simp add: settingCard_def trustedReading_def displayHealthStatus_def measuredWorld_def DEFAULT_SENSORS_def
      nearReading_def frontHealth_def isUsableRangeReading_def toFixed_def pad_zeros_def nat_str.simps digit_char_def Let_def char_of_def bit_Suc_0_iff)
  ultimately show ?thesis by simp
qed

text \<open>A marker of the preview leaves its drawing (\<^verbatim>\<open>viewBox="0 0 320 230"\<close>) at positions the fields allow.\<close>

lemma preview_leaves_drawing:
  assumes "pose_x_m (sd_display_pose s) = 2" and "pose_y_m (sd_display_pose s) = - 2"
  shows "pmk_x (previewMarker s) = 336" and "pmk_y (previewMarker s) = 292"
    and "field_limits RIGHT_POSITION = (- 2, 2)" and "field_limits FORWARD_POSITION = (- 2, 2)"
  using assms by (simp_all add: previewMarker_def Let_def)


end
