(* ===== verification/PlanMap.thy ===== *)
theory PlanMap
  imports MapLayout Supervisor
begin

text \<open>
  The supervisor's map of a simulated mine: \<^verbatim>\<open>frontend/src/twin/MineFleetMap.tsx\<close> (view, zoom, pan and the
  assigned route), its plan \<^verbatim>\<open>twin/MinePlanView.tsx\<close> (projection, base map, sites, trucks, labels, dragging) and
  the legend of \<^verbatim>\<open>twin/PlanSymbols.tsx\<close>. The controller of the 3D view is not part of it: with the 3D view on,
  its buttons change nothing here. The contract of a map that is dragged is the locale \<open>draggable\<close>.
\<close>

section \<open>Dragging\<close>

text \<open>
  A state of a map that may hold a grabbed pointer position and shows points at places; a step of a drag
  takes the pointer to its target, shifts every shown point by the way the pointer went and
  remembers where it is.
\<close>

definition shifted :: "real \<times> real \<Rightarrow> real \<times> real \<Rightarrow> real \<times> real \<Rightarrow> real \<times> real" where
  "shifted a b q = (fst q + (fst b - fst a), snd q + (snd b - snd a))"

lemma shifted_simps [simp]: "shifted a a q = q" "shifted b c (shifted a b q) = shifted a c q" "shifted a b a = b"
  by (simp_all add: shifted_def)

locale draggable =
  fixes grabbed :: "'s \<Rightarrow> (real \<times> real) option"
    and place :: "'s \<Rightarrow> 'p \<Rightarrow> (real \<times> real) option"
    and move :: "'e \<Rightarrow> 's \<Rightarrow> 's"
    and target :: "'e \<Rightarrow> real \<times> real"
    and allowed :: "'e \<Rightarrow> bool"
  assumes move_grabbed: "grabbed s = Some a \<Longrightarrow> allowed e \<Longrightarrow> grabbed (move e s) = Some (target e)"
    and move_place: "grabbed s = Some a \<Longrightarrow> allowed e \<Longrightarrow> place s p = Some q \<Longrightarrow>
      place (move e s) p = Some (shifted a (target e) q)"
begin

lemma drag_place:
  assumes "grabbed s = Some a" and "place s p = Some q" and "list_all allowed es"
  shows "place (fold move es s) p = Some (shifted a (last (a # map target es)) q)"
  using assms
proof (induction es arbitrary: s a q)
  case Nil
  then show ?case by simp
next
  case (Cons e es)
  then have e: "allowed e" "list_all allowed es" by simp_all
  have "place (fold move es (move e s)) p = Some (shifted (target e) (last (target e # map target es)) (shifted a (target e) q))"
    by (rule Cons.IH [OF move_grabbed [OF Cons.prems(1) e(1)] move_place [OF Cons.prems(1) e(1) Cons.prems(2)] e(2)])
  then show ?case by simp
qed

text \<open>In particular the grabbed point stays under the pointer.\<close>

lemma grabbed_follows:
  assumes "grabbed s = Some a" and "place s p = Some a" and "list_all allowed es"
  shows "place (fold move es s) p = Some (last (a # map target es))"
  using drag_place [OF assms] by simp

end

section \<open>The state of the map\<close>

text \<open>
  The zoom, the pan and the size of the plan; the handlers of the pointer see those of the last render, the
  buttons update the current ones. The grabbed pointer is a reference of its own.
\<close>

record PlanView =
  pv_zoom :: jsnum
  pv_pan :: "jsnum \<times> jsnum"
  pv_size :: "jsnum \<times> jsnum"

record FleetMap =
  fmap_tilted :: bool
  fmap_routeVisible :: bool
  fmap_view :: PlanView
  fmap_rendered :: PlanView
  fmap_drag :: "(nat \<times> jsnum \<times> jsnum) option"

definition initialView :: PlanView where
  "initialView = \<lparr>pv_zoom = 1, pv_pan = (0, 0), pv_size = (960, 560)\<rparr>"

definition mountFleetMap :: FleetMap where
  "mountFleetMap = \<lparr>fmap_tilted = True, fmap_routeVisible = True, fmap_view = initialView,
     fmap_rendered = initialView, fmap_drag = None\<rparr>"

definition planScale :: "PlanBounds \<Rightarrow> PlanView \<Rightarrow> jsnum" where
  "planScale bounds v =
     js_max (Fin 0.1) (js_min ((fst (pv_size v) - 110) / plan_width bounds) ((snd (pv_size v) - 150) / plan_height bounds)) *
       pv_zoom v"

definition planProject :: "PlanBounds \<Rightarrow> PlanView \<Rightarrow> Point2D \<Rightarrow> jsnum \<times> jsnum" where
  "planProject bounds v p =
     (fst (pv_size v) / 2 + (pt_x_m p - plan_x bounds - fst (pv_pan v)) * planScale bounds v,
      snd (pv_size v) / 2 - (pt_y_m p - plan_y bounds - snd (pv_pan v)) * planScale bounds v)"

definition renderFleetMap :: "FleetMap \<Rightarrow> FleetMap" where
  "renderFleetMap m = m\<lparr>fmap_rendered := fmap_view m\<rparr>"

definition zoomIn :: "FleetMap \<Rightarrow> FleetMap" where
  "zoomIn m = (if fmap_tilted m then m
     else m\<lparr>fmap_view := (fmap_view m)\<lparr>pv_zoom := js_min (Fin 3.5) (pv_zoom (fmap_view m) * Fin 1.25)\<rparr>\<rparr>)"

definition zoomOut :: "FleetMap \<Rightarrow> FleetMap" where
  "zoomOut m = (if fmap_tilted m then m
     else m\<lparr>fmap_view := (fmap_view m)\<lparr>pv_zoom := js_max (Fin 0.7) (pv_zoom (fmap_view m) / Fin 1.25)\<rparr>\<rparr>)"

definition fitSite :: "FleetMap \<Rightarrow> FleetMap" where
  "fitSite m = m\<lparr>fmap_view := (fmap_view m)\<lparr>pv_zoom := 1, pv_pan := (0, 0)\<rparr>\<rparr>"

text \<open>The plan is mounted anew when the view changes to it: its size and its grabbed pointer start over.\<close>

definition showPlan :: "FleetMap \<Rightarrow> FleetMap" where
  "showPlan m = (if \<not> fmap_tilted m then m
     else renderFleetMap (m\<lparr>fmap_tilted := False, fmap_view := (fmap_view m)\<lparr>pv_size := (960, 560)\<rparr>, fmap_drag := None\<rparr>))"

definition showTerrain :: "FleetMap \<Rightarrow> FleetMap" where
  "showTerrain m = m\<lparr>fmap_tilted := True, fmap_drag := None\<rparr>"

definition toggleRoute :: "FleetMap \<Rightarrow> FleetMap" where
  "toggleRoute m = (if fmap_tilted m then m else m\<lparr>fmap_routeVisible := \<not> fmap_routeVisible m\<rparr>)"

text \<open>The observer passes on a size without a zero side.\<close>

definition resizePlan :: "jsnum \<Rightarrow> jsnum \<Rightarrow> FleetMap \<Rightarrow> FleetMap" where
  "resizePlan width height m =
     (if width \<noteq> 0 \<and> width \<noteq> NaN \<and> height \<noteq> 0 \<and> height \<noteq> NaN
      then m\<lparr>fmap_view := (fmap_view m)\<lparr>pv_size := (width, height)\<rparr>\<rparr> else m)"

definition planPointerDown :: "nat \<Rightarrow> nat \<Rightarrow> bool \<Rightarrow> jsnum \<times> jsnum \<Rightarrow> FleetMap \<Rightarrow> FleetMap" where
  "planPointerDown pointer button onButton client m =
     (if button \<noteq> 0 \<or> onButton then m else m\<lparr>fmap_drag := Some (pointer, client)\<rparr>)"

definition planPointerMove :: "PlanBounds \<Rightarrow> nat \<Rightarrow> jsnum \<times> jsnum \<Rightarrow> FleetMap \<Rightarrow> FleetMap" where
  "planPointerMove bounds pointer client m =
     (case fmap_drag m of None \<Rightarrow> m
      | Some (held, px, py) \<Rightarrow>
          if held \<noteq> pointer then m
          else let shown = fmap_rendered m; scale = planScale bounds shown
               in m\<lparr>fmap_view := (fmap_view m)\<lparr>pv_pan :=
                      (fst (pv_pan shown) - (fst client - px) / scale, snd (pv_pan shown) + (snd client - py) / scale)\<rparr>,
                    fmap_drag := Some (pointer, client)\<rparr>)"

definition planPointerUp :: "FleetMap \<Rightarrow> FleetMap" where
  "planPointerUp m = m\<lparr>fmap_drag := None\<rparr>"

datatype FleetMapEvent =
  MapZoomedIn
| MapZoomedOut
| SiteFitted
| PlanChosen
| TerrainChosen
| RouteToggled
| PlanResized jsnum jsnum
| PlanPointerDown nat nat bool "jsnum \<times> jsnum"
| PlanPointerMoved nat "jsnum \<times> jsnum"
| PlanPointerReleased
| MapRendered

fun fleet_map_step :: "PlanBounds \<Rightarrow> FleetMapEvent \<Rightarrow> FleetMap \<Rightarrow> FleetMap" where
  "fleet_map_step bounds MapZoomedIn m = zoomIn m"
| "fleet_map_step bounds MapZoomedOut m = zoomOut m"
| "fleet_map_step bounds SiteFitted m = fitSite m"
| "fleet_map_step bounds PlanChosen m = showPlan m"
| "fleet_map_step bounds TerrainChosen m = showTerrain m"
| "fleet_map_step bounds RouteToggled m = toggleRoute m"
| "fleet_map_step bounds (PlanResized w h) m = resizePlan w h m"
| "fleet_map_step bounds (PlanPointerDown pointer button onButton client) m = planPointerDown pointer button onButton client m"
| "fleet_map_step bounds (PlanPointerMoved pointer client) m = planPointerMove bounds pointer client m"
| "fleet_map_step bounds PlanPointerReleased m = planPointerUp m"
| "fleet_map_step bounds MapRendered m = renderFleetMap m"

definition fleet_map_run :: "PlanBounds \<Rightarrow> FleetMapEvent list \<Rightarrow> FleetMap" where
  "fleet_map_run bounds es = fold (fleet_map_step bounds) es mountFleetMap"

section \<open>What the plan draws\<close>

datatype PlanSymbolKind =
  SYM_PRIMARY
| SYM_PEER
| SYM_MINE
| SYM_CRUSHER
| SYM_YARD
| SYM_ROCK
| SYM_ROAD
| SYM_ROUTE
| SYM_PIT
| SYM_SELECTED

definition planLegend :: "bool \<Rightarrow> (PlanSymbolKind \<times> string) list" where
  "planLegend routeVisible =
     [(SYM_PRIMARY, ''Primary dumper''), (SYM_PEER, ''Other dumper''), (SYM_SELECTED, ''Selected vehicle''),
      (SYM_MINE, ''Mine loading bay''), (SYM_CRUSHER, ''Crusher / unloading''), (SYM_YARD, ''Service yard''),
      (SYM_ROAD, ''Haul road''), (SYM_PIT, ''Pit benches / no access'')] @
     (if routeVisible then [(SYM_ROUTE, ''Assigned route'')] else []) @ [(SYM_ROCK, ''Rock encounter'')]"

text \<open>A shape of the base map: a contour line, or an area with its fill and its class.\<close>

datatype BaseShape =
  ContourLine string "(jsnum \<times> jsnum) list"
| PlanArea string "(jsnum \<times> jsnum) list" string string
| RouteLine string "(jsnum \<times> jsnum) list"

definition BENCH_FILLS :: "string list" where
  "BENCH_FILLS = [''#b8a58d'', ''#b09e87'', ''#a7957e'', ''#9f8d77'', ''#97856f'']"

text \<open>Each feature with its place among the benches, \<^verbatim>\<open>benches.indexOf(f)\<close>, \<open>-1\<close> for the others.\<close>

fun benchIndices :: "nat \<Rightarrow> MapFeature list \<Rightarrow> (MapFeature \<times> int) list" where
  "benchIndices n [] = []"
| "benchIndices n (f # fs) =
     (if cartography f = Some (PropStr ''bench'') then (f, int n) # benchIndices (Suc n) fs
      else (f, -1) # benchIndices n fs)"

definition isContour :: "MapFeature \<Rightarrow> bool" where
  "isContour f \<longleftrightarrow> cartography f = Some (PropStr ''contour'')"

definition baseShape :: "(Point2D \<Rightarrow> jsnum \<times> jsnum) \<Rightarrow> MapFeature \<times> int \<Rightarrow> BaseShape option" where
  "baseShape project indexed =
     (let (f, bench) = indexed; points = map project (mf_points f); kind = cartography f
      in if mf_feature_type f = CENTERLINE \<or> mf_feature_type f = BERM then None
         else if mf_geometry_type f = POLYLINE then
           (if mf_feature_type f = ROUTE then None else Some (ContourLine (mf_feature_id f) points))
         else Some (PlanArea (mf_feature_id f) points
           (if mf_feature_type f = ROAD then ''#d3bf98''
            else if kind = Some (PropStr ''pit'') then ''#b8a58d''
            else if kind = Some (PropStr ''bench'') then BENCH_FILLS ! nat (bench mod 5)
            else ''#dac3b0'')
           (''plan-area '' @ (if kind = Some (PropStr ''bench'') then ''plan-bench''
             else if mf_feature_type f = ROAD then ''plan-road'' else ''plan-pit''))))"

definition baseMap :: "MapFeature list \<Rightarrow> (Point2D \<Rightarrow> jsnum \<times> jsnum) \<Rightarrow> bool \<Rightarrow> BaseShape list" where
  "baseMap features project routeVisible =
     (let ordered = js_sort (\<lambda>a b. isContour (fst a) \<and> \<not> isContour (fst b)) (benchIndices 0 features)
      in List.map_filter (baseShape project) (filter (\<lambda>(f, _). mf_geometry_type f \<noteq> POINT) ordered) @
         (if routeVisible
          then map (\<lambda>f. RouteLine (mf_feature_id f) (map project (mf_points f))) (filter (\<lambda>f. mf_feature_type f = ROUTE) features)
          else []))"

record PlanSite =
  site_id :: string
  site_at :: "jsnum \<times> jsnum"
  site_text :: string
  site_kind :: PlanSymbolKind

definition planSites :: "MapFeature list \<Rightarrow> (Point2D \<Rightarrow> jsnum \<times> jsnum) \<Rightarrow> PlanSite list" where
  "planSites features project =
     map (\<lambda>f. \<lparr>site_id = mf_feature_id f, site_at = project (hd (mf_points f)),
         site_text = (if mf_feature_type f = DESTINATION then ''Crusher / unloading'' else mf_label f),
         site_kind = (if mf_feature_type f = DESTINATION then SYM_CRUSHER
           else if mf_feature_type f = START then SYM_MINE else SYM_YARD)\<rparr>)
       (filter (\<lambda>f. mf_geometry_type f = POINT \<and> mf_points f \<noteq> [] \<and> mf_label f \<noteq> []) features)"

record PlanTruck =
  ptr_id :: string
  ptr_at :: "jsnum \<times> jsnum"
  ptr_rotation :: jsnum
  ptr_kind :: PlanSymbolKind
  ptr_selected :: bool
  ptr_badge :: "(string \<times> string) option"

definition truckBadge :: "SupervisorVehicleTone \<Rightarrow> (string \<times> string) option" where
  "truckBadge tone =
     (if tone = nominal then None
      else Some ((if tone = critical then ''#b33d30'' else if tone = attention then ''#916115'' else ''#59676d''),
        if tone = lost \<or> tone = unknown then ''?'' else ''!''))"

definition planTrucks ::
    "SupervisorVehicle list \<Rightarrow> string option \<Rightarrow> (Point2D \<Rightarrow> jsnum \<times> jsnum) \<Rightarrow> PlanTruck list" where
  "planTrucks vehicles selected project =
     map (\<lambda>v. \<lparr>ptr_id = sv_vehicleId v, ptr_at = project \<lparr>pt_x_m = sv_xM v, pt_y_m = sv_yM v\<rparr>,
         ptr_rotation = sv_headingDeg v, ptr_kind = (if sv_isPrimary v then SYM_PRIMARY else SYM_PEER),
         ptr_selected = (selected = Some (sv_vehicleId v)), ptr_badge = truckBadge (sv_tone v)\<rparr>)
       (js_sort (\<lambda>a b. selected = Some (sv_vehicleId a) \<and> selected \<noteq> Some (sv_vehicleId b)) vehicles)"

definition inFrame :: "jsnum \<times> jsnum \<Rightarrow> PlanLabel \<Rightarrow> bool" where
  "inFrame frame p \<longleftrightarrow> 12 < lab_x p \<and> lab_x p < fst frame - 12 \<and> 42 < lab_y p \<and> lab_y p < snd frame - 45"

definition planLabels :: "jsnum \<times> jsnum \<Rightarrow> PlanSite list \<Rightarrow> PlanTruck list \<Rightarrow> (PlanLabel \<times> LabelBox) list" where
  "planLabels frame sites trucks =
     placeLabels
       (filter (inFrame frame)
         (map (\<lambda>s. \<lparr>lab_id = site_id s, lab_text = site_text s, lab_x = fst (site_at s), lab_y = snd (site_at s)\<rparr>) sites @
          map (\<lambda>t. \<lparr>lab_id = ptr_id t, lab_text = ptr_id t, lab_x = fst (ptr_at t), lab_y = snd (ptr_at t)\<rparr>) trucks))
       (fst frame) (snd frame)"

record PlanDrawing =
  pd_base :: "BaseShape list"
  pd_sites :: "PlanSite list"
  pd_rock :: "((jsnum \<times> jsnum) \<times> string) option"
  pd_labels :: "(PlanLabel \<times> LabelBox) list"
  pd_trucks :: "PlanTruck list"
  pd_scale :: "jsnum \<times> jsnum"
  pd_legend :: "(PlanSymbolKind \<times> string) list"

definition planDrawing ::
    "MapFeature list \<Rightarrow> SupervisorVehicle list \<Rightarrow> HaulRouteState option \<Rightarrow> string option \<Rightarrow> bool \<Rightarrow> PlanView \<Rightarrow> PlanDrawing" where
  "planDrawing features vehicles haul selected routeVisible v =
     (let bounds = planBounds features; project = planProject bounds v; scale = planScale bounds v;
          sites = planSites features project; trucks = planTrucks vehicles selected project
      in \<lparr>pd_base = baseMap features project routeVisible, pd_sites = sites,
          pd_rock = (case haul of None \<Rightarrow> None
            | Some h \<Rightarrow> map_option (\<lambda>rock. (project rock, if hr_obstacle_detected h = Some True
                then ''Rock detected on haul road'' else ''Simulated rock on haul road'')) (hr_obstacle h)),
          pd_labels = planLabels (pv_size v) sites trucks, pd_trucks = trucks,
          pd_scale = (scaleDistance scale, scaleDistance scale * scale), pd_legend = planLegend routeVisible\<rparr>)"


section \<open>Every view can be drawn\<close>

definition good_bounds :: "PlanBounds \<Rightarrow> bool" where
  "good_bounds b \<longleftrightarrow> (\<exists>x y w h. plan_x b = Fin x \<and> plan_y b = Fin y \<and> plan_width b = Fin w \<and> plan_height b = Fin h \<and>
     20 \<le> w \<and> 20 \<le> h)"

definition good_view :: "PlanView \<Rightarrow> bool" where
  "good_view v \<longleftrightarrow> (\<exists>z px py w h. pv_zoom v = Fin z \<and> 0.7 \<le> z \<and> z \<le> 3.5 \<and> pv_pan v = (Fin px, Fin py) \<and>
     pv_size v = (Fin w, Fin h))"

fun finite_map_event :: "FleetMapEvent \<Rightarrow> bool" where
  "finite_map_event (PlanResized w h) = (isFinite w \<and> isFinite h)"
| "finite_map_event (PlanPointerDown _ _ _ client) = (isFinite (fst client) \<and> isFinite (snd client))"
| "finite_map_event (PlanPointerMoved _ client) = (isFinite (fst client) \<and> isFinite (snd client))"
| "finite_map_event _ = True"

definition fleet_map_inv :: "FleetMap \<Rightarrow> bool" where
  "fleet_map_inv m \<longleftrightarrow> good_view (fmap_view m) \<and> good_view (fmap_rendered m) \<and>
     (\<forall>pointer x y. fmap_drag m = Some (pointer, x, y) \<longrightarrow> isFinite x \<and> isFinite y)"

lemma planBounds_good:
  assumes "list_all (\<lambda>p. isFinite (pt_x_m p) \<and> isFinite (pt_y_m p)) (planPoints features)"
  shows "good_bounds (planBounds features)"
proof (cases "planPoints features = []")
  case False
  let ?ps = "planPoints features"
  obtain f where f: "map pt_x_m ?ps = map Fin (map f ?ps)"
    using assms finite_numbers_as_map [of ?ps pt_x_m] by (auto simp: list_all_iff comp_def)
  obtain g where g: "map pt_y_m ?ps = map Fin (map g ?ps)"
    using assms finite_numbers_as_map [of ?ps pt_y_m] by (auto simp: list_all_iff comp_def)
  have "map f ?ps \<noteq> []" "map g ?ps \<noteq> []" using False by simp_all
  moreover have half: "\<exists>x. c = x * 2" for c :: real by (rule exI [of _ "c / 2"]) simp
  ultimately show ?thesis
    using False by (simp add: half good_bounds_def planBounds_def Let_def f g js_min_list_Fin js_max_list_Fin del: map_map)
qed (simp add: good_bounds_def planBounds_def)

lemma planScale_positive:
  assumes "good_bounds b" and "good_view v"
  obtains s where "planScale b v = Fin s" and "0 < s"
proof -
  from assms obtain z w h bw bh where
    v: "pv_zoom v = Fin z" "0.7 \<le> z" "fst (pv_size v) = Fin w" "snd (pv_size v) = Fin h"
    and b: "plan_width b = Fin bw" "plan_height b = Fin bh" "20 \<le> bw" "20 \<le> bh"
    by (auto simp: good_bounds_def good_view_def)
  define s where "s = max 0.1 (min ((w - 110) / bw) ((h - 150) / bh)) * z"
  have "planScale b v = Fin s" using v b by (simp add: planScale_def s_def)
  moreover have "0 < s" unfolding s_def using v(2) by (intro mult_pos_pos) simp_all
  ultimately show ?thesis by (rule that)
qed

lemma zoom_in_range:
  fixes z :: real
  assumes "0.7 \<le> z" and "z \<le> 3.5"
  shows "0.7 \<le> min 3.5 (z * 1.25) \<and> min 3.5 (z * 1.25) \<le> 3.5" and "0.7 \<le> max 0.7 (z / 1.25) \<and> max 0.7 (z / 1.25) \<le> 3.5"
  using assms by (auto simp: min_def max_def)

lemma fleet_map_step_inv:
  assumes "good_bounds bounds" and "fleet_map_inv m" and "finite_map_event e"
  shows "fleet_map_inv (fleet_map_step bounds e m)"
proof (cases e)
  case (PlanPointerMoved pointer client)
  obtain s where s: "planScale bounds (fmap_rendered m) = Fin s" "0 < s"
    using planScale_positive [OF assms(1)] assms(2) by (auto simp: fleet_map_inv_def)
  show ?thesis
    using assms(2,3) s PlanPointerMoved
    by (cases client) (auto simp: fleet_map_inv_def planPointerMove_def good_view_def isFinite_iff Let_def split: option.splits)
next
  case MapZoomedIn
  with assms(2) zoom_in_range show ?thesis
    by (auto simp: fleet_map_inv_def zoomIn_def good_view_def)
next
  case MapZoomedOut
  with assms(2) zoom_in_range show ?thesis
    by (auto simp: fleet_map_inv_def zoomOut_def good_view_def)
qed (use assms(2,3) in \<open>auto simp: fleet_map_inv_def good_view_def fitSite_def showPlan_def renderFleetMap_def
  showTerrain_def toggleRoute_def resizePlan_def planPointerDown_def planPointerUp_def isFinite_iff\<close>)

lemma mountFleetMap_inv: "fleet_map_inv mountFleetMap"
  by (simp add: fleet_map_inv_def mountFleetMap_def initialView_def good_view_def)

lemma fleet_map_run_inv:
  assumes "good_bounds bounds" and "list_all finite_map_event es"
  shows "fleet_map_inv (fleet_map_run bounds es)"
proof -
  have "machine mountFleetMap (fleet_map_step bounds) finite_map_event fleet_map_inv"
    by unfold_locales (use mountFleetMap_inv fleet_map_step_inv [OF assms(1)] in blast)+
  from machine.run_inv [OF this assms(2)] show ?thesis by (simp add: fleet_map_run_def)
qed

section \<open>The grabbed point stays under the pointer\<close>

fun finite_place :: "jsnum \<times> jsnum \<Rightarrow> (real \<times> real) option" where
  "finite_place (Fin x, Fin y) = Some (x, y)"
| "finite_place _ = None"

lemma finite_place_Some: "finite_place q = Some a \<longleftrightarrow> q = (Fin (fst a), Fin (snd a))"
  by (cases q rule: finite_place.cases) auto

definition planPlace :: "PlanBounds \<Rightarrow> FleetMap \<Rightarrow> Point2D \<Rightarrow> (real \<times> real) option" where
  "planPlace bounds m p = finite_place (planProject bounds (fmap_view m) p)"

text \<open>The grabbed pointer of a map that has rendered what it holds.\<close>

definition planGrabbed :: "PlanBounds \<Rightarrow> nat \<Rightarrow> FleetMap \<Rightarrow> (real \<times> real) option" where
  "planGrabbed bounds pointer m =
     (if good_bounds bounds \<and> good_view (fmap_view m) \<and> fmap_rendered m = fmap_view m
      then (case fmap_drag m of Some (held, client) \<Rightarrow> if held = pointer then finite_place client else None | None \<Rightarrow> None)
      else None)"

definition planMove :: "PlanBounds \<Rightarrow> nat \<Rightarrow> real \<times> real \<Rightarrow> FleetMap \<Rightarrow> FleetMap" where
  "planMove bounds pointer b m = renderFleetMap (planPointerMove bounds pointer (Fin (fst b), Fin (snd b)) m)"

lemma planProject_moved:
  assumes "good_bounds bounds" and "good_view v" and "planProject bounds v p = (Fin x, Fin y)"
    and "planScale bounds v = Fin s" and "0 < s"
  shows "planProject bounds (v\<lparr>pv_pan := (fst (pv_pan v) - Fin dx / Fin s, snd (pv_pan v) + Fin dy / Fin s)\<rparr>) p =
    (Fin (x + dx), Fin (y + dy))"
proof -
  obtain px py w h where v: "pv_pan v = (Fin px, Fin py)" "pv_size v = (Fin w, Fin h)"
    using assms(2) by (auto simp: good_view_def)
  obtain bx bY where b: "plan_x bounds = Fin bx" "plan_y bounds = Fin bY" using assms(1) by (auto simp: good_bounds_def)
  obtain ux uy where p: "pt_x_m p = Fin ux" "pt_y_m p = Fin uy"
    using assms(3-5) v b by (cases "pt_x_m p"; cases "pt_y_m p") (simp_all add: planProject_def minus_jsnum_def inf_of_sign_def)
  have "planScale bounds (v\<lparr>pv_pan := pan\<rparr>) = planScale bounds v" for pan by (simp add: planScale_def)
  moreover have "x = w / 2 + (ux - bx - px) * s" "y = h / 2 - (uy - bY - py) * s"
    using assms(3,4) v b p by (simp_all add: planProject_def)
  moreover have "(ux - bx - (px - dx / s)) * s = (ux - bx - px) * s + dx" "(uy - bY - (py + dy / s)) * s = (uy - bY - py) * s - dy"
    using assms(5) by (simp_all add: algebra_simps)
  ultimately show ?thesis
    using assms(4,5) v b p by (simp add: planProject_def del: divide_jsnum.simps add: divide_jsnum.simps(1))
qed

interpretation plan_drag: draggable "planGrabbed bounds pointer" "planPlace bounds" "planMove bounds pointer"
  "\<lambda>b. b" "\<lambda>_. True" for bounds pointer
proof unfold_locales
  fix m :: FleetMap and a b :: "real \<times> real"
  assume grabbed: "planGrabbed bounds pointer m = Some a"
  then have m: "good_bounds bounds" "good_view (fmap_view m)" "fmap_rendered m = fmap_view m"
    "fmap_drag m = Some (pointer, Fin (fst a), Fin (snd a))"
    by (auto simp: planGrabbed_def finite_place_Some split: if_splits option.splits)
  obtain s where s: "planScale bounds (fmap_view m) = Fin s" "0 < s" by (rule planScale_positive [OF m(1,2)])
  have moved: "fmap_view (planMove bounds pointer b m) = (fmap_view m)\<lparr>pv_pan :=
      (fst (pv_pan (fmap_view m)) - Fin (fst b - fst a) / Fin s, snd (pv_pan (fmap_view m)) + Fin (snd b - snd a) / Fin s)\<rparr>"
    using m s by (simp add: planMove_def planPointerMove_def renderFleetMap_def Let_def)
  moreover have "good_view (fmap_view (planMove bounds pointer b m))"
    unfolding moved using m(2) s(2) by (auto simp: good_view_def)
  ultimately show "planGrabbed bounds pointer (planMove bounds pointer b m) = Some b"
    using m by (simp add: planGrabbed_def) (simp add: planMove_def planPointerMove_def renderFleetMap_def Let_def)
  fix p q
  assume "planPlace bounds m p = Some q"
  then have "planProject bounds (fmap_view m) p = (Fin (fst q), Fin (snd q))" by (simp add: planPlace_def finite_place_Some)
  from planProject_moved [OF m(1,2) this s] show "planPlace bounds (planMove bounds pointer b m) p = Some (shifted a b q)"
    by (simp add: planPlace_def moved shifted_def)
qed

definition dragEvents :: "nat \<Rightarrow> (real \<times> real) list \<Rightarrow> FleetMapEvent list" where
  "dragEvents pointer bs = concat (map (\<lambda>b. [PlanPointerMoved pointer (Fin (fst b), Fin (snd b)), MapRendered]) bs)"

lemma drag_run: "fold (fleet_map_step bounds) (dragEvents pointer bs) m = fold (planMove bounds pointer) bs m"
  by (induction bs arbitrary: m) (simp_all add: dragEvents_def planMove_def)

text \<open>
  Dragging the plan: whatever zooming, panning, resizing and switching of views came before, a point of the
  mine that is pressed on stays under the pointer for as long as it is dragged, when the map is drawn again
  between the moves.
\<close>

theorem plan_drag_follows:
  assumes "good_bounds bounds" and "list_all finite_map_event es"
    and "m = fleet_map_run bounds (es @ [MapRendered, PlanPointerDown pointer 0 False (Fin (fst a), Fin (snd a))])"
    and "planProject bounds (fmap_view m) p = (Fin (fst a), Fin (snd a))"
  shows "planProject bounds (fmap_view (fold (fleet_map_step bounds) (dragEvents pointer bs) m)) p =
    (Fin (fst (last (a # bs))), Fin (snd (last (a # bs))))"
proof -
  have "fleet_map_inv m"
    using fleet_map_run_inv [OF assms(1), of "es @ [MapRendered, PlanPointerDown pointer 0 False (Fin (fst a), Fin (snd a))]"]
      assms(2,3) by simp
  moreover have "fmap_rendered m = fmap_view m" "fmap_drag m = Some (pointer, Fin (fst a), Fin (snd a))"
    by (simp_all add: assms(3) fleet_map_run_def planPointerDown_def renderFleetMap_def)
  ultimately have "planGrabbed bounds pointer m = Some a"
    using assms(1) by (simp add: planGrabbed_def fleet_map_inv_def)
  from plan_drag.grabbed_follows [OF this, of p bs] assms(4) show ?thesis
    by (simp add: drag_run planPlace_def finite_place_Some list.pred_True)
qed

definition pitFeature :: MapFeature where
  "pitFeature = \<lparr>mf_feature_id = ''pit'', mf_feature_type = TERRAIN, mf_geometry_type = POLYGON,
     mf_points = [\<lparr>pt_x_m = 0, pt_y_m = 0\<rparr>, \<lparr>pt_x_m = 100, pt_y_m = 0\<rparr>, \<lparr>pt_x_m = 100, pt_y_m = 40\<rparr>],
     mf_label = ''Pit'', mf_properties = [(''cartography'', PropStr ''pit'')]\<rparr>"

definition crusherFeature :: MapFeature where
  "crusherFeature = \<lparr>mf_feature_id = ''crusher'', mf_feature_type = DESTINATION, mf_geometry_type = POINT,
     mf_points = [\<lparr>pt_x_m = 50, pt_y_m = 20\<rparr>], mf_label = ''Crusher'', mf_properties = []\<rparr>"

theorem plan_drag_follows_witness:
  "planProject \<lparr>plan_x = 50, plan_y = 20, plan_width = 100, plan_height = 40\<rparr>
     (fmap_view (fold (fleet_map_step \<lparr>plan_x = 50, plan_y = 20, plan_width = 100, plan_height = 40\<rparr>)
        (dragEvents 7 [(500, 300), (520, 330)])
        (fleet_map_run \<lparr>plan_x = 50, plan_y = 20, plan_width = 100, plan_height = 40\<rparr>
          [PlanChosen, MapZoomedIn, MapRendered, PlanPointerDown 7 0 False (Fin 480, Fin 280)])))
     \<lparr>pt_x_m = 50, pt_y_m = 20\<rparr> = (Fin 520, Fin 330)"
proof -
  let ?b = "\<lparr>plan_x = 50, plan_y = 20, plan_width = 100, plan_height = 40\<rparr> :: PlanBounds"
  let ?a = "(480, 280) :: real \<times> real"
  let ?m = "fleet_map_run ?b ([PlanChosen, MapZoomedIn] @ [MapRendered, PlanPointerDown 7 0 False (Fin (fst ?a), Fin (snd ?a))])"
  have b: "good_bounds ?b" by (simp add: good_bounds_def)
  have at: "planProject ?b (fmap_view ?m) \<lparr>pt_x_m = 50, pt_y_m = 20\<rparr> = (Fin (fst ?a), Fin (snd ?a))"
    by (simp add: fleet_map_run_def mountFleetMap_def initialView_def showPlan_def renderFleetMap_def zoomIn_def
      planPointerDown_def planProject_def planScale_def)
  have "list_all finite_map_event [PlanChosen, MapZoomedIn]" by simp
  from plan_drag_follows [OF b this refl at, of "[(500, 300), (520, 330)]"] show ?thesis by simp
qed

text \<open>
  Two moves with no render between them: the second starts from the pan that is on the screen, so what the
  first had moved is lost and the point falls behind the pointer.
\<close>

lemma plan_move_lost:
  assumes "good_bounds bounds" and "good_view (fmap_view m)" and "fmap_rendered m = fmap_view m"
    and "fmap_drag m = Some (pointer, Fin (fst a), Fin (snd a))" and "planPlace bounds m p = Some a"
  shows "planPlace bounds (fold (fleet_map_step bounds)
    [PlanPointerMoved pointer (Fin (fst b), Fin (snd b)), PlanPointerMoved pointer (Fin (fst c), Fin (snd c)), MapRendered] m) p =
    Some (shifted b c a)"
proof -
  obtain s where s: "planScale bounds (fmap_view m) = Fin s" "0 < s" by (rule planScale_positive [OF assms(1,2)])
  have "planProject bounds (fmap_view m) p = (Fin (fst a), Fin (snd a))"
    using assms(5) by (simp add: planPlace_def finite_place_Some)
  note moved = planProject_moved [OF assms(1,2) this s, of "fst c - fst b" "snd c - snd b"]
  show ?thesis
    using assms(3,4) s moved by (simp add: planPointerMove_def renderFleetMap_def Let_def planPlace_def shifted_def)
qed

section \<open>Fitting the site\<close>

text \<open>A coordinate between two ends, scaled about their middle by a scale that fits their span into a length.\<close>

lemma scaled_inside:
  fixes u lo hi span s len :: real
  assumes "lo \<le> u" and "u \<le> hi" and "hi - lo \<le> span" and "0 \<le> s" and "s * span \<le> len"
  shows "\<bar>(u - (lo + hi) / 2) * s\<bar> \<le> len / 2"
proof -
  have "\<bar>u - (lo + hi) / 2\<bar> \<le> span / 2" using assms(1-3) by (auto simp: abs_le_iff field_simps)
  then have "\<bar>u - (lo + hi) / 2\<bar> * s \<le> span / 2 * s" using assms(4) by (rule mult_right_mono)
  also have "\<dots> \<le> len / 2" using assms(5) by (simp add: mult.commute)
  finally show ?thesis using assms(4) by (simp add: abs_mult)
qed

lemma planBounds_cover:
  assumes "list_all (\<lambda>p. isFinite (pt_x_m p) \<and> isFinite (pt_y_m p)) (planPoints features)" and "p \<in> set (planPoints features)"
  obtains ux uy lx hx ly hy where
    "pt_x_m p = Fin ux" "pt_y_m p = Fin uy" "lx \<le> ux" "ux \<le> hx" "ly \<le> uy" "uy \<le> hy"
    "planBounds features = \<lparr>plan_x = Fin ((lx + hx) / 2), plan_y = Fin ((ly + hy) / 2),
       plan_width = Fin (max 20 (hx - lx)), plan_height = Fin (max 20 (hy - ly))\<rparr>"
proof -
  let ?ps = "planPoints features"
  obtain f where f: "map pt_x_m ?ps = map Fin (map f ?ps)" "\<forall>p \<in> set ?ps. pt_x_m p = Fin (f p)"
    using assms finite_numbers_as_map [of ?ps pt_x_m] by (auto simp: list_all_iff comp_def)
  obtain g where g: "map pt_y_m ?ps = map Fin (map g ?ps)" "\<forall>p \<in> set ?ps. pt_y_m p = Fin (g p)"
    using assms finite_numbers_as_map [of ?ps pt_y_m] by (auto simp: list_all_iff comp_def)
  have ne: "?ps \<noteq> []" "map f ?ps \<noteq> []" "map g ?ps \<noteq> []" using assms(2) by auto
  show ?thesis
  proof (rule that)
    show "pt_x_m p = Fin (f p)" "pt_y_m p = Fin (g p)" using f(2) g(2) assms(2) by simp_all
    show "Min (f ` set ?ps) \<le> f p" "f p \<le> Max (f ` set ?ps)" "Min (g ` set ?ps) \<le> g p" "g p \<le> Max (g ` set ?ps)"
      using assms(2) by simp_all
    show "planBounds features = \<lparr>plan_x = Fin ((Min (f ` set ?ps) + Max (f ` set ?ps)) / 2),
        plan_y = Fin ((Min (g ` set ?ps) + Max (g ` set ?ps)) / 2),
        plan_width = Fin (max 20 (Max (f ` set ?ps) - Min (f ` set ?ps))),
        plan_height = Fin (max 20 (Max (g ` set ?ps) - Min (g ` set ?ps)))\<rparr>"
      using ne by (simp add: planBounds_def Let_def f(1) g(1) js_min_list_Fin js_max_list_Fin del: map_map)
  qed
qed

text \<open>
  "Fit site" shows the whole mine: after it, in a plan that is not too small for the extent of the mine (a
  tenth of a pixel per metre besides the margins), every point of a feature that is not a contour is drawn
  inside the plan, at least 55 pixels from its sides and 75 from its top and bottom.
\<close>

theorem fit_shows_site:
  assumes "list_all (\<lambda>p. isFinite (pt_x_m p) \<and> isFinite (pt_y_m p)) (planPoints features)"
    and "p \<in> set (planPoints features)"
    and "pv_size (fmap_view m) = (Fin w, Fin h)"
    and "plan_width (planBounds features) \<le> Fin (10 * (w - 110))" and "plan_height (planBounds features) \<le> Fin (10 * (h - 150))"
  shows "\<exists>x y. planProject (planBounds features) (fmap_view (fitSite m)) p = (Fin x, Fin y) \<and>
    55 \<le> x \<and> x \<le> w - 55 \<and> 75 \<le> y \<and> y \<le> h - 75"
proof -
  obtain ux uy lx hx ly hy where u: "pt_x_m p = Fin ux" "pt_y_m p = Fin uy" "lx \<le> ux" "ux \<le> hx" "ly \<le> uy" "uy \<le> hy"
    and b: "planBounds features = \<lparr>plan_x = Fin ((lx + hx) / 2), plan_y = Fin ((ly + hy) / 2),
       plan_width = Fin (max 20 (hx - lx)), plan_height = Fin (max 20 (hy - ly))\<rparr>"
    using planBounds_cover [OF assms(1,2)] by metis
  define bw bh where "bw = max 20 (hx - lx)" and "bh = max 20 (hy - ly)"
  have spans: "20 \<le> bw" "hx - lx \<le> bw" "20 \<le> bh" "hy - ly \<le> bh" by (simp_all add: bw_def bh_def)
  have sizes: "bw \<le> 10 * (w - 110)" "bh \<le> 10 * (h - 150)"
    using assms(4,5) by (simp_all add: b bw_def bh_def)
  define s where "s = min ((w - 110) / bw) ((h - 150) / bh)"
  have "0.1 \<le> (w - 110) / bw" "0.1 \<le> (h - 150) / bh"
    using sizes spans by (simp_all add: pos_le_divide_eq)
  then have "0.1 \<le> s" by (simp only: s_def min_le_iff_disj min.bounded_iff)
  then have s: "max 0.1 s = s" "0 \<le> s" by simp_all
  have "s * bw \<le> (w - 110) / bw * bw" "s * bh \<le> (h - 150) / bh * bh"
    using spans by (intro mult_right_mono; simp add: s_def)+
  then have fits: "s * bw \<le> w - 110" "s * bh \<le> h - 150" using spans by simp_all
  have "planScale (planBounds features) (fmap_view (fitSite m)) = Fin s"
    using assms(3) s(1) spans by (simp add: planScale_def fitSite_def b bw_def [symmetric] bh_def [symmetric] s_def)
  then have "planProject (planBounds features) (fmap_view (fitSite m)) p =
      (Fin (w / 2 + (ux - (lx + hx) / 2) * s), Fin (h / 2 - (uy - (ly + hy) / 2) * s))"
    using assms(3) u(1,2) by (simp add: planProject_def fitSite_def b)
  moreover have "\<bar>(ux - (lx + hx) / 2) * s\<bar> \<le> (w - 110) / 2" "\<bar>(uy - (ly + hy) / 2) * s\<bar> \<le> (h - 150) / 2"
    using scaled_inside [OF u(3,4) spans(2) s(2) fits(1)] scaled_inside [OF u(5,6) spans(4) s(2) fits(2)] by simp_all
  ultimately show ?thesis by (auto simp: abs_le_iff)
qed

theorem fit_shows_site_witness:
  "\<exists>x. fst (planProject (planBounds [pitFeature, crusherFeature]) (fmap_view (fitSite mountFleetMap)) \<lparr>pt_x_m = 100, pt_y_m = 40\<rparr>) = Fin x \<and> x \<le> 905"
proof -
  have points: "planPoints [pitFeature, crusherFeature] = mf_points pitFeature @ mf_points crusherFeature"
    by (simp add: planPoints_def pitFeature_def crusherFeature_def cartography_def)
  have bounds: "planBounds [pitFeature, crusherFeature] = \<lparr>plan_x = 50, plan_y = 20, plan_width = 100, plan_height = 40\<rparr>"
    by (simp add: planBounds_def points) (simp add: pitFeature_def crusherFeature_def js_min_list_def js_max_list_def)
  from fit_shows_site [of "[pitFeature, crusherFeature]" "\<lparr>pt_x_m = 100, pt_y_m = 40\<rparr>" mountFleetMap 960 560]
  show ?thesis unfolding bounds points
    by (auto simp: pitFeature_def crusherFeature_def mountFleetMap_def initialView_def)
qed

section \<open>The legend\<close>

definition drawn_symbols :: "PlanDrawing \<Rightarrow> PlanSymbolKind set" where
  "drawn_symbols d = site_kind ` set (pd_sites d) \<union> ptr_kind ` set (pd_trucks d) \<union>
     (if list_ex ptr_selected (pd_trucks d) then {SYM_SELECTED} else {}) \<union>
     (if pd_rock d \<noteq> None then {SYM_ROCK} else {}) \<union>
     (if \<exists>s \<in> set (pd_base d). \<exists>i ps. s = RouteLine i ps then {SYM_ROUTE} else {})"

lemma base_no_route: "RouteLine i ps \<notin> set (List.map_filter (baseShape project) fs)"
proof -
  have "baseShape project x \<noteq> Some (RouteLine i ps)" for x
    by (cases x) (simp add: baseShape_def Let_def)
  then show ?thesis by (auto simp: List.map_filter_def)
qed

text \<open>
  The legend explains the plan: whatever features, vehicles and selection are drawn, every symbol of the plan
  has exactly one entry in the legend, no two entries share a name, the route is listed exactly when it is
  switched on, and a truck carries a warning badge exactly when its state is not nominal.
\<close>

theorem legend_explains_plan:
  fixes features vehicles haul selected routeVisible v
  defines "d \<equiv> planDrawing features vehicles haul selected routeVisible v"
  shows "drawn_symbols d \<subseteq> fst ` set (pd_legend d) \<and> distinct (map fst (pd_legend d)) \<and> distinct (map snd (pd_legend d)) \<and>
    (SYM_ROUTE \<in> fst ` set (pd_legend d)) = routeVisible \<and>
    mset (map (\<lambda>t. (ptr_id t, ptr_badge t = None)) (pd_trucks d)) = mset (map (\<lambda>x. (sv_vehicleId x, sv_tone x = nominal)) vehicles)"
proof -
  have legend: "pd_legend d = planLegend routeVisible" by (simp add: d_def planDrawing_def Let_def)
  have sites: "site_kind ` set (pd_sites d) \<subseteq> {SYM_CRUSHER, SYM_MINE, SYM_YARD}"
    by (auto simp: d_def planDrawing_def Let_def planSites_def)
  have trucks: "ptr_kind ` set (pd_trucks d) \<subseteq> {SYM_PRIMARY, SYM_PEER}"
    by (auto simp: d_def planDrawing_def Let_def planTrucks_def)
  have routes: "routeVisible" if "RouteLine i ps \<in> set (pd_base d)" for i ps
    using that base_no_route by (auto simp: d_def planDrawing_def Let_def baseMap_def split: if_splits)
  have "drawn_symbols d \<subseteq> {SYM_CRUSHER, SYM_MINE, SYM_YARD, SYM_PRIMARY, SYM_PEER, SYM_SELECTED, SYM_ROCK} \<union>
      (if routeVisible then {SYM_ROUTE} else {})"
    using sites trucks routes unfolding drawn_symbols_def by (auto split: if_splits)
  also have "\<dots> \<subseteq> fst ` set (planLegend routeVisible)" by (auto simp: planLegend_def image_Un)
  finally have drawn: "drawn_symbols d \<subseteq> fst ` set (pd_legend d)" unfolding legend .
  have badge: "truckBadge tone = None \<longleftrightarrow> tone = nominal" for tone by (simp add: truckBadge_def)
  have "map (\<lambda>t. (ptr_id t, ptr_badge t = None)) (pd_trucks d) = map (\<lambda>x. (sv_vehicleId x, sv_tone x = nominal))
      (js_sort (\<lambda>a b. selected = Some (sv_vehicleId a) \<and> selected \<noteq> Some (sv_vehicleId b)) vehicles)"
    by (simp add: d_def planDrawing_def Let_def planTrucks_def badge)
  then show ?thesis using drawn by (simp add: legend planLegend_def image_Un)
qed

end
