(* ===== verification/RouteMap.thy ===== *)
theory RouteMap
  imports PlanMap HaulEfficiency EfficiencyHook
begin

text \<open>
  The driver's route map, \<^verbatim>\<open>frontend/src/spatial/NavigationMap.tsx\<close>, and the mine drawing it uses,
  \<^verbatim>\<open>maps/MineCartography.tsx\<close>: the view box over zoom, pan and following, the pointer that pans, what is drawn
  and what is said. Features have at least one point each, which the snapshot guard checks.
\<close>

section \<open>The drawing of the mine\<close>

definition planProjection :: "Point2D \<Rightarrow> jsnum \<times> jsnum" where
  "planProjection p = (pt_x_m p, - pt_y_m p)"

datatype MineShape =
  MineArea string "(jsnum \<times> jsnum) list" string string "(jsnum \<times> jsnum) option" bool
| MineLine string "(jsnum \<times> jsnum) list" string jsnum
| MineSite string "jsnum \<times> jsnum" string

definition meanOf :: "jsnum list \<Rightarrow> jsnum" where
  "meanOf xs = foldl (+) 0 xs / Fin (of_nat (length xs))"

definition mineShape :: "(Point2D \<Rightarrow> jsnum \<times> jsnum) \<Rightarrow> jsnum \<Rightarrow> bool \<Rightarrow> bool \<Rightarrow> MapFeature \<Rightarrow> MineShape option" where
  "mineShape project unit raised showRoute f =
     (let points = map project (mf_points f)
      in case mf_geometry_type f of
        POLYGON \<Rightarrow> Some (MineArea (mf_feature_id f) points
          (case map_of (mf_properties f) ''fill'' of Some (PropStr fill) \<Rightarrow> fill
           | _ \<Rightarrow> if mf_feature_type f = ROAD then ''#ccbb98'' else ''#a79070'')
          (if cartography f = Some (PropStr ''bench'') then ''#d1b595'' else ''#7b8064'')
          (if mf_label f = ''Pit benches'' then Some (meanOf (map fst points), meanOf (map snd points)) else None)
          (raised \<and> cartography f = Some (PropStr ''bench'')))
      | POLYLINE \<Rightarrow>
          if \<not> showRoute \<and> mf_feature_type f = ROUTE then None
          else if mf_feature_type f = BERM \<or> mf_feature_type f = CENTERLINE then None
          else Some (MineLine (mf_feature_id f) points (if mf_feature_type f = ROUTE then ''#338ef3'' else ''#8ba27a'')
            (unit * (if mf_feature_type f = ROUTE then Fin 0.48 else Fin 0.14)))
      | POINT \<Rightarrow> Some (MineSite (mf_feature_id f) (project (hd (mf_points f)))
          (if mf_feature_type f = DESTINATION then ''Crusher / unloading'' else mf_label f)))"

definition mineCartography ::
    "MapFeature list \<Rightarrow> (Point2D \<Rightarrow> jsnum \<times> jsnum) \<Rightarrow> jsnum \<Rightarrow> bool \<Rightarrow> bool \<Rightarrow> MineShape list" where
  "mineCartography features project unit raised showRoute =
     List.map_filter (mineShape project unit raised showRoute)
       (js_sort (\<lambda>a b. isContour a \<and> \<not> isContour b) features)"

section \<open>The view\<close>

record NavView =
  nv_zoom :: jsnum
  nv_follow :: bool
  nv_pan :: "jsnum \<times> jsnum"
  nv_mapWidth :: jsnum

text \<open>What the map is given: the world, the vehicle it belongs to and whether the feed is connected.\<close>

record NavProps =
  np_world :: WorldState
  np_vehicle :: VehiclePose
  np_connected :: bool

definition navFeatures :: "NavProps \<Rightarrow> MapFeature list" where
  "navFeatures props = (case ws_reference_map (np_world props) of Some m \<Rightarrow> rm_features m | None \<Rightarrow> [])"

definition navAspect :: "jsnum \<Rightarrow> jsnum" where
  "navAspect mapWidth = (if mapWidth < 680 then Fin 1.4 else Fin 2.5)"

record NavBounds =
  nb_x :: jsnum
  nb_y :: jsnum
  nb_width :: jsnum

definition navBounds :: "MapFeature list \<Rightarrow> jsnum \<Rightarrow> NavBounds" where
  "navBounds features aspect =
     (let points = concat (map mf_points features);
          xs = map pt_x_m points; ys = map (\<lambda>p. - pt_y_m p) points;
          minX = js_min_list (0 # xs) - 5; maxX = js_max_list (10 # xs) + 5;
          minY = js_min_list (0 # ys) - 5; maxY = js_max_list (10 # ys) + 5
      in \<lparr>nb_x = (minX + maxX) / 2, nb_y = (minY + maxY) / 2,
          nb_width = js_max (maxX - minX) ((maxY - minY) * aspect)\<rparr>)"

definition navBoundsOf :: "NavProps \<Rightarrow> NavView \<Rightarrow> NavBounds" where
  "navBoundsOf props v = navBounds (navFeatures props) (navAspect (nv_mapWidth v))"

definition navWidth :: "NavProps \<Rightarrow> NavView \<Rightarrow> jsnum" where
  "navWidth props v = nb_width (navBoundsOf props v) / nv_zoom v"

definition navHeight :: "NavProps \<Rightarrow> NavView \<Rightarrow> jsnum" where
  "navHeight props v = navWidth props v / navAspect (nv_mapWidth v)"

definition navCenter :: "NavProps \<Rightarrow> NavView \<Rightarrow> jsnum \<times> jsnum" where
  "navCenter props v =
     (if nv_follow v \<and> np_connected props then (vp_x_m (np_vehicle props), - vp_y_m (np_vehicle props))
      else (nb_x (navBoundsOf props v) + fst (nv_pan v), nb_y (navBoundsOf props v) + snd (nv_pan v)))"

section \<open>The map as a machine\<close>

text \<open>
  The current state, what was rendered last and with which properties, and the held pointer. The handlers read
  the rendered values; a pan by moving is an update of the current pan.
\<close>

record NavigationMap =
  nav_view :: NavView
  nav_shown :: NavView
  nav_props :: NavProps
  nav_drag :: "(nat \<times> jsnum \<times> jsnum) option"

definition mountRouteMap :: "NavProps \<Rightarrow> NavigationMap" where
  "mountRouteMap props =
     (let v = \<lparr>nv_zoom = 1, nv_follow = False, nv_pan = (0, 0), nv_mapWidth = 1000\<rparr>
      in \<lparr>nav_view = v, nav_shown = v, nav_props = props, nav_drag = None\<rparr>)"

definition renderNavigation :: "NavProps \<Rightarrow> NavigationMap \<Rightarrow> NavigationMap" where
  "renderNavigation props m = m\<lparr>nav_shown := nav_view m, nav_props := props\<rparr>"

definition navPointerDown :: "nat \<Rightarrow> nat \<Rightarrow> jsnum \<times> jsnum \<Rightarrow> NavigationMap \<Rightarrow> NavigationMap" where
  "navPointerDown pointer button client m =
     (if button \<noteq> 0 then m
      else
        let shown = nav_shown m; props = nav_props m; bounds = navBoundsOf props shown;
            center = navCenter props shown;
            v = (if nv_follow shown
                 then (nav_view m)\<lparr>nv_pan := (fst center - nb_x bounds, snd center - nb_y bounds)\<rparr> else nav_view m)
        in m\<lparr>nav_view := v\<lparr>nv_follow := False\<rparr>, nav_drag := Some (pointer, client)\<rparr>)"

text \<open>\<open>pixels\<close> is the width of the drawing on the screen when the pointer moves.\<close>

definition navPointerMove :: "nat \<Rightarrow> jsnum \<times> jsnum \<Rightarrow> jsnum \<Rightarrow> NavigationMap \<Rightarrow> NavigationMap" where
  "navPointerMove pointer client pixels m =
     (case nav_drag m of None \<Rightarrow> m
      | Some (held, px, py) \<Rightarrow>
          if held \<noteq> pointer then m
          else let width = navWidth (nav_props m) (nav_shown m);
                   dx = (fst client - px) * width / pixels; dy = (snd client - py) * width / pixels;
                   pan = nv_pan (nav_view m)
               in m\<lparr>nav_view := (nav_view m)\<lparr>nv_pan := (fst pan - dx, snd pan - dy)\<rparr>, nav_drag := Some (pointer, client)\<rparr>)"

definition navPointerUp :: "NavigationMap \<Rightarrow> NavigationMap" where
  "navPointerUp m = m\<lparr>nav_drag := None\<rparr>"

definition navZoomIn :: "NavigationMap \<Rightarrow> NavigationMap" where
  "navZoomIn m = m\<lparr>nav_view := (nav_view m)\<lparr>nv_zoom := js_min 6 (nv_zoom (nav_view m) * Fin 1.4)\<rparr>\<rparr>"

definition navZoomOut :: "NavigationMap \<Rightarrow> NavigationMap" where
  "navZoomOut m = m\<lparr>nav_view := (nav_view m)\<lparr>nv_zoom := js_max (Fin 0.7) (nv_zoom (nav_view m) / Fin 1.4)\<rparr>\<rparr>"

definition toggleFollow :: "NavigationMap \<Rightarrow> NavigationMap" where
  "toggleFollow m =
     (let v = (nav_view m)\<lparr>nv_follow := \<not> nv_follow (nav_shown m)\<rparr>
      in m\<lparr>nav_view := (if nv_follow (nav_shown m) then v else v\<lparr>nv_zoom := 3\<rparr>)\<rparr>)"

definition fullRoute :: "NavigationMap \<Rightarrow> NavigationMap" where
  "fullRoute m = m\<lparr>nav_view := (nav_view m)\<lparr>nv_zoom := 1, nv_follow := False, nv_pan := (0, 0)\<rparr>\<rparr>"

definition resizeNavigation :: "jsnum \<Rightarrow> NavigationMap \<Rightarrow> NavigationMap" where
  "resizeNavigation width m = m\<lparr>nav_view := (nav_view m)\<lparr>nv_mapWidth := width\<rparr>\<rparr>"

datatype NavEvent =
  NavRendered NavProps
| NavPointerDown nat nat "jsnum \<times> jsnum"
| NavPointerMoved nat "jsnum \<times> jsnum" jsnum
| NavPointerReleased
| NavZoomedIn
| NavZoomedOut
| FollowToggled
| FullRouteChosen
| NavResized jsnum

fun navigation_step :: "NavEvent \<Rightarrow> NavigationMap \<Rightarrow> NavigationMap" where
  "navigation_step (NavRendered props) m = renderNavigation props m"
| "navigation_step (NavPointerDown pointer button client) m = navPointerDown pointer button client m"
| "navigation_step (NavPointerMoved pointer client pixels) m = navPointerMove pointer client pixels m"
| "navigation_step NavPointerReleased m = navPointerUp m"
| "navigation_step NavZoomedIn m = navZoomIn m"
| "navigation_step NavZoomedOut m = navZoomOut m"
| "navigation_step FollowToggled m = toggleFollow m"
| "navigation_step FullRouteChosen m = fullRoute m"
| "navigation_step (NavResized width) m = resizeNavigation width m"

definition navigation_run :: "NavProps \<Rightarrow> NavEvent list \<Rightarrow> NavigationMap" where
  "navigation_run props es = fold navigation_step es (mountRouteMap props)"

section \<open>What the map draws and says\<close>

record NavVehicle =
  nvh_id :: string
  nvh_at :: "jsnum \<times> jsnum"
  nvh_rotation :: jsnum
  nvh_scale :: jsnum
  nvh_own :: bool

record NavDrawing =
  nd_viewBox :: "jsnum \<times> jsnum \<times> jsnum \<times> jsnum"
  nd_mine :: "MineShape list option"
  nd_areas :: "(string \<times> (jsnum \<times> jsnum) list \<times> string) list"
  nd_route :: "(jsnum \<times> jsnum) list"
  nd_planned :: "(jsnum \<times> jsnum) list option"
  nd_sites :: "(string \<times> (jsnum \<times> jsnum) \<times> string \<times> jsnum) list"
  nd_obstacle :: "(jsnum \<times> jsnum) option"
  nd_vehicles :: "NavVehicle list"

text \<open>\<^verbatim>\<open>haul\<close>: the haul route counts only in a simulated world.\<close>

definition navHaul :: "NavProps \<Rightarrow> HaulRouteState option" where
  "navHaul props = (if ws_mode (np_world props) = SIMULATED then ws_haul_route (np_world props) else None)"

definition obstacleDetected :: "HaulRouteState option \<Rightarrow> bool" where
  "obstacleDetected haul \<longleftrightarrow> (case haul of Some h \<Rightarrow> hr_obstacle_detected h = Some True | None \<Rightarrow> False)"

definition navMarkerScale :: "NavProps \<Rightarrow> NavView \<Rightarrow> jsnum" where
  "navMarkerScale props v = navWidth props v / js_max 300 (nv_mapWidth v) * 6"

definition navDrawing :: "NavProps \<Rightarrow> NavView \<Rightarrow> NavDrawing" where
  "navDrawing props v =
     (let features = navFeatures props; haul = navHaul props; live = np_connected props;
          width = navWidth props v; height = navHeight props v; center = navCenter props v;
          marker = navMarkerScale props v
      in \<lparr>nd_viewBox = (fst center - width / 2, snd center - height / 2, width, height),
          nd_mine = (if haul \<noteq> None then Some (mineCartography features planProjection 1 False True) else None),
          nd_areas = (if haul \<noteq> None then []
            else map (\<lambda>f. (mf_feature_id f, map planProjection (mf_points f),
                if mf_feature_type f = HAZARD_ZONE then ''nav-hazard'' else ''nav-road''))
              (filter (\<lambda>f. mf_geometry_type f = POLYGON) features)),
          nd_route = (case find (\<lambda>f. mf_feature_type f = ROUTE) features of
            Some route \<Rightarrow> map planProjection (mf_points route) | None \<Rightarrow> []),
          nd_planned = (if live \<and> obstacleDetected haul
            then Some (case Option.bind haul hr_planned_path of Some path \<Rightarrow> map planProjection path | None \<Rightarrow> []) else None),
          nd_sites = (if haul \<noteq> None then []
            else map (\<lambda>f. (mf_feature_id f, planProjection (hd (mf_points f)), mf_label f, js_max (Fin 1.8) (marker * Fin 1.6)))
              (filter (\<lambda>f. mf_feature_type f = START \<or> mf_feature_type f = DESTINATION) features)),
          nd_obstacle = (if live \<and> obstacleDetected haul then map_option planProjection (Option.bind haul hr_obstacle) else None),
          nd_vehicles = (if live
            then map (\<lambda>x. \<lparr>nvh_id = vp_vehicle_id x, nvh_at = (vp_x_m x, - vp_y_m x), nvh_rotation = vp_heading_deg x,
                nvh_scale = marker, nvh_own = (vp_vehicle_id x = vp_vehicle_id (np_vehicle props))\<rparr>) (ws_vehicles (np_world props))
            else [])\<rparr>)"

record NavTexts =
  nt_phase :: string
  nt_symbol :: string
  nt_destination :: string
  nt_instruction :: string
  nt_remaining :: string
  nt_speed :: string
  nt_progress :: string
  nt_status :: string
  nt_route :: string
  nt_source :: string

fun phase_text :: "HaulPhase \<Rightarrow> string" where
  "phase_text PHASE_HAULING = ''HAULING''"
| "phase_text PHASE_OBSTACLE = ''OBSTACLE''"
| "phase_text PHASE_WAITING = ''WAITING''"
| "phase_text PHASE_ARRIVED = ''ARRIVED''"

text \<open>The check mark and the arrows, as their UTF-8 bytes.\<close>

definition check_mark :: string where
  "check_mark = map char_of [226, 156, 147 :: nat]"

definition turn_arrow :: string where
  "turn_arrow = map char_of [226, 134, 177 :: nat]"

definition right_arrow :: string where
  "right_arrow = map char_of [226, 134, 146 :: nat]"

definition navTexts :: "NavProps \<Rightarrow> NavTexts" where
  "navTexts props =
     (let haul = navHaul props; live = np_connected props; phase = map_option hr_phase haul
      in \<lparr>nt_phase = (if live
            then (case haul of
                Some h \<Rightarrow> if hr_traffic_slowing h = Some True \<or> hr_lead_waiting h = Some True then ''OBSTACLE'' else phase_text (hr_phase h)
              | None \<Rightarrow> '''')
            else ''OFFLINE''),
          nt_symbol = (if phase = Some PHASE_ARRIVED then check_mark else if phase = Some PHASE_WAITING then ''!'' else turn_arrow),
          nt_destination = (if live
            then (case haul of
                Some h \<Rightarrow> if hr_destination h = ''Dump point'' then ''Crusher / unloading'' else hr_destination h
              | None \<Rightarrow> ''Assigned route'')
            else ''Navigation unavailable''),
          nt_instruction = (if live then (case haul of Some h \<Rightarrow> hr_next_instruction h | None \<Rightarrow> ''Follow the reference route'')
            else ''Waiting for current telemetry''),
          nt_remaining = (case haul of Some h \<Rightarrow> if live then num_str (js_round (hr_remaining_m h)) @ '' m'' else em_dash | None \<Rightarrow> em_dash),
          nt_speed = (if live then toFixed (vp_speed_mps (np_vehicle props) * Fin 3.6) 1 @ '' km/h'' else em_dash),
          nt_progress = (case haul of
              Some h \<Rightarrow> if live then num_str (js_round (100 * hr_distance_m h / js_max 1 (hr_total_distance_m h))) @ ''%'' else em_dash
            | None \<Rightarrow> em_dash),
          nt_status = (if live
            then (if phase = Some PHASE_ARRIVED then ''Arrived'' else if phase = Some PHASE_WAITING then ''Stopped''
              else if sim_running (ws_simulation (np_world props)) then ''En route'' else ''Paused'')
            else ''Offline''),
          nt_route = (case haul of Some h \<Rightarrow> hr_origin h | None \<Rightarrow> ''Route origin'') @ '' '' @ right_arrow @ '' '' @
            (case haul of Some h \<Rightarrow> hr_destination h | None \<Rightarrow> ''Destination''),
          nt_source = mode_text (Some (ws_mode (np_world props))) @ '' '' @ [CHR 0xB7] @ '' Site map''\<rparr>)"

section \<open>Where a point is on the screen\<close>

text \<open>The place of a point in the drawing, which is \<open>pixels\<close> wide on the screen.\<close>

definition navPlace :: "NavProps \<Rightarrow> NavView \<Rightarrow> jsnum \<Rightarrow> Point2D \<Rightarrow> jsnum \<times> jsnum" where
  "navPlace props v pixels p =
     (let width = navWidth props v; height = navHeight props v; center = navCenter props v; q = planProjection p
      in ((fst q - (fst center - width / 2)) * pixels / width, (snd q - (snd center - height / 2)) * pixels / width))"

definition finite_features :: "MapFeature list \<Rightarrow> bool" where
  "finite_features features \<longleftrightarrow>
     list_all (\<lambda>f. list_all (\<lambda>p. isFinite (pt_x_m p) \<and> isFinite (pt_y_m p)) (mf_points f)) features"

definition aspect_of :: "jsnum \<Rightarrow> real" where
  "aspect_of mapWidth = (if mapWidth < 680 then 1.4 else 2.5)"

lemma navAspect_Fin: "navAspect mapWidth = Fin (aspect_of mapWidth)"
  by (simp add: navAspect_def aspect_of_def)

lemma aspect_positive: "0 < aspect_of mapWidth"
  by (simp add: aspect_of_def)

lemma extent_Fin:
  assumes "\<forall>v \<in> set vs. isFinite v"
  obtains lo hi where "js_min_list (0 # vs) - 5 = Fin lo" "js_max_list (10 # vs) + 5 = Fin hi" "lo \<le> - 5" "15 \<le> hi"
    "\<forall>r. Fin r \<in> set vs \<longrightarrow> lo \<le> r \<and> r \<le> hi"
proof -
  obtain rs where vs: "vs = map Fin rs"
    using finite_numbers_as_map [of vs "\<lambda>v. v"] assms by (metis list.map_comp list.map_ident)
  have "js_min_list (0 # vs) = Fin (Min (set (0 # rs)))" "js_max_list (10 # vs) = Fin (Max (set (10 # rs)))"
    using js_min_list_Fin [of "0 # rs"] js_max_list_Fin [of "10 # rs"] by (simp_all add: vs)
  moreover have "Min (set (0 # rs)) \<le> 0" "10 \<le> Max (set (10 # rs))" by (rule Min_le Max_ge; simp)+
  moreover have "Min (set (0 # rs)) \<le> r \<and> r \<le> Max (set (10 # rs))" if "Fin r \<in> set vs" for r
    using that by (auto simp: vs intro!: Min_le Max_ge)
  ultimately show ?thesis
    by (intro that [of "Min (set (0 # rs)) - 5" "Max (set (10 # rs)) + 5"]) (auto simp del: list.set, fastforce+)
qed

lemma navBounds_Fin:
  assumes "finite_features features"
  obtains lx hx ly hy where
    "navBounds features (Fin a) = \<lparr>nb_x = Fin ((lx + hx) / 2), nb_y = Fin ((ly + hy) / 2), nb_width = Fin (max (hx - lx) ((hy - ly) * a))\<rparr>"
    "20 \<le> hx - lx" "20 \<le> hy - ly"
    "\<forall>f \<in> set features. \<forall>p \<in> set (mf_points f). \<exists>x y. pt_x_m p = Fin x \<and> pt_y_m p = Fin y \<and> lx \<le> x \<and> x \<le> hx \<and> ly \<le> - y \<and> - y \<le> hy"
proof -
  let ?ps = "concat (map mf_points features)"
  have fin: "\<forall>p \<in> set ?ps. isFinite (pt_x_m p) \<and> isFinite (pt_y_m p)"
    using assms by (auto simp: finite_features_def list_all_iff)
  have fx: "\<forall>v \<in> set (map pt_x_m ?ps). isFinite v" and fy: "\<forall>v \<in> set (map (\<lambda>p. - pt_y_m p) ?ps). isFinite v"
    using fin by (auto simp del: set_concat)
  obtain lx hx where x: "js_min_list (0 # map pt_x_m ?ps) - 5 = Fin lx" "js_max_list (10 # map pt_x_m ?ps) + 5 = Fin hx"
    "lx \<le> - 5" "15 \<le> hx" "\<forall>r. Fin r \<in> set (map pt_x_m ?ps) \<longrightarrow> lx \<le> r \<and> r \<le> hx"
    by (rule extent_Fin [OF fx])
  obtain ly hy where y: "js_min_list (0 # map (\<lambda>p. - pt_y_m p) ?ps) - 5 = Fin ly" "js_max_list (10 # map (\<lambda>p. - pt_y_m p) ?ps) + 5 = Fin hy"
    "ly \<le> - 5" "15 \<le> hy" "\<forall>r. Fin r \<in> set (map (\<lambda>p. - pt_y_m p) ?ps) \<longrightarrow> ly \<le> r \<and> r \<le> hy"
    by (rule extent_Fin [OF fy])
  show ?thesis
  proof (rule that)
    show "navBounds features (Fin a) = \<lparr>nb_x = Fin ((lx + hx) / 2), nb_y = Fin ((ly + hy) / 2), nb_width = Fin (max (hx - lx) ((hy - ly) * a))\<rparr>"
      by (simp add: navBounds_def Let_def x(1,2) y(1,2) del: num_literals) simp
    show "20 \<le> hx - lx" "20 \<le> hy - ly" using x(3,4) y(3,4) by simp_all
    show "\<forall>f \<in> set features. \<forall>p \<in> set (mf_points f). \<exists>x y. pt_x_m p = Fin x \<and> pt_y_m p = Fin y \<and> lx \<le> x \<and> x \<le> hx \<and> ly \<le> - y \<and> - y \<le> hy"
    proof (intro ballI)
      fix f p assume "f \<in> set features" "p \<in> set (mf_points f)"
      then have p: "p \<in> set ?ps" by auto
      with fin have "isFinite (pt_x_m p)" "isFinite (pt_y_m p)" by blast+
      then obtain u v where uv: "pt_x_m p = Fin u" "pt_y_m p = Fin v" by blast
      have "Fin u \<in> set (map pt_x_m ?ps)" "Fin (- v) \<in> set (map (\<lambda>p. - pt_y_m p) ?ps)"
        using p uv by (auto intro!: image_eqI [of _ _ p] simp del: set_concat)
      with x(5) y(5) uv show "\<exists>x y. pt_x_m p = Fin x \<and> pt_y_m p = Fin y \<and> lx \<le> x \<and> x \<le> hx \<and> ly \<le> - y \<and> - y \<le> hy"
        by blast
    qed
  qed
qed

section \<open>The whole route fits the view\<close>

lemma navWidth_Fin:
  assumes "finite_features (navFeatures props)" and "nv_zoom v = Fin z" and "0 < z"
  obtains w where "navWidth props v = Fin w" "0 < w" "navHeight props v = Fin (w / aspect_of (nv_mapWidth v))"
proof -
  obtain lx hx ly hy where b: "navBoundsOf props v = \<lparr>nb_x = Fin ((lx + hx) / 2), nb_y = Fin ((ly + hy) / 2),
      nb_width = Fin (max (hx - lx) ((hy - ly) * aspect_of (nv_mapWidth v)))\<rparr>" "20 \<le> hx - lx"
    unfolding navBoundsOf_def navAspect_Fin using navBounds_Fin [OF assms(1)] by metis
  have "0 < max (hx - lx) ((hy - ly) * aspect_of (nv_mapWidth v)) / z" using b(2) assms(3) by simp
  then show ?thesis
    using b assms(2,3) aspect_positive [of "nv_mapWidth v"]
    by (intro that [of "max (hx - lx) ((hy - ly) * aspect_of (nv_mapWidth v)) / z"])
      (simp_all add: navWidth_def navHeight_def navAspect_Fin)
qed

text \<open>
  "Full route" shows the whole route: whatever was zoomed, dragged or followed before, once it is chosen
  every point of every feature of the reference map lies inside the view box.
\<close>

theorem full_route_visible:
  assumes "finite_features (navFeatures props)" and "f \<in> set (navFeatures props)" and "p \<in> set (mf_points f)"
  shows "\<exists>left upper width height x y. nd_viewBox (navDrawing props (nav_view (fullRoute m))) = (Fin left, Fin upper, Fin width, Fin height) \<and>
    planProjection p = (Fin x, Fin y) \<and> left \<le> x \<and> x \<le> left + width \<and> upper \<le> y \<and> y \<le> upper + height"
proof -
  define v where "v = nav_view (fullRoute m)"
  have v: "nv_zoom v = 1" "nv_follow v = False" "nv_pan v = (0, 0)" by (simp_all add: v_def fullRoute_def)
  define a where "a = aspect_of (nv_mapWidth v)"
  have a: "0 < a" by (simp add: a_def aspect_positive)
  obtain lx hx ly hy where b: "navBoundsOf props v = \<lparr>nb_x = Fin ((lx + hx) / 2), nb_y = Fin ((ly + hy) / 2),
      nb_width = Fin (max (hx - lx) ((hy - ly) * a))\<rparr>"
    and all: "\<forall>f \<in> set (navFeatures props). \<forall>p \<in> set (mf_points f). \<exists>x y. pt_x_m p = Fin x \<and> pt_y_m p = Fin y \<and>
      lx \<le> x \<and> x \<le> hx \<and> ly \<le> - y \<and> - y \<le> hy"
    unfolding navBoundsOf_def navAspect_Fin a_def using navBounds_Fin [OF assms(1)] by metis
  from all assms(2,3) obtain x y where p: "pt_x_m p = Fin x" "pt_y_m p = Fin y" "lx \<le> x" "x \<le> hx" "ly \<le> - y" "- y \<le> hy"
    by blast
  define W where "W = max (hx - lx) ((hy - ly) * a)"
  define H where "H = W / a"
  have W: "hx - lx \<le> W" "hy - ly \<le> H"
    using a by (simp_all add: W_def H_def pos_le_divide_eq)
  have box: "nd_viewBox (navDrawing props v) = (Fin ((lx + hx) / 2 - W / 2), Fin ((ly + hy) / 2 - H / 2), Fin W, Fin H)"
    using v a by (simp add: navDrawing_def Let_def navWidth_def navHeight_def navCenter_def b navAspect_Fin a_def [symmetric]
      W_def [symmetric] H_def)
  have "(lx + hx) / 2 - W / 2 \<le> x" "x \<le> (lx + hx) / 2 - W / 2 + W" "(ly + hy) / 2 - H / 2 \<le> - y"
    "- y \<le> (ly + hy) / 2 - H / 2 + H"
    using W p(3-6) by (auto simp: field_simps)
  moreover have "planProjection p = (Fin x, Fin (- y))" by (simp add: planProjection_def p)
  ultimately show ?thesis using box unfolding v_def by blast
qed

section \<open>The dragged point stays under the pointer\<close>

text \<open>
  A held pointer over a map of these features: what is rendered has the zoom and the width of what is current,
  and the map does not follow the vehicle.
\<close>

definition navGrabbed :: "MapFeature list \<Rightarrow> nat \<Rightarrow> real \<Rightarrow> NavigationMap \<Rightarrow> (real \<times> real) option" where
  "navGrabbed features pointer pixels m =
     (if 0 < pixels \<and> finite_features features \<and> navFeatures (nav_props m) = features \<and> \<not> nv_follow (nav_view m) \<and>
         nv_zoom (nav_shown m) = nv_zoom (nav_view m) \<and> nv_mapWidth (nav_shown m) = nv_mapWidth (nav_view m) \<and>
         (\<exists>z > 0. nv_zoom (nav_view m) = Fin z)
      then (case nav_drag m of Some (held, client) \<Rightarrow> if held = pointer then finite_place client else None | None \<Rightarrow> None)
      else None)"

definition navAt :: "real \<Rightarrow> NavigationMap \<Rightarrow> Point2D \<Rightarrow> (real \<times> real) option" where
  "navAt pixels m p = finite_place (navPlace (nav_props m) (nav_view m) (Fin pixels) p)"

text \<open>A step of a drag: the pointer moves, and the map may render with what telemetry brought meanwhile.\<close>

definition navDragStep :: "nat \<Rightarrow> real \<Rightarrow> (real \<times> real) \<times> NavProps option \<Rightarrow> NavigationMap \<Rightarrow> NavigationMap" where
  "navDragStep pointer pixels e m =
     (let m' = navPointerMove pointer (Fin (fst (fst e)), Fin (snd (fst e))) (Fin pixels) m
      in case snd e of Some props \<Rightarrow> renderNavigation props m' | None \<Rightarrow> m')"

lemma navWidth_cong:
  "navFeatures props = navFeatures props' \<Longrightarrow> nv_zoom v = nv_zoom v' \<Longrightarrow> nv_mapWidth v = nv_mapWidth v' \<Longrightarrow>
     navBoundsOf props v = navBoundsOf props' v' \<and> navWidth props v = navWidth props' v' \<and> navHeight props v = navHeight props' v'"
  by (simp add: navWidth_def navHeight_def navBoundsOf_def)

lemma navWidth_pan [simp]:
  "navBoundsOf props (v\<lparr>nv_pan := q\<rparr>) = navBoundsOf props v" "navWidth props (v\<lparr>nv_pan := q\<rparr>) = navWidth props v"
  "navHeight props (v\<lparr>nv_pan := q\<rparr>) = navHeight props v"
  by (simp_all add: navWidth_def navHeight_def navBoundsOf_def)

lemma navPlace_cong:
  assumes "navFeatures props = navFeatures props'" and "\<not> nv_follow v"
  shows "navPlace props v pixels p = navPlace props' v pixels p"
  using assms navWidth_cong [OF assms(1) refl refl, of v] by (simp add: navPlace_def navCenter_def Let_def)

lemma navPlace_moved:
  assumes "finite_features (navFeatures props)" and "nv_zoom v = Fin z" and "0 < z" and "\<not> nv_follow v" and "0 < pixels"
    and "navWidth props v = Fin w" and "navPlace props v (Fin pixels) p = (Fin x, Fin y)"
  shows "navPlace props (v\<lparr>nv_pan := (fst (nv_pan v) - Fin (dx * w / pixels), snd (nv_pan v) - Fin (dy * w / pixels))\<rparr>) (Fin pixels) p =
    (Fin (x + dx), Fin (y + dy))"
proof -
  let ?v = "v\<lparr>nv_pan := (fst (nv_pan v) - Fin (dx * w / pixels), snd (nv_pan v) - Fin (dy * w / pixels))\<rparr>"
  obtain w' where w: "navWidth props v = Fin w'" "0 < w'" "navHeight props v = Fin (w' / aspect_of (nv_mapWidth v))"
    by (rule navWidth_Fin [OF assms(1-3)])
  have ww: "w' = w" using w(1) assms(6) by simp
  obtain lx hx ly hy W where b: "navBoundsOf props v = \<lparr>nb_x = Fin ((lx + hx) / 2), nb_y = Fin ((ly + hy) / 2), nb_width = Fin W\<rparr>"
    unfolding navBoundsOf_def navAspect_Fin using navBounds_Fin [OF assms(1)] by metis
  define h where "h = w / aspect_of (nv_mapWidth v)"
  define cx cy where "cx = (lx + hx) / 2" and "cy = (ly + hy) / 2"
  obtain ux uy px py where u: "pt_x_m p = Fin ux" "pt_y_m p = Fin uy" "nv_pan v = (Fin px, Fin py)"
    using assms(4,5,7) w b unfolding ww
    by (cases "pt_x_m p"; cases "pt_y_m p"; cases "nv_pan v"; cases "fst (nv_pan v)"; cases "snd (nv_pan v)")
      (simp_all add: navPlace_def navCenter_def Let_def planProjection_def minus_jsnum_def inf_of_sign_def)
  have xy: "x = (ux - (cx + px - w / 2)) * pixels / w" "y = (- uy - (cy + py - h / 2)) * pixels / w"
    using assms(4,7) w u b unfolding ww
    by (simp_all add: navPlace_def navCenter_def Let_def planProjection_def cx_def cy_def h_def)
  have "(ux - (cx + (px - dx * w / pixels) - w / 2)) * pixels / w = x + dx"
    "(- uy - (cy + (py - dy * w / pixels) - h / 2)) * pixels / w = y + dy"
    using assms(5) w(2) unfolding xy ww by (simp_all add: field_simps)
  moreover have "navPlace props ?v (Fin pixels) p = (Fin ((ux - (cx + (px - dx * w / pixels) - w / 2)) * pixels / w),
      Fin ((- uy - (cy + (py - dy * w / pixels) - h / 2)) * pixels / w))"
    using assms(4,5) w u b unfolding ww
    by (simp add: navPlace_def navCenter_def Let_def planProjection_def cx_def [symmetric] cy_def [symmetric] h_def)
  ultimately show ?thesis by simp
qed

interpretation navigation_drag: draggable "navGrabbed features pointer pixels" "navAt pixels" "navDragStep pointer pixels"
  fst "\<lambda>e. case snd e of Some props \<Rightarrow> navFeatures props = features | None \<Rightarrow> True" for features pointer pixels
proof unfold_locales
  fix m :: NavigationMap and a :: "real \<times> real" and e :: "(real \<times> real) \<times> NavProps option"
  assume grabbed: "navGrabbed features pointer pixels m = Some a"
    and e: "case snd e of Some props \<Rightarrow> navFeatures props = features | None \<Rightarrow> True"
  then obtain z where m: "0 < pixels" "finite_features (navFeatures (nav_props m))" "navFeatures (nav_props m) = features"
    "\<not> nv_follow (nav_view m)" "nv_zoom (nav_shown m) = nv_zoom (nav_view m)" "nv_mapWidth (nav_shown m) = nv_mapWidth (nav_view m)"
    "nv_zoom (nav_view m) = Fin z" "0 < z" "nav_drag m = Some (pointer, Fin (fst a), Fin (snd a))"
    by (auto simp: navGrabbed_def finite_place_Some split: if_splits option.splits)
  let ?m = "navDragStep pointer pixels e m"
  obtain w where w: "navWidth (nav_props m) (nav_view m) = Fin w" by (rule navWidth_Fin [OF m(2,7,8)])
  then have shown: "navWidth (nav_props m) (nav_shown m) = Fin w"
    using navWidth_cong [OF refl m(5,6)] by simp
  have view: "nav_view ?m = (nav_view m)\<lparr>nv_pan :=
      (fst (nv_pan (nav_view m)) - Fin ((fst (fst e) - fst a) * w / pixels), snd (nv_pan (nav_view m)) - Fin ((snd (fst e) - snd a) * w / pixels))\<rparr>"
    and drag: "nav_drag ?m = Some (pointer, Fin (fst (fst e)), Fin (snd (fst e)))"
    and props: "navFeatures (nav_props ?m) = features"
    and zoom: "nv_zoom (nav_shown ?m) = nv_zoom (nav_view ?m)" "nv_mapWidth (nav_shown ?m) = nv_mapWidth (nav_view ?m)"
    using m(1,3,5,6,9) shown e
    by (auto simp: navDragStep_def navPointerMove_def renderNavigation_def Let_def split: option.splits)
  show "navGrabbed features pointer pixels ?m = Some (fst e)"
    using m props zoom drag by (simp add: navGrabbed_def view)
  fix p q
  assume "navAt pixels m p = Some q"
  then have "navPlace (nav_props m) (nav_view m) (Fin pixels) p = (Fin (fst q), Fin (snd q))"
    by (simp add: navAt_def finite_place_Some)
  from navPlace_moved [OF m(2,7,8,4,1) w this] have "navPlace (nav_props m) (nav_view ?m) (Fin pixels) p =
      (Fin (fst q + (fst (fst e) - fst a)), Fin (snd q + (snd (fst e) - snd a)))"
    unfolding view .
  moreover have "navPlace (nav_props ?m) (nav_view ?m) (Fin pixels) p = navPlace (nav_props m) (nav_view ?m) (Fin pixels) p"
    by (rule navPlace_cong) (use props m(3,4) view in simp_all)
  ultimately show "navAt pixels ?m p = Some (shifted a (fst e) q)"
    by (simp add: navAt_def shifted_def)
qed

definition navDragEvents :: "nat \<Rightarrow> real \<Rightarrow> ((real \<times> real) \<times> NavProps option) list \<Rightarrow> NavEvent list" where
  "navDragEvents pointer pixels steps =
     concat (map (\<lambda>(b, render). NavPointerMoved pointer (Fin (fst b), Fin (snd b)) (Fin pixels) #
       (case render of Some props \<Rightarrow> [NavRendered props] | None \<Rightarrow> [])) steps)"

lemma nav_drag_run: "fold navigation_step (navDragEvents pointer pixels steps) m = fold (navDragStep pointer pixels) steps m"
  by (induction steps arbitrary: m) (auto simp: navDragEvents_def navDragStep_def Let_def split: option.splits)

text \<open>The zoom keeps within its ends, whatever happens.\<close>

definition zoom_ok :: "NavView \<Rightarrow> bool" where
  "zoom_ok v \<longleftrightarrow> (\<exists>z. nv_zoom v = Fin z \<and> 0.7 \<le> z \<and> z \<le> 6)"

definition nav_inv :: "NavigationMap \<Rightarrow> bool" where
  "nav_inv m \<longleftrightarrow> zoom_ok (nav_view m) \<and> zoom_ok (nav_shown m)"

lemma nav_inv_step: "nav_inv m \<Longrightarrow> nav_inv (navigation_step e m)"
  by (cases e) (auto simp: nav_inv_def zoom_ok_def renderNavigation_def navPointerDown_def navPointerMove_def navPointerUp_def
    navZoomIn_def navZoomOut_def toggleFollow_def fullRoute_def resizeNavigation_def Let_def min_def max_def split: option.splits)

interpretation navigation_machine: machine "mountRouteMap props" navigation_step "\<lambda>_. True" nav_inv for props
proof unfold_locales
  show "nav_inv (mountRouteMap props)"
    by (simp add: nav_inv_def zoom_ok_def mountRouteMap_def Let_def)
qed (rule nav_inv_step)

lemma navPlace_center:
  assumes "finite_features (navFeatures props)" and "nv_zoom v = Fin z" and "0 < z" and "0 < pixels"
    and "navPlace props v (Fin pixels) p = (Fin x, Fin y)"
  shows "\<exists>cx cy. navCenter props v = (Fin cx, Fin cy)"
proof -
  obtain w where w: "navWidth props v = Fin w" "0 < w" "navHeight props v = Fin (w / aspect_of (nv_mapWidth v))"
    by (rule navWidth_Fin [OF assms(1-3)])
  show ?thesis
    using assms(4,5) w
    by (cases "navCenter props v"; cases "fst (navCenter props v)"; cases "snd (navCenter props v)"; cases "pt_x_m p"; cases "pt_y_m p")
      (simp_all add: navPlace_def Let_def planProjection_def minus_jsnum_def inf_of_sign_def)
qed

text \<open>Pressing on the map ends following and leaves every point where it is.\<close>

lemma press_keeps_place:
  assumes "finite_features (navFeatures (nav_props m))" and "nav_inv m" and "nav_shown m = nav_view m" and "0 < pixels"
    and "navPlace (nav_props m) (nav_view m) (Fin pixels) p = (Fin x, Fin y)"
  shows "navPlace (nav_props m) (nav_view (navPointerDown pointer 0 client m)) (Fin pixels) p = (Fin x, Fin y)"
proof -
  let ?v = "nav_view (navPointerDown pointer 0 client m)"
  obtain z where z: "nv_zoom (nav_view m) = Fin z" "0 < z" using assms(2) by (auto simp: nav_inv_def zoom_ok_def)
  obtain cx cy where c: "navCenter (nav_props m) (nav_view m) = (Fin cx, Fin cy)"
    using navPlace_center [OF assms(1) z assms(4,5)] by blast
  obtain bx bY bw where b: "navBoundsOf (nav_props m) (nav_view m) = \<lparr>nb_x = Fin bx, nb_y = Fin bY, nb_width = Fin bw\<rparr>"
    unfolding navBoundsOf_def navAspect_Fin using navBounds_Fin [OF assms(1)] by metis
  have same: "nv_zoom ?v = nv_zoom (nav_view m)" "nv_mapWidth ?v = nv_mapWidth (nav_view m)" "\<not> nv_follow ?v"
    by (simp_all add: navPointerDown_def Let_def)
  note cong = navWidth_cong [OF refl same(1,2)]
  have "navCenter (nav_props m) ?v = (Fin cx, Fin cy)"
  proof (cases "nv_follow (nav_view m)")
    case True
    then have "nv_pan ?v = (Fin (cx - bx), Fin (cy - bY))"
      using c b assms(3) by (simp add: navPointerDown_def Let_def)
    then show ?thesis using same(3) b cong by (simp add: navCenter_def)
  next
    case False
    then have "nv_pan ?v = nv_pan (nav_view m)" using assms(3) by (simp add: navPointerDown_def Let_def)
    then show ?thesis using same(3) b cong c False by (simp add: navCenter_def)
  qed
  then show ?thesis using assms(5) c cong by (simp add: navPlace_def Let_def)
qed

text \<open>
  Dragging the route map: a point that is pressed on stays under the pointer however the pointer moves, also
  while new telemetry is rendered between or not between the moves, and also when the map had followed the
  vehicle until it was pressed.
\<close>

theorem nav_drag_follows:
  assumes "finite_features features" and "navFeatures props = features" and "0 < pixels"
    and "m = navigation_run props0 (es @ [NavRendered props])"
    and "navPlace props (nav_view m) (Fin pixels) p = (Fin (fst a), Fin (snd a))"
    and "list_all (\<lambda>e. case snd e of Some props' \<Rightarrow> navFeatures props' = features | None \<Rightarrow> True) steps"
    and "m' = fold navigation_step (NavPointerDown pointer 0 (Fin (fst a), Fin (snd a)) # navDragEvents pointer pixels steps) m"
  shows "navPlace (nav_props m') (nav_view m') (Fin pixels) p =
    (Fin (fst (last (a # map fst steps))), Fin (snd (last (a # map fst steps))))"
proof -
  have inv: "nav_inv m" unfolding assms(4) navigation_run_def by (rule navigation_machine.run_inv) (simp add: list_all_iff)
  have m: "nav_props m = props" "nav_shown m = nav_view m"
    by (simp_all add: assms(4) navigation_run_def renderNavigation_def)
  let ?m = "navPointerDown pointer 0 (Fin (fst a), Fin (snd a)) m"
  obtain z where z: "nv_zoom (nav_view m) = Fin z" "0 < z" using inv by (auto simp: nav_inv_def zoom_ok_def)
  have "navPlace props (nav_view ?m) (Fin pixels) p = (Fin (fst a), Fin (snd a))"
    using press_keeps_place [of m pixels p "fst a" "snd a"] assms(1-3,5) inv m by simp
  moreover have "nav_props ?m = props" using m(1) by (simp add: navPointerDown_def Let_def)
  ultimately have place: "navAt pixels ?m p = Some a" by (simp add: navAt_def finite_place_Some)
  have "navGrabbed features pointer pixels ?m = Some a"
    using assms(1-3) m z by (auto simp: navGrabbed_def navPointerDown_def Let_def)
  from navigation_drag.grabbed_follows [OF this place assms(6)] show ?thesis
    unfolding assms(7) by (simp add: nav_drag_run navAt_def finite_place_Some)
qed

text \<open>
  C21. The route map fails closed: without a connection nothing it draws and nothing it says depends on the
  vehicles, the haul or the simulation of the last snapshot, only the reference map and whether there is a
  haul at all count; it shows no vehicle, obstruction or planned path, says that it is offline and gives no
  distance, speed or progress. The turn symbol, the name of the route
  and the mode of the world are left: they stay those of the last snapshot.
\<close>

theorem navigation_fails_closed:
  assumes "\<not> np_connected a" and "\<not> np_connected b" and "navFeatures a = navFeatures b"
    and "(navHaul a = None) = (navHaul b = None)"
  shows "navDrawing a v = navDrawing b v \<and> (navTexts a)\<lparr>nt_symbol := [], nt_route := [], nt_source := []\<rparr> = (navTexts b)\<lparr>nt_symbol := [], nt_route := [], nt_source := []\<rparr> \<and>
    nd_vehicles (navDrawing a v) = [] \<and> nd_obstacle (navDrawing a v) = None \<and> nd_planned (navDrawing a v) = None \<and>
    (navTexts a)\<lparr>nt_symbol := [], nt_route := [], nt_source := []\<rparr> = \<lparr>nt_phase = ''OFFLINE'', nt_symbol = [], nt_destination = ''Navigation unavailable'',
      nt_instruction = ''Waiting for current telemetry'', nt_remaining = em_dash, nt_speed = em_dash, nt_progress = em_dash,
      nt_status = ''Offline'', nt_route = [], nt_source = []\<rparr>"
proof -
  have texts: "(navTexts x)\<lparr>nt_symbol := [], nt_route := [], nt_source := []\<rparr> = \<lparr>nt_phase = ''OFFLINE'', nt_symbol = [], nt_destination = ''Navigation unavailable'',
      nt_instruction = ''Waiting for current telemetry'', nt_remaining = em_dash, nt_speed = em_dash, nt_progress = em_dash,
      nt_status = ''Offline'', nt_route = [], nt_source = []\<rparr>" if "\<not> np_connected x" for x
    using that by (simp add: navTexts_def Let_def split: option.splits)
  note same = navWidth_cong [OF assms(3) refl refl, of v]
  have "navCenter a v = navCenter b v" "navMarkerScale a v = navMarkerScale b v"
    using same assms(1,2) by (simp_all add: navCenter_def navMarkerScale_def)
  then have "navDrawing a v = navDrawing b v"
    using same assms by (cases "navHaul a = None"; cases "navHaul b = None") (auto simp: navDrawing_def Let_def)
  moreover have "nd_vehicles (navDrawing a v) = []" "nd_obstacle (navDrawing a v) = None" "nd_planned (navDrawing a v) = None"
    using assms(1) by (simp_all add: navDrawing_def Let_def)
  ultimately show ?thesis using texts [OF assms(1)] texts [OF assms(2)] by simp
qed

text \<open>The turn symbol of a map that is offline still tells the phase of the last snapshot.\<close>

lemma offline_symbol_stale:
  assumes "\<not> np_connected props" and "navHaul props = Some haul" and "hr_phase haul = PHASE_ARRIVED"
  shows "nt_symbol (navTexts props) = check_mark" and "nt_destination (navTexts props) = ''Navigation unavailable''"
  using assms by (simp_all add: navTexts_def Let_def)

definition routeProps :: NavProps where
  "routeProps = \<lparr>np_world = sampleWorld\<lparr>ws_reference_map := Some \<lparr>rm_map_id = ''m'', rm_name = ''Mine'', rm_version = 1,
       rm_created_at_ms = 0, rm_coordinate_frame = ''local'', rm_coordinate_frame_id = None, rm_source = ''DEMO'',
       rm_source_detail = None, rm_geographic_anchor = None, rm_features = [pitFeature]\<rparr>\<rparr>,
     np_vehicle = defaultVehicle, np_connected = True\<rparr>"

lemma nav_props_other [simp]:
  "navHaul (props\<lparr>np_connected := c\<rparr>) = navHaul props" "navHaul (props\<lparr>np_vehicle := x\<rparr>) = navHaul props"
  "navFeatures (props\<lparr>np_connected := c\<rparr>) = navFeatures props" "navFeatures (props\<lparr>np_vehicle := x\<rparr>) = navFeatures props"
  by (simp_all add: navHaul_def navFeatures_def)

theorem navigation_fails_closed_witness:
  "nt_speed (navTexts (routeProps\<lparr>np_connected := False\<rparr>)) = em_dash \<and>
   navDrawing (routeProps\<lparr>np_connected := False\<rparr>) (nav_view (mountRouteMap routeProps)) =
   navDrawing (routeProps\<lparr>np_connected := False, np_vehicle := defaultVehicle\<lparr>vp_x_m := 7\<rparr>\<rparr>) (nav_view (mountRouteMap routeProps))"
proof -
  let ?a = "routeProps\<lparr>np_connected := False\<rparr>"
  let ?b = "routeProps\<lparr>np_connected := False, np_vehicle := defaultVehicle\<lparr>vp_x_m := 7\<rparr>\<rparr>"
  have "\<not> np_connected ?a" "\<not> np_connected ?b" "navFeatures ?a = navFeatures ?b" "(navHaul ?a = None) = (navHaul ?b = None)"
    by simp_all
  note * = navigation_fails_closed [OF this, of "nav_view (mountRouteMap routeProps)"]
  note texts = * [THEN conjunct2, THEN conjunct2, THEN conjunct2, THEN conjunct2, THEN conjunct2]
  have "nt_speed ((navTexts ?a)\<lparr>nt_symbol := [], nt_route := [], nt_source := []\<rparr>) = em_dash" by (simp only: texts NavTexts.select_convs)
  then have "nt_speed (navTexts ?a) = em_dash" by simp
  with * show ?thesis by (elim conjE) (intro conjI)
qed

lemma routeProps_features: "navFeatures routeProps = [pitFeature]" "finite_features [pitFeature]"
  by (simp_all add: routeProps_def navFeatures_def finite_features_def pitFeature_def)

theorem full_route_visible_witness:
  "\<exists>left width. fst (nd_viewBox (navDrawing routeProps (nav_view (fullRoute (mountRouteMap routeProps))))) = Fin left \<and>
     fst (snd (snd (nd_viewBox (navDrawing routeProps (nav_view (fullRoute (mountRouteMap routeProps))))))) = Fin width \<and>
     left \<le> 100 \<and> 100 \<le> left + width"
  using full_route_visible [of routeProps pitFeature "\<lparr>pt_x_m = 100, pt_y_m = 40\<rparr>" "mountRouteMap routeProps"] routeProps_features
  by (auto simp: pitFeature_def planProjection_def)

lemma routeProps_bounds:
  "navBounds [pitFeature] (Fin (5/2)) = \<lparr>nb_x = 50, nb_y = - 15, nb_width = 150\<rparr>"
  by (simp add: navBounds_def pitFeature_def js_min_list_def js_max_list_def)

definition viewedRoute :: "NavigationMap" where
  "viewedRoute = navigation_run routeProps [NavZoomedIn, FollowToggled, FullRouteChosen, NavRendered routeProps]"

theorem nav_drag_follows_witness:
  "navPlace routeProps (nav_view (fold navigation_step
     (NavPointerDown 1 0 (Fin 300, Fin 200) # navDragEvents 1 1000 [((310, 200), None), ((330, 240), Some routeProps)])
     viewedRoute)) (Fin 1000) \<lparr>pt_x_m = 20, pt_y_m = 15\<rparr> = (Fin 330, Fin 240)"
proof -
  let ?a = "(300, 200) :: real \<times> real"
  let ?steps = "[((310, 200), None), ((330, 240), Some routeProps)] :: ((real \<times> real) \<times> NavProps option) list"
  let ?m = "fold navigation_step (NavPointerDown 1 0 (Fin (fst ?a), Fin (snd ?a)) # navDragEvents 1 1000 ?steps) viewedRoute"
  have run: "viewedRoute = navigation_run routeProps ([NavZoomedIn, FollowToggled, FullRouteChosen] @ [NavRendered routeProps])"
    by (simp add: viewedRoute_def)
  have "nav_view viewedRoute = \<lparr>nv_zoom = 1, nv_follow = False, nv_pan = (0, 0), nv_mapWidth = 1000\<rparr>"
    by (simp add: viewedRoute_def navigation_run_def mountRouteMap_def navZoomIn_def toggleFollow_def fullRoute_def
      renderNavigation_def Let_def)
  then have "navPlace routeProps (nav_view viewedRoute) (Fin 1000) \<lparr>pt_x_m = 20, pt_y_m = 15\<rparr> = (Fin (fst ?a), Fin (snd ?a))"
    by (simp add: navPlace_def navWidth_def navHeight_def navCenter_def navBoundsOf_def navAspect_def routeProps_features
      routeProps_bounds planProjection_def Let_def)
  from nav_drag_follows [OF routeProps_features(2,1) _ run this, of ?steps ?m 1]
  have "navPlace (nav_props ?m) (nav_view ?m) (Fin 1000) \<lparr>pt_x_m = 20, pt_y_m = 15\<rparr> = (Fin 330, Fin 240)"
    by (simp add: routeProps_features)
  moreover have "nav_props ?m = routeProps"
    by (simp add: navDragEvents_def viewedRoute_def navigation_run_def mountRouteMap_def navPointerDown_def
      navPointerMove_def renderNavigation_def Let_def)
  ultimately show ?thesis by simp
qed

end
