(* ===== verification/FleetTwin.thy ===== *)
theory FleetTwin
  imports CampusMaps PlanMap VehicleCards
begin

text \<open>
  The supervisor's fleet map, \<^verbatim>\<open>frontend/src/twin/TwinMap.tsx\<close>: the choice between the mine map and the standard
  map, the site plan of the standard map with its projection, its road map over Leaflet (markers by vehicle, the
  camera) and the legend of \<^verbatim>\<open>twin/ReferenceMapLegend.tsx\<close>. Leaflet keeps the markers it is given; what the
  camera is told is logged.
\<close>

section \<open>The projection of the site plan\<close>

record PlanProjection =
  prj_minX :: jsnum
  prj_minY :: jsnum
  prj_offsetX :: jsnum
  prj_offsetY :: jsnum
  prj_scale :: jsnum

definition planPointsOf :: "MapFeature list \<Rightarrow> SupervisorVehicle list \<Rightarrow> Point2D list" where
  "planPointsOf features vehicles =
     concat (map mf_points features) @ map (\<lambda>v. \<lparr>pt_x_m = sv_xM v, pt_y_m = sv_yM v\<rparr>) vehicles"

definition createProjection :: "MapFeature list \<Rightarrow> SupervisorVehicle list \<Rightarrow> PlanProjection" where
  "createProjection features vehicles =
     (let points = planPointsOf features vehicles;
          safePoints = (if points \<noteq> [] then points else [\<lparr>pt_x_m = 0, pt_y_m = 0\<rparr>]);
          minX = js_min_list (map pt_x_m safePoints); maxX = js_max_list (map pt_x_m safePoints);
          minY = js_min_list (map pt_y_m safePoints); maxY = js_max_list (map pt_y_m safePoints);
          spanX = js_max (maxX - minX) 20; spanY = js_max (maxY - minY) 20;
          scale = js_min ((960 - 42 * 2) / spanX) ((520 - 42 * 2) / spanY)
      in \<lparr>prj_minX = minX, prj_minY = minY, prj_offsetX = (960 - spanX * scale) / 2,
          prj_offsetY = (520 - spanY * scale) / 2, prj_scale = scale\<rparr>)"

definition projectPoint :: "PlanProjection \<Rightarrow> Point2D \<Rightarrow> jsnum \<times> jsnum" where
  "projectPoint projection p =
     (prj_offsetX projection + (pt_x_m p - prj_minX projection) * prj_scale projection,
      520 - prj_offsetY projection - (pt_y_m p - prj_minY projection) * prj_scale projection)"

section \<open>Names, colours and markup\<close>

fun feature_type_text :: "MapFeatureType \<Rightarrow> string" where
  "feature_type_text TERRAIN = ''TERRAIN''"
| "feature_type_text ROAD = ''ROAD''"
| "feature_type_text CENTERLINE = ''CENTERLINE''"
| "feature_type_text BERM = ''BERM''"
| "feature_type_text HAZARD_ZONE = ''HAZARD_ZONE''"
| "feature_type_text ROUTE = ''ROUTE''"
| "feature_type_text INTERSECTION = ''INTERSECTION''"
| "feature_type_text STATIC_OBSTACLE = ''STATIC_OBSTACLE''"
| "feature_type_text SPEED_ZONE = ''SPEED_ZONE''"
| "feature_type_text START = ''START''"
| "feature_type_text DESTINATION = ''DESTINATION''"

definition featureClassName :: "MapFeature \<Rightarrow> string" where
  "featureClassName feature = ''map-feature map-'' @
     map (\<lambda>c. if c = CHR ''_'' then CHR ''-'' else c) (toLowerCase (feature_type_text (mf_feature_type feature)))"

definition twin_entities :: "(char \<times> string) list" where
  "twin_entities = [(CHR ''&'', ''&amp;''), (CHR ''<'', ''&lt;''), (CHR ''>'', ''&gt;''), (CHR 0x27, ''&#39;''), (CHR 0x22, ''&quot;'')]"

definition escapeMarkup :: "string \<Rightarrow> string" where
  "escapeMarkup = escape_with twin_entities"

definition vehicleColor :: "SupervisorVehicle \<Rightarrow> string" where
  "vehicleColor vehicle = (if sv_isPrimary vehicle then ''var(--fleet-primary)'' else ''var(--fleet-peer)'')"

definition statusColor :: "SupervisorVehicle \<Rightarrow> string" where
  "statusColor vehicle =
     (if sv_tone vehicle = critical \<or> sv_tone vehicle = lost then ''var(--danger)''
      else if sv_tone vehicle = attention \<or> sv_tone vehicle = unknown then ''var(--warning)''
      else ''var(--safe)'')"

definition statusText :: "SupervisorVehicle \<Rightarrow> string" where
  "statusText vehicle = (if sv_isPrimary vehicle then ''PRIMARY'' else toUpperCase (tone_value (sv_tone vehicle)))"

section \<open>The site plan\<close>

datatype SchematicShape =
  SchematicPolygon string "(jsnum \<times> jsnum) list" string
| SchematicLine string "(jsnum \<times> jsnum) list" string
| SchematicPoint string "jsnum \<times> jsnum" string string

definition schematicShape :: "PlanProjection \<Rightarrow> MapFeature \<Rightarrow> SchematicShape option" where
  "schematicShape projection feature =
     (let projected = map (projectPoint projection) (mf_points feature)
      in case mf_geometry_type feature of
        POLYGON \<Rightarrow> Some (SchematicPolygon (mf_feature_id feature) projected (featureClassName feature))
      | POLYLINE \<Rightarrow> Some (SchematicLine (mf_feature_id feature) projected (featureClassName feature))
      | POINT \<Rightarrow> (case projected of [] \<Rightarrow> None
          | location # _ \<Rightarrow> Some (SchematicPoint (mf_feature_id feature) location (featureClassName feature) (mf_label feature))))"

record SchematicVehicle =
  scv_id :: string
  scv_at :: "jsnum \<times> jsnum"
  scv_size :: jsnum
  scv_rotation :: jsnum
  scv_color :: string
  scv_outline :: string
  scv_selected :: bool
  scv_status :: string
  scv_label :: string

definition schematicVehicle :: "PlanProjection \<Rightarrow> string option \<Rightarrow> SupervisorVehicle \<Rightarrow> SchematicVehicle" where
  "schematicVehicle projection selected vehicle =
     \<lparr>scv_id = sv_vehicleId vehicle, scv_at = projectPoint projection \<lparr>pt_x_m = sv_xM vehicle, pt_y_m = sv_yM vehicle\<rparr>,
      scv_size = js_max 12 (js_min 20 (prj_scale projection * Fin 1.15)), scv_rotation = sv_headingDeg vehicle,
      scv_color = vehicleColor vehicle, scv_outline = statusColor vehicle,
      scv_selected = (selected = Some (sv_vehicleId vehicle)), scv_status = statusText vehicle,
      scv_label = sv_vehicleId vehicle @ '', '' @ underscores_to_spaces (tone_value (sv_tone vehicle)) @ ''. View details''\<rparr>"

definition legendEntries :: "MapFeature list \<Rightarrow> string list" where
  "legendEntries features =
     (let has = (\<lambda>t. list_ex (\<lambda>f. mf_feature_type f = t) features)
      in [''Primary vehicle'', ''Peer vehicle'', ''Selected vehicle''] @
         (if has ROAD then [''Road''] else []) @ (if has ROUTE then [''Assigned route''] else []) @
         (if has HAZARD_ZONE then [''Hazard zone''] else []) @ (if has BERM then [''Berm / boundary''] else []))"

record SitePlan =
  plan_shapes :: "SchematicShape list"
  plan_vehicles :: "SchematicVehicle list"
  plan_empty :: "string option"
  plan_legend :: "string list"

definition sitePlan :: "MapFeature list \<Rightarrow> SupervisorVehicle list \<Rightarrow> string option \<Rightarrow> SitePlan" where
  "sitePlan features vehicles selected =
     (let projection = createProjection features vehicles
      in \<lparr>plan_shapes = List.map_filter (schematicShape projection) features,
          plan_vehicles = map (schematicVehicle projection selected) vehicles,
          plan_empty = (if vehicles = [] then Some ''No vehicle telemetry'' else None),
          plan_legend = legendEntries features\<rparr>)"

section \<open>The road map\<close>

record FleetMarker =
  fmk_position :: LatLng
  fmk_primaryClass :: bool
  fmk_heading :: jsnum
  fmk_color :: string
  fmk_outline :: string
  fmk_selected :: bool
  fmk_label :: string
  fmk_status :: string
  fmk_selects :: string

definition safeHeading :: "SupervisorVehicle \<Rightarrow> jsnum" where
  "safeHeading vehicle = (if isFinite (sv_headingDeg vehicle) then sv_headingDeg vehicle else 0)"

definition vehicleCoordinates :: "SupervisorVehicle \<Rightarrow> LatLng" where
  "vehicleCoordinates vehicle = siteCoordinates (sv_xM vehicle) (sv_yM vehicle)"

definition createFleetMarker :: "string option \<Rightarrow> SupervisorVehicle \<Rightarrow> FleetMarker" where
  "createFleetMarker selected vehicle =
     \<lparr>fmk_position = vehicleCoordinates vehicle, fmk_primaryClass = sv_isPrimary vehicle, fmk_heading = safeHeading vehicle,
      fmk_color = vehicleColor vehicle, fmk_outline = statusColor vehicle,
      fmk_selected = (selected = Some (sv_vehicleId vehicle)), fmk_label = escapeMarkup (sv_vehicleId vehicle),
      fmk_status = escapeMarkup (statusText vehicle), fmk_selects = sv_vehicleId vehicle\<rparr>"

definition refreshFleetMarker :: "string option \<Rightarrow> SupervisorVehicle \<Rightarrow> FleetMarker \<Rightarrow> FleetMarker" where
  "refreshFleetMarker selected vehicle m =
     m\<lparr>fmk_position := vehicleCoordinates vehicle, fmk_heading := safeHeading vehicle, fmk_color := vehicleColor vehicle,
       fmk_outline := statusColor vehicle, fmk_selected := (selected = Some (sv_vehicleId vehicle)),
       fmk_status := statusText vehicle\<rparr>"

datatype CameraCommand =
  PanTo LatLng
| FitBounds "LatLng list"

datatype RoadShape =
  RoadPolygon "LatLng list" string jsnum
| RoadPolyline "LatLng list" string jsnum nat bool

definition roadShape :: "MapFeature \<Rightarrow> RoadShape option" where
  "roadShape feature =
     (let geoPoints = map (\<lambda>p. siteCoordinates (pt_x_m p) (pt_y_m p)) (mf_points feature); kind = mf_feature_type feature
      in if geoPoints = [] then None
         else case mf_geometry_type feature of
           POLYGON \<Rightarrow> Some (RoadPolygon geoPoints (if kind = HAZARD_ZONE then ''#d03b3b'' else ''#6b7f8f'')
             (if kind = HAZARD_ZONE then Fin 0.18 else Fin 0.08))
         | POLYLINE \<Rightarrow> Some (RoadPolyline geoPoints (if kind = ROUTE then ''#3987e5'' else ''#7f93a3'')
             (if kind = ROUTE then Fin 0.95 else Fin 0.55) (if kind = ROUTE then 4 else 2) (kind = CENTERLINE))
         | POINT \<Rightarrow> None)"

record RoadMap =
  rd_shapes :: "RoadShape list"
  rd_markers :: "FleetMarker layer"
  rd_lastPanned :: "string option"
  rd_fitted :: bool
  rd_commands :: "CameraCommand list"

definition mountRoadMap :: "MapFeature list \<Rightarrow> RoadMap" where
  "mountRoadMap features = \<lparr>rd_shapes = List.map_filter roadShape features, rd_markers = [], rd_lastPanned = None,
     rd_fitted = False, rd_commands = []\<rparr>"

definition selectedOf :: "SupervisorVehicle list \<Rightarrow> string option \<Rightarrow> SupervisorVehicle option" where
  "selectedOf vehicles selected = find (\<lambda>vehicle. Some (sv_vehicleId vehicle) = selected) vehicles"

text \<open>The effect over the vehicles and the selection: the markers, then the camera.\<close>

definition updateCamera :: "SupervisorVehicle list \<Rightarrow> string option \<Rightarrow> RoadMap \<Rightarrow> RoadMap" where
  "updateCamera vehicles selected r =
     (case selectedOf vehicles selected of
        Some vehicle \<Rightarrow>
          if rd_lastPanned r \<noteq> Some (sv_vehicleId vehicle)
          then r\<lparr>rd_commands := rd_commands r @ [PanTo (vehicleCoordinates vehicle)], rd_lastPanned := Some (sv_vehicleId vehicle)\<rparr>
          else r
      | None \<Rightarrow>
          if \<not> rd_fitted r \<and> vehicles \<noteq> []
          then r\<lparr>rd_lastPanned := None, rd_commands := rd_commands r @ [FitBounds (map vehicleCoordinates vehicles)], rd_fitted := True\<rparr>
          else r\<lparr>rd_lastPanned := None\<rparr>)"

definition updateRoadMap :: "SupervisorVehicle list \<Rightarrow> string option \<Rightarrow> RoadMap \<Rightarrow> RoadMap" where
  "updateRoadMap vehicles selected r =
     updateCamera vehicles selected
       (r\<lparr>rd_markers := reconcile sv_vehicleId (createFleetMarker selected) (refreshFleetMarker selected) vehicles (rd_markers r)\<rparr>)"

section \<open>The map as a machine\<close>

record TwinProps =
  twp_mode :: DataMode
  twp_haul :: "HaulRouteState option"
  twp_vehicles :: "SupervisorVehicle list"
  twp_features :: "MapFeature list"
  twp_selected :: "string option"

text \<open>The standard map: whether its road map is chosen, and the Leaflet map while it is mounted.\<close>

record TwinMap =
  twin_road :: bool
  twin_props :: TwinProps
  twin_leaflet :: "RoadMap option"

definition commitTwin :: "TwinMap \<Rightarrow> TwinMap" where
  "commitTwin t =
     (if twin_road t
      then t\<lparr>twin_leaflet := Some (updateRoadMap (twp_vehicles (twin_props t)) (twp_selected (twin_props t))
        (case twin_leaflet t of Some r \<Rightarrow> r | None \<Rightarrow> mountRoadMap (twp_features (twin_props t))))\<rparr>
      else t\<lparr>twin_leaflet := None\<rparr>)"

definition mountTwin :: "TwinProps \<Rightarrow> TwinMap" where
  "mountTwin props = commitTwin \<lparr>twin_road = False, twin_props = props, twin_leaflet = None\<rparr>"

datatype TwinEvent =
  TwinRendered TwinProps
| SitePlanChosen
| RoadMapChosen

fun twin_step :: "TwinEvent \<Rightarrow> TwinMap \<Rightarrow> TwinMap" where
  "twin_step (TwinRendered props) t = commitTwin (t\<lparr>twin_props := props\<rparr>)"
| "twin_step SitePlanChosen t = commitTwin (t\<lparr>twin_road := False\<rparr>)"
| "twin_step RoadMapChosen t = commitTwin (t\<lparr>twin_road := True\<rparr>)"

definition twin_run :: "TwinProps \<Rightarrow> TwinEvent list \<Rightarrow> TwinMap" where
  "twin_run props es = fold twin_step es (mountTwin props)"

text \<open>Which map a world is shown on, and the line above the standard one.\<close>

definition minesShown :: "TwinProps \<Rightarrow> bool" where
  "minesShown props \<longleftrightarrow> twp_mode props = SIMULATED \<and> twp_haul props \<noteq> None"

definition contextLine :: "TwinProps \<Rightarrow> string" where
  "contextLine props =
     (case selectedOf (twp_vehicles props) (twp_selected props) of
        Some vehicle \<Rightarrow> ''Focused on '' @ sv_vehicleId vehicle
      | None \<Rightarrow> nat_str (length (twp_vehicles props)) @ '' positioned '' @
          (if length (twp_vehicles props) = 1 then ''vehicle'' else ''vehicles''))"

section \<open>The plan is inside its frame\<close>

lemma twin_entities_table: "reference_table twin_entities"
  by (simp add: reference_table_def twin_entities_def)

text \<open>A point from the lower end of a span, scaled into a length in whose middle the span is placed.\<close>

lemma centred_inside:
  fixes u lo hi span s len total :: real
  assumes "lo \<le> u" and "u \<le> hi" and "hi - lo \<le> span" and "0 \<le> s" and "span * s \<le> len"
  shows "(total - len) / 2 \<le> (total - span * s) / 2 + (u - lo) * s" and "(total - span * s) / 2 + (u - lo) * s \<le> (total + len) / 2"
proof -
  define t v where "t = span * s" and "v = (u - lo) * s"
  have "0 \<le> v" "v \<le> t" using assms(1-4) by (auto simp: t_def v_def intro!: mult_right_mono)
  moreover have "t \<le> len" using assms(5) by (simp add: t_def)
  ultimately have "(total - len) / 2 \<le> (total - t) / 2 + v" "(total - t) / 2 + v \<le> (total + len) / 2" by (simp_all add: field_simps)
  then show "(total - len) / 2 \<le> (total - span * s) / 2 + (u - lo) * s" and "(total - span * s) / 2 + (u - lo) * s \<le> (total + len) / 2"
    by (simp_all only: t_def v_def)
qed

text \<open>
  The site plan shows everything inside its frame: whatever the features and the vehicles are, as long as
  their coordinates are numbers, each of their points is drawn at least 42 units from every side of the plan,
  and the plan has one scale for both axes.
\<close>

theorem site_plan_inside:
  assumes "list_all (\<lambda>p. isFinite (pt_x_m p) \<and> isFinite (pt_y_m p)) (planPointsOf features vehicles)"
    and "p \<in> set (planPointsOf features vehicles)" and "q \<in> set (planPointsOf features vehicles)"
  shows "\<exists>x y s. projectPoint (createProjection features vehicles) p = (Fin x, Fin y) \<and>
    42 \<le> x \<and> x \<le> 918 \<and> 42 \<le> y \<and> y \<le> 478 \<and> 0 < s \<and>
    (pt_x_m q - pt_x_m p) * Fin s = fst (projectPoint (createProjection features vehicles) q) - Fin x \<and>
    (pt_y_m q - pt_y_m p) * Fin s = Fin y - snd (projectPoint (createProjection features vehicles) q)"
proof -
  let ?ps = "planPointsOf features vehicles"
  obtain f where f: "map pt_x_m ?ps = map Fin (map f ?ps)" "\<forall>p \<in> set ?ps. pt_x_m p = Fin (f p)"
    using assms finite_numbers_as_map [of ?ps pt_x_m] by (auto simp: list_all_iff comp_def)
  obtain g where g: "map pt_y_m ?ps = map Fin (map g ?ps)" "\<forall>p \<in> set ?ps. pt_y_m p = Fin (g p)"
    using assms finite_numbers_as_map [of ?ps pt_y_m] by (auto simp: list_all_iff comp_def)
  have ne: "?ps \<noteq> []" "map f ?ps \<noteq> []" "map g ?ps \<noteq> []" using assms(2) by auto
  define lx hx ly hy where ends: "lx = Min (f ` set ?ps)" "hx = Max (f ` set ?ps)" "ly = Min (g ` set ?ps)" "hy = Max (g ` set ?ps)"
  define sx sy where spans: "sx = max (hx - lx) 20" "sy = max (hy - ly) 20"
  define s where "s = min (876 / sx) (436 / sy)"
  have pos: "20 \<le> sx" "20 \<le> sy" by (simp_all add: spans)
  then have s: "0 < s" by (simp add: s_def)
  have "sx * s \<le> sx * (876 / sx)" "sy * s \<le> sy * (436 / sy)"
    using pos by (intro mult_left_mono; simp add: s_def)+
  then have fits: "sx * s \<le> 876" "sy * s \<le> 436" using pos by simp_all
  have projection: "createProjection features vehicles =
      \<lparr>prj_minX = Fin lx, prj_minY = Fin ly, prj_offsetX = Fin ((960 - sx * s) / 2), prj_offsetY = Fin ((520 - sy * s) / 2),
       prj_scale = Fin s\<rparr>"
  proof -
    have "js_min_list (map pt_x_m ?ps) = Fin lx" "js_max_list (map pt_x_m ?ps) = Fin hx"
      "js_min_list (map pt_y_m ?ps) = Fin ly" "js_max_list (map pt_y_m ?ps) = Fin hy"
      using ne by (simp_all add: f(1) g(1) js_min_list_Fin js_max_list_Fin ends del: map_map)
    then show ?thesis
      using ne(1) pos by (simp add: createProjection_def Let_def spans [symmetric] s_def)
  qed
  have at: "projectPoint (createProjection features vehicles) r =
      (Fin ((960 - sx * s) / 2 + (f r - lx) * s), Fin (520 - (520 - sy * s) / 2 - (g r - ly) * s))" if "r \<in> set ?ps" for r
    using f(2) g(2) that by (simp add: projectPoint_def projection)
  have within: "lx \<le> f p" "f p \<le> hx" "hx - lx \<le> sx" "ly \<le> g p" "g p \<le> hy" "hy - ly \<le> sy"
    using assms(2) by (simp_all add: ends spans)
  have "42 \<le> (960 - sx * s) / 2 + (f p - lx) * s" "(960 - sx * s) / 2 + (f p - lx) * s \<le> 918"
    using centred_inside [OF within(1-3) less_imp_le [OF s] fits(1), of 960] by simp_all
  moreover have "42 \<le> 520 - (520 - sy * s) / 2 - (g p - ly) * s" "520 - (520 - sy * s) / 2 - (g p - ly) * s \<le> 478"
  proof -
    define v where "v = (520 - sy * s) / 2 + (g p - ly) * s"
    have "42 \<le> v" "v \<le> 478"
      using centred_inside [OF within(4-6) less_imp_le [OF s] fits(2), of 520] by (simp_all add: v_def)
    moreover have "520 - (520 - sy * s) / 2 - (g p - ly) * s = 520 - v" by (simp add: v_def)
    ultimately show "42 \<le> 520 - (520 - sy * s) / 2 - (g p - ly) * s" "520 - (520 - sy * s) / 2 - (g p - ly) * s \<le> 478"
      by simp_all
  qed
  moreover have "(pt_x_m q - pt_x_m p) * Fin s = fst (projectPoint (createProjection features vehicles) q) -
      Fin ((960 - sx * s) / 2 + (f p - lx) * s)"
    "(pt_y_m q - pt_y_m p) * Fin s = Fin (520 - (520 - sy * s) / 2 - (g p - ly) * s) -
      snd (projectPoint (createProjection features vehicles) q)"
    using f(2) g(2) assms(2,3) at [OF assms(3)] by (simp_all add: algebra_simps)
  ultimately show ?thesis using s at [OF assms(2)] by blast
qed

theorem site_plan_inside_witness:
  "\<exists>x y. projectPoint (createProjection [pitFeature, crusherFeature] []) \<lparr>pt_x_m = 100, pt_y_m = 40\<rparr> = (Fin x, Fin y) \<and> x \<le> 918 \<and> 42 \<le> y"
proof -
  have "list_all (\<lambda>p. isFinite (pt_x_m p) \<and> isFinite (pt_y_m p)) (planPointsOf [pitFeature, crusherFeature] [])"
    "\<lparr>pt_x_m = 100, pt_y_m = 40\<rparr> \<in> set (planPointsOf [pitFeature, crusherFeature] [])"
    by (simp_all add: planPointsOf_def pitFeature_def crusherFeature_def)
  from site_plan_inside [OF this this(2)] show ?thesis by blast
qed

section \<open>The markers show the fleet\<close>

lemma escape_plain:
  assumes "\<forall>c \<in> set s. map_of table c = None"
  shows "escape_with table s = s"
  using assms by (induction s) (simp_all add: escape_with_def)

lemma statusText_plain: "escapeMarkup (statusText v) = statusText v"
  by (cases "sv_tone v") (simp_all add: escapeMarkup_def statusText_def toUpperCase_def upper_char_def escape_with_def
    twin_entities_def Let_def char_of_def)

definition marks :: "string option \<Rightarrow> SupervisorVehicle \<Rightarrow> FleetMarker \<Rightarrow> bool" where
  "marks selected vehicle m \<longleftrightarrow> fmk_position m = vehicleCoordinates vehicle \<and> fmk_heading m = safeHeading vehicle \<and>
     fmk_color m = vehicleColor vehicle \<and> fmk_outline m = statusColor vehicle \<and>
     fmk_selected m = (selected = Some (sv_vehicleId vehicle)) \<and> fmk_status m = statusText vehicle \<and>
     fmk_label m = escapeMarkup (sv_vehicleId vehicle) \<and> fmk_selects m = sv_vehicleId vehicle"

text \<open>An item of the layer is a vehicle with the selection it is drawn under.\<close>

interpretation fleet_layer: keyed_layer "\<lambda>x. sv_vehicleId (snd x)" "\<lambda>x. createFleetMarker (fst x) (snd x)"
  "\<lambda>x. refreshFleetMarker (fst x) (snd x)" "\<lambda>_. True" "\<lambda>x. marks (fst x) (snd x)"
  by unfold_locales (simp_all add: marks_def createFleetMarker_def refreshFleetMarker_def statusText_plain)

lemma updateCamera_markers [simp]: "rd_markers (updateCamera vehicles selected r) = rd_markers r"
  by (simp add: updateCamera_def split: option.splits)

lemma updateRoadMap_shows:
  assumes "fleet_layer.layer_ok (rd_markers r)"
  shows "fleet_layer.layer_ok (rd_markers (updateRoadMap vehicles selected r)) \<and>
    rel_option (marks selected) (current_items sv_vehicleId vehicles k) (map_of (rd_markers (updateRoadMap vehicles selected r)) k)"
proof -
  have admitted: "list_all (\<lambda>_. True) (map (Pair selected) vehicles)" by (simp add: list_all_iff)
  note current = fleet_layer.reconcile_shows [OF assms admitted, of k]
  have "rd_markers (updateRoadMap vehicles selected r) = reconcile (\<lambda>x. sv_vehicleId (snd x)) (\<lambda>x. createFleetMarker (fst x) (snd x))
      (\<lambda>x. refreshFleetMarker (fst x) (snd x)) (map (Pair selected) vehicles) (rd_markers r)"
    by (simp add: updateRoadMap_def reconcile_map)
  with current show ?thesis
    by (auto simp: current_items_map option.rel_map)
qed

definition fits :: "RoadMap \<Rightarrow> nat" where
  "fits r = length (filter (\<lambda>c. case c of FitBounds _ \<Rightarrow> True | PanTo _ \<Rightarrow> False) (rd_commands r))"

lemma updateRoadMap_fits:
  assumes "fits r = (if rd_fitted r then 1 else 0)"
  shows "fits (updateRoadMap vehicles selected r) = (if rd_fitted (updateRoadMap vehicles selected r) then 1 else 0)"
  using assms by (auto simp: fits_def updateRoadMap_def updateCamera_def split: option.splits)

text \<open>While the same vehicle stays selected the camera is left alone, so the map can be moved by hand.\<close>

lemma camera_silent:
  assumes "selectedOf vehicles selected = Some v" and "selectedOf vehicles' selected = Some v'"
  shows "rd_commands (updateRoadMap vehicles' selected (updateRoadMap vehicles selected r)) =
    rd_commands (updateRoadMap vehicles selected r)"
proof -
  have "sv_vehicleId v = sv_vehicleId v'"
    using assms by (auto simp: selectedOf_def find_Some_iff)
  then show ?thesis
    using assms by (simp add: updateRoadMap_def updateCamera_def)
qed

definition twin_inv :: "TwinMap \<Rightarrow> bool" where
  "twin_inv t \<longleftrightarrow> (case twin_leaflet t of
     None \<Rightarrow> \<not> twin_road t
   | Some r \<Rightarrow> twin_road t \<and> fleet_layer.layer_ok (rd_markers r) \<and> fits r = (if rd_fitted r then 1 else 0) \<and>
       (\<forall>k. rel_option (marks (twp_selected (twin_props t))) (current_items sv_vehicleId (twp_vehicles (twin_props t)) k)
         (map_of (rd_markers r) k)))"

text \<open>A commit brings a map whose layer was sound, or a new one, up to date.\<close>

lemma commit_inv:
  assumes "case twin_leaflet t of None \<Rightarrow> True
    | Some r \<Rightarrow> fleet_layer.layer_ok (rd_markers r) \<and> fits r = (if rd_fitted r then 1 else 0)"
  shows "twin_inv (commitTwin t)"
proof -
  define r where "r = (case twin_leaflet t of Some r \<Rightarrow> r | None \<Rightarrow> mountRoadMap (twp_features (twin_props t)))"
  have "fleet_layer.layer_ok (rd_markers r)" "fits r = (if rd_fitted r then 1 else 0)"
    using assms by (auto simp: r_def mountRoadMap_def fits_def fleet_layer.empty_ok split: option.splits)
  then show ?thesis
    using updateRoadMap_shows [of r] updateRoadMap_fits [of r]
    by (simp add: twin_inv_def commitTwin_def r_def [symmetric])
qed

interpretation twin_machine: machine "mountTwin props" twin_step "\<lambda>_. True" twin_inv for props
proof unfold_locales
  show "twin_inv (mountTwin props)" unfolding mountTwin_def by (rule commit_inv) simp
  fix t :: TwinMap and e
  assume "twin_inv t"
  then have "case twin_leaflet t of None \<Rightarrow> True
    | Some r \<Rightarrow> fleet_layer.layer_ok (rd_markers r) \<and> fits r = (if rd_fitted r then 1 else 0)"
    by (simp add: twin_inv_def split: option.splits)
  then show "twin_inv (twin_step e t)" by (cases e) (simp_all add: commit_inv)
qed

text \<open>
  C24. The road map shows the fleet: whatever renders, changes of view and selections came before, when the
  road map is chosen it has a marker for exactly the vehicles of the last render, and each marker has the
  position, heading, colours, selection, status and label of its vehicle; and since it was mounted the view was
  fitted to the fleet at most once.
\<close>

theorem fleet_markers_current:
  "let t = twin_run props es in
   case twin_leaflet t of
     None \<Rightarrow> \<not> twin_road t
   | Some r \<Rightarrow> twin_road t \<and> fits r \<le> 1 \<and> distinct (map fst (rd_markers r)) \<and>
       (\<forall>k. rel_option (marks (twp_selected (twin_props t))) (current_items sv_vehicleId (twp_vehicles (twin_props t)) k)
         (map_of (rd_markers r) k))"
proof -
  have "twin_inv (twin_run props es)"
    unfolding twin_run_def by (rule twin_machine.run_inv) (simp add: list_all_iff)
  then show ?thesis
    by (simp add: Let_def twin_inv_def fleet_layer.layer_ok_def split: option.splits)
qed

text \<open>The class of a marker is that of the vehicle when the marker was made.\<close>

lemma marker_class_stale: "fmk_primaryClass (refreshFleetMarker selected vehicle m) = fmk_primaryClass m"
  by (simp add: refreshFleetMarker_def)

text \<open>The shapes of the road map are those of the features it was mounted with.\<close>

lemma road_shapes_stale:
  assumes "twin_leaflet t = Some r" and "twin_road t" and "twin_leaflet (twin_step (TwinRendered props) t) = Some r'"
  shows "rd_shapes r' = rd_shapes r"
  using assms by (auto simp: commitTwin_def updateRoadMap_def updateCamera_def split: option.splits)

text \<open>A label of the road map reads as the identifier of its vehicle.\<close>

lemma fleet_label_is_text: "html_text twin_entities (escapeMarkup s) = s"
  unfolding escapeMarkup_def by (rule html_text_escape [OF twin_entities_table])

end
