(* ===== verification/FrameLoop.thy ===== *)
theory FrameLoop
  imports Prelude
begin

text \<open>
  Pictures drawn on animation frames: the camera canvas and the renderers ask for a frame when something has
  changed, and do not draw while they are out of sight, the page is hidden or the graphics context is lost.
  The contract \<open>frame_loop\<close> says that nothing is drawn while a picture is asleep, and that while it is awake
  either a frame is on its way or the scene is the one that was drawn.
\<close>

section \<open>The flags of a renderer\<close>

record FrameFlags =
  fl_disposed :: bool
  fl_lost :: bool
  fl_visible :: bool
  fl_hidden :: bool
  fl_pending :: bool

definition canRender :: "'a FrameFlags_scheme \<Rightarrow> bool" where
  "canRender f \<longleftrightarrow> \<not> fl_disposed f \<and> \<not> fl_lost f \<and> \<not> fl_hidden f \<and> fl_visible f"

text \<open>\<^verbatim>\<open>requestRender\<close> and the cancelling of a frame, as every renderer has them.\<close>

definition requestRender :: "'a FrameFlags_scheme \<Rightarrow> 'a FrameFlags_scheme" where
  "requestRender f = (if canRender f \<and> \<not> fl_pending f then f\<lparr>fl_pending := True\<rparr> else f)"

definition cancelFrame :: "'a FrameFlags_scheme \<Rightarrow> 'a FrameFlags_scheme" where
  "cancelFrame f = f\<lparr>fl_pending := False\<rparr>"

text \<open>The handlers of the two point cloud renderers; after \<^verbatim>\<open>dispose\<close> no listener is left.\<close>

definition intersected :: "bool option \<Rightarrow> 'a FrameFlags_scheme \<Rightarrow> 'a FrameFlags_scheme" where
  "intersected isIntersecting f =
     (if fl_disposed f then f
      else
        let f' = f\<lparr>fl_visible := (case isIntersecting of Some b \<Rightarrow> b | None \<Rightarrow> True)\<rparr>
        in if fl_visible f' then requestRender f' else cancelFrame f')"

definition pageVisibility :: "bool \<Rightarrow> 'a FrameFlags_scheme \<Rightarrow> 'a FrameFlags_scheme" where
  "pageVisibility hidden f =
     (let f' = f\<lparr>fl_hidden := hidden\<rparr>
      in if fl_disposed f then f' else if hidden \<and> fl_pending f then cancelFrame f' else requestRender f')"

definition contextLost :: "'a FrameFlags_scheme \<Rightarrow> 'a FrameFlags_scheme" where
  "contextLost f = (if fl_disposed f then f else cancelFrame (f\<lparr>fl_lost := True\<rparr>))"

definition contextRestored :: "'a FrameFlags_scheme \<Rightarrow> 'a FrameFlags_scheme" where
  "contextRestored f = (if fl_disposed f then f else requestRender (f\<lparr>fl_lost := False\<rparr>))"

definition flags_ok :: "'a FrameFlags_scheme \<Rightarrow> bool" where
  "flags_ok f \<longleftrightarrow> (fl_pending f \<longrightarrow> canRender f)"

lemma request_pending [simp]: "fl_pending (requestRender f) \<longleftrightarrow> fl_pending f \<or> canRender f"
  by (auto simp: requestRender_def)

lemma cancel_pending [simp]: "\<not> fl_pending (cancelFrame f)"
  by (simp add: cancelFrame_def)

lemma frame_flags [simp]:
  "fl_disposed (requestRender f) = fl_disposed f" "fl_lost (requestRender f) = fl_lost f"
  "fl_visible (requestRender f) = fl_visible f" "fl_hidden (requestRender f) = fl_hidden f"
  "FrameFlags.more (requestRender f) = FrameFlags.more f"
  "fl_disposed (cancelFrame f) = fl_disposed f" "fl_lost (cancelFrame f) = fl_lost f"
  "fl_visible (cancelFrame f) = fl_visible f" "fl_hidden (cancelFrame f) = fl_hidden f"
  "FrameFlags.more (cancelFrame f) = FrameFlags.more f"
  by (simp_all add: requestRender_def cancelFrame_def)

lemma canRender_request [simp]: "canRender (requestRender f) = canRender f" "canRender (cancelFrame f) = canRender f"
  by (simp_all add: canRender_def)

lemma flags_ok_request: "flags_ok f \<Longrightarrow> flags_ok (requestRender f)"
  by (simp add: flags_ok_def)

lemma flags_ok_cancel: "flags_ok (cancelFrame f)"
  by (simp add: flags_ok_def)

lemma handlers_more [simp]:
  "FrameFlags.more (intersected b f) = FrameFlags.more f" "FrameFlags.more (pageVisibility h f) = FrameFlags.more f"
  "FrameFlags.more (contextLost f) = FrameFlags.more f" "FrameFlags.more (contextRestored f) = FrameFlags.more f"
  by (simp_all add: intersected_def pageVisibility_def contextLost_def contextRestored_def Let_def)

lemma handlers_disposed [simp]:
  "fl_disposed (intersected b f) = fl_disposed f" "fl_disposed (pageVisibility h f) = fl_disposed f"
  "fl_disposed (contextLost f) = fl_disposed f" "fl_disposed (contextRestored f) = fl_disposed f"
  by (simp_all add: intersected_def pageVisibility_def contextLost_def contextRestored_def Let_def)

text \<open>Each handler leaves a frame on its way exactly when the picture is awake, or was so before and nothing has changed.\<close>

lemma handlers_ok:
  assumes "flags_ok f"
  shows "flags_ok (intersected b f)" "flags_ok (pageVisibility h f)" "flags_ok (contextLost f)" "flags_ok (contextRestored f)"
  using assms
  by (auto simp: flags_ok_def intersected_def pageVisibility_def contextLost_def contextRestored_def canRender_def Let_def)

lemma handlers_wake:
  assumes "flags_ok f"
  shows "canRender (intersected b f) \<Longrightarrow> fl_pending (intersected b f)"
    and "canRender (pageVisibility h f) \<Longrightarrow> fl_pending (pageVisibility h f)"
    and "\<not> canRender (contextLost f)"
    and "canRender (contextRestored f) \<Longrightarrow> fl_pending (contextRestored f)"
  using assms
  by (auto simp: flags_ok_def intersected_def pageVisibility_def contextLost_def contextRestored_def canRender_def Let_def
    split: if_splits)

section \<open>The contract\<close>

locale frame_loop = machine init step admissible inv
  for init :: 's and step :: "'e \<Rightarrow> 's \<Rightarrow> 's" and admissible :: "'e \<Rightarrow> bool" and inv :: "'s \<Rightarrow> bool" +
  fixes awake :: "'s \<Rightarrow> bool" and pending :: "'s \<Rightarrow> bool" and shown :: "'s \<Rightarrow> 'p option" and scene :: "'s \<Rightarrow> 'p"
  assumes caught_up: "inv s \<Longrightarrow> awake s \<Longrightarrow> \<not> pending s \<Longrightarrow> shown s = Some (scene s)"
    and asleep: "inv s \<Longrightarrow> admissible e \<Longrightarrow> \<not> awake s \<Longrightarrow> shown (step e s) \<in> {shown s, None}"
begin

text \<open>After every run: what is on the screen is the scene, unless a frame is on its way or the picture is asleep.\<close>

lemma run_caught_up:
  assumes "list_all admissible es" and "awake (fold step es init)" and "\<not> pending (fold step es init)"
  shows "shown (fold step es init) = Some (scene (fold step es init))"
  using caught_up [OF run_inv [OF assms(1)] assms(2,3)] .

text \<open>A run through which the picture is asleep draws nothing.\<close>

lemma asleep_run:
  assumes "inv s" and "list_all admissible es" and "\<forall>n < length es. \<not> awake (fold step (take n es) s)"
  shows "shown (fold step es s) \<in> {shown s, None}"
  using assms
proof (induction es arbitrary: s)
  case (Cons e es)
  have "\<not> awake s" using Cons.prems(3) by (auto dest: spec [of _ 0])
  moreover have "\<not> awake (fold step (take n es) (step e s))" if "n < length es" for n
    using Cons.prems(3) that by (auto dest: spec [of _ "Suc n"])
  ultimately show ?case
    using Cons.IH [of "step e s"] Cons.prems(1,2) asleep [of s e] inv_step [of s e] by auto
qed simp

end

end
