(* ===== verification/LidarRenderer.thy ===== *)
theory LidarRenderer
  imports FrameLoop KeyedLayer LidarFrame
begin

text \<open>
  The renderer of the driver's lidar view, \<^verbatim>\<open>frontend/src/driver/lidarRenderer.ts\<close>, as \<^verbatim>\<open>driver/LidarPointCloud.tsx\<close>
  uses it: the buffers of the two point clouds, the layers of paths and entities, and the scheduling of frames. What
  the graphics library keeps is the state; a picture is what the scene holds when it is drawn.
\<close>

section \<open>Buffers\<close>

text \<open>\<^verbatim>\<open>subarray(0, end)\<close>, the copy of a sequence to the front of a buffer, and the rounds of a loop below a bound.\<close>

definition subarray_to :: "jsnum \<Rightarrow> 'a list \<Rightarrow> 'a list" where
  "subarray_to end' xs =
     (case end' of
        Fin r \<Rightarrow> if r < 0 then take (nat (int (length xs) + \<lceil>r\<rceil>)) xs else take (nat \<lfloor>r\<rfloor>) xs
      | PosInf \<Rightarrow> xs
      | _ \<Rightarrow> [])"

definition overwrite :: "'a list \<Rightarrow> 'a list \<Rightarrow> 'a list" where
  "overwrite xs buffer = xs @ drop (length xs) buffer"

definition rounds_below :: "jsnum \<Rightarrow> nat" where
  "rounds_below bound = (case bound of Fin r \<Rightarrow> nat \<lceil>r\<rceil> | _ \<Rightarrow> 0)"

definition fillSolidColors :: "jsnum \<Rightarrow> jsnum \<times> jsnum \<times> jsnum \<Rightarrow> jsnum list \<Rightarrow> jsnum list" where
  "fillSolidColors points color target = overwrite (concat (replicate (rounds_below points) (flat color))) target"

section \<open>The scene\<close>

definition RENDERED_ROAD_POINTS :: nat where
  "RENDERED_ROAD_POINTS = 3000"

definition RENDERED_RETURNS :: nat where
  "RENDERED_RETURNS = 1000"

definition roadColor :: "jsnum \<times> jsnum \<times> jsnum" where
  "roadColor = (Fin 0.12, Fin 0.48, Fin 0.68)"

record PathLine =
  pl_loop :: bool
  pl_positions :: "jsnum list"

record EntityItem =
  ei_position :: ScenePoint
  ei_rotation :: jsnum
  ei_box :: ScenePoint
  ei_vehicleMesh :: bool

record LidarPicture =
  lpic_road :: "jsnum list"
  lpic_roadColors :: "jsnum list"
  lpic_returns :: "jsnum list"
  lpic_returnColors :: "jsnum list"
  lpic_paths :: "PathLine layer"
  lpic_entities :: "EntityItem layer"
  lpic_size :: "jsnum \<times> jsnum"

record LidarView = FrameFlags +
  lv_roadPositions :: "jsnum list"
  lv_roadColors :: "jsnum list"
  lv_roadRange :: jsnum
  lv_returnPositions :: "jsnum list"
  lv_returnColors :: "jsnum list"
  lv_returnRange :: jsnum
  lv_paths :: "PathLine layer"
  lv_entities :: "EntityItem layer"
  lv_size :: "jsnum \<times> jsnum"
  lv_dataset :: "jsnum \<times> jsnum \<times> nat"
  lv_shown :: "LidarPicture option"

definition lidarPicture :: "LidarView \<Rightarrow> LidarPicture" where
  "lidarPicture v =
     \<lparr>lpic_road = subarray_to (lv_roadRange v * 3) (lv_roadPositions v),
      lpic_roadColors = subarray_to (lv_roadRange v * 3) (lv_roadColors v),
      lpic_returns = subarray_to (lv_returnRange v * 3) (lv_returnPositions v),
      lpic_returnColors = subarray_to (lv_returnRange v * 3) (lv_returnColors v),
      lpic_paths = lv_paths v, lpic_entities = lv_entities v, lpic_size = lv_size v\<rparr>"

text \<open>A line that is closed while its path is open, or the other way round, is made anew.\<close>

definition createPathLine :: "LidarPath \<Rightarrow> PathLine" where
  "createPathLine path = \<lparr>pl_loop = lp_closed path, pl_positions = lp_positions path\<rparr>"

definition refreshPathLine :: "LidarPath \<Rightarrow> PathLine \<Rightarrow> PathLine" where
  "refreshPathLine path line =
     (if pl_loop line \<noteq> lp_closed path then createPathLine path
      else if length (pl_positions line) \<noteq> length (lp_positions path) then line\<lparr>pl_positions := lp_positions path\<rparr>
      else line\<lparr>pl_positions := overwrite (lp_positions path) (pl_positions line)\<rparr>)"

definition reconcilePaths :: "LidarPath list \<Rightarrow> PathLine layer \<Rightarrow> PathLine layer" where
  "reconcilePaths = reconcile_pruned lp_id createPathLine refreshPathLine"

definition refreshEntity :: "LidarEntity \<Rightarrow> EntityItem \<Rightarrow> EntityItem" where
  "refreshEntity entity item =
     item\<lparr>ei_position := le_position entity, ei_rotation := - le_yawRad entity, ei_box := le_size entity\<rparr>"

definition createEntity :: "LidarEntity \<Rightarrow> EntityItem" where
  "createEntity entity = refreshEntity entity
     \<lparr>ei_position = (0, 0, 0), ei_rotation = 0, ei_box = le_size entity, ei_vehicleMesh = (le_kind entity = VEHICLE_ENTITY)\<rparr>"

definition reconcileEntities :: "LidarEntity list \<Rightarrow> EntityItem layer \<Rightarrow> EntityItem layer" where
  "reconcileEntities = reconcile_pruned le_id createEntity refreshEntity"

section \<open>The renderer as a machine\<close>

definition resizeLidar :: "jsnum \<Rightarrow> jsnum \<Rightarrow> LidarView \<Rightarrow> LidarView" where
  "resizeLidar clientWidth clientHeight v =
     (if fl_disposed v then v else requestRender (v\<lparr>lv_size := (js_max 1 clientWidth, js_max 1 clientHeight)\<rparr>))"

definition createLidarRenderer :: "bool \<Rightarrow> jsnum \<Rightarrow> jsnum \<Rightarrow> LidarView" where
  "createLidarRenderer hidden clientWidth clientHeight =
     resizeLidar clientWidth clientHeight
       \<lparr>fl_disposed = False, fl_lost = False, fl_visible = True, fl_hidden = hidden, fl_pending = False,
        lv_roadPositions = replicate (3 * RENDERED_ROAD_POINTS) 0, lv_roadColors = replicate (3 * RENDERED_ROAD_POINTS) 0,
        lv_roadRange = 0,
        lv_returnPositions = replicate (3 * RENDERED_RETURNS) 0, lv_returnColors = replicate (3 * RENDERED_RETURNS) 0,
        lv_returnRange = 0, lv_paths = [], lv_entities = [], lv_size = (1, 1), lv_dataset = (0, 0, 0), lv_shown = None\<rparr>"

definition updateLidar :: "LidarFrame \<Rightarrow> LidarView \<Rightarrow> LidarView" where
  "updateLidar frame v =
     (if fl_disposed v then v
      else
        let roadCount = js_min (lf_roadPointCount frame) (Fin (of_nat RENDERED_ROAD_POINTS));
            returnCount = js_min (lf_returnCount frame) (Fin (of_nat RENDERED_RETURNS))
        in requestRender
          (v\<lparr>lv_roadPositions := overwrite (subarray_to (roadCount * 3) (lf_roadPositions frame)) (lv_roadPositions v),
             lv_roadColors := fillSolidColors roadCount roadColor (lv_roadColors v), lv_roadRange := roadCount,
             lv_returnPositions := overwrite (subarray_to (returnCount * 3) (lf_returnPositions frame)) (lv_returnPositions v),
             lv_returnColors := overwrite (subarray_to (returnCount * 3) (lf_returnColors frame)) (lv_returnColors v),
             lv_returnRange := returnCount,
             lv_paths := reconcilePaths (lf_paths frame) (lv_paths v),
             lv_entities := reconcileEntities (lf_entities frame) (lv_entities v),
             lv_dataset := (roadCount, returnCount, length (lf_entities frame))\<rparr>))"

text \<open>The frame that was asked for fires.\<close>

definition renderLidar :: "LidarView \<Rightarrow> LidarView" where
  "renderLidar v =
     (if \<not> fl_pending v then v
      else
        let v' = v\<lparr>fl_pending := False\<rparr>
        in if \<not> canRender v' then v' else v'\<lparr>lv_shown := Some (lidarPicture v')\<rparr>)"

definition disposeLidar :: "LidarView \<Rightarrow> LidarView" where
  "disposeLidar v =
     (if fl_disposed v then v else v\<lparr>fl_disposed := True, fl_pending := False, lv_paths := [], lv_entities := []\<rparr>)"

datatype LidarEvent =
  LidarUpdated LidarFrame
| LidarFrameFired
| LidarResized jsnum jsnum
| LidarIntersected "bool option"
| LidarVisibility bool
| LidarContextLost
| LidarContextRestored
| LidarDisposed

fun lidar_step :: "LidarEvent \<Rightarrow> LidarView \<Rightarrow> LidarView" where
  "lidar_step (LidarUpdated frame) v = updateLidar frame v"
| "lidar_step LidarFrameFired v = renderLidar v"
| "lidar_step (LidarResized w h) v = resizeLidar w h v"
| "lidar_step (LidarIntersected b) v = intersected b v"
| "lidar_step (LidarVisibility h) v = pageVisibility h v"
| "lidar_step LidarContextLost v = contextLost v"
| "lidar_step LidarContextRestored v = contextRestored v"
| "lidar_step LidarDisposed v = disposeLidar v"

definition lidar_run :: "bool \<Rightarrow> jsnum \<Rightarrow> jsnum \<Rightarrow> LidarEvent list \<Rightarrow> LidarView" where
  "lidar_run hidden w h es = fold lidar_step es (createLidarRenderer hidden w h)"

text \<open>
  The component: its effects create the renderer and update it twice with the first frame, each new frame updates it
  once more, unmounting disposes of it; and its label.
\<close>

definition lidarCloudEvents :: "LidarFrame \<Rightarrow> LidarFrame list \<Rightarrow> LidarEvent list" where
  "lidarCloudEvents frame frames = LidarUpdated frame # LidarUpdated frame # map LidarUpdated frames"

definition lidarLabel :: "LidarFrame \<Rightarrow> string" where
  "lidarLabel frame = ''Vehicle-centered LiDAR view with '' @ num_str (lf_returnCount frame) @ '' mapped returns and '' @
     nat_str (length (lf_entities frame)) @ '' tracked objects''"

section \<open>Frames fit into the buffers\<close>

lemma overwrite_length [simp]: "length (overwrite xs buffer) = max (length xs) (length buffer)"
  by (simp add: overwrite_def)

lemma take_overwrite: "n = length xs \<Longrightarrow> take n (overwrite xs buffer) = xs"
  by (simp add: overwrite_def)

lemma subarray_nat: "subarray_to (Fin (real n)) xs = take n xs"
  by (simp add: subarray_to_def)

lemma rounds_below_nat [simp]: "rounds_below (Fin (real n)) = n"
  by (simp add: rounds_below_def)

text \<open>A frame as the builder makes them: its counts are those of its arrays, and a vehicle is told by its identifier.\<close>

definition names_kind :: "LidarEntity \<Rightarrow> bool" where
  "names_kind e \<longleftrightarrow> (le_kind e = VEHICLE_ENTITY) = startsWith (le_id e) ''vehicle:''"

definition lidar_frame_ok :: "LidarFrame \<Rightarrow> bool" where
  "lidar_frame_ok f \<longleftrightarrow> (\<exists>n m. n \<le> RENDERED_ROAD_POINTS \<and> m \<le> RENDERED_RETURNS \<and>
     lf_roadPointCount f = Fin (real n) \<and> length (lf_roadPositions f) = 3 * n \<and>
     lf_returnCount f = Fin (real m) \<and> length (lf_returnPositions f) = 3 * m \<and> length (lf_returnColors f) = 3 * m) \<and>
     list_all names_kind (lf_entities f)"

lemma startsWith_vehicle [simp]:
  "startsWith (''vehicle:'' @ s) ''vehicle:''" "\<not> startsWith (''object:'' @ s) ''vehicle:''"
  "\<not> startsWith (''radar:'' @ s) ''vehicle:''" "\<not> startsWith ''haul-obstacle'' ''vehicle:''"
  by simp_all

lemma vehicleEntity_named: "vehicleEntity rnd vehicle peer = Some e \<Longrightarrow> names_kind e"
  unfolding vehicleEntity_def Let_def
  by (elim map_option_eq_Some [THEN iffD1, elim_format] exE conjE, erule subst) (simp add: names_kind_def)

lemma vehicleEntities_named:
  assumes "vehicleEntities rnd world vehicle = Some peers"
  shows "list_all names_kind peers"
  unfolding list_all_iff
proof
  fix e
  assume "e \<in> set peers"
  from those_member [OF assms [unfolded vehicleEntities_def] this] obtain peer where "Some e = vehicleEntity rnd vehicle peer"
    unfolding set_map by (elim imageE)
  then show "names_kind e" by (rule vehicleEntity_named [OF sym])
qed

lemma others_named:
  "e \<in> set (objectEntities world vehicle) \<Longrightarrow> names_kind e" "e \<in> set (radarEntities world) \<Longrightarrow> names_kind e"
  "e \<in> set (obstacleEntities world vehicle) \<Longrightarrow> names_kind e"
  by (auto simp: names_kind_def objectEntities_def radarEntities_def obstacleEntities_def Let_def
    split: if_splits option.splits)

lemma buildEntities_named:
  assumes "buildEntities rnd world vehicle = Some entities"
  shows "list_all names_kind entities"
proof -
  obtain peers where "vehicleEntities rnd world vehicle = Some peers"
    "entities = filter finiteEntity
       (peers @ objectEntities world vehicle @ radarEntities world @ obstacleEntities world vehicle)"
    using assms by (auto simp: buildEntities_def)
  then show ?thesis using vehicleEntities_named others_named by (auto simp: list_all_iff)
qed

lemma built_frame_ok:
  assumes "buildLidarFrame rnd world vehicle = Some f"
  shows "lidar_frame_ok f"
proof -
  obtain positions paths where road: "buildRoadData world vehicle = Some (positions, paths)" "roads_ok MAX_ROAD_POINTS positions"
    using buildRoads_returns [of "[]" vehicle "roadFeatures world" "[]"]
    by (auto simp: buildRoadData_def roads_ok_def)
  obtain entities where entities: "buildEntities rnd world vehicle = Some entities"
    using assms by (auto simp: buildLidarFrame_def road(1) Let_def)
  have "length positions \<le> RENDERED_ROAD_POINTS" "length (lidarReturns world vehicle) \<le> RENDERED_RETURNS"
    using road(2) length_lidarReturns [of world vehicle]
    by (simp_all add: roads_ok_def MAX_ROAD_POINTS_def RENDERED_ROAD_POINTS_def RENDERED_RETURNS_def)
  then show ?thesis
    using assms buildEntities_named [OF entities] length_flat [of id positions]
    unfolding lidar_frame_ok_def
    by (intro conjI exI [of _ "length positions"] exI [of _ "length (lidarReturns world vehicle)"])
      (auto simp: buildLidarFrame_def road(1) entities Let_def length_flat)
qed

section \<open>The layers\<close>

interpretation path_layer: keyed_layer lp_id createPathLine refreshPathLine "\<lambda>_. True" "\<lambda>path line. line = createPathLine path"
  by unfold_locales (auto simp: createPathLine_def refreshPathLine_def overwrite_def)

definition entity_shown :: "LidarEntity \<Rightarrow> EntityItem \<Rightarrow> bool" where
  "entity_shown e m \<longleftrightarrow> ei_position m = le_position e \<and> ei_rotation m = - le_yawRad e \<and> ei_box m = le_size e \<and>
     ei_vehicleMesh m = (le_kind e = VEHICLE_ENTITY)"

interpretation entity_layer: keyed_layer le_id createEntity refreshEntity names_kind entity_shown
  by unfold_locales (simp_all add: entity_shown_def createEntity_def refreshEntity_def names_kind_def)

text \<open>What a picture of a frame holds: its points and colours in full, its paths and its entities.\<close>

definition depicts_frame :: "LidarFrame \<Rightarrow> LidarPicture \<Rightarrow> bool" where
  "depicts_frame f pic \<longleftrightarrow> lpic_road pic = lf_roadPositions f \<and> lpic_returns pic = lf_returnPositions f \<and>
     lpic_returnColors pic = lf_returnColors f \<and>
     lpic_roadColors pic = concat (replicate (length (lf_roadPositions f) div 3) (flat roadColor)) \<and>
     (\<forall>k. rel_option (\<lambda>path line. line = createPathLine path) (current_items lp_id (lf_paths f) k) (map_of (lpic_paths pic) k)) \<and>
     (\<forall>k. rel_option entity_shown (current_items le_id (lf_entities f) k) (map_of (lpic_entities pic) k))"

section \<open>The renderer keeps up\<close>

fun lidar_event_ok :: "LidarEvent \<Rightarrow> bool" where
  "lidar_event_ok (LidarUpdated f) = lidar_frame_ok f"
| "lidar_event_ok _ = True"

definition lidar_buffers_ok :: "LidarView \<Rightarrow> bool" where
  "lidar_buffers_ok v \<longleftrightarrow> length (lv_roadPositions v) = 3 * RENDERED_ROAD_POINTS \<and>
     length (lv_roadColors v) = 3 * RENDERED_ROAD_POINTS \<and> length (lv_returnPositions v) = 3 * RENDERED_RETURNS \<and>
     length (lv_returnColors v) = 3 * RENDERED_RETURNS \<and>
     path_layer.layer_ok (lv_paths v) \<and> entity_layer.layer_ok (lv_entities v)"

definition lidar_inv :: "LidarView \<Rightarrow> bool" where
  "lidar_inv v \<longleftrightarrow> flags_ok v \<and> lidar_buffers_ok v \<and>
     (canRender v \<and> \<not> fl_pending v \<longrightarrow> lv_shown v = Some (lidarPicture v))"

text \<open>Handlers that leave the fields of the renderer alone.\<close>

lemma same_lidar:
  fixes v w :: LidarView
  assumes "FrameFlags.more v = FrameFlags.more w"
  shows "lidarPicture v = lidarPicture w" "lv_shown v = lv_shown w" "lidar_buffers_ok v = lidar_buffers_ok w"
  using assms by (cases v; cases w; simp add: lidarPicture_def lidar_buffers_ok_def)+

lemma handlers_lidar [simp]:
  fixes v :: LidarView
  shows "lidarPicture (intersected b v) = lidarPicture v" "lidarPicture (pageVisibility h v) = lidarPicture v"
    "lidarPicture (contextLost v) = lidarPicture v" "lidarPicture (contextRestored v) = lidarPicture v"
    "lidarPicture (requestRender v) = lidarPicture v"
    "lv_shown (intersected b v) = lv_shown v" "lv_shown (pageVisibility h v) = lv_shown v"
    "lv_shown (contextLost v) = lv_shown v" "lv_shown (contextRestored v) = lv_shown v"
    "lv_shown (requestRender v) = lv_shown v"
  by (rule same_lidar, simp)+

lemma request_inv: "lidar_buffers_ok v \<Longrightarrow> flags_ok v \<Longrightarrow> lidar_inv (requestRender v)"
  using same_lidar(3) [OF frame_flags(5) [of v]] flags_ok_request [of v] by (auto simp: lidar_inv_def)

lemma handlers_inv:
  assumes "lidar_inv v"
  shows "lidar_inv (intersected b v)" "lidar_inv (pageVisibility h v)" "lidar_inv (contextLost v)" "lidar_inv (contextRestored v)"
proof -
  have ok: "flags_ok v" "lidar_buffers_ok v" using assms by (simp_all add: lidar_inv_def)
  have "lidar_buffers_ok (intersected b v)" "lidar_buffers_ok (pageVisibility h v)" "lidar_buffers_ok (contextLost v)"
    "lidar_buffers_ok (contextRestored v)"
    using ok(2) same_lidar(3) [OF handlers_more(1) [of b v]] same_lidar(3) [OF handlers_more(2) [of h v]]
      same_lidar(3) [OF handlers_more(3) [of v]] same_lidar(3) [OF handlers_more(4) [of v]] by simp_all
  then show "lidar_inv (intersected b v)" "lidar_inv (pageVisibility h v)" "lidar_inv (contextLost v)" "lidar_inv (contextRestored v)"
    using handlers_ok [OF ok(1)] handlers_wake [OF ok(1)] by (auto simp: lidar_inv_def)
qed

text \<open>The buffers after an update.\<close>

lemma overwrite_front:
  assumes "length xs = k" "k \<le> length buffer"
  shows "length (overwrite xs buffer) = length buffer" "take k (overwrite xs buffer) = xs"
  using assms by (simp_all add: overwrite_def)

lemma length_solid [simp]: "length (concat (replicate n (flat c))) = 3 * n"
  by (induction n) (simp_all add: length_flat1)

lemma frame_counts:
  assumes "lidar_frame_ok f"
  obtains n m where "n \<le> RENDERED_ROAD_POINTS" "m \<le> RENDERED_RETURNS"
    "js_min (lf_roadPointCount f) (Fin (of_nat RENDERED_ROAD_POINTS)) = Fin (real n)" "length (lf_roadPositions f) = 3 * n"
    "js_min (lf_returnCount f) (Fin (of_nat RENDERED_RETURNS)) = Fin (real m)"
    "length (lf_returnPositions f) = 3 * m" "length (lf_returnColors f) = 3 * m"
  using assms unfolding lidar_frame_ok_def by (auto simp: js_min_def min_def)

lemma subarray_thrice: "subarray_to (Fin (real n * 3)) xs = take (3 * n) xs"
  using subarray_nat [of "3 * n" xs] by (simp add: mult.commute)

lemma layers_after:
  assumes "lidar_buffers_ok v" "lidar_frame_ok f"
  shows "path_layer.layer_ok (reconcilePaths (lf_paths f) (lv_paths v)) \<and>
      rel_option (\<lambda>path line. line = createPathLine path) (current_items lp_id (lf_paths f) k)
        (map_of (reconcilePaths (lf_paths f) (lv_paths v)) k)"
    and "entity_layer.layer_ok (reconcileEntities (lf_entities f) (lv_entities v)) \<and>
      rel_option entity_shown (current_items le_id (lf_entities f) k)
        (map_of (reconcileEntities (lf_entities f) (lv_entities v)) k)"
  using assms unfolding reconcilePaths_def reconcileEntities_def
  by (auto simp: lidar_buffers_ok_def lidar_frame_ok_def list_all_iff
    intro!: path_layer.reconcile_pruned_shows entity_layer.reconcile_pruned_shows
    path_layer.reconcile_pruned_shows [THEN conjunct1] entity_layer.reconcile_pruned_shows [THEN conjunct1]
    path_layer.reconcile_pruned_shows [THEN conjunct2] entity_layer.reconcile_pruned_shows [THEN conjunct2])

lemma update_buffers:
  assumes "lidar_buffers_ok v" "lidar_frame_ok f" "\<not> fl_disposed v"
  shows "lidar_buffers_ok (updateLidar f v) \<and> depicts_frame f (lidarPicture (updateLidar f v))"
proof -
  from frame_counts [OF assms(2)] obtain n m where c: "n \<le> RENDERED_ROAD_POINTS" "m \<le> RENDERED_RETURNS"
    "js_min (lf_roadPointCount f) (Fin (of_nat RENDERED_ROAD_POINTS)) = Fin (real n)" "length (lf_roadPositions f) = 3 * n"
    "js_min (lf_returnCount f) (Fin (of_nat RENDERED_RETURNS)) = Fin (real m)"
    "length (lf_returnPositions f) = 3 * m" "length (lf_returnColors f) = 3 * m" .
  define w where "w = v\<lparr>lv_roadPositions := overwrite (lf_roadPositions f) (lv_roadPositions v),
     lv_roadColors := overwrite (concat (replicate n (flat roadColor))) (lv_roadColors v), lv_roadRange := Fin (real n),
     lv_returnPositions := overwrite (lf_returnPositions f) (lv_returnPositions v),
     lv_returnColors := overwrite (lf_returnColors f) (lv_returnColors v),
     lv_returnRange := Fin (real m), lv_paths := reconcilePaths (lf_paths f) (lv_paths v),
     lv_entities := reconcileEntities (lf_entities f) (lv_entities v),
     lv_dataset := (Fin (real n), Fin (real m), length (lf_entities f))\<rparr>"
  have upd: "updateLidar f v = requestRender w"
    using assms(3) c by (simp add: updateLidar_def w_def Let_def subarray_thrice fillSolidColors_def)
  have "lidar_buffers_ok w"
    using assms(1) c layers_after [OF assms(1,2)] by (simp add: lidar_buffers_ok_def w_def)
  moreover have "depicts_frame f (lidarPicture w)"
    using assms(1) c layers_after [OF assms(1,2)]
    by (simp add: lidar_buffers_ok_def w_def depicts_frame_def lidarPicture_def subarray_thrice overwrite_front(2))
  ultimately show ?thesis
    unfolding upd using same_lidar(1,3) [OF frame_flags(5) [of w]] by simp
qed

lemma updateLidar_flags:
  "fl_disposed (updateLidar f v) = fl_disposed v"
  "\<not> fl_disposed v \<Longrightarrow> flags_ok v \<Longrightarrow> flags_ok (updateLidar f v) \<and> (canRender (updateLidar f v) \<longrightarrow> fl_pending (updateLidar f v))"
  by (auto simp: updateLidar_def Let_def flags_ok_def canRender_def)

lemma lidar_inv_step:
  assumes "lidar_inv v" "lidar_event_ok e"
  shows "lidar_inv (lidar_step e v)"
proof (cases e)
  case (LidarUpdated f)
  then show ?thesis
    using assms update_buffers [of v f] updateLidar_flags(2) [of v f]
    by (cases "fl_disposed v") (auto simp: lidar_inv_def updateLidar_def)
next
  case LidarFrameFired
  then show ?thesis
    using assms by (auto simp: lidar_inv_def renderLidar_def Let_def flags_ok_def canRender_def lidar_buffers_ok_def lidarPicture_def)
next
  case (LidarResized w h)
  have "lidar_inv (requestRender (v\<lparr>lv_size := (js_max 1 w, js_max 1 h)\<rparr>))"
    using assms by (intro request_inv) (simp_all add: lidar_inv_def lidar_buffers_ok_def flags_ok_def canRender_def)
  then show ?thesis using LidarResized assms by (simp add: resizeLidar_def)
next
  case LidarDisposed
  then show ?thesis
    using assms path_layer.empty_ok entity_layer.empty_ok
    by (auto simp: lidar_inv_def disposeLidar_def flags_ok_def canRender_def lidar_buffers_ok_def)
qed (use assms handlers_inv in simp_all)

lemma lidar_inv_start: "lidar_inv (createLidarRenderer hidden w h)"
proof -
  have "lidar_inv (resizeLidar w h v)" if "lidar_buffers_ok v" "flags_ok v" "\<not> fl_disposed v" for v
    unfolding resizeLidar_def using that
    by (auto intro!: request_inv simp: lidar_buffers_ok_def flags_ok_def canRender_def)
  then show ?thesis
    unfolding createLidarRenderer_def using path_layer.empty_ok entity_layer.empty_ok
    by (simp add: lidar_buffers_ok_def flags_ok_def)
qed

lemma lidar_asleep:
  assumes "lidar_inv v" "\<not> canRender v"
  shows "lv_shown (lidar_step e v) = lv_shown v"
proof (cases e)
  case (LidarUpdated f)
  then show ?thesis by (simp add: updateLidar_def requestRender_def Let_def)
next
  case LidarFrameFired
  then show ?thesis using assms by (simp add: renderLidar_def lidar_inv_def flags_ok_def)
next
  case (LidarResized w h)
  then show ?thesis by (simp add: resizeLidar_def requestRender_def)
next
  case LidarDisposed
  then show ?thesis by (simp add: disposeLidar_def)
qed simp_all

interpretation lidar_loop: frame_loop "createLidarRenderer hidden w h" lidar_step lidar_event_ok lidar_inv canRender fl_pending
    lv_shown lidarPicture
  by unfold_locales (use lidar_inv_start lidar_inv_step lidar_asleep in \<open>auto simp: lidar_inv_def\<close>)

text \<open>What happens between two updates does not change the scene, apart from its size.\<close>

fun lidar_quiet :: "LidarEvent \<Rightarrow> bool" where
  "lidar_quiet (LidarUpdated f) = False"
| "lidar_quiet LidarDisposed = False"
| "lidar_quiet _ = True"

lemma quiet_ok: "list_all lidar_quiet es \<Longrightarrow> list_all lidar_event_ok es"
  by (erule list.pred_mono_strong) (auto elim: lidar_quiet.elims)

lemma depicts_size: "depicts_frame f (p\<lparr>lpic_size := s\<rparr>) = depicts_frame f p"
  by (simp add: depicts_frame_def)

lemma quiet_depicts:
  assumes "depicts_frame f (lidarPicture v)" "lidar_quiet e"
  shows "depicts_frame f (lidarPicture (lidar_step e v))"
proof (cases e)
  case (LidarResized w h)
  have "lidarPicture (v\<lparr>lv_size := s\<rparr>) = (lidarPicture v)\<lparr>lpic_size := s\<rparr>" for s
    by (simp add: lidarPicture_def)
  then show ?thesis
    using assms LidarResized by (simp add: resizeLidar_def depicts_size)
next
  case LidarFrameFired
  then show ?thesis using assms by (simp add: renderLidar_def Let_def lidarPicture_def depicts_frame_def)
qed (use assms in simp_all)

lemma quiet_run_depicts:
  assumes "depicts_frame f (lidarPicture v)" "list_all lidar_quiet es"
  shows "depicts_frame f (lidarPicture (fold lidar_step es v))"
  using assms by (induction es arbitrary: v) (simp_all add: quiet_depicts)

lemma quiet_run_disposed: "list_all lidar_quiet es \<Longrightarrow> fl_disposed (fold lidar_step es v) = fl_disposed v"
proof (induction es arbitrary: v)
  case (Cons e es)
  then show ?case
    by (cases e) (simp_all add: renderLidar_def resizeLidar_def Let_def)
qed simp

text \<open>
  C25. The lidar view shows the newest frame. After any events, an update with a frame made by \<^verbatim>\<open>buildLidarFrame\<close> and
  any further events short of another update or of disposing, the scene holds that frame exactly: its points, its colours, its
  paths and its entities, and nothing of the frames before. Where the view can be seen, this is what was drawn or a frame that
  draws it is on its way; where it cannot, no frame is on its way.
\<close>

theorem lidar_shows_frame:
  assumes "list_all lidar_event_ok es" "buildLidarFrame rnd world vehicle = Some f" "list_all lidar_quiet fs"
    and "\<not> fl_disposed (lidar_run hidden w h es)"
    and "v = lidar_run hidden w h (es @ LidarUpdated f # fs)"
  shows "depicts_frame f (lidarPicture v) \<and>
    (if canRender v then fl_pending v \<or> lv_shown v = Some (lidarPicture v) else \<not> fl_pending v)"
proof -
  let ?start = "lidar_run hidden w h es"
  have ok: "lidar_frame_ok f" by (rule built_frame_ok [OF assms(2)])
  have inv: "lidar_inv ?start" unfolding lidar_run_def by (rule lidar_loop.run_inv [OF assms(1)])
  have v: "v = fold lidar_step fs (updateLidar f ?start)" using assms(5) by (simp add: lidar_run_def)
  have "depicts_frame f (lidarPicture v)"
    unfolding v using update_buffers [OF _ ok assms(4)] inv assms(3) by (simp add: lidar_inv_def quiet_run_depicts)
  moreover have "lidar_inv v"
    unfolding v using lidar_inv_step [OF inv, of "LidarUpdated f"] ok quiet_ok [OF assms(3)]
    by (intro lidar_loop.run_from_inv) simp_all
  ultimately show ?thesis by (auto simp: lidar_inv_def flags_ok_def)
qed

theorem lidar_shows_frame_witness:
  "\<exists>f. buildLidarFrame quarters sampleWorld defaultVehicle = Some f \<and>
     lv_shown (lidar_run False 640 480 (LidarUpdated f # [LidarContextLost, LidarContextRestored, LidarFrameFired])) =
       Some (lidarPicture (lidar_run False 640 480 (LidarUpdated f # [LidarContextLost, LidarContextRestored, LidarFrameFired])))"
proof -
  obtain f where f: "buildLidarFrame quarters sampleWorld defaultVehicle = Some f"
  proof -
    have "headings_below (20 * 100) (defaultVehicle # ws_vehicles sampleWorld)"
      by (simp add: headings_below_def sampleWorld_def defaultVehicle_def)
    then obtain entities where "buildEntities quarters sampleWorld defaultVehicle = Some entities"
      using buildEntities_returns [OF quarters_rounds, of defaultVehicle sampleWorld] pi_less_4 by auto
    moreover obtain road where "buildRoadData sampleWorld defaultVehicle = Some road"
      using buildRoads_returns [of "[]" defaultVehicle "roadFeatures sampleWorld" "[]"] by (auto simp: buildRoadData_def roads_ok_def)
    ultimately show ?thesis using that by (cases road) (simp add: buildLidarFrame_def Let_def)
  qed
  let ?quiet = "[LidarContextLost, LidarContextRestored, LidarFrameFired]"
  let ?v = "lidar_run False 640 480 ([] @ LidarUpdated f # ?quiet)"
  have flags: "canRender ?v" "\<not> fl_pending ?v"
    by (simp_all add: lidar_run_def createLidarRenderer_def resizeLidar_def updateLidar_def contextLost_def contextRestored_def
        renderLidar_def cancelFrame_def requestRender_def canRender_def Let_def)
  have "\<not> fl_disposed (lidar_run False 640 480 [])"
    by (simp add: lidar_run_def createLidarRenderer_def resizeLidar_def)
  then show ?thesis
    using lidar_shows_frame [of "[]" quarters sampleWorld defaultVehicle f ?quiet False 640 480 ?v] f flags by auto
qed

end
