(* ===== verification/MappingRenderer.thy ===== *)
theory MappingRenderer
  imports LidarRenderer MappingFrame
begin

text \<open>
  The renderer of the spatial map, \<^verbatim>\<open>frontend/src/spatial/mappingRenderer.ts\<close>: the solid truck, the buffers of the
  two point clouds, the layers of paths and entities, the camera, and the frames on which entities glide to their
  targets. The graphics library is asked for two things that are parameters: \<open>rgb\<close> reads a colour and \<open>hsl\<close> mixes one.
  Times are finite reals; what one update reads from the clock is one time. Arrays that are compared by identity
  come with a name, and \<open>heap\<close> says what the array of a name holds.
\<close>

section \<open>Exponential and angle\<close>

definition atan2 :: "real \<Rightarrow> real \<Rightarrow> real" where
  "atan2 y x =
     (if 0 < x then arctan (y / x)
      else if x < 0 then (if 0 \<le> y then arctan (y / x) + pi else arctan (y / x) - pi)
      else if 0 < y then pi / 2 else if y < 0 then - (pi / 2) else 0)"

text \<open>\<^verbatim>\<open>Math.atan2\<close>, which the renderer asks of a sine and a cosine: never of an infinity.\<close>

fun js_atan2 :: "jsnum \<Rightarrow> jsnum \<Rightarrow> jsnum" where
  "js_atan2 (Fin y) (Fin x) = Fin (atan2 y x)"
| "js_atan2 _ _ = NaN"

section \<open>The solid truck\<close>

text \<open>A surface as the triangles of a fan around its first point.\<close>

definition fanTriangles :: "Coordinate list \<Rightarrow> Coordinate list" where
  "fanTriangles points =
     concat (map (\<lambda>i. [points ! 0, points ! i, points ! Suc i]) [1..<length points - 1])"

definition solidVertices :: "(string \<Rightarrow> ScenePoint) \<Rightarrow> TruckSurface list \<Rightarrow> (Coordinate \<times> ScenePoint) list" where
  "solidVertices rgb faces =
     concat (map (\<lambda>face.
       if tsf_part face = ''truck-ore-cargo'' then []
       else concat (map (\<lambda>(points, fill). map (\<lambda>(x, y, z). ((x, z, - y), rgb fill)) (fanTriangles points))
         ((tsf_points face, tsf_fill face) # map (\<lambda>d. (sd_points d, sd_fill d)) (tsf_details face)))) faces)"

text \<open>The bounding box of some points, its centre and its size.\<close>

definition boxAxis :: "(Coordinate \<Rightarrow> real) \<Rightarrow> Coordinate list \<Rightarrow> real \<times> real" where
  "boxAxis axis points = (Min (set (map axis points)), Max (set (map axis points)))"

definition axis_x :: "Coordinate \<Rightarrow> real" where
  "axis_x = fst"

definition axis_y :: "Coordinate \<Rightarrow> real" where
  "axis_y = fst \<circ> snd"

definition axis_z :: "Coordinate \<Rightarrow> real" where
  "axis_z = snd \<circ> snd"

definition standing :: "Coordinate list \<Rightarrow> Coordinate list" where
  "standing points =
     (let (x, X) = boxAxis axis_x points; (y, Y) = boxAxis axis_y points; (z, Z) = boxAxis axis_z points
      in map (\<lambda>(px, py, pz). (px - (x + X) / 2, py - y, pz - (z + Z) / 2)) points)"

definition solidTruckGeometry :: "(string \<Rightarrow> ScenePoint) \<Rightarrow> (Coordinate \<times> ScenePoint) list" where
  "solidTruckGeometry rgb =
     (let vertices = solidVertices rgb (buildTruckMesh (Fin 0))
      in zip (standing (map fst vertices)) (map snd vertices))"

definition boxSize :: "Coordinate list \<Rightarrow> Coordinate" where
  "boxSize points =
     (let (x, X) = boxAxis axis_x points; (y, Y) = boxAxis axis_y points; (z, Z) = boxAxis axis_z points
      in (X - x, Y - y, Z - z))"

definition vehicleBounds :: "(string \<Rightarrow> ScenePoint) \<Rightarrow> Coordinate" where
  "vehicleBounds rgb = boxSize (map fst (solidTruckGeometry rgb))"

definition truckScale :: "(string \<Rightarrow> ScenePoint) \<Rightarrow> ScenePoint \<Rightarrow> ScenePoint" where
  "truckScale rgb = (\<lambda>(w, h, l). case vehicleBounds rgb of (x, y, z) \<Rightarrow> (w / Fin x, h / Fin y, l / Fin z))"

text \<open>The truck stands on the ground, and its box is centred over the origin.\<close>

lemma standing_grounded:
  assumes "p \<in> set (standing points)"
  shows "0 \<le> axis_y p" "\<bar>axis_x p\<bar> \<le> axis_x (boxSize points) / 2" "\<bar>axis_z p\<bar> \<le> axis_z (boxSize points) / 2"
proof -
  obtain x X where xs: "boxAxis axis_x points = (x, X)" by (cases "boxAxis axis_x points")
  obtain y Y where ys: "boxAxis axis_y points = (y, Y)" by (cases "boxAxis axis_y points")
  obtain z Z where zs: "boxAxis axis_z points = (z, Z)" by (cases "boxAxis axis_z points")
  obtain a b c where q: "(a, b, c) \<in> set points" "p = (a - (x + X) / 2, b - y, c - (z + Z) / 2)"
    using assms by (auto simp: standing_def xs ys zs)
  have "fst (boxAxis axis points) \<le> axis (a, b, c) \<and> axis (a, b, c) \<le> snd (boxAxis axis points)" for axis
    using q(1) by (simp add: boxAxis_def)
  note bounds = this [of axis_x, unfolded xs fst_conv snd_conv] this [of axis_y, unfolded ys fst_conv snd_conv]
    this [of axis_z, unfolded zs fst_conv snd_conv]
  have "boxSize points = (X - x, Y - y, Z - z)" by (simp add: boxSize_def xs ys zs)
  then show "0 \<le> axis_y p" "\<bar>axis_x p\<bar> \<le> axis_x (boxSize points) / 2" "\<bar>axis_z p\<bar> \<le> axis_z (boxSize points) / 2"
    using bounds by (auto simp: q(2) axis_x_def axis_y_def axis_z_def abs_if field_simps)
qed

section \<open>The scene\<close>

definition SHOWN_ROAD_POINTS :: nat where
  "SHOWN_ROAD_POINTS = 40000"

definition SHOWN_RETURNS :: nat where
  "SHOWN_RETURNS = 36000"

definition SCAN_REVEAL_MS :: real where
  "SCAN_REVEAL_MS = 1700"

definition roadHue :: "(jsnum \<Rightarrow> jsnum \<Rightarrow> jsnum \<Rightarrow> ScenePoint) \<Rightarrow> ScenePoint \<Rightarrow> ScenePoint" where
  "roadHue hsl = (\<lambda>(x, height, z).
     let distance = js_max 0 (- z); t = js_min 1 (height / 5 + distance / 85)
     in hsl (Fin 0.72 - t * Fin 0.68) (Fin 0.88) (Fin 0.59))"

definition fillRoadColors ::
    "(jsnum \<Rightarrow> jsnum \<Rightarrow> jsnum \<Rightarrow> ScenePoint) \<Rightarrow> ScenePoint list \<Rightarrow> nat \<Rightarrow> ScenePoint list \<Rightarrow> ScenePoint list" where
  "fillRoadColors hsl positions points target = overwrite (map (roadHue hsl) (take points positions)) target"

definition solid_kind :: "MappingEntityKind \<Rightarrow> bool" where
  "solid_kind kind \<longleftrightarrow> kind = MAPPED_VEHICLE \<or> kind = SCANNED_VEHICLE"

record MappedItem =
  mi_position :: ScenePoint
  mi_rotation :: jsnum
  mi_box :: ScenePoint
  mi_volume :: ScenePoint
  mi_boxVisible :: bool
  mi_mesh :: "(ScenePoint \<times> jsnum) option"
  mi_scan :: "real option"
  mi_scanStartedAt :: real
  mi_target :: ScenePoint
  mi_yawTarget :: jsnum

text \<open>The mesh of a truck: its scale and its height in the group. Boxes and volumes are shown for what is no truck.\<close>

definition truckMesh :: "(string \<Rightarrow> ScenePoint) \<Rightarrow> ScenePoint \<Rightarrow> ScenePoint \<times> jsnum" where
  "truckMesh rgb size' = (truckScale rgb size', - fst (snd size') / 2)"

definition createMapped :: "(string \<Rightarrow> ScenePoint) \<Rightarrow> bool \<Rightarrow> real \<Rightarrow> MappingEntity \<Rightarrow> MappedItem" where
  "createMapped rgb reduced now entity =
     \<lparr>mi_position = me_position entity, mi_rotation = - me_yawRad entity, mi_box = me_size entity,
      mi_volume = me_size entity, mi_boxVisible = (\<not> solid_kind (me_kind entity)),
      mi_mesh = (if solid_kind (me_kind entity) then Some (truckMesh rgb (me_size entity)) else None),
      mi_scan = (if me_kind entity = SCANNED_VEHICLE then Some (if reduced then 0.86 else 0) else None),
      mi_scanStartedAt = now, mi_target = me_position entity, mi_yawTarget = - me_yawRad entity\<rparr>"

definition refreshMapped :: "(string \<Rightarrow> ScenePoint) \<Rightarrow> MappingEntity \<Rightarrow> MappedItem \<Rightarrow> MappedItem" where
  "refreshMapped rgb entity item =
     item\<lparr>mi_target := me_position entity, mi_yawTarget := - me_yawRad entity, mi_box := me_size entity,
       mi_volume := me_size entity,
       mi_mesh := map_option (\<lambda>_. truckMesh rgb (me_size entity)) (mi_mesh item)\<rparr>"

definition reconcileMapped ::
    "(string \<Rightarrow> ScenePoint) \<Rightarrow> bool \<Rightarrow> real \<Rightarrow> MappingEntity list \<Rightarrow> MappedItem layer \<Rightarrow> MappedItem layer" where
  "reconcileMapped rgb reduced now =
     reconcile_pruned me_id (\<lambda>entity. refreshMapped rgb entity (createMapped rgb reduced now entity)) (refreshMapped rgb)"

definition animationEnd :: "real \<Rightarrow> MappedItem layer \<Rightarrow> real" where
  "animationEnd now entities =
     fold max (map (\<lambda>(_, item). if mi_scan item \<noteq> None then mi_scanStartedAt item + SCAN_REVEAL_MS else 0) entities)
       (now + 120)"

definition refreshMappingPath :: "LidarPath \<Rightarrow> PathLine \<Rightarrow> PathLine" where
  "refreshMappingPath path line =
     (if pl_loop line \<noteq> lp_closed path then createPathLine path
      else if length (pl_positions line) \<noteq> length (lp_positions path) then line\<lparr>pl_positions := lp_positions path\<rparr>
      else line\<lparr>pl_positions := overwrite (lp_positions path) (pl_positions line)\<rparr>)"

definition reconcileMappingPaths :: "LidarPath list \<Rightarrow> PathLine layer \<Rightarrow> PathLine layer" where
  "reconcileMappingPaths = reconcile_pruned lp_id createPathLine refreshMappingPath"

section \<open>The state\<close>

record MappingPicture =
  mpic_road :: "ScenePoint list"
  mpic_roadColors :: "ScenePoint list"
  mpic_roadTransform :: "ScenePoint \<times> jsnum"
  mpic_returns :: "ScenePoint list"
  mpic_returnColors :: "ScenePoint list"
  mpic_paths :: "PathLine layer"
  mpic_entities :: "MappedItem layer"
  mpic_egoScale :: ScenePoint
  mpic_camera :: "ScenePoint \<times> ScenePoint"
  mpic_grid :: "bool \<times> jsnum \<times> jsnum"
  mpic_pointSizes :: "jsnum \<times> jsnum"
  mpic_scan :: real
  mpic_size :: "jsnum \<times> jsnum"

record MappingView = FrameFlags +
  mv_roadPositions :: "ScenePoint list"
  mv_roadColors :: "ScenePoint list"
  mv_roadRange :: nat
  mv_previous :: "(nat \<times> nat option \<times> nat) option"
  mv_roadTransform :: "ScenePoint \<times> jsnum"
  mv_returnPositions :: "ScenePoint list"
  mv_returnColors :: "ScenePoint list"
  mv_returnRange :: nat
  mv_paths :: "PathLine layer"
  mv_entities :: "MappedItem layer"
  mv_egoScale :: ScenePoint
  mv_source :: "FrameSource option"
  mv_previewActive :: bool
  mv_animateUntil :: real
  mv_previousRenderAt :: real
  mv_reduced :: bool
  mv_aspect :: jsnum
  mv_camera :: "ScenePoint \<times> ScenePoint"
  mv_grid :: "bool \<times> jsnum \<times> jsnum"
  mv_pointSizes :: "jsnum \<times> jsnum"
  mv_scan :: real
  mv_size :: "jsnum \<times> jsnum"
  mv_dataset :: "nat \<times> nat \<times> nat \<times> FrameSource option"
  mv_shown :: "MappingPicture option"

definition mappingPicture :: "MappingView \<Rightarrow> MappingPicture" where
  "mappingPicture v =
     \<lparr>mpic_road = take (mv_roadRange v) (mv_roadPositions v), mpic_roadColors = take (mv_roadRange v) (mv_roadColors v),
      mpic_roadTransform = mv_roadTransform v,
      mpic_returns = take (mv_returnRange v) (mv_returnPositions v),
      mpic_returnColors = take (mv_returnRange v) (mv_returnColors v),
      mpic_paths = mv_paths v, mpic_entities = mv_entities v, mpic_egoScale = mv_egoScale v, mpic_camera = mv_camera v,
      mpic_grid = mv_grid v, mpic_pointSizes = mv_pointSizes v, mpic_scan = mv_scan v, mpic_size = mv_size v\<rparr>"

section \<open>The camera\<close>

definition closeView :: "FrameSource option \<Rightarrow> bool" where
  "closeView source \<longleftrightarrow> source = Some MEASURED \<or> source = Some WAITING"

definition cameraFor :: "FrameSource option \<Rightarrow> jsnum \<Rightarrow> ScenePoint \<times> ScenePoint" where
  "cameraFor source aspect =
     (if closeView source then
        let fit = js_max 1 (Fin 1.05 / aspect) in ((Fin 3.5 * fit, 5 * fit, Fin 5.5 * fit), (0, 0, 0))
      else ((0, Fin 4.4, Fin 9.5), (0, 0, - 14)))"

definition frameCamera :: "MappingView \<Rightarrow> MappingView" where
  "frameCamera v = v\<lparr>mv_camera := cameraFor (mv_source v) (mv_aspect v)\<rparr>"

definition resizeMapping :: "jsnum \<Rightarrow> jsnum \<Rightarrow> MappingView \<Rightarrow> MappingView" where
  "resizeMapping clientWidth clientHeight v =
     (if fl_disposed v then v
      else
        let width = js_max 1 clientWidth; height = js_max 1 clientHeight
        in requestRender ((frameCamera (v\<lparr>mv_aspect := width / height\<rparr>))\<lparr>mv_size := (width, height)\<rparr>))"

definition createMappingRenderer :: "bool \<Rightarrow> bool \<Rightarrow> jsnum \<Rightarrow> jsnum \<Rightarrow> MappingView" where
  "createMappingRenderer hidden reduced clientWidth clientHeight =
     resizeMapping clientWidth clientHeight
       \<lparr>fl_disposed = False, fl_lost = False, fl_visible = True, fl_hidden = hidden, fl_pending = False,
        mv_roadPositions = replicate SHOWN_ROAD_POINTS (0, 0, 0), mv_roadColors = replicate SHOWN_ROAD_POINTS (0, 0, 0),
        mv_roadRange = 0, mv_previous = None, mv_roadTransform = ((0, 0, 0), 0),
        mv_returnPositions = replicate SHOWN_RETURNS (0, 0, 0), mv_returnColors = replicate SHOWN_RETURNS (0, 0, 0),
        mv_returnRange = 0, mv_paths = [], mv_entities = [], mv_egoScale = (1, 1, 1), mv_source = None,
        mv_previewActive = False, mv_animateUntil = 0, mv_previousRenderAt = 0, mv_reduced = reduced, mv_aspect = 1,
        mv_camera = ((0, 5, 10), (0, Fin 0.4, - 17)), mv_grid = (True, 1, - 10), mv_pointSizes = (Fin 0.7, Fin 0.7),
        mv_scan = - 100, mv_size = (1, 1), mv_dataset = (0, 0, 0, None), mv_shown = None\<rparr>"

section \<open>An update\<close>

definition gridFor :: "FrameSource \<Rightarrow> bool \<times> jsnum \<times> jsnum" where
  "gridFor source =
     (source \<noteq> REFERENCE_SIMULATION, if closeView (Some source) then Fin 0.1 else 1, if closeView (Some source) then 0 else - 10)"

definition pointSizesFor :: "FrameSource \<Rightarrow> jsnum \<times> jsnum" where
  "pointSizesFor source = (if closeView (Some source) then (Fin 0.42, Fin 0.7) else (1, 1))"

definition showSource :: "FrameSource \<Rightarrow> MappingView \<Rightarrow> MappingView" where
  "showSource source v =
     (if mv_source v \<noteq> Some source then
        (frameCamera (v\<lparr>mv_source := Some source\<rparr>))\<lparr>mv_grid := gridFor source, mv_pointSizes := pointSizesFor source\<rparr>
      else v)"

definition showRoad ::
    "(jsnum \<Rightarrow> jsnum \<Rightarrow> jsnum \<Rightarrow> ScenePoint) \<Rightarrow> nat \<times> nat option \<Rightarrow> MappingFrame \<Rightarrow> MappingView \<Rightarrow> MappingView" where
  "showRoad hsl = (\<lambda>(positions, colors) frame v.
     let roadCount = min (mfr_roadPointCount frame) SHOWN_ROAD_POINTS;
         v' = (if mv_previous v \<noteq> Some (positions, colors, roadCount) then
             v\<lparr>mv_roadPositions := overwrite (take roadCount (mfr_roadPositions frame)) (mv_roadPositions v),
               mv_roadColors := (case mfr_roadColors frame of
                   Some given \<Rightarrow> overwrite (take roadCount given) (mv_roadColors v)
                 | None \<Rightarrow> fillRoadColors hsl (mfr_roadPositions frame) roadCount (mv_roadColors v)),
               mv_previous := Some (positions, colors, roadCount)\<rparr>
           else v)
     in v'\<lparr>mv_roadRange := roadCount\<rparr>)"

definition showReturns :: "MappingFrame \<Rightarrow> MappingView \<Rightarrow> MappingView" where
  "showReturns frame v =
     (let returnCount = min (mfr_returnCount frame) SHOWN_RETURNS
      in v\<lparr>mv_returnPositions := overwrite (take returnCount (mfr_returnPositions frame)) (mv_returnPositions v),
           mv_returnColors := overwrite (take returnCount (mfr_returnColors frame)) (mv_returnColors v),
           mv_returnRange := returnCount\<rparr>)"

definition updateMapping ::
    "(string \<Rightarrow> ScenePoint) \<Rightarrow> (jsnum \<Rightarrow> jsnum \<Rightarrow> jsnum \<Rightarrow> ScenePoint) \<Rightarrow> real \<Rightarrow> nat \<times> nat option \<Rightarrow> MappingFrame \<Rightarrow>
     MappingView \<Rightarrow> MappingView" where
  "updateMapping rgb hsl now arrays frame v =
     (if fl_disposed v then v
      else
        let v1 = showSource (mfr_source frame) (v\<lparr>mv_previewActive := (mfr_source frame = SIMULATED_PREVIEW)\<rparr>);
            v2 = v1\<lparr>mv_egoScale := truckScale rgb (mfr_egoSize frame),
              mv_roadTransform := (case mfr_roadTransform frame of Some t \<Rightarrow> t | None \<Rightarrow> ((0, 0, 0), 0))\<rparr>;
            v3 = showReturns frame (showRoad hsl arrays frame v2);
            entities = reconcileMapped rgb (mv_reduced v3) now (mfr_entities frame) (mv_entities v3)
        in requestRender
          (v3\<lparr>mv_paths := reconcileMappingPaths (mfr_paths frame) (mv_paths v3), mv_entities := entities,
              mv_animateUntil := animationEnd now entities,
              mv_dataset := (mv_roadRange v3, mv_returnRange v3, length (mfr_entities frame), Some (mfr_source frame))\<rparr>))"

section \<open>A frame\<close>

definition lerp :: "ScenePoint \<Rightarrow> ScenePoint \<Rightarrow> real \<Rightarrow> ScenePoint" where
  "lerp = (\<lambda>(x, y, z) (tx, ty, tz) alpha.
     (x + (tx - x) * Fin alpha, y + (ty - y) * Fin alpha, z + (tz - z) * Fin alpha))"

definition yawDelta :: "jsnum \<Rightarrow> jsnum \<Rightarrow> jsnum" where
  "yawDelta target rotation = js_atan2 (js_sin (target - rotation)) (js_cos (target - rotation))"

definition scanOpacity :: "bool \<Rightarrow> real \<Rightarrow> real \<Rightarrow> real" where
  "scanOpacity reduced time startedAt =
     (let progress = min 1 (max 0 ((time - startedAt) / SCAN_REVEAL_MS));
          smooth = progress * progress * (3 - 2 * progress)
      in (if reduced then 1 else smooth) * 0.86)"

definition animateItem :: "bool \<Rightarrow> real \<Rightarrow> real \<Rightarrow> MappedItem \<Rightarrow> MappedItem" where
  "animateItem reduced time alpha item =
     item\<lparr>mi_position := lerp (mi_position item) (mi_target item) alpha,
       mi_rotation := mi_rotation item + yawDelta (mi_yawTarget item) (mi_rotation item) * Fin alpha,
       mi_scan := map_option (\<lambda>_. scanOpacity reduced time (mi_scanStartedAt item)) (mi_scan item)\<rparr>"

definition glide :: "MappingView \<Rightarrow> real \<Rightarrow> real" where
  "glide v time =
     (if mv_reduced v \<or> mv_animateUntil v \<le> time then 1
      else 1 - exp (- (min 100 (time - mv_previousRenderAt v) / 30)))"

definition scanLine :: "MappingView \<Rightarrow> real \<Rightarrow> real" where
  "scanLine v time =
     (if mv_previewActive v \<and> \<not> mv_reduced v then time / 160 - 55 * trunc_real (time / 160 / 55) - 10 else - 100)"

definition drawMapping :: "real \<Rightarrow> MappingView \<Rightarrow> MappingView" where
  "drawMapping time v =
     (let w = v\<lparr>mv_previousRenderAt := time,
            mv_entities := map (\<lambda>(k, item). (k, animateItem (mv_reduced v) time (glide v time) item)) (mv_entities v),
            mv_scan := scanLine v time\<rparr>
      in w\<lparr>mv_shown := Some (mappingPicture w)\<rparr>)"

definition renderMapping :: "real \<Rightarrow> MappingView \<Rightarrow> MappingView" where
  "renderMapping time v =
     (if \<not> fl_pending v then v
      else
        let v' = v\<lparr>fl_pending := False\<rparr>
        in if \<not> canRender v' then v'
           else if time - mv_previousRenderAt v' < 32 \<and> \<not> mv_reduced v' then requestRender v'
           else
             let w = drawMapping time v'
             in if \<not> mv_reduced w \<and> (mv_previewActive w \<or> time < mv_animateUntil w) then requestRender w else w)"

definition motionChanged :: "bool \<Rightarrow> MappingView \<Rightarrow> MappingView" where
  "motionChanged reduced v =
     (let v' = v\<lparr>mv_reduced := reduced\<rparr> in if fl_disposed v then v' else requestRender v')"

definition disposeMapping :: "MappingView \<Rightarrow> MappingView" where
  "disposeMapping v =
     (if fl_disposed v then v else v\<lparr>fl_disposed := True, fl_pending := False, mv_paths := [], mv_entities := []\<rparr>)"

datatype MappingEvent =
  MapUpdated real "nat \<times> nat option" MappingFrame
| MapFrameFired real
| MapResized jsnum jsnum
| MapIntersected "bool option"
| MapVisibility bool
| MapContextLost
| MapContextRestored
| MapMotion bool
| MapDisposed

fun mapping_step ::
    "(string \<Rightarrow> ScenePoint) \<Rightarrow> (jsnum \<Rightarrow> jsnum \<Rightarrow> jsnum \<Rightarrow> ScenePoint) \<Rightarrow> MappingEvent \<Rightarrow> MappingView \<Rightarrow> MappingView" where
  "mapping_step rgb hsl (MapUpdated now arrays frame) v = updateMapping rgb hsl now arrays frame v"
| "mapping_step rgb hsl (MapFrameFired time) v = renderMapping time v"
| "mapping_step rgb hsl (MapResized w h) v = resizeMapping w h v"
| "mapping_step rgb hsl (MapIntersected b) v = intersected b v"
| "mapping_step rgb hsl (MapVisibility h) v = pageVisibility h v"
| "mapping_step rgb hsl MapContextLost v = contextLost v"
| "mapping_step rgb hsl MapContextRestored v = contextRestored v"
| "mapping_step rgb hsl (MapMotion b) v = motionChanged b v"
| "mapping_step rgb hsl MapDisposed v = disposeMapping v"

definition mapping_run ::
    "(string \<Rightarrow> ScenePoint) \<Rightarrow> (jsnum \<Rightarrow> jsnum \<Rightarrow> jsnum \<Rightarrow> ScenePoint) \<Rightarrow> bool \<Rightarrow> bool \<Rightarrow> jsnum \<Rightarrow> jsnum \<Rightarrow>
     MappingEvent list \<Rightarrow> MappingView" where
  "mapping_run rgb hsl hidden reduced w h es =
     fold (mapping_step rgb hsl) es (createMappingRenderer hidden reduced w h)"

section \<open>Frames as they are built\<close>

text \<open>
  A truck is told by its identifier: the builder's or, in the preview, that of the file
  \<^verbatim>\<open>public/spatial-preview.json\<close>.
\<close>

definition solid_id :: "string \<Rightarrow> bool" where
  "solid_id identifier \<longleftrightarrow> startsWith identifier ''vehicle:'' \<or> identifier = ''preview-truck''"

definition drawable :: "MappingEntity \<Rightarrow> bool" where
  "drawable e \<longleftrightarrow> finiteMapping e \<and> solid_kind (me_kind e) = solid_id (me_id e)"

definition mapping_frame_ok :: "MappingFrame \<Rightarrow> bool" where
  "mapping_frame_ok f \<longleftrightarrow> mfr_roadPointCount f = length (mfr_roadPositions f) \<and>
     pred_option (\<lambda>cs. length cs = length (mfr_roadPositions f)) (mfr_roadColors f) \<and>
     mfr_returnCount f = length (mfr_returnPositions f) \<and> length (mfr_returnColors f) = length (mfr_returnPositions f) \<and>
     list_all drawable (mfr_entities f)"

lemma mappingVehicle_drawable: "mappingVehicle parse rnd world vehicle peer = Some e \<Longrightarrow> solid_kind (me_kind e) = solid_id (me_id e)"
  unfolding mappingVehicle_def Let_def truckSize_def SIMULATED_TRUCK_SIZE_def prod.case
  by (elim map_option_eq_Some [THEN iffD1, elim_format] exE conjE, erule subst) (simp add: solid_kind_def solid_id_def)

lemma mapping_others_drawable:
  "e \<in> set (mappingObjects world vehicle) \<Longrightarrow> solid_kind (me_kind e) = solid_id (me_id e)"
  "e \<in> set (mappingRadar world) \<Longrightarrow> solid_kind (me_kind e) = solid_id (me_id e)"
  "e \<in> set (mappingObstacle parse world vehicle) \<Longrightarrow> solid_kind (me_kind e) = solid_id (me_id e)"
  by (auto simp: solid_kind_def solid_id_def mappingObjects_def mappingRadar_def mappingObstacle_def Let_def
    split: if_splits option.splits)

lemma mappingEntities_drawable:
  assumes "mappingEntities parse rnd world vehicle = Some entities"
  shows "list_all drawable entities"
proof -
  obtain peers where peers: "those (map (mappingVehicle parse rnd world vehicle)
      (filter (mappedPeer parse world vehicle) (ws_vehicles world))) = Some peers"
    and entities: "entities = filter finiteMapping
       (peers @ mappingObjects world vehicle @ mappingRadar world @ mappingObstacle parse world vehicle)"
    using assms by (auto simp: mappingEntities_def)
  have "solid_kind (me_kind e) = solid_id (me_id e)" if "e \<in> set peers" for e
  proof -
    from those_member [OF peers that] obtain peer where "Some e = mappingVehicle parse rnd world vehicle peer"
      unfolding set_map by (elim imageE)
    then show ?thesis by (rule mappingVehicle_drawable [OF sym])
  qed
  then show ?thesis using mapping_others_drawable unfolding entities by (auto simp: list_all_iff drawable_def)
qed

lemma frameRoad_colors:
  "frameRoad parse height world vehicle online cache = Some (road, cache') \<Longrightarrow>
     pred_option (\<lambda>cs. length cs = length (rd_positions road)) (rd_colors road)"
  by (auto simp: frameRoad_def Let_def split: if_splits option.splits prod.splits)

lemma built_mapping_ok:
  assumes "buildMappingFrame parse rnd height world vehicle sensors online preview cache = Some (f, cache')"
    and "pred_option (\<lambda>p. list_all drawable (pre_entities p)) preview"
  shows "mapping_frame_ok f"
proof -
  obtain road where road: "frameRoad parse height world vehicle online cache = Some (road, cache')"
    and f: "mfr_roadPositions f = rd_positions road" "mfr_roadColors f = rd_colors road"
      "mfr_roadPointCount f = length (rd_positions road)"
      "mfr_returnCount f = length (mfr_returnPositions f)" "length (mfr_returnColors f) = length (mfr_returnPositions f)"
      "(\<exists>p. preview = Some p \<and> mfr_entities f = pre_entities p) \<or> mfr_entities f = [] \<or>
         mappingEntities parse rnd world vehicle = Some (mfr_entities f)"
    using assms(1) unfolding buildMappingFrame_def
    by (auto simp: Let_def bind_eq_Some_conv split: option.splits if_splits)
  then show ?thesis
    using assms(2) frameRoad_colors [OF road] mappingEntities_drawable by (auto simp: mapping_frame_ok_def)
qed

section \<open>The layers\<close>

interpretation mapping_paths: keyed_layer lp_id createPathLine refreshMappingPath "\<lambda>_. True" "\<lambda>path line. line = createPathLine path"
  by unfold_locales (auto simp: createPathLine_def refreshMappingPath_def overwrite_def)

definition finite_place :: "MappedItem \<Rightarrow> bool" where
  "finite_place m \<longleftrightarrow> finite_coords (flat (mi_position m)) \<and> isFinite (mi_rotation m)"

definition mapped_shown :: "(string \<Rightarrow> ScenePoint) \<Rightarrow> MappingEntity \<Rightarrow> MappedItem \<Rightarrow> bool" where
  "mapped_shown rgb e m \<longleftrightarrow> mi_target m = me_position e \<and> mi_yawTarget m = - me_yawRad e \<and> mi_box m = me_size e \<and>
     mi_volume m = me_size e \<and> mi_boxVisible m = (\<not> solid_kind (me_kind e)) \<and>
     mi_mesh m = (if solid_kind (me_kind e) then Some (truckMesh rgb (me_size e)) else None) \<and> finite_place m \<and> drawable e"

lemma drawable_finite: "drawable e \<Longrightarrow> finite_coords (flat (me_position e)) \<and> isFinite (- me_yawRad e)"
  by (auto simp: drawable_def finiteMapping_def finite_coords_def)

interpretation mapped_layer: keyed_layer me_id "\<lambda>entity. refreshMapped rgb entity (createMapped rgb reduced now entity)"
    "refreshMapped rgb" drawable "mapped_shown rgb"
proof
  fix e
  assume "drawable e"
  then show "mapped_shown rgb e (refreshMapped rgb e (createMapped rgb reduced now e))"
    using drawable_finite by (simp add: mapped_shown_def refreshMapped_def createMapped_def finite_place_def)
next
  fix x y m
  assume "drawable x" "drawable y" "mapped_shown rgb y m" "me_id y = me_id x"
  then show "mapped_shown rgb x (refreshMapped rgb x m)"
    by (auto simp: mapped_shown_def refreshMapped_def finite_place_def drawable_def)
qed

text \<open>Gliding keeps what an item is drawn for, and does not leave the way to its target.\<close>

lemma finite_lerp:
  "finite_coords (flat p) \<Longrightarrow> finite_coords (flat q) \<Longrightarrow> finite_coords (flat (lerp p q alpha))"
  by (cases p; cases q) (auto simp: finite_coords_def lerp_def isFinite_iff)

lemma finite_yawDelta: "isFinite a \<Longrightarrow> isFinite b \<Longrightarrow> isFinite (yawDelta a b)"
  by (auto simp: yawDelta_def isFinite_iff)

lemma animate_shown:
  assumes "mapped_shown rgb e m"
  shows "mapped_shown rgb e (animateItem reduced time alpha m)"
proof -
  have "isFinite (mi_rotation m + yawDelta (mi_yawTarget m) (mi_rotation m) * Fin alpha)"
    using assms drawable_finite finite_yawDelta [of "mi_yawTarget m" "mi_rotation m"]
    by (intro finite_arith) (auto simp: mapped_shown_def finite_place_def)
  then show ?thesis
    using assms drawable_finite finite_lerp by (auto simp: mapped_shown_def animateItem_def finite_place_def)
qed

lemma atan2_unit:
  assumes "x\<^sup>2 + y\<^sup>2 = 1"
  shows "cos (atan2 y x) = x" "sin (atan2 y x) = y"
proof -
  have "cos (atan2 y x) = x \<and> sin (atan2 y x) = y"
  proof (cases "x = 0")
    case True
    then have "y = 1 \<or> y = - 1" using assms by (simp add: power2_eq_1_iff)
    then show ?thesis using True by (auto simp: atan2_def)
  next
    case False
    then have "1 + (y / x)\<^sup>2 = (1 / x)\<^sup>2" using assms by (simp add: power_divide field_simps)
    then have "sqrt (1 + (y / x)\<^sup>2) = \<bar>1 / x\<bar>" by (metis real_sqrt_abs)
    with False show ?thesis
      by (auto simp: atan2_def cos_arctan sin_arctan abs_if not_less)
  qed
  then show "cos (atan2 y x) = x" "sin (atan2 y x) = y" by simp_all
qed

lemma atan2_range: "\<bar>atan2 y x\<bar> \<le> pi"
  using arctan_bounded [of "y / x"] pi_gt_zero
  by (auto simp: atan2_def abs_le_iff divide_nonneg_neg divide_nonpos_neg zero_less_divide_iff arctan_le_zero_iff zero_le_arctan_iff)

text \<open>With the whole of the difference the heading is the target's, up to full turns; it turns the short way.\<close>

definition same_heading :: "jsnum \<Rightarrow> jsnum \<Rightarrow> bool" where
  "same_heading a b \<longleftrightarrow> js_sin a = js_sin b \<and> js_cos a = js_cos b"

lemma yawDelta_reaches:
  assumes "isFinite a" "isFinite b"
  shows "same_heading (b + yawDelta a b * Fin 1) a" "\<bar>yawDelta a b\<bar> \<le> js_pi"
proof -
  obtain r t where rt: "a = Fin t" "b = Fin r" using assms by (auto simp: isFinite_iff)
  let ?d = "atan2 (sin (t - r)) (cos (t - r))"
  have d: "cos ?d = cos (t - r)" "sin ?d = sin (t - r)" by (rule atan2_unit; simp)+
  then show "same_heading (b + yawDelta a b * Fin 1) a" "\<bar>yawDelta a b\<bar> \<le> js_pi"
    using atan2_range cos_add [of r "t - r"] sin_add [of r "t - r"]
    by (simp_all add: rt same_heading_def yawDelta_def cos_add sin_add)
qed

lemma lerp_reaches: "finite_coords (flat p) \<Longrightarrow> finite_coords (flat q) \<Longrightarrow> lerp p q 1 = q"
  by (cases p; cases q) (auto simp: finite_coords_def lerp_def isFinite_iff)

lemma lerp_between:
  assumes "0 \<le> alpha" "alpha \<le> 1"
  shows "\<exists>t\<in>{min a b..max a b}. Fin a + (Fin b - Fin a) * Fin alpha = Fin t"
proof -
  have "a + (b - a) * alpha = (1 - alpha) * a + alpha * b" by (simp add: algebra_simps)
  moreover have "min a b \<le> (1 - alpha) * a + alpha * b" "(1 - alpha) * a + alpha * b \<le> max a b"
    using convex_bound_le [of a "max a b" b "1 - alpha" alpha] convex_bound_le [of "- a" "- min a b" "- b" "1 - alpha" alpha] assms
    by (simp_all add: algebra_simps)
  ultimately show ?thesis by simp
qed

lemma glide_unit: "32 \<le> time - mv_previousRenderAt v \<or> mv_reduced v \<Longrightarrow> 0 \<le> glide v time \<and> glide v time \<le> 1"
  by (auto simp: glide_def)

section \<open>The renderer keeps up\<close>

definition item_settled :: "MappedItem \<Rightarrow> bool" where
  "item_settled m \<longleftrightarrow> mi_position m = mi_target m \<and> same_heading (mi_rotation m) (mi_yawTarget m) \<and>
     mi_scan m \<in> {None, Some 0.86}"

definition reveal_ok :: "real \<Rightarrow> MappedItem layer \<Rightarrow> bool" where
  "reveal_ok limit entities \<longleftrightarrow>
     list_all (\<lambda>(_, m). mi_scan m \<noteq> None \<longrightarrow> mi_scanStartedAt m + SCAN_REVEAL_MS \<le> limit) entities"

lemma scan_done: "reduced \<or> startedAt + SCAN_REVEAL_MS \<le> time \<Longrightarrow> scanOpacity reduced time startedAt = 0.86"
  by (auto simp: scanOpacity_def SCAN_REVEAL_MS_def Let_def min_def max_def field_simps)

lemma animate_settles:
  assumes "mapped_shown rgb e m" "mi_scan m \<noteq> None \<longrightarrow> reduced \<or> mi_scanStartedAt m + SCAN_REVEAL_MS \<le> time"
  shows "item_settled (animateItem reduced time 1 m)"
proof -
  have "isFinite (mi_yawTarget m)" "isFinite (mi_rotation m)" "finite_coords (flat (mi_position m))" "finite_coords (flat (mi_target m))"
    using assms(1) drawable_finite by (auto simp: mapped_shown_def finite_place_def)
  then show ?thesis
    using assms(2) lerp_reaches yawDelta_reaches(1) scan_done
    by (auto simp: item_settled_def animateItem_def simp del: num_literals)
qed

lemma fold_max_ge: "(a :: real) \<le> fold max xs a"
proof (induction xs arbitrary: a)
  case (Cons x xs)
  show ?case using Cons.IH [of "max x a"] by simp
qed simp

lemma fold_max_member: "x \<in> set xs \<Longrightarrow> (x :: real) \<le> fold max xs a"
proof (induction xs arbitrary: a)
  case (Cons y ys)
  show ?case
  proof (cases "x = y")
    case True
    then show ?thesis using fold_max_ge [of "max y a" ys] by simp
  next
    case False
    then show ?thesis using Cons by simp
  qed
qed simp

lemma animationEnd_reveals: "reveal_ok (animationEnd now entities) entities"
  unfolding reveal_ok_def animationEnd_def list_all_iff
  by (auto intro!: fold_max_member simp: rev_image_eqI)

text \<open>What a picture of a frame holds; the points beyond the room of the buffers are cut off.\<close>

definition road_colors :: "(jsnum \<Rightarrow> jsnum \<Rightarrow> jsnum \<Rightarrow> ScenePoint) \<Rightarrow> MappingFrame \<Rightarrow> ScenePoint list" where
  "road_colors hsl f =
     (case mfr_roadColors f of Some cs \<Rightarrow> cs | None \<Rightarrow> map (roadHue hsl) (mfr_roadPositions f))"

definition depicts_mapping ::
    "(string \<Rightarrow> ScenePoint) \<Rightarrow> (jsnum \<Rightarrow> jsnum \<Rightarrow> jsnum \<Rightarrow> ScenePoint) \<Rightarrow> MappingFrame \<Rightarrow> MappingPicture \<Rightarrow> bool" where
  "depicts_mapping rgb hsl f pic \<longleftrightarrow>
     mpic_road pic = take SHOWN_ROAD_POINTS (mfr_roadPositions f) \<and>
     mpic_roadColors pic = take SHOWN_ROAD_POINTS (road_colors hsl f) \<and>
     mpic_roadTransform pic = (case mfr_roadTransform f of Some t \<Rightarrow> t | None \<Rightarrow> ((0, 0, 0), 0)) \<and>
     mpic_returns pic = take SHOWN_RETURNS (mfr_returnPositions f) \<and>
     mpic_returnColors pic = take SHOWN_RETURNS (mfr_returnColors f) \<and>
     mpic_egoScale pic = truckScale rgb (mfr_egoSize f) \<and>
     mpic_camera pic = cameraFor (Some (mfr_source f)) (fst (mpic_size pic) / snd (mpic_size pic)) \<and>
     mpic_grid pic = gridFor (mfr_source f) \<and> mpic_pointSizes pic = pointSizesFor (mfr_source f) \<and>
     (\<forall>k. rel_option (\<lambda>path line. line = createPathLine path) (current_items lp_id (mfr_paths f) k) (map_of (mpic_paths pic) k)) \<and>
     (\<forall>k. rel_option (mapped_shown rgb) (current_items me_id (mfr_entities f) k) (map_of (mpic_entities pic) k))"

text \<open>The fields of the renderer: buffers, the arrays they were filled from, layers, camera and the end of the animation.\<close>

definition road_cached ::
    "(jsnum \<Rightarrow> jsnum \<Rightarrow> jsnum \<Rightarrow> ScenePoint) \<Rightarrow> (nat \<Rightarrow> ScenePoint list) \<Rightarrow> MappingView \<Rightarrow> bool" where
  "road_cached hsl heap v \<longleftrightarrow> (\<forall>r c n. mv_previous v = Some (r, c, n) \<longrightarrow>
     take n (mv_roadPositions v) = take n (heap r) \<and>
     take n (mv_roadColors v) = take n (case c of Some c' \<Rightarrow> heap c' | None \<Rightarrow> map (roadHue hsl) (heap r)))"

definition view_fits :: "MappingView \<Rightarrow> bool" where
  "view_fits v \<longleftrightarrow> mv_camera v = cameraFor (mv_source v) (mv_aspect v) \<and> mv_aspect v = fst (mv_size v) / snd (mv_size v) \<and>
     (\<forall>s. mv_source v = Some s \<longrightarrow> mv_grid v = gridFor s \<and> mv_pointSizes v = pointSizesFor s)"

definition mapping_buffers :: "MappingView \<Rightarrow> bool" where
  "mapping_buffers v \<longleftrightarrow> length (mv_roadPositions v) = SHOWN_ROAD_POINTS \<and> length (mv_roadColors v) = SHOWN_ROAD_POINTS \<and>
     length (mv_returnPositions v) = SHOWN_RETURNS \<and> length (mv_returnColors v) = SHOWN_RETURNS"

definition mapped_layer_ok :: "(string \<Rightarrow> ScenePoint) \<Rightarrow> MappedItem layer \<Rightarrow> bool" where
  "mapped_layer_ok rgb = keyed_layer.layer_ok me_id drawable (mapped_shown rgb)"

definition mapping_content ::
    "(string \<Rightarrow> ScenePoint) \<Rightarrow> (jsnum \<Rightarrow> jsnum \<Rightarrow> jsnum \<Rightarrow> ScenePoint) \<Rightarrow> (nat \<Rightarrow> ScenePoint list) \<Rightarrow> MappingView \<Rightarrow> bool" where
  "mapping_content rgb hsl heap v \<longleftrightarrow> mapping_buffers v \<and> road_cached hsl heap v \<and> view_fits v \<and>
     mapping_paths.layer_ok (mv_paths v) \<and> mapped_layer_ok rgb (mv_entities v) \<and> reveal_ok (mv_animateUntil v) (mv_entities v)"

definition all_settled :: "MappingView \<Rightarrow> bool" where
  "all_settled v \<longleftrightarrow> list_all (\<lambda>(_, m). item_settled m) (mv_entities v)"

definition mapping_inv ::
    "(string \<Rightarrow> ScenePoint) \<Rightarrow> (jsnum \<Rightarrow> jsnum \<Rightarrow> jsnum \<Rightarrow> ScenePoint) \<Rightarrow> (nat \<Rightarrow> ScenePoint list) \<Rightarrow> MappingView \<Rightarrow> bool" where
  "mapping_inv rgb hsl heap v \<longleftrightarrow> flags_ok v \<and> mapping_content rgb hsl heap v \<and>
     (canRender v \<and> \<not> fl_pending v \<longrightarrow> mv_shown v = Some (mappingPicture v) \<and> all_settled v \<and> (mv_previewActive v \<longrightarrow> mv_reduced v))"

lemma same_mapping:
  fixes v w :: MappingView
  assumes "FrameFlags.more v = FrameFlags.more w"
  shows "mappingPicture v = mappingPicture w" "mv_shown v = mv_shown w" "mv_reduced v = mv_reduced w"
    "mapping_content rgb hsl heap v = mapping_content rgb hsl heap w"
  using assms
  by (cases v; cases w; simp add: mappingPicture_def mapping_content_def mapping_buffers_def road_cached_def view_fits_def)+

lemma handlers_mapping [simp]:
  fixes v :: MappingView
  shows "mappingPicture (intersected b v) = mappingPicture v" "mappingPicture (pageVisibility h v) = mappingPicture v"
    "mappingPicture (contextLost v) = mappingPicture v" "mappingPicture (contextRestored v) = mappingPicture v"
    "mappingPicture (requestRender v) = mappingPicture v"
    "mv_shown (intersected b v) = mv_shown v" "mv_shown (pageVisibility h v) = mv_shown v"
    "mv_shown (contextLost v) = mv_shown v" "mv_shown (contextRestored v) = mv_shown v"
    "mv_shown (requestRender v) = mv_shown v"
    "mapping_content rgb hsl heap (intersected b v) = mapping_content rgb hsl heap v"
    "mapping_content rgb hsl heap (pageVisibility h v) = mapping_content rgb hsl heap v"
    "mapping_content rgb hsl heap (contextLost v) = mapping_content rgb hsl heap v"
    "mapping_content rgb hsl heap (contextRestored v) = mapping_content rgb hsl heap v"
    "mapping_content rgb hsl heap (requestRender v) = mapping_content rgb hsl heap v"
  by (rule same_mapping, simp)+

lemma mapping_request_inv: "mapping_content rgb hsl heap v \<Longrightarrow> flags_ok v \<Longrightarrow> mapping_inv rgb hsl heap (requestRender v)"
  using flags_ok_request [of v] by (auto simp: mapping_inv_def)

lemma mapping_handlers_inv:
  assumes "mapping_inv rgb hsl heap v"
  shows "mapping_inv rgb hsl heap (intersected b v)" "mapping_inv rgb hsl heap (pageVisibility h v)"
    "mapping_inv rgb hsl heap (contextLost v)" "mapping_inv rgb hsl heap (contextRestored v)"
proof -
  have ok: "flags_ok v" "mapping_content rgb hsl heap v" using assms by (simp_all add: mapping_inv_def)
  then show "mapping_inv rgb hsl heap (intersected b v)" "mapping_inv rgb hsl heap (pageVisibility h v)"
    "mapping_inv rgb hsl heap (contextLost v)" "mapping_inv rgb hsl heap (contextRestored v)"
    using handlers_ok [OF ok(1)] handlers_wake [OF ok(1)] by (auto simp: mapping_inv_def)
qed

section \<open>An update brings the scene up to date\<close>

fun arrays_ok :: "(nat \<Rightarrow> ScenePoint list) \<Rightarrow> nat \<times> nat option \<Rightarrow> MappingFrame \<Rightarrow> bool" where
  "arrays_ok heap (r, c) f \<longleftrightarrow> mfr_roadPositions f = heap r \<and> mfr_roadColors f = map_option heap c"

lemma showSource_fields [simp]:
  "fl_disposed (showSource s v) = fl_disposed v" "mv_source (showSource s v) = Some s" "mv_size (showSource s v) = mv_size v"
  "mv_roadPositions (showSource s v) = mv_roadPositions v" "mv_roadColors (showSource s v) = mv_roadColors v"
  "mv_previous (showSource s v) = mv_previous v" "mv_returnPositions (showSource s v) = mv_returnPositions v"
  "mv_returnColors (showSource s v) = mv_returnColors v" "mv_paths (showSource s v) = mv_paths v"
  "mv_entities (showSource s v) = mv_entities v" "mv_reduced (showSource s v) = mv_reduced v"
  "FrameFlags.truncate (showSource s v) = FrameFlags.truncate v"
  by (simp_all add: showSource_def frameCamera_def FrameFlags.truncate_def)

lemma showSource_fits: "view_fits v \<Longrightarrow> view_fits (showSource s v)"
  by (simp add: view_fits_def showSource_def frameCamera_def)

lemma showRoad_shows:
  fixes v :: MappingView
  assumes "length (mv_roadPositions v) = SHOWN_ROAD_POINTS" "length (mv_roadColors v) = SHOWN_ROAD_POINTS" "road_cached hsl heap v"
    and "mapping_frame_ok f" "arrays_ok heap arrays f" "w = showRoad hsl arrays f v"
  shows "length (mv_roadPositions w) = SHOWN_ROAD_POINTS \<and> length (mv_roadColors w) = SHOWN_ROAD_POINTS \<and> road_cached hsl heap w \<and>
    take (mv_roadRange w) (mv_roadPositions w) = take SHOWN_ROAD_POINTS (mfr_roadPositions f) \<and>
    take (mv_roadRange w) (mv_roadColors w) = take SHOWN_ROAD_POINTS (road_colors hsl f)"
proof -
  obtain r c where arrays: "arrays = (r, c)" by (cases arrays)
  let ?n = "min (length (heap r)) SHOWN_ROAD_POINTS"
  have f: "mfr_roadPositions f = heap r" "mfr_roadPointCount f = length (heap r)"
    "road_colors hsl f = (case c of Some c' \<Rightarrow> heap c' | None \<Rightarrow> map (roadHue hsl) (heap r))"
    "mfr_roadColors f = map_option heap c" "length (road_colors hsl f) = length (heap r)"
    using assms(4,5) by (auto simp: mapping_frame_ok_def arrays road_colors_def split: option.splits)
  have range: "mv_roadRange w = ?n" by (simp add: assms(6) showRoad_def arrays f(2) Let_def)
  have cut: "take ?n xs = take SHOWN_ROAD_POINTS xs" if "length xs = length (heap r)" for xs :: "ScenePoint list"
    using that by (simp add: min_def)
  show ?thesis
  proof (cases "mv_previous v = Some (r, c, ?n)")
    case True
    then have "w = v\<lparr>mv_roadRange := ?n\<rparr>" by (simp add: assms(6) showRoad_def arrays f(2) Let_def)
    then show ?thesis
      using assms(1-3) True f(1,3) cut [of "heap r"] cut [OF f(5)] by (simp add: road_cached_def)
  next
    case False
    have w: "mv_roadPositions w = overwrite (take ?n (heap r)) (mv_roadPositions v)"
      "mv_roadColors w = overwrite (take ?n (road_colors hsl f)) (mv_roadColors v)" "mv_previous w = Some (r, c, ?n)"
      using False by (simp_all add: assms(6) showRoad_def arrays f Let_def fillRoadColors_def take_map split: option.splits)
    have "take ?n (mv_roadPositions w) = take ?n (heap r)" "take ?n (mv_roadColors w) = take ?n (road_colors hsl f)"
      unfolding w by (intro take_overwrite; simp add: f(5))+
    then show ?thesis
      using assms(1,2) range cut [of "heap r"] cut [OF f(5)] f(1,3,5) w(3) by (auto simp: road_cached_def w(1,2))
  qed
qed

lemma showRoad_fields [simp]:
  "fl_disposed (showRoad hsl arrays f v) = fl_disposed v" "mv_size (showRoad hsl arrays f v) = mv_size v"
  "mv_returnPositions (showRoad hsl arrays f v) = mv_returnPositions v"
  "mv_returnColors (showRoad hsl arrays f v) = mv_returnColors v" "mv_paths (showRoad hsl arrays f v) = mv_paths v"
  "mv_entities (showRoad hsl arrays f v) = mv_entities v" "mv_source (showRoad hsl arrays f v) = mv_source v"
  "mv_reduced (showRoad hsl arrays f v) = mv_reduced v" "mv_roadTransform (showRoad hsl arrays f v) = mv_roadTransform v"
  "mv_egoScale (showRoad hsl arrays f v) = mv_egoScale v" "view_fits (showRoad hsl arrays f v) = view_fits v"
  "FrameFlags.truncate (showRoad hsl arrays f v) = FrameFlags.truncate v"
  by (simp_all add: showRoad_def Let_def view_fits_def FrameFlags.truncate_def split: prod.split)

lemma showReturns_fields [simp]:
  "fl_disposed (showReturns f v) = fl_disposed v" "mv_size (showReturns f v) = mv_size v"
  "mv_roadPositions (showReturns f v) = mv_roadPositions v" "mv_roadColors (showReturns f v) = mv_roadColors v"
  "mv_roadRange (showReturns f v) = mv_roadRange v" "mv_paths (showReturns f v) = mv_paths v"
  "mv_entities (showReturns f v) = mv_entities v" "mv_source (showReturns f v) = mv_source v"
  "mv_reduced (showReturns f v) = mv_reduced v" "mv_roadTransform (showReturns f v) = mv_roadTransform v"
  "mv_egoScale (showReturns f v) = mv_egoScale v" "view_fits (showReturns f v) = view_fits v"
  "road_cached hsl heap (showReturns f v) = road_cached hsl heap v"
  "FrameFlags.truncate (showReturns f v) = FrameFlags.truncate v"
  by (simp_all add: showReturns_def Let_def view_fits_def road_cached_def FrameFlags.truncate_def)

lemma showReturns_shows:
  fixes v :: MappingView
  assumes "length (mv_returnPositions v) = SHOWN_RETURNS" "length (mv_returnColors v) = SHOWN_RETURNS" "mapping_frame_ok f"
    and "w = showReturns f v"
  shows "length (mv_returnPositions w) = SHOWN_RETURNS \<and> length (mv_returnColors w) = SHOWN_RETURNS \<and>
    take (mv_returnRange w) (mv_returnPositions w) = take SHOWN_RETURNS (mfr_returnPositions f) \<and>
    take (mv_returnRange w) (mv_returnColors w) = take SHOWN_RETURNS (mfr_returnColors f)"
  using assms by (auto simp: showReturns_def Let_def mapping_frame_ok_def overwrite_def min_def)

text \<open>An update in two parts: the fields, and the request for a frame.\<close>

definition mapping_scene ::
    "(string \<Rightarrow> ScenePoint) \<Rightarrow> (jsnum \<Rightarrow> jsnum \<Rightarrow> jsnum \<Rightarrow> ScenePoint) \<Rightarrow> nat \<times> nat option \<Rightarrow> MappingFrame \<Rightarrow>
     MappingView \<Rightarrow> MappingView" where
  "mapping_scene rgb hsl arrays f v = showReturns f (showRoad hsl arrays f
     ((showSource (mfr_source f) (v\<lparr>mv_previewActive := (mfr_source f = SIMULATED_PREVIEW)\<rparr>))
        \<lparr>mv_egoScale := truckScale rgb (mfr_egoSize f),
         mv_roadTransform := (case mfr_roadTransform f of Some t \<Rightarrow> t | None \<Rightarrow> ((0, 0, 0), 0))\<rparr>))"

definition mapping_layers ::
    "(string \<Rightarrow> ScenePoint) \<Rightarrow> real \<Rightarrow> MappingFrame \<Rightarrow> MappingView \<Rightarrow> MappingView" where
  "mapping_layers rgb now f w =
     (let entities = reconcileMapped rgb (mv_reduced w) now (mfr_entities f) (mv_entities w)
      in w\<lparr>mv_paths := reconcileMappingPaths (mfr_paths f) (mv_paths w), mv_entities := entities,
           mv_animateUntil := animationEnd now entities,
           mv_dataset := (mv_roadRange w, mv_returnRange w, length (mfr_entities f), Some (mfr_source f))\<rparr>)"

lemma updateMapping_parts:
  "\<not> fl_disposed v \<Longrightarrow> updateMapping rgb hsl now arrays f v =
     requestRender (mapping_layers rgb now f (mapping_scene rgb hsl arrays f v))"
  by (simp add: updateMapping_def mapping_layers_def mapping_scene_def Let_def)

lemma mapping_layers_shows:
  assumes "mapping_paths.layer_ok (mv_paths w)" "mapped_layer_ok rgb (mv_entities w)" "mapping_frame_ok f"
    and "w' = mapping_layers rgb now f w"
  shows "mapping_paths.layer_ok (mv_paths w')" "mapped_layer_ok rgb (mv_entities w')"
    "reveal_ok (mv_animateUntil w') (mv_entities w')"
    "rel_option (\<lambda>path line. line = createPathLine path) (current_items lp_id (mfr_paths f) k) (map_of (mv_paths w') k)"
    "rel_option (mapped_shown rgb) (current_items me_id (mfr_entities f) k) (map_of (mv_entities w') k)"
proof -
  have w': "mv_paths w' = reconcileMappingPaths (mfr_paths f) (mv_paths w)"
    "mv_entities w' = reconcileMapped rgb (mv_reduced w) now (mfr_entities f) (mv_entities w)"
    "mv_animateUntil w' = animationEnd now (mv_entities w')"
    using assms(4) by (simp_all add: mapping_layers_def Let_def)
  have "list_all drawable (mfr_entities f)" using assms(3) by (simp add: mapping_frame_ok_def)
  then show "mapped_layer_ok rgb (mv_entities w')"
    "rel_option (mapped_shown rgb) (current_items me_id (mfr_entities f) k) (map_of (mv_entities w') k)"
    using mapped_layer.reconcile_pruned_shows [OF assms(2) [unfolded mapped_layer_ok_def]]
    unfolding w' reconcileMapped_def mapped_layer_ok_def by blast+
  show "mapping_paths.layer_ok (mv_paths w')"
    "rel_option (\<lambda>path line. line = createPathLine path) (current_items lp_id (mfr_paths f) k) (map_of (mv_paths w') k)"
    using mapping_paths.reconcile_pruned_shows [OF assms(1), of "mfr_paths f" k]
    unfolding w' reconcileMappingPaths_def by (auto simp: list_all_iff)
  show "reveal_ok (mv_animateUntil w') (mv_entities w')" unfolding w'(3) by (rule animationEnd_reveals)
qed

lemma mapping_layers_fields [simp]:
  "mv_roadPositions (mapping_layers rgb now f w) = mv_roadPositions w" "mv_roadColors (mapping_layers rgb now f w) = mv_roadColors w"
  "mv_roadRange (mapping_layers rgb now f w) = mv_roadRange w" "mv_returnRange (mapping_layers rgb now f w) = mv_returnRange w"
  "mv_returnPositions (mapping_layers rgb now f w) = mv_returnPositions w"
  "mv_returnColors (mapping_layers rgb now f w) = mv_returnColors w" "view_fits (mapping_layers rgb now f w) = view_fits w"
  "road_cached hsl heap (mapping_layers rgb now f w) = road_cached hsl heap w" "mv_size (mapping_layers rgb now f w) = mv_size w"
  "mv_egoScale (mapping_layers rgb now f w) = mv_egoScale w" "mv_roadTransform (mapping_layers rgb now f w) = mv_roadTransform w"
  "mv_source (mapping_layers rgb now f w) = mv_source w"
  "FrameFlags.truncate (mapping_layers rgb now f w) = FrameFlags.truncate w"
  by (simp_all add: mapping_layers_def Let_def view_fits_def road_cached_def FrameFlags.truncate_def)

lemma view_fits_camera:
  "view_fits v \<Longrightarrow> mv_source v = Some s \<Longrightarrow>
     mv_camera v = cameraFor (Some s) (fst (mv_size v) / snd (mv_size v)) \<and> mv_grid v = gridFor s \<and> mv_pointSizes v = pointSizesFor s"
  by (simp add: view_fits_def)

lemma updateMapping_shows:
  assumes "mapping_content rgb hsl heap v" "mapping_frame_ok f" "arrays_ok heap arrays f"
    and "w = mapping_layers rgb now f (mapping_scene rgb hsl arrays f v)"
  shows "mapping_content rgb hsl heap w \<and> depicts_mapping rgb hsl f (mappingPicture w)"
proof -
  define u where "u = (showSource (mfr_source f) (v\<lparr>mv_previewActive := (mfr_source f = SIMULATED_PREVIEW)\<rparr>))
        \<lparr>mv_egoScale := truckScale rgb (mfr_egoSize f),
         mv_roadTransform := (case mfr_roadTransform f of Some t \<Rightarrow> t | None \<Rightarrow> ((0, 0, 0), 0))\<rparr>"
  define r where "r = showRoad hsl arrays f u"
  define t where "t = showReturns f r"
  have w: "w = mapping_layers rgb now f t" using assms(4) by (simp add: mapping_scene_def u_def r_def t_def)
  have v: "mapping_buffers v" "road_cached hsl heap v" "view_fits v" "mapping_paths.layer_ok (mv_paths v)"
    "mapped_layer_ok rgb (mv_entities v)"
    using assms(1) by (simp_all add: mapping_content_def)
  have u: "length (mv_roadPositions u) = SHOWN_ROAD_POINTS" "length (mv_roadColors u) = SHOWN_ROAD_POINTS" "road_cached hsl heap u"
    "view_fits u" "mv_source u = Some (mfr_source f)"
    using v(1,2) showSource_fits [of "v\<lparr>mv_previewActive := (mfr_source f = SIMULATED_PREVIEW)\<rparr>" "mfr_source f"] v(3)
    by (simp_all add: u_def mapping_buffers_def road_cached_def view_fits_def)
  note road = showRoad_shows [OF u(1-3) assms(2,3) r_def]
  have "length (mv_returnPositions r) = SHOWN_RETURNS" "length (mv_returnColors r) = SHOWN_RETURNS"
    using v(1) by (simp_all add: r_def u_def mapping_buffers_def)
  note returns = showReturns_shows [OF this assms(2) t_def]
  have t: "mapping_paths.layer_ok (mv_paths t)" "mapped_layer_ok rgb (mv_entities t)" "view_fits w" "mv_source w = Some (mfr_source f)"
    using v(4,5) u(4,5) by (simp_all add: w t_def r_def u_def)
  note layers = mapping_layers_shows [OF t(1,2) assms(2) w]
  have "mapping_content rgb hsl heap w"
    unfolding mapping_content_def mapping_buffers_def
    using layers(1-3) t(3) road returns by (simp add: w) (simp add: t_def)
  moreover have "depicts_mapping rgb hsl f (mappingPicture w)"
    unfolding depicts_mapping_def mappingPicture_def MappingPicture.simps
    using layers(4,5) view_fits_camera [OF t(3,4)] road returns
    by (intro conjI allI) (simp_all add: w t_def r_def u_def)
  ultimately show ?thesis by simp
qed

section \<open>Frames settle\<close>

lemma mapped_layer_member:
  assumes "mapped_layer_ok rgb layer" "(k, m) \<in> set layer"
  shows "\<exists>e. mapped_shown rgb e m"
  using assms by (auto simp: mapped_layer_ok_def mapped_layer.layer_ok_def) blast

lemma drawMapping_entities:
  "mv_entities (drawMapping time v) = map (\<lambda>(k, m). (k, animateItem (mv_reduced v) time (glide v time) m)) (mv_entities v)"
  by (simp add: drawMapping_def Let_def)

lemma drawMapping_fields [simp]:
  "mv_reduced (drawMapping time v) = mv_reduced v" "mv_animateUntil (drawMapping time v) = mv_animateUntil v"
  "mv_previewActive (drawMapping time v) = mv_previewActive v" "mv_paths (drawMapping time v) = mv_paths v"
  "mapping_buffers (drawMapping time v) = mapping_buffers v" "road_cached hsl heap (drawMapping time v) = road_cached hsl heap v"
  "view_fits (drawMapping time v) = view_fits v" "mv_previousRenderAt (drawMapping time v) = time"
  "FrameFlags.truncate (drawMapping time v) = FrameFlags.truncate v"
  by (simp_all add: drawMapping_def Let_def mapping_buffers_def road_cached_def view_fits_def FrameFlags.truncate_def)

lemma drawMapping_shown: "mv_shown (drawMapping time v) = Some (mappingPicture (drawMapping time v))"
  by (simp add: drawMapping_def Let_def mappingPicture_def)

lemma drawMapping_content:
  assumes "mapping_content rgb hsl heap v"
  shows "mapping_content rgb hsl heap (drawMapping time v)"
proof -
  have "mapped_layer_ok rgb (mv_entities (drawMapping time v))"
    using assms animate_shown unfolding drawMapping_entities mapped_layer_ok_def
    by (intro mapped_layer.mapped_ok) (simp_all add: mapping_content_def mapped_layer_ok_def)
  moreover have "reveal_ok (mv_animateUntil v) (mv_entities (drawMapping time v))"
    using assms unfolding drawMapping_entities
    by (fastforce simp: mapping_content_def reveal_ok_def list_all_iff animateItem_def)
  ultimately show ?thesis using assms by (simp add: mapping_content_def)
qed

text \<open>A picture drawn with reduced motion, or at the end of the animation or later, is the scene at rest.\<close>

lemma drawMapping_settled:
  assumes "mapping_content rgb hsl heap v" "mv_reduced v \<or> mv_animateUntil v \<le> time"
  shows "all_settled (drawMapping time v)"
  unfolding all_settled_def drawMapping_entities list_all_iff
proof (clarsimp)
  fix k m
  assume m: "(k, m) \<in> set (mv_entities v)"
  obtain e where "mapped_shown rgb e m"
    using assms(1) mapped_layer_member [OF _ m] by (auto simp: mapping_content_def)
  moreover have "mi_scan m \<noteq> None \<longrightarrow> mv_reduced v \<or> mi_scanStartedAt m + SCAN_REVEAL_MS \<le> time"
    using assms m by (force simp: mapping_content_def reveal_ok_def list_all_iff)
  moreover have "glide v time = 1" using assms(2) by (auto simp: glide_def)
  ultimately show "item_settled (animateItem (mv_reduced v) time (glide v time) m)" using animate_settles by simp
qed

lemma flags_of_truncate:
  fixes v :: "'a FrameFlags_scheme"
  assumes "FrameFlags.truncate v = FrameFlags.truncate w"
  shows "canRender v = canRender w" "fl_pending v = fl_pending w" "fl_disposed v = fl_disposed w"
  using assms by (simp_all add: FrameFlags.truncate_def canRender_def)

lemma drawMapping_flags [simp]:
  "canRender (drawMapping time v) = canRender v" "fl_pending (drawMapping time v) = fl_pending v"
  "fl_disposed (drawMapping time v) = fl_disposed v"
  by (simp_all add: drawMapping_def Let_def canRender_def)

lemma clear_pending:
  fixes v :: MappingView
  shows "mapping_content rgb hsl heap (v\<lparr>fl_pending := False\<rparr>) = mapping_content rgb hsl heap v"
    "canRender (v\<lparr>fl_pending := False\<rparr>) = canRender v"
  by (simp_all add: mapping_content_def mapping_buffers_def road_cached_def view_fits_def canRender_def)

lemma renderMapping_inv:
  assumes "mapping_inv rgb hsl heap v"
  shows "mapping_inv rgb hsl heap (renderMapping time v)"
proof (cases "fl_pending v")
  case False
  then show ?thesis using assms by (simp add: renderMapping_def)
next
  case True
  let ?v = "v\<lparr>fl_pending := False\<rparr>"
  have ok: "canRender ?v" "mapping_content rgb hsl heap ?v" "flags_ok ?v"
    using assms True by (simp_all add: mapping_inv_def flags_ok_def clear_pending)
  have draw: "mapping_content rgb hsl heap (drawMapping time ?v)" "flags_ok (drawMapping time ?v)"
    using drawMapping_content [OF ok(2)] by (simp_all add: flags_ok_def)
  have "mapping_inv rgb hsl heap (requestRender ?v)" "mapping_inv rgb hsl heap (requestRender (drawMapping time ?v))"
    using mapping_request_inv ok(2,3) draw by blast+
  moreover have "mapping_inv rgb hsl heap (drawMapping time ?v)"
    if "mv_reduced v \<or> \<not> mv_previewActive v \<and> mv_animateUntil v \<le> time"
    using that draw drawMapping_shown drawMapping_settled [OF ok(2), of time] by (auto simp: mapping_inv_def)
  ultimately show ?thesis
    using True ok(1) by (auto simp: renderMapping_def Let_def not_less)
qed

lemma resizeMapping_scene:
  fixes v :: MappingView
  assumes "w = (frameCamera (v\<lparr>mv_aspect := width / height\<rparr>))\<lparr>mv_size := (width, height)\<rparr>"
  shows "mapping_buffers v \<Longrightarrow> mapping_buffers w" "road_cached hsl heap v \<Longrightarrow> road_cached hsl heap w"
    "\<forall>s. mv_source v = Some s \<longrightarrow> mv_grid v = gridFor s \<and> mv_pointSizes v = pointSizesFor s \<Longrightarrow> view_fits w"
    "mv_paths w = mv_paths v" "mv_entities w = mv_entities v" "mv_animateUntil w = mv_animateUntil v"
    "FrameFlags.truncate w = FrameFlags.truncate v"
  using assms by (simp_all add: frameCamera_def mapping_buffers_def road_cached_def view_fits_def FrameFlags.truncate_def)

lemma resizeMapping_inv:
  assumes "mapping_buffers v" "road_cached hsl heap v" "mapping_paths.layer_ok (mv_paths v)" "mapped_layer_ok rgb (mv_entities v)"
    and "reveal_ok (mv_animateUntil v) (mv_entities v)" "flags_ok v" "\<not> fl_disposed v"
    and "\<forall>s. mv_source v = Some s \<longrightarrow> mv_grid v = gridFor s \<and> mv_pointSizes v = pointSizesFor s"
  shows "mapping_inv rgb hsl heap (resizeMapping w h v)"
proof -
  define u where "u = (frameCamera (v\<lparr>mv_aspect := js_max 1 w / js_max 1 h\<rparr>))\<lparr>mv_size := (js_max 1 w, js_max 1 h)\<rparr>"
  note scene = resizeMapping_scene [OF u_def]
  have "flags_ok u" using assms(6) flags_of_truncate [OF scene(7)] by (simp add: flags_ok_def)
  moreover have "mapping_content rgb hsl heap u"
    using assms scene by (simp add: mapping_content_def)
  moreover have "resizeMapping w h v = requestRender u" using assms(7) by (simp add: resizeMapping_def u_def Let_def)
  ultimately show ?thesis using mapping_request_inv by simp
qed

lemma mapping_inv_start: "mapping_inv rgb hsl heap (createMappingRenderer hidden reduced w h)"
  unfolding createMappingRenderer_def
  by (rule resizeMapping_inv)
    (simp_all add: mapping_buffers_def road_cached_def reveal_ok_def flags_ok_def mapped_layer_ok_def mapped_layer.empty_ok
      mapping_paths.empty_ok)

fun mapping_event_ok :: "(nat \<Rightarrow> ScenePoint list) \<Rightarrow> MappingEvent \<Rightarrow> bool" where
  "mapping_event_ok heap (MapUpdated now arrays f) = (mapping_frame_ok f \<and> arrays_ok heap arrays f)"
| "mapping_event_ok heap _ = True"

lemma mapping_inv_step:
  assumes "mapping_inv rgb hsl heap v" "mapping_event_ok heap e"
  shows "mapping_inv rgb hsl heap (mapping_step rgb hsl e v)"
proof (cases e)
  case (MapUpdated now arrays f)
  show ?thesis
  proof (cases "fl_disposed v")
    case True
    then show ?thesis using assms MapUpdated by (simp add: updateMapping_def)
  next
    case False
    let ?w = "mapping_layers rgb now f (mapping_scene rgb hsl arrays f v)"
    have "FrameFlags.truncate ?w = FrameFlags.truncate v"
      by (simp add: mapping_scene_def) (simp add: FrameFlags.truncate_def showSource_def frameCamera_def)
    then have "flags_ok ?w" using assms(1) flags_of_truncate [of ?w v] by (simp add: flags_ok_def mapping_inv_def)
    moreover have "mapping_content rgb hsl heap ?w"
      using assms MapUpdated updateMapping_shows [of rgb hsl heap v f arrays ?w now] by (simp add: mapping_inv_def)
    ultimately show ?thesis
      using mapping_request_inv MapUpdated False by (simp add: updateMapping_parts)
  qed
next
  case (MapFrameFired time)
  then show ?thesis using renderMapping_inv assms(1) by simp
next
  case (MapResized w h)
  then show ?thesis
    using assms(1) resizeMapping_inv [of v hsl heap rgb w h]
    by (cases "fl_disposed v") (auto simp: mapping_inv_def mapping_content_def view_fits_def resizeMapping_def)
next
  case (MapMotion b)
  have "mapping_content rgb hsl heap (v\<lparr>mv_reduced := b\<rparr>)" "flags_ok (v\<lparr>mv_reduced := b\<rparr>)"
    using assms(1)
    by (simp_all add: mapping_inv_def mapping_content_def mapping_buffers_def road_cached_def view_fits_def flags_ok_def canRender_def)
  then show ?thesis
    using MapMotion mapping_request_inv by (auto simp: motionChanged_def Let_def mapping_inv_def canRender_def)
next
  case MapDisposed
  then show ?thesis
    using assms(1) mapping_paths.empty_ok mapped_layer.empty_ok
    by (auto simp: mapping_inv_def mapping_content_def mapping_buffers_def road_cached_def view_fits_def disposeMapping_def
        flags_ok_def canRender_def mapped_layer_ok_def reveal_ok_def)
qed (use assms(1) mapping_handlers_inv in simp_all)

lemma mapping_asleep:
  assumes "mapping_inv rgb hsl heap v" "\<not> canRender v"
  shows "mv_shown (mapping_step rgb hsl e v) = mv_shown v"
proof (cases e)
  case (MapUpdated now arrays f)
  have "mv_shown (mapping_layers rgb now f (mapping_scene rgb hsl arrays f v)) = mv_shown v"
    by (simp add: mapping_layers_def mapping_scene_def showReturns_def showRoad_def showSource_def frameCamera_def Let_def
        split: prod.split)
  then show ?thesis using MapUpdated updateMapping_parts [of v rgb hsl now arrays f] by (cases "fl_disposed v") (simp_all add: updateMapping_def)
next
  case (MapFrameFired time)
  then show ?thesis using assms by (simp add: renderMapping_def mapping_inv_def flags_ok_def)
next
  case (MapResized w h)
  then show ?thesis by (simp add: resizeMapping_def frameCamera_def Let_def)
next
  case (MapMotion b)
  then show ?thesis by (simp add: motionChanged_def Let_def)
next
  case MapDisposed
  then show ?thesis by (simp add: disposeMapping_def)
qed simp_all

interpretation mapping_loop: frame_loop "createMappingRenderer hidden reduced w h" "mapping_step rgb hsl" "mapping_event_ok heap"
    "mapping_inv rgb hsl heap" canRender fl_pending mv_shown mappingPicture
  by unfold_locales (use mapping_inv_start mapping_inv_step mapping_asleep in \<open>auto simp: mapping_inv_def\<close>)

text \<open>What happens between two updates moves the entities and fits the camera, and keeps the rest.\<close>

fun mapping_quiet :: "MappingEvent \<Rightarrow> bool" where
  "mapping_quiet (MapUpdated now arrays f) = False"
| "mapping_quiet MapDisposed = False"
| "mapping_quiet _ = True"

definition scene_of ::
    "(string \<Rightarrow> ScenePoint) \<Rightarrow> (jsnum \<Rightarrow> jsnum \<Rightarrow> jsnum \<Rightarrow> ScenePoint) \<Rightarrow> MappingFrame \<Rightarrow> MappingView \<Rightarrow> bool" where
  "scene_of rgb hsl f v \<longleftrightarrow> depicts_mapping rgb hsl f (mappingPicture v) \<and> mv_source v = Some (mfr_source f)"

lemma same_scene:
  fixes v w :: MappingView
  assumes "FrameFlags.more v = FrameFlags.more w"
  shows "scene_of rgb hsl f v = scene_of rgb hsl f w"
  using assms by (cases v; cases w; simp add: scene_of_def mappingPicture_def)

lemma scene_request [simp]:
  fixes v :: MappingView
  shows "scene_of rgb hsl f (requestRender v) = scene_of rgb hsl f v"
    "scene_of rgb hsl f (intersected b v) = scene_of rgb hsl f v" "scene_of rgb hsl f (pageVisibility h v) = scene_of rgb hsl f v"
    "scene_of rgb hsl f (contextLost v) = scene_of rgb hsl f v" "scene_of rgb hsl f (contextRestored v) = scene_of rgb hsl f v"
    "scene_of rgb hsl f (v\<lparr>fl_pending := p\<rparr>) = scene_of rgb hsl f v"
  by (rule same_scene, simp)+

lemma scene_draw: "scene_of rgb hsl f v \<Longrightarrow> scene_of rgb hsl f (drawMapping time v)"
  using animate_shown
  by (auto simp: scene_of_def depicts_mapping_def mappingPicture_def drawMapping_def Let_def map_of_map option.rel_map
      intro: option.rel_mono_strong)

lemma quiet_scene:
  assumes "scene_of rgb hsl f v" "mapping_quiet e"
  shows "scene_of rgb hsl f (mapping_step rgb hsl e v)"
proof (cases e)
  case (MapResized w h)
  then show ?thesis
    using assms(1)
    by (simp add: resizeMapping_def Let_def) (simp add: scene_of_def depicts_mapping_def mappingPicture_def frameCamera_def)
next
  case (MapFrameFired time)
  then show ?thesis using assms(1) scene_draw [of rgb hsl f "v\<lparr>fl_pending := False\<rparr>" time] by (simp add: renderMapping_def Let_def)
next
  case (MapMotion b)
  then show ?thesis
    using assms(1)
    by (simp add: motionChanged_def Let_def) (simp add: scene_of_def mappingPicture_def)
qed (use assms in simp_all)

lemma quiet_run_scene:
  assumes "scene_of rgb hsl f v" "list_all mapping_quiet es"
  shows "scene_of rgb hsl f (fold (mapping_step rgb hsl) es v)"
  using assms by (induction es arbitrary: v) (simp_all add: quiet_scene)

lemma mapping_quiet_ok: "list_all mapping_quiet es \<Longrightarrow> list_all (mapping_event_ok heap) es"
  by (erule list.pred_mono_strong) (auto elim: mapping_quiet.elims)

text \<open>
  C26. The spatial map shows the newest frame and comes to rest on it. After any events, an update with a frame as they are built and
  any further events short of another update or of disposing, the scene holds that frame: its points and colours up to
  the room of the buffers (also where the points were kept because the arrays are the same), its paths, the camera of its source, and
  an item for exactly its entities, each bound for its place, heading and size. Where the map can be seen, either a frame is on its
  way or what was drawn last is the scene with every item at its target and fully revealed; where it cannot, no frame is on its way.
\<close>

theorem mapping_shows_frame:
  assumes "list_all (mapping_event_ok heap) es" "mapping_frame_ok f" "arrays_ok heap arrays f" "list_all mapping_quiet fs"
    and "\<not> fl_disposed (mapping_run rgb hsl hidden reduced w h es)"
    and "v = mapping_run rgb hsl hidden reduced w h (es @ MapUpdated now arrays f # fs)"
  shows "depicts_mapping rgb hsl f (mappingPicture v) \<and>
    (if canRender v then fl_pending v \<or> mv_shown v = Some (mappingPicture v) \<and> all_settled v else \<not> fl_pending v)"
proof -
  let ?start = "mapping_run rgb hsl hidden reduced w h es"
  let ?updated = "mapping_layers rgb now f (mapping_scene rgb hsl arrays f ?start)"
  have inv: "mapping_inv rgb hsl heap ?start"
    unfolding mapping_run_def by (rule mapping_loop.run_inv [OF assms(1)])
  have v: "v = fold (mapping_step rgb hsl) fs (requestRender ?updated)"
    using assms(5,6) updateMapping_parts [of ?start] by (simp add: mapping_run_def)
  have "scene_of rgb hsl f ?updated"
    using updateMapping_shows [of rgb hsl heap ?start f arrays ?updated now] inv assms(2,3)
    by (simp add: mapping_inv_def scene_of_def) (simp add: mapping_scene_def)
  then have "scene_of rgb hsl f v" unfolding v using assms(4) by (intro quiet_run_scene) simp_all
  moreover have "mapping_inv rgb hsl heap v"
    unfolding assms(6) mapping_run_def
    using assms(1-4) by (intro mapping_loop.run_inv) (simp add: mapping_quiet_ok)
  ultimately show ?thesis by (auto simp: mapping_inv_def flags_ok_def scene_of_def)
qed

text \<open>The loop ends: the first frame after the end of the animation asks for no other, unless a preview is swept.\<close>

lemma mapping_frames_end:
  assumes "mapping_inv rgb hsl heap v" "fl_pending v" "mv_animateUntil v \<le> time" "mv_previousRenderAt v + 32 \<le> time"
    and "\<not> mv_previewActive v \<or> mv_reduced v"
  shows "\<not> fl_pending (renderMapping time v) \<and> all_settled (renderMapping time v)"
proof -
  let ?v = "v\<lparr>fl_pending := False\<rparr>"
  have ok: "mapping_content rgb hsl heap ?v" "canRender ?v"
    using assms(1,2) by (simp_all add: mapping_inv_def flags_ok_def clear_pending)
  then have "renderMapping time v = drawMapping time ?v"
    using assms(2-5) by (auto simp: renderMapping_def Let_def)
  then show ?thesis using drawMapping_settled [OF ok(1), of time] assms(3) by simp
qed

definition sampleMapping :: MappingFrame where
  "sampleMapping =
     \<lparr>mfr_roadPositions = [(1, 0, - 4), (- 1, 0, - 4)], mfr_roadColors = None, mfr_roadTransform = None,
      mfr_returnPositions = [], mfr_returnColors = [], mfr_paths = [],
      mfr_entities = [\<lparr>me_id = ''vehicle:HAUL_02'', me_kind = SCANNED_VEHICLE, me_position = (2, 1, - 9), me_size = truckSize, me_yawRad = 1\<rparr>],
      mfr_returnCount = 0, mfr_roadPointCount = 2, mfr_source = REFERENCE_SIMULATION, mfr_egoSize = truckSize,
      mfr_measuredCount = 0\<rparr>"

theorem mapping_shows_frame_witness:
  "\<exists>v. v = mapping_run (\<lambda>_. (0, 0, 0)) (\<lambda>a b c. (a, b, c)) False False 640 480 [MapUpdated 0 (7, None) sampleMapping, MapFrameFired 5000] \<and>
     mpic_road (mappingPicture v) = [(1, 0, - 4), (- 1, 0, - 4)] \<and> mv_shown v = Some (mappingPicture v)"
proof -
  let ?heap = "\<lambda>_ :: nat. [(1, 0, - 4), (- 1, 0, - 4)] :: ScenePoint list"
  let ?v = "mapping_run (\<lambda>_. (0, 0, 0)) (\<lambda>a b c. (a, b, c)) False False 640 480
    ([] @ MapUpdated 0 (7, None) sampleMapping # [MapFrameFired 5000])"
  have "mapping_frame_ok sampleMapping"
    by (simp add: mapping_frame_ok_def sampleMapping_def drawable_def finiteMapping_def finite_coords_def truckSize_def
        SIMULATED_TRUCK_SIZE_def solid_kind_def solid_id_def)
  moreover have "arrays_ok ?heap (7, None) sampleMapping" by (simp add: sampleMapping_def)
  moreover have "\<not> fl_disposed (mapping_run (\<lambda>_. (0, 0, 0)) (\<lambda>a b c. (a, b, c)) False False 640 480 [])"
    by (simp add: mapping_run_def createMappingRenderer_def resizeMapping_def frameCamera_def)
  ultimately have drawn: "depicts_mapping (\<lambda>_. (0, 0, 0)) (\<lambda>a b c. (a, b, c)) sampleMapping (mappingPicture ?v) \<and>
    (if canRender ?v then fl_pending ?v \<or> mv_shown ?v = Some (mappingPicture ?v) \<and> all_settled ?v else \<not> fl_pending ?v)"
    by (intro mapping_shows_frame [where heap = ?heap and es = "[]" and fs = "[MapFrameFired 5000]"]) simp_all
  have "canRender ?v \<and> \<not> fl_pending ?v"
    by (simp add: mapping_run_def createMappingRenderer_def resizeMapping_def frameCamera_def updateMapping_parts
        mapping_layers_def mapping_scene_def showReturns_def showRoad_def showSource_def sampleMapping_def Let_def
        requestRender_def renderMapping_def canRender_def drawMapping_def reconcileMapped_def reconcile_pruned_def prune_def upsert_def
        animationEnd_def createMapped_def refreshMapped_def SCAN_REVEAL_MS_def)
  then show ?thesis
    using drawn by (simp add: depicts_mapping_def sampleMapping_def SHOWN_ROAD_POINTS_def)
qed

end
