(* ===== verification/CameraCanvas.thy ===== *)
theory CameraCanvas
  imports FrameLoop
begin

text \<open>
  The canvas of the forward camera, \<^verbatim>\<open>frontend/src/driver/IRCameraCanvas.tsx\<close>: its two effects with their
  dependencies and clean-up, the graphics objects they create and delete, the image it waits for and the frames it
  draws, and the plain picture it falls back to. What the graphics library answers is an argument of the events that
  may run the effect; the callback \<^verbatim>\<open>onError\<close> is known by its identity. Of a drawn frame the model keeps its source.
\<close>

section \<open>Graphics objects\<close>

datatype GlKind = GlShader | GlProgram | GlBuffer | GlTexture

record GlAnswers =
  ga_context :: bool
  ga_vertex :: "bool \<times> bool"
  ga_fragment :: "bool \<times> bool"
  ga_program :: bool
  ga_buffer :: bool
  ga_texture :: bool
  ga_linked :: bool

text \<open>A shader is created and compiles, or there is none; \<open>live\<close> are the objects not deleted yet.\<close>

definition compileShader :: "bool \<times> bool \<Rightarrow> GlKind multiset \<Rightarrow> bool \<times> GlKind multiset" where
  "compileShader = (\<lambda>(created, compiles) live.
     if \<not> created then (False, live)
     else if \<not> compiles then (False, add_mset GlShader live - {#GlShader#})
     else (True, add_mset GlShader live))"

definition made :: "bool \<Rightarrow> GlKind \<Rightarrow> GlKind multiset" where
  "made created kind = (if created then {#kind#} else {#})"

definition setupCamera :: "GlAnswers \<Rightarrow> GlKind multiset \<Rightarrow> bool \<times> GlKind multiset" where
  "setupCamera ans live =
     (let (vertexShader, live1) = compileShader (ga_vertex ans) live;
          (fragmentShader, live2) = compileShader (ga_fragment ans) live1
      in if \<not> vertexShader \<or> \<not> fragmentShader then
           (False, live2 - made vertexShader GlShader - made fragmentShader GlShader)
         else
           let objects = made (ga_program ans) GlProgram + made (ga_buffer ans) GlBuffer + made (ga_texture ans) GlTexture;
               live3 = live2 + objects
           in if \<not> ga_program ans \<or> \<not> ga_buffer ans \<or> \<not> ga_texture ans then
                (False, live3 - {#GlShader, GlShader#} - objects)
              else
                let live4 = live3 - {#GlShader, GlShader#}
                in if \<not> ga_linked ans then (False, live4 - {#GlProgram, GlBuffer, GlTexture#}) else (True, live4))"

section \<open>The component\<close>

text \<open>One run of the effect: what it closes over, its image and its frame.\<close>

record CameraRun =
  cr_src :: string
  cr_continuous :: bool
  cr_onError :: nat
  cr_image :: "nat \<times> nat"
  cr_visible :: bool
  cr_pending :: bool

type_synonym CameraDeps = "string \<times> bool \<times> bool \<times> nat \<times> nat"

record CameraCanvas =
  cc_mounted :: bool
  cc_src :: string
  cc_continuous :: bool
  cc_onError :: nat
  cc_fallback :: bool
  cc_generation :: nat
  cc_effectSrc :: "string option"
  cc_effectDeps :: "CameraDeps option"
  cc_run :: "CameraRun option"
  cc_lost :: bool
  cc_hidden :: bool
  cc_live :: "GlKind multiset"
  cc_canvas :: "nat \<times> nat"
  cc_shown :: "string option"
  cc_errors :: "nat list"

definition cameraDeps :: "CameraCanvas \<Rightarrow> CameraDeps" where
  "cameraDeps v = (cc_src v, cc_continuous v, cc_fallback v, cc_generation v, cc_onError v)"

definition cleanupCamera :: "CameraCanvas \<Rightarrow> CameraCanvas" where
  "cleanupCamera v =
     (case cc_run v of
        None \<Rightarrow> v
      | Some run \<Rightarrow> v\<lparr>cc_run := None,
          cc_live := (if cc_lost v then cc_live v else cc_live v - {#GlTexture, GlBuffer, GlProgram#})\<rparr>)"

text \<open>The second effect; it answers whether it sets the fallback.\<close>

definition runCamera :: "GlAnswers \<Rightarrow> CameraCanvas \<Rightarrow> CameraCanvas \<times> bool" where
  "runCamera ans v =
     (let v' = (cleanupCamera v)\<lparr>cc_effectDeps := Some (cameraDeps v)\<rparr>
      in if cc_fallback v then (v', False)
         else if \<not> ga_context ans \<or> cc_lost v then (v', True)
         else
           case setupCamera ans (cc_live v') of
             (False, live) \<Rightarrow> (v'\<lparr>cc_live := live\<rparr>, True)
           | (True, live) \<Rightarrow>
               (v'\<lparr>cc_live := live,
                  cc_run := Some \<lparr>cr_src = cc_src v, cr_continuous = cc_continuous v, cr_onError = cc_onError v,
                    cr_image = (0, 0), cr_visible = True, cr_pending = False\<rparr>\<rparr>, False))"

text \<open>A canvas that comes or goes takes its context and its picture with it.\<close>

definition showElement :: "bool \<Rightarrow> CameraCanvas \<Rightarrow> CameraCanvas" where
  "showElement fallback v =
     (if fallback = cc_fallback v then v
      else v\<lparr>cc_fallback := fallback, cc_lost := False, cc_live := {#}, cc_canvas := (300, 150), cc_shown := None\<rparr>)"

text \<open>The effects after one commit, and the commits their updates ask for, until nothing changes.\<close>

definition effectPass :: "GlAnswers \<Rightarrow> CameraCanvas \<Rightarrow> CameraCanvas" where
  "effectPass ans v =
     (let newSrc = (cc_effectSrc v \<noteq> Some (cc_src v));
          v1 = v\<lparr>cc_effectSrc := Some (cc_src v)\<rparr>;
          (v2, failed) = (if cc_effectDeps v \<noteq> Some (cameraDeps v) then runCamera ans v1 else (v1, False))
      in showElement (if failed then True else if newSrc then False else cc_fallback v) v2)"

definition commitCamera :: "GlAnswers \<Rightarrow> CameraCanvas \<Rightarrow> CameraCanvas" where
  "commitCamera ans v = effectPass ans (effectPass ans (effectPass ans v))"

definition mountCanvas :: "GlAnswers \<Rightarrow> string \<Rightarrow> bool \<Rightarrow> nat \<Rightarrow> bool \<Rightarrow> CameraCanvas" where
  "mountCanvas ans src continues onError hidden =
     commitCamera ans
       \<lparr>cc_mounted = True, cc_src = src, cc_continuous = continues, cc_onError = onError, cc_fallback = False,
        cc_generation = 0, cc_effectSrc = None, cc_effectDeps = None, cc_run = None, cc_lost = False, cc_hidden = hidden,
        cc_live = {#}, cc_canvas = (300, 150), cc_shown = None, cc_errors = []\<rparr>"

section \<open>Frames and handlers\<close>

definition stopRun :: "CameraRun \<Rightarrow> CameraRun" where
  "stopRun run = run\<lparr>cr_pending := False\<rparr>"

definition wakeRun :: "bool \<Rightarrow> CameraRun \<Rightarrow> CameraRun" where
  "wakeRun hidden run =
     (let stopped = stopRun run
      in if cr_visible run \<and> \<not> hidden \<and> 0 < fst (cr_image run) then stopped\<lparr>cr_pending := True\<rparr> else stopped)"

definition drawCamera :: "CameraCanvas \<Rightarrow> CameraCanvas" where
  "drawCamera v =
     (case cc_run v of
        None \<Rightarrow> v
      | Some run \<Rightarrow>
          if \<not> cr_pending run then v
          else
            let run' = run\<lparr>cr_pending := False\<rparr>
            in if \<not> cr_visible run \<or> cc_hidden v \<or> cc_lost v \<or> fst (cr_image run) = 0 then v\<lparr>cc_run := Some run'\<rparr>
               else v\<lparr>cc_canvas := cr_image run, cc_shown := Some (cr_src run),
                 cc_run := Some (run'\<lparr>cr_pending := cr_continuous run\<rparr>)\<rparr>)"

definition on_run :: "(CameraRun \<Rightarrow> CameraRun) \<Rightarrow> CameraCanvas \<Rightarrow> CameraCanvas" where
  "on_run f v = v\<lparr>cc_run := map_option f (cc_run v)\<rparr>"

datatype CameraEvent =
  CameraProps GlAnswers string bool nat
| CameraImageLoaded nat nat
| CameraImageFailed GlAnswers
| CameraFallbackFailed
| CameraFrame
| CameraIntersected "bool option"
| CameraVisibility bool
| CameraLost
| CameraRestored GlAnswers
| CameraUnmounted

definition imageLoaded :: "nat \<Rightarrow> nat \<Rightarrow> CameraCanvas \<Rightarrow> CameraCanvas" where
  "imageLoaded w h v = on_run (\<lambda>run. wakeRun (cc_hidden v) (run\<lparr>cr_image := (w, h)\<rparr>)) v"

definition imageFailed :: "GlAnswers \<Rightarrow> CameraCanvas \<Rightarrow> CameraCanvas" where
  "imageFailed ans v =
     (case cc_run v of
        None \<Rightarrow> v
      | Some run \<Rightarrow> commitCamera ans (showElement True (v\<lparr>cc_errors := cc_errors v @ [cr_onError run]\<rparr>)))"

definition fallbackFailed :: "CameraCanvas \<Rightarrow> CameraCanvas" where
  "fallbackFailed v = (if cc_mounted v \<and> cc_fallback v then v\<lparr>cc_errors := cc_errors v @ [cc_onError v]\<rparr> else v)"

definition cameraIntersected :: "bool option \<Rightarrow> CameraCanvas \<Rightarrow> CameraCanvas" where
  "cameraIntersected isIntersecting v =
     (let visible = (case isIntersecting of Some b \<Rightarrow> b | None \<Rightarrow> True)
      in on_run (\<lambda>run. if visible then wakeRun (cc_hidden v) (run\<lparr>cr_visible := visible\<rparr>)
           else stopRun (run\<lparr>cr_visible := visible\<rparr>)) v)"

definition canvasVisibility :: "bool \<Rightarrow> CameraCanvas \<Rightarrow> CameraCanvas" where
  "canvasVisibility hidden v =
     on_run (\<lambda>run. if hidden then stopRun run else wakeRun hidden run) (v\<lparr>cc_hidden := hidden\<rparr>)"

text \<open>Losing the context loses every object; when it comes back the effect runs again, if its listener is still there.\<close>

definition cameraLost :: "CameraCanvas \<Rightarrow> CameraCanvas" where
  "cameraLost v = (if cc_fallback v then v else on_run stopRun (v\<lparr>cc_lost := True, cc_live := {#}\<rparr>))"

definition cameraRestored :: "GlAnswers \<Rightarrow> CameraCanvas \<Rightarrow> CameraCanvas" where
  "cameraRestored ans v =
     (if cc_run v = None then v\<lparr>cc_lost := False\<rparr>
      else commitCamera ans (v\<lparr>cc_lost := False, cc_generation := Suc (cc_generation v)\<rparr>))"

definition renderCanvas :: "GlAnswers \<Rightarrow> string \<Rightarrow> bool \<Rightarrow> nat \<Rightarrow> CameraCanvas \<Rightarrow> CameraCanvas" where
  "renderCanvas ans src continues onError v =
     (if \<not> cc_mounted v then v
      else commitCamera ans (v\<lparr>cc_src := src, cc_continuous := continues, cc_onError := onError\<rparr>))"

definition unmountCamera :: "CameraCanvas \<Rightarrow> CameraCanvas" where
  "unmountCamera v = (cleanupCamera v)\<lparr>cc_mounted := False, cc_shown := None, cc_lost := False, cc_live := {#}\<rparr>"

fun camera_canvas_step :: "CameraEvent \<Rightarrow> CameraCanvas \<Rightarrow> CameraCanvas" where
  "camera_canvas_step (CameraProps ans src continues onError) v = renderCanvas ans src continues onError v"
| "camera_canvas_step (CameraImageLoaded w h) v = imageLoaded w h v"
| "camera_canvas_step (CameraImageFailed ans) v = imageFailed ans v"
| "camera_canvas_step CameraFallbackFailed v = fallbackFailed v"
| "camera_canvas_step CameraFrame v = drawCamera v"
| "camera_canvas_step (CameraIntersected b) v = cameraIntersected b v"
| "camera_canvas_step (CameraVisibility h) v = canvasVisibility h v"
| "camera_canvas_step CameraLost v = cameraLost v"
| "camera_canvas_step (CameraRestored ans) v = cameraRestored ans v"
| "camera_canvas_step CameraUnmounted v = unmountCamera v"

definition camera_canvas_run :: "GlAnswers \<Rightarrow> string \<Rightarrow> bool \<Rightarrow> nat \<Rightarrow> bool \<Rightarrow> CameraEvent list \<Rightarrow> CameraCanvas" where
  "camera_canvas_run ans src continues onError hidden es =
     fold camera_canvas_step es (mountCanvas ans src continues onError hidden)"

section \<open>No object is left behind\<close>

lemma setup_balanced:
  assumes "setupCamera ans live = (ok, live')"
  shows "live' = (if ok then live + {#GlProgram, GlBuffer, GlTexture#} else live)"
  using assms
  by (auto simp: setupCamera_def compileShader_def made_def Let_def split: prod.splits if_splits)

text \<open>What holds between two passes of the effects, and when they are over.\<close>

definition run_ok :: "CameraCanvas \<Rightarrow> CameraRun \<Rightarrow> bool" where
  "run_ok v run \<longleftrightarrow>
     (cr_pending run \<longrightarrow> cr_visible run \<and> \<not> cc_hidden v \<and> 0 < fst (cr_image run)) \<and>
     (cr_visible run \<and> \<not> cc_hidden v \<and> \<not> cc_lost v \<and> 0 < fst (cr_image run) \<and> \<not> cr_pending run \<longrightarrow>
        cc_shown v = Some (cr_src run) \<and> \<not> cr_continuous run)"

definition objects_ok :: "CameraCanvas \<Rightarrow> bool" where
  "objects_ok v \<longleftrightarrow>
     cc_live v = (if cc_run v \<noteq> None \<and> \<not> cc_lost v \<and> \<not> cc_fallback v then {#GlProgram, GlBuffer, GlTexture#} else {#})"

definition closed_over :: "CameraCanvas \<Rightarrow> CameraRun \<Rightarrow> bool" where
  "closed_over v run \<longleftrightarrow> cc_effectDeps v = Some (cr_src run, cr_continuous run, False, cc_generation v, cr_onError run) \<and>
     cc_effectSrc v = Some (cr_src run) \<and> cr_src run = cc_src v \<and> cr_continuous run = cc_continuous v \<and> cr_onError run = cc_onError v"

definition camera_canvas_inv :: "CameraCanvas \<Rightarrow> bool" where
  "camera_canvas_inv v \<longleftrightarrow> objects_ok v \<and> pred_option (run_ok v) (cc_run v) \<and> pred_option (closed_over v) (cc_run v) \<and>
     (if cc_mounted v then cc_effectSrc v = Some (cc_src v) \<and> cc_effectDeps v = Some (cameraDeps v) \<and>
        (cc_run v = None \<longleftrightarrow> cc_fallback v)
      else cc_run v = None)"

lemma effectPass_stable:
  assumes "cc_effectSrc v = Some (cc_src v)" "cc_effectDeps v = Some (cameraDeps v)"
  shows "effectPass ans v = v"
  using assms by (simp add: effectPass_def showElement_def)

lemma cleanup_fields [simp]:
  "cc_run (cleanupCamera v) = None" "cc_mounted (cleanupCamera v) = cc_mounted v" "cc_src (cleanupCamera v) = cc_src v"
  "cc_continuous (cleanupCamera v) = cc_continuous v" "cc_onError (cleanupCamera v) = cc_onError v"
  "cc_fallback (cleanupCamera v) = cc_fallback v" "cc_generation (cleanupCamera v) = cc_generation v"
  "cc_effectSrc (cleanupCamera v) = cc_effectSrc v" "cc_effectDeps (cleanupCamera v) = cc_effectDeps v"
  "cc_lost (cleanupCamera v) = cc_lost v" "cc_hidden (cleanupCamera v) = cc_hidden v" "cc_shown (cleanupCamera v) = cc_shown v"
  "cc_errors (cleanupCamera v) = cc_errors v"
  by (simp_all add: cleanupCamera_def split: option.split)

lemma cleanup_src [simp]: "cc_live (cleanupCamera (v\<lparr>cc_effectSrc := s\<rparr>)) = cc_live (cleanupCamera v)"
  by (simp add: cleanupCamera_def split: option.split)

lemma cleanup_props:
  "cc_live (cleanupCamera (v\<lparr>cc_src := src, cc_continuous := continues, cc_onError := onError\<rparr>)) = cc_live (cleanupCamera v)"
  by (simp add: cleanupCamera_def split: option.split)

text \<open>Where an effect has to run: nothing but the objects of its last run is to be deleted.\<close>

definition commit_ready :: "CameraCanvas \<Rightarrow> bool" where
  "commit_ready v \<longleftrightarrow> cc_mounted v \<and>
     (if cc_effectDeps v = Some (cameraDeps v) then camera_canvas_inv v else cc_live (cleanupCamera v) = {#})"

lemma pass_on_canvas:
  assumes "cc_mounted v" "cc_effectDeps v \<noteq> Some (cameraDeps v)" "cc_live (cleanupCamera v) = {#}" "\<not> cc_fallback v"
  shows "(if cc_fallback (effectPass ans v)
     then cc_run (effectPass ans v) = None \<and> cc_live (effectPass ans v) = {#} \<and>
       cc_effectSrc (effectPass ans v) = Some (cc_src (effectPass ans v)) \<and> cc_mounted (effectPass ans v) \<and>
       cc_effectDeps (effectPass ans v) \<noteq> Some (cameraDeps (effectPass ans v))
     else camera_canvas_inv (effectPass ans v) \<and> cc_mounted (effectPass ans v))"
  using assms setup_balanced [of ans "{#}"]
  by (auto simp: effectPass_def runCamera_def showElement_def Let_def camera_canvas_inv_def objects_ok_def run_ok_def
      closed_over_def cameraDeps_def split: prod.splits bool.splits)

lemma pass_on_fallback:
  assumes "cc_mounted v" "cc_effectDeps v \<noteq> Some (cameraDeps v)" "cc_live (cleanupCamera v) = {#}" "cc_fallback v"
  shows "if cc_effectSrc v = Some (cc_src v) then camera_canvas_inv (effectPass ans v) \<and> cc_mounted (effectPass ans v)
     else cc_mounted (effectPass ans v) \<and> \<not> cc_fallback (effectPass ans v) \<and> cc_run (effectPass ans v) = None \<and>
       cc_live (effectPass ans v) = {#} \<and> cc_effectDeps (effectPass ans v) \<noteq> Some (cameraDeps (effectPass ans v))"
  using assms
  by (auto simp: effectPass_def runCamera_def showElement_def Let_def camera_canvas_inv_def objects_ok_def cameraDeps_def)

lemma inv_stable: "camera_canvas_inv v \<Longrightarrow> cc_mounted v \<Longrightarrow> effectPass ans v = v"
  by (rule effectPass_stable) (simp_all add: camera_canvas_inv_def)

lemma no_run_clean: "cc_run v = None \<Longrightarrow> cleanupCamera v = v"
  by (simp add: cleanupCamera_def)

lemma commit_on_canvas:
  assumes "cc_mounted v" "cc_effectDeps v \<noteq> Some (cameraDeps v)" "cc_live (cleanupCamera v) = {#}" "\<not> cc_fallback v"
    and "w = effectPass ans (effectPass ans v)"
  shows "camera_canvas_inv w \<and> cc_mounted w"
proof (cases "cc_fallback (effectPass ans v)")
  case True
  with pass_on_canvas [OF assms(1-4), of ans] pass_on_fallback [of "effectPass ans v" ans]
  show ?thesis by (auto simp: assms(5) no_run_clean)
next
  case False
  with pass_on_canvas [OF assms(1-4), of ans] show ?thesis by (simp add: assms(5) inv_stable)
qed

text \<open>The effects are over after three commits, and then all is in order.\<close>

lemma commit_settles:
  assumes "commit_ready v"
  shows "camera_canvas_inv (commitCamera ans v)" "cc_mounted (commitCamera ans v)"
    "effectPass ans (commitCamera ans v) = commitCamera ans v"
proof -
  have "camera_canvas_inv (commitCamera ans v) \<and> cc_mounted (commitCamera ans v)"
  proof (cases "cc_effectDeps v = Some (cameraDeps v)")
    case True
    then show ?thesis using assms by (simp add: commit_ready_def commitCamera_def inv_stable)
  next
    case False
    then have v: "cc_mounted v" "cc_live (cleanupCamera v) = {#}" using assms by (simp_all add: commit_ready_def)
    show ?thesis
    proof (cases "cc_fallback v")
      case fallback: True
      show ?thesis
      proof (cases "cc_effectSrc v = Some (cc_src v)")
        case True
        then show ?thesis using pass_on_fallback [OF v(1) False v(2) fallback, of ans] by (simp add: commitCamera_def inv_stable)
      next
        case new: False
        then show ?thesis
          using pass_on_fallback [OF v(1) False v(2) fallback, of ans] commit_on_canvas [of "effectPass ans v", OF _ _ _ _ refl]
          by (simp add: commitCamera_def no_run_clean)
      qed
    next
      case canvas: False
      then show ?thesis using commit_on_canvas [OF v(1) False v(2) _ refl] by (simp add: commitCamera_def inv_stable)
    qed
  qed
  then show "camera_canvas_inv (commitCamera ans v)" "cc_mounted (commitCamera ans v)"
    "effectPass ans (commitCamera ans v) = commitCamera ans v"
    by (simp_all add: inv_stable)
qed

lemma mountCamera_inv: "camera_canvas_inv (mountCanvas ans src continues onError hidden)"
  unfolding mountCanvas_def by (rule commit_settles) (simp add: commit_ready_def cleanupCamera_def)

lemma inv_clean: "camera_canvas_inv v \<Longrightarrow> cc_live (cleanupCamera v) = {#}"
  by (auto simp: camera_canvas_inv_def objects_ok_def cleanupCamera_def split: option.splits if_splits)

lemma renderCamera_inv:
  assumes "camera_canvas_inv v"
  shows "camera_canvas_inv (renderCanvas ans src continues onError v)"
proof (cases "cc_mounted v")
  case True
  let ?v = "v\<lparr>cc_src := src, cc_continuous := continues, cc_onError := onError\<rparr>"
  have "commit_ready ?v"
  proof (cases "cc_effectDeps ?v = Some (cameraDeps ?v)")
    case same: True
    then have "?v = v" using assms True by (simp add: camera_canvas_inv_def cameraDeps_def)
    then show ?thesis using same assms True by (simp add: commit_ready_def)
  next
    case False
    have "cc_live (cleanupCamera ?v) = cc_live (cleanupCamera v)" by (rule cleanup_props)
    then show ?thesis using False assms True by (simp add: commit_ready_def inv_clean)
  qed
  then show ?thesis using True commit_settles(1) by (simp add: renderCanvas_def)
qed (use assms in \<open>simp add: renderCanvas_def\<close>)

lemma on_run_inv:
  assumes "camera_canvas_inv v" "\<And>run. cc_run v = Some run \<Longrightarrow> run_ok (v\<lparr>cc_hidden := h\<rparr>) (f run) \<and>
      cr_src (f run) = cr_src run \<and> cr_continuous (f run) = cr_continuous run \<and> cr_onError (f run) = cr_onError run"
  shows "camera_canvas_inv (on_run f (v\<lparr>cc_hidden := h\<rparr>))"
proof (cases "cc_run v")
  case None
  then show ?thesis
    using assms(1) by (simp add: camera_canvas_inv_def on_run_def objects_ok_def cameraDeps_def split: if_splits)
next
  case (Some run)
  then show ?thesis
    using assms(1) assms(2) [OF Some]
    by (auto simp: camera_canvas_inv_def on_run_def objects_ok_def run_ok_def closed_over_def cameraDeps_def split: if_splits)
qed

lemma hidden_same [simp]: "v\<lparr>cc_hidden := cc_hidden v\<rparr> = v"
  by (cases v) simp

lemmas handler_defs = run_ok_def wakeRun_def stopRun_def Let_def

lemma set_run_inv:
  assumes "camera_canvas_inv v" "cc_run v = Some run" "run_ok (v\<lparr>cc_shown := shown, cc_canvas := area\<rparr>) run'"
    and "cr_src run' = cr_src run" "cr_continuous run' = cr_continuous run" "cr_onError run' = cr_onError run"
  shows "camera_canvas_inv (v\<lparr>cc_canvas := area, cc_shown := shown, cc_run := Some run'\<rparr>)"
  using assms
  by (simp add: camera_canvas_inv_def objects_ok_def run_ok_def closed_over_def cameraDeps_def split: if_splits)

lemma same_shown [simp]: "v\<lparr>cc_canvas := cc_canvas v, cc_shown := cc_shown v, cc_run := r\<rparr> = v\<lparr>cc_run := r\<rparr>"
  by (cases v) simp

lemma drawCamera_inv:
  assumes "camera_canvas_inv v"
  shows "camera_canvas_inv (drawCamera v)"
proof (cases "cc_run v")
  case None
  then show ?thesis using assms by (simp add: drawCamera_def)
next
  case (Some run)
  have ok: "run_ok v run" using assms Some by (simp add: camera_canvas_inv_def)
  have "camera_canvas_inv (v\<lparr>cc_run := Some (run\<lparr>cr_pending := False\<rparr>)\<rparr>)" if "cc_lost v"
    using set_run_inv [OF assms Some, where shown = "cc_shown v" and area = "cc_canvas v" and run' = "run\<lparr>cr_pending := False\<rparr>"] that by (simp add: run_ok_def)
  moreover have "camera_canvas_inv (v\<lparr>cc_canvas := cr_image run, cc_shown := Some (cr_src run),
      cc_run := Some (run\<lparr>cr_pending := cr_continuous run\<rparr>)\<rparr>)" if "cr_pending run"
    using set_run_inv [OF assms Some, where shown = "Some (cr_src run)" and area = "cr_image run" and run' = "run\<lparr>cr_pending := cr_continuous run\<rparr>"] ok that
    by (simp add: run_ok_def)
  ultimately show ?thesis
    using assms Some ok by (auto simp: drawCamera_def run_ok_def Let_def)
qed

lemma cameraLost_inv:
  assumes "camera_canvas_inv v"
  shows "camera_canvas_inv (cameraLost v)"
proof (cases "cc_run v")
  case None
  then show ?thesis
    using assms by (simp add: cameraLost_def camera_canvas_inv_def on_run_def objects_ok_def cameraDeps_def split: if_splits)
next
  case (Some run)
  then have "pred_option (run_ok v) (Some run)" "pred_option (closed_over v) (Some run)" "cc_mounted v" "\<not> cc_fallback v"
    using assms by (simp_all add: camera_canvas_inv_def split: if_splits)
  then show ?thesis
    using assms Some
    by (simp add: cameraLost_def camera_canvas_inv_def on_run_def objects_ok_def run_ok_def closed_over_def cameraDeps_def stopRun_def)
qed

lemma camera_canvas_step_inv:
  assumes "camera_canvas_inv v"
  shows "camera_canvas_inv (camera_canvas_step e v)"
proof (cases e)
  case (CameraImageLoaded w h)
  have "camera_canvas_inv (on_run (\<lambda>run. wakeRun (cc_hidden v) (run\<lparr>cr_image := (w, h)\<rparr>)) (v\<lparr>cc_hidden := cc_hidden v\<rparr>))"
    using assms by (rule on_run_inv) (auto simp: handler_defs)
  then show ?thesis using CameraImageLoaded by (simp add: imageLoaded_def)
next
  case (CameraIntersected b)
  let ?f = "\<lambda>vis run. if vis then wakeRun (cc_hidden v) (run\<lparr>cr_visible := vis\<rparr>) else stopRun (run\<lparr>cr_visible := vis\<rparr>)"
  have "camera_canvas_inv (on_run (?f vis) (v\<lparr>cc_hidden := cc_hidden v\<rparr>))" for vis
    using assms by (rule on_run_inv) (auto simp: handler_defs)
  then show ?thesis unfolding CameraIntersected camera_canvas_step.simps cameraIntersected_def Let_def by simp
next
  case (CameraVisibility h)
  have "camera_canvas_inv (on_run (\<lambda>run. if h then stopRun run else wakeRun h run) (v\<lparr>cc_hidden := h\<rparr>))"
    using assms by (rule on_run_inv) (auto simp: handler_defs)
  then show ?thesis using CameraVisibility by (simp add: canvasVisibility_def)
next
  case CameraFrame
  then show ?thesis using assms drawCamera_inv by simp
next
  case CameraLost
  then show ?thesis using assms cameraLost_inv by simp
next
  case (CameraRestored ans)
  show ?thesis
  proof (cases "cc_run v")
    case None
    then show ?thesis
      using CameraRestored assms
      by (auto simp: cameraRestored_def camera_canvas_inv_def objects_ok_def cameraDeps_def)
  next
    case (Some run)
    let ?v = "v\<lparr>cc_lost := False, cc_generation := Suc (cc_generation v)\<rparr>"
    have "cc_live (cleanupCamera ?v) = {#}"
      using assms Some by (auto simp: cleanupCamera_def camera_canvas_inv_def objects_ok_def)
    moreover have "cc_mounted v" "cc_effectDeps v = Some (cameraDeps v)"
      using assms Some by (auto simp: camera_canvas_inv_def split: if_splits)
    ultimately have "commit_ready ?v" by (simp add: commit_ready_def cameraDeps_def)
    then show ?thesis using CameraRestored Some commit_settles(1) by (simp add: cameraRestored_def)
  qed
next
  case (CameraImageFailed ans)
  show ?thesis
  proof (cases "cc_run v")
    case None
    then show ?thesis using CameraImageFailed assms by (simp add: imageFailed_def)
  next
    case (Some run)
    let ?v = "showElement True (v\<lparr>cc_errors := cc_errors v @ [cr_onError run]\<rparr>)"
    have "cc_mounted v" "\<not> cc_fallback v" "cc_effectDeps v = Some (cameraDeps v)"
      using assms Some by (auto simp: camera_canvas_inv_def split: if_splits)
    then have "commit_ready ?v"
      using Some by (simp add: commit_ready_def showElement_def cameraDeps_def cleanupCamera_def)
    then show ?thesis using CameraImageFailed Some commit_settles(1) by (simp add: imageFailed_def)
  qed
next
  case CameraFallbackFailed
  then show ?thesis
    using assms
    by (auto simp: fallbackFailed_def camera_canvas_inv_def objects_ok_def run_ok_def closed_over_def cameraDeps_def
        split: option.splits)
next
  case CameraUnmounted
  then show ?thesis by (simp add: unmountCamera_def camera_canvas_inv_def objects_ok_def)
next
  case (CameraProps ans src continues onError)
  then show ?thesis using assms renderCamera_inv by simp
qed

section \<open>The canvas keeps up\<close>

definition camera_awake :: "CameraCanvas \<Rightarrow> bool" where
  "camera_awake v \<longleftrightarrow> (case cc_run v of None \<Rightarrow> False
     | Some run \<Rightarrow> cr_visible run \<and> \<not> cc_hidden v \<and> \<not> cc_lost v \<and> 0 < fst (cr_image run))"

definition camera_pending :: "CameraCanvas \<Rightarrow> bool" where
  "camera_pending v \<longleftrightarrow> (case cc_run v of None \<Rightarrow> False | Some run \<Rightarrow> cr_pending run)"

lemma pass_shown: "cc_shown (effectPass ans v) \<in> {cc_shown v, None}"
  by (auto simp: effectPass_def runCamera_def showElement_def Let_def split: prod.splits bool.splits)

lemma commit_shown: "cc_shown (commitCamera ans v) \<in> {cc_shown v, None}"
  unfolding commitCamera_def using pass_shown [of ans] by (metis insert_iff singletonD)

lemma camera_asleep:
  assumes "\<not> camera_awake v"
  shows "cc_shown (camera_canvas_step e v) \<in> {cc_shown v, None}"
proof (cases e)
  case (CameraProps ans src continues onError)
  then show ?thesis
    using commit_shown [of ans "v\<lparr>cc_src := src, cc_continuous := continues, cc_onError := onError\<rparr>"] by (simp add: renderCanvas_def)
next
  case (CameraImageFailed ans)
  show ?thesis
  proof (cases "cc_run v")
    case (Some run)
    have "cc_shown (showElement True w) \<in> {cc_shown w, None}" for w by (simp add: showElement_def)
    then show ?thesis
      using Some CameraImageFailed commit_shown [of ans "showElement True (v\<lparr>cc_errors := cc_errors v @ [cr_onError run]\<rparr>)"]
      by (auto simp: imageFailed_def showElement_def split: if_splits)
  qed (simp add: CameraImageFailed imageFailed_def)
next
  case (CameraRestored ans)
  then show ?thesis
    using commit_shown [of ans "v\<lparr>cc_lost := False, cc_generation := Suc (cc_generation v)\<rparr>"] by (simp add: cameraRestored_def)
next
  case CameraFrame
  then show ?thesis using assms by (auto simp: drawCamera_def camera_awake_def Let_def split: option.splits)
qed (simp_all add: imageLoaded_def fallbackFailed_def cameraIntersected_def canvasVisibility_def cameraLost_def
  unmountCamera_def on_run_def Let_def)

interpretation camera_loop: frame_loop "mountCanvas ans src continues onError hidden" camera_canvas_step "\<lambda>_. True" camera_canvas_inv
    camera_awake camera_pending cc_shown cc_src
proof
  fix v
  assume "camera_canvas_inv v" "camera_awake v" "\<not> camera_pending v"
  then show "cc_shown v = Some (cc_src v)"
    by (auto simp: camera_canvas_inv_def camera_awake_def camera_pending_def run_ok_def closed_over_def split: option.splits)
qed (use mountCamera_inv camera_canvas_step_inv camera_asleep in \<open>simp_all del: insert_iff\<close>)


text \<open>
  A new callback runs the effect again: the picture on the canvas has to be loaded anew. \<^verbatim>\<open>driver/CameraAwareness.tsx\<close>
  passes a new callback on every render.
\<close>

lemma new_callback_reloads:
  assumes "camera_canvas_inv v" "cc_mounted v" "\<not> cc_fallback v" "\<not> cc_lost v" "onError \<noteq> cc_onError v" "ga_context ans"
    and "fst (setupCamera ans {#})"
  shows "\<exists>run. cc_run (renderCanvas ans (cc_src v) (cc_continuous v) onError v) = Some run \<and> cr_image run = (0, 0) \<and> \<not> cr_pending run"
proof -
  let ?v = "v\<lparr>cc_src := cc_src v, cc_continuous := cc_continuous v, cc_onError := onError\<rparr>"
  obtain live where built: "setupCamera ans {#} = (True, live)" using assms(7) by (cases "setupCamera ans {#}") auto
  have deps: "cc_effectDeps ?v \<noteq> Some (cameraDeps ?v)" "cc_effectSrc v = Some (cc_src v)"
    using assms(1,2,5) by (auto simp: camera_canvas_inv_def cameraDeps_def)
  have live: "cc_live (cleanupCamera ?v) = {#}" using inv_clean [OF assms(1)] by (simp only: cleanup_props)
  have pass: "cc_run (effectPass ans ?v) = Some \<lparr>cr_src = cc_src v, cr_continuous = cc_continuous v, cr_onError = onError,
      cr_image = (0, 0), cr_visible = True, cr_pending = False\<rparr>" "\<not> cc_fallback (effectPass ans ?v)"
    using deps live built assms(3,4,6) by (simp_all add: effectPass_def runCamera_def showElement_def Let_def)
  then have "camera_canvas_inv (effectPass ans ?v) \<and> cc_mounted (effectPass ans ?v)"
    using pass_on_canvas [of ?v ans] deps(1) live assms(2,3) by simp
  then have "renderCanvas ans (cc_src v) (cc_continuous v) onError v = effectPass ans ?v"
    using assms(2) by (simp add: renderCanvas_def commitCamera_def inv_stable)
  with pass show ?thesis by simp
qed

text \<open>So a render that comes while the context is lost gives the canvas up, and the context that comes back is not used.\<close>

lemma render_while_lost_gives_up:
  assumes "camera_canvas_inv v" "cc_mounted v" "\<not> cc_fallback v" "cc_lost v" "onError \<noteq> cc_onError v"
  shows "cc_fallback (renderCanvas ans (cc_src v) (cc_continuous v) onError v) \<and>
    cc_fallback (cameraRestored ans' (renderCanvas ans (cc_src v) (cc_continuous v) onError v))"
proof -
  let ?v = "v\<lparr>cc_src := cc_src v, cc_continuous := cc_continuous v, cc_onError := onError\<rparr>"
  let ?w = "renderCanvas ans (cc_src v) (cc_continuous v) onError v"
  have deps: "cc_effectDeps ?v \<noteq> Some (cameraDeps ?v)" "cc_effectSrc v = Some (cc_src v)"
    using assms(1,2,5) by (auto simp: camera_canvas_inv_def cameraDeps_def)
  have first: "cc_fallback (effectPass ans ?v)" "cc_effectSrc (effectPass ans ?v) = Some (cc_src (effectPass ans ?v))"
    using deps assms(3,4) by (simp_all add: effectPass_def runCamera_def showElement_def Let_def)
  have keeps: "cc_fallback (effectPass ans u) \<and> cc_effectSrc (effectPass ans u) = Some (cc_src (effectPass ans u))"
    if "cc_fallback u" "cc_effectSrc u = Some (cc_src u)" for u
    using that by (simp add: effectPass_def runCamera_def showElement_def Let_def)
  have "cc_fallback ?w" using first keeps assms(2) by (simp add: renderCanvas_def commitCamera_def)
  moreover have "cc_live (cleanupCamera ?v) = {#}" using inv_clean [OF assms(1)] by (simp only: cleanup_props)
  then have "commit_ready ?v" using deps(1) assms(2) by (simp add: commit_ready_def)
  then have "camera_canvas_inv ?w" "cc_mounted ?w"
    using commit_settles(1,2) [of ?v ans] assms(2) by (simp_all add: renderCanvas_def)
  then have "cc_run ?w = None" using \<open>cc_fallback ?w\<close> by (auto simp: camera_canvas_inv_def)
  ultimately show ?thesis by (simp add: cameraRestored_def)
qed

end
