(* ===== verification/TruckParts.thy ===== *)
theory TruckParts
  imports MappingRenderer TerrainIndex
begin

text \<open>
  The movable truck of the mine: \<^verbatim>\<open>frontend/src/twin/mineSceneGeometry.ts\<close> cuts the mesh of the truck into the chassis, the
  dump bed and the two front wheels, each about its own pivot, and makes the ore in the bed, the ore that falls and the boulders.
  Vertices are listed in the order of the triangles, with their colours. \<^verbatim>\<open>disposeScene\<close> is modelled over a tree of objects.
\<close>

section \<open>The parts of the truck\<close>

definition BED_PARTS :: "string list" where
  "BED_PARTS = [''truck-dump-body'', ''truck-bed-rib'', ''truck-bed-rail'', ''truck-tailgate'', ''truck-tailgate-hinge'',
     ''truck-canopy'', ''truck-canopy-lip'']"

definition TRUCK_HINGE_Y :: real where "TRUCK_HINGE_Y = 0.675"
definition TRUCK_HINGE_Z :: real where "TRUCK_HINGE_Z = 1.41"
definition FRONT_WHEEL_Y :: real where "FRONT_WHEEL_Y = 0.35"
definition FRONT_WHEEL_Z :: real where "FRONT_WHEEL_Z = - 0.77"
definition FRONT_WHEEL_TRACK :: real where "FRONT_WHEEL_TRACK = 0.66"

text \<open>The triangles of a face and its details, with each vertex as \<open>place\<close> puts it.\<close>

definition faceVertices :: "(string \<Rightarrow> ScenePoint) \<Rightarrow> (Coordinate \<Rightarrow> Coordinate) \<Rightarrow> TruckSurface \<Rightarrow> (Coordinate \<times> ScenePoint) list" where
  "faceVertices rgb place fc =
     concat (map (\<lambda>(points, fill). map (\<lambda>p. (place p, rgb fill)) (fanTriangles points))
       ((tsf_points fc, tsf_fill fc) # map (\<lambda>d. (sd_points d, sd_fill d)) (tsf_details fc)))"

definition truckGeometry :: "(string \<Rightarrow> ScenePoint) \<Rightarrow> TruckSurface list \<Rightarrow> (Coordinate \<times> ScenePoint) list" where
  "truckGeometry rgb faces =
     concat (map (\<lambda>fc.
       if tsf_part fc \<in> set BED_PARTS \<or> tsf_part fc = ''truck-ore-cargo'' then []
       else if tsf_part fc = ''wheel-front-left'' \<or> tsf_part fc = ''wheel-front-right'' then []
       else faceVertices rgb (\<lambda>(x, y, z). (x, z, - y)) fc) faces)"

definition dumpBedGeometry :: "(string \<Rightarrow> ScenePoint) \<Rightarrow> TruckSurface list \<Rightarrow> (Coordinate \<times> ScenePoint) list" where
  "dumpBedGeometry rgb faces =
     concat (map (\<lambda>fc.
       if tsf_part fc \<notin> set BED_PARTS then []
       else faceVertices rgb (\<lambda>(x, y, z). (x, z - TRUCK_HINGE_Y, - y - TRUCK_HINGE_Z)) fc) faces)"

definition frontWheelGeometry :: "(string \<Rightarrow> ScenePoint) \<Rightarrow> bool \<Rightarrow> TruckSurface list \<Rightarrow> (Coordinate \<times> ScenePoint) list" where
  "frontWheelGeometry rgb isLeft faces =
     (let targetPart = (if isLeft then ''wheel-front-left'' else ''wheel-front-right'');
          pivotX = (if isLeft then - FRONT_WHEEL_TRACK else FRONT_WHEEL_TRACK)
      in concat (map (\<lambda>fc.
           if tsf_part fc \<noteq> targetPart then []
           else faceVertices rgb (\<lambda>(x, y, z). (x - pivotX, z - FRONT_WHEEL_Y, - y - FRONT_WHEEL_Z)) fc) faces))"

text \<open>A truck as the scene puts it together: the bed turned about its hinge, the wheels about their pivots.\<close>

definition shift :: "Coordinate \<Rightarrow> (Coordinate \<times> ScenePoint) list \<Rightarrow> (Coordinate \<times> ScenePoint) list" where
  "shift = (\<lambda>(a, b, c). map (\<lambda>((x, y, z), colour). ((x + a, y + b, z + c), colour)))"

definition turnBed :: "real \<Rightarrow> Coordinate \<Rightarrow> Coordinate" where
  "turnBed angle = (\<lambda>(x, y, z). (x, y * cos angle - z * sin angle, y * sin angle + z * cos angle))"

definition turnWheel :: "real \<Rightarrow> Coordinate \<Rightarrow> Coordinate" where
  "turnWheel angle = (\<lambda>(x, y, z). (x * cos angle + z * sin angle, y, z * cos angle - x * sin angle))"

definition assembledTruck :: "(string \<Rightarrow> ScenePoint) \<Rightarrow> real \<Rightarrow> real \<Rightarrow> TruckSurface list \<Rightarrow> (Coordinate \<times> ScenePoint) list" where
  "assembledTruck rgb bed steer faces =
     truckGeometry rgb faces @
     shift (0, TRUCK_HINGE_Y, TRUCK_HINGE_Z) (map (map_prod (turnBed bed) id) (dumpBedGeometry rgb faces)) @
     shift (- 0.66, 0.35, - 0.77) (map (map_prod (turnWheel steer) id) (frontWheelGeometry rgb True faces)) @
     shift (0.66, 0.35, - 0.77) (map (map_prod (turnWheel steer) id) (frontWheelGeometry rgb False faces))"

lemma turn_none [simp]: "turnBed 0 = id" "turnWheel 0 = id"
  by (auto simp: turnBed_def turnWheel_def)

lemma shift_face:
  "shift (a, b, c) (faceVertices rgb (\<lambda>(x, y, z). (x - a, z - b, - y - c)) fc) = faceVertices rgb (\<lambda>(x, y, z). (x, z, - y)) fc"
proof -
  have move: "shift (a, b, c) (concat xss) = concat (map (shift (a, b, c)) xss)" for xss
    by (simp add: shift_def map_concat)
  show ?thesis
    unfolding faceVertices_def move map_map
    by (rule arg_cong [where f = concat], rule map_cong [OF refl]) (auto simp: shift_def)
qed

lemma shift_nil [simp]: "shift v [] = []"
  by (simp add: shift_def split: prod.split)

lemma shift_append: "shift v (xs @ ys) = shift v xs @ shift v ys"
  by (simp add: shift_def split: prod.split)

lemma bed_parts: "''truck-ore-cargo'' \<notin> set BED_PARTS" "''wheel-front-left'' \<notin> set BED_PARTS"
  "''wheel-front-right'' \<notin> set BED_PARTS"
  by (simp_all add: BED_PARTS_def)


text \<open>Turning the bed moves it about the hinge: no point of it comes nearer to the hinge or goes away from it.\<close>

lemma turnBed_rigid: "(case turnBed angle (x, y, z) of (x', y', z') \<Rightarrow> x' = x \<and> y'\<^sup>2 + z'\<^sup>2 = y\<^sup>2 + z\<^sup>2)"
proof -
  have turned: "(sin angle)\<^sup>2 = 1 - (cos angle)\<^sup>2" using sin_cos_squared_add [of angle] by linarith
  have "(y * cos angle - z * sin angle)\<^sup>2 + (y * sin angle + z * cos angle)\<^sup>2 = y\<^sup>2 + z\<^sup>2"
    unfolding power2_sum power2_diff power_mult_distrib turned by (simp add: algebra_simps)
  then show ?thesis by (simp add: turnBed_def)
qed

section \<open>The ore\<close>

definition quad :: "'c \<Rightarrow> Coordinate \<Rightarrow> Coordinate \<Rightarrow> Coordinate \<Rightarrow> Coordinate \<Rightarrow> (Coordinate \<times> 'c) list" where
  "quad colour p0 p1 p2 p3 = map (\<lambda>p. (p, colour)) [p0, p1, p2, p0, p2, p3]"

definition oreColors :: "string list" where
  "oreColors = [''#62241a'', ''#4a1911'', ''#782e21'', ''#873527'', ''#3d130c'']"

text \<open>The height of the mound at one of the eight slices, and the depth of the slice.\<close>

definition moundHeight :: "nat \<Rightarrow> real" where
  "moundHeight s = 0.05 + sin (real s / 7 * pi) * (0.46 - 0.05) * 0.95 + grain (real s) 7 * 0.05"

definition moundDepth :: "nat \<Rightarrow> real" where
  "moundDepth s = - 1.72 + real s / 7 * (- 0.08 - - 1.72)"

definition moundSlice :: "(string \<Rightarrow> 'c) \<Rightarrow> nat \<Rightarrow> (Coordinate \<times> 'c) list" where
  "moundSlice rgb s =
     (let z0 = moundDepth s; z1 = moundDepth (s + 1); h0 = moundHeight s; h1 = moundHeight (s + 1);
          tone = (\<lambda>k. rgb (oreColors ! ((s * 2 + k) mod length oreColors)))
      in quad (tone 0) (- 0.48, 0.05, z0) (- 0.16, h0, z0) (- 0.16, h1, z1) (- 0.48, 0.05, z1) @
         quad (tone 1) (- 0.16, h0, z0) (0.16, h0, z0) (0.16, h1, z1) (- 0.16, h1, z1) @
         quad (tone 2) (0.16, h0, z0) (0.48, 0.05, z0) (0.48, 0.05, z1) (0.16, h1, z1))"

definition oreCargoGeometry :: "(string \<Rightarrow> 'c) \<Rightarrow> (Coordinate \<times> 'c) list" where
  "oreCargoGeometry rgb =
     concat (map (moundSlice rgb) [0..<7]) @
     map (\<lambda>p. (p, rgb ''#4a1911''))
       [(- 0.48, 0.05, - 1.72), (0, 0.05 + sin 0 * (0.46 - 0.05) + 0.1, - 1.72), (0.48, 0.05, - 1.72)] @
     map (\<lambda>p. (p, rgb ''#3d130c''))
       [(0.48, 0.05, - 0.08), (0, 0.05 + sin pi * (0.46 - 0.05) + 0.1, - 0.08), (- 0.48, 0.05, - 0.08)]"

text \<open>The stream of ore: ten cross-sections, each with its half width, height, depth and thickness.\<close>

definition oreTones :: "string list" where
  "oreTones = [''#542016'', ''#45170f'', ''#66261b'', ''#3d130c'', ''#702b1f'']"

definition chuteSection :: "nat \<Rightarrow> real \<times> real \<times> real \<times> real" where
  "chuteSection i =
     (let t = real i / 9 in (0.52 + t * 0.45, - 0.05 - t * t * 2.2, t * 1.6, 0.28 * (1 - t * 0.35)))"

definition chuteSegment :: "(string \<Rightarrow> 'c) \<Rightarrow> nat \<Rightarrow> (Coordinate \<times> 'c) list" where
  "chuteSegment rgb i =
     (let (w0, y0, z0, th0) = chuteSection i; (w1, y1, z1, th1) = chuteSection (i + 1);
          colour = rgb (oreTones ! (i mod length oreTones)); side = rgb (oreTones ! ((i + 1) mod length oreTones))
      in quad colour (- w0, y0, z0) (w0, y0, z0) (w1, y1, z1) (- w1, y1, z1) @
         quad side (- w0, y0 - th0, z0) (- w1, y1 - th1, z1) (w1, y1 - th1, z1) (w0, y0 - th0, z0) @
         quad side (- w0, y0, z0) (- w1, y1, z1) (- w1, y1 - th1, z1) (- w0, y0 - th0, z0) @
         quad side (w0, y0, z0) (w0, y0 - th0, z0) (w1, y1 - th1, z1) (w1, y1, z1))"

definition oreChuteGeometry :: "(string \<Rightarrow> 'c) \<Rightarrow> (Coordinate \<times> 'c) list" where
  "oreChuteGeometry rgb = concat (map (chuteSegment rgb) [0..<9])"

text \<open>A boulder: the points of an icosahedron of the graphics library, each moved along its direction.\<close>

definition rockFactor :: "real \<Rightarrow> real \<Rightarrow> real \<Rightarrow> real" where
  "rockFactor seed x z = 0.78 + 0.38 * grain (of_int \<lfloor>x * 80 + seed * 13 + 1 / 2\<rfloor>) (of_int \<lfloor>z * 80 + 1 / 2\<rfloor>)"

definition oreRockGeometry :: "(real \<Rightarrow> Coordinate list) \<Rightarrow> real \<Rightarrow> Coordinate list" where
  "oreRockGeometry icosahedron seed =
     map (\<lambda>(x, y, z). let factor = rockFactor seed x z in (x * factor, y * (0.8 + 0.3 * factor), z * factor))
       (icosahedron (0.18 + grain seed 11 * 0.16))"

definition ore_box :: "Coordinate \<Rightarrow> bool" where
  "ore_box = (\<lambda>(x, y, z). \<bar>x\<bar> \<le> 0.48 \<and> 0.05 \<le> y \<and> y \<le> 0.5 \<and> - 1.72 \<le> z \<and> z \<le> - 0.08)"

lemma mound_bounds: "s \<le> 7 \<Longrightarrow> 0.05 \<le> moundHeight s \<and> moundHeight s \<le> 0.5 \<and> - 1.72 \<le> moundDepth s \<and> moundDepth s \<le> - 0.08"
proof -
  assume s: "s \<le> 7"
  have "0 \<le> sin (real s / 7 * pi)"
    using s by (intro sin_ge_zero) (simp_all add: mult_left_le_one_le)
  moreover have "moundHeight s \<le> 0.5"
  proof -
    have "0.05 + v * (0.46 - 0.05) * 0.95 + g * 0.05 \<le> 0.5" if "v \<le> 1" "g < 1" for v g :: real using that by simp
    from this [OF sin_le_one grain_range(2)] show ?thesis unfolding moundHeight_def .
  qed
  ultimately show ?thesis using s grain_range(1) [of "real s" 7] by (simp add: moundHeight_def moundDepth_def)
qed

text \<open>The mound lies between the walls of the bed.\<close>

lemma cargo_in_bed: "list_all (\<lambda>(p, _). ore_box p) (oreCargoGeometry rgb)"
proof -
  have "list_all (\<lambda>(p, _). ore_box p) (moundSlice rgb s)" if "s < 7" for s
    using mound_bounds [of s] mound_bounds [of "Suc s"] that by (simp add: moundSlice_def quad_def ore_box_def Let_def)
  then show ?thesis by (auto simp: oreCargoGeometry_def list_all_iff ore_box_def)
qed

lemma rock_factor: "0.78 \<le> rockFactor seed x z" "rockFactor seed x z < 1.16"
  using grain_range [of "of_int \<lfloor>x * 80 + seed * 13 + 1 / 2\<rfloor>" "of_int \<lfloor>z * 80 + 1 / 2\<rfloor>"] by (simp_all add: rockFactor_def)

section \<open>Disposing of a scene\<close>

text \<open>What a scene is made of: objects with their materials, whose textures are given by \<open>textures\<close>.\<close>

datatype SceneKind = SceneMesh nat | SceneSprite | SceneGroup

datatype SceneNode = SceneNode SceneKind "nat list" "SceneNode list"

fun traverse :: "SceneNode \<Rightarrow> (SceneKind \<times> nat list) list" where
  "traverse (SceneNode kind materials children) = (kind, materials) # concat (map traverse children)"

text \<open>A set of JavaScript: in the order of insertion, without repetition.\<close>

definition js_set :: "'a list \<Rightarrow> 'a list" where
  "js_set xs = rev (remdups (rev xs))"

definition disposeScene :: "(nat \<Rightarrow> nat list) \<Rightarrow> SceneNode \<Rightarrow> nat list \<times> nat list \<times> nat list" where
  "disposeScene textures scene =
     (let objects = filter (\<lambda>(kind, _). kind \<noteq> SceneGroup) (traverse scene);
          materials = js_set (concat (map snd objects))
      in (js_set (concat (map textures (concat (map snd objects)))), materials,
          js_set (concat (map (\<lambda>(kind, _). case kind of SceneMesh geometry \<Rightarrow> [geometry] | _ \<Rightarrow> []) objects))))"

text \<open>Each geometry, material and texture in use is disposed of once, and nothing else.\<close>

lemma disposeScene_once:
  "case disposeScene textures scene of
     (ts, ms, gs) \<Rightarrow> distinct ts \<and> distinct ms \<and> distinct gs \<and>
       set ms = \<Union> (set ` snd ` {x \<in> set (traverse scene). fst x \<noteq> SceneGroup}) \<and>
       set ts = \<Union> (set ` textures ` set ms) \<and> set gs = {g. SceneMesh g \<in> fst ` set (traverse scene)}"
proof -
  have "set (concat (map (\<lambda>(kind, _). case kind of SceneMesh geometry \<Rightarrow> [geometry] | _ \<Rightarrow> [])
      (filter (\<lambda>(kind, _). kind \<noteq> SceneGroup) (traverse scene)))) = {g. SceneMesh g \<in> fst ` set (traverse scene)}"
    by (force split: SceneKind.splits)
  then show ?thesis by (auto simp: disposeScene_def js_set_def Let_def split_beta)
qed

end
