(* ===== verification/MineRenderer.thy ===== *)
theory MineRenderer
  imports FrameLoop KeyedLayer TruckParts Supervisor
begin

text \<open>
  The scene of the mine, \<^verbatim>\<open>frontend/src/twin/mineRenderer.ts\<close>: a truck for every vehicle of the frame, moved on animation
  frames towards where the vehicle is, its bed, load and rams, the labels, the ring and the camera. Poses have been
  checked to be finite and are read at reals; times are reals too. The orbit controls of the graphics library are a parameter:
  \<open>ctl\<close> says what \<^verbatim>\<open>controls.update()\<close> makes of the camera and its target and whether it reports a change; \<open>proj\<close> is
  the projection of a point by the camera.
\<close>

section \<open>Arithmetic of the graphics library\<close>

type_synonym Vec = "real \<times> real \<times> real"

fun vadd :: "Vec \<Rightarrow> Vec \<Rightarrow> Vec" where
  "vadd (x, y, z) (a, b, c) = (x + a, y + b, z + c)"

fun vsub :: "Vec \<Rightarrow> Vec \<Rightarrow> Vec" where
  "vsub (x, y, z) (a, b, c) = (x - a, y - b, z - c)"

fun vscale :: "real \<Rightarrow> Vec \<Rightarrow> Vec" where
  "vscale s (x, y, z) = (s * x, s * y, s * z)"

definition lerpReal :: "real \<Rightarrow> real \<Rightarrow> real \<Rightarrow> real" where
  "lerpReal a b t = (1 - t) * a + t * b"

fun vlerp :: "Vec \<Rightarrow> Vec \<Rightarrow> real \<Rightarrow> Vec" where
  "vlerp (x, y, z) (a, b, c) t = (x + (a - x) * t, y + (b - y) * t, z + (c - z) * t)"

fun vlength :: "Vec \<Rightarrow> real" where
  "vlength (x, y, z) = sqrt (x * x + y * y + z * z)"

definition distanceTo :: "Vec \<Rightarrow> Vec \<Rightarrow> real" where
  "distanceTo p q = vlength (vsub p q)"

definition real_rem :: "real \<Rightarrow> real \<Rightarrow> real" where
  "real_rem a b = a - b * trunc_real (a / b)"

definition euclideanModulo :: "real \<Rightarrow> real \<Rightarrow> real" where
  "euclideanModulo n m = real_rem (real_rem n m + m) m"

definition degToRad :: "real \<Rightarrow> real" where
  "degToRad degrees = degrees * (pi / 180)"

definition radToDeg :: "real \<Rightarrow> real" where
  "radToDeg radians = radians * (180 / pi)"

section \<open>A truck\<close>

text \<open>A ram of the bed: its length, the height and depth of its middle, and its tilt.\<close>

record HydraulicRam =
  ram_stroke :: real
  ram_y :: real
  ram_z :: real
  ram_tilt :: real

text \<open>A boulder of the load: where it is and how it is turned; \<open>None\<close> when it is not visible.\<close>

record TruckItem =
  tk_position :: Vec
  tk_target :: Vec
  tk_heading :: real
  tk_speed :: real
  tk_currentHeading :: real
  tk_steerAngle :: real
  tk_pitch :: real
  tk_rotation :: Vec
  tk_haul :: "HaulVehicleState option"
  tk_dumpAngle :: real
  tk_oreLevel :: real
  tk_reverseLamps :: bool
  tk_bed :: real
  tk_wheels :: real
  tk_ore :: "real option"
  tk_ram :: HydraulicRam
  tk_boulders :: "(Vec \<times> Vec) option list"
  tk_selected :: bool
  tk_labelHidden :: bool
  tk_labelPlace :: "real \<times> real"

definition vehicleHeading :: "SupervisorVehicle \<Rightarrow> real" where
  "vehicleHeading v = - real_of (sv_headingDeg v) * pi / 180"

definition createTruck :: "(real \<Rightarrow> real \<Rightarrow> real) \<Rightarrow> SupervisorVehicle \<Rightarrow> TruckItem" where
  "createTruck field v =
     (let x = real_of (sv_xM v); y = real_of (sv_yM v); start = (x, field x y, - y)
      in \<lparr>tk_position = start, tk_target = start, tk_heading = vehicleHeading v, tk_speed = real_of (sv_speedMps v),
          tk_currentHeading = vehicleHeading v, tk_steerAngle = 0, tk_pitch = 0, tk_rotation = (0, 0, 0), tk_haul = None,
          tk_dumpAngle = 0, tk_oreLevel = 0, tk_reverseLamps = False, tk_bed = 0, tk_wheels = 0, tk_ore = Some 1,
          tk_ram = \<lparr>ram_stroke = 1, ram_y = 0, ram_z = 0, ram_tilt = 0\<rparr>, tk_boulders = replicate 8 None,
          tk_selected = False, tk_labelHidden = False, tk_labelPlace = (0, 0)\<rparr>)"

definition refreshTruck :: "(real \<Rightarrow> real \<Rightarrow> real) \<Rightarrow> string option \<Rightarrow> SupervisorVehicle \<Rightarrow> TruckItem \<Rightarrow> TruckItem" where
  "refreshTruck field selected v item =
     (let x = real_of (sv_xM v); y = real_of (sv_yM v);
          height = (case sv_haul v of Some haul \<Rightarrow> real_of (hv_road_elevation_m haul) | None \<Rightarrow> field x y);
          phase = map_option hv_phase (sv_haul v)
      in item\<lparr>tk_target := (x, height + 0.06, - y), tk_haul := sv_haul v,
           tk_dumpAngle := degToRad (case sv_haul v of Some haul \<Rightarrow> real_of (hv_bed_angle_deg haul) | None \<Rightarrow> 0),
           tk_oreLevel := (case sv_haul v of Some haul \<Rightarrow> real_of (hv_payload_fraction haul) | None \<Rightarrow> 0),
           tk_reverseLamps := (phase = Some ''REVERSING'' \<or> phase = Some ''EXITING''),
           tk_heading := vehicleHeading v, tk_speed := real_of (sv_speedMps v),
           tk_selected := (selected = Some (sv_vehicleId v))\<rparr>)"

definition reconcileTrucks ::
    "(real \<Rightarrow> real \<Rightarrow> real) \<Rightarrow> string option \<Rightarrow> SupervisorVehicle list \<Rightarrow> TruckItem layer \<Rightarrow> TruckItem layer" where
  "reconcileTrucks field selected =
     reconcile_pruned sv_vehicleId (\<lambda>v. refreshTruck field selected v (createTruck field v)) (refreshTruck field selected)"

section \<open>Moving a truck\<close>

definition movePosition :: "real \<Rightarrow> Vec \<Rightarrow> Vec \<Rightarrow> Vec" where
  "movePosition dt position target =
     (let distance = distanceTo position target
      in if 6 < distance \<or> distance \<le> 0.001 then target else vlerp position target (1 - exp (- dt * 18)))"

definition headingDelta :: "real \<Rightarrow> real \<Rightarrow> real" where
  "headingDelta heading current = euclideanModulo (heading - current + pi) (pi * 2) - pi"

definition turnHeading :: "real \<Rightarrow> real \<Rightarrow> real \<Rightarrow> real" where
  "turnHeading dt heading current =
     (let delta = headingDelta heading current
      in if 0.0002 < \<bar>delta\<bar> then
           let turnStep = sgn delta * min 2 (\<bar>delta\<bar> * 5.2) * dt
           in if \<bar>delta\<bar> \<le> \<bar>turnStep\<bar> then heading else current + turnStep
         else heading)"

definition steerWheels :: "real \<Rightarrow> real \<Rightarrow> real \<Rightarrow> real" where
  "steerWheels dt delta steerAngle = lerpReal steerAngle (max (- 0.55) (min 0.55 (delta * 2))) (1 - exp (- dt * 12))"

definition tiltChassis :: "real \<Rightarrow> HaulVehicleState option \<Rightarrow> real \<Rightarrow> real" where
  "tiltChassis dt haul pitch =
     lerpReal pitch (degToRad (case haul of Some h \<Rightarrow> real_of (hv_road_pitch_deg h) | None \<Rightarrow> 0)) (1 - exp (- dt * 12))"

definition hydraulicRam :: "real \<Rightarrow> HydraulicRam" where
  "hydraulicRam angle =
     (let bedY = TRUCK_HINGE_Y + 1.25 * sin angle + 0.2 * cos angle;
          bedZ = TRUCK_HINGE_Z + (- 1.25) * cos angle - 0.2 * sin angle
      in \<lparr>ram_stroke = sqrt ((bedY - 0.42)\<^sup>2 + (bedZ - - 0.15)\<^sup>2),
          ram_y = 0.42 + (bedY - 0.42) * 0.5, ram_z = - 0.15 + (bedZ - - 0.15) * 0.5,
          ram_tilt = atan2 (bedY - 0.42) (- (bedZ - - 0.15)) - pi / 2\<rparr>)"

text \<open>The tailgate in the world: the point behind the bed, pitched, turned and moved with the truck.\<close>

definition outletPoint :: "Vec \<Rightarrow> real \<Rightarrow> real \<Rightarrow> Vec" where
  "outletPoint position pitch heading =
     (let y = 1.6 * cos pitch - 1.7 * sin pitch; z = 1.6 * sin pitch + 1.7 * cos pitch
      in vadd position (z * sin heading, y, z * cos heading))"

definition boulder :: "CrusherLayout \<Rightarrow> real \<Rightarrow> Vec \<Rightarrow> nat \<Rightarrow> Vec \<times> Vec" where
  "boulder station phaseProgress = (\<lambda>(ox, oy, oz) index.
     let progress = real_rem (phaseProgress * 8 + real index * 0.13) 1; column = real (index mod 3) - 1
     in ((lerpReal ox (real_of (station_x station) + 2.6 + column * 0.15) progress,
          oy - progress * progress * 3.4,
          lerpReal oz (- real_of (station_y station) + column * 0.16) progress),
         (progress * 7, real index + progress * 5, progress * 4)))"

definition pouringOre :: "TruckItem \<Rightarrow> bool" where
  "pouringOre item \<longleftrightarrow> map_option hv_phase (tk_haul item) = Some ''DUMPING'' \<and> 0.01 < tk_oreLevel item \<and> 0.8 < tk_dumpAngle item"

definition animateTruck :: "CrusherLayout \<Rightarrow> real \<Rightarrow> TruckItem \<Rightarrow> TruckItem" where
  "animateTruck station dt item =
     (let position = movePosition dt (tk_position item) (tk_target item);
          delta = headingDelta (tk_heading item) (tk_currentHeading item);
          heading = turnHeading dt (tk_heading item) (tk_currentHeading item);
          steer = steerWheels dt delta (tk_steerAngle item);
          pitch = tiltChassis dt (tk_haul item) (tk_pitch item);
          outlet = outletPoint position pitch heading;
          progress = (case tk_haul item of Some h \<Rightarrow> real_of (hv_phase_progress h) | None \<Rightarrow> 0)
      in item\<lparr>tk_position := position, tk_currentHeading := heading, tk_steerAngle := steer, tk_wheels := steer,
           tk_pitch := pitch, tk_rotation := (pitch, heading, 0),
           tk_boulders := map (\<lambda>index. if pouringOre item then Some (boulder station progress outlet index) else None) [0..<8],
           tk_bed := tk_dumpAngle item,
           tk_ore := (if tk_oreLevel item \<le> 0.04 then None else Some (max 0.001 (tk_oreLevel item))),
           tk_ram := hydraulicRam (tk_dumpAngle item)\<rparr>)"

definition truckMoving :: "TruckItem \<Rightarrow> bool" where
  "truckMoving item \<longleftrightarrow> 0.001 < distanceTo (tk_position item) (tk_target item) \<or>
     0.0002 < \<bar>headingDelta (tk_heading item) (tk_currentHeading item)\<bar>"

text \<open>The ends of a ram, half its length from its middle along its axis: one stays on the chassis, the other goes where the
  code puts the bed. That is not a point of the turned bed: its distance from the hinge changes with the angle.\<close>

lemma atan2_scale: "0 < k \<Longrightarrow> atan2 (k * y) (k * x) = atan2 y x"
  by (simp add: atan2_def zero_less_mult_iff mult_less_0_iff zero_le_mult_iff)

definition ramEnd :: "real \<Rightarrow> HydraulicRam \<Rightarrow> real \<times> real" where
  "ramEnd side ram = (ram_y ram + side * ram_stroke ram / 2 * cos (ram_tilt ram), ram_z ram + side * ram_stroke ram / 2 * sin (ram_tilt ram))"

lemma ram_spans:
  "ramEnd (- 1) (hydraulicRam angle) = (0.42, - 0.15)"
  "ramEnd 1 (hydraulicRam angle) =
     (TRUCK_HINGE_Y + 1.25 * sin angle + 0.2 * cos angle, TRUCK_HINGE_Z + (- 1.25) * cos angle - 0.2 * sin angle)"
proof -
  define y where "y = TRUCK_HINGE_Y + 1.25 * sin angle + 0.2 * cos angle - 0.42"
  define z where "z = TRUCK_HINGE_Z + (- 1.25) * cos angle - 0.2 * sin angle - - 0.15"
  define r where "r = sqrt (y\<^sup>2 + z\<^sup>2)"
  have axis: "r * cos (atan2 y (- z) - pi / 2) = y" "r * sin (atan2 y (- z) - pi / 2) = z"
  proof -
    have "r * sin (atan2 y (- z)) = y \<and> r * cos (atan2 y (- z)) = - z"
    proof (cases "y = 0 \<and> z = 0")
      case False
      then have "0 < r" by (auto simp: r_def sum_power2_gt_zero_iff)
      have "(y / r)\<^sup>2 + (- z / r)\<^sup>2 = 1"
        using False by (simp add: power_divide add_divide_distrib [symmetric] r_def sum_power2_eq_zero_iff)
      then have "cos (atan2 (y / r) (- z / r)) = - z / r" "sin (atan2 (y / r) (- z / r)) = y / r"
        by (auto intro!: atan2_unit)
      then show ?thesis using \<open>0 < r\<close> atan2_scale [OF \<open>0 < r\<close>, of "y / r" "- z / r"] by simp
    qed (simp add: r_def)
    then show "r * cos (atan2 y (- z) - pi / 2) = y" "r * sin (atan2 y (- z) - pi / 2) = z"
      by (simp_all add: cos_diff sin_diff)
  qed
  have ram: "hydraulicRam angle = \<lparr>ram_stroke = r, ram_y = 0.42 + y * 0.5, ram_z = - 0.15 + z * 0.5, ram_tilt = atan2 y (- z) - pi / 2\<rparr>"
    unfolding hydraulicRam_def y_def z_def r_def Let_def ..
  have "ramEnd side (hydraulicRam angle) = (0.42 + y * (1 + side) / 2, - 0.15 + z * (1 + side) / 2)" for side
    unfolding ramEnd_def ram using axis by (simp add: field_simps)
  then show "ramEnd (- 1) (hydraulicRam angle) = (0.42, - 0.15)"
    "ramEnd 1 (hydraulicRam angle) =
      (TRUCK_HINGE_Y + 1.25 * sin angle + 0.2 * cos angle, TRUCK_HINGE_Z + (- 1.25) * cos angle - 0.2 * sin angle)"
    by (simp_all add: y_def z_def add_divide_distrib diff_divide_distrib)
qed

lemma ram_slips:
  "let (y, z) = ramEnd 1 (hydraulicRam angle)
   in (y - TRUCK_HINGE_Y)\<^sup>2 + (z - TRUCK_HINGE_Z)\<^sup>2 = 1.25\<^sup>2 + 0.2\<^sup>2 + sin angle * cos angle"
proof -
  have turned: "(sin angle)\<^sup>2 = 1 - (cos angle)\<^sup>2" using sin_cos_squared_add [of angle] by linarith
  have "(1.25 * sin angle + 0.2 * cos angle)\<^sup>2 + (- 1.25 * cos angle - 0.2 * sin angle)\<^sup>2 =
      1.25\<^sup>2 + 0.2\<^sup>2 + sin angle * cos angle"
    unfolding power2_sum power2_diff power_mult_distrib turned by (simp add: field_simps)
  then show ?thesis unfolding ram_spans(2) by simp
qed

text \<open>The pitch of the chassis goes to that of the road and never arrives, and does not count as movement.\<close>

lemma tilt_unfinished:
  "tiltChassis dt haul pitch = degToRad (case haul of Some h \<Rightarrow> real_of (hv_road_pitch_deg h) | None \<Rightarrow> 0) \<longleftrightarrow>
     pitch = degToRad (case haul of Some h \<Rightarrow> real_of (hv_road_pitch_deg h) | None \<Rightarrow> 0)"
  "truckMoving (item\<lparr>tk_pitch := p\<rparr>) = truckMoving item" "truckMoving (item\<lparr>tk_steerAngle := a\<rparr>) = truckMoving item"
proof -
  have mixed: "lerpReal a b (1 - e) = b + e * (a - b)" for a b e :: real by (simp add: lerpReal_def algebra_simps)
  show "tiltChassis dt haul pitch = degToRad (case haul of Some h \<Rightarrow> real_of (hv_road_pitch_deg h) | None \<Rightarrow> 0) \<longleftrightarrow>
      pitch = degToRad (case haul of Some h \<Rightarrow> real_of (hv_road_pitch_deg h) | None \<Rightarrow> 0)"
    unfolding tiltChassis_def mixed by simp
qed (simp_all add: truckMoving_def)

section \<open>The state\<close>

record MineFrame =
  nf_vehicles :: "SupervisorVehicle list"
  nf_haul :: "HaulRouteState option"
  nf_selected :: "string option"

type_synonym SceneCamera = "Vec \<times> Vec \<times> real \<times> real"
type_synonym SiteLabel = "string \<times> Vec"

record MinePicture =
  npic_trucks :: "TruckItem layer"
  npic_ring :: "Vec option"
  npic_rock :: "Vec option"
  npic_sites :: "(bool \<times> real \<times> real) list"
  npic_camera :: SceneCamera

record MineView = FrameFlags +
  nv_trucks :: "TruckItem layer"
  nv_current :: MineFrame
  nv_last :: real
  nv_animationLast :: "real option"
  nv_shadowAt :: "real option"
  nv_following :: bool
  nv_camera :: Vec
  nv_target :: Vec
  nv_aspect :: real
  nv_fov :: real
  nv_client :: "real \<times> real"
  nv_ring :: "Vec option"
  nv_rock :: "Vec option"
  nv_sites :: "(bool \<times> real \<times> real) list"
  nv_ready :: bool
  nv_shown :: "MinePicture option"

definition sceneCamera :: "MineView \<Rightarrow> SceneCamera" where
  "sceneCamera v = (nv_camera v, nv_target v, nv_aspect v, nv_fov v)"

definition minePicture :: "MineView \<Rightarrow> MinePicture" where
  "minePicture v = \<lparr>npic_trucks = nv_trucks v, npic_ring = nv_ring v, npic_rock = nv_rock v, npic_sites = nv_sites v,
     npic_camera = sceneCamera v\<rparr>"

text \<open>The site: the field of heights, the place of the crusher, and the labels of the places.\<close>

definition mineElevation :: "(string \<Rightarrow> jsval option) \<Rightarrow> MapFeature list \<Rightarrow> real \<Rightarrow> real \<Rightarrow> real" where
  "mineElevation parse features x y = real_of (ts_elevation (terrainSample parse features x y))"

definition destinationPoint :: "MapFeature list \<Rightarrow> Point2D option" where
  "destinationPoint features =
     Option.bind (find (\<lambda>f. mf_feature_type f = DESTINATION) features) (\<lambda>f. case mf_points f of p # _ \<Rightarrow> Some p | [] \<Rightarrow> None)"

definition siteLabels :: "(real \<Rightarrow> real \<Rightarrow> real) \<Rightarrow> MapFeature list \<Rightarrow> SiteLabel list" where
  "siteLabels field features =
     map (\<lambda>f.
       let p = toPoint (hd (mf_points f)); x = fst p + (if mf_feature_type f = DESTINATION then 7 else 0)
       in (if mf_feature_type f = START then ''Mining area'' else ''Crusher / unloading'', (x, field x (snd p) + 6, - snd p)))
       (filter (\<lambda>f. mf_feature_type f = START \<or> mf_feature_type f = DESTINATION) features)"

section \<open>The camera\<close>

type_synonym OrbitControls = "Vec \<times> Vec \<Rightarrow> (Vec \<times> Vec) \<times> bool"

text \<open>\<^verbatim>\<open>controls.update()\<close>, whose change event asks for a frame.\<close>

definition updateControls :: "OrbitControls \<Rightarrow> MineView \<Rightarrow> MineView" where
  "updateControls ctl v =
     (case ctl (nv_camera v, nv_target v) of
        ((camera, target), changed) \<Rightarrow>
          let v' = v\<lparr>nv_camera := camera, nv_target := target\<rparr> in if changed then requestRender v' else v')"

definition lookFrom :: "OrbitControls \<Rightarrow> bool \<Rightarrow> Vec \<Rightarrow> Vec \<Rightarrow> MineView \<Rightarrow> MineView" where
  "lookFrom ctl following camera target v =
     requestRender (updateControls ctl (v\<lparr>nv_following := following, nv_target := target, nv_camera := camera\<rparr>))"

definition fitMine :: "OrbitControls \<Rightarrow> MineView \<Rightarrow> MineView" where
  "fitMine ctl = lookFrom ctl False (45, 175, 88) (24, - 4, - 26)"

datatype MineFocus = FOCUS_PIT | FOCUS_TRUCK | FOCUS_CRUSHER | FOCUS_TOP

definition cartographyOf :: "MapFeature \<Rightarrow> PropertyValue option" where
  "cartographyOf f = map_of (mf_properties f) ''cartography''"

definition pitPoint :: "MapFeature list \<Rightarrow> Point2D option" where
  "pitPoint features =
     Option.bind (find (\<lambda>f. cartographyOf f = Some (PropStr ''pit-floor'') \<or> cartographyOf f = Some (PropStr ''pit-loading'')) features)
       (\<lambda>f. case mf_points f of p # _ \<Rightarrow> Some p | [] \<Rightarrow> None)"

definition focusMine ::
    "OrbitControls \<Rightarrow> (real \<Rightarrow> real \<Rightarrow> real) \<Rightarrow> MapFeature list \<Rightarrow> MineFocus \<Rightarrow> MineView \<Rightarrow> MineView" where
  "focusMine ctl field features focus v =
     (if focus = FOCUS_TOP then lookFrom ctl False (16, 220, 52) (16, - 6, - 28) v
      else
        let point = (if focus = FOCUS_TRUCK then find sv_isPrimary (nf_vehicles (nv_current v)) else None);
            place = (case point of
                Some p \<Rightarrow> (real_of (sv_xM p), real_of (sv_yM p))
              | None \<Rightarrow>
                  if focus = FOCUS_CRUSHER then
                    (case destinationPoint features of Some c \<Rightarrow> (fst (toPoint c) + 4, snd (toPoint c) + 1) | None \<Rightarrow> (36, 45))
                  else (case pitPoint features of Some p \<Rightarrow> toPoint p | None \<Rightarrow> (- 31.8, 10.5)));
            x = fst place; y = snd place; h = field x y;
            d = (if focus = FOCUS_TRUCK then 11 else if focus = FOCUS_CRUSHER then 24 else 55);
            crusher = (case destinationPoint features of Some c \<Rightarrow> toPoint c | None \<Rightarrow> (32, 44));
            atCrusher = (focus = FOCUS_CRUSHER \<or> point \<noteq> None \<and> sqrt ((x - fst crusher)\<^sup>2 + (y - snd crusher)\<^sup>2) < 12);
            station = crusherLayout features; sx = real_of (station_x station); sy = real_of (station_y station);
            se = real_of (station_elevation station)
        in if atCrusher then
             lookFrom ctl (focus = FOCUS_TRUCK)
               (sx - d, se + (if focus = FOCUS_TRUCK then 3 else 10), - sy + (if focus = FOCUS_TRUCK then 1.2 else d * 0.65))
               (sx + 1, se + 1.3, - sy) v
           else lookFrom ctl (focus = FOCUS_TRUCK) (x + d * 0.7, h + d, - y + d * 0.65) (x, h, - y) v)"

definition zoomMine :: "OrbitControls \<Rightarrow> real \<Rightarrow> MineView \<Rightarrow> MineView" where
  "zoomMine ctl factor v =
     lookFrom ctl (nv_following v) (vadd (vscale factor (vsub (nv_camera v) (nv_target v))) (nv_target v)) (nv_target v) v"

text \<open>The reader drags the view: following stops, the camera is moved and a frame asked for.\<close>

definition dragMine :: "Vec \<Rightarrow> Vec \<Rightarrow> MineView \<Rightarrow> MineView" where
  "dragMine camera target v =
     (if fl_disposed v then v else requestRender (v\<lparr>nv_following := False, nv_camera := camera, nv_target := target\<rparr>))"

section \<open>Visibility\<close>

definition pauseMine :: "MineView \<Rightarrow> MineView" where
  "pauseMine v = v\<lparr>fl_pending := False, nv_last := 0, nv_animationLast := None\<rparr>"

definition syncVisibility :: "MineView \<Rightarrow> MineView" where
  "syncVisibility v = (if canRender v then requestRender v else pauseMine v)"

definition mineIntersected :: "bool option \<Rightarrow> MineView \<Rightarrow> MineView" where
  "mineIntersected entry v =
     (case entry of
        None \<Rightarrow> v
      | Some isIntersecting \<Rightarrow> if fl_disposed v then v else syncVisibility (v\<lparr>fl_visible := isIntersecting\<rparr>))"

definition mineVisibility :: "bool \<Rightarrow> MineView \<Rightarrow> MineView" where
  "mineVisibility hidden v =
     (let v' = v\<lparr>fl_hidden := hidden\<rparr> in if fl_disposed v then v' else syncVisibility v')"

definition mineLost :: "MineView \<Rightarrow> MineView" where
  "mineLost v = (if fl_disposed v then v else (pauseMine (v\<lparr>fl_lost := True\<rparr>))\<lparr>nv_ready := False\<rparr>)"

definition mineRestored :: "MineView \<Rightarrow> MineView" where
  "mineRestored v = (if fl_disposed v then v else syncVisibility (v\<lparr>fl_lost := False, nv_ready := True\<rparr>))"

definition resizeMine :: "real \<Rightarrow> real \<Rightarrow> MineView \<Rightarrow> MineView" where
  "resizeMine w h v =
     (let v' = v\<lparr>nv_client := (w, h)\<rparr>
      in if fl_disposed v then v' else if w = 0 \<or> h = 0 then v'
         else requestRender
           (v'\<lparr>nv_aspect := w / h, nv_fov := radToDeg (2 * arctan (tan (degToRad 20) * max 1 (1.4 / (w / h))))\<rparr>))"

section \<open>Updates and frames\<close>

definition updateMine :: "(real \<Rightarrow> real \<Rightarrow> real) \<Rightarrow> MineFrame \<Rightarrow> MineView \<Rightarrow> MineView" where
  "updateMine field frame v =
     (if fl_disposed v then v
      else (requestRender v)
        \<lparr>nv_current := frame, nv_trucks := reconcileTrucks field (nf_selected frame) (nf_vehicles frame) (nv_trucks v),
         nv_rock := map_option (\<lambda>p. case toPoint p of (x, y) \<Rightarrow> (x, field x y + 0.15, - y))
           (Option.bind (nf_haul frame) hr_obstacle)\<rparr>)"

definition followTruck :: "MineView \<Rightarrow> MineView" where
  "followTruck v =
     (if nv_following v then
        (case find sv_isPrimary (nf_vehicles (nv_current v)) of
           Some primary \<Rightarrow>
             (case map_of (nv_trucks v) (sv_vehicleId primary) of
                Some truck \<Rightarrow> v\<lparr>nv_camera := vadd (nv_camera v) (vsub (tk_position truck) (nv_target v)),
                  nv_target := tk_position truck\<rparr>
              | None \<Rightarrow> v)
         | None \<Rightarrow> v)
      else v)"

definition labelPlace :: "real \<times> real \<Rightarrow> Vec \<Rightarrow> real \<times> real" where
  "labelPlace client = (\<lambda>(x, y, z). ((x * 0.5 + 0.5) * fst client, (- y * 0.5 + 0.5) * snd client))"

definition labelTruck :: "(Vec \<Rightarrow> Vec) \<Rightarrow> real \<times> real \<Rightarrow> TruckItem \<Rightarrow> TruckItem" where
  "labelTruck projected client item =
     (case projected (vadd (tk_position item) (0, 2, 0)) of
        (x, y, z) \<Rightarrow>
          item\<lparr>tk_labelHidden := (\<not> (z < 1 \<and> \<bar>x\<bar> < 1.05 \<and> \<bar>y\<bar> < 1.05)), tk_labelPlace := labelPlace client (x, y, z)\<rparr>)"

definition labelSite :: "(Vec \<Rightarrow> Vec) \<Rightarrow> real \<times> real \<Rightarrow> SiteLabel \<Rightarrow> bool \<times> real \<times> real" where
  "labelSite projected client site =
     (case projected (snd site) of
        (x, y, z) \<Rightarrow> (1 < z \<or> 1 < \<bar>x\<bar> \<or> 1 < \<bar>y\<bar>, labelPlace client (x, y, z)))"

definition frameStep :: "real \<Rightarrow> MineView \<Rightarrow> real" where
  "frameStep now v =
     (case nv_animationLast v of None \<Rightarrow> 1 / 30 | Some earlier \<Rightarrow> min 0.1 ((now - earlier) / 1000))"

definition selectionRing :: "string option \<Rightarrow> TruckItem layer \<Rightarrow> Vec option" where
  "selectionRing selected trucks =
     (case selected of
        None \<Rightarrow> None
      | Some k \<Rightarrow> if k = [] then None else map_option (\<lambda>item. vadd (tk_position item) (0, 0.1, 0)) (map_of trucks k))"

definition drawMine ::
    "(string \<Rightarrow> jsval option) \<Rightarrow> MapFeature list \<Rightarrow> OrbitControls \<Rightarrow> (SceneCamera \<Rightarrow> Vec \<Rightarrow> Vec) \<Rightarrow> real \<Rightarrow> MineView \<Rightarrow> MineView" where
  "drawMine parse features ctl proj now v =
     (let dt = frameStep now v;
          shadow = (case nv_shadowAt v of Some earlier \<Rightarrow> if 750 \<le> now - earlier then Some now else Some earlier | None \<Rightarrow> Some now);
          v1 = updateControls ctl (followTruck (v\<lparr>nv_shadowAt := shadow, nv_last := now, nv_animationLast := Some now\<rparr>));
          projected = proj (sceneCamera v1);
          trucks = map (\<lambda>(k, item). (k, labelTruck projected (nv_client v) (animateTruck (crusherLayout features) dt item)))
            (nv_trucks v1);
          v2 = v1\<lparr>nv_trucks := trucks, nv_ring := selectionRing (nf_selected (nv_current v)) trucks,
            nv_sites := map (labelSite projected (nv_client v)) (siteLabels (mineElevation parse features) features)\<rparr>
      in v2\<lparr>nv_shown := Some (minePicture v2)\<rparr>)"

definition renderMine ::
    "(string \<Rightarrow> jsval option) \<Rightarrow> MapFeature list \<Rightarrow> OrbitControls \<Rightarrow> (SceneCamera \<Rightarrow> Vec \<Rightarrow> Vec) \<Rightarrow> real \<Rightarrow> MineView \<Rightarrow> MineView" where
  "renderMine parse features ctl proj now v =
     (if \<not> fl_pending v then v
      else
        let v' = v\<lparr>fl_pending := False\<rparr>
        in if \<not> canRender v' then pauseMine v'
           else if now - nv_last v' < 1000 / 30 then requestRender v'
           else
             let w = drawMine parse features ctl proj now v';
                 w' = (if list_ex (\<lambda>(_, item). truckMoving item) (nv_trucks v') then requestRender w else w)
             in if fl_pending w' then w' else w'\<lparr>nv_animationLast := None\<rparr>)"

definition disposeMine :: "MineView \<Rightarrow> MineView" where
  "disposeMine v = (if fl_disposed v then v else (pauseMine (v\<lparr>fl_disposed := True\<rparr>))\<lparr>nv_trucks := []\<rparr>)"

definition createMineRenderer :: "OrbitControls \<Rightarrow> bool \<Rightarrow> real \<Rightarrow> real \<Rightarrow> MineView" where
  "createMineRenderer ctl hidden w h =
     resizeMine w h (fitMine ctl
       \<lparr>fl_disposed = False, fl_lost = False, fl_visible = False, fl_hidden = hidden, fl_pending = False,
        nv_trucks = [], nv_current = \<lparr>nf_vehicles = [], nf_haul = None, nf_selected = None\<rparr>, nv_last = 0,
        nv_animationLast = None, nv_shadowAt = None, nv_following = False, nv_camera = (0, 0, 0), nv_target = (8, - 1, - 39),
        nv_aspect = 1, nv_fov = 40, nv_client = (0, 0), nv_ring = None, nv_rock = Some (0, 0, 0), nv_sites = [],
        nv_ready = True, nv_shown = None\<rparr>)"

datatype MineEvent =
  MineUpdated MineFrame
| MineFrameFired OrbitControls "SceneCamera \<Rightarrow> Vec \<Rightarrow> Vec" real
| MineResized real real
| MineIntersected "bool option"
| MineVisibility bool
| MineLost
| MineRestored
| MineFit OrbitControls
| MineFocused OrbitControls MineFocus
| MineZoomed OrbitControls real
| MineDragged Vec Vec
| MineDisposed

fun mine_step :: "(string \<Rightarrow> jsval option) \<Rightarrow> MapFeature list \<Rightarrow> MineEvent \<Rightarrow> MineView \<Rightarrow> MineView" where
  "mine_step parse features (MineUpdated frame) v = updateMine (mineElevation parse features) frame v"
| "mine_step parse features (MineFrameFired ctl proj now) v = renderMine parse features ctl proj now v"
| "mine_step parse features (MineResized w h) v = resizeMine w h v"
| "mine_step parse features (MineIntersected entry) v = mineIntersected entry v"
| "mine_step parse features (MineVisibility hidden) v = mineVisibility hidden v"
| "mine_step parse features MineLost v = mineLost v"
| "mine_step parse features MineRestored v = mineRestored v"
| "mine_step parse features (MineFit ctl) v = fitMine ctl v"
| "mine_step parse features (MineFocused ctl focus) v = focusMine ctl (mineElevation parse features) features focus v"
| "mine_step parse features (MineZoomed ctl factor) v = zoomMine ctl factor v"
| "mine_step parse features (MineDragged camera target) v = dragMine camera target v"
| "mine_step parse features MineDisposed v = disposeMine v"

definition mine_run ::
    "(string \<Rightarrow> jsval option) \<Rightarrow> MapFeature list \<Rightarrow> OrbitControls \<Rightarrow> bool \<Rightarrow> real \<Rightarrow> real \<Rightarrow> MineEvent list \<Rightarrow> MineView" where
  "mine_run parse features ctl hidden w h es =
     fold (mine_step parse features) es (createMineRenderer ctl hidden w h)"

section \<open>Trucks are those of the frame\<close>

text \<open>A truck is drawn for a vehicle when refreshing it for the vehicle would change nothing.\<close>

definition truck_of :: "(real \<Rightarrow> real \<Rightarrow> real) \<Rightarrow> string option \<times> SupervisorVehicle \<Rightarrow> TruckItem \<Rightarrow> bool" where
  "truck_of field = (\<lambda>(selected, v) item. refreshTruck field selected v item = item)"

lemma refresh_twice [simp]: "refreshTruck field selected v (refreshTruck field s w item) = refreshTruck field selected v item"
  by (simp add: refreshTruck_def Let_def)

interpretation truck_layer: keyed_layer "\<lambda>x. sv_vehicleId (snd x)"
    "\<lambda>x. refreshTruck field (fst x) (snd x) (createTruck field (snd x))" "\<lambda>x. refreshTruck field (fst x) (snd x)"
    "\<lambda>_. True" "truck_of field"
  by unfold_locales (simp_all add: truck_of_def split_beta)

definition truck_layer_ok :: "(real \<Rightarrow> real \<Rightarrow> real) \<Rightarrow> TruckItem layer \<Rightarrow> bool" where
  "truck_layer_ok field = keyed_layer.layer_ok (\<lambda>x. sv_vehicleId (snd x)) (\<lambda>_. True) (truck_of field)"

definition trucks_of :: "(real \<Rightarrow> real \<Rightarrow> real) \<Rightarrow> MineFrame \<Rightarrow> TruckItem layer \<Rightarrow> bool" where
  "trucks_of field frame trucks \<longleftrightarrow>
     (\<forall>k. rel_option (\<lambda>v. truck_of field (nf_selected frame, v)) (current_items sv_vehicleId (nf_vehicles frame) k) (map_of trucks k))"

lemma reconcileTrucks_shows:
  assumes "truck_layer_ok field trucks"
  shows "truck_layer_ok field (reconcileTrucks field selected vehicles trucks)"
    "rel_option (\<lambda>v. truck_of field (selected, v)) (current_items sv_vehicleId vehicles k)
       (map_of (reconcileTrucks field selected vehicles trucks) k)"
proof -
  let ?items = "map (Pair selected) vehicles"
  have "reconcileTrucks field selected vehicles trucks =
      reconcile_pruned (\<lambda>x. sv_vehicleId (snd x)) (\<lambda>x. refreshTruck field (fst x) (snd x) (createTruck field (snd x)))
        (\<lambda>x. refreshTruck field (fst x) (snd x)) ?items trucks"
    by (simp add: reconcile_pruned_map reconcileTrucks_def)
  moreover have "current_items (\<lambda>x. sv_vehicleId (snd x)) ?items k = map_option (Pair selected) (current_items sv_vehicleId vehicles k)"
    by (simp add: current_items_map)
  moreover have "list_all (\<lambda>_. True) ?items" by (simp add: list_all_iff)
  ultimately show "truck_layer_ok field (reconcileTrucks field selected vehicles trucks)"
    "rel_option (\<lambda>v. truck_of field (selected, v)) (current_items sv_vehicleId vehicles k)
       (map_of (reconcileTrucks field selected vehicles trucks) k)"
    using truck_layer.reconcile_pruned_shows [OF assms [unfolded truck_layer_ok_def], of ?items k]
    by (simp_all add: truck_layer_ok_def option.rel_map)
qed

text \<open>Moving and labelling a truck keep what it is drawn for.\<close>

lemma animate_of: "truck_of field x item \<Longrightarrow> truck_of field x (animateTruck station dt item)"
  by (cases item; cases x) (simp add: truck_of_def refreshTruck_def animateTruck_def Let_def)

lemma label_of: "truck_of field x item \<Longrightarrow> truck_of field x (labelTruck projected client item)"
  by (cases item; cases x) (auto simp: truck_of_def refreshTruck_def labelTruck_def Let_def split: prod.split)

text \<open>A truck at its place, drawn as it is.\<close>

definition truck_settled :: "TruckItem \<Rightarrow> bool" where
  "truck_settled item \<longleftrightarrow> tk_position item = tk_target item \<and> tk_currentHeading item = tk_heading item \<and>
     tk_rotation item = (tk_pitch item, tk_heading item, 0) \<and> tk_bed item = tk_dumpAngle item \<and>
     tk_ram item = hydraulicRam (tk_dumpAngle item) \<and>
     tk_ore item = (if tk_oreLevel item \<le> 0.04 then None else Some (tk_oreLevel item))"

lemma still_truck_settles:
  assumes "\<not> truckMoving item"
  shows "truck_settled (labelTruck projected client (animateTruck station dt item))"
  using assms
  by (auto simp: truck_settled_def truckMoving_def labelTruck_def animateTruck_def movePosition_def turnHeading_def Let_def
      split: prod.split)

section \<open>The scene keeps up\<close>

definition mine_content :: "(real \<Rightarrow> real \<Rightarrow> real) \<Rightarrow> MineView \<Rightarrow> bool" where
  "mine_content field v \<longleftrightarrow> truck_layer_ok field (nv_trucks v) \<and> (fl_disposed v \<or> trucks_of field (nv_current v) (nv_trucks v)) \<and>
     pred_option (\<lambda>earlier. earlier = nv_last v) (nv_animationLast v)"

definition at_rest :: "MineView \<Rightarrow> bool" where
  "at_rest v \<longleftrightarrow> list_all (\<lambda>(_, item). truck_settled item) (nv_trucks v)"

definition mine_inv :: "(real \<Rightarrow> real \<Rightarrow> real) \<Rightarrow> MineView \<Rightarrow> bool" where
  "mine_inv field v \<longleftrightarrow> flags_ok v \<and> mine_content field v \<and>
     (canRender v \<and> \<not> fl_pending v \<longrightarrow> nv_shown v = Some (minePicture v) \<and> at_rest v)"

lemma same_mine:
  fixes v :: MineView
  assumes "FrameFlags.more v = FrameFlags.more w"
  shows "minePicture v = minePicture w" "nv_shown v = nv_shown w" "nv_trucks v = nv_trucks w" "nv_current v = nv_current w"
    "nv_last v = nv_last w" "nv_animationLast v = nv_animationLast w" "nv_camera v = nv_camera w" "nv_target v = nv_target w"
    "nv_client v = nv_client w" "sceneCamera v = sceneCamera w"
  using assms by (cases v; cases w; simp add: minePicture_def sceneCamera_def)+

lemma request_mine [simp]:
  fixes v :: MineView
  shows "minePicture (requestRender v) = minePicture v" "nv_shown (requestRender v) = nv_shown v"
    "nv_trucks (requestRender v) = nv_trucks v" "nv_current (requestRender v) = nv_current v" "nv_last (requestRender v) = nv_last v"
    "nv_animationLast (requestRender v) = nv_animationLast v" "nv_camera (requestRender v) = nv_camera v"
    "nv_target (requestRender v) = nv_target v" "nv_client (requestRender v) = nv_client v"
    "sceneCamera (requestRender v) = sceneCamera v"
  by (rule same_mine, simp)+

lemma mine_content_request [simp]: "mine_content field (requestRender v) = mine_content field v"
  by (simp add: mine_content_def)

lemma mine_request_inv: "mine_content field v \<Longrightarrow> flags_ok v \<Longrightarrow> mine_inv field (requestRender v)"
  using flags_ok_request [of v] by (auto simp: mine_inv_def)

lemma mine_content_fields:
  fixes v w :: MineView
  assumes "nv_trucks v = nv_trucks w" "nv_current v = nv_current w" "nv_last v = nv_last w" "nv_animationLast v = nv_animationLast w"
    "fl_disposed v = fl_disposed w"
  shows "mine_content field v = mine_content field w"
  using assms by (simp add: mine_content_def)

lemma updateControls_simps [simp]:
  "nv_trucks (updateControls ctl v) = nv_trucks v" "nv_current (updateControls ctl v) = nv_current v"
  "nv_last (updateControls ctl v) = nv_last v" "nv_animationLast (updateControls ctl v) = nv_animationLast v"
  "fl_disposed (updateControls ctl v) = fl_disposed v" "nv_shown (updateControls ctl v) = nv_shown v"
  "nv_client (updateControls ctl v) = nv_client v" "canRender (updateControls ctl v) = canRender v"
  by (simp_all add: updateControls_def Let_def canRender_def split: prod.split)

lemma updateControls_flags: "flags_ok v \<Longrightarrow> flags_ok (updateControls ctl v)"
  by (simp add: updateControls_def Let_def flags_ok_def canRender_def split: prod.split)

lemma followTruck_simps [simp]:
  "nv_trucks (followTruck v) = nv_trucks v" "nv_current (followTruck v) = nv_current v" "nv_last (followTruck v) = nv_last v"
  "nv_animationLast (followTruck v) = nv_animationLast v" "fl_disposed (followTruck v) = fl_disposed v"
  "canRender (followTruck v) = canRender v" "fl_pending (followTruck v) = fl_pending v" "nv_client (followTruck v) = nv_client v"
  by (auto simp: followTruck_def canRender_def split: option.split)

lemma pauseMine_inv:
  assumes "mine_content field v" "\<not> canRender v"
  shows "mine_inv field (pauseMine v)"
  using assms by (auto simp: mine_inv_def mine_content_def pauseMine_def flags_ok_def canRender_def)

lemma syncVisibility_inv:
  assumes "mine_content field v" "flags_ok v \<or> \<not> canRender v"
  shows "mine_inv field (syncVisibility v)"
  using assms mine_request_inv pauseMine_inv by (auto simp: syncVisibility_def)

lemma lookFrom_inv:
  assumes "mine_content field v" "flags_ok v"
  shows "mine_inv field (lookFrom ctl following camera target v)"
proof -
  let ?v = "v\<lparr>nv_following := following, nv_target := target, nv_camera := camera\<rparr>"
  have "mine_content field (updateControls ctl ?v)" using assms(1) by (subst mine_content_fields [of _ v]) simp_all
  moreover have "flags_ok ?v" using assms(2) by (simp add: flags_ok_def canRender_def)
  ultimately show ?thesis unfolding lookFrom_def by (intro mine_request_inv updateControls_flags)
qed

lemma resizeMine_inv:
  assumes "mine_content field v" "flags_ok v" "\<not> canRender v \<or> mine_inv field v"
  shows "mine_inv field (resizeMine w h v)"
proof -
  have same: "mine_content field (v\<lparr>nv_client := c\<rparr>)" "flags_ok (v\<lparr>nv_client := c\<rparr>)"
    "minePicture (v\<lparr>nv_client := c\<rparr>) = minePicture v" "canRender (v\<lparr>nv_client := c\<rparr>) = canRender v" for c
    using assms(1,2) by (simp_all add: mine_content_def flags_ok_def canRender_def minePicture_def sceneCamera_def)
  have "mine_inv field (v\<lparr>nv_client := c\<rparr>)" for c
    using assms(3) same by (auto simp: mine_inv_def at_rest_def)
  moreover have "mine_inv field (requestRender (v\<lparr>nv_client := c, nv_aspect := a, nv_fov := f\<rparr>))" for c a f
    using assms(1,2) by (intro mine_request_inv) (simp_all add: mine_content_def flags_ok_def canRender_def)
  ultimately show ?thesis by (simp add: resizeMine_def Let_def)
qed

lemma mine_canRender:
  fixes v :: MineView
  shows "canRender (v\<lparr>nv_shown := p\<rparr>) = canRender v" "canRender (v\<lparr>nv_trucks := t, nv_ring := r, nv_sites := s\<rparr>) = canRender v"
    "canRender (v\<lparr>nv_trucks := t, nv_ring := r, nv_sites := s, nv_shown := p\<rparr>) = canRender v"
    "canRender (v\<lparr>nv_shadowAt := a, nv_last := b, nv_animationLast := c\<rparr>) = canRender v"
    "canRender (v\<lparr>nv_shadowAt := a, nv_last := b\<rparr>) = canRender v"
    "canRender (v\<lparr>nv_animationLast := c\<rparr>) = canRender v" "canRender (v\<lparr>fl_pending := q\<rparr>) = canRender v"
  by (simp_all add: canRender_def)

lemma draw_fields [simp]:
  "canRender (drawMine parse features ctl proj now v) = canRender v"
  "fl_disposed (drawMine parse features ctl proj now v) = fl_disposed v"
  "nv_current (drawMine parse features ctl proj now v) = nv_current v" "nv_last (drawMine parse features ctl proj now v) = now"
  "nv_animationLast (drawMine parse features ctl proj now v) = Some now"
  by (simp_all add: drawMine_def Let_def mine_canRender)

lemma drawMine_trucks:
  "\<exists>projected. nv_trucks (drawMine parse features ctl proj now v) =
     map (\<lambda>(k, item). (k, labelTruck projected (nv_client v) (animateTruck (crusherLayout features) (frameStep now v) item))) (nv_trucks v)"
  by (simp add: drawMine_def Let_def) blast

lemma drawMine_shown: "nv_shown (drawMine parse features ctl proj now v) = Some (minePicture (drawMine parse features ctl proj now v))"
  by (simp add: drawMine_def Let_def minePicture_def sceneCamera_def)

lemma drawMine_content:
  assumes "mine_content field v"
  shows "mine_content field (drawMine parse features ctl proj now v)"
proof -
  let ?w = "drawMine parse features ctl proj now v"
  obtain projected where trucks: "nv_trucks ?w =
     map (\<lambda>(k, item). (k, labelTruck projected (nv_client v) (animateTruck (crusherLayout features) (frameStep now v) item))) (nv_trucks v)"
    using drawMine_trucks by blast
  have "truck_layer_ok field (nv_trucks ?w)"
    unfolding trucks truck_layer_ok_def using assms animate_of label_of
    by (intro truck_layer.mapped_ok) (simp_all add: mine_content_def truck_layer_ok_def)
  moreover have "trucks_of field (nv_current v) (nv_trucks ?w)" if old: "trucks_of field (nv_current v) (nv_trucks v)"
    unfolding trucks trucks_of_def map_of_map
  proof
    fix k
    from old have "rel_option (\<lambda>x. truck_of field (nf_selected (nv_current v), x))
        (current_items sv_vehicleId (nf_vehicles (nv_current v)) k) (map_of (nv_trucks v) k)"
      by (simp add: trucks_of_def)
    then show "rel_option (\<lambda>x. truck_of field (nf_selected (nv_current v), x)) (current_items sv_vehicleId (nf_vehicles (nv_current v)) k)
        ((map_option (\<lambda>item. labelTruck projected (nv_client v) (animateTruck (crusherLayout features) (frameStep now v) item)) \<circ>
          map_of (nv_trucks v)) k)"
      unfolding comp_apply option.rel_map
      by (rule option.rel_mono_strong [OF _ label_of [OF animate_of]]) simp
  qed
  ultimately show ?thesis using assms by (auto simp: mine_content_def)
qed

lemma drawMine_rest:
  assumes "\<not> list_ex (\<lambda>(_, item). truckMoving item) (nv_trucks v)"
  shows "at_rest (drawMine parse features ctl proj now v)"
proof -
  obtain projected where trucks: "nv_trucks (drawMine parse features ctl proj now v) =
     map (\<lambda>(k, item). (k, labelTruck projected (nv_client v) (animateTruck (crusherLayout features) (frameStep now v) item))) (nv_trucks v)"
    using drawMine_trucks by blast
  show ?thesis
    using assms unfolding at_rest_def trucks list_all_iff list_ex_iff by (auto intro!: still_truck_settles)
qed

lemma draw_flags:
  "flags_ok v \<Longrightarrow> canRender v \<Longrightarrow> flags_ok (drawMine parse features ctl proj now v)"
  by (simp add: flags_ok_def)

lemma renderMine_inv:
  assumes "mine_inv field v"
  shows "mine_inv field (renderMine parse features ctl proj now v)"
proof (cases "fl_pending v")
  case False
  then show ?thesis using assms by (simp add: renderMine_def)
next
  case True
  let ?v = "v\<lparr>fl_pending := False\<rparr>"
  let ?w = "drawMine parse features ctl proj now ?v"
  have ok: "canRender ?v" "mine_content field ?v" "flags_ok ?v"
    using assms True by (auto simp: mine_inv_def flags_ok_def mine_content_def canRender_def)
  note content = drawMine_content [OF ok(2), of parse features ctl proj now]
  define w' where "w' = (if list_ex (\<lambda>(_, item). truckMoving item) (nv_trucks ?v) then requestRender ?w else ?w)"
  have w': "mine_content field w'" "flags_ok w'" "canRender w'"
    using content draw_flags [OF ok(3,1)] ok(1) by (simp_all add: w'_def flags_ok_def)
  have "mine_inv field w'" if "fl_pending w'" using that w' by (simp add: mine_inv_def)
  moreover have "mine_inv field (w'\<lparr>nv_animationLast := None\<rparr>)" if "\<not> fl_pending w'"
  proof -
    have still: "\<not> list_ex (\<lambda>(_, item). truckMoving item) (nv_trucks ?v)" "w' = ?w"
      using that ok(1) by (auto simp: w'_def split: if_splits)
    then have "nv_shown ?w = Some (minePicture (?w\<lparr>nv_animationLast := None\<rparr>))" "at_rest (?w\<lparr>nv_animationLast := None\<rparr>)"
      using drawMine_shown drawMine_rest by (simp_all add: minePicture_def sceneCamera_def at_rest_def)
    moreover have "mine_content field (?w\<lparr>nv_animationLast := None\<rparr>)" "flags_ok (?w\<lparr>nv_animationLast := None\<rparr>)"
      using content w'(2) still(2) by (simp_all add: mine_content_def flags_ok_def canRender_def)
    ultimately show ?thesis using still(2) by (simp add: mine_inv_def)
  qed
  moreover have "mine_inv field (requestRender ?v)" using ok(2,3) by (rule mine_request_inv)
  ultimately show ?thesis
    using True ok(1) unfolding renderMine_def Let_def w'_def [symmetric] by simp
qed

lemma updateMine_inv:
  assumes "mine_inv field v"
  shows "mine_inv field (updateMine field frame v)"
proof (cases "fl_disposed v")
  case True
  then show ?thesis using assms by (simp add: updateMine_def)
next
  case False
  let ?w = "v\<lparr>nv_current := frame, nv_trucks := reconcileTrucks field (nf_selected frame) (nf_vehicles frame) (nv_trucks v),
    nv_rock := map_option (\<lambda>p. case toPoint p of (x, y) \<Rightarrow> (x, field x y + 0.15, - y)) (Option.bind (nf_haul frame) hr_obstacle)\<rparr>"
  have "updateMine field frame v = requestRender ?w"
    using False by (simp add: updateMine_def requestRender_def canRender_def)
  moreover have "mine_content field ?w"
    using assms reconcileTrucks_shows [of field "nv_trucks v" "nf_selected frame" "nf_vehicles frame"]
    by (simp add: mine_inv_def mine_content_def trucks_of_def)
  moreover have "flags_ok ?w" using assms by (simp add: mine_inv_def flags_ok_def canRender_def)
  ultimately show ?thesis using mine_request_inv by simp
qed

lemma mine_inv_content: "mine_inv field v \<Longrightarrow> mine_content field v \<and> flags_ok v"
  by (simp add: mine_inv_def)

lemma focusMine_inv: "mine_inv field v \<Longrightarrow> mine_inv field (focusMine ctl height features focus v)"
  using lookFrom_inv mine_inv_content by (simp add: focusMine_def Let_def)

lemma mine_flag_fields:
  fixes v :: MineView
  shows "mine_content field (v\<lparr>fl_visible := b\<rparr>) = mine_content field v" "mine_content field (v\<lparr>fl_hidden := b\<rparr>) = mine_content field v"
    "mine_content field (v\<lparr>fl_lost := b\<rparr>) = mine_content field v"
    "mine_content field (v\<lparr>fl_lost := b, nv_ready := c\<rparr>) = mine_content field v"
    "mine_content field (v\<lparr>nv_following := f, nv_camera := d, nv_target := t\<rparr>) = mine_content field v"
  by (simp_all add: mine_content_def)

lemma mine_inv_step:
  assumes "mine_inv (mineElevation parse features) v"
  shows "mine_inv (mineElevation parse features) (mine_step parse features e v)"
proof (cases e)
  case (MineUpdated frame)
  then show ?thesis using assms updateMine_inv by simp
next
  case (MineFrameFired ctl proj now)
  then show ?thesis using assms renderMine_inv by simp
next
  case (MineResized w h)
  then show ?thesis using assms resizeMine_inv mine_inv_content by simp
next
  case (MineIntersected entry)
  then show ?thesis
    using assms mine_inv_content [OF assms]
    by (auto simp: mineIntersected_def flags_ok_def canRender_def mine_flag_fields intro!: syncVisibility_inv split: option.split)
next
  case (MineVisibility hidden)
  have "mine_inv (mineElevation parse features) (v\<lparr>fl_hidden := hidden\<rparr>)" if "fl_disposed v"
    using that mine_inv_content [OF assms] by (auto simp: mine_inv_def mine_flag_fields flags_ok_def canRender_def)
  then show ?thesis
    using MineVisibility mine_inv_content [OF assms]
    by (auto simp: mineVisibility_def Let_def flags_ok_def canRender_def mine_flag_fields intro!: syncVisibility_inv)
next
  case MineLost
  have "mine_inv (mineElevation parse features) (pauseMine (v\<lparr>fl_lost := True\<rparr>))"
    using mine_inv_content [OF assms] by (intro pauseMine_inv) (simp_all add: mine_flag_fields canRender_def)
  then have "mine_inv (mineElevation parse features) ((pauseMine (v\<lparr>fl_lost := True\<rparr>))\<lparr>nv_ready := False\<rparr>)"
    by (auto simp: mine_inv_def mine_content_def flags_ok_def canRender_def pauseMine_def)
  then show ?thesis using MineLost assms by (simp add: mineLost_def)
next
  case MineRestored
  then show ?thesis
    using assms mine_inv_content [OF assms]
    by (auto simp: mineRestored_def flags_ok_def canRender_def mine_flag_fields intro!: syncVisibility_inv)
next
  case (MineFit ctl)
  then show ?thesis using lookFrom_inv mine_inv_content [OF assms] by (simp add: fitMine_def)
next
  case (MineFocused ctl focus)
  then show ?thesis using focusMine_inv assms by simp
next
  case (MineZoomed ctl factor)
  then show ?thesis using lookFrom_inv mine_inv_content [OF assms] by (simp add: zoomMine_def)
next
  case (MineDragged camera target)
  have "mine_inv (mineElevation parse features) (requestRender (v\<lparr>nv_following := False, nv_camera := camera, nv_target := target\<rparr>))"
    using mine_inv_content [OF assms] by (intro mine_request_inv) (simp_all add: mine_flag_fields flags_ok_def canRender_def)
  then show ?thesis using MineDragged assms by (simp add: dragMine_def)
next
  case MineDisposed
  then show ?thesis
    using mine_inv_content [OF assms] truck_layer.empty_ok assms
    by (auto simp: disposeMine_def pauseMine_def mine_inv_def mine_content_def flags_ok_def canRender_def truck_layer_ok_def)
qed

lemma trucks_of_none: "nf_vehicles frame = [] \<Longrightarrow> trucks_of field frame []"
  by (simp add: trucks_of_def current_items_def)

lemma mine_inv_start: "mine_inv field (createMineRenderer ctl hidden w h)"
proof -
  have "mine_inv field (resizeMine w h (fitMine ctl v))" if "mine_content field v" "flags_ok v" for v
  proof -
    have "mine_inv field (fitMine ctl v)" using that unfolding fitMine_def by (rule lookFrom_inv)
    then show ?thesis by (intro resizeMine_inv) (simp_all add: mine_inv_content)
  qed
  then show ?thesis
    unfolding createMineRenderer_def
    by (simp add: mine_content_def truck_layer_ok_def truck_layer.empty_ok trucks_of_none flags_ok_def)
qed

lemma mine_asleep:
  assumes "mine_inv field v" "\<not> canRender v"
  shows "nv_shown (mine_step parse features e v) = nv_shown v"
proof (cases e)
  case (MineFrameFired ctl proj now)
  then show ?thesis using assms by (simp add: renderMine_def mine_inv_def flags_ok_def)
qed (auto simp: updateMine_def resizeMine_def mineIntersected_def mineVisibility_def mineLost_def mineRestored_def fitMine_def
  focusMine_def zoomMine_def dragMine_def disposeMine_def lookFrom_def pauseMine_def syncVisibility_def Let_def split: option.split)

interpretation mine_loop: frame_loop "createMineRenderer ctl hidden w h" "mine_step parse features" "\<lambda>_. True"
    "mine_inv (mineElevation parse features)" canRender fl_pending nv_shown minePicture
proof
  fix v e
  assume "mine_inv (mineElevation parse features) v" "\<not> canRender v"
  then show "nv_shown (mine_step parse features e v) \<in> {nv_shown v, None}" using mine_asleep by simp
qed (use mine_inv_start mine_inv_step in \<open>simp_all add: mine_inv_def\<close>)

text \<open>
  The scene of the mine is that of the last frame. After any events, until the renderer is disposed of, there is a truck for
  exactly the vehicles of the frame given last, each with that vehicle's target, heading, bed, load, reversing lamps and
  selection. Where the scene can be seen, either a frame is on its way or what was drawn last is the scene, with every truck
  exactly at its target, turned to its heading and its bed, load and rams as they are; where it cannot, no frame is on its way.
\<close>

theorem mine_scene_current:
  "let v = mine_run parse features ctl hidden w h es in
    (fl_disposed v \<or> trucks_of (mineElevation parse features) (nv_current v) (nv_trucks v)) \<and>
    (if canRender v then fl_pending v \<or> nv_shown v = Some (minePicture v) \<and> at_rest v else \<not> fl_pending v)"
proof -
  define v where "v = mine_run parse features ctl hidden w h es"
  have "mine_inv (mineElevation parse features) v"
    unfolding v_def mine_run_def by (rule mine_loop.run_inv) (simp add: list_all_iff)
  then show ?thesis
    unfolding Let_def v_def [symmetric] by (auto simp: mine_inv_def mine_content_def flags_ok_def)
qed

section \<open>The trucks come to rest\<close>

lemma trunc_bounds: "\<bar>x - trunc_real x\<bar> < 1" "0 \<le> x \<Longrightarrow> 0 \<le> x - trunc_real x"
  unfolding trunc_real_def by (auto simp: abs_less_iff; linarith)+

lemma real_rem_bounds:
  assumes "0 < b"
  shows "\<bar>real_rem a b\<bar> < b" "0 \<le> a \<Longrightarrow> 0 \<le> real_rem a b" "\<exists>k :: int. real_rem a b = a - b * k"
proof -
  have rem: "real_rem a b = b * (a / b - trunc_real (a / b))" using assms by (simp add: real_rem_def right_diff_distrib)
  show "\<bar>real_rem a b\<bar> < b" using trunc_bounds(1) [of "a / b"] assms by (simp add: rem abs_mult)
  show "0 \<le> a \<Longrightarrow> 0 \<le> real_rem a b" using trunc_bounds(2) [of "a / b"] assms by (simp add: rem)
  show "\<exists>k :: int. real_rem a b = a - b * k" by (auto simp: real_rem_def trunc_real_def)
qed

lemma euclideanModulo_range:
  assumes "0 < m"
  shows "0 \<le> euclideanModulo n m" "euclideanModulo n m < m" "\<exists>k :: int. euclideanModulo n m = n - m * k"
proof -
  let ?r = "real_rem n m + m"
  have "0 \<le> ?r" using real_rem_bounds(1) [OF assms, of n] by linarith
  then show "0 \<le> euclideanModulo n m" "euclideanModulo n m < m"
    using real_rem_bounds(1,2) [OF assms, of ?r] by (simp_all add: euclideanModulo_def)
  obtain k l :: int where "real_rem n m = n - m * k" "real_rem ?r m = ?r - m * l"
    using real_rem_bounds(3) [OF assms] by metis
  then have "euclideanModulo n m = n - m * (k + l - 1)" by (simp add: euclideanModulo_def algebra_simps)
  then show "\<exists>k :: int. euclideanModulo n m = n - m * k" by (metis of_int_add of_int_diff of_int_1)
qed

text \<open>The difference of headings is the one the short way round, and the only one of its size.\<close>

lemma headingDelta_range: "- pi \<le> headingDelta h c" "headingDelta h c < pi" "\<exists>k :: int. headingDelta h c = h - c - 2 * pi * k"
proof -
  show "- pi \<le> headingDelta h c" "headingDelta h c < pi"
    using euclideanModulo_range(1,2) [of "pi * 2" "h - c + pi"] pi_gt_zero by (simp_all add: headingDelta_def)
  show "\<exists>k :: int. headingDelta h c = h - c - 2 * pi * k"
    using euclideanModulo_range(3) [of "pi * 2" "h - c + pi"] pi_gt_zero by (auto simp: headingDelta_def algebra_simps)
qed

lemma headingDelta_unique:
  assumes "- pi \<le> d" "d < pi" "h - c = d + 2 * pi * of_int k"
  shows "headingDelta h c = d"
proof -
  obtain l :: int where l: "headingDelta h c = h - c - 2 * pi * l" using headingDelta_range(3) by blast
  then have "headingDelta h c - d = 2 * pi * of_int (k - l)" using assms(3) by (simp add: algebra_simps)
  moreover have "\<bar>headingDelta h c - d\<bar> < 2 * pi" using headingDelta_range(1,2) [of h c] assms(1,2) by (simp add: abs_less_iff)
  ultimately have "\<bar>of_int (k - l) :: real\<bar> < 1" using pi_gt_zero by (simp add: abs_mult)
  then have "k = l" by linarith
  then show ?thesis using \<open>headingDelta h c - d = _\<close> by simp
qed

text \<open>One step of the turn: never past the heading, so that the branch which jumps to it is not taken.\<close>

lemma turn_step:
  assumes "0 < dt" "dt \<le> 0.1" "0.0002 < \<bar>headingDelta h c\<bar>"
  shows "\<bar>headingDelta h (turnHeading dt h c)\<bar> = \<bar>headingDelta h c\<bar> - min 2 (\<bar>headingDelta h c\<bar> * 5.2) * dt"
proof -
  define d where "d = headingDelta h c"
  define m where "m = min 2 (\<bar>d\<bar> * 5.2) * dt"
  have d: "0 < \<bar>d\<bar>" using assms(3) by (simp add: d_def)
  have "min 2 (\<bar>d\<bar> * 5.2) * dt \<le> (\<bar>d\<bar> * 5.2) * 0.1" using assms(1,2) d by (intro mult_mono) auto
  then have m: "0 < m" "m < \<bar>d\<bar>" using assms(1) d by (auto simp: m_def)
  have step: "turnHeading dt h c = c + sgn d * m"
    using assms(3) m d by (auto simp: turnHeading_def Let_def m_def d_def [symmetric] abs_mult mult.assoc)
  obtain k :: int where "d = h - c - 2 * pi * k" using headingDelta_range(3) [of h c] by (auto simp: d_def)
  then have "h - (c + sgn d * m) = (d - sgn d * m) + 2 * pi * of_int k" by simp
  moreover have "- pi \<le> d - sgn d * m" "d - sgn d * m < pi"
    using headingDelta_range(1,2) [of h c] m by (auto simp: d_def [symmetric] sgn_if abs_if split: if_splits)
  ultimately have "headingDelta h (turnHeading dt h c) = d - sgn d * m" unfolding step by (rule headingDelta_unique [rotated 2])
  then have "\<bar>headingDelta h (turnHeading dt h c)\<bar> = \<bar>d\<bar> - m" using m by (auto simp: sgn_if abs_if split: if_splits)
  then show ?thesis by (simp only: d_def m_def)
qed

lemma heading_reached: "headingDelta h h = 0"
  by (rule headingDelta_unique [where k = 0]) (use pi_gt_zero in simp_all)

lemma turn_shrinks:
  assumes "1 / 30 \<le> dt" "dt \<le> 0.1"
  shows "\<bar>headingDelta h (turnHeading dt h c)\<bar> \<le> \<bar>headingDelta h c\<bar> * (59 / 60) \<and>
    (\<bar>headingDelta h c\<bar> \<le> 0.0002 \<longrightarrow> headingDelta h (turnHeading dt h c) = 0)"
proof (cases "0.0002 < \<bar>headingDelta h c\<bar>")
  case True
  define d where "d = \<bar>headingDelta h c\<bar>"
  have "d \<le> pi" using headingDelta_range(1,2) [of h c] by (simp add: d_def abs_le_iff)
  then have "d * (1 / 2) \<le> min 2 (d * 5.2)" using True pi_less_4 by (auto simp: d_def min_def)
  then have "d * (1 / 2) * (1 / 30) \<le> min 2 (d * 5.2) * dt" using assms True by (intro mult_mono) (auto simp: d_def)
  then show ?thesis using turn_step [of dt h c] assms True by (simp add: d_def field_simps)
next
  case False
  then have "turnHeading dt h c = h" by (simp add: turnHeading_def Let_def)
  then show ?thesis by (simp add: heading_reached)
qed

lemma distance_lerp:
  assumes "0 \<le> 1 - a"
  shows "distanceTo (vlerp p q a) q = (1 - a) * distanceTo p q"
proof -
  obtain x y z where p: "p = (x, y, z)" by (cases p)
  obtain u v w where q: "q = (u, v, w)" by (cases q)
  have "distanceTo (vlerp p q a) q = sqrt ((1 - a)\<^sup>2 * ((x - u) * (x - u) + (y - v) * (y - v) + (z - w) * (z - w)))"
    by (simp add: p q distanceTo_def) (simp add: power2_eq_square algebra_simps)
  then show ?thesis using assms by (simp add: real_sqrt_mult p q distanceTo_def)
qed

lemma move_shrinks:
  assumes "1 / 30 \<le> dt"
  shows "distanceTo (movePosition dt p q) q \<le> distanceTo p q * (59 / 60) \<and>
    (distanceTo p q \<le> 0.001 \<longrightarrow> movePosition dt p q = q) \<and> distanceTo (movePosition dt p q) q \<le> 6"
proof -
  have zero: "distanceTo q q = 0" by (cases q) (simp add: distanceTo_def)
  have pos: "0 \<le> distanceTo p q" by (cases p; cases q) (simp add: distanceTo_def)
  show ?thesis
  proof (cases "6 < distanceTo p q \<or> distanceTo p q \<le> 0.001")
    case True
    then have "movePosition dt p q = q" by (auto simp: movePosition_def Let_def)
    then show ?thesis using pos zero by simp
  next
    case False
    have "1 + dt * 18 \<le> exp (dt * 18)" by (rule exp_ge_add_one_self)
    then have "8 / 5 \<le> exp (dt * 18)" using assms by linarith
    then have "exp (- dt * 18) \<le> 5 / 8" by (simp add: exp_minus field_simps)
    then have "exp (- dt * 18) * distanceTo p q \<le> 5 / 8 * distanceTo p q" using pos by (rule mult_right_mono)
    moreover have "distanceTo (movePosition dt p q) q = exp (- dt * 18) * distanceTo p q"
      using False distance_lerp [of "1 - exp (- dt * 18)" p q] by (simp add: movePosition_def Let_def)
    ultimately have "distanceTo (movePosition dt p q) q \<le> 5 / 8 * distanceTo p q" by linarith
    then show ?thesis using False pos by auto
  qed
qed

text \<open>How far a truck is from its place, with the heading counted five times, and what one frame leaves of it.\<close>

definition unrest :: "TruckItem \<Rightarrow> real" where
  "unrest item = max (distanceTo (tk_position item) (tk_target item) / 5)
     \<bar>headingDelta (tk_heading item) (tk_currentHeading item)\<bar>"

lemma unrest_still: "unrest item \<le> 0.0002 \<Longrightarrow> \<not> truckMoving item"
  unfolding unrest_def truckMoving_def max.bounded_iff by auto

lemma animate_unrest:
  assumes "1 / 30 \<le> dt" "dt \<le> 0.1"
  shows "unrest (labelTruck projected client (animateTruck station dt item)) \<le> unrest item * (59 / 60)"
    "unrest (labelTruck projected client (animateTruck station dt item)) \<le> 4"
proof -
  let ?new = "labelTruck projected client (animateTruck station dt item)"
  have new: "tk_position ?new = movePosition dt (tk_position item) (tk_target item)" "tk_target ?new = tk_target item"
    "tk_currentHeading ?new = turnHeading dt (tk_heading item) (tk_currentHeading item)" "tk_heading ?new = tk_heading item"
    by (simp_all add: labelTruck_def animateTruck_def Let_def split: prod.split)
  note move = move_shrinks [OF assms(1), of "tk_position item" "tk_target item"]
  note turn = turn_shrinks [OF assms, of "tk_heading item" "tk_currentHeading item"]
  show "unrest ?new \<le> unrest item * (59 / 60)"
    unfolding unrest_def new using move turn by (auto simp: max_def)
  have "\<bar>headingDelta (tk_heading item) c\<bar> \<le> 4" for c
    using headingDelta_range(1,2) [of "tk_heading item" c] pi_less_4 by (simp add: abs_le_iff)
  then show "unrest ?new \<le> 4" unfolding unrest_def new using move by auto
qed

text \<open>OrbitControls that have nothing left to do: no change is reported.\<close>

definition quiet_controls :: "OrbitControls \<Rightarrow> bool" where
  "quiet_controls ctl \<longleftrightarrow> (\<forall>view. \<not> snd (ctl view))"

definition unrest_below :: "real \<Rightarrow> MineView \<Rightarrow> bool" where
  "unrest_below limit v \<longleftrightarrow> list_all (\<lambda>(_, item). unrest item \<le> limit) (nv_trucks v)"

lemma frameStep_range:
  assumes "mine_content field v" "1000 / 30 \<le> now - nv_last v"
  shows "1 / 30 \<le> frameStep now v" "frameStep now v \<le> 0.1"
  using assms by (auto simp: frameStep_def mine_content_def min_def field_simps split: option.split)

lemma quiet_draw_pending:
  assumes "quiet_controls ctl" "\<not> fl_pending v"
  shows "\<not> fl_pending (drawMine parse features ctl proj now v)"
proof -
  have "fl_pending (updateControls ctl u) = fl_pending u" for u
  proof -
    have "\<not> snd (ctl (nv_camera u, nv_target u))" using assms(1) unfolding quiet_controls_def by blast
    then show ?thesis by (cases "ctl (nv_camera u, nv_target u)") (auto simp: updateControls_def Let_def split: prod.split)
  qed
  then show ?thesis using assms(2) by (simp add: drawMine_def Let_def)
qed

lemma render_unrest:
  assumes "mine_inv field v" "fl_pending v" "1000 / 30 \<le> now - nv_last v" "quiet_controls ctl"
    and "w = renderMine parse features ctl proj now v"
  shows "(unrest_below limit v \<longrightarrow> unrest_below (limit * (59 / 60)) w) \<and> unrest_below 4 w \<and>
    (unrest_below 0.0002 v \<longrightarrow> \<not> fl_pending w) \<and> canRender w \<and> nv_last w = now"
proof -
  let ?v = "v\<lparr>fl_pending := False\<rparr>"
  let ?d = "drawMine parse features ctl proj now ?v"
  have ok: "canRender ?v" "mine_content field ?v"
    using assms(1,2) by (auto simp: mine_inv_def flags_ok_def canRender_def mine_content_def)
  have w: "w = (if list_ex (\<lambda>(_, item). truckMoving item) (nv_trucks v) then requestRender ?d else ?d\<lparr>nv_animationLast := None\<rparr>)"
    using assms(2,3) ok(1) quiet_draw_pending [OF assms(4), of ?v parse features proj now]
    by (auto simp: assms(5) renderMine_def Let_def)
  then have same: "nv_trucks w = nv_trucks ?d" "canRender w" "nv_last w = now"
    using ok(1) by (simp_all add: mine_canRender)
  obtain projected where trucks: "nv_trucks ?d =
     map (\<lambda>(k, item). (k, labelTruck projected (nv_client ?v) (animateTruck (crusherLayout features) (frameStep now ?v) item))) (nv_trucks ?v)"
    using drawMine_trucks by blast
  have step: "1 / 30 \<le> frameStep now ?v" "frameStep now ?v \<le> 0.1"
    using frameStep_range [OF ok(2)] assms(3) by simp_all
  have lower: "unrest (labelTruck p c (animateTruck b (frameStep now ?v) item)) \<le> limit * (59 / 60)" if "unrest item \<le> limit"
    for p c b item
    using order_trans [OF animate_unrest(1) [OF step] mult_right_mono [OF that]] by simp
  have "unrest_below (limit * (59 / 60)) w" if "unrest_below limit v"
    unfolding unrest_below_def same trucks list.pred_map comp_apply
  proof (rule list.pred_mono_strong)
    show "list_all (\<lambda>(_, item). unrest item \<le> limit) (nv_trucks ?v)" using that by (simp add: unrest_below_def)
    show "case case x of (k, item) \<Rightarrow>
        (k, labelTruck projected (nv_client ?v) (animateTruck (crusherLayout features) (frameStep now ?v) item)) of
        (_, item) \<Rightarrow> unrest item \<le> limit * (59 / 60)"
      if "case x of (_, item) \<Rightarrow> unrest item \<le> limit" for x :: "string \<times> TruckItem"
      using that lower unfolding split_beta by simp
  qed
  moreover have "unrest_below 4 w"
    unfolding unrest_below_def same trucks list_all_iff by (auto intro: animate_unrest(2) [OF step, simplified])
  moreover have "\<not> fl_pending w" if "unrest_below 0.0002 v"
  proof -
    have "\<not> list_ex (\<lambda>(_, item). truckMoving item) (nv_trucks v)"
      using that unrest_still by (force simp: unrest_below_def list_all_iff list_ex_iff)
    then show ?thesis using w quiet_draw_pending [OF assms(4), of ?v parse features proj now] by simp
  qed
  ultimately show ?thesis using same by blast
qed

text \<open>Frames far enough apart, with controls that have nothing left to do.\<close>

fun spaced_frames :: "real \<Rightarrow> MineEvent list \<Rightarrow> bool" where
  "spaced_frames earlier [] = True"
| "spaced_frames earlier (MineFrameFired ctl proj now # es) = (1000 / 30 \<le> now - earlier \<and> quiet_controls ctl \<and> spaced_frames now es)"
| "spaced_frames earlier (e # es) = False"

lemma spaced_framesE:
  assumes "spaced_frames earlier es" "es \<noteq> []"
  obtains ctl proj now fs where "es = MineFrameFired ctl proj now # fs" "1000 / 30 \<le> now - earlier" "quiet_controls ctl"
    "spaced_frames now fs"
  using assms by (cases "(earlier, es)" rule: spaced_frames.cases) auto

lemma resting_frames:
  assumes "\<not> fl_pending v" "spaced_frames earlier es"
  shows "fold (mine_step parse features) es v = v"
  using assms
proof (induction es arbitrary: earlier)
  case (Cons e es)
  from Cons.prems(2) obtain ctl proj now where "e = MineFrameFired ctl proj now" "spaced_frames now es"
    by (auto elim: spaced_framesE)
  then show ?case using Cons by (simp add: renderMine_def)
qed simp

lemma frames_settle:
  assumes "mine_inv (mineElevation parse features) v" "spaced_frames (nv_last v) es" "unrest_below limit v"
    and "limit * (59 / 60) ^ n \<le> 0.0002" "length es = Suc n"
  shows "\<not> fl_pending (fold (mine_step parse features) es v)"
  using assms
proof (induction n arbitrary: es v limit)
  case 0
  then obtain ctl proj now where es: "es = [MineFrameFired ctl proj now]" "1000 / 30 \<le> now - nv_last v" "quiet_controls ctl"
    by (auto simp: length_Suc_conv elim!: spaced_framesE)
  have "unrest_below 0.0002 v" using 0(3,4) by (auto simp: unrest_below_def list_all_iff)
  then show ?case
    using render_unrest [OF 0(1) _ es(2,3) refl] by (cases "fl_pending v") (auto simp: es(1) renderMine_def)
next
  case (Suc n)
  obtain ctl proj now fs where es: "es = MineFrameFired ctl proj now # fs" "1000 / 30 \<le> now - nv_last v" "quiet_controls ctl"
    "spaced_frames now fs"
  proof (rule spaced_framesE [OF Suc.prems(2)])
    show "es \<noteq> []" using Suc.prems(5) by auto
  qed
  show ?case
  proof (cases "fl_pending v")
    case True
    let ?w = "renderMine parse features ctl proj now v"
    note w = render_unrest [OF Suc.prems(1) True es(2,3) refl, of limit parse features proj]
    have "limit * (59 / 60) * (59 / 60) ^ n \<le> 0.0002" using Suc.prems(4) by (simp add: mult.assoc)
    then have "\<not> fl_pending (fold (mine_step parse features) fs ?w)"
      using w Suc.prems(3,5) es by (intro Suc.IH [OF renderMine_inv [OF Suc.prems(1)]]) auto
    then show ?thesis by (simp add: es(1))
  next
    case False
    then show ?thesis using resting_frames [OF False Suc.prems(2)] by simp
  qed
qed

lemma small_power: "4 * (59 / 60) ^ 698 \<le> (0.0002 :: real)"
proof -
  have "(59 / 60 :: real) ^ 60 \<le> 2 / 5" by (simp add: power_divide)
  then have "((59 / 60 :: real) ^ 60) ^ 11 \<le> (2 / 5) ^ 11" by (rule power_mono) simp
  moreover have "(59 / 60 :: real) ^ 698 \<le> (59 / 60) ^ 660" by (rule power_decreasing) simp_all
  moreover have "((59 / 60 :: real) ^ 60) ^ 11 = (59 / 60) ^ 660" by (simp flip: power_mult)
  moreover have "4 * (2 / 5 :: real) ^ 11 \<le> 0.0002" by (simp add: power_divide)
  ultimately show ?thesis by linarith
qed

lemma frames_awake:
  assumes "canRender v" "spaced_frames earlier es"
  shows "canRender (fold (mine_step parse features) es v)"
  using assms
proof (induction es arbitrary: v earlier)
  case (Cons e es)
  from Cons.prems(2) obtain ctl proj now where e: "e = MineFrameFired ctl proj now" "spaced_frames now es"
    by (auto elim: spaced_framesE)
  have "canRender (renderMine parse features ctl proj now v)" using Cons.prems(1) by (simp add: renderMine_def Let_def mine_canRender)
  then show ?case using Cons.IH e by simp
qed simp


text \<open>A scene scrolled into view with a truck ten metres from the middle of the map, then a frame every 40 milliseconds.\<close>

definition lone_truck :: SupervisorVehicle where
  "lone_truck = \<lparr>sv_haul = None, sv_vehicleId = ''truck-1'', sv_isPrimary = True, sv_isSimulated = False, sv_sourceLabel = ''Live'',
     sv_hasPosition = True, sv_xM = Fin 10, sv_yM = Fin 0, sv_headingDeg = Fin 90, sv_speedMps = Fin 4,
     sv_positionConfidence = None, sv_emergencyState = None, sv_linkStatus = None, sv_distanceM = None, sv_lastUpdateMs = Fin 0,
     sv_ageMs = Fin 0, sv_tone = nominal\<rparr>"

definition still_controls :: OrbitControls where
  "still_controls view = (view, False)"

fun even_frames :: "real \<Rightarrow> nat \<Rightarrow> MineEvent list" where
  "even_frames now 0 = []"
| "even_frames now (Suc n) = MineFrameFired still_controls (\<lambda>_ p. p) (now + 40) # even_frames (now + 40) n"

lemma even_frames_spaced: "spaced_frames now (even_frames now n)" "length (even_frames now n) = n"
  by (induction n arbitrary: now) (simp_all add: quiet_controls_def still_controls_def)

definition one_truck_shown :: "MineEvent list" where
  "one_truck_shown =
     [MineIntersected (Some True), MineUpdated \<lparr>nf_vehicles = [lone_truck], nf_haul = None, nf_selected = None\<rparr>]"


end
