(* ===== verification/MineSite.thy ===== *)
theory MineSite
  imports MineRenderer PlanMap
begin

text \<open>
  The map of the mine as the supervisor has it: \<^verbatim>\<open>frontend/src/twin/MineTerrainView.tsx\<close>, which starts, updates and disposes
  of the renderer of the scene, inside \<^verbatim>\<open>frontend/src/twin/MineFleetMap.tsx\<close>, whose buttons act on the plan or on the scene.
  Starting a renderer may fail: \<open>Started\<close> is what the browser makes of it, nothing or the controls, the visibility of the page
  and the size of the host.
\<close>

section \<open>The view of the terrain\<close>

type_synonym Started = "(OrbitControls \<times> bool \<times> real \<times> real) option"

datatype TerrainStatus = TERRAIN_LOADING | TERRAIN_READY | TERRAIN_ERROR

text \<open>\<open>tvw_scene\<close> is the renderer the page holds, with the features it was started for; the last two fields keep the renderers
  disposed of and the number of those started.\<close>

record TerrainView =
  tvw_mounted :: bool
  tvw_key :: string
  tvw_status :: TerrainStatus
  tvw_scene :: "(MapFeature list \<times> MineView) option"
  tvw_closed :: "MineView list"
  tvw_started :: nat

definition featuresKey :: "MapFeature list \<Rightarrow> string" where
  "featuresKey features =
     (if features = [] then ''empty''
      else nat_str (length features) @ '':'' @ mf_feature_id (hd features) @ '':'' @ mf_feature_id (last features))"

definition startScene :: "(string \<Rightarrow> jsval option) \<Rightarrow> MapFeature list \<Rightarrow> MineFrame \<Rightarrow> Started \<Rightarrow> TerrainView \<Rightarrow> TerrainView" where
  "startScene parse features frame started v =
     (case started of
        None \<Rightarrow> v\<lparr>tvw_status := TERRAIN_ERROR\<rparr>
      | Some (ctl, hidden, w, h) \<Rightarrow>
          v\<lparr>tvw_status := TERRAIN_READY, tvw_started := Suc (tvw_started v),
            tvw_scene := Some (features, updateMine (mineElevation parse features) frame (createMineRenderer ctl hidden w h))\<rparr>)"

definition closeScene :: "TerrainView \<Rightarrow> TerrainView" where
  "closeScene v =
     (case tvw_scene v of None \<Rightarrow> v | Some (_, scene) \<Rightarrow> v\<lparr>tvw_scene := None, tvw_closed := disposeMine scene # tvw_closed v\<rparr>)"

definition updateScene :: "(string \<Rightarrow> jsval option) \<Rightarrow> MineFrame \<Rightarrow> TerrainView \<Rightarrow> TerrainView" where
  "updateScene parse frame v =
     v\<lparr>tvw_scene := map_option (\<lambda>(features, scene). (features, updateMine (mineElevation parse features) frame scene)) (tvw_scene v)\<rparr>"

text \<open>A commit: the renderer is started anew when the key of the features has changed, and updated with the frame, an object of
  its own in every render of the map.\<close>

definition mountTerrain :: "(string \<Rightarrow> jsval option) \<Rightarrow> MapFeature list \<Rightarrow> MineFrame \<Rightarrow> Started \<Rightarrow> TerrainView \<Rightarrow> TerrainView" where
  "mountTerrain parse features frame started v =
     updateScene parse frame (startScene parse features frame started
       (v\<lparr>tvw_mounted := True, tvw_key := featuresKey features, tvw_status := TERRAIN_LOADING\<rparr>))"

definition renderTerrain :: "(string \<Rightarrow> jsval option) \<Rightarrow> MapFeature list \<Rightarrow> MineFrame \<Rightarrow> Started \<Rightarrow> TerrainView \<Rightarrow> TerrainView" where
  "renderTerrain parse features frame started v =
     updateScene parse frame
       (if featuresKey features = tvw_key v then v
        else startScene parse features frame started ((closeScene v)\<lparr>tvw_key := featuresKey features\<rparr>))"

definition unmountTerrain :: "TerrainView \<Rightarrow> TerrainView" where
  "unmountTerrain v = (closeScene v)\<lparr>tvw_mounted := False\<rparr>"

text \<open>The text over the scene.\<close>

definition terrainStatusText :: "TerrainView \<Rightarrow> (string \<times> string) option" where
  "terrainStatusText v =
     (case tvw_status v of
        TERRAIN_READY \<Rightarrow> None
      | TERRAIN_ERROR \<Rightarrow>
          Some (''alert'', ''3D rendering unavailable. Use the 2D plan or enable browser graphics acceleration.'')
      | TERRAIN_LOADING \<Rightarrow> Some (''status'', ''Loading mine terrain''))"

section \<open>The map\<close>

record SiteMap =
  sm_map :: FleetMap
  sm_features :: "MapFeature list"
  sm_frame :: MineFrame
  sm_view :: TerrainView

definition commitSite :: "(string \<Rightarrow> jsval option) \<Rightarrow> Started \<Rightarrow> SiteMap \<Rightarrow> SiteMap" where
  "commitSite parse started m =
     m\<lparr>sm_map := renderFleetMap (sm_map m),
       sm_view :=
         (if fmap_tilted (sm_map m) then
            (if tvw_mounted (sm_view m) then renderTerrain else mountTerrain) parse (sm_features m) (sm_frame m) started (sm_view m)
          else if tvw_mounted (sm_view m) then unmountTerrain (sm_view m) else sm_view m)\<rparr>"

text \<open>What is asked of the renderer, when the page holds one.\<close>

definition onScene :: "(MapFeature list \<Rightarrow> MineView \<Rightarrow> MineView) \<Rightarrow> SiteMap \<Rightarrow> SiteMap" where
  "onScene act m =
     m\<lparr>sm_view := (sm_view m)\<lparr>tvw_scene := map_option (\<lambda>(features, scene). (features, act features scene)) (tvw_scene (sm_view m))\<rparr>\<rparr>"

fun siteButton :: "FleetMapEvent \<Rightarrow> bool" where
  "siteButton (PlanResized _ _) = False"
| "siteButton (PlanPointerDown _ _ _ _) = False"
| "siteButton (PlanPointerMoved _ _) = False"
| "siteButton PlanPointerReleased = False"
| "siteButton _ = True"

definition pressScene :: "OrbitControls \<Rightarrow> FleetMapEvent \<Rightarrow> SiteMap \<Rightarrow> SiteMap" where
  "pressScene ctl e m =
     (if e = MapZoomedIn \<and> fmap_tilted (sm_map m) then onScene (\<lambda>_. zoomMine ctl 0.8) m
      else if e = MapZoomedOut \<and> fmap_tilted (sm_map m) then onScene (\<lambda>_. zoomMine ctl 1.25) m
      else if e = SiteFitted then onScene (\<lambda>_. fitMine ctl) m else m)"

text \<open>A press of a button is rendered at once when it has changed the state, and \<^verbatim>\<open>Fit site\<close> always changes it.\<close>

definition pressSite :: "(string \<Rightarrow> jsval option) \<Rightarrow> OrbitControls \<Rightarrow> Started \<Rightarrow> FleetMapEvent \<Rightarrow> SiteMap \<Rightarrow> SiteMap" where
  "pressSite parse ctl started e m =
     (if fmap_tilted (sm_map m) \<and> \<not> siteButton e then m
      else
        let m' = (pressScene ctl e m)\<lparr>sm_map := fleet_map_step (planBounds (sm_features m)) e (sm_map m)\<rparr>
        in if siteButton e \<and> (e = SiteFitted \<or> e = MapRendered \<or> sm_map m' \<noteq> sm_map m) then commitSite parse started m' else m')"

datatype SiteEvent =
  SiteRendered "MapFeature list" MineFrame Started
| SitePressed OrbitControls Started FleetMapEvent
| SceneFocused OrbitControls MineFocus
| SceneEvent MineEvent

text \<open>What reaches the renderer but through the page: updates and the disposal come from the page only.\<close>

fun scene_event :: "MineEvent \<Rightarrow> bool" where
  "scene_event (MineUpdated _) = False"
| "scene_event MineDisposed = False"
| "scene_event _ = True"

fun site_step :: "(string \<Rightarrow> jsval option) \<Rightarrow> SiteEvent \<Rightarrow> SiteMap \<Rightarrow> SiteMap" where
  "site_step parse (SiteRendered features frame started) m = commitSite parse started (m\<lparr>sm_features := features, sm_frame := frame\<rparr>)"
| "site_step parse (SitePressed ctl started e) m = pressSite parse ctl started e m"
| "site_step parse (SceneFocused ctl focus) m =
     (if fmap_tilted (sm_map m) then onScene (\<lambda>features. focusMine ctl (mineElevation parse features) features focus) m else m)"
| "site_step parse (SceneEvent e) m = (if scene_event e then onScene (\<lambda>features. mine_step parse features e) m else m)"

definition mountSite :: "(string \<Rightarrow> jsval option) \<Rightarrow> MapFeature list \<Rightarrow> MineFrame \<Rightarrow> Started \<Rightarrow> SiteMap" where
  "mountSite parse features frame started =
     commitSite parse started
       \<lparr>sm_map = mountFleetMap, sm_features = features, sm_frame = frame,
        sm_view = \<lparr>tvw_mounted = False, tvw_key = [], tvw_status = TERRAIN_LOADING, tvw_scene = None, tvw_closed = [], tvw_started = 0\<rparr>\<rparr>"

definition site_run ::
    "(string \<Rightarrow> jsval option) \<Rightarrow> MapFeature list \<Rightarrow> MineFrame \<Rightarrow> Started \<Rightarrow> SiteEvent list \<Rightarrow> SiteMap" where
  "site_run parse features frame started es = fold (site_step parse) es (mountSite parse features frame started)"

section \<open>The scene is that of the fleet\<close>

lemma scene_event_keeps:
  assumes "scene_event e"
  shows "nv_current (mine_step parse features e v) = nv_current v \<and> fl_disposed (mine_step parse features e v) = fl_disposed v"
  using assms
  by (cases e) (auto simp: renderMine_def resizeMine_def mineIntersected_def mineVisibility_def mineLost_def mineRestored_def
      fitMine_def focusMine_def zoomMine_def dragMine_def lookFrom_def pauseMine_def syncVisibility_def Let_def split: option.split)

text \<open>A renderer that shows a frame of the fleet, for its own features.\<close>

definition scene_ok :: "(string \<Rightarrow> jsval option) \<Rightarrow> MapFeature list \<Rightarrow> MineFrame \<Rightarrow> MineView \<Rightarrow> bool" where
  "scene_ok parse features frame scene \<longleftrightarrow>
     mine_inv (mineElevation parse features) scene \<and> \<not> fl_disposed scene \<and> nv_current scene = frame"

definition view_ok :: "(string \<Rightarrow> jsval option) \<Rightarrow> MineFrame \<Rightarrow> TerrainView \<Rightarrow> bool" where
  "view_ok parse frame v \<longleftrightarrow>
     (case tvw_scene v of
        None \<Rightarrow> tvw_started v = length (tvw_closed v) \<and> (tvw_mounted v \<longrightarrow> tvw_status v = TERRAIN_ERROR)
      | Some (features, scene) \<Rightarrow>
          tvw_mounted v \<and> tvw_status v = TERRAIN_READY \<and> featuresKey features = tvw_key v \<and> scene_ok parse features frame scene \<and>
          tvw_started v = Suc (length (tvw_closed v))) \<and>
     list_all (\<lambda>scene. fl_disposed scene \<and> \<not> fl_pending scene) (tvw_closed v)"

definition site_inv :: "(string \<Rightarrow> jsval option) \<Rightarrow> SiteMap \<Rightarrow> bool" where
  "site_inv parse m \<longleftrightarrow>
     view_ok parse (sm_frame m) (sm_view m) \<and> tvw_mounted (sm_view m) = fmap_tilted (sm_map m) \<and>
     (tvw_mounted (sm_view m) \<longrightarrow> tvw_key (sm_view m) = featuresKey (sm_features m))"

lemma updateMine_fields: "\<not> fl_disposed v \<Longrightarrow> nv_current (updateMine field frame v) = frame"
  "fl_disposed (updateMine field frame v) = fl_disposed v"
  by (simp_all add: updateMine_def)

lemma create_not_disposed: "\<not> fl_disposed (createMineRenderer ctl hidden w h)"
  by (simp add: createMineRenderer_def resizeMine_def fitMine_def lookFrom_def Let_def)

lemma dispose_closed: "mine_inv field v \<Longrightarrow> fl_disposed (disposeMine v) \<and> \<not> fl_pending (disposeMine v)"
  by (auto simp: disposeMine_def pauseMine_def mine_inv_def flags_ok_def canRender_def)

lemma update_scene_ok:
  assumes "scene_ok parse features earlier scene"
  shows "scene_ok parse features frame (updateMine (mineElevation parse features) frame scene)"
  using assms updateMine_inv updateMine_fields by (auto simp: scene_ok_def)

lemma create_scene_ok: "scene_ok parse features frame (updateMine (mineElevation parse features) frame (createMineRenderer ctl hidden w h))"
  using updateMine_inv [OF mine_inv_start] updateMine_fields create_not_disposed by (simp add: scene_ok_def)

lemma closeScene_ok:
  assumes "view_ok parse frame v"
  shows "tvw_scene (closeScene v) = None \<and> tvw_started (closeScene v) = length (tvw_closed (closeScene v)) \<and>
    list_all (\<lambda>scene. fl_disposed scene \<and> \<not> fl_pending scene) (tvw_closed (closeScene v))"
  using assms dispose_closed by (auto simp: view_ok_def closeScene_def scene_ok_def split: option.splits)

lemma startScene_ok:
  assumes "tvw_scene v = None" "tvw_started v = length (tvw_closed v)" "tvw_mounted v" "tvw_key v = featuresKey features"
    and "list_all (\<lambda>scene. fl_disposed scene \<and> \<not> fl_pending scene) (tvw_closed v)"
  shows "view_ok parse frame (startScene parse features frame started v)"
  using assms create_scene_ok by (auto simp: startScene_def view_ok_def split: option.split)

lemma startScene_fields [simp]:
  "tvw_mounted (startScene parse features frame started v) = tvw_mounted v"
  "tvw_key (startScene parse features frame started v) = tvw_key v"
  by (auto simp: startScene_def split: option.split)

lemma updateScene_fields [simp]:
  "tvw_mounted (updateScene parse frame v) = tvw_mounted v" "tvw_key (updateScene parse frame v) = tvw_key v"
  by (simp_all add: updateScene_def)

lemma closeScene_fields [simp]: "tvw_mounted (closeScene v) = tvw_mounted v"
  by (auto simp: closeScene_def split: option.split)

lemma updateScene_ok: "view_ok parse earlier v \<Longrightarrow> view_ok parse frame (updateScene parse frame v)"
  using update_scene_ok by (fastforce simp: view_ok_def updateScene_def split: option.splits)

lemma commitSite_inv:
  assumes "view_ok parse earlier (sm_view m)"
  shows "site_inv parse (commitSite parse started m)"
proof -
  let ?v = "sm_view m"
  note closed = closeScene_ok [OF assms]
  have "view_ok parse (sm_frame m) (mountTerrain parse (sm_features m) (sm_frame m) started ?v)" if "\<not> tvw_mounted ?v"
  proof -
    have "tvw_scene ?v = None" "tvw_started ?v = length (tvw_closed ?v)"
      "list_all (\<lambda>scene. fl_disposed scene \<and> \<not> fl_pending scene) (tvw_closed ?v)"
      using that assms by (auto simp: view_ok_def split: option.splits)
    then show ?thesis unfolding mountTerrain_def by (intro updateScene_ok [OF startScene_ok]) simp_all
  qed
  moreover have "view_ok parse (sm_frame m) (renderTerrain parse (sm_features m) (sm_frame m) started ?v)" if "tvw_mounted ?v"
  proof (cases "featuresKey (sm_features m) = tvw_key ?v")
    case True
    then show ?thesis using updateScene_ok [OF assms] by (simp add: renderTerrain_def)
  next
    case False
    then have "renderTerrain parse (sm_features m) (sm_frame m) started ?v =
        updateScene parse (sm_frame m)
          (startScene parse (sm_features m) (sm_frame m) started ((closeScene ?v)\<lparr>tvw_key := featuresKey (sm_features m)\<rparr>))"
      by (simp add: renderTerrain_def)
    then show ?thesis using that closed by (simp add: updateScene_ok [OF startScene_ok])
  qed
  moreover have "view_ok parse (sm_frame m) (unmountTerrain ?v)"
    using closed by (simp add: view_ok_def unmountTerrain_def)
  moreover have "view_ok parse (sm_frame m) ?v" if "\<not> tvw_mounted ?v"
    using that assms by (auto simp: view_ok_def split: option.splits)
  ultimately show ?thesis
    by (simp add: site_inv_def commitSite_def renderFleetMap_def mountTerrain_def renderTerrain_def unmountTerrain_def)
qed

lemma onScene_inv:
  assumes "site_inv parse m"
    and "\<And>features scene. scene_ok parse features (sm_frame m) scene \<Longrightarrow> scene_ok parse features (sm_frame m) (act features scene)"
  shows "site_inv parse (onScene act m)"
  using assms by (auto simp: site_inv_def onScene_def view_ok_def split: option.splits)

lemma step_scene_ok:
  assumes "scene_ok parse features frame scene" "scene_event e"
  shows "scene_ok parse features frame (mine_step parse features e scene)"
  using assms mine_inv_step scene_event_keeps by (simp add: scene_ok_def)

lemmas controls_scene_ok =
  step_scene_ok [where e = "MineFit ctl" for ctl, simplified] step_scene_ok [where e = "MineZoomed ctl factor" for ctl factor, simplified]
  step_scene_ok [where e = "MineFocused ctl focus" for ctl focus, simplified]

lemma pressScene_inv: "site_inv parse m \<Longrightarrow> site_inv parse (pressScene ctl e m)"
  by (auto simp: pressScene_def intro!: onScene_inv controls_scene_ok)

lemma pressScene_fields [simp]: "sm_map (pressScene ctl e m) = sm_map m"
  by (simp add: pressScene_def onScene_def)

lemma pressSite_inv:
  assumes "site_inv parse m"
  shows "site_inv parse (pressSite parse ctl started e m)"
proof -
  let ?m = "(pressScene ctl e m)\<lparr>sm_map := fleet_map_step (planBounds (sm_features m)) e (sm_map m)\<rparr>"
  have pressed: "site_inv parse (pressScene ctl e m)" using assms by (rule pressScene_inv)
  have "site_inv parse (commitSite parse started ?m)"
    using pressed by (intro commitSite_inv [where earlier = "sm_frame (pressScene ctl e m)"]) (simp add: site_inv_def)
  moreover have "site_inv parse ?m" if "sm_map ?m = sm_map m"
    using that pressed by (simp add: site_inv_def)
  moreover have "site_inv parse ?m" if "\<not> siteButton e" "\<not> fmap_tilted (sm_map m)"
    using that pressed
    by (cases e) (auto simp: site_inv_def resizePlan_def planPointerDown_def planPointerMove_def planPointerUp_def Let_def
        split: option.split)
  ultimately show ?thesis using assms by (auto simp: pressSite_def Let_def)
qed

interpretation site: machine "mountSite parse features frame started" "site_step parse" "\<lambda>_. True" "site_inv parse"
proof
  show "site_inv parse (mountSite parse features frame started)"
    unfolding mountSite_def by (rule commitSite_inv) (simp add: view_ok_def)
next
  fix m :: SiteMap and e :: SiteEvent
  assume inv: "site_inv parse m"
  show "site_inv parse (site_step parse e m)"
  proof (cases e)
    case (SiteRendered features frame started)
    have "view_ok parse (sm_frame m) (sm_view (m\<lparr>sm_features := features, sm_frame := frame\<rparr>))"
      using inv by (simp add: site_inv_def)
    then show ?thesis using SiteRendered commitSite_inv by simp
  next
    case (SitePressed ctl started e)
    then show ?thesis using pressSite_inv [OF inv] by simp
  next
    case (SceneFocused ctl focus)
    then show ?thesis using inv by (auto intro!: onScene_inv controls_scene_ok)
  next
    case (SceneEvent e)
    then show ?thesis using inv by (auto intro!: onScene_inv step_scene_ok)
  qed
qed


text \<open>Features with the same key keep the terrain they were started with, whatever has changed in them.\<close>

lemma same_key_keeps_terrain:
  "featuresKey features = tvw_key v \<Longrightarrow>
     map_option fst (tvw_scene (renderTerrain parse features frame started v)) = map_option fst (tvw_scene v)"
  by (cases "tvw_scene v") (auto simp: renderTerrain_def updateScene_def)

lemma moved_features_same_key:
  "featuresKey (map (\<lambda>f. f\<lparr>mf_points := moved f, mf_properties := other f\<rparr>) features) = featuresKey features"
  by (cases "features = []") (simp_all add: featuresKey_def hd_map last_map)

end
