(* ===== verification/Console.thy ===== *)
theory Console
  imports Navigation ForwardAwareness ThemePreference DemoPlayback EfficiencyHook DefaultState
begin

text \<open>
  What is on the screen: the page of \<^verbatim>\<open>App.tsx\<close> with the login page (\<^verbatim>\<open>auth/LoginPage.tsx\<close>), the shell
  (\<^verbatim>\<open>layout/AppShell.tsx\<close>), the router of the views (\<^verbatim>\<open>layout/DashboardViewRouter.tsx\<close>) and the boundary that catches an
  error of a view (\<^verbatim>\<open>components/DashboardErrorBoundary.tsx\<close>), around the application of Navigation. Whether rendering a view
  throws is a parameter of the events that render it.
\<close>

section \<open>Texts\<close>

fun connectionLabel :: "ConnectionState \<Rightarrow> string" where
  "connectionLabel CONNECTING = ''CONNECTING''"
| "connectionLabel CONNECTED = ''CONNECTED''"
| "connectionLabel DISCONNECTED = ''OFFLINE''"

fun demoStatusText :: "DemoStatus \<Rightarrow> string" where
  "demoStatusText LOADING_DEMO = ''Loading demo''"
| "demoStatusText DEMO = ''Demo''"
| "demoStatusText PAUSED = ''Paused''"
| "demoStatusText BUFFERING_DEMO = ''Buffering demo''"

definition connectionPill :: "ConnectionState \<Rightarrow> string \<times> string" where
  "connectionPill state = (connectionLabel state, ''Telemetry '' @ toLowerCase (connectionLabel state))"

definition modePill :: "DataMode \<Rightarrow> string \<times> string" where
  "modePill mode = (mode_text (Some mode), ''Data source: '' @ mode_text (Some mode))"

section \<open>The console\<close>

text \<open>\<open>con_failed\<close> is the state of the boundary, \<open>con_awareness\<close> that of the dashboard around it; both are gone with the role.\<close>

record Console =
  con_app :: AppState
  con_awareness :: AwarenessMode
  con_failed :: bool

text \<open>
  One commit of the boundary around a view: \<open>first\<close> and \<open>again\<close> say whether rendering the view throws the first and the second
  time. A boundary that has failed shows its own text until the view has changed, and then tries again; so does one that
  has just failed on a view it did not show before.
\<close>

definition commitBoundary :: "DashboardView \<Rightarrow> DashboardView \<Rightarrow> bool \<Rightarrow> bool \<Rightarrow> bool \<Rightarrow> bool" where
  "commitBoundary previous view first again failed =
     (if previous = view then failed \<or> first else if failed then first else first \<and> again)"

text \<open>A view renders when the recording has begun, or always in the live build; before that there is nothing that could throw.\<close>

definition demoLoading :: "bool \<Rightarrow> WorldState \<Rightarrow> bool" where
  "demoLoading demo world \<longleftrightarrow> demo \<and> ws_sequence world = 0"

definition commitConsole :: "bool \<Rightarrow> WorldState \<Rightarrow> bool \<Rightarrow> bool \<Rightarrow> AppState \<Rightarrow> Console \<Rightarrow> Console" where
  "commitConsole demo world first again app c =
     (let throws = (\<lambda>t. t \<and> \<not> demoLoading demo world)
      in case (app_view (con_app c), app_view app) of
           (_, None) \<Rightarrow> \<lparr>con_app = app, con_awareness = CAMERA, con_failed = False\<rparr>
         | (None, Some view) \<Rightarrow> \<lparr>con_app = app, con_awareness = CAMERA, con_failed = throws first\<rparr>
         | (Some previous, Some view) \<Rightarrow>
             c\<lparr>con_app := app, con_failed := commitBoundary previous view (throws first) (throws again) (con_failed c)\<rparr>)"

datatype ConsoleEvent =
  ConsoleNavigated AppEvent WorldState bool bool
| ConsoleRendered WorldState bool
| AwarenessChosen AwarenessMode WorldState bool

fun console_step :: "bool \<Rightarrow> ConsoleEvent \<Rightarrow> Console \<Rightarrow> Console" where
  "console_step demo (ConsoleNavigated e world first again) c =
     commitConsole demo world first again (app_step demo e (con_app c)) c"
| "console_step demo (ConsoleRendered world throws) c = commitConsole demo world throws throws (con_app c) c"
| "console_step demo (AwarenessChosen mode world throws) c =
     (if app_view (con_app c) = Some DRIVER_VIEW \<and> \<not> con_failed c \<and> \<not> demoLoading demo world
      then commitConsole demo world throws throws (con_app c) (c\<lparr>con_awareness := mode\<rparr>) else c)"

definition mountConsole :: "bool \<Rightarrow> string \<Rightarrow> SessionStorage \<Rightarrow> WorldState \<Rightarrow> bool \<Rightarrow> Console" where
  "mountConsole demo hash storage world first =
     commitConsole demo world first first (startApp demo hash storage)
       \<lparr>con_app = \<lparr>app_role = None, app_view = None, app_hash = hash, app_storage = storage\<rparr>, con_awareness = CAMERA,
        con_failed = False\<rparr>"

definition console_run :: "bool \<Rightarrow> string \<Rightarrow> SessionStorage \<Rightarrow> WorldState \<Rightarrow> bool \<Rightarrow> ConsoleEvent list \<Rightarrow> Console" where
  "console_run demo hash storage world first es = fold (console_step demo) es (mountConsole demo hash storage world first)"

section \<open>What is on the screen\<close>

datatype DashboardContent =
  DriverContent AwarenessMode
| SpatialContent
| SupervisorContent
| SettingsContent
| DemoContent string
| FailedContent

fun routedView :: "DashboardView \<Rightarrow> AwarenessMode \<Rightarrow> DashboardContent" where
  "routedView DRIVER_VIEW mode = DriverContent mode"
| "routedView SPATIAL_VIEW mode = SpatialContent"
| "routedView SUPERVISOR_VIEW mode = SupervisorContent"
| "routedView SETTINGS_VIEW mode = SettingsContent"

record ShellLink =
  sl_view :: DashboardView
  sl_href :: string
  sl_label :: string
  sl_active :: bool

datatype ShellStatus =
  DemoStatusRow string string
| LiveStatusRow "string \<times> string" "(string \<times> string) option"

record Shell =
  shell_home :: string
  shell_homeLabel :: string
  shell_roleLabel :: string
  shell_links :: "ShellLink list"
  shell_spatialLink :: "string option"
  shell_status :: ShellStatus
  shell_theme :: string
  shell_content :: DashboardContent

definition demoText :: "DemoStatus \<Rightarrow> string" where
  "demoText status = (if status = BUFFERING_DEMO then ''Demo download interrupted'' else ''Loading the mine simulation'')"

definition dashboardContent :: "bool \<Rightarrow> WorldState \<Rightarrow> DemoStatus \<Rightarrow> DashboardView \<Rightarrow> Console \<Rightarrow> DashboardContent" where
  "dashboardContent demo world status view c =
     (if con_failed c then FailedContent
      else if demoLoading demo world then DemoContent (demoText status)
      else routedView view (con_awareness c))"

definition shellLinks :: "DashboardRole \<Rightarrow> DashboardView \<Rightarrow> ShellLink list" where
  "shellLinks role view =
     (let availableViews = dashboardViewsForRole role
      in if 1 < length availableViews then
           map (\<lambda>v. \<lparr>sl_view = dv_value v, sl_href = dv_hash v, sl_label = dv_label v, sl_active = (view = dv_value v)\<rparr>) availableViews
         else [])"

definition shellStatus :: "bool \<Rightarrow> DemoStatus \<Rightarrow> bool \<Rightarrow> ConnectionState \<Rightarrow> DataMode \<Rightarrow> ShellStatus" where
  "shellStatus demo status paused connection mode =
     (if demo then DemoStatusRow (''SIMULATED '' @ [CHR 0xB7, CHR '' ''] @ demoStatusText status) (if paused then ''Resume demo'' else ''Pause demo'')
      else LiveStatusRow (connectionPill connection) (if connection = CONNECTED then Some (modePill mode) else None))"

definition appShell ::
    "bool \<Rightarrow> WorldState \<Rightarrow> ConnectionState \<Rightarrow> DemoStatus \<Rightarrow> bool \<Rightarrow> ThemeState \<Rightarrow> DashboardRole \<Rightarrow> DashboardView \<Rightarrow> Console \<Rightarrow> Shell" where
  "appShell demo world connection status paused theme role view c =
     \<lparr>shell_home = dashboardViewHash (defaultDashboardView role),
      shell_homeLabel = ''MI Sense '' @ toLowerCase (dashboardRoleLabel role) @ '' home'',
      shell_roleLabel = dashboardRoleLabel role, shell_links = shellLinks role view,
      shell_spatialLink = (if role = SUPERVISOR_ROLE then Some ''#spatial'' else None),
      shell_status = shellStatus demo status paused connection (ws_mode world), shell_theme = toggleLabel theme,
      shell_content = dashboardContent demo world status view c\<rparr>"

text \<open>The two choices of the login page, each with the role it selects.\<close>

definition loginChoices :: "(string \<times> DashboardRole) list" where
  "loginChoices = [(''Continue as Driver'', DRIVER_ROLE), (''Continue as Supervisor'', SUPERVISOR_ROLE)]"

datatype Screen = LoginScreen "(string \<times> DashboardRole) list" string | ShellScreen Shell

definition appScreen ::
    "bool \<Rightarrow> WorldState \<Rightarrow> ConnectionState \<Rightarrow> DemoStatus \<Rightarrow> bool \<Rightarrow> ThemeState \<Rightarrow> Console \<Rightarrow> Screen" where
  "appScreen demo world connection status paused theme c =
     (case (app_role (con_app c), app_view (con_app c)) of
        (Some role, Some view) \<Rightarrow> ShellScreen (appShell demo world connection status paused theme role view c)
      | _ \<Rightarrow> LoginScreen loginChoices (toggleLabel theme))"

section \<open>The boundary and the shell\<close>

lemma resolve_value_allowed:
  "isDashboardViewAllowed role view \<Longrightarrow>
     resolveDashboardRoute role (view_value view) = \<lparr>route_view = view, route_hash = dashboardViewHash view\<rparr>"
  by (cases view) (simp_all add: resolveDashboardRoute_def dashboardViews_def Let_def)

definition console_ok :: "Console \<Rightarrow> bool" where
  "console_ok c \<longleftrightarrow> app_ok (con_app c) \<and> (con_failed c \<longrightarrow> app_view (con_app c) \<noteq> None)"

lemma commitConsole_app [simp]: "con_app (commitConsole demo world first again app c) = app"
  by (auto simp: commitConsole_def Let_def split: option.split)

lemma commitConsole_ok: "app_ok app \<Longrightarrow> console_ok (commitConsole demo world first again app c)"
  by (auto simp: console_ok_def commitConsole_def Let_def split: option.split)

interpretation console: machine "mountConsole demo hash storage world first" "console_step demo" "\<lambda>_. True" console_ok
proof
  show "console_ok (mountConsole demo hash storage world first)"
    unfolding mountConsole_def by (rule commitConsole_ok) (rule startApp_ok)
next
  fix c :: Console and e :: ConsoleEvent
  assume ok: "console_ok c"
  then have app: "app_ok (con_app c)" by (simp add: console_ok_def)
  show "console_ok (console_step demo e c)"
    using ok by (cases e) (auto intro!: commitConsole_ok app app_step_ok)
qed

text \<open>The links of the shell are those of the role, each of them leads to its view, and the current one is marked.\<close>

lemma shellLinks_sound:
  assumes "isDashboardViewAllowed role view"
  shows "if shellLinks role view = [] then rp_views (rolePolicies role) = [view]
    else sl_view ` set (shellLinks role view) = set (rp_views (rolePolicies role)) \<and>
      list_all (\<lambda>l. resolveDashboardRoute role (sl_href l) = \<lparr>route_view = sl_view l, route_hash = sl_href l\<rparr> \<and>
        (sl_active l \<longleftrightarrow> sl_view l = view)) (shellLinks role view)"
proof (cases role)
  case DRIVER_ROLE
  have "dashboardViewsForRole DRIVER_ROLE = filter (\<lambda>v. dv_value v \<noteq> SUPERVISOR_VIEW) dashboardViews"
    by (auto simp: dashboardViewsForRole_def dashboardViews_def)
  moreover have "resolveDashboardRoute DRIVER_ROLE (dashboardViewHash v) = \<lparr>route_view = v, route_hash = dashboardViewHash v\<rparr>"
    if "v \<noteq> SUPERVISOR_VIEW" for v
    using that by (simp add: resolve_hash)
  from this [of DRIVER_VIEW] this [of SPATIAL_VIEW] this [of SETTINGS_VIEW]
  have "resolveDashboardRoute DRIVER_ROLE ''#driver'' = \<lparr>route_view = DRIVER_VIEW, route_hash = ''#driver''\<rparr>"
    "resolveDashboardRoute DRIVER_ROLE ''#spatial'' = \<lparr>route_view = SPATIAL_VIEW, route_hash = ''#spatial''\<rparr>"
    "resolveDashboardRoute DRIVER_ROLE ''#calibration'' = \<lparr>route_view = SETTINGS_VIEW, route_hash = ''#calibration''\<rparr>"
    by (simp_all add: dashboardViewHash_def dashboardViews_def)
  ultimately show ?thesis
    unfolding DRIVER_ROLE by (auto simp: shellLinks_def dashboardViews_def Let_def)
next
  case SUPERVISOR_ROLE
  then show ?thesis using assms by (simp add: shellLinks_def dashboardViewsForRole_def dashboardViews_def Let_def)
qed

text \<open>The events that leave a view in place, or bring one back.\<close>

lemma view_change_recovers:
  assumes "app_view (con_app c) = Some previous" "app_view app = Some view" "previous \<noteq> view"
  shows "con_failed (commitConsole demo world first again app c) =
    (\<not> demoLoading demo world \<and> first \<and> (con_failed c \<or> again))"
  using assms by (auto simp: commitConsole_def commitBoundary_def Let_def)

lemma failed_view_stays:
  assumes "app_view (con_app c) = Some view" "app_view app = Some view" "con_failed c"
  shows "con_failed (commitConsole demo world first again app c)"
  using assms by (simp add: commitConsole_def commitBoundary_def Let_def)


text \<open>
  C38. A view that fails takes nothing else with it: in any reachable state with a view that has failed, the failure stays
  on the screen through every render of that view, and asking for another view of the role, which then renders,
  shows that view.
\<close>

theorem failed_view_isolated:
  assumes "c = console_run demo hash storage world0 first es" "con_failed c" "app_role (con_app c) = Some role"
    and "isDashboardViewAllowed role other" "app_view (con_app c) \<noteq> Some other"
  shows "con_failed (console_step demo (ConsoleRendered world throws) c) \<and>
    (let c' = console_step demo (ConsoleNavigated (RequestView other) world False again) c
     in app_view (con_app c') = Some other \<and> app_role (con_app c') = Some role \<and>
       dashboardContent demo world status other c' =
         (if demoLoading demo world then DemoContent (demoText status) else routedView other (con_awareness c)))"
proof -
  have "console_ok c"
    unfolding assms(1) console_run_def by (rule console.run_inv) (simp add: list_all_iff)
  then obtain view where view: "app_view (con_app c) = Some view" using assms(2) by (auto simp: console_ok_def)
  have app: "app_step demo (RequestView other) (con_app c) =
      (con_app c)\<lparr>app_view := Some other, app_hash := dashboardViewHash other\<rparr>" (is "_ = ?app")
    using assms(3,4) by (auto simp: requestView_def navigateTo_def resolve_value_allowed Let_def)
  have "con_failed (commitConsole demo world throws throws (con_app c) c)"
    by (rule failed_view_stays [OF view view assms(2)])
  moreover have "\<not> con_failed (commitConsole demo world False again ?app c)"
    using view_change_recovers [OF view, of ?app other] assms(5) view by simp
  moreover have "con_awareness (commitConsole demo world False again ?app c) = con_awareness c"
    using view by (simp add: commitConsole_def Let_def)
  ultimately show ?thesis unfolding console_step.simps app Let_def by (simp add: dashboardContent_def assms(3))
qed

theorem failed_view_isolated_witness:
  "dashboardContent False sampleWorld DEMO SPATIAL_VIEW
     (console_step False (ConsoleNavigated (RequestView SPATIAL_VIEW) sampleWorld False True)
       (console_run False ''#driver'' None sampleWorld True [ConsoleRendered sampleWorld False])) = SpatialContent"
proof -
  let ?c = "console_run False ''#driver'' None sampleWorld True [ConsoleRendered sampleWorld False]"
  have "resolveDashboardRoute DRIVER_ROLE ''#driver'' = \<lparr>route_view = DRIVER_VIEW, route_hash = ''#driver''\<rparr>"
    using resolve_hash [of DRIVER_ROLE DRIVER_VIEW] by (simp add: dashboardViewHash_def dashboardViews_def)
  moreover have "dashboardRoleFromHash ''#driver'' = Some DRIVER_ROLE"
    using role_of_hash [of DRIVER_VIEW DRIVER_ROLE] by (simp add: dashboardViewHash_def dashboardViews_def)
  ultimately have "con_failed ?c" "app_role (con_app ?c) = Some DRIVER_ROLE" "app_view (con_app ?c) = Some DRIVER_VIEW"
    by (simp_all add: console_run_def mountConsole_def commitConsole_def commitBoundary_def demoLoading_def startApp_def
        readInitialRole_def enterRole_def mountNavigation_def syncFromLocation_def normalizeLocation_def currentDashboardView_def Let_def)
  then show ?thesis
    using failed_view_isolated [OF refl, of False "''#driver''" None sampleWorld True "[ConsoleRendered sampleWorld False]" DRIVER_ROLE
        SPATIAL_VIEW sampleWorld False True DEMO]
    by (simp add: Let_def demoLoading_def)
qed

end
