(* ===== verification/MineLandscape.thy ===== *)
theory MineLandscape
  imports TerrainField "HOL-Library.Word"
begin

text \<open>
  What stands on the terrain of the mine: the colours of the ground, the ridges around it, the ribbons of the roads with their
  berms, the trees and the rubble (\<^verbatim>\<open>frontend/src/twin/mineLandscape.ts\<close>), and where the excavators dig
  (\<^verbatim>\<open>twin/mineInfrastructure.ts\<close>). The grids and solids of the graphics library are parameters, lists of the points it gives;
  \<open>rgb\<close> is its colour of a text. The field of the terrain is a parameter \<open>field\<close>, so that the lemmas hold of any ground.
\<close>

type_synonym Field = "real \<Rightarrow> real \<Rightarrow> TerrainSample"
type_synonym Colour = "jsnum \<times> jsnum \<times> jsnum"
type_synonym Position = "real \<times> real \<times> real"

fun scaleColour :: "jsnum \<Rightarrow> Colour \<Rightarrow> Colour" where
  "scaleColour k (r, g, b) = (r * k, g * k, b * k)"

fun mixColour :: "Colour \<Rightarrow> Colour \<Rightarrow> jsnum \<Rightarrow> Colour" where
  "mixColour (r, g, b) (r', g', b') t = (r + (r' - r) * t, g + (g' - g) * t, b + (b' - b) * t)"

section \<open>The grain of the ground\<close>

definition grainByte :: "nat \<Rightarrow> nat \<Rightarrow> int" where
  "grainByte x y = 155 + \<lfloor>grain (real x) (real y) * 70 + noise (real x * 0.2) (real y * 0.2) * 30 + 1 / 2\<rfloor>"

definition textureGrain :: "8 word list" where
  "textureGrain =
     concat (map (\<lambda>y. concat (map (\<lambda>x. let v = word_of_int (grainByte x y) in [v, v, v, 255]) [0..<128])) [0..<128])"

text \<open>
  The grain of the ground fits its bytes: no texel wraps around in the array of bytes it is written to, each is as light
  as the code computes it, between 155 and 255, and opaque.
\<close>

lemma grainByte_range: "155 \<le> grainByte x y" "grainByte x y \<le> 255"
proof -
  let ?v = "grain (real x) (real y) * 70 + noise (real x * 0.2) (real y * 0.2) * 30"
  have "0 \<le> ?v" "?v < 100"
    using grain_range [of "real x" "real y"] noise_unit [of "real x * 0.2" "real y * 0.2"] by simp_all
  then have "0 \<le> \<lfloor>?v + 1 / 2\<rfloor>" "\<lfloor>?v + 1 / 2\<rfloor> \<le> 100" by linarith+
  then show "155 \<le> grainByte x y" "grainByte x y \<le> 255" by (simp_all add: grainByte_def)
qed

lemma texel_grain: "uint (word_of_int (grainByte x y) :: 8 word) = grainByte x y"
  using grainByte_range [of x y] by (simp add: uint_word_of_int)

section \<open>The ground\<close>

definition rockTones :: "string list" where
  "rockTones = [''#a2755d'', ''#797976'', ''#966851'', ''#696d70'', ''#97664f'', ''#777878'', ''#96634d'', ''#6e7274'', ''#855f51'',
     ''#747675'', ''#96654e'']"

definition forestTones :: "string list" where
  "forestTones = [''#344e29'', ''#486035'', ''#3d5b31'', ''#57713b'', ''#314b2b'', ''#657943'', ''#455e32'']"

text \<open>An element of an array at a number that need not be an index; a colour that is not there leaves the one before it.\<close>

definition element_at :: "'a list \<Rightarrow> jsnum \<Rightarrow> 'a option" where
  "element_at xs n =
     (case n of Fin r \<Rightarrow> if 0 \<le> r \<and> r = of_int \<lfloor>r\<rfloor> \<and> nat \<lfloor>r\<rfloor> < length xs then Some (xs ! nat \<lfloor>r\<rfloor>) else None | _ \<Rightarrow> None)"

definition groundColour :: "(string \<Rightarrow> Colour) \<Rightarrow> TerrainSample \<Rightarrow> Colour \<Rightarrow> Colour" where
  "groundColour rgb s previous =
     (if ts_road s then rgb ''#b08a68''
      else if ts_pad s then rgb (if ts_industrial s then ''#9b8e7a'' else ''#a97c5d'')
      else if ts_pit s then
        let base = (case element_at rockTones (js_min (Fin 10) (ts_level s)) of Some tone \<Rightarrow> rgb tone | None \<Rightarrow> previous)
        in if ts_face s < Fin 0.15 then mixColour base (rgb ''#a3785e'') (Fin 0.24) else base
      else rgb ''#506039'')"

record TerrainVertex =
  tv_position :: "real \<times> jsnum \<times> real"
  tv_colour :: Colour
  tv_roadMask :: nat
  tv_uv :: "real \<times> real"

fun terrainVertices :: "(string \<Rightarrow> Colour) \<Rightarrow> Field \<Rightarrow> Colour \<Rightarrow> (real \<times> real) list \<Rightarrow> TerrainVertex list" where
  "terrainVertices rgb field previous [] = []"
| "terrainVertices rgb field previous ((gx, gz) # grid) =
     (let x = gx + 5; y = - gz + 35; s = field x y;
          colour = scaleColour (Fin 0.79 + ts_variation s * Fin 0.33 + Fin (noise (x * 0.47) (y * 0.47) * 0.13))
            (groundColour rgb s previous)
      in \<lparr>tv_position = (x, ts_elevation s, - y), tv_colour = colour, tv_roadMask = (if ts_road s \<or> ts_pad s then 1 else 0),
          tv_uv = (x * 0.3, y * 0.3)\<rparr> # terrainVertices rgb field colour grid)"

definition terrainGeometry :: "(string \<Rightarrow> Colour) \<Rightarrow> Field \<Rightarrow> (real \<times> real) list \<Rightarrow> TerrainVertex list" where
  "terrainGeometry rgb field grid = terrainVertices rgb field (Fin 1, Fin 1, Fin 1) grid"

text \<open>The ridges: heights raised outside the mine, and the triangles of the grid but those over the mine.\<close>

definition ridgeHeight :: "Field \<Rightarrow> real \<Rightarrow> real \<Rightarrow> jsnum" where
  "ridgeHeight field x y =
     (let outer = min 1 (max (\<bar>x - 5\<bar> - 145) (\<bar>y - 35\<bar> - 135) / 90)
      in ts_elevation (field x y) + Fin (max 0 outer * (20 + noise (x * 0.008) (y * 0.01) * 70)) - Fin 0.7)"

definition ridgeVertices :: "(string \<Rightarrow> Colour) \<Rightarrow> Field \<Rightarrow> (real \<times> real) list \<Rightarrow> ((real \<times> jsnum \<times> real) \<times> Colour) list" where
  "ridgeVertices rgb field grid =
     map (\<lambda>(gx, gz). let x = gx + 5; y = - gz + 35
       in ((x, ridgeHeight field x y, - y),
           scaleColour (Fin (0.72 + noise (x * 0.045) (y * 0.045) * 0.45)) (rgb ''#52694c''))) grid"

definition ridgeTriangles :: "(real \<times> jsnum \<times> real) list \<Rightarrow> (nat \<times> nat \<times> nat) list \<Rightarrow> (nat \<times> nat \<times> nat) list" where
  "ridgeTriangles p triangles =
     filter (\<lambda>(a, b, c).
       let x = (fst (p ! a) + fst (p ! b) + fst (p ! c)) / 3;
           y = - (snd (snd (p ! a)) + snd (snd (p ! b)) + snd (snd (p ! c))) / 3
       in \<not> (- 155 < x \<and> x < 165 \<and> - 115 < y \<and> y < 185)) triangles"

section \<open>Roads\<close>

text \<open>A ribbon along a line of points: two vertices for each point, across the way from the point before to the one after it.\<close>

record Ribbon =
  rib_positions :: "Position list"
  rib_uvs :: "(real \<times> real) list"
  rib_indices :: "nat list"

definition across :: "Position list \<Rightarrow> nat \<Rightarrow> real \<times> real" where
  "across points i =
     (let (bx, by, bz) = points ! (i - 1); (ax, ay, az) = points ! min (length points - 1) (i + 1);
          dx = ax - bx; dz = az - bz; len = or_one (sqrt (dx * dx + dz * dz))
      in (- dz / len, dx / len))"

definition ribbonPoint :: "Position list \<Rightarrow> real \<Rightarrow> real \<Rightarrow> nat \<Rightarrow> real \<Rightarrow> Position" where
  "ribbonPoint points width offset i side =
     (let (x, y, z) = points ! i; (nx, nz) = across points i
      in (x + nx * (offset + side * width / 2), y, z + nz * (offset + side * width / 2)))"

fun distance3 :: "Position \<Rightarrow> Position \<Rightarrow> real" where
  "distance3 (x, y, z) (a, b, c) = sqrt ((x - a) * (x - a) + (y - b) * (y - b) + (z - c) * (z - c))"

definition travelled :: "Position list \<Rightarrow> nat \<Rightarrow> real" where
  "travelled points i = foldl (\<lambda>sum k. sum + distance3 (points ! k) (points ! (k - 1))) 0 [1..<i + 1]"

definition roadRibbon :: "Position list \<Rightarrow> real \<Rightarrow> real \<Rightarrow> Ribbon" where
  "roadRibbon points width offset =
     \<lparr>rib_positions = concat (map (\<lambda>i. map (ribbonPoint points width offset i) [- 1, 1]) [0..<length points]),
      rib_uvs = concat (map (\<lambda>i. [(0, travelled points i / 3), (1, travelled points i / 3)]) [0..<length points]),
      rib_indices = concat (map (\<lambda>i. let n = i * 2 in [n - 2, n - 1, n, n - 1, n + 1, n]) [1..<length points])\<rparr>"

record Berm =
  berm_at :: "real \<times> jsnum \<times> real"
  berm_tangent :: Position
  berm_size :: real

definition roadPoints :: "GradedRoad \<Rightarrow> Position list" where
  "roadPoints road = map2 (\<lambda>(x, y) h. (x, h + 0.1, - y)) (gr_points road) (gr_elevations road)"

text \<open>Berms beside a road, one after every 1.4 metres of it; \<open>run\<close> is the distance since the last.\<close>

fun bermsFrom :: "Field \<Rightarrow> real \<Rightarrow> nat \<Rightarrow> Position \<Rightarrow> Position list \<Rightarrow> real \<Rightarrow> Berm list" where
  "bermsFrom field width i before [] run = []"
| "bermsFrom field width i (bx, by, bz) ((x, y, z) # points) run =
     (let run' = run + distance3 (x, y, z) (bx, by, bz)
      in if run' < 1.4 then bermsFrom field width (Suc i) (x, y, z) points run'
         else
           let len = or_one (distance3 (x, y, z) (bx, by, bz));
               tx = (x - bx) / len; ty = (y - by) / len; tz = (z - bz) / len;
               px = x + - tz * (width / 2 + 0.18); pz = z + tx * (width / 2 + 0.18);
               surface = field px (- pz); others = bermsFrom field width (Suc i) (x, y, z) points 0
           in if ts_industrial surface then others
              else \<lparr>berm_at = (px, ts_elevation surface + Fin 0.18, pz), berm_tangent = (tx, ty, tz),
                berm_size = 0.28 + grain (real i) 5 * 0.12\<rparr> # others)"

definition roadBerms :: "Field \<Rightarrow> GradedRoad \<Rightarrow> Berm list" where
  "roadBerms field road =
     (case roadPoints road of [] \<Rightarrow> [] | p # points \<Rightarrow> bermsFrom field (gr_width road) 1 p points 0)"

record RoadMeshes =
  road_surface :: Ribbon
  road_tracks :: "Ribbon list"

definition roadMeshes :: "GradedRoad \<Rightarrow> RoadMeshes" where
  "roadMeshes road =
     (let points = roadPoints road; tracks = map (\<lambda>(x, y, z). (x, y + 0.012, z)) points
      in \<lparr>road_surface = roadRibbon points (gr_width road) 0,
          road_tracks = map (\<lambda>k. roadRibbon tracks 0.16 (k * gr_width road / 3)) [- 0.82, - 0.47, 0.47, 0.82]\<rparr>)"

definition haulRoads :: "Field \<Rightarrow> GradedRoad list \<Rightarrow> RoadMeshes list \<times> Berm list" where
  "haulRoads field roads = (map roadMeshes roads, concat (map (roadBerms field) roads))"

section \<open>Trees and rubble\<close>

record Tree =
  tree_x :: real
  tree_y :: real
  tree_h :: jsnum
  tree_r :: real
  tree_seed :: nat

text \<open>The places of the grid, in the order of the loops, with the count of each.\<close>

definition forestGrid :: "(real \<times> real \<times> nat) list" where
  "forestGrid =
     map (\<lambda>k. (real (k mod 65) * 5 - 153, real (k div 65) * 5 - 108, Suc k)) [0..<58 * 65]"

definition treeAt :: "Field \<Rightarrow> real \<times> real \<times> nat \<Rightarrow> Tree option" where
  "treeAt field = (\<lambda>(x, y, seed).
     let n = real seed; px = x + (grain n 13 - 0.5) * 3; py = y + (grain n 19 - 0.5) * 3;
         s = field px py; r = 1.1 + grain n 37 * 1.45
     in if ts_pit s \<or> ts_pad s \<or> ts_industrial s \<or> ts_road s \<or> ts_edge s < Fin (r + 1.4) then None
        else if noise (px * 0.03) (py * 0.03) < 0.22 \<and> 0.45 < grain n 42 then None
        else Some \<lparr>tree_x = px, tree_y = py, tree_h = ts_elevation s, tree_r = r, tree_seed = seed\<rparr>)"

definition treePlacements :: "Field \<Rightarrow> Tree list" where
  "treePlacements field = List.map_filter (treeAt field) forestGrid"

text \<open>The three balls of a crown, with their colours.\<close>

record CrownBall =
  cb_position :: "real \<times> jsnum \<times> real"
  cb_scale :: Position
  cb_tilt :: real
  cb_turn :: real
  cb_tint :: Colour

definition crownBall :: "(string \<Rightarrow> Colour) \<Rightarrow> Tree \<Rightarrow> nat \<Rightarrow> CrownBall" where
  "crownBall rgb tree j =
     (let n = real (tree_seed tree); r = tree_r tree; angle = real j * 2.1 + grain n 61 * 6
      in \<lparr>cb_position = (tree_x tree + cos angle * r * 0.44, tree_h tree + Fin (r * (if j = 0 then 1.85 else 1.36)),
            - tree_y tree + sin angle * r * 0.44),
          cb_scale = (r * (if j = 0 then 0.93 else 0.82), r * (0.8 + grain n (real j) * 0.3), r * 0.9),
          cb_tilt = grain n (real j) * 0.2, cb_turn = angle,
          cb_tint = scaleColour (Fin (0.81 + grain n (real j + 8) * 0.35))
            (rgb (forestTones ! nat \<lfloor>grain n 47 * real (length forestTones)\<rfloor>))\<rparr>)"

definition treeCrowns :: "(string \<Rightarrow> Colour) \<Rightarrow> Tree list \<Rightarrow> CrownBall list" where
  "treeCrowns rgb trees = concat (map (\<lambda>tree. map (crownBall rgb tree) [0..<3]) trees)"

definition treeTrunk :: "Tree \<Rightarrow> (real \<times> jsnum \<times> real) \<times> real" where
  "treeTrunk tree = ((tree_x tree, tree_h tree + Fin (tree_r tree * 0.9), - tree_y tree), tree_r tree * 1.8)"

record Stone =
  stone_x :: real
  stone_y :: real
  stone_h :: jsnum
  stone_r :: real

definition stoneAt :: "Field \<Rightarrow> nat \<Rightarrow> Stone option" where
  "stoneAt field i =
     (let n = real i; x = - 72 + grain n 80 * 117; y = - 21 + grain n 81 * 109; s = field x y
      in if ts_road s \<or> ts_pad s \<or> \<not> ts_pit s \<and> Fin 3.5 < ts_edge s then None
         else if Fin 0.1 < ts_face s \<and> 0.25 < grain n 5 then None
         else Some \<lparr>stone_x = x, stone_y = y, stone_h = ts_elevation s, stone_r = 0.08 + (grain n 82)\<^sup>2 * 0.58\<rparr>)"

definition stonePlacements :: "Field \<Rightarrow> Stone list" where
  "stonePlacements field = List.map_filter (stoneAt field) [0..<9000]"

section \<open>Excavators\<close>

record Excavator =
  ex_x :: real
  ex_y :: real
  ex_height :: jsnum

text \<open>The values of a loop that starts at \<open>a\<close> and goes on by two below \<open>b\<close>.\<close>

definition byTwo :: "real \<Rightarrow> real \<Rightarrow> real list" where
  "byTwo a b = map (\<lambda>k. a + 2 * real k) [0..<nat \<lceil>(b - a) / 2\<rceil>]"

definition deepestBench :: "MapFeature list \<Rightarrow> MapFeature option" where
  "deepestBench features =
     (case js_sort (key_after (\<lambda>f. number_of_property (feature_property f ''level''))) (fieldBenches features) of
        [] \<Rightarrow> None | bench # _ \<Rightarrow> Some bench)"

definition loadingPoint :: "MapFeature list \<Rightarrow> Point" where
  "loadingPoint features =
     (case find (\<lambda>f. cartography f = Some (PropStr ''pit-floor'')) features of
        Some f \<Rightarrow> (case mf_points f of p # _ \<Rightarrow> toPoint p | [] \<Rightarrow> (0, 0))
      | None \<Rightarrow> (0, 0))"

definition excavatorPlace :: "Field \<Rightarrow> Point list \<Rightarrow> real \<Rightarrow> real \<Rightarrow> bool" where
  "excavatorPlace field points x y \<longleftrightarrow>
     insidePolygon x y points \<and> \<not> edgeDistance x y points < Fin 5 \<and>
     \<not> ts_road (field x y) \<and> \<not> ts_edge (field x y) < Fin 5 \<and> \<not> Fin (- 14) < ts_elevation (field x y)"

definition excavatorCandidates :: "Field \<Rightarrow> Point list \<Rightarrow> Excavator list" where
  "excavatorCandidates field points =
     (let xs = map fst points; ys = map snd points
      in if points = [] then []
         else concat (map (\<lambda>x. map (\<lambda>y. \<lparr>ex_x = x, ex_y = y, ex_height = ts_elevation (field x y)\<rparr>)
           (filter (excavatorPlace field points x) (byTwo (Min (set ys) + 5) (Max (set ys) - 5))))
           (byTwo (Min (set xs) + 5) (Max (set xs) - 5))))"

definition pitExcavatorPositions :: "Field \<Rightarrow> MapFeature list \<Rightarrow> Excavator list" where
  "pitExcavatorPositions field features =
     (case deepestBench features of
        None \<Rightarrow> []
      | Some bench \<Rightarrow>
          let away = (\<lambda>p. Fin (hypot (ex_x p - fst (loadingPoint features)) (ex_y p - snd (loadingPoint features))))
          in case js_sort (key_before away) (excavatorCandidates field (featurePoints bench)) of
               [] \<Rightarrow> []
             | first # others \<Rightarrow>
                 (case find (\<lambda>p. 14 \<le> hypot (ex_x p - ex_x first) (ex_y p - ex_y first)) (first # others) of
                    Some second \<Rightarrow> [first, second]
                  | None \<Rightarrow> [first]))"

section \<open>What stands where\<close>

lemma in_map_filter: "y \<in> set (List.map_filter f xs) \<longleftrightarrow> (\<exists>x \<in> set xs. f x = Some y)"
  by (induction xs) (auto simp: map_filter_simps split: option.split)

lemma sorted_wrt_map_filter:
  assumes "sorted_wrt P xs" "\<And>x y a b. P x y \<Longrightarrow> f x = Some a \<Longrightarrow> f y = Some b \<Longrightarrow> Q a b"
  shows "sorted_wrt Q (List.map_filter f xs)"
  using assms
  using assms(1)
proof (induction xs)
  case (Cons x xs)
  have "Q a b" if "f x = Some a" "b \<in> set (List.map_filter f xs)" for a b
    using that Cons.prems assms(2) unfolding in_map_filter by auto
  then show ?case using Cons by (auto simp: map_filter_simps split: option.split)
qed (simp add: map_filter_simps)

lemma list_all_map_filter: "(\<And>x y. f x = Some y \<Longrightarrow> P y) \<Longrightarrow> list_all P (List.map_filter f xs)"
  by (auto simp: list_all_iff in_map_filter)

definition cells_apart :: "real \<times> real \<times> nat \<Rightarrow> real \<times> real \<times> nat \<Rightarrow> bool" where
  "cells_apart = (\<lambda>(x, y, _) (x', y', _). 5 \<le> \<bar>x - x'\<bar> \<or> 5 \<le> \<bar>y - y'\<bar>)"

lemma grid_apart: "sorted_wrt cells_apart forestGrid"
proof -
  have "5 \<le> \<bar>(real (k mod 65) * 5 - 153) - (real (l mod 65) * 5 - 153)\<bar> \<or>
      5 \<le> \<bar>(real (k div 65) * 5 - 108) - (real (l div 65) * 5 - 108)\<bar>" if "k < l" for k l :: nat
  proof -
    have apart: "5 \<le> \<bar>(real a * 5 - c) - (real b * 5 - c)\<bar>" if "a \<noteq> b" for a b :: nat and c :: real
    proof -
      have "1 \<le> \<bar>real a - real b\<bar>" using that by (cases "a < b") auto
      then show ?thesis by (simp add: abs_if split: if_splits)
    qed
    have "k mod 65 \<noteq> l mod 65 \<or> k div 65 \<noteq> l div 65" using that by (metis div_mult_mod_eq less_irrefl)
    then show ?thesis using apart by blast
  qed
  then have "sorted_wrt (\<lambda>k l. cells_apart (real (k mod 65) * 5 - 153, real (k div 65) * 5 - 108, Suc k)
      (real (l mod 65) * 5 - 153, real (l div 65) * 5 - 108, Suc l)) [0..<58 * 65]"
    by (auto simp: cells_apart_def sorted_wrt_iff_nth_less)
  then show ?thesis by (simp add: forestGrid_def sorted_wrt_map)
qed

definition on_cell :: "real \<times> real \<times> nat \<Rightarrow> Tree \<Rightarrow> bool" where
  "on_cell = (\<lambda>(x, y, _) t. - 1.5 \<le> tree_x t - x \<and> tree_x t - x < 1.5 \<and> - 1.5 \<le> tree_y t - y \<and> tree_y t - y < 1.5)"

lemma treeAt_cell: "treeAt field cell = Some t \<Longrightarrow> on_cell cell t"
  using grain_range [of "real (snd (snd cell))" 13] grain_range [of "real (snd (snd cell))" 19]
  by (auto simp: treeAt_def on_cell_def Let_def split: prod.splits if_splits)

definition tree_clear :: "Field \<Rightarrow> Tree \<Rightarrow> bool" where
  "tree_clear field t \<longleftrightarrow>
     (let s = field (tree_x t) (tree_y t)
      in \<not> (ts_road s \<or> ts_pad s \<or> ts_pit s \<or> ts_industrial s) \<and> \<not> ts_edge s < Fin (tree_r t + 1.4) \<and>
        tree_h t = ts_elevation s \<and> 1.1 \<le> tree_r t \<and> tree_r t < 2.55)"

definition stone_clear :: "Field \<Rightarrow> Stone \<Rightarrow> bool" where
  "stone_clear field p \<longleftrightarrow>
     (let s = field (stone_x p) (stone_y p)
      in \<not> (ts_road s \<or> ts_pad s) \<and> (ts_pit s \<or> \<not> Fin 3.5 < ts_edge s) \<and> stone_h p = ts_elevation s \<and>
        0.08 \<le> stone_r p \<and> stone_r p < 0.66)"

text \<open>
  What the landscape puts on the ground keeps off the roads, on any terrain: no tree stands on a road, a pad, the plant or in
  the pit, none nearer to the edge of a road than its own radius and 1.4 metres, each on the ground and more than two metres from
  every other along one of the axes; no stone lies on a road or a pad, and one outside the pit lies within 3.5 metres of an edge.
\<close>

theorem landscape_clear:
  "list_all (tree_clear field) (treePlacements field) \<and>
   sorted_wrt (\<lambda>s t. 2 < \<bar>tree_x s - tree_x t\<bar> \<or> 2 < \<bar>tree_y s - tree_y t\<bar>) (treePlacements field) \<and>
   list_all (stone_clear field) (stonePlacements field)"
proof (intro conjI)
  show "list_all (tree_clear field) (treePlacements field)"
    unfolding treePlacements_def
  proof (rule list_all_map_filter)
    fix cell t assume "treeAt field cell = Some t"
    then show "tree_clear field t"
      using grain_range [of "real (snd (snd cell))" 37] by (auto simp: treeAt_def tree_clear_def Let_def split: prod.splits if_splits)
  qed
  show "sorted_wrt (\<lambda>s t. 2 < \<bar>tree_x s - tree_x t\<bar> \<or> 2 < \<bar>tree_y s - tree_y t\<bar>) (treePlacements field)"
    unfolding treePlacements_def
  proof (rule sorted_wrt_map_filter [OF grid_apart])
    fix c d s t
    assume "cells_apart c d" "treeAt field c = Some s" "treeAt field d = Some t"
    then show "2 < \<bar>tree_x s - tree_x t\<bar> \<or> 2 < \<bar>tree_y s - tree_y t\<bar>"
      using treeAt_cell [of field c s] treeAt_cell [of field d t] by (auto simp: cells_apart_def on_cell_def split: prod.splits)
  qed
  show "list_all (stone_clear field) (stonePlacements field)"
    unfolding stonePlacements_def
  proof (rule list_all_map_filter)
    fix i p assume placed: "stoneAt field i = Some p"
    have "(grain (real i) 82)\<^sup>2 < 1" using grain_range [of "real i" 82] by (simp add: power_less_one_iff abs_square_less_1)
    then show "stone_clear field p"
      using placed by (auto simp: stoneAt_def stone_clear_def Let_def split: if_splits)
  qed
qed

text \<open>The loops by two: every value from \<open>a\<close> on that is below \<open>b\<close>.\<close>

lemma set_byTwo: "set (byTwo a b) = {a + 2 * real k | k. a + 2 * real k < b}"
proof -
  have "k < nat \<lceil>(b - a) / 2\<rceil> \<longleftrightarrow> a + 2 * real k < b" for k
    by (simp add: zless_nat_eq_int_zless less_ceiling_iff field_simps)
  then show ?thesis by (auto simp: byTwo_def)
qed

lemma candidates_placed:
  "p \<in> set (excavatorCandidates field points) \<Longrightarrow>
     excavatorPlace field points (ex_x p) (ex_y p) \<and> ex_height p = ts_elevation (field (ex_x p) (ex_y p))"
  by (auto simp: excavatorCandidates_def Let_def split: if_splits)


text \<open>A ribbon is as wide as the road where the points around it are not above one another, and its triangles use its own
  vertices only.\<close>

lemma across_unit:
  assumes "points ! (i - 1) = (bx, b, bz)" "points ! min (length points - 1) (i + 1) = (ax, a, az)" "(ax, az) \<noteq> (bx, bz)"
  shows "(fst (across points i))\<^sup>2 + (snd (across points i))\<^sup>2 = 1"
proof -
  let ?d = "(ax - bx) * (ax - bx) + (az - bz) * (az - bz)"
  have "0 < ?d" using assms(3) by (auto simp: sum_squares_gt_zero_iff)
  then show ?thesis
    unfolding across_def assms(1,2) prod.case Let_def
    using assms(3) by (auto simp: or_one_def power_divide add_divide_distrib [symmetric] power2_eq_square algebra_simps)
qed

lemma ribbon_width:
  assumes "(fst (across points i))\<^sup>2 + (snd (across points i))\<^sup>2 = 1" "0 \<le> width"
  shows "distance3 (ribbonPoint points width offset i 1) (ribbonPoint points width offset i (- 1)) = width"
proof -
  obtain x y z where p: "points ! i = (x, y, z)" by (cases "points ! i")
  obtain nx nz where n: "across points i = (nx, nz)" by (cases "across points i")
  have "distance3 (ribbonPoint points width offset i 1) (ribbonPoint points width offset i (- 1)) =
      sqrt ((nx\<^sup>2 + nz\<^sup>2) * width\<^sup>2)"
    by (simp add: ribbonPoint_def p n power2_eq_square algebra_simps add_divide_distrib)
  then show ?thesis using assms by (simp add: n)
qed

lemma ribbon_indices: "list_all (\<lambda>k. k < length (rib_positions (roadRibbon points width offset))) (rib_indices (roadRibbon points width offset))"
proof -
  have "length (rib_positions (roadRibbon points width offset)) = 2 * length points"
    by (simp add: roadRibbon_def length_concat comp_def sum_list_triv)
  then show ?thesis by (auto simp: roadRibbon_def list_all_iff Let_def)
qed

end
