(* ===== verification/HaulageAnalytics.thy ===== *)
theory HaulageAnalytics
  imports MineApi Selectors ForwardAwareness
begin

text \<open>
  The analytics of the haulage (\<^verbatim>\<open>frontend/src/supervisor/HaulageAnalyticsTab.tsx\<close>): its effect, which loads the metrics and the
  last trips together every two seconds, as a machine, and what the page computes from them; and the drawer with the
  details of a vehicle (\<^verbatim>\<open>supervisor/VehicleDetailDrawer.tsx\<close>). No page of the application mounts either of them at
  present. Records by vehicle are association lists in the order in which \<^verbatim>\<open>Object.keys\<close> gives their keys.
\<close>

section \<open>The types\<close>

record CycleTimeBreakdown =
  cb_loading_wait_minutes :: jsnum
  cb_loaded_travel_minutes :: jsnum
  cb_dumping_wait_minutes :: jsnum
  cb_empty_return_minutes :: jsnum
  cb_idle_minutes :: jsnum
  cb_total_cycle_minutes :: jsnum
  cb_loading_pct :: jsnum
  cb_loaded_travel_pct :: jsnum
  cb_dumping_pct :: jsnum
  cb_empty_return_pct :: jsnum
  cb_idle_pct :: jsnum

text \<open>The compliance may be null at run time, and the page asks for it so.\<close>

record HaulageMetrics =
  hm_total_completed_cycles :: jsnum
  hm_total_ore_moved_tonnes :: jsnum
  hm_avg_cycle_time_minutes :: jsnum
  hm_fleet_utilization_pct :: jsnum
  hm_total_distance_km :: jsnum
  hm_route_compliance_pct :: "jsnum option"
  hm_active_fleet_count :: jsnum
  hm_cycle_time_breakdown :: CycleTimeBreakdown
  hm_ore_moved_by_vehicle :: "(string \<times> jsnum) list"
  hm_cycles_by_vehicle :: "(string \<times> jsnum) list"
  hm_hourly_production_rate_tph :: jsnum
  hm_recent_delay_events :: "string list"
  hm_provenance :: "string option"

section \<open>The effect\<close>

text \<open>\<open>tab_calls\<close> are the loads under way, by their number; \<open>tab_shown\<close> is the load whose answer is held.\<close>

record HaulageTab =
  tab_metrics :: "HaulageMetrics option"
  tab_history :: "TripHistoryResponse option"
  tab_loading :: bool
  tab_mounted :: bool
  tab_interval :: bool
  tab_calls :: "nat list"
  tab_next :: nat
  tab_shown :: "nat option"

definition loadData :: "HaulageTab \<Rightarrow> HaulageTab" where
  "loadData t = t\<lparr>tab_calls := tab_calls t @ [tab_next t], tab_next := Suc (tab_next t)\<rparr>"

definition mountTab :: "bool \<Rightarrow> HaulageTab" where
  "mountTab demo =
     loadData \<lparr>tab_metrics = None, tab_history = None, tab_loading = True, tab_mounted = True, tab_interval = (\<not> demo),
       tab_calls = [], tab_next = 0, tab_shown = None\<rparr>"

definition settleData :: "nat \<Rightarrow> (string + HaulageMetrics \<times> TripHistoryResponse) \<Rightarrow> HaulageTab \<Rightarrow> HaulageTab" where
  "settleData call result t =
     (if call \<notin> set (tab_calls t) then t
      else
        let t' = t\<lparr>tab_calls := remove1 call (tab_calls t)\<rparr>
        in if \<not> tab_mounted t then t'
           else
             case result of
               Inr (m, h) \<Rightarrow> t'\<lparr>tab_metrics := Some m, tab_history := Some h, tab_loading := False, tab_shown := Some call\<rparr>
             | Inl _ \<Rightarrow> t'\<lparr>tab_loading := False\<rparr>)"

definition tickTab :: "HaulageTab \<Rightarrow> HaulageTab" where
  "tickTab t = (if tab_interval t then loadData t else t)"

definition unmountTab :: "HaulageTab \<Rightarrow> HaulageTab" where
  "unmountTab t = t\<lparr>tab_mounted := False, tab_interval := False\<rparr>"

datatype TabEvent =
  TabTicked
| TabSettled nat "string + HaulageMetrics \<times> TripHistoryResponse"
| TabUnmounted

fun tab_step :: "TabEvent \<Rightarrow> HaulageTab \<Rightarrow> HaulageTab" where
  "tab_step TabTicked t = tickTab t"
| "tab_step (TabSettled call result) t = settleData call result t"
| "tab_step TabUnmounted t = unmountTab t"

definition tab_run :: "bool \<Rightarrow> TabEvent list \<Rightarrow> HaulageTab" where
  "tab_run demo es = fold tab_step es (mountTab demo)"

section \<open>The performance of the trucks\<close>

record TruckPerformance =
  tp_vehicleId :: string
  tp_callsign :: string
  tp_tonnes :: jsnum
  tp_cycles :: jsnum
  tp_avgCycleMinutes :: jsnum
  tp_compliancePct :: jsnum
  tp_isUnderperforming :: bool
  tp_issueReason :: "string option"

definition CALLSIGN_MAP :: "(string \<times> string) list" where
  "CALLSIGN_MAP =
     [(''DUMPER_01'', ''Bailadila Shovel Hauler #01''), (''DUMPER_02'', ''Komatsu 930E #02''),
      (''DUMPER_03'', ''CAT 793F #03''), (''HAULER_04'', ''BEML BH205E #04'')]"

definition callsignOf :: "string \<Rightarrow> string" where
  "callsignOf vid = (case map_of CALLSIGN_MAP vid of Some c \<Rightarrow> c | None \<Rightarrow> vid)"

definition figureOf :: "(string \<times> jsnum) list \<Rightarrow> string \<Rightarrow> jsnum" where
  "figureOf record vid = (case map_of record vid of Some n \<Rightarrow> n | None \<Rightarrow> 0)"

definition allVids :: "HaulageMetrics \<Rightarrow> string list" where
  "allVids m =
     rev (remdups (rev (map fst (hm_ore_moved_by_vehicle m) @ map fst (hm_cycles_by_vehicle m) @
       [''DUMPER_01'', ''DUMPER_02'', ''DUMPER_03'', ''HAULER_04''])))"

definition vehTrips :: "TripHistoryResponse option \<Rightarrow> string \<Rightarrow> TripRecord list" where
  "vehTrips history vid =
     (case history of Some h \<Rightarrow> filter (\<lambda>t. trip_vehicle_id t = vid) (th_trips h) | None \<Rightarrow> [])"

definition sumOf :: "(TripRecord \<Rightarrow> jsnum) \<Rightarrow> TripRecord list \<Rightarrow> jsnum" where
  "sumOf f trips = foldl (\<lambda>acc t. acc + f t) 0 trips"

definition performanceIssue :: "jsnum \<Rightarrow> jsnum \<Rightarrow> jsnum \<Rightarrow> jsnum \<Rightarrow> string option" where
  "performanceIssue cycles compliancePct avgCycleMinutes totalCycles =
     (if 0 < cycles \<and> compliancePct < 85 then Some (''Low route compliance ('' @ toFixed compliancePct 0 @ ''% < 85%)'')
      else if 0 < cycles \<and> 20 < avgCycleMinutes then
        Some (''High cycle time ('' @ toFixed avgCycleMinutes 1 @ ''m > 18m benchmark)'')
      else if cycles = 0 \<and> 4 \<le> totalCycles then Some ''Zero completed cycles in shift'' else None)"

definition truckPerformance :: "HaulageMetrics \<Rightarrow> TripHistoryResponse option \<Rightarrow> string \<Rightarrow> TruckPerformance" where
  "truckPerformance m history vid =
     (let cycles = figureOf (hm_cycles_by_vehicle m) vid; trips = vehTrips history vid; n = Fin (real (length trips));
          avgCycleMinutes = (if trips \<noteq> [] then sumOf trip_cycle_duration_s trips / (n * 60)
            else cb_total_cycle_minutes (hm_cycle_time_breakdown m));
          compliancePct = (if trips \<noteq> [] then sumOf trip_route_compliance_pct trips / n
            else case hm_route_compliance_pct m of Some c \<Rightarrow> c | None \<Rightarrow> 100);
          issue = performanceIssue cycles compliancePct avgCycleMinutes (hm_total_completed_cycles m)
      in \<lparr>tp_vehicleId = vid, tp_callsign = callsignOf vid, tp_tonnes = figureOf (hm_ore_moved_by_vehicle m) vid,
          tp_cycles = cycles, tp_avgCycleMinutes = avgCycleMinutes, tp_compliancePct = compliancePct,
          tp_isUnderperforming = (issue \<noteq> None), tp_issueReason = issue\<rparr>)"

definition truckPerformanceList :: "HaulageTab \<Rightarrow> TruckPerformance list" where
  "truckPerformanceList t =
     (case tab_metrics t of None \<Rightarrow> [] | Some m \<Rightarrow> map (truckPerformance m (tab_history t)) (allVids m))"

section \<open>The page\<close>

record HaulageKpis =
  hk_ore :: string
  hk_cycles :: string
  hk_compliance :: string
  hk_time :: string
  hk_utilization :: string
  hk_rate :: string
  hk_fleet :: string
  hk_fleetNote :: string

definition haulageKpis :: "HaulageMetrics option \<Rightarrow> HaulageKpis" where
  "haulageKpis metrics =
     (let shown = (\<lambda>f. case metrics of Some m \<Rightarrow> f m | None \<Rightarrow> ''--'')
      in \<lparr>hk_ore = shown (\<lambda>m. formatNumber (hm_total_ore_moved_tonnes m) 0),
          hk_cycles = shown (\<lambda>m. num_str (hm_total_completed_cycles m)),
          hk_compliance = shown (\<lambda>m. case hm_route_compliance_pct m of
            Some c \<Rightarrow> toFixed c 0 @ ''% Route Compliance'' | None \<Rightarrow> ''--''),
          hk_time = shown (\<lambda>m. toFixed (cb_total_cycle_minutes (hm_cycle_time_breakdown m)) 1),
          hk_utilization = shown (\<lambda>m. toFixed (hm_fleet_utilization_pct m) 1) @ ''%'',
          hk_rate = shown (\<lambda>m. toFixed (hm_hourly_production_rate_tph m) 0),
          hk_fleet = shown (\<lambda>m. num_str (hm_active_fleet_count m)),
          hk_fleetNote = shown (\<lambda>m. ''All units tracked'')\<rparr>)"

text \<open>A stage of the cycle: its share and minutes in the bar, with the values shown before there are any, and its legend.\<close>

record CycleStage =
  cst_name :: string
  cst_width :: jsnum
  cst_minutes :: jsnum
  cst_legend :: "string \<times> string"

definition cycleStage ::
    "CycleTimeBreakdown option \<Rightarrow> string \<times> (CycleTimeBreakdown \<Rightarrow> jsnum) \<times> (CycleTimeBreakdown \<Rightarrow> jsnum) \<times> jsnum \<times> jsnum \<Rightarrow>
     CycleStage" where
  "cycleStage bd = (\<lambda>(name, minutes, pct, minutes0, pct0).
     \<lparr>cst_name = name, cst_width = (case bd of Some b \<Rightarrow> pct b | None \<Rightarrow> pct0),
      cst_minutes = (case bd of Some b \<Rightarrow> minutes b | None \<Rightarrow> minutes0),
      cst_legend =
        ((case bd of Some b \<Rightarrow> toFixed (minutes b) 1 | None \<Rightarrow> []) @ '' min'',
         (case bd of Some b \<Rightarrow> toFixed (pct b) 1 | None \<Rightarrow> []) @ ''%'')\<rparr>)"

definition cycleStages :: "CycleTimeBreakdown option \<Rightarrow> CycleStage list" where
  "cycleStages bd =
     map (cycleStage bd)
       [(''Loading Wait'', cb_loading_wait_minutes, cb_loading_pct, Fin 3.2, Fin 18),
        (''Loaded Travel'', cb_loaded_travel_minutes, cb_loaded_travel_pct, Fin 5.8, Fin 32),
        (''Dumping Wait'', cb_dumping_wait_minutes, cb_dumping_pct, Fin 2.1, Fin 12),
        (''Empty Return'', cb_empty_return_minutes, cb_empty_return_pct, Fin 5, Fin 28),
        (''Idle / Traffic Pause'', cb_idle_minutes, cb_idle_pct, Fin 2, Fin 10)]"

record TonnageRow =
  tr_vehicle :: string
  tr_callsign :: string
  tr_cycles :: string
  tr_pct :: jsnum
  tr_tonnes :: string

definition tonnageRows :: "HaulageMetrics \<Rightarrow> TonnageRow list" where
  "tonnageRows m =
     map (\<lambda>(vid, tonnes).
       let maxT = foldl js_max (Fin 100) (map snd (hm_ore_moved_by_vehicle m))
       in \<lparr>tr_vehicle = vid, tr_callsign = callsignOf vid,
           tr_cycles = num_str (figureOf (hm_cycles_by_vehicle m) vid) @ '' completed cycles'',
           tr_pct = tonnes / maxT * 100, tr_tonnes = toFixed tonnes 0 @ '' T''\<rparr>) (hm_ore_moved_by_vehicle m)"

fun drop_first :: "string \<Rightarrow> string \<Rightarrow> string" where
  "drop_first pattern [] = []"
| "drop_first pattern (c # cs) =
     (if take (length pattern) (c # cs) = pattern then drop (length pattern) (c # cs) else c # drop_first pattern cs)"

definition nodeName :: "string \<Rightarrow> string \<Rightarrow> string" where
  "nodeName prefix node = replace_first (CHR ''_'') (CHR '' '') (drop_first prefix node)"

record TripRow =
  tri_id :: string
  tri_vehicle :: string
  tri_callsign :: string
  tri_bench :: string
  tri_dump :: string
  tri_payload :: string
  tri_time :: string
  tri_distance :: string
  tri_speed :: string
  tri_compliance :: string

definition tripRow :: "TripRecord \<Rightarrow> TripRow" where
  "tripRow t =
     \<lparr>tri_id = trip_trip_id t, tri_vehicle = trip_vehicle_id t, tri_callsign = trip_callsign t,
      tri_bench = nodeName ''PICKUP_'' (trip_pickup_node t), tri_dump = nodeName ''DUMP_'' (trip_dump_node t),
      tri_payload = toFixed (trip_payload_tonnes t) 0 @ '' T'', tri_time = toFixed (trip_cycle_duration_s t / 60) 1 @ '' min'',
      tri_distance = toFixed (trip_distance_km t) 2 @ '' km'', tri_speed = toFixed (trip_avg_speed_kmh t) 1 @ '' km/h'',
      tri_compliance = toFixed (trip_route_compliance_pct t) 0 @ ''%''\<rparr>"

text \<open>A truck that needs attention, and the row of a truck in the table of all.\<close>

record AttentionCard =
  att_vehicle :: string
  att_callsign :: string
  att_reason :: string
  att_figures :: "string list"

definition attentionCard :: "TruckPerformance \<Rightarrow> AttentionCard" where
  "attentionCard t =
     \<lparr>att_vehicle = tp_vehicleId t, att_callsign = tp_callsign t,
      att_reason = (case tp_issueReason t of Some r \<Rightarrow> r | None \<Rightarrow> []),
      att_figures = [toFixed (tp_tonnes t) 0 @ '' T'', num_str (tp_cycles t), toFixed (tp_avgCycleMinutes t) 1 @ ''m'',
        toFixed (tp_compliancePct t) 0 @ ''%'']\<rparr>"

record TruckRow =
  trw_vehicle :: string
  trw_callsign :: string
  trw_figures :: "string list"
  trw_lowCompliance :: bool
  trw_status :: string

definition truckRow :: "TruckPerformance \<Rightarrow> TruckRow" where
  "truckRow t =
     \<lparr>trw_vehicle = tp_vehicleId t, trw_callsign = tp_callsign t,
      trw_figures = [toFixed (tp_tonnes t) 0 @ '' T'', num_str (tp_cycles t) @ '' cycles'',
        toFixed (tp_avgCycleMinutes t) 1 @ '' min'', toFixed (tp_compliancePct t) 0 @ ''%''],
      trw_lowCompliance = (tp_compliancePct t < 85),
      trw_status = (if tp_isUnderperforming t then ''NEEDS REVIEW'' else ''OPTIMAL'')\<rparr>"

record HaulagePage =
  hpg_badge :: "string option"
  hpg_kpis :: HaulageKpis
  hpg_attention :: "AttentionCard list"
  hpg_trucks :: "TruckRow list"
  hpg_total :: string
  hpg_stages :: "CycleStage list"
  hpg_dumpers :: string
  hpg_tonnage :: "TonnageRow list"
  hpg_delays :: "string list"
  hpg_recorded :: string
  hpg_trips :: "TripRow list"
  hpg_noTrips :: bool

text \<open>\<open>None\<close> is the page that says it is loading.\<close>

definition haulagePage :: "HaulageTab \<Rightarrow> HaulagePage option" where
  "haulagePage t =
     (if tab_loading t \<and> tab_metrics t = None then None
      else
        let bd = map_option hm_cycle_time_breakdown (tab_metrics t); trucks = truckPerformanceList t;
            trips = (case tab_history t of Some h \<Rightarrow> th_trips h | None \<Rightarrow> [])
        in Some \<lparr>hpg_badge = map_option (\<lambda>m. if hm_provenance m = Some ''LIVE_RUNTIME'' then ''Live Ingest'' else ''Shift Telemetry'')
              (tab_metrics t),
            hpg_kpis = haulageKpis (tab_metrics t), hpg_attention = map attentionCard (filter tp_isUnderperforming trucks),
            hpg_trucks = map truckRow trucks,
            hpg_total = (case bd of Some b \<Rightarrow> toFixed (cb_total_cycle_minutes b) 1 @ ''m'' | None \<Rightarrow> ''--''),
            hpg_stages = cycleStages bd,
            hpg_dumpers = (case tab_metrics t of
              Some m \<Rightarrow> nat_str (length (hm_ore_moved_by_vehicle m)) @ '' Dumpers'' | None \<Rightarrow> ''--''),
            hpg_tonnage = (case tab_metrics t of Some m \<Rightarrow> tonnageRows m | None \<Rightarrow> []),
            hpg_delays = (case tab_metrics t of Some m \<Rightarrow> hm_recent_delay_events m | None \<Rightarrow> []),
            hpg_recorded = (case tab_history t of Some h \<Rightarrow> num_str (th_total_trips h) | None \<Rightarrow> ''0'') @ '' Recorded Trips'',
            hpg_trips = map tripRow trips, hpg_noTrips = (trips = [])\<rparr>)"

section \<open>The drawer\<close>

record FleetVehicleSummary =
  fvs_vehicle_id :: string
  fvs_callsign :: string
  fvs_is_primary :: bool
  fvs_is_simulated :: bool
  fvs_cycle_state :: string
  fvs_payload_tonnes :: jsnum
  fvs_tare_weight_tonnes :: jsnum
  fvs_total_weight_tonnes :: jsnum
  fvs_x_m :: jsnum
  fvs_y_m :: jsnum
  fvs_elevation_m :: jsnum
  fvs_heading_deg :: jsnum
  fvs_speed_mps :: jsnum
  fvs_speed_kmh :: jsnum
  fvs_emergency_state :: string
  fvs_current_edge_id :: "string option"
  fvs_assigned_pickup :: string
  fvs_assigned_dump :: string
  fvs_total_trips_completed :: jsnum
  fvs_total_tonnes_moved :: jsnum
  fvs_current_destination :: string
  fvs_distance_to_destination_m :: jsnum
  fvs_next_instruction :: string

record DrawerDetail =
  dd_callsign :: string
  dd_vehicle :: string
  dd_badge :: "string \<times> bool"
  dd_emergency :: bool
  dd_cycle :: string
  dd_dynamics :: "string list"
  dd_totalMass :: string
  dd_barWidth :: jsnum
  dd_mass :: "string list"
  dd_destination :: "string \<times> string"
  dd_edge :: "string option"
  dd_instruction :: string
  dd_production :: "string list"
  dd_environment :: "string list option"

datatype Drawer = NoDrawer | UnverifiedDrawer string | DetailDrawer DrawerDetail

definition environmentLines :: "EnvironmentState \<Rightarrow> string list" where
  "environmentLines e =
     [formatNumber (env_temperature_c e) 1 @ [CHR 0xB0] @ ''C'', formatNumber (env_pressure_hpa e) 1 @ '' hPa'',
      formatNumber (env_relative_altitude_m e) 2 @ '' m'', num_str (js_round (env_visibility_score e * 100)) @ ''%'']"

definition vehicleDetailDrawer :: "string option \<Rightarrow> FleetVehicleSummary option \<Rightarrow> EnvironmentState option \<Rightarrow> Drawer" where
  "vehicleDetailDrawer truckId summary environment =
     (if truckId \<in> {None, Some []} then NoDrawer
      else
        case summary of
          None \<Rightarrow> UnverifiedDrawer (the truckId)
        | Some s \<Rightarrow>
            let payload = fvs_payload_tonnes s; isLoaded = 10 < payload
            in DetailDrawer
              \<lparr>dd_callsign = fvs_callsign s, dd_vehicle = fvs_vehicle_id s,
               dd_badge = (if isLoaded then ''LOADED '' @ toFixed payload 0 @ ''T'' else ''EMPTY 0T'', isLoaded),
               dd_emergency = (fvs_emergency_state s \<noteq> [] \<and> fvs_emergency_state s \<noteq> ''SAFE''),
               dd_cycle = map (\<lambda>c. if c = CHR ''_'' then CHR '' '' else c) (fvs_cycle_state s),
               dd_dynamics = [formatNumber (fvs_speed_kmh s) 1, formatNumber (fvs_heading_deg s) 0 @ [CHR 0xB0],
                 formatNumber (fvs_elevation_m s) 1],
               dd_totalMass = toFixed (fvs_total_weight_tonnes s) 0 @ '' T Total Mass'',
               dd_barWidth = js_min 100 (payload / 120 * 100),
               dd_mass = [toFixed (fvs_tare_weight_tonnes s) 0 @ '' T'', toFixed payload 0 @ '' T'',
                 toFixed (fvs_total_weight_tonnes s) 0 @ '' T''],
               dd_destination = (fvs_current_destination s, toFixed (fvs_distance_to_destination_m s) 0 @ '' m''),
               dd_edge = (if fvs_current_edge_id s \<in> {None, Some []} then None else fvs_current_edge_id s),
               dd_instruction = fvs_next_instruction s,
               dd_production = [num_str (fvs_total_trips_completed s) @ '' cycles'', toFixed (fvs_total_tonnes_moved s) 0 @ '' Tonnes''],
               dd_environment = map_option environmentLines environment\<rparr>)"

section \<open>What the effect keeps\<close>

text \<open>Metrics and trips are of one load, which is answered and not under way; nothing is loaded again without an interval.\<close>

definition tab_inv :: "bool \<Rightarrow> HaulageTab \<Rightarrow> bool" where
  "tab_inv demo t \<longleftrightarrow>
     (tab_metrics t = None) = (tab_shown t = None) \<and> (tab_history t = None) = (tab_shown t = None) \<and>
     (tab_loading t \<longrightarrow> tab_shown t = None) \<and> distinct (tab_calls t) \<and> list_all (\<lambda>k. k < tab_next t) (tab_calls t) \<and>
     pred_option (\<lambda>k. k < tab_next t \<and> k \<notin> set (tab_calls t)) (tab_shown t) \<and>
     (tab_interval t \<longrightarrow> tab_mounted t \<and> \<not> demo) \<and> (demo \<longrightarrow> tab_next t = 1)"

interpretation haulage_tab: disposable_machine "mountTab demo" tab_step "\<lambda>_. True" "tab_inv demo" "\<lambda>t. \<not> tab_mounted t \<and> \<not> tab_interval t"
    "\<lambda>t. (tab_metrics t, tab_history t, tab_loading t, tab_shown t)" for demo
proof
  show "tab_inv demo (mountTab demo)" by (simp add: tab_inv_def mountTab_def loadData_def)
next
  fix t :: HaulageTab and e :: TabEvent
  assume "tab_inv demo t"
  then show "tab_inv demo (tab_step e t)"
    by (cases e) (auto simp: tab_inv_def tickTab_def loadData_def settleData_def unmountTab_def list_all_iff Let_def
        dest: in_set_remove1 [THEN iffD1, rotated] set_remove1_subset [THEN subsetD] split: sum.split)
next
  fix t :: HaulageTab and e :: TabEvent
  assume "\<not> tab_mounted t \<and> \<not> tab_interval t"
  then show "(\<not> tab_mounted (tab_step e t) \<and> \<not> tab_interval (tab_step e t)) \<and>
      (tab_metrics (tab_step e t), tab_history (tab_step e t), tab_loading (tab_step e t), tab_shown (tab_step e t)) =
      (tab_metrics t, tab_history t, tab_loading t, tab_shown t)"
    by (cases e) (auto simp: tickTab_def settleData_def unmountTab_def Let_def)
qed

text \<open>Loads overlap: the answer that comes last is shown, also when it is that of an earlier load.\<close>

lemma older_answer_shown:
  "tab_shown (tab_run False [TabTicked, TabSettled 1 (Inr (m', h')), TabSettled 0 (Inr (m, h))]) = Some 0 \<and>
   tab_metrics (tab_run False [TabTicked, TabSettled 1 (Inr (m', h')), TabSettled 0 (Inr (m, h))]) = Some m"
  by (simp add: tab_run_def mountTab_def loadData_def tickTab_def settleData_def)

section \<open>What the page says\<close>

lemma each_truck_once:
  "distinct (allVids m) \<and>
   set (allVids m) = fst ` set (hm_ore_moved_by_vehicle m) \<union> fst ` set (hm_cycles_by_vehicle m) \<union> fst ` set CALLSIGN_MAP"
  by (simp add: allVids_def CALLSIGN_MAP_def) blast

lemma issue_iff:
  "performanceIssue cycles compliance average done_cycles \<noteq> None \<longleftrightarrow>
     0 < cycles \<and> (compliance < 85 \<or> 20 < average) \<or> cycles = 0 \<and> 4 \<le> done_cycles"
  by (auto simp: performanceIssue_def)

text \<open>The cards that ask for attention are those of the rows marked for review, each with a reason.\<close>

lemma issue_said: "performanceIssue cycles compliance average done_cycles = Some r \<Longrightarrow> r \<noteq> []"
  by (auto simp: performanceIssue_def split: if_splits)

lemma underperforming_reason: "tp_isUnderperforming (truckPerformance m history vid) \<Longrightarrow> att_reason (attentionCard (truckPerformance m history vid)) \<noteq> []"
  by (auto simp: truckPerformance_def attentionCard_def Let_def dest: issue_said simp del: append_eq_Cons_conv)

lemma attention_rows:
  assumes "haulagePage t = Some page"
  shows "map att_vehicle (hpg_attention page) = map trw_vehicle (filter (\<lambda>row. trw_status row = ''NEEDS REVIEW'') (hpg_trucks page)) \<and>
    list_all (\<lambda>card. att_reason card \<noteq> []) (hpg_attention page)"
proof -
  have page: "hpg_attention page = map attentionCard (filter tp_isUnderperforming (truckPerformanceList t))"
    "hpg_trucks page = map truckRow (truckPerformanceList t)"
    using assms unfolding haulagePage_def Let_def by (simp_all split: if_split_asm) (metis HaulagePage.select_convs)+
  have review: "trw_status (truckRow p) = ''NEEDS REVIEW'' \<longleftrightarrow> tp_isUnderperforming p" for p
    by (simp add: truckRow_def)
  have "list_all (\<lambda>card. att_reason card \<noteq> []) (hpg_attention page)"
    by (auto simp: page list_all_iff truckPerformanceList_def underperforming_reason split: option.splits)
  then show ?thesis by (simp add: page filter_map comp_def review) (simp add: attentionCard_def truckRow_def)
qed

text \<open>A truck between the benchmark the page names, 18 minutes, and the limit it applies, 20, is listed as optimal.\<close>

lemma above_benchmark_optimal:
  "performanceIssue (Fin 5) (Fin 100) (Fin 19) (Fin 5) = None"
  by (simp add: performanceIssue_def)

text \<open>The bars of the tonnage stay inside their containers.\<close>

lemma js_max_list:
  assumes "list_all (\<lambda>n. \<exists>r. n = Fin r) ns"
  shows "\<exists>r. foldl js_max (Fin a) ns = Fin r \<and> a \<le> r \<and> list_all (\<lambda>n. n \<le> Fin r) ns"
  using assms
proof (induction ns arbitrary: a)
  case (Cons n ns)
  then obtain b where b: "n = Fin b" by auto
  from Cons obtain r where "foldl js_max (Fin (max a b)) ns = Fin r" "max a b \<le> r" "list_all (\<lambda>n. n \<le> Fin r) ns" by fastforce
  then show ?case using b by auto
qed simp

lemma tonnage_bars:
  assumes "list_all (\<lambda>(_, n). \<exists>r. n = Fin r \<and> 0 \<le> r) (hm_ore_moved_by_vehicle m)"
  shows "list_all (\<lambda>row. \<exists>p. tr_pct row = Fin p \<and> 0 \<le> p \<and> p \<le> 100) (tonnageRows m)"
proof -
  let ?ns = "map snd (hm_ore_moved_by_vehicle m)"
  have "list_all (\<lambda>n. \<exists>r. n = Fin r) ?ns" using assms by (auto simp: list_all_iff)
  then obtain r where r: "foldl js_max (Fin 100) ?ns = Fin r" "100 \<le> r" "list_all (\<lambda>n. n \<le> Fin r) ?ns"
    using js_max_list by blast
  show ?thesis
    unfolding list_all_iff
  proof
    fix row assume "row \<in> set (tonnageRows m)"
    then obtain vid n where row: "(vid, n) \<in> set (hm_ore_moved_by_vehicle m)" "tr_pct row = n / Fin r * 100"
      by (auto simp: tonnageRows_def r(1))
    then obtain t where t: "n = Fin t" "0 \<le> t" using assms by (auto simp: list_all_iff)
    moreover have "t \<le> r" using r(3) row t by (auto simp: list_all_iff)
    ultimately show "\<exists>p. tr_pct row = Fin p \<and> 0 \<le> p \<and> p \<le> 100"
      using r(2) row(2) by (simp add: divide_le_eq)
  qed
qed

text \<open>A truck with ten tonnes or less is said to be empty, with no tonnes, over a bar and a figure that show them.\<close>

lemma small_load_empty:
  assumes "\<not> 10 < fvs_payload_tonnes s" "vehicleDetailDrawer (Some id') (Some s) environment = DetailDrawer d"
  shows "fst (dd_badge d) = ''EMPTY 0T'' \<and> dd_mass d ! 1 = toFixed (fvs_payload_tonnes s) 0 @ '' T''"
  using assms by (auto simp: vehicleDetailDrawer_def Let_def split: if_splits)

end
