(* ===== verification/Spec2Isabelle.thy ===== *)
theory Spec2Isabelle
  imports SensorSettings SnapshotTyped Telemetry SpatialPoints Supervisor Navigation DemoPlayback SpatialProjection Proximity
    HaulEfficiency EfficiencyHook MapLayout LidarFrame MappingFrame SimulationControls ThemePreference
    SpatialDashboard SupervisorDashboard V2XPanel VehicleCards ForwardAwareness CampusMaps EfficiencyPanel SettingsPage
    PlanMap RouteMap FleetTwin LidarRenderer MappingRenderer CameraCanvas MineRenderer MineSite
    TruckParts Console MineLandscape HaulageAnalytics
begin

text \<open>
  A verification development for the dashboard of MI Sense, the TypeScript program under
  \<^verbatim>\<open>frontend/src\<close>. The dashboard receives snapshots of a mine's state (vehicles, range sensors,
  spatial points, peers) from a backend, or from a recorded demo, and shows them to a driver or a
  supervisor.

  \<^bold>\<open>How the parts interact.\<close> Data enters through \<^verbatim>\<open>state/useTelemetry.ts\<close>: a socket and an HTTP
  request in the live build, the player of \<^verbatim>\<open>simulation/demoPlayback.ts\<close> in the demo build. Both
  pass it through the runtime guard of \<^verbatim>\<open>state/worldStateSnapshot.ts\<close>; what it accepts is rendered
  at the types of \<^verbatim>\<open>types.ts\<close>. The driver's views read it through \<^verbatim>\<open>state/selectors.ts\<close>,
  \<^verbatim>\<open>state/rangeReadings.ts\<close> and \<^verbatim>\<open>state/spatialPoints.ts\<close>, which uses the settings that
  \<^verbatim>\<open>settings/useSensorSettings.ts\<close> edits; the supervisor's views read the view model of
  \<^verbatim>\<open>supervisor/supervisorViewModel.ts\<close> and the trips of \<^verbatim>\<open>supervisor/haulEfficiency.ts\<close>, fetched by
  \<^verbatim>\<open>api/mineApi.ts\<close>. \<^verbatim>\<open>App.tsx\<close> with \<^verbatim>\<open>auth/roleSession.ts\<close> and \<^verbatim>\<open>layout\<close> decides which view is on
  the screen.

  \<^bold>\<open>Theories.\<close>
  \<^item> Prelude: numbers, sorting, strings and maps as JavaScript has them; the contracts
    \<open>comparator\<close> (a comparison that sorts), \<open>machine\<close> (an initial state, a step and an invariant)
    and \<open>disposable_machine\<close> (a machine whose view is frozen once it is disposed of).
  \<^item> WorldTypes: the types of \<^verbatim>\<open>types.ts\<close>. JsonValue: values a parser or a response yields, with
    property reads, spreads and truthiness.
  \<^item> SnapshotGuard: every predicate of the guard. DefaultState: the initial world. SnapshotTyped:
    decoders from JSON values to the records of WorldTypes, and the lemmas that the guard accepts
    exactly what they read.
  \<^item> Telemetry: the live effect as a machine whose events are socket callbacks, timers, the HTTP
    response, visibility and unmounting. DemoPlayback: the demo player, with suspended calls.
  \<^item> Selectors: range readings and selectors. SpatialPoints: which points are shown.
    SensorSettings: the settings API and the hook as a machine.
  \<^item> Supervisor: the view model, with the contract \<open>collation\<close> of \<^verbatim>\<open>localeCompare\<close>, discharged for
    the comparison by code points. SupervisorDashboard: the section and the selected vehicle as a
    machine, the overview, the panel of truck sensors. V2XPanel: the coordination panel as a machine.
    HaulEfficiency: trips, summary and axis. MineApi: requests.
  \<^item> RouteGeometry: the vehicle frame and road clipping. SpatialProjection: camera, projection, sensor
    ranges and threat levels. Proximity: the forward hazard and the clearance rings.
    MapLayout: geographic coordinates and label placement. LidarFrame: the driver's synthetic scan.
  \<^item> TerrainIndex and TerrainField: the terrain of a map (\<^verbatim>\<open>twin/terrainField.ts\<close> and
    \<^verbatim>\<open>twin/crusherLayout.ts\<close>). TerrainMemo: its caches in \<^verbatim>\<open>spatial/mappingFrame.ts\<close>. TruckMesh: the
    mesh of the truck and its fit to the sensors. MappingFrame: the frame of the spatial map.
  \<^item> DriverProximity: the driver's range field (\<^verbatim>\<open>driver/ProximityWidget.tsx\<close>), its alert and the places
    that show it. DriverDashboard and SpatialDashboard: what the driver's two views show and the hazard
    they hold between renders, as a machine. SimulationControls: the controls of the simulation and their requests.
    ThemePreference: the colour theme.
  \<^item> EfficiencyHook: the hook that fetches trips, as a machine over its effect runs. EfficiencyPanel: the
    page over it (\<^verbatim>\<open>supervisor/HaulEfficiencyPanel.tsx\<close>), the geometry of its chart and its keys.
  \<^item> VehicleCards: the texts of a vehicle in the fleet directory and of the selected vehicle. SettingsPage:
    the calibration page (\<^verbatim>\<open>settings/SensorSettingsPage.tsx\<close>) as a machine around the settings hook.
  \<^item> ForwardAwareness: the guidance panel and the camera (\<^verbatim>\<open>driver/DriverGuidanceHUD.tsx\<close>,
    \<^verbatim>\<open>driver/CameraAwareness.tsx\<close>). KeyedLayer: layers of drawn objects kept by identifier, with the
    contract \<open>keyed_layer\<close>. CampusMaps: the driver's two maps over Leaflet. FleetTwin: the supervisor's
    map (\<^verbatim>\<open>twin/TwinMap.tsx\<close>), its site plan and its road map.
  \<^item> PlanMap: the plan of the mine (\<^verbatim>\<open>twin/MineFleetMap.tsx\<close>, \<^verbatim>\<open>twin/MinePlanView.tsx\<close>), with the contract
    \<open>draggable\<close> of a drawing that a held pointer moves. RouteMap: the driver's route map
    (\<^verbatim>\<open>spatial/NavigationMap.tsx\<close>, \<^verbatim>\<open>maps/MineCartography.tsx\<close>).
  \<^item> FrameLoop: the flags and handlers by which a renderer asks for frames, with the contract \<open>frame_loop\<close> of a
    picture that keeps up with its scene. LidarRenderer: the renderer of the driver's lidar view
    (\<^verbatim>\<open>driver/lidarRenderer.ts\<close>, \<^verbatim>\<open>driver/LidarPointCloud.tsx\<close>). MappingRenderer: that of the spatial map
    (\<^verbatim>\<open>spatial/mappingRenderer.ts\<close>). CameraCanvas: the canvas of the forward camera
    (\<^verbatim>\<open>driver/IRCameraCanvas.tsx\<close>), its effects and the graphics objects they own.
  \<^item> MineRenderer: the scene of the mine (\<^verbatim>\<open>twin/mineRenderer.ts\<close>), the motion of its trucks and that it ends.
    MineSite: the view that starts and disposes of it (\<^verbatim>\<open>twin/MineTerrainView.tsx\<close>) inside the map of the mine.
    TruckParts: the parts of its trucks and of the ore (\<^verbatim>\<open>twin/mineSceneGeometry.ts\<close>), and what disposing of a
    scene releases. MineLandscape: the ground, the ridges, the road meshes, the trees and stones
    (\<^verbatim>\<open>twin/mineLandscape.ts\<close>) and the places of the excavators (\<^verbatim>\<open>twin/mineInfrastructure.ts\<close>).
  \<^item> Navigation: roles, views, hashes, and the application as a machine. Console: what is on the screen, the login page,
    the shell and the view in its error boundary, as a machine over the renders of \<^verbatim>\<open>App.tsx\<close>.
  \<^item> HaulageAnalytics: the page of haulage figures and the drawer of a vehicle
    (\<^verbatim>\<open>supervisor/HaulageAnalyticsTab.tsx\<close>, \<^verbatim>\<open>supervisor/VehicleDetailDrawer.tsx\<close>), which no page mounts at present.

  \<^bold>\<open>Groups of lemmas.\<close> Each machine has an invariant, a lemma that every operation keeps it, and
  an interpretation of \<open>machine\<close> or \<open>disposable_machine\<close> that lifts it to all runs. Sorting is
  proved once in \<open>comparator\<close>; the orders of the supervisor, the trips and the numeric keys are
  interpretations or sublocales of it. The guard and the decoders are connected by one
  equivalence per type of value. The terrain is a function of a position; its caches are proved to
  answer what that function answers for a position in the same millimetre, and the cached scan of
  the map is proved to be redrawn in place. \<open>keyed_layer\<close> says what a layer of markers shows after it is
  brought up to date, and is interpreted for the peers of both driver's maps, for the fleet and for the entities of
  the three renderers; \<open>frame_loop\<close> is interpreted for the renderers and the camera canvas; \<open>draggable\<close>
  says that a point stays under the pointer that holds it, and is interpreted for the plan and the route map.

  \<^bold>\<open>Abstractions.\<close> A number is an exact real, an infinity or NaN: rounding, overflow to an
  infinity and the sign of zero are not modelled. Strings are lists of code units below 256, and
  letter case is that of ASCII. \<^verbatim>\<open>localeCompare\<close> is the parameter \<open>lc\<close>, the constant
  \<^verbatim>\<open>STATIC_DEMO\<close> the parameter \<open>demo\<close>, and the static casts of response bodies are parameters too.
  \<^verbatim>\<open>JSON.parse\<close> is the parameter \<open>parse\<close>. Typed arrays are lists of exact numbers, and arrays that
  are filled together are one list of tuples; coordinates that the guard has checked to be finite are
  read at reals where a loop runs over them. The mesh of the truck is not flat, which the fit of its
  samples to a size divides by.
  The clock is an argument of the handlers that read it. An asynchronous function is
  split at each \<^verbatim>\<open>await\<close>; timers and pending calls are lists of the state, fired by events in any
  order. No fuel is used: a loop is a recursion that is proved to end, or a partial function whose
  value \<open>None\<close> is not returning, with a theorem on when it returns; the loop that reduces an angle
  takes the rounding of a subtraction as a parameter, because returning depends on it.

  Handlers of a component read what was rendered last, updates apply to the current state: machines
  whose handlers can run between two renders hold both. Leaflet keeps the objects it is given, its distance of
  two coordinates is a parameter; times in the reader's locale are parameters.

  \<^bold>\<open>Not modelled.\<close> Drawing on a canvas or with WebGL itself, lights, materials and shader texts,
  the haul scene and the truck model of \<^verbatim>\<open>spatial/HaulScene.tsx\<close> and \<^verbatim>\<open>spatial/Vehicle3DTruck.tsx\<close>, which no view
  mounts, the fixed shapes of the mine's buildings, markup and class names, map tiles, style sheets, the
  Python backend, the firmware and the scripts.
\<close>

section \<open>From the feed to what is derived from it\<close>

definition readable_world :: "jsval \<Rightarrow> bool" where
  "readable_world w \<longleftrightarrow> (\<exists>vs rs ps.
     list_of decodeVehicle (js_get w ''vehicles'') = Some vs \<and> list_all finite_vehicle vs \<and>
     list_of decodeSpatialPoint (js_get w ''spatial_points'') = Some ps \<and> list_all finite_point ps \<and>
     list_of decodeRange (js_get w ''ranges'') = Some rs \<and> list_all finite_range rs \<and>
     nearestRange rs \<in> insert None (Some ` Fin ` {0<..}))"

lemma guard_readable_world: "isWorldStateSnapshot w \<Longrightarrow> readable_world w"
  unfolding readable_world_def
  by (erule guard_readable) (auto simp: read_lists_finite nearestRange_positive simp del: insert_iff)


end
